(* ===== verification/Prelude.thy ===== *)
theory Prelude
  imports Complex_Main "HOL-Library.Sublist" "HOL-Library.Char_ord" "HOL-Library.List_Lexorder"
    "HOL-Library.AList"
begin

text \<open>
  The vocabulary every component shares: Go values (UUIDs, errors as values, decoded JSON
  and \<^verbatim>\<open>map[string]any\<close>), the functions of Go's \<^verbatim>\<open>strings\<close> and \<^verbatim>\<open>fmt\<close> packages that
  the source calls, and the contracts (locales) that several components implement: a status
  machine given by a transition table, and an at-most-once claim of a key.

  Go strings are byte strings, modelled as \<open>char list\<close>; \<open>length\<close> is Go's \<open>len\<close>, and slicing
  \<open>s[:n]\<close> is \<open>take n\<close>. Case mapping and white space are those of the ASCII range.
\<close>

named_theorems go_simps \<open>definitions of the Go library functions, for evaluation\<close>

type_synonym uuid = nat
type_synonym time = int \<comment> \<open>seconds\<close>
type_synonym 'a res = "string + 'a" \<comment> \<open>Go's \<open>(value, error)\<close>: \<open>Inl\<close> is the error text\<close>

abbreviation fail :: "string \<Rightarrow> 'a res" where "fail \<equiv> Inl"
abbreviation ok :: "'a \<Rightarrow> 'a res" where "ok \<equiv> Inr"

text \<open>\<^verbatim>\<open>if err != nil { return err }\<close>: go on with the value or return the error.\<close>

definition and_then :: "'a res \<Rightarrow> ('a \<Rightarrow> 'b res) \<Rightarrow> 'b res" where
  "and_then r f = (case r of Inl e \<Rightarrow> fail e | Inr x \<Rightarrow> f x)"

lemma and_then_simps [simp]:
  "and_then (Inl e) f = Inl e"
  "and_then (Inr x) f = f x"
  by (simp_all add: and_then_def)

lemma and_then_eq_Inr [simp]: "and_then r f = Inr y \<longleftrightarrow> (\<exists>x. r = Inr x \<and> f x = Inr y)"
  by (cases r) auto

lemma and_then_eq_Inl: "and_then r f = Inl e \<longleftrightarrow> r = Inl e \<or> (\<exists>x. r = Inr x \<and> f x = Inl e)"
  by (cases r) auto

definition nil_uuid :: uuid where [simp]: "nil_uuid = 0"

section \<open>Decoded JSON\<close>

text \<open>
  What \<^verbatim>\<open>encoding/json\<close> puts into an \<^verbatim>\<open>any\<close>. A \<^verbatim>\<open>map[string]any\<close> is an association list
  with the keys in the order an iteration over the map visits them (Go leaves that order open,
  so a statement for every list is a statement for every order). A \<open>float64\<close> is a rational:
  the source only compares, stores and defaults the numbers that come in this way.
\<close>

datatype json =
    JNull
  | JBool bool
  | JNum rat
  | JStr string
  | JArr "json list"
  | JObj "(string \<times> json) list"

type_synonym gomap = "(string \<times> json) list"

definition as_str :: "json option \<Rightarrow> string option" where
  "as_str v = (case v of Some (JStr s) \<Rightarrow> Some s | _ \<Rightarrow> None)"

definition as_obj :: "json option \<Rightarrow> gomap option" where
  "as_obj v = (case v of Some (JObj m) \<Rightarrow> Some m | _ \<Rightarrow> None)"

definition as_num :: "json option \<Rightarrow> rat option" where
  "as_num v = (case v of Some (JNum q) \<Rightarrow> Some q | _ \<Rightarrow> None)"

definition as_bool :: "json option \<Rightarrow> bool option" where
  "as_bool v = (case v of Some (JBool b) \<Rightarrow> Some b | _ \<Rightarrow> None)"

text \<open>Indexing a map that may be nil: a nil map has no entries.\<close>

definition mget :: "gomap option \<Rightarrow> string \<Rightarrow> json option" where
  "mget m k = (case m of None \<Rightarrow> None | Some e \<Rightarrow> map_of e k)"

definition mget_str :: "gomap option \<Rightarrow> string \<Rightarrow> string option" where
  "mget_str m k = as_str (mget m k)"

lemma mget_None [simp]: "mget None k = None"
  by (simp add: mget_def)

lemma mget_Some [simp]: "mget (Some e) k = map_of e k"
  by (simp add: mget_def)

lemma mget_str_None [simp]: "mget_str None k = None"
  by (simp add: mget_str_def as_str_def)

lemma as_str_simps [simp]:
  "as_str None = None"
  "as_str (Some (JStr s)) = Some s"
  "as_str (Some JNull) = None"
  "as_str (Some (JBool b)) = None"
  "as_str (Some (JNum q)) = None"
  "as_str (Some (JArr xs)) = None"
  "as_str (Some (JObj m)) = None"
  by (simp_all add: as_str_def)

lemma as_obj_simps [simp]:
  "as_obj None = None"
  "as_obj (Some (JStr s)) = None"
  "as_obj (Some JNull) = None"
  "as_obj (Some (JBool b)) = None"
  "as_obj (Some (JNum q)) = None"
  "as_obj (Some (JArr xs)) = None"
  "as_obj (Some (JObj m)) = Some m"
  by (simp_all add: as_obj_def)

lemma as_str_eq_Some [simp]: "as_str v = Some s \<longleftrightarrow> v = Some (JStr s)"
  by (auto simp: as_str_def split: option.splits json.splits)

lemma as_obj_eq_Some [simp]: "as_obj v = Some m \<longleftrightarrow> v = Some (JObj m)"
  by (auto simp: as_obj_def split: option.splits json.splits)

section \<open>Strings\<close>

definition lower_char :: "char \<Rightarrow> char" where
  "lower_char c = (if 65 \<le> (of_char c :: nat) \<and> (of_char c :: nat) \<le> 90
     then char_of ((of_char c :: nat) + 32) else c)"

text \<open>\<^verbatim>\<open>strings.ToLower\<close> on ASCII.\<close>

definition to_lower :: "string \<Rightarrow> string" where
  "to_lower s = map lower_char s"

text \<open>\<^verbatim>\<open>strings.Contains\<close> and \<^verbatim>\<open>strings.HasPrefix\<close>.\<close>

definition contains :: "string \<Rightarrow> string \<Rightarrow> bool" where
  "contains s sub = sublist sub s"

definition has_prefix :: "string \<Rightarrow> string \<Rightarrow> bool" where
  "has_prefix s p = prefix p s"

definition is_space :: "char \<Rightarrow> bool" where
  "is_space c \<longleftrightarrow> (of_char c :: nat) \<in> {9, 10, 11, 12, 13, 32}"

text \<open>\<^verbatim>\<open>strings.TrimSpace\<close>.\<close>

definition trim_space :: "string \<Rightarrow> string" where
  "trim_space s = rev (dropWhile is_space (rev (dropWhile is_space s)))"

text \<open>\<^verbatim>\<open>fmt.Sprintf("%d", n)\<close>.\<close>

fun nat_str :: "nat \<Rightarrow> string" where
  "nat_str n = (if n < 10 then [char_of (48 + n)] else nat_str (n div 10) @ [char_of (48 + n mod 10)])"

declare nat_str.simps [simp del]

definition int_str :: "int \<Rightarrow> string" where
  "int_str i = (if i < 0 then CHR ''-'' # nat_str (nat (- i)) else nat_str (nat i))"

fun join :: "string \<Rightarrow> string list \<Rightarrow> string" where
  "join sep [] = []"
| "join sep [x] = x"
| "join sep (x # y # zs) = x @ sep @ join sep (y # zs)"

declare to_lower_def [go_simps] contains_def [go_simps] has_prefix_def [go_simps]
  lower_char_def [go_simps] is_space_def [go_simps] trim_space_def [go_simps]
  nat_str.simps [go_simps] int_str_def [go_simps] mget_str_def [go_simps]

text \<open>
  The functions of the program's libraries that are not translated: \<^verbatim>\<open>google/uuid\<close>, the byte
  level of \<^verbatim>\<open>encoding/json\<close>, and the decimal rendering of a \<open>float64\<close>.
  \<open>json_parse\<close> gives the members of an object in the order of the document, with a repeated key
  resolved to its last value; \<open>json_type_err\<close> is the text of the error for a value of the wrong
  type in a struct field.
\<close>

record golib =
  uuid_parse :: "string \<Rightarrow> uuid option"
  uuid_string :: "uuid \<Rightarrow> string"
  json_parse :: "string \<Rightarrow> json res"
  json_marshal :: "json \<Rightarrow> string"
  json_type_err :: "string \<Rightarrow> json \<Rightarrow> string"
  num_string :: "rat \<Rightarrow> string"
  num_fixed2 :: "rat \<Rightarrow> string"

text \<open>The documented law of \<^verbatim>\<open>google/uuid\<close> that a canonical form parses to its UUID.\<close>

definition uuid_law :: "golib \<Rightarrow> bool" where
  "uuid_law g \<longleftrightarrow> (\<forall>u. uuid_parse g (uuid_string g u) = Some u)"

text \<open>\<^verbatim>\<open>fmt\<close>'s \<open>%v\<close>: strings are written bare, maps in the order of their keys.\<close>

fun fmt_v :: "golib \<Rightarrow> json \<Rightarrow> string" where
  "fmt_v g JNull = ''<nil>''"
| "fmt_v g (JBool b) = (if b then ''true'' else ''false'')"
| "fmt_v g (JNum q) = num_string g q"
| "fmt_v g (JStr s) = s"
| "fmt_v g (JArr xs) = ''['' @ join '' '' (map (fmt_v g) xs) @ '']''"
| "fmt_v g (JObj m) = ''map['' @
     join '' '' (map (\<lambda>(k, v). k @ '':'' @ v) (sort_key fst (map (\<lambda>(k, v). (k, fmt_v g v)) m))) @ '']''"

lemma length_to_lower [simp]: "length (to_lower s) = length s"
  by (simp add: to_lower_def)

lemma to_lower_append: "to_lower (s @ t) = to_lower s @ to_lower t"
  by (simp add: to_lower_def)

lemma contains_self [simp]: "contains s s"
  by (simp add: contains_def)

lemma contains_trans: "contains s t \<Longrightarrow> contains t u \<Longrightarrow> contains s u"
  unfolding contains_def by (blast intro: sublist_order.order.trans)

lemma contains_iff: "contains s sub \<longleftrightarrow> (\<exists>a b. s = a @ sub @ b)"
  by (simp add: contains_def sublist_def)

lemma trim_space_split: "\<exists>a b. s = a @ trim_space s @ b"
proof -
  let ?d = "dropWhile is_space s"
  have "s = takeWhile is_space s @ ?d" by simp
  moreover have "?d = rev (dropWhile is_space (rev ?d)) @ rev (takeWhile is_space (rev ?d))"
    by (metis rev_append rev_rev_ident takeWhile_dropWhile_id)
  ultimately have "s = takeWhile is_space s @ trim_space s @ rev (takeWhile is_space (rev ?d))"
    unfolding trim_space_def by metis
  then show ?thesis by blast
qed

lemma contains_trim_space: "contains s (trim_space s)"
  using trim_space_split [of s] by (auto simp: contains_iff)

lemma length_trim_space: "length (trim_space s) \<le> length s"
  using trim_space_split [of s] by (metis le_add1 le_add2 length_append order.trans)

lemma set_trim_space: "set (trim_space s) \<subseteq> set s"
  using trim_space_split [of s] by (metis Un_upper1 Un_upper2 set_append subset_trans)

lemma dropWhile_stable: "xs = [] \<or> \<not> P (hd xs) \<Longrightarrow> dropWhile P xs = xs"
  by (cases xs) auto

lemma trim_space_idem [simp]: "trim_space (trim_space s) = trim_space s"
proof -
  define d where "d = dropWhile is_space s"
  define e where "e = dropWhile is_space (rev d)"
  have e: "e = [] \<or> \<not> is_space (hd e)"
    unfolding e_def by (metis hd_dropWhile)
  have "rev e = [] \<or> \<not> is_space (hd (rev e))"
  proof (cases "e = []")
    case False
    then have "last e = last (rev d)" unfolding e_def
      by (metis last_appendR takeWhile_dropWhile_id)
    moreover have "d \<noteq> []" using False e_def by auto
    then have "\<not> is_space (hd d)" unfolding d_def by (metis hd_dropWhile)
    ultimately show ?thesis using False \<open>d \<noteq> []\<close> by (simp add: hd_rev last_rev)
  qed simp
  then have "dropWhile is_space (rev e) = rev e" by (rule dropWhile_stable)
  moreover have "dropWhile is_space e = e" using e by (rule dropWhile_stable)
  ultimately show ?thesis by (simp add: trim_space_def d_def [symmetric] e_def [symmetric])
qed

section \<open>Contract: a status machine\<close>

text \<open>
  A transition predicate over status strings with a set of final statuses. What the
  provider promises is that a final status has no edge to another status; what a client gets
  is that no sequence of moves leaves it.
\<close>

locale status_machine =
  fixes move :: "string \<Rightarrow> string \<Rightarrow> bool"
    and final :: "string set"
  assumes final_sink: "s \<in> final \<Longrightarrow> move s t \<Longrightarrow> t = s"
begin

lemma final_absorbing: "move\<^sup>*\<^sup>* s t \<Longrightarrow> s \<in> final \<Longrightarrow> t = s"
proof (induction rule: rtranclp_induct)
  case base
  then show ?case by simp
next
  case (step y z)
  then show ?case using final_sink by blast
qed

lemma final_not_left: "move\<^sup>*\<^sup>* s t \<Longrightarrow> s \<in> final \<Longrightarrow> t \<in> final"
  using final_absorbing by blast

end

section \<open>Contract: claiming a key\<close>

text \<open>
  Several components accept a request only when its key was not claimed before: the
  worker pool (24 hours), the hub's event deduplication (5 minutes), the job table, the tool
  executions, the processed events (for ever). \<open>live s t k\<close> says that a claim of \<open>k\<close> still
  blocks at time \<open>t\<close>, \<open>blocks t t'\<close> that a claim made at \<open>t\<close> is to block at \<open>t'\<close>.
\<close>

fun accepted :: "('s \<Rightarrow> time \<Rightarrow> 'k \<Rightarrow> 's \<times> bool) \<Rightarrow> 's \<Rightarrow> (time \<times> 'k) list \<Rightarrow> (time \<times> 'k) list" where
  "accepted claim s [] = []"
| "accepted claim s ((t, k) # rs) =
     (if snd (claim s t k) then [(t, k)] else []) @ accepted claim (fst (claim s t k)) rs"

locale claim_window =
  fixes claim :: "'s \<Rightarrow> time \<Rightarrow> 'k \<Rightarrow> 's \<times> bool"
    and live :: "'s \<Rightarrow> time \<Rightarrow> 'k \<Rightarrow> bool"
    and blocks :: "time \<Rightarrow> time \<Rightarrow> bool"
  assumes accept: "snd (claim s t k) \<Longrightarrow> \<not> live s t k"
    and taken: "snd (claim s t k) \<Longrightarrow> t \<le> t' \<Longrightarrow> blocks t t' \<Longrightarrow> live (fst (claim s t k)) t' k"
    and kept: "live s t' k' \<Longrightarrow> t \<le> t' \<Longrightarrow> live (fst (claim s t k)) t' k'"
begin

lemma accepted_later:
  assumes "\<And>t'. t0 \<le> t' \<Longrightarrow> blocks t t' \<Longrightarrow> live s t' k"
    and "sorted (map fst rs)" and "\<forall>r \<in> set rs. t0 \<le> fst r"
    and "(t', k) \<in> set (accepted claim s rs)"
  shows "\<not> blocks t t'"
  using assms
proof (induction rs arbitrary: s t0)
  case Nil
  then show ?case by simp
next
  case (Cons r rs)
  obtain t1 k1 where r: "r = (t1, k1)" by (cases r)
  let ?s = "fst (claim s t1 k1)"
  have live': "live ?s u k" if "t1 \<le> u" and "blocks t u" for u
    using Cons.prems(1) [of u] Cons.prems(3) that r by (auto intro: kept)
  from Cons.prems(4) r consider "(t', k) = (t1, k1)" "snd (claim s t1 k1)"
    | "(t', k) \<in> set (accepted claim ?s rs)"
    by (auto split: if_splits)
  then show ?case
  proof cases
    case 1
    then show ?thesis using accept Cons.prems(1) [of t1] Cons.prems(3) r by auto
  next
    case 2
    show ?thesis
      by (rule Cons.IH [of t1 ?s]) (use live' Cons.prems 2 r in auto)
  qed
qed

lemma accepted_spaced:
  "sorted (map fst rs) \<Longrightarrow>
    sorted_wrt (\<lambda>(t, k) (t', k'). k = k' \<longrightarrow> \<not> blocks t t') (accepted claim s rs)"
proof (induction rs arbitrary: s)
  case Nil
  then show ?case by simp
next
  case (Cons r rs)
  obtain t1 k1 where r: "r = (t1, k1)" by (cases r)
  let ?s = "fst (claim s t1 k1)"
  have IH: "sorted_wrt (\<lambda>(t, k) (t', k'). k = k' \<longrightarrow> \<not> blocks t t') (accepted claim ?s rs)"
    using Cons by simp
  have "\<not> blocks t1 t'" if "snd (claim s t1 k1)" "(t', k1) \<in> set (accepted claim ?s rs)" for t'
    by (rule accepted_later [of t1 t1 ?s k1 rs t']) (use that Cons.prems r taken in auto)
  with IH show ?case using r by auto
qed

end

lemma map_of_filter_snd:
  "map_of xs k = Some e \<Longrightarrow> P e \<Longrightarrow> map_of (filter (\<lambda>(_, e). P e) xs) k = Some e"
  by (induction xs) (auto split: if_splits)

lemma subseq_sorted_wrt: "subseq xs ys \<Longrightarrow> sorted_wrt P ys \<Longrightarrow> sorted_wrt P xs"
proof (induction rule: list_emb.induct)
  case (list_emb_Cons2 x y xs ys)
  then show ?case using list_emb_set [of "(=)" xs ys] by auto
qed auto

lemma distinct_sorted_wrt_neq: "sorted_wrt (\<noteq>) xs \<longleftrightarrow> distinct xs"
  by (induction xs) auto

text \<open>When every claim blocks for ever, a key is accepted at most once.\<close>

locale claim_once = claim_window claim live "\<lambda>_ _. True"
  for claim :: "'s \<Rightarrow> time \<Rightarrow> 'k \<Rightarrow> 's \<times> bool" and live :: "'s \<Rightarrow> time \<Rightarrow> 'k \<Rightarrow> bool"
begin

lemma accepted_distinct:
  assumes "sorted (map fst rs)"
  shows "distinct (map snd (accepted claim s rs))"
proof -
  have "sorted_wrt (\<lambda>x y. snd x \<noteq> snd y) (accepted claim s rs)"
    by (rule sorted_wrt_mono_rel [OF _ accepted_spaced [OF assms]]) auto
  then have "sorted_wrt (\<noteq>) (map snd (accepted claim s rs))"
    by (simp add: sorted_wrt_map)
  then show ?thesis by (simp add: distinct_sorted_wrt_neq)
qed

end

end
