(* ===== verification/Decision.thy ===== *)
theory Decision
  imports Prelude
begin

text \<open>
  \<^verbatim>\<open>backend/internal/runtime/decision.go\<close> and \<^verbatim>\<open>retry.go\<close>: how the text a language model
  returns becomes an \<^verbatim>\<open>AgentDecision\<close>. The text is searched for a JSON object, decoded with the
  aliases the source tolerates, normalised and validated; a bounded number of repairs follows a
  failure.
\<close>

section \<open>The data\<close>

definition valid_decision_statuses :: "string list" where
  "valid_decision_statuses =
     [''continue'', ''delegate'', ''waiting'', ''approval_required'', ''needs_human'', ''completed'', ''failed'']"

definition valid_action_types :: "string list" where
  "valid_action_types =
     [''send_message'', ''create_task'', ''delegate_task'', ''call_tool'', ''request_approval'',
      ''request_human_input'', ''update_task'', ''complete_task'', ''fail_task'', ''store_memory'']"

record decision_action =
  act_type :: string
  act_params :: "gomap option"
  act_title :: string
  act_description :: string
  act_agent_id :: string
  act_task_id :: string
  act_channel_id :: string
  act_body :: string
  act_tool :: string
  act_input :: "gomap option"

record memory_update =
  mu_content :: string
  mu_memory_type :: string
  mu_scope :: string
  mu_importance :: rat
  mu_project_id :: "string option"
  mu_agent_id :: "string option"

record agent_decision =
  d_response :: string
  d_status :: string
  d_actions :: "decision_action list"
  d_memory_updates :: "memory_update list"

definition zero_action :: decision_action where
  "zero_action = \<lparr>act_type = [], act_params = None, act_title = [], act_description = [],
     act_agent_id = [], act_task_id = [], act_channel_id = [], act_body = [], act_tool = [],
     act_input = None\<rparr>"

definition zero_update :: memory_update where
  "zero_update = \<lparr>mu_content = [], mu_memory_type = [], mu_scope = [], mu_importance = 0,
     mu_project_id = None, mu_agent_id = None\<rparr>"

definition zero_decision :: agent_decision where
  "zero_decision = \<lparr>d_response = [], d_status = [], d_actions = [], d_memory_updates = []\<rparr>"

definition is_valid_memory_type :: "string \<Rightarrow> bool" where
  "is_valid_memory_type s \<longleftrightarrow>
     s = ''working'' \<or> s = ''project'' \<or> s = ''agent'' \<or> s = ''conversation''"

definition valid_memory_scopes :: "string list" where
  "valid_memory_scopes =
     [''task'', ''session'', ''project'', ''agent'', ''conversation'', ''organization'']"

section \<open>Decoding\<close>

text \<open>
  A struct field takes the members whose name equals its own up to case, the last one last;
  \<open>null\<close> leaves it as it is and another type is an error.
\<close>

fun field_string :: "golib \<Rightarrow> string \<Rightarrow> gomap \<Rightarrow> string \<Rightarrow> string res" where
  "field_string g f [] cur = ok cur"
| "field_string g f ((k, v) # m) cur =
     (if to_lower k = f then
        (case v of JStr s \<Rightarrow> field_string g f m s
         | JNull \<Rightarrow> field_string g f m cur
         | _ \<Rightarrow> fail (json_type_err g f v))
      else field_string g f m cur)"

fun field_string_ptr :: "golib \<Rightarrow> string \<Rightarrow> gomap \<Rightarrow> string option \<Rightarrow> string option res" where
  "field_string_ptr g f [] cur = ok cur"
| "field_string_ptr g f ((k, v) # m) cur =
     (if to_lower k = f then
        (case v of JStr s \<Rightarrow> field_string_ptr g f m (Some s)
         | JNull \<Rightarrow> field_string_ptr g f m None
         | _ \<Rightarrow> fail (json_type_err g f v))
      else field_string_ptr g f m cur)"

fun field_num :: "golib \<Rightarrow> string \<Rightarrow> gomap \<Rightarrow> rat \<Rightarrow> rat res" where
  "field_num g f [] cur = ok cur"
| "field_num g f ((k, v) # m) cur =
     (if to_lower k = f then
        (case v of JNum q \<Rightarrow> field_num g f m q
         | JNull \<Rightarrow> field_num g f m cur
         | _ \<Rightarrow> fail (json_type_err g f v))
      else field_num g f m cur)"

fun field_map :: "golib \<Rightarrow> string \<Rightarrow> gomap \<Rightarrow> gomap option \<Rightarrow> gomap option res" where
  "field_map g f [] cur = ok cur"
| "field_map g f ((k, v) # m) cur =
     (if to_lower k = f then
        (case v of
           JObj e \<Rightarrow> field_map g f m
             (Some (fold (\<lambda>(k, v) a. AList.update k v a) e (case cur of None \<Rightarrow> [] | Some a \<Rightarrow> a)))
         | JNull \<Rightarrow> field_map g f m None
         | _ \<Rightarrow> fail (json_type_err g f v))
      else field_map g f m cur)"

definition known_action_fields :: "string list" where
  "known_action_fields = [''type'', ''params'', ''title'', ''description'', ''agent_id'', ''task_id'',
     ''channel_id'', ''body'', ''tool'', ''input'']"

text \<open>\<^verbatim>\<open>DecisionAction.UnmarshalJSON\<close>: unknown members are collected in \<^verbatim>\<open>Params\<close>.\<close>

definition collect_unknown :: "gomap \<Rightarrow> gomap \<Rightarrow> gomap" where
  "collect_unknown raw params =
     fold (\<lambda>(k, v) a. if k \<in> set known_action_fields then a else AList.update k v a) raw params"

definition decode_action_fields :: "golib \<Rightarrow> gomap \<Rightarrow> decision_action res" where
  "decode_action_fields g raw =
     and_then (field_string g ''type'' raw []) (\<lambda>t.
      and_then (field_map g ''params'' raw None) (\<lambda>p.
      and_then (field_string g ''title'' raw []) (\<lambda>ti.
      and_then (field_string g ''description'' raw []) (\<lambda>de.
      and_then (field_string g ''agent_id'' raw []) (\<lambda>ai.
      and_then (field_string g ''task_id'' raw []) (\<lambda>tk.
      and_then (field_string g ''channel_id'' raw []) (\<lambda>ch.
      and_then (field_string g ''body'' raw []) (\<lambda>bo.
      and_then (field_string g ''tool'' raw []) (\<lambda>tl.
      and_then (field_map g ''input'' raw None) (\<lambda>ip.
      ok \<lparr>act_type = t, act_params = p, act_title = ti, act_description = de, act_agent_id = ai,
          act_task_id = tk, act_channel_id = ch, act_body = bo, act_tool = tl, act_input = ip\<rparr>))))))))))"

definition unmarshal_action :: "golib \<Rightarrow> json \<Rightarrow> decision_action res" where
  "unmarshal_action g v =
     (case (case v of JObj m \<Rightarrow> ok m | JNull \<Rightarrow> ok [] | _ \<Rightarrow> fail (json_type_err g [] v)) of
        Inl e \<Rightarrow> fail e
      | Inr raw \<Rightarrow>
          (case decode_action_fields g raw of
             Inl e \<Rightarrow> fail e
           | Inr a \<Rightarrow>
               ok (a\<lparr>act_params := Some (collect_unknown raw
                      (case act_params a of None \<Rightarrow> [] | Some p \<Rightarrow> p))\<rparr>)))"

text \<open>
  \<^verbatim>\<open>MemoryUpdate.UnmarshalJSON\<close>. \<open>unmarshal_str\<close> is \<^verbatim>\<open>json.Unmarshal(v, &s)\<close> into a fresh
  string: \<open>null\<close> succeeds and leaves it empty.
\<close>

definition unmarshal_str :: "json \<Rightarrow> string option" where
  "unmarshal_str v = (case v of JStr s \<Rightarrow> Some s | JNull \<Rightarrow> Some [] | _ \<Rightarrow> None)"

fun content_alias :: "golib \<Rightarrow> gomap \<Rightarrow> string list \<Rightarrow> string" where
  "content_alias g raw [] = []"
| "content_alias g raw (k # ks) =
     (case map_of raw k of
        None \<Rightarrow> content_alias g raw ks
      | Some v \<Rightarrow>
          (case unmarshal_str v of
             Some s \<Rightarrow> if s \<noteq> [] then s else json_marshal g v
           | None \<Rightarrow> json_marshal g v))"

definition key_prefix :: "gomap \<Rightarrow> string \<Rightarrow> string" where
  "key_prefix raw content =
     (case map_of raw ''key'' of
        None \<Rightarrow> content
      | Some kv \<Rightarrow>
          (case unmarshal_str kv of
             Some ks \<Rightarrow> if ks \<noteq> [] \<and> \<not> contains content ks then ks @ '': '' @ content else content
           | None \<Rightarrow> content))"

definition key_value :: "gomap \<Rightarrow> string" where
  "key_value raw =
     (case (map_of raw ''key'', map_of raw ''value'') of
        (Some kv, Some vv) \<Rightarrow>
          (let ks = (case unmarshal_str kv of Some s \<Rightarrow> s | None \<Rightarrow> []);
               vs = (case unmarshal_str vv of Some s \<Rightarrow> s | None \<Rightarrow> [])
           in if ks \<noteq> [] \<and> vs \<noteq> [] then ks @ '': '' @ vs else if vs \<noteq> [] then vs else ks)
      | _ \<Rightarrow> [])"

definition decode_update_fields :: "golib \<Rightarrow> gomap \<Rightarrow> (memory_update \<times> string option) res" where
  "decode_update_fields g raw =
     and_then (field_string g ''content'' raw []) (\<lambda>c.
      and_then (field_string g ''memory_type'' raw []) (\<lambda>t.
      and_then (field_string g ''scope'' raw []) (\<lambda>sc.
      and_then (field_num g ''importance'' raw 0) (\<lambda>im.
      and_then (field_string_ptr g ''project_id'' raw None) (\<lambda>p.
      and_then (field_string_ptr g ''agent_id'' raw None) (\<lambda>a.
      and_then (field_string_ptr g ''type'' raw None) (\<lambda>ty.
      ok (\<lparr>mu_content = c, mu_memory_type = t, mu_scope = sc, mu_importance = im,
           mu_project_id = p, mu_agent_id = a\<rparr>, ty))))))))"

definition update_content :: "golib \<Rightarrow> gomap \<Rightarrow> string \<Rightarrow> string" where
  "update_content g raw c0 =
     (let c1 = (if c0 = [] then
                  (case map_of raw ''content'' of
                     Some v \<Rightarrow> (case unmarshal_str v of Some s \<Rightarrow> s | None \<Rightarrow> c0)
                   | None \<Rightarrow> c0)
                else c0);
          c2 = (if c1 = [] then
                  content_alias g raw [''text'', ''value'', ''data'', ''summary'', ''message'']
                else c1)
      in if c2 \<noteq> [] then key_prefix raw c2 else key_value raw)"

definition unmarshal_update :: "golib \<Rightarrow> json \<Rightarrow> memory_update res" where
  "unmarshal_update g v =
     (case (case v of JObj m \<Rightarrow> ok m | JNull \<Rightarrow> ok [] | _ \<Rightarrow> fail (json_type_err g [] v)) of
        Inl e \<Rightarrow> fail e
      | Inr raw \<Rightarrow>
          (case decode_update_fields g raw of
             Inl e \<Rightarrow> fail e
           | Inr (m, ty) \<Rightarrow>
               (let m = (case ty of
                           Some t \<Rightarrow> if mu_memory_type m = [] then m\<lparr>mu_memory_type := t\<rparr> else m
                         | None \<Rightarrow> m);
                    m = m\<lparr>mu_content := update_content g raw (mu_content m)\<rparr>;
                    m = (if mu_importance m = 0 then
                           (case as_num (map_of raw ''importance'') of
                              Some f \<Rightarrow> m\<lparr>mu_importance := f\<rparr> | None \<Rightarrow> m)
                         else m);
                    m = (if mu_scope m = [] then
                           (case as_str (map_of raw ''scope'') of
                              Some s \<Rightarrow> m\<lparr>mu_scope := s\<rparr> | None \<Rightarrow> m)
                         else m)
                in ok m)))"

text \<open>The decision object itself: two strings and two lists.\<close>

fun decode_list :: "(json \<Rightarrow> 'a res) \<Rightarrow> json list \<Rightarrow> 'a list res" where
  "decode_list f [] = ok []"
| "decode_list f (v # vs) =
     (case f v of Inl e \<Rightarrow> fail e
      | Inr x \<Rightarrow> (case decode_list f vs of Inl e \<Rightarrow> fail e | Inr xs \<Rightarrow> ok (x # xs)))"

fun field_list :: "golib \<Rightarrow> (json \<Rightarrow> 'a res) \<Rightarrow> string \<Rightarrow> gomap \<Rightarrow> 'a list \<Rightarrow> 'a list res" where
  "field_list g d f [] cur = ok cur"
| "field_list g d f ((k, v) # m) cur =
     (if to_lower k = f then
        (case v of
           JArr vs \<Rightarrow> (case decode_list d vs of Inl e \<Rightarrow> fail e | Inr xs \<Rightarrow> field_list g d f m xs)
         | JNull \<Rightarrow> field_list g d f m []
         | _ \<Rightarrow> fail (json_type_err g f v))
      else field_list g d f m cur)"

definition unmarshal_decision :: "golib \<Rightarrow> json \<Rightarrow> agent_decision res" where
  "unmarshal_decision g v =
     (case (case v of JObj m \<Rightarrow> ok m | JNull \<Rightarrow> ok [] | _ \<Rightarrow> fail (json_type_err g [] v)) of
        Inl e \<Rightarrow> fail e
      | Inr raw \<Rightarrow>
          and_then (field_string g ''response'' raw []) (\<lambda>r.
           and_then (field_string g ''status'' raw []) (\<lambda>s.
           and_then (field_list g (unmarshal_action g) ''actions'' raw []) (\<lambda>acts.
           and_then (field_list g (unmarshal_update g) ''memory_updates'' raw []) (\<lambda>ms.
           ok \<lparr>d_response = r, d_status = s, d_actions = acts, d_memory_updates = ms\<rparr>)))))"

section \<open>Finding the JSON text\<close>

definition fence :: string where "fence = replicate 3 (CHR 0x60)"

definition re_space :: "char \<Rightarrow> bool" where
  "re_space c \<longleftrightarrow> (of_char c :: nat) \<in> {9, 10, 12, 13, 32}"

text \<open>
  The part \<^verbatim>\<open>.*?\})\s*\<close> and the closing fence of the regular expression: the shortest text up
  to a closing brace that only white space separates from a fence.
\<close>

fun find_close :: "string \<Rightarrow> string option" where
  "find_close [] = None"
| "find_close (c # cs) =
     (if c = CHR ''}'' \<and> has_prefix (dropWhile re_space cs) fence then Some [c]
      else map_option (\<lambda>r. c # r) (find_close cs))"

definition open_brace :: "string \<Rightarrow> string option" where
  "open_brace s = (case dropWhile re_space s of
       [] \<Rightarrow> None
     | c # cs \<Rightarrow> if c = CHR ''{'' then map_option (\<lambda>r. c # r) (find_close cs) else None)"

definition fenced_at :: "string \<Rightarrow> string option" where
  "fenced_at s =
     (if has_prefix s fence then
        (let t = drop (length fence) s
         in case (if has_prefix t ''json'' then open_brace (drop 4 t) else None) of
              Some r \<Rightarrow> Some r | None \<Rightarrow> open_brace t)
      else None)"

fun find_fenced :: "string \<Rightarrow> string option" where
  "find_fenced [] = None"
| "find_fenced (c # cs) = (case fenced_at (c # cs) of Some r \<Rightarrow> Some r | None \<Rightarrow> find_fenced cs)"

text \<open>\<^verbatim>\<open>strings.Index\<close> and \<^verbatim>\<open>strings.LastIndex\<close> of one character; -1 when there is none.\<close>

fun index_char :: "char \<Rightarrow> string \<Rightarrow> int" where
  "index_char c [] = -1"
| "index_char c (x # xs) =
     (if x = c then 0 else (let i = index_char c xs in if i < 0 then -1 else i + 1))"

fun last_index_char :: "char \<Rightarrow> string \<Rightarrow> int" where
  "last_index_char c [] = -1"
| "last_index_char c (x # xs) =
     (let i = last_index_char c xs in if 0 \<le> i then i + 1 else if x = c then 0 else -1)"

definition extract_json :: "string \<Rightarrow> string" where
  "extract_json content =
     (let content = trim_space content
      in case find_fenced content of
           Some m \<Rightarrow> m
         | None \<Rightarrow>
             (let start = index_char (CHR ''{'') content;
                  stop = last_index_char (CHR ''}'') content
              in if 0 \<le> start \<and> start < stop
                 then drop (nat start) (take (nat (stop + 1)) content)
                 else content))"

section \<open>Normalisation\<close>

definition normalize_memory_type :: "string \<Rightarrow> string" where
  "normalize_memory_type t =
     (let l = to_lower t;
          t1 = (if l \<in> {''context'', ''project_context'', ''project_memory'', ''contextual'', ''project_note'', ''team_context''}
                then ''project''
                else if l \<in> {''preference'', ''user_preference'', ''agent_preference'', ''preferences''}
                then ''agent''
                else if l \<in> {''episodic'', ''working_memory'', ''task_memory'', ''episode'', ''task_update'', ''working_note''}
                then ''working''
                else if l \<in> {''conversation_history'', ''chat'', ''conversation_memory''}
                then ''conversation''
                else if l \<in> {[], ''fact'', ''summary'', ''type''} then ''agent''
                else t)
      in if is_valid_memory_type t1 then t1
         else (let lower = to_lower t1
               in if contains lower ''project'' then ''project''
                  else if contains lower ''task'' \<or> contains lower ''working'' then ''working''
                  else ''agent''))"

definition normalize_update :: "memory_update \<Rightarrow> memory_update" where
  "normalize_update mu =
     (let mu = mu\<lparr>mu_memory_type := normalize_memory_type (mu_memory_type mu)\<rparr>;
          mu = (if mu_scope mu = []
                then mu\<lparr>mu_scope := (if mu_memory_type mu = [] then ''agent'' else mu_memory_type mu)\<rparr>
                else mu);
          mu = (if mu_scope mu \<in> set valid_memory_scopes then mu else mu\<lparr>mu_scope := ''agent''\<rparr>)
      in if mu_importance mu = 0 then mu\<lparr>mu_importance := 1 / 2\<rparr> else mu)"

text \<open>
  \<^verbatim>\<open>for k, v := range m { if k == ... { continue }; input[k] = v }\<close> and
  \<^verbatim>\<open>if len(input) > 0 { act.Input = input }\<close>.
\<close>

definition copy_except :: "string list \<Rightarrow> gomap \<Rightarrow> gomap" where
  "copy_except ks m = filter (\<lambda>(k, v). k \<notin> set ks) m"

definition set_input :: "gomap \<Rightarrow> decision_action \<Rightarrow> decision_action" where
  "set_input input act = (if input \<noteq> [] then act\<lparr>act_input := Some input\<rparr> else act)"

definition param_list :: "decision_action \<Rightarrow> gomap" where
  "param_list act = (case act_params act of None \<Rightarrow> [] | Some m \<Rightarrow> m)"

text \<open>A type is missing but a tool is there.\<close>

definition infer_from_tool :: "decision_action \<Rightarrow> decision_action" where
  "infer_from_tool act =
     (if act_type act = [] \<and> act_tool act \<noteq> [] then
        (let tool_lower = to_lower (act_tool act)
         in if tool_lower \<in> set valid_action_types
            then act\<lparr>act_type := tool_lower, act_tool := []\<rparr>
            else (let act = act\<lparr>act_type := ''call_tool''\<rparr>
                  in if act_input act = None \<and> param_list act \<noteq> []
                     then set_input (copy_except [''tool'', ''type'', ''purpose''] (param_list act)) act
                     else act))
      else act)"

definition external_tools :: "string list" where
  "external_tools = [''web_search'', ''http_request'', ''publish_social_post'', ''send_email'',
     ''create_calendar_event'', ''upload_file'', ''send_channel_message'']"

definition nonempty_str :: "gomap option \<Rightarrow> string \<Rightarrow> string option" where
  "nonempty_str m k =
     (case mget_str m k of Some s \<Rightarrow> if s \<noteq> [] then Some s else None | None \<Rightarrow> None)"

definition as_call_tool :: "string \<Rightarrow> decision_action \<Rightarrow> decision_action" where
  "as_call_tool t act =
     (let act = act\<lparr>act_type := ''call_tool'', act_tool := t\<rparr>
      in if act_input act = None
         then set_input (copy_except [''tool'', ''type'', ''action'', ''purpose''] (param_list act)) act
         else act)"

text \<open>The tool or the action stands in the parameters.\<close>

definition infer_from_params :: "decision_action \<Rightarrow> decision_action" where
  "infer_from_params act =
     (if act_type act = [] \<and> act_params act \<noteq> None then
        (case (case nonempty_str (act_params act) ''tool'' of
                 Some t \<Rightarrow> Some t | None \<Rightarrow> nonempty_str (act_params act) ''action'') of
           None \<Rightarrow> act
         | Some t \<Rightarrow>
             (let tool_lower = to_lower t
              in if tool_lower \<in> set valid_action_types then act\<lparr>act_type := tool_lower\<rparr>
                 else if tool_lower \<in> set external_tools then as_call_tool t act
                 else if contains tool_lower ''task'' then act\<lparr>act_type := ''create_task''\<rparr>
                 else if contains tool_lower ''message'' then act\<lparr>act_type := ''send_message''\<rparr>
                 else as_call_tool t act))
      else act)"

definition infer_from_action :: "decision_action \<Rightarrow> decision_action" where
  "infer_from_action act =
     (if act_type act = [] \<and> act_params act \<noteq> None then
        (case nonempty_str (act_params act) ''action'' of
           None \<Rightarrow> act
         | Some v \<Rightarrow>
             if to_lower v \<in> {''web_search'', ''http_request''} then
               (let act = act\<lparr>act_type := ''call_tool'', act_tool := v\<rparr>
                in case as_obj (mget (act_params act) ''params'') of
                     Some nested \<Rightarrow> if nested \<noteq> [] then act\<lparr>act_input := Some nested\<rparr> else act
                   | None \<Rightarrow> act)
             else act)
      else act)"

fun first_str :: "gomap \<Rightarrow> string list \<Rightarrow> string option" where
  "first_str m [] = None"
| "first_str m (k # ks) =
     (case nonempty_str (Some m) k of Some s \<Rightarrow> Some s | None \<Rightarrow> first_str m ks)"

definition or_else :: "string \<Rightarrow> string option \<Rightarrow> string" where
  "or_else s t = (if s \<noteq> [] then s else case t of Some u \<Rightarrow> u | None \<Rightarrow> s)"

definition nested_params :: "gomap \<Rightarrow> gomap option" where
  "nested_params m =
     (case as_obj (map_of m ''params'') of
        Some n \<Rightarrow> if n \<noteq> [] then Some n else None | None \<Rightarrow> None)"

definition title_keys :: "string list" where
  "title_keys = [''task_title'', ''name'', ''taskName'', ''task_name'', ''title'']"

definition fill_create_task :: "decision_action \<Rightarrow> decision_action" where
  "fill_create_task act =
     (if act_type act = ''create_task'' \<and> act_title act = [] then
        (case act_params act of
           None \<Rightarrow> act
         | Some m \<Rightarrow>
             (let src = (case nested_params m of Some n \<Rightarrow> n | None \<Rightarrow> m);
                  act = act\<lparr>act_title := or_else [] (first_str src title_keys)\<rparr>;
                  act = act\<lparr>act_description := or_else (act_description act)
                    (first_str src [''details'', ''description'', ''content'', ''body'', ''detail''])\<rparr>;
                  act = act\<lparr>act_description := or_else (act_description act)
                    (first_str src [''purpose''])\<rparr>
              in act\<lparr>act_title := or_else (act_title act) (first_str m title_keys)\<rparr>))
      else act)"

definition fill_send_message :: "decision_action \<Rightarrow> decision_action" where
  "fill_send_message act =
     (if act_type act = ''send_message'' \<and> act_body act = [] then
        act\<lparr>act_body := or_else [] (first_str (param_list act) [''message'', ''content'', ''text'', ''body''])\<rparr>
      else act)"

definition fill_call_input :: "decision_action \<Rightarrow> decision_action" where
  "fill_call_input act =
     (if act_type act = ''call_tool'' \<and> act_input act = None then
        (case nested_params (param_list act) of
           Some nested \<Rightarrow> set_input (copy_except [''purpose''] nested) act
         | None \<Rightarrow>
             if param_list act \<noteq> []
             then set_input (copy_except [''tool'', ''type'', ''action'', ''params'', ''purpose''] (param_list act)) act
             else act)
      else act)"

definition fill_web_search :: "decision_action \<Rightarrow> decision_action" where
  "fill_web_search act =
     (if act_type act = ''call_tool'' \<and> act_tool act = ''web_search'' \<and> act_input act = None then
        (case nonempty_str (act_params act) ''query'' of
           Some q \<Rightarrow> act\<lparr>act_input := Some [(''query'', JStr q)]\<rparr>
         | None \<Rightarrow> act)
      else act)"

definition normalize_action :: "decision_action \<Rightarrow> decision_action" where
  "normalize_action act =
     fill_web_search (fill_call_input (fill_send_message (fill_create_task
       (infer_from_action (infer_from_params (infer_from_tool act))))))"

definition normalize_decision :: "agent_decision \<Rightarrow> agent_decision" where
  "normalize_decision d =
     d\<lparr>d_memory_updates := map normalize_update (d_memory_updates d),
       d_actions := map normalize_action (d_actions d)\<rparr>"

section \<open>Validation\<close>

text \<open>The value a \<^verbatim>\<open>if v, ok := m[k].(string); ok { x = v }\<close> leaves in \<open>x\<close>.\<close>

definition over :: "gomap option \<Rightarrow> string \<Rightarrow> string \<Rightarrow> string" where
  "over m k x = (case mget_str m k of Some s \<Rightarrow> s | None \<Rightarrow> x)"

definition over_empty :: "gomap option \<Rightarrow> string \<Rightarrow> string \<Rightarrow> string" where
  "over_empty m k x = (if x = [] then over m k x else x)"

definition validate_action :: "golib \<Rightarrow> decision_action \<Rightarrow> unit res" where
  "validate_action g act =
     (let m = act_params act in
      if act_type act = ''send_message'' then
        (let body = (if act_body act = []
                     then over_empty m ''content'' (over_empty m ''message'' (over m ''body'' []))
                     else act_body act)
         in if body = [] then fail ''body required''
            else if 5000 < length body then fail ''body too large'' else ok ())
      else if act_type act = ''create_task'' then
        (let title = (if act_title act = []
                      then over_empty m ''task_title'' (over m ''title'' [])
                      else act_title act)
         in if title = [] then fail ''title required'' else ok ())
      else if act_type act = ''delegate_task'' then
        (let task_id = (if act_task_id act = []
                        then over m ''task_id'' (over m ''taskId'' []) else act_task_id act);
             agent_id = (if act_agent_id act = []
                         then over m ''agent_id'' (over m ''agentId'' []) else act_agent_id act)
         in if task_id = [] then fail ''task_id required''
            else if agent_id = [] then fail ''agent_id required''
            else if uuid_parse g task_id = None then fail ''invalid task_id''
            else if uuid_parse g agent_id = None then fail ''invalid agent_id'' else ok ())
      else if act_type act = ''call_tool'' then
        (let tool = over_empty m ''tool'' (act_tool act)
         in if tool = [] then fail ''tool required'' else ok ())
      else if act_type act \<in> {''request_approval'', ''request_human_input''} then ok ()
      else if act_type act \<in> {''update_task'', ''complete_task'', ''fail_task''} then ok ()
      else if act_type act = ''store_memory'' then
        (case m of None \<Rightarrow> ok ()
         | Some _ \<Rightarrow> if nonempty_str m ''content'' = None
                      then fail ''content required for store_memory'' else ok ())
      else fail (''unsupported action '' @ act_type act))"

definition refused_secret :: "string \<Rightarrow> bool" where
  "refused_secret c =
     (let lower = to_lower c
      in (contains lower ''api_key'' \<or> contains lower ''password'' \<or> contains lower ''secret'')
         \<and> (contains lower ''sk-'' \<or> contains lower ''bearer''))"

definition validate_update :: "nat \<Rightarrow> memory_update \<Rightarrow> unit res" where
  "validate_update i mu =
     (let pre = ''memory_update '' @ nat_str i in
      if mu_content mu = [] then fail (pre @ '': content required'')
      else if mu_memory_type mu \<noteq> [] \<and> \<not> is_valid_memory_type (mu_memory_type mu)
      then fail (pre @ '': invalid memory_type '' @ mu_memory_type mu)
      else if 5000 < length (mu_content mu) then fail (pre @ '': content too large'')
      else if refused_secret (mu_content mu) then fail (pre @ '': refusing to store potential secret'')
      else ok ())"

fun validate_actions :: "golib \<Rightarrow> nat \<Rightarrow> decision_action list \<Rightarrow> unit res" where
  "validate_actions g i [] = ok ()"
| "validate_actions g i (a # acts) =
     (if act_type a \<notin> set valid_action_types
      then fail (''action '' @ nat_str i @ '': invalid type '' @ act_type a)
      else (case validate_action g a of
              Inl e \<Rightarrow> fail (''action '' @ nat_str i @ '' ('' @ act_type a @ ''): '' @ e)
            | Inr _ \<Rightarrow> validate_actions g (Suc i) acts))"

fun validate_updates :: "nat \<Rightarrow> memory_update list \<Rightarrow> unit res" where
  "validate_updates i [] = ok ()"
| "validate_updates i (m # ms) =
     (case validate_update i m of Inl e \<Rightarrow> fail e | Inr _ \<Rightarrow> validate_updates (Suc i) ms)"

fun validate_no_code :: "decision_action list \<Rightarrow> unit res" where
  "validate_no_code [] = ok ()"
| "validate_no_code (a # acts) =
     (if mget (act_params a) ''code'' \<noteq> None
      then fail (''action '' @ act_type a @ '': code execution not allowed'')
      else if mget (act_params a) ''exec'' \<noteq> None
      then fail (''action '' @ act_type a @ '': exec not allowed'')
      else validate_no_code acts)"

definition validate_decision_schema :: "golib \<Rightarrow> agent_decision \<Rightarrow> unit res" where
  "validate_decision_schema g d =
     (if d_status d = [] then fail ''status required''
      else if d_status d \<notin> set valid_decision_statuses then fail (''invalid status '' @ d_status d)
      else (case validate_actions g 0 (d_actions d) of
              Inl e \<Rightarrow> fail e
            | Inr _ \<Rightarrow>
                (case validate_updates 0 (d_memory_updates d) of
                   Inl e \<Rightarrow> fail e
                 | Inr _ \<Rightarrow> validate_no_code (d_actions d))))"

definition parse_agent_decision :: "golib \<Rightarrow> string \<Rightarrow> agent_decision res" where
  "parse_agent_decision g content =
     (let json_str = extract_json content
      in if json_str = [] then fail ''no JSON found in LLM output''
         else (case and_then (json_parse g json_str) (unmarshal_decision g) of
                 Inl e \<Rightarrow> fail (''invalid JSON: '' @ e)
               | Inr d0 \<Rightarrow>
                   (let d = normalize_decision d0
                    in case validate_decision_schema g d of Inl e \<Rightarrow> fail e | Inr _ \<Rightarrow> ok d)))"

section \<open>The repair loop\<close>

definition MaxDecisionRetries :: nat where "MaxDecisionRetries = 2"

definition decision_repair_prompt :: "string \<Rightarrow> string" where
  "decision_repair_prompt err =
     ''Validation failed: '' @ err @ ''. Provide ONLY valid JSON for AgentDecision.''"

text \<open>
  The provider is a service: it gets the state of the outside world \<open>'s\<close> (which records what was
  asked) and the prompt, and answers with an error or a text.
\<close>

fun repair_loop :: "golib \<Rightarrow> ('s \<Rightarrow> string \<Rightarrow> 's \<times> string res) \<Rightarrow> nat \<Rightarrow> string \<Rightarrow> 's
    \<Rightarrow> 's \<times> agent_decision res" where
  "repair_loop g ask 0 err s =
     (s, fail (''invalid decision after '' @ nat_str MaxDecisionRetries @ '' retries: '' @ err))"
| "repair_loop g ask (Suc n) err s =
     (case ask s (decision_repair_prompt err) of
        (s', Inl e) \<Rightarrow> (s', fail e)
      | (s', Inr content) \<Rightarrow>
          (case parse_agent_decision g content of
             Inr d \<Rightarrow> (s', ok d)
           | Inl err' \<Rightarrow> repair_loop g ask n err' s'))"

definition retry_decision :: "golib \<Rightarrow> ('s \<Rightarrow> string \<Rightarrow> 's \<times> string res) \<Rightarrow> string \<Rightarrow> 's
    \<Rightarrow> 's \<times> agent_decision res" where
  "retry_decision g ask raw_output s =
     (case parse_agent_decision g raw_output of
        Inr d \<Rightarrow> (s, ok d)
      | Inl err \<Rightarrow> repair_loop g ask MaxDecisionRetries err s)"

section \<open>What validation guarantees\<close>

definition wf_action :: "golib \<Rightarrow> decision_action \<Rightarrow> bool" where
  "wf_action g a \<longleftrightarrow> act_type a \<in> set valid_action_types \<and> validate_action g a = ok ()
     \<and> mget (act_params a) ''code'' = None \<and> mget (act_params a) ''exec'' = None"

definition wf_update :: "memory_update \<Rightarrow> bool" where
  "wf_update m \<longleftrightarrow> mu_content m \<noteq> [] \<and> length (mu_content m) \<le> 5000 \<and> \<not> refused_secret (mu_content m)
     \<and> is_valid_memory_type (mu_memory_type m) \<and> mu_scope m \<in> set valid_memory_scopes
     \<and> mu_importance m \<noteq> 0"

definition wf_decision :: "golib \<Rightarrow> agent_decision \<Rightarrow> bool" where
  "wf_decision g d \<longleftrightarrow> d_status d \<in> set valid_decision_statuses
     \<and> list_all (wf_action g) (d_actions d) \<and> list_all wf_update (d_memory_updates d)"

lemma validate_actions_ok:
  "validate_actions g i acts = ok u \<Longrightarrow>
    a \<in> set acts \<Longrightarrow> act_type a \<in> set valid_action_types \<and> validate_action g a = ok ()"
  by (induction g i acts rule: validate_actions.induct) (auto split: if_splits sum.splits)

lemma validate_no_code_ok:
  "validate_no_code acts = ok u \<Longrightarrow>
    a \<in> set acts \<Longrightarrow> mget (act_params a) ''code'' = None \<and> mget (act_params a) ''exec'' = None"
  by (induction acts rule: validate_no_code.induct) (auto split: if_splits)

lemma validate_updates_ok: "validate_updates i ms = ok u \<Longrightarrow> m \<in> set ms \<Longrightarrow> \<exists>j. validate_update j m = ok ()"
  by (induction i ms rule: validate_updates.induct) (auto split: sum.splits)

lemma valid_memory_types [simp]:
  "is_valid_memory_type ''working''" "is_valid_memory_type ''project''"
  "is_valid_memory_type ''agent''" "is_valid_memory_type ''conversation''"
  by (simp_all add: is_valid_memory_type_def)

lemma let_memory_type: "(\<And>x. is_valid_memory_type (f x)) \<Longrightarrow> is_valid_memory_type (Let v f)"
  by (simp add: Let_def)

lemma normalize_memory_type_valid: "is_valid_memory_type (normalize_memory_type t)"
  unfolding normalize_memory_type_def
  by (intro let_memory_type) (simp only: valid_memory_types if_True split: if_split, simp add: let_memory_type)

lemma normalize_update_wf:
  "is_valid_memory_type (mu_memory_type (normalize_update m))
   \<and> mu_scope (normalize_update m) \<in> set valid_memory_scopes
   \<and> mu_importance (normalize_update m) \<noteq> 0"
  by (simp add: normalize_update_def Let_def normalize_memory_type_valid valid_memory_scopes_def)


text \<open>A concrete library for the witnesses: one UUID, and one document the parser knows.\<close>

definition demo_lib :: "json \<Rightarrow> golib" where
  "demo_lib v = \<lparr>uuid_parse = (\<lambda>s. if s = [] then None else Some (length s)),
     uuid_string = (\<lambda>u. replicate u (CHR ''x'')), json_parse = (\<lambda>_. ok v),
     json_marshal = (\<lambda>_. []), json_type_err = (\<lambda>f _. f),
     num_string = (\<lambda>_. []), num_fixed2 = (\<lambda>_. [])\<rparr>"

definition demo_decision :: json where
  "demo_decision = JObj
     [(''status'', JStr ''continue''),
      (''actions'', JArr [JObj [(''tool'', JStr ''web_search''), (''query'', JStr ''go'')]]),
      (''memory_updates'', JArr [JObj [(''text'', JStr ''likes go''), (''type'', JStr ''fact'')]])]"


section \<open>Normalisation is idempotent\<close>

lemma set_input_simps [simp]:
  "act_type (set_input i a) = act_type a"
  "act_params (set_input i a) = act_params a"
  "act_tool (set_input i a) = act_tool a"
  by (simp_all add: set_input_def)

lemma infer_from_tool_type: "act_type a \<noteq> [] \<Longrightarrow> infer_from_tool a = a"
  by (simp add: infer_from_tool_def)

lemma infer_from_params_type: "act_type a \<noteq> [] \<Longrightarrow> infer_from_params a = a"
  by (simp add: infer_from_params_def)

lemma infer_from_action_type: "act_type a \<noteq> [] \<Longrightarrow> infer_from_action a = a"
  by (simp add: infer_from_action_def)

lemma type_nonempty: "[] \<notin> set valid_action_types"
  by (simp add: valid_action_types_def)

lemma infer_from_tool_empty:
  "act_type (infer_from_tool a) = [] \<Longrightarrow> infer_from_tool a = a \<and> act_tool a = [] \<and> act_type a = []"
  using type_nonempty by (auto simp: infer_from_tool_def Let_def split: if_splits)

lemma infer_from_params_empty:
  "act_type (infer_from_params a) = [] \<Longrightarrow> infer_from_params a = a
     \<and> (act_params a \<noteq> None \<longrightarrow> nonempty_str (act_params a) ''tool'' = None
        \<and> nonempty_str (act_params a) ''action'' = None)"
  using type_nonempty
  by (auto simp: infer_from_params_def as_call_tool_def Let_def split: if_splits option.splits)

text \<open>The stage for a top-level \<^verbatim>\<open>action\<close> never applies: the stage before has used that entry.\<close>

lemma infer_from_action_redundant: "infer_from_action (infer_from_params a) = infer_from_params a"
proof (cases "act_type (infer_from_params a) = []")
  case True
  with infer_from_params_empty [OF this] show ?thesis
    by (auto simp: infer_from_action_def split: option.splits)
next
  case False
  then show ?thesis by (rule infer_from_action_type)
qed

definition infer_type :: "decision_action \<Rightarrow> decision_action" where
  "infer_type a = infer_from_params (infer_from_tool a)"

definition fill_fields :: "decision_action \<Rightarrow> decision_action" where
  "fill_fields a = fill_web_search (fill_call_input (fill_send_message (fill_create_task a)))"

lemma normalize_action_stages: "normalize_action a = fill_fields (infer_type a)"
  by (simp add: normalize_action_def fill_fields_def infer_type_def infer_from_action_redundant)

lemma infer_type_idem: "infer_type (infer_type a) = infer_type a"
proof (cases "act_type (infer_type a) = []")
  case True
  then have "infer_type a = infer_from_tool a"
    using infer_from_params_empty infer_type_def by metis
  with True have "infer_type a = a" using infer_from_tool_empty by metis
  then show ?thesis by simp
next
  case False
  then show ?thesis by (simp add: infer_type_def infer_from_tool_type infer_from_params_type)
qed

lemma fill_create_task_type [simp]: "act_type (fill_create_task a) = act_type a"
  by (simp add: fill_create_task_def Let_def split: option.split)

lemma fill_send_message_type [simp]: "act_type (fill_send_message a) = act_type a"
  by (simp add: fill_send_message_def)

lemma fill_call_input_type [simp]: "act_type (fill_call_input a) = act_type a"
  by (simp add: fill_call_input_def split: option.split)

lemma fill_web_search_type [simp]: "act_type (fill_web_search a) = act_type a"
  by (simp add: fill_web_search_def split: option.split)

lemma fill_fields_type [simp]: "act_type (fill_fields a) = act_type a"
  by (simp add: fill_fields_def)

text \<open>Each stage concerns actions of one type.\<close>

lemma fill_other_type:
  "act_type a \<noteq> ''create_task'' \<Longrightarrow> fill_create_task a = a"
  "act_type a \<noteq> ''send_message'' \<Longrightarrow> fill_send_message a = a"
  "act_type a \<noteq> ''call_tool'' \<Longrightarrow> fill_call_input a = a"
  "act_type a \<noteq> ''call_tool'' \<Longrightarrow> fill_web_search a = a"
  by (simp_all add: fill_create_task_def fill_send_message_def fill_call_input_def fill_web_search_def)

lemma fill_fields_by_type:
  "fill_fields a =
     (if act_type a = ''create_task'' then fill_create_task a
      else if act_type a = ''send_message'' then fill_send_message a
      else if act_type a = ''call_tool'' then fill_web_search (fill_call_input a) else a)"
  by (simp add: fill_fields_def fill_other_type)

lemma first_str_nonempty: "first_str m ks = Some s \<Longrightarrow> s \<noteq> []"
  by (induction m ks rule: first_str.induct)
    (auto simp: nonempty_str_def split: option.splits if_splits)

lemma or_else_idem: "or_else (or_else s t) t = or_else s t"
  by (auto simp: or_else_def split: option.split)

lemma or_else_eq_Nil: "or_else s t = [] \<longleftrightarrow> s = [] \<and> (t = None \<or> t = Some [])"
  by (auto simp: or_else_def split: option.splits)

lemma or_else_descr: "or_else (or_else (or_else (or_else s t) u) t) u = or_else (or_else s t) u"
  by (auto simp: or_else_def split: option.split)

lemma fill_create_task_idem: "fill_create_task (fill_create_task a) = fill_create_task a"
proof (cases "act_type a = ''create_task'' \<and> act_title a = [] \<and> act_params a \<noteq> None")
  case True
  then obtain m where m: "act_params a = Some m" by blast
  show ?thesis
  proof (cases "act_title (fill_create_task a) = []")
    case t: True
    define src where "src = (case nested_params m of Some n \<Rightarrow> n | None \<Rightarrow> m)"
    define b where "b = fill_create_task a"
    have titles: "act_title b = or_else (or_else [] (first_str src title_keys)) (first_str m title_keys)"
      and descr: "act_description b = or_else (or_else (act_description a)
        (first_str src [''details'', ''description'', ''content'', ''body'', ''detail''])) (first_str src [''purpose''])"
      and params: "act_params b = Some m" and type: "act_type b = ''create_task''"
      using True m by (simp_all add: b_def fill_create_task_def Let_def src_def)
    have none: "first_str src title_keys = None" "first_str m title_keys = None"
      using t titles by (auto simp: b_def [symmetric] or_else_def split: option.splits if_splits dest: first_str_nonempty)
    have "fill_create_task b = b"
      using t params type none descr
      by (simp add: fill_create_task_def Let_def src_def [symmetric] b_def [symmetric] or_else_descr)
        (simp add: or_else_def)
    then show ?thesis by (simp add: b_def)
  next
    case False
    then show ?thesis by (simp add: fill_create_task_def [of "fill_create_task a"])
  qed
next
  case False
  then have "fill_create_task a = a" by (auto simp: fill_create_task_def split: option.split)
  then show ?thesis by simp
qed

lemma fill_send_message_idem: "fill_send_message (fill_send_message a) = fill_send_message a"
  by (auto simp: fill_send_message_def or_else_idem param_list_def)

lemma fill_input_present:
  "act_input a = Some i \<Longrightarrow> fill_call_input a = a"
  "act_input a = Some i \<Longrightarrow> fill_web_search a = a"
  by (simp_all add: fill_call_input_def fill_web_search_def)

lemma fill_call_input_cases:
  "fill_call_input a = a \<or> act_input (fill_call_input a) \<noteq> None"
  by (simp add: fill_call_input_def set_input_def split: option.split)

lemma fill_call_idem:
  "fill_web_search (fill_call_input (fill_web_search (fill_call_input a))) = fill_web_search (fill_call_input a)"
proof (cases "act_input (fill_web_search (fill_call_input a)) = None")
  case False
  then obtain i where "act_input (fill_web_search (fill_call_input a)) = Some i" by blast
  then show ?thesis by (simp add: fill_input_present)
next
  case True
  have "act_input (fill_call_input a) = None"
    using True by (auto simp: fill_web_search_def split: option.splits if_splits)
  then have "fill_call_input a = a" using fill_call_input_cases by blast
  moreover have "fill_web_search a = a"
    using True calculation by (auto simp: fill_web_search_def split: option.splits if_splits)
  ultimately show ?thesis by simp
qed

lemma fill_fields_idem: "fill_fields (fill_fields a) = fill_fields a"
  using fill_create_task_idem fill_send_message_idem fill_call_idem
  by (simp add: fill_fields_by_type)

lemma fill_fields_empty_type: "act_type a = [] \<Longrightarrow> fill_fields a = a"
  by (simp add: fill_fields_by_type)

lemma normalize_action_idem: "normalize_action (normalize_action a) = normalize_action a"
proof (cases "act_type (infer_type a) = []")
  case True
  then show ?thesis by (simp add: normalize_action_stages fill_fields_empty_type infer_type_idem)
next
  case False
  then have "infer_type (fill_fields (infer_type a)) = fill_fields (infer_type a)"
    by (simp add: infer_type_def [of "fill_fields _"] infer_from_tool_type infer_from_params_type)
  then show ?thesis by (simp add: normalize_action_stages fill_fields_idem)
qed

lemma normalize_memory_type_fixed:
  "normalize_memory_type ''working'' = ''working''" "normalize_memory_type ''project'' = ''project''"
  "normalize_memory_type ''agent'' = ''agent''" "normalize_memory_type ''conversation'' = ''conversation''"
  by code_simp+

lemma normalize_memory_type_valid_id: "is_valid_memory_type t \<Longrightarrow> normalize_memory_type t = t"
  unfolding is_valid_memory_type_def by (elim disjE; simp only: normalize_memory_type_fixed)

lemma normalize_update_idem: "normalize_update (normalize_update m) = normalize_update m"
proof -
  have id: "normalize_update n = n"
    if "is_valid_memory_type (mu_memory_type n)" "mu_scope n \<in> set valid_memory_scopes" "mu_importance n \<noteq> 0" for n
  proof -
    have "mu_scope n \<noteq> []" using that(2) by (auto simp: valid_memory_scopes_def)
    with that show ?thesis by (simp add: normalize_update_def Let_def normalize_memory_type_valid_id)
  qed
  show ?thesis by (rule id) (use normalize_update_wf [of m] in auto)
qed

text \<open>
  Normalisation is a normal form: normalising a decision a second time changes neither its
  actions nor its memory updates, although the stages write fields that other stages read.
\<close>

theorem normalize_decision_idempotent:
  "normalize_decision (normalize_decision d) = normalize_decision d"
  by (simp add: normalize_decision_def comp_def normalize_action_idem normalize_update_idem)

end
