(* ===== verification/Store.thy ===== *)
theory Store
  imports Prelude
begin

text \<open>
  The data the program keeps: the structs of \<^verbatim>\<open>backend/internal/domain/models.go\<close> as
  records, and the PostgreSQL database behind \<^verbatim>\<open>repository.DB\<close> as one record of tables
  (\<open>backend/migrations\<close>). A table is the list of its rows in the order of insertion, which is
  the order of \<open>created_at\<close>; so \<^verbatim>\<open>ORDER BY created_at DESC\<close> is \<open>rev\<close>.

  \<open>next_id\<close> is the supply of \<^verbatim>\<open>gen_random_uuid()\<close> and \<^verbatim>\<open>uuid.New()\<close>, which gives a UUID that
  was not used before; \<open>now\<close> is the clock, constant during one operation. The database is
  reachable: a statement fails by a constraint or by finding no row, never by the connection.
\<close>

section \<open>The structs\<close>

record agent_capability =
  cap_name :: string
  cap_description :: string
  cap_enabled :: bool

record agent_permission =
  perm_id :: uuid
  perm_agent_id :: uuid
  perm_resource_type :: string
  perm_resource_id :: "uuid option"
  perm_permission :: string
  perm_granted_by :: "uuid option"
  perm_created_at :: time

record agent_version =
  ver_id :: uuid
  ver_agent_id :: uuid
  ver_version :: int
  ver_config :: "gomap option"
  ver_change_summary :: string
  ver_role :: string
  ver_objective :: string
  ver_instructions :: string
  ver_capabilities :: "agent_capability list"
  ver_behavioral_rules :: "string list"
  ver_tool_policy :: "gomap option"
  ver_memory_policy :: "gomap option"
  ver_approval_policy :: "gomap option"
  ver_model_configuration :: "gomap option"
  ver_created_by :: "uuid option"
  ver_created_at :: time

record agent =
  ag_id :: uuid
  ag_organization_id :: uuid
  ag_name :: string
  ag_slug :: string
  ag_description :: string
  ag_avatar_url :: "string option"
  ag_avatar :: "string option"
  ag_purpose :: string
  ag_intent :: string
  ag_system_prompt :: string
  ag_model :: string
  ag_provider :: string
  ag_capabilities :: "string list"
  ag_tools :: "string list"
  ag_status :: string
  ag_autonomy_level :: string
  ag_current_version :: int
  ag_last_status :: string
  ag_last_status_at :: "time option"
  ag_owner_id :: "uuid option"
  ag_created_by :: "uuid option"
  ag_created_at :: time
  ag_updated_at :: time
  ag_version :: "agent_version option"
  ag_capability_list :: "agent_capability list"
  ag_permissions :: "agent_permission list"

record task =
  t_id :: uuid
  t_organization_id :: uuid
  t_project_id :: uuid
  t_channel_id :: "uuid option"
  t_parent_task_id :: "uuid option"
  t_team_id :: "uuid option"
  t_title :: string
  t_description :: string
  t_created_by :: "uuid option"
  t_assigned_to_agent :: "uuid option"
  t_assigned_to_user :: "uuid option"
  t_status :: string
  t_priority :: string
  t_deadline :: "time option"
  t_correlation_id :: "uuid option"
  t_retry_count :: int
  t_max_retries :: int
  t_delegation_depth :: int
  t_max_delegation_depth :: int
  t_timeout_seconds :: int
  t_required_role :: "string option"
  t_required_capabilities :: "string list"
  t_preferred_agent_id :: "uuid option"
  t_created_at :: time
  t_updated_at :: time

record task_assignment =
  ta_task_id :: uuid
  ta_assignee_type :: string
  ta_assignee_user_id :: "uuid option"
  ta_assignee_agent_id :: "uuid option"
  ta_assigned_by :: "uuid option"
  ta_assigned_at :: time

record task_event =
  te_id :: uuid
  te_task_id :: uuid
  te_actor_type :: string
  te_actor_user_id :: "uuid option"
  te_actor_agent_id :: "uuid option"
  te_event_type :: string
  te_correlation_id :: "uuid option"
  te_payload :: "gomap option"
  te_created_at :: time

record agent_action =
  aa_id :: uuid
  aa_run_id :: uuid
  aa_seq :: int
  aa_action_type :: string
  aa_tool_name :: "string option"
  aa_input :: "gomap option"
  aa_output :: "gomap option"
  aa_status :: string
  aa_correlation_id :: "uuid option"
  aa_created_at :: time

record agent_run =
  run_id :: uuid
  run_organization_id :: uuid
  run_agent_id :: uuid
  run_task_id :: "uuid option"
  run_channel_id :: "uuid option"
  run_agent_version :: "int option"
  run_trigger_type :: string
  run_status :: string
  run_current_iteration :: int
  run_waiting_reason :: "string option"
  run_pending_action_id :: "uuid option"
  run_input :: "gomap option"
  run_context :: "gomap option"
  run_retrieved_knowledge :: "json list"
  run_output :: "gomap option"
  run_token_metadata :: "gomap option"
  run_correlation_id :: "uuid option"
  run_parent_run_id :: "uuid option"
  run_error :: "string option"
  run_started_at :: "time option"
  run_finished_at :: "time option"
  run_created_at :: time
  run_updated_at :: time
  run_actions :: "agent_action list"

record tool =
  tl_id :: uuid
  tl_organization_id :: "uuid option"
  tl_name :: string
  tl_description :: string
  tl_input_schema :: "gomap option"
  tl_output_schema :: "gomap option"
  tl_risk_level :: string
  tl_required_permissions :: "string list"
  tl_approval_policy :: "gomap option"
  tl_enabled :: bool
  tl_created_at :: time
  tl_updated_at :: time

record agent_tool =
  at_id :: uuid
  at_agent_id :: uuid
  at_tool_id :: uuid
  at_enabled :: bool
  at_created_at :: time
  at_tool :: "tool option"

record tool_execution =
  ex_id :: uuid
  ex_organization_id :: uuid
  ex_agent_id :: uuid
  ex_task_id :: "uuid option"
  ex_run_id :: "uuid option"
  ex_tool_id :: uuid
  ex_tool_name :: string
  ex_input :: "gomap option"
  ex_output :: "gomap option"
  ex_status :: string
  ex_approval_id :: "uuid option"
  ex_idempotency_key :: string
  ex_error :: "string option"
  ex_created_at :: time
  ex_updated_at :: time

record approval =
  ap_id :: uuid
  ap_organization_id :: uuid
  ap_requester_type :: string
  ap_requester_agent_id :: "uuid option"
  ap_requester_user_id :: "uuid option"
  ap_entity_type :: string
  ap_entity_id :: uuid
  ap_title :: string
  ap_description :: string
  ap_payload :: "gomap option"
  ap_risk_level :: string
  ap_action :: string
  ap_target :: string
  ap_context :: "gomap option"
  ap_status :: string
  ap_decided_by :: "uuid option"
  ap_decided_at :: "time option"
  ap_expires_at :: "time option"
  ap_created_at :: time
  ap_updated_at :: time

record agent_team_member =
  tm_id :: uuid
  tm_team_id :: uuid
  tm_agent_id :: uuid
  tm_role :: string
  tm_responsibilities :: string
  tm_dependencies :: "string list"
  tm_tools :: "string list"
  tm_knowledge_requirements :: "string list"
  tm_added_at :: time

record workflow_step =
  wf_from :: string
  wf_to :: string
  wf_condition :: string
  wf_action :: string

record agent_team_version =
  tver_id :: uuid
  tver_team_id :: uuid
  tver_version :: int
  tver_objective :: string
  tver_workflow :: "workflow_step list"
  tver_communication_rules :: "string list"
  tver_delegation_rules :: "string list"
  tver_permissions :: "gomap option"
  tver_approval_policy :: "gomap option"
  tver_config :: "gomap option"
  tver_created_by :: "uuid option"
  tver_created_at :: time

record agent_team =
  team_uuid :: uuid
  team_organization_id :: uuid
  team_name :: string
  team_slug :: string
  team_objective :: string
  team_description :: string
  team_status :: string
  team_created_by :: "uuid option"
  team_coordinator_agent_id :: "uuid option"
  team_created_at :: time
  team_updated_at :: time
  team_members :: "agent_team_member list"
  team_current_version :: "agent_team_version option"

record team_activity =
  tv_team_id :: uuid
  tv_organization_id :: uuid
  tv_actor_type :: string
  tv_actor_id :: "uuid option"
  tv_event_type :: string
  tv_payload :: "gomap option"
  tv_created_at :: time

record organization =
  og_id :: uuid
  og_name :: string
  og_slug :: string
  og_avatar_url :: "string option"
  og_settings :: "gomap option"
  og_created_at :: time
  og_updated_at :: time

record user =
  us_id :: uuid
  us_email :: string
  us_display_name :: string
  us_avatar_url :: "string option"
  us_password_hash :: string
  us_status :: string
  us_last_seen_at :: "time option"
  us_created_at :: time
  us_updated_at :: time

text \<open>The sender, the reactions and the number of replies that the API adds to a message are left out.\<close>

record message =
  m_id :: uuid
  m_organization_id :: uuid
  m_channel_id :: uuid
  m_thread_id :: "uuid option"
  m_sender_type :: string
  m_sender_user_id :: "uuid option"
  m_sender_agent_id :: "uuid option"
  m_body :: string
  m_body_format :: string
  m_metadata :: "gomap option"
  m_edited_at :: "time option"
  m_deleted_at :: "time option"
  m_created_at :: time
  m_updated_at :: time

record execution_budget =
  eb_organization_id :: uuid
  eb_agent_id :: "uuid option"
  eb_team_id :: "uuid option"
  eb_max_tasks_per_day :: int
  eb_max_tool_calls_per_day :: int
  eb_max_delegation_depth :: int
  eb_rate_limit_per_minute :: int

record channel =
  ch_id :: uuid
  ch_organization_id :: uuid
  ch_project_id :: "uuid option"
  ch_name :: string
  ch_display_name :: string
  ch_description :: string
  ch_topic :: string
  ch_channel_type :: string
  ch_created_by :: "uuid option"
  ch_created_at :: time
  ch_updated_at :: time

record channel_member =
  cm_id :: uuid
  cm_channel_id :: uuid
  cm_member_type :: string
  cm_user_id :: "uuid option"
  cm_agent_id :: "uuid option"
  cm_role :: string
  cm_joined_at :: time

record project =
  pr_id :: uuid
  pr_organization_id :: uuid
  pr_name :: string
  pr_slug :: string
  pr_description :: string
  pr_objective :: string
  pr_icon :: string
  pr_status :: string
  pr_settings :: "gomap option"
  pr_created_by :: "uuid option"
  pr_created_at :: time
  pr_updated_at :: time

record reaction =
  re_id :: uuid
  re_organization_id :: uuid
  re_message_id :: uuid
  re_user_id :: uuid
  re_emoji :: string
  re_created_at :: time

record memory =
  mem_id :: uuid
  mem_organization_id :: uuid
  mem_agent_id :: "uuid option"
  mem_project_id :: "uuid option"
  mem_conversation_id :: "uuid option"
  mem_task_id :: "uuid option"
  mem_memory_type :: string
  mem_scope :: string
  mem_source :: string
  mem_source_event_id :: "uuid option"
  mem_content :: string
  mem_importance :: rat
  mem_confidence :: rat
  mem_status :: string
  mem_metadata :: "gomap option"
  mem_expires_at :: "time option"
  mem_last_accessed_at :: "time option"
  mem_last_confirmed_at :: "time option"
  mem_content_hash :: string
  mem_idempotency_key :: string
  mem_superseded_by :: "uuid option"
  mem_version :: int
  mem_created_at :: time
  mem_updated_at :: time

record memory_version =
  mver_memory_id :: uuid
  mver_version :: int
  mver_content :: string
  mver_importance :: rat
  mver_confidence :: rat
  mver_status :: string
  mver_metadata :: "gomap option"
  mver_source :: string
  mver_reason :: string
  mver_created_at :: time

record memory_event =
  mev_organization_id :: uuid
  mev_memory_id :: "uuid option"
  mev_scope :: string
  mev_event_type :: string
  mev_correlation_id :: "uuid option"
  mev_payload :: "gomap option"
  mev_created_at :: time

record trigger =
  trg_id :: uuid
  trg_organization_id :: uuid
  trg_name :: string
  trg_trigger_type :: string
  trg_config :: "gomap option"
  trg_enabled :: bool
  trg_agent_id :: "uuid option"
  trg_team_id :: "uuid option"
  trg_project_id :: "uuid option"
  trg_created_by :: "uuid option"
  trg_last_triggered_at :: "time option"
  trg_next_run_at :: "time option"
  trg_created_at :: time
  trg_updated_at :: time

record scheduled_task =
  sch_id :: uuid
  sch_organization_id :: uuid
  sch_trigger_id :: uuid
  sch_project_id :: "uuid option"
  sch_team_id :: "uuid option"
  sch_agent_id :: "uuid option"
  sch_title :: string
  sch_description :: string
  sch_status :: string
  sch_scheduled_at :: time
  sch_timezone :: string
  sch_recurrence :: "string option"
  sch_created_at :: time
  sch_updated_at :: time

record processed_event =
  pe_event_id :: string
  pe_event_type :: string
  pe_source :: string
  pe_correlation_id :: "uuid option"
  pe_payload_hash :: string
  pe_consumer :: string
  pe_status :: string
  pe_processed_at :: time

record job_row =
  jr_id :: uuid
  jr_type :: string
  jr_payload :: "gomap option"
  jr_status :: string
  jr_attempts :: int
  jr_max_retries :: int
  jr_idempotency_key :: "string option"
  jr_claimed_by :: "string option"
  jr_claimed_at :: "time option"
  jr_next_retry_at :: "time option"
  jr_created_at :: time

text \<open>The counters of \<^verbatim>\<open>backend/internal/metrics\<close> that the modelled code moves.\<close>

record counters =
  TasksTotal :: int
  TasksCompleted :: int
  AgentRunsTotal :: int
  AgentRunsFailed :: int
  ToolExecutionsTotal :: int
  ToolExecutionsFailed :: int
  BrowserToolCalls :: int
  BrowserToolFailures :: int
  BrowserPagesVisited :: int
  BrowserDownloads :: int

section \<open>The database\<close>

record db =
  next_id :: uuid
  now :: time
  organizations :: "organization list"
  user_rows :: "user list"
  org_members :: "(uuid \<times> uuid \<times> string) list"
  projects :: "project list"
  project_members :: "(uuid \<times> uuid \<times> string) list"
  channels :: "channel list"
  channel_members :: "channel_member list"
  agents :: "agent list"
  agent_versions :: "agent_version list"
  agent_capabilities :: "(uuid \<times> agent_capability) list"
  agent_permissions :: "agent_permission list"
  project_agents :: "(uuid \<times> uuid) list"
  teams :: "agent_team list"
  members :: "agent_team_member list"
  project_teams :: "(uuid \<times> uuid) list"
  activities :: "team_activity list"
  budgets :: "execution_budget list"
  tasks :: "task list"
  task_assignments :: "task_assignment list"
  task_events :: "task_event list"
  task_dependencies :: "(uuid \<times> uuid) list"
  tools :: "tool list"
  agent_tools :: "agent_tool list"
  executions :: "tool_execution list"
  approvals :: "approval list"
  runs :: "agent_run list"
  actions :: "agent_action list"
  messages :: "message list"
  message_threads :: "(uuid \<times> uuid \<times> int) list"
  reactions :: "reaction list"
  team_versions :: "agent_team_version list"
  memories :: "memory list"
  memory_versions :: "memory_version list"
  memory_events :: "memory_event list"
  triggers :: "trigger list"
  scheduled_tasks :: "scheduled_task list"
  processed_events :: "processed_event list"
  jobs :: "job_row list"
  metrics :: counters

text \<open>The keys that rows of other tables refer to.\<close>

abbreviation orgs :: "db \<Rightarrow> uuid list" where "orgs d \<equiv> map og_id (organizations d)"
abbreviation users :: "db \<Rightarrow> uuid list" where "users d \<equiv> map us_id (user_rows d)"

section \<open>Statements\<close>

text \<open>
  The error of a statement names its kind and, for a constraint, the constraint; the driver's
  full text is longer.
\<close>

definition no_rows :: string where "no_rows = ''sql: no rows in result set''"
definition fk_violation :: "string \<Rightarrow> string" where "fk_violation c = ''foreign key violation: '' @ c"
definition check_violation :: "string \<Rightarrow> string" where "check_violation c = ''check violation: '' @ c"
definition unique_violation :: "string \<Rightarrow> string" where "unique_violation c = ''duplicate key: '' @ c"
definition tx_aborted :: string where
  "tx_aborted = ''current transaction is aborted, commands ignored until end of transaction block''"

text \<open>\<^verbatim>\<open>QueryRow(SELECT ... WHERE P).Scan\<close>: the first row, or \<^verbatim>\<open>sql.ErrNoRows\<close>.\<close>

definition query_row :: "('r \<Rightarrow> bool) \<Rightarrow> 'r list \<Rightarrow> 'r res" where
  "query_row P rs = (case find P rs of None \<Rightarrow> fail no_rows | Some r \<Rightarrow> ok r)"

definition update_where :: "('r \<Rightarrow> bool) \<Rightarrow> ('r \<Rightarrow> 'r) \<Rightarrow> 'r list \<Rightarrow> 'r list" where
  "update_where P f rs = map (\<lambda>r. if P r then f r else r) rs"

definition count_where :: "('r \<Rightarrow> bool) \<Rightarrow> 'r list \<Rightarrow> int" where
  "count_where P rs = int (length (filter P rs))"

text \<open>\<^verbatim>\<open>ORDER BY created_at DESC LIMIT n\<close> with the caller's limit clamped to a default.\<close>

definition newest :: "int \<Rightarrow> 'r list \<Rightarrow> 'r list" where
  "newest limit rs = take (nat limit) (rev rs)"

definition clamp_limit :: "int \<Rightarrow> int \<Rightarrow> int" where
  "clamp_limit hi limit = (if limit \<le> 0 \<or> limit > hi then 20 else limit)"

definition opt_ref :: "uuid option \<Rightarrow> uuid list \<Rightarrow> bool" where
  "opt_ref r ids \<longleftrightarrow> (case r of None \<Rightarrow> True | Some u \<Rightarrow> u \<in> set ids)"

text \<open>
  A transaction is the state it has reached, or nothing once a statement has failed: from then
  on every statement fails and the commit rolls back.
\<close>

type_synonym tx = "db option"

definition tx_exec :: "(db \<Rightarrow> ('a \<times> db) res) \<Rightarrow> tx \<Rightarrow> 'a res \<times> tx" where
  "tx_exec stmt t = (case t of
       None \<Rightarrow> (fail tx_aborted, None)
     | Some d \<Rightarrow> (case stmt d of Inl e \<Rightarrow> (fail e, None) | Inr (x, d') \<Rightarrow> (ok x, Some d')))"

definition tx_commit :: "tx \<Rightarrow> db res" where
  "tx_commit t = (case t of None \<Rightarrow> fail ''commit unexpectedly resulted in rollback'' | Some d \<Rightarrow> ok d)"

definition uuid_json :: "golib \<Rightarrow> uuid \<Rightarrow> json" where
  "uuid_json g u = JStr (uuid_string g u)"

definition opt_uuid_json :: "golib \<Rightarrow> uuid option \<Rightarrow> json" where
  "opt_uuid_json g u = (case u of None \<Rightarrow> JNull | Some x \<Rightarrow> uuid_json g x)"

lemma find_in: "find P rs = Some r \<Longrightarrow> r \<in> set rs \<and> P r"
  by (induction rs) (auto split: if_splits)

lemma query_row_cases:
  "query_row P rs = ok r \<longleftrightarrow> find P rs = Some r"
  "query_row P rs = fail e \<longleftrightarrow> e = no_rows \<and> (\<forall>r \<in> set rs. \<not> P r)"
  by (simp_all add: query_row_def split: option.split)
    (metis find_None_iff find_in option.simps(3))

lemma query_row_okD: "query_row P rs = ok r \<Longrightarrow> r \<in> set rs \<and> P r"
  by (simp add: query_row_cases find_in)

lemma find_map_if:
  "(\<And>r. P r \<Longrightarrow> P (f r)) \<Longrightarrow> find P (update_where P f rs) = map_option f (find P rs)"
  by (induction rs) (auto simp: update_where_def)

lemma query_row_update:
  "(\<And>r. P r \<Longrightarrow> P (f r)) \<Longrightarrow>
    query_row P (update_where P f rs) = (case query_row P rs of Inl e \<Rightarrow> fail e | Inr r \<Rightarrow> ok (f r))"
  by (simp add: query_row_def find_map_if split: option.split)

lemma find_append: "find P (xs @ ys) = (case find P xs of None \<Rightarrow> find P ys | Some x \<Rightarrow> Some x)"
  by (induction xs) auto

lemma query_row_append_fresh:
  "\<forall>r \<in> set rs. \<not> P r \<Longrightarrow> P r' \<Longrightarrow> query_row P (rs @ [r']) = ok r'"
  by (auto simp: query_row_def find_append dest: find_in split: option.split)

lemma map_update_where:
  "(\<And>r. P r \<Longrightarrow> k (f r) = k r) \<Longrightarrow> map k (update_where P f rs) = map k rs"
  by (simp add: update_where_def comp_def)

lemma length_update_where [simp]: "length (update_where P f rs) = length rs"
  by (simp add: update_where_def)

lemma in_update_where:
  "r \<in> set (update_where P f rs) \<longleftrightarrow> (\<exists>q \<in> set rs. r = (if P q then f q else q))"
  by (auto simp: update_where_def)

lemma update_where_none: "\<forall>r \<in> set rs. \<not> P r \<Longrightarrow> update_where P f rs = rs"
  by (induction rs) (auto simp: update_where_def)

lemma tx_simps [simp]:
  "tx_exec stmt None = (fail tx_aborted, None)"
  "tx_exec stmt (Some d) = (case stmt d of Inl e \<Rightarrow> (fail e, None) | Inr (x, d') \<Rightarrow> (ok x, Some d'))"
  "tx_commit (Some d) = ok d"
  by (simp_all add: tx_exec_def tx_commit_def)

lemma find_distinct:
  assumes "distinct (map k rs)" and "r \<in> set rs"
  shows "find (\<lambda>q. k q = k r) rs = Some r"
  using assms by (induction rs) (auto simp: rev_image_eqI)

text \<open>A small database for the witnesses: one organization with a user, a project and an agent.\<close>

definition demo_agent :: agent where
  "demo_agent = \<lparr>ag_id = 4, ag_organization_id = 1, ag_name = ''writer'', ag_slug = ''writer'',
     ag_description = [], ag_avatar_url = None, ag_avatar = None, ag_purpose = ''writing'', ag_intent = [],
     ag_system_prompt = [], ag_model = ''m'', ag_provider = ''openai'', ag_capabilities = [''draft''],
     ag_tools = [], ag_status = ''active'', ag_autonomy_level = ''assistant'', ag_current_version = 1,
     ag_last_status = ''idle'', ag_last_status_at = None, ag_owner_id = Some 2, ag_created_by = Some 2,
     ag_created_at = 0, ag_updated_at = 0, ag_version = None, ag_capability_list = [], ag_permissions = []\<rparr>"

definition empty_db :: db where
  "empty_db = \<lparr>next_id = 100, now = 1000, organizations = [], user_rows = [], org_members = [], projects = [],
     project_members = [], channels = [], channel_members = [], agents = [],
     agent_versions = [], agent_capabilities = [], agent_permissions = [], project_agents = [], teams = [],
     members = [], project_teams = [], activities = [], budgets = [], tasks = [], task_assignments = [],
     task_events = [], task_dependencies = [], tools = [], agent_tools = [], executions = [], approvals = [],
     runs = [], actions = [], messages = [], message_threads = [], reactions = [], team_versions = [], memories = [],
     memory_versions = [], memory_events = [], triggers = [], scheduled_tasks = [], processed_events = [], jobs = [],
     metrics = \<lparr>TasksTotal = 0, TasksCompleted = 0, AgentRunsTotal = 0, AgentRunsFailed = 0,
       ToolExecutionsTotal = 0, ToolExecutionsFailed = 0, BrowserToolCalls = 0, BrowserToolFailures = 0,
       BrowserPagesVisited = 0, BrowserDownloads = 0\<rparr>\<rparr>"

definition demo_db :: db where
  "demo_db = empty_db\<lparr>
     organizations := [\<lparr>og_id = 1, og_name = ''o'', og_slug = ''o'', og_avatar_url = None, og_settings = None,
       og_created_at = 0, og_updated_at = 0\<rparr>],
     user_rows := [\<lparr>us_id = 2, us_email = ''u@x.y'', us_display_name = ''u'', us_avatar_url = None,
       us_password_hash = [], us_status = ''active'', us_last_seen_at = None, us_created_at = 0, us_updated_at = 0\<rparr>],
     projects := [\<lparr>pr_id = 3, pr_organization_id = 1, pr_name = ''p'', pr_slug = ''p'', pr_description = [], pr_objective = [],
       pr_icon = [], pr_status = ''active'', pr_settings = None, pr_created_by = Some 2, pr_created_at = 0, pr_updated_at = 0\<rparr>],
     agents := [demo_agent], project_agents := [(3, 4)]\<rparr>"

text \<open>A library whose UUIDs are written in decimal and whose JSON is not parsed.\<close>

fun parse_nat :: "nat \<Rightarrow> string \<Rightarrow> nat option" where
  "parse_nat acc [] = Some acc"
| "parse_nat acc (c # cs) =
     (if 48 \<le> (of_char c :: nat) \<and> (of_char c :: nat) \<le> 57
      then parse_nat (10 * acc + (of_char c - 48)) cs else None)"

definition demo_golib :: golib where
  "demo_golib = \<lparr>uuid_parse = (\<lambda>s. if s = [] then None else parse_nat 0 s), uuid_string = nat_str,
     json_parse = (\<lambda>_. fail ''unexpected end of JSON input''), json_marshal = (\<lambda>_. ''{}''),
     json_type_err = (\<lambda>_ _. ''type''), num_string = (\<lambda>_. ''0''), num_fixed2 = (\<lambda>_. ''0.00'')\<rparr>"

lemma parse_nat_append: "parse_nat acc (xs @ ys) = (case parse_nat acc xs of None \<Rightarrow> None | Some a \<Rightarrow> parse_nat a ys)"
  by (induction acc xs rule: parse_nat.induct) simp_all

lemma parse_digit: "d < 10 \<Longrightarrow> parse_nat acc [char_of (48 + d)] = Some (10 * acc + d)"
  by simp

lemma parse_nat_str: "parse_nat 0 (nat_str n) = Some n \<and> nat_str n \<noteq> []"
proof (induction n rule: less_induct)
  case (less n)
  show ?case
  proof (cases "n < 10")
    case True
    then show ?thesis by (simp add: nat_str.simps [of n] parse_digit del: parse_nat.simps)
  next
    case False
    then have "parse_nat 0 (nat_str (n div 10)) = Some (n div 10)" using less [of "n div 10"] by simp
    with False show ?thesis
      by (simp add: nat_str.simps [of n] parse_nat_append parse_digit del: parse_nat.simps)
  qed
qed

lemma demo_golib_uuid: "uuid_law demo_golib"
  by (simp add: uuid_law_def demo_golib_def parse_nat_str)

end
