(* ===== verification/Tasks.thy ===== *)
theory Tasks
  imports Store
begin

text \<open>
  \<^verbatim>\<open>backend/internal/repository/task.go\<close> with the agent queries it uses: creating, reading,
  listing, moving and assigning tasks, the event log, and the choice of eligible agents.
  An operation maps the database to the database it leaves and its result; an error leaves the
  database as it was, because the deferred \<^verbatim>\<open>tx.Rollback()\<close> undoes the transaction.
\<close>

section \<open>Agents, as the task code reads them\<close>

definition list_agent_capabilities :: "uuid \<Rightarrow> db \<Rightarrow> agent_capability list" where
  "list_agent_capabilities agent_id d =
     sort_key cap_name (map snd (filter (\<lambda>c. fst c = agent_id) (agent_capabilities d)))"

definition list_agent_permissions :: "uuid \<Rightarrow> db \<Rightarrow> agent_permission list" where
  "list_agent_permissions agent_id d =
     sort_key perm_resource_type (filter (\<lambda>p. perm_agent_id p = agent_id) (agent_permissions d))"

definition get_agent_version :: "uuid \<Rightarrow> int \<Rightarrow> db \<Rightarrow> agent_version res" where
  "get_agent_version agent_id v d =
     query_row (\<lambda>r. ver_agent_id r = agent_id \<and> ver_version r = v) (agent_versions d)"

text \<open>\<^verbatim>\<open>scanAgent\<close> reads neither the last status nor the hydrated fields.\<close>

definition scan_agent :: "agent \<Rightarrow> agent" where
  "scan_agent a = a\<lparr>ag_last_status := [], ag_last_status_at := None, ag_version := None,
     ag_capability_list := [], ag_permissions := []\<rparr>"

definition get_agent :: "uuid \<Rightarrow> uuid \<Rightarrow> db \<Rightarrow> agent res" where
  "get_agent org_id agent_id d =
     (case query_row (\<lambda>a. ag_id a = agent_id \<and> ag_organization_id a = org_id) (agents d) of
        Inl e \<Rightarrow> fail e
      | Inr row \<Rightarrow>
          (let a = scan_agent row
           in ok (a\<lparr>ag_version := (case get_agent_version agent_id (ag_current_version a) d of
                      Inl _ \<Rightarrow> None | Inr v \<Rightarrow> Some v),
                    ag_capability_list := list_agent_capabilities agent_id d,
                    ag_permissions := list_agent_permissions agent_id d\<rparr>)))"

text \<open>A listed agent has no version, capability list or permissions.\<close>

definition list_agents :: "uuid \<Rightarrow> db \<Rightarrow> agent list" where
  "list_agents org_id d = map scan_agent (rev (filter (\<lambda>a. ag_organization_id a = org_id) (agents d)))"

definition get_agent_by_id :: "uuid \<Rightarrow> db \<Rightarrow> agent res" where
  "get_agent_by_id i d =
     (case query_row (\<lambda>a. ag_id a = i) (agents d) of Inl e \<Rightarrow> fail e | Inr a \<Rightarrow> ok (scan_agent a))"

definition list_project_agents :: "uuid \<Rightarrow> db \<Rightarrow> agent list" where
  "list_project_agents project_id d =
     sort_key ag_name (map scan_agent
       (filter (\<lambda>a. (project_id, ag_id a) \<in> set (project_agents d)) (agents d)))"

section \<open>Statements on the task tables\<close>

definition task_status_check :: "string list" where
  "task_status_check = [''pending'', ''assigned'', ''running'', ''waiting'', ''blocked'',
     ''approval_required'', ''completed'', ''failed'', ''cancelled'']"

definition task_priority_check :: "string list" where
  "task_priority_check = [''low'', ''medium'', ''high'', ''urgent'']"

definition actor_type_check :: "string list" where
  "actor_type_check = [''user'', ''agent'', ''system'']"

definition task_event_type_check :: "string list" where
  "task_event_type_check = [''created'', ''assigned'', ''started'', ''delegated'', ''tool_called'',
     ''tool_completed'', ''result_created'', ''approval_requested'', ''completed'', ''failed'',
     ''status_changed'', ''commented'', ''cancelled'']"

definition insert_task :: "task \<Rightarrow> db \<Rightarrow> (task \<times> db) res" where
  "insert_task t d =
     (if t_status t \<notin> set task_status_check then fail (check_violation ''tasks_status_check'')
      else if t_priority t \<notin> set task_priority_check then fail (check_violation ''tasks_priority_check'')
      else if t_organization_id t \<notin> set (orgs d) then fail (fk_violation ''tasks_organization_id_fkey'')
      else if t_project_id t \<notin> pr_id ` set (projects d) then fail (fk_violation ''tasks_project_id_fkey'')
      else if \<not> opt_ref (t_channel_id t) (map ch_id (channels d)) then fail (fk_violation ''tasks_channel_id_fkey'')
      else if \<not> opt_ref (t_parent_task_id t) (map t_id (tasks d)) then fail (fk_violation ''tasks_parent_task_id_fkey'')
      else if \<not> opt_ref (t_team_id t) (map team_uuid (teams d)) then fail (fk_violation ''tasks_team_id_fkey'')
      else if \<not> opt_ref (t_created_by t) (users d) then fail (fk_violation ''tasks_created_by_fkey'')
      else if \<not> opt_ref (t_assigned_to_agent t) (map ag_id (agents d)) then fail (fk_violation ''tasks_assigned_to_agent_fkey'')
      else if \<not> opt_ref (t_assigned_to_user t) (users d) then fail (fk_violation ''tasks_assigned_to_user_fkey'')
      else (let t = t\<lparr>t_id := next_id d, t_created_at := now d, t_updated_at := now d\<rparr>
            in ok (t, d\<lparr>tasks := tasks d @ [t], next_id := next_id d + 1\<rparr>)))"

text \<open>
  The unique key of \<^verbatim>\<open>task_assignments\<close> holds a NULL in every row, so
  \<^verbatim>\<open>ON CONFLICT DO NOTHING\<close> never applies.
\<close>

definition insert_task_assignment :: "task_assignment \<Rightarrow> db \<Rightarrow> (unit \<times> db) res" where
  "insert_task_assignment a d =
     (if ta_task_id a \<notin> t_id ` set (tasks d) then fail (fk_violation ''task_assignments_task_id_fkey'')
      else if \<not> opt_ref (ta_assignee_user_id a) (users d) then fail (fk_violation ''task_assignments_assignee_user_id_fkey'')
      else if \<not> opt_ref (ta_assignee_agent_id a) (map ag_id (agents d)) then fail (fk_violation ''task_assignments_assignee_agent_id_fkey'')
      else if \<not> opt_ref (ta_assigned_by a) (users d) then fail (fk_violation ''task_assignments_assigned_by_fkey'')
      else ok ((), d\<lparr>task_assignments := task_assignments d @ [a\<lparr>ta_assigned_at := now d\<rparr>]\<rparr>))"

definition insert_task_event :: "task_event \<Rightarrow> db \<Rightarrow> (task_event \<times> db) res" where
  "insert_task_event ev d =
     (if te_actor_type ev \<notin> set actor_type_check then fail (check_violation ''task_events_actor_type_check'')
      else if te_event_type ev \<notin> set task_event_type_check then fail (check_violation ''task_events_event_type_check'')
      else if te_task_id ev \<notin> t_id ` set (tasks d) then fail (fk_violation ''task_events_task_id_fkey'')
      else if \<not> opt_ref (te_actor_user_id ev) (users d) then fail (fk_violation ''task_events_actor_user_id_fkey'')
      else if \<not> opt_ref (te_actor_agent_id ev) (map ag_id (agents d)) then fail (fk_violation ''task_events_actor_agent_id_fkey'')
      else (let ev = ev\<lparr>te_id := next_id d, te_created_at := now d\<rparr>
            in ok (ev, d\<lparr>task_events := task_events d @ [ev], next_id := next_id d + 1\<rparr>)))"

text \<open>\<^verbatim>\<open>UPDATE tasks SET ... , updated_at=now() WHERE P\<close>.\<close>

definition update_tasks :: "(task \<Rightarrow> bool) \<Rightarrow> (task \<Rightarrow> task) \<Rightarrow> db \<Rightarrow> (unit \<times> db) res" where
  "update_tasks P f d =
     (let f' = (\<lambda>t. (f t)\<lparr>t_updated_at := now d\<rparr>);
          changed = map f' (filter P (tasks d))
      in if \<exists>t \<in> set changed. t_status t \<notin> set task_status_check
         then fail (check_violation ''tasks_status_check'')
         else if \<exists>t \<in> set changed. \<not> opt_ref (t_assigned_to_agent t) (map ag_id (agents d))
         then fail (fk_violation ''tasks_assigned_to_agent_fkey'')
         else if \<exists>t \<in> set changed. \<not> opt_ref (t_assigned_to_user t) (users d)
         then fail (fk_violation ''tasks_assigned_to_user_fkey'')
         else if \<exists>t \<in> set changed. \<not> opt_ref (t_preferred_agent_id t) (map ag_id (agents d))
         then fail (fk_violation ''tasks_preferred_agent_id_fkey'')
         else ok ((), d\<lparr>tasks := update_where P f' (tasks d)\<rparr>))"

section \<open>Reading\<close>

text \<open>
  The columns a query does not select stay at Go's zero value: neither \<^verbatim>\<open>GetTask\<close> nor
  \<^verbatim>\<open>ListTasks\<close> nor \<^verbatim>\<open>CreateTask\<close> reads the counters and limits of the row.
\<close>

definition scan_task :: "task \<Rightarrow> task" where
  "scan_task t = t\<lparr>t_retry_count := 0, t_max_retries := 0, t_delegation_depth := 0,
     t_max_delegation_depth := 0, t_timeout_seconds := 0\<rparr>"

definition get_task :: "uuid \<Rightarrow> uuid \<Rightarrow> db \<Rightarrow> task res" where
  "get_task org_id task_id d =
     (case query_row (\<lambda>t. t_id t = task_id \<and> t_organization_id t = org_id) (tasks d) of
        Inl e \<Rightarrow> fail e | Inr t \<Rightarrow> ok (scan_task t))"

definition list_tasks :: "uuid \<Rightarrow> uuid option \<Rightarrow> uuid option \<Rightarrow> string \<Rightarrow> uuid option \<Rightarrow> int \<Rightarrow> db \<Rightarrow> task list" where
  "list_tasks org_id project_id channel_id status assigned_agent limit d =
     map scan_task (newest (clamp_limit 100 limit) (filter (\<lambda>t.
       t_organization_id t = org_id
       \<and> (case project_id of None \<Rightarrow> True | Some p \<Rightarrow> t_project_id t = p)
       \<and> (case channel_id of None \<Rightarrow> True | Some c \<Rightarrow> t_channel_id t = Some c)
       \<and> (status \<noteq> [] \<longrightarrow> t_status t = status)
       \<and> (case assigned_agent of None \<Rightarrow> True | Some a \<Rightarrow> t_assigned_to_agent t = Some a)) (tasks d)))"

definition list_task_events :: "uuid \<Rightarrow> db \<Rightarrow> task_event list" where
  "list_task_events task_id d = filter (\<lambda>e. te_task_id e = task_id) (task_events d)"

section \<open>Creating\<close>

definition inc_tasks :: "db \<Rightarrow> db" where
  "inc_tasks d = d\<lparr>metrics := (metrics d)\<lparr>TasksTotal := TasksTotal (metrics d) + 1\<rparr>\<rparr>"

definition inc_tasks_completed :: "db \<Rightarrow> db" where
  "inc_tasks_completed d = d\<lparr>metrics := (metrics d)\<lparr>TasksCompleted := TasksCompleted (metrics d) + 1\<rparr>\<rparr>"

definition assignment_row :: "uuid \<Rightarrow> uuid option \<Rightarrow> uuid option \<Rightarrow> uuid \<Rightarrow> task_assignment" where
  "assignment_row task_id agent user by_user =
     (case agent of
        Some a \<Rightarrow> \<lparr>ta_task_id = task_id, ta_assignee_type = ''agent'', ta_assignee_user_id = None,
                  ta_assignee_agent_id = Some a, ta_assigned_by = Some by_user, ta_assigned_at = 0\<rparr>
      | None \<Rightarrow> \<lparr>ta_task_id = task_id, ta_assignee_type = ''user'', ta_assignee_user_id = user,
                  ta_assignee_agent_id = None, ta_assigned_by = Some by_user, ta_assigned_at = 0\<rparr>)"

definition event_row :: "uuid \<Rightarrow> string \<Rightarrow> uuid option \<Rightarrow> uuid option \<Rightarrow> string \<Rightarrow> gomap option \<Rightarrow> uuid option \<Rightarrow> task_event" where
  "event_row task_id actor_type actor_user actor_agent event_type payload corr =
     \<lparr>te_id = 0, te_task_id = task_id, te_actor_type = actor_type, te_actor_user_id = actor_user,
      te_actor_agent_id = actor_agent, te_event_type = event_type, te_correlation_id = corr,
      te_payload = payload, te_created_at = 0\<rparr>"

definition assigned_payload :: "golib \<Rightarrow> uuid option \<Rightarrow> uuid option \<Rightarrow> gomap option" where
  "assigned_payload g agent user =
     Some [(''assigned_to_agent'', opt_uuid_json g agent), (''assigned_to_user'', opt_uuid_json g user)]"

definition created_event :: "uuid \<Rightarrow> string \<Rightarrow> string \<Rightarrow> uuid \<Rightarrow> uuid option \<Rightarrow> task_event" where
  "created_event task_id title status created_by corr =
     event_row task_id ''user'' (Some created_by) None ''created''
       (Some [(''title'', JStr title), (''status'', JStr status)]) corr"

definition assigned_event :: "golib \<Rightarrow> uuid \<Rightarrow> uuid option \<Rightarrow> uuid option \<Rightarrow> uuid \<Rightarrow> uuid option \<Rightarrow> task_event" where
  "assigned_event g task_id agent user by_user corr =
     event_row task_id ''user'' (Some by_user) None ''assigned'' (assigned_payload g agent user) corr"

definition new_task_row :: "uuid \<Rightarrow> uuid \<Rightarrow> uuid option \<Rightarrow> uuid option \<Rightarrow> uuid option \<Rightarrow> uuid option \<Rightarrow> uuid option
    \<Rightarrow> string \<Rightarrow> string \<Rightarrow> string \<Rightarrow> string \<Rightarrow> time option \<Rightarrow> uuid option \<Rightarrow> uuid \<Rightarrow> task" where
  "new_task_row org_id project_id channel_id parent_task_id team_id agent user title description
      status priority deadline corr created_by =
     \<lparr>t_id = 0, t_organization_id = org_id, t_project_id = project_id, t_channel_id = channel_id,
      t_parent_task_id = parent_task_id, t_team_id = team_id, t_title = title,
      t_description = description, t_created_by = Some created_by, t_assigned_to_agent = agent,
      t_assigned_to_user = user, t_status = status, t_priority = priority, t_deadline = deadline,
      t_correlation_id = corr, t_retry_count = 0, t_max_retries = 3, t_delegation_depth = 0,
      t_max_delegation_depth = 5, t_timeout_seconds = 300, t_required_role = None,
      t_required_capabilities = [], t_preferred_agent_id = None, t_created_at = 0, t_updated_at = 0\<rparr>"

definition create_task :: "golib \<Rightarrow> uuid \<Rightarrow> uuid \<Rightarrow> uuid option \<Rightarrow> uuid option \<Rightarrow> uuid option \<Rightarrow> uuid option \<Rightarrow> uuid option
    \<Rightarrow> string \<Rightarrow> string \<Rightarrow> string \<Rightarrow> time option \<Rightarrow> uuid option \<Rightarrow> uuid \<Rightarrow> db \<Rightarrow> db \<times> task res" where
  "create_task g org_id project_id channel_id parent_task_id team_id agent user title description
      priority deadline corr created_by d =
     (let priority = (if priority = [] then ''medium'' else priority);
          assigned = (agent \<noteq> None \<or> user \<noteq> None);
          status = (if assigned then ''assigned'' else ''pending'');
          (r, t1) = tx_exec (insert_task (new_task_row org_id project_id channel_id parent_task_id
            team_id agent user title description status priority deadline corr created_by)) (Some d)
      in case r of
           Inl e \<Rightarrow> (d, fail (''create task: '' @ e))
         | Inr t \<Rightarrow>
             (let t2 = (if assigned
                        then snd (tx_exec (insert_task_assignment (assignment_row (t_id t) agent user created_by)) t1)
                        else t1);
                  (r3, t3) = tx_exec (insert_task_event (created_event (t_id t) title status created_by corr)) t2
              in case r3 of
                   Inl e \<Rightarrow> (d, fail e)
                 | Inr _ \<Rightarrow>
                     (let t4 = (if assigned
                                then snd (tx_exec (insert_task_event (assigned_event g (t_id t) agent user created_by corr)) t3)
                                else t3)
                      in case tx_commit t4 of
                           Inl e \<Rightarrow> (d, fail e)
                         | Inr d' \<Rightarrow> (inc_tasks d', ok (scan_task t)))))"

section \<open>Moving\<close>

definition valid_task_statuses :: "string list" where
  "valid_task_statuses = [''pending'', ''assigned'', ''running'', ''waiting'', ''blocked'',
     ''approval_required'', ''completed'', ''failed'', ''cancelled'',
     ''todo'', ''in_progress'', ''in_review'', ''done'']"

definition valid_task_transitions :: "(string \<times> string list) list" where
  "valid_task_transitions =
     [(''pending'', [''assigned'', ''cancelled'']),
      (''assigned'', [''running'', ''cancelled'']),
      (''running'', [''waiting'', ''blocked'', ''approval_required'', ''completed'', ''failed'', ''cancelled'']),
      (''waiting'', [''running'', ''completed'', ''failed'', ''cancelled'']),
      (''blocked'', [''running'', ''cancelled'']),
      (''approval_required'', [''running'', ''completed'', ''failed'', ''cancelled'']),
      (''completed'', []),
      (''failed'', [''pending'', ''cancelled'']),
      (''cancelled'', []),
      (''todo'', [''assigned'', ''in_progress'', ''cancelled'']),
      (''in_progress'', [''completed'', ''failed'', ''cancelled'']),
      (''in_review'', [''completed'', ''failed'']),
      (''done'', [])]"

definition is_valid_task_transition :: "string \<Rightarrow> string \<Rightarrow> bool" where
  "is_valid_task_transition src dst =
     (if src = dst then True
      else (case map_of valid_task_transitions src of None \<Rightarrow> False | Some allowed \<Rightarrow> dst \<in> set allowed))"

definition status_event_type :: "string \<Rightarrow> string" where
  "status_event_type s =
     (if s = ''completed'' then ''completed'' else if s = ''failed'' then ''failed''
      else if s = ''assigned'' then ''assigned'' else if s = ''running'' then ''started''
      else ''status_changed'')"

definition update_task_status :: "uuid \<Rightarrow> uuid \<Rightarrow> string \<Rightarrow> string \<Rightarrow> uuid \<Rightarrow> gomap option \<Rightarrow> db \<Rightarrow> db \<times> task res" where
  "update_task_status org_id task_id new_status actor_type actor_id payload d =
     (if new_status \<notin> set valid_task_statuses then (d, fail (''invalid status '' @ new_status))
      else (case query_row (\<lambda>t. t_id t = task_id \<and> t_organization_id t = org_id) (tasks d) of
              Inl e \<Rightarrow> (d, fail e)
            | Inr old \<Rightarrow>
                if \<not> is_valid_task_transition (t_status old) new_status
                then (d, fail (''invalid task transition '' @ t_status old @ '' -> '' @ new_status))
                else (let (r1, t1) = tx_exec (update_tasks (\<lambda>t. t_id t = task_id \<and> t_organization_id t = org_id)
                            (\<lambda>t. t\<lparr>t_status := new_status\<rparr>)) (Some d)
                      in case r1 of
                           Inl e \<Rightarrow> (d, fail e)
                         | Inr _ \<Rightarrow>
                             (let actor_user = (if actor_type = ''user'' then Some actor_id else None);
                                  actor_agent = (if actor_type = ''agent'' then Some actor_id else None);
                                  (r2, t2) = tx_exec (insert_task_event (event_row task_id actor_type actor_user
                                    actor_agent (status_event_type new_status) payload (t_correlation_id old))) t1
                              in case r2 of
                                   Inl e \<Rightarrow> (d, fail e)
                                 | Inr _ \<Rightarrow>
                                     (case tx_commit t2 of
                                        Inl e \<Rightarrow> (d, fail e)
                                      | Inr d' \<Rightarrow>
                                          (let d' = (if new_status = ''completed'' then inc_tasks_completed d' else d')
                                           in (d', get_task org_id task_id d')))))))"

definition assign_task :: "golib \<Rightarrow> uuid \<Rightarrow> uuid \<Rightarrow> uuid option \<Rightarrow> uuid option \<Rightarrow> uuid \<Rightarrow> db \<Rightarrow> db \<times> task res" where
  "assign_task g org_id task_id agent user assigned_by d =
     (let corr = (case query_row (\<lambda>t. t_id t = task_id) (tasks d) of
                    Inl _ \<Rightarrow> None | Inr t \<Rightarrow> t_correlation_id t);
          (r1, t1) = tx_exec (update_tasks (\<lambda>t. t_id t = task_id \<and> t_organization_id t = org_id)
            (\<lambda>t. t\<lparr>t_assigned_to_agent := agent, t_assigned_to_user := user, t_status := ''assigned''\<rparr>)) (Some d)
      in case r1 of
           Inl e \<Rightarrow> (d, fail e)
         | Inr _ \<Rightarrow>
             (let t2 = (if agent \<noteq> None \<or> user \<noteq> None
                        then snd (tx_exec (insert_task_assignment (assignment_row task_id agent user assigned_by)) t1)
                        else t1);
                  (r3, t3) = tx_exec (insert_task_event (assigned_event g task_id agent user assigned_by corr)) t2
              in case r3 of
                   Inl e \<Rightarrow> (d, fail e)
                 | Inr _ \<Rightarrow>
                     (case tx_commit t3 of
                        Inl e \<Rightarrow> (d, fail e)
                      | Inr d' \<Rightarrow> (d', get_task org_id task_id d'))))"

definition create_task_event :: "uuid \<Rightarrow> string \<Rightarrow> uuid option \<Rightarrow> string \<Rightarrow> gomap option \<Rightarrow> uuid option \<Rightarrow> db \<Rightarrow> db \<times> task_event res" where
  "create_task_event task_id actor_type actor_id event_type payload corr d =
     (case insert_task_event (event_row task_id actor_type
             (if actor_type = ''user'' then actor_id else None)
             (if actor_type = ''agent'' then actor_id else None) event_type payload corr) d of
        Inl e \<Rightarrow> (d, fail e)
      | Inr (ev, d') \<Rightarrow> (d', ok ev))"

definition set_task_requirements :: "uuid \<Rightarrow> uuid \<Rightarrow> string option \<Rightarrow> string list \<Rightarrow> uuid option \<Rightarrow> db \<Rightarrow> db \<times> unit res" where
  "set_task_requirements org_id task_id required_role required_capabilities preferred_agent_id d =
     (case update_tasks (\<lambda>t. t_id t = task_id \<and> t_organization_id t = org_id)
             (\<lambda>t. t\<lparr>t_required_role := required_role, t_required_capabilities := required_capabilities,
                    t_preferred_agent_id := preferred_agent_id\<rparr>) d of
        Inl e \<Rightarrow> (d, fail e)
      | Inr (_, d') \<Rightarrow> (d', ok ()))"

section \<open>Eligible agents\<close>

text \<open>
  The candidates are gathered in a map by ID, whose iteration order Go leaves open; here it is
  the order of insertion.
\<close>

fun add_team_agents :: "uuid \<Rightarrow> db \<Rightarrow> uuid list \<Rightarrow> agent list \<Rightarrow> agent list" where
  "add_team_agents org_id d [] acc = acc"
| "add_team_agents org_id d (a # as) acc =
     (if a \<in> ag_id ` set acc then add_team_agents org_id d as acc
      else (case get_agent org_id a d of
              Inl _ \<Rightarrow> add_team_agents org_id d as acc
            | Inr ag \<Rightarrow> add_team_agents org_id d as (acc @ [ag])))"

definition matches_role :: "string option \<Rightarrow> agent \<Rightarrow> bool" where
  "matches_role required_role ag =
     (case required_role of
        None \<Rightarrow> True
      | Some r \<Rightarrow>
          if r = [] then True
          else (let role = (case ag_version ag of Some v \<Rightarrow> ver_role v | None \<Rightarrow> []);
                    role = (if role = [] then ag_purpose ag else role)
                in role = r \<or> ag_name ag = r))"

definition has_capabilities :: "string list \<Rightarrow> agent \<Rightarrow> bool" where
  "has_capabilities required ag =
     (let caps = (case ag_version ag of Some v \<Rightarrow> map cap_name (ver_capabilities v) | None \<Rightarrow> ag_capabilities ag)
      in list_all (\<lambda>req. req \<in> set caps) required)"

definition get_eligible_agents :: "uuid \<Rightarrow> uuid \<Rightarrow> string option \<Rightarrow> string list \<Rightarrow> db \<Rightarrow> agent list" where
  "get_eligible_agents org_id project_id required_role required_capabilities d =
     (let team_agents = [tm_agent_id m. m \<leftarrow> members d, pt \<leftarrow> project_teams d,
            pt = (project_id, tm_team_id m)];
          candidates = add_team_agents org_id d team_agents (list_project_agents project_id d)
      in filter (\<lambda>ag. ag_status ag = ''active'' \<and> matches_role required_role ag
           \<and> has_capabilities required_capabilities ag) candidates)"

section \<open>The status machine\<close>

lemma is_valid_task_transition_refl [simp]: "is_valid_task_transition s s"
  by (simp add: is_valid_task_transition_def)

interpretation task_machine: status_machine is_valid_task_transition "{''completed'', ''cancelled'', ''done''}"
  by unfold_locales
    (auto simp: is_valid_task_transition_def valid_task_transitions_def split: if_splits)

section \<open>What the statements keep\<close>

text \<open>
  The invariant of the task tables: IDs are unique and were handed out by the supply, statuses
  and priorities pass their checks, a parent is an older task of the table, and each event
  belongs to a task.
\<close>

definition wf_task :: "db \<Rightarrow> task \<Rightarrow> bool" where
  "wf_task d t \<longleftrightarrow> t_id t < next_id d \<and> t_status t \<in> set task_status_check
     \<and> t_priority t \<in> set task_priority_check \<and> t_organization_id t \<in> set (orgs d)
     \<and> (\<forall>p. t_parent_task_id t = Some p \<longrightarrow> p < t_id t \<and> p \<in> t_id ` set (tasks d))"

definition task_inv :: "db \<Rightarrow> bool" where
  "task_inv d \<longleftrightarrow> distinct (map t_id (tasks d)) \<and> (\<forall>t \<in> set (tasks d). wf_task d t)
     \<and> (\<forall>e \<in> set (task_events d). te_task_id e \<in> t_id ` set (tasks d) \<and> te_id e < next_id d)"

lemma insert_task_cases:
  assumes "insert_task t d = ok (t', d')"
  shows "t' = t\<lparr>t_id := next_id d, t_created_at := now d, t_updated_at := now d\<rparr>"
    and "d' = d\<lparr>tasks := tasks d @ [t'], next_id := next_id d + 1\<rparr>"
    and "t_status t \<in> set task_status_check" and "t_priority t \<in> set task_priority_check"
    and "t_organization_id t \<in> set (orgs d)"
    and "t_parent_task_id t = Some p \<Longrightarrow> p \<in> t_id ` set (tasks d)"
    and "t_created_by t = Some u \<Longrightarrow> u \<in> set (users d)"
  using assms by (auto simp: insert_task_def Let_def opt_ref_def split: if_splits)

lemma insert_task_event_cases:
  assumes "insert_task_event ev d = ok (ev', d')"
  shows "ev' = ev\<lparr>te_id := next_id d, te_created_at := now d\<rparr>"
    and "d' = d\<lparr>task_events := task_events d @ [ev'], next_id := next_id d + 1\<rparr>"
    and "te_task_id ev \<in> t_id ` set (tasks d)"
    and "te_actor_user_id ev = Some u \<Longrightarrow> u \<in> set (users d)"
    and "te_actor_agent_id ev = Some a \<Longrightarrow> a \<in> ag_id ` set (agents d)"
    and "te_event_type ev \<in> set task_event_type_check"
  using assms by (auto simp: insert_task_event_def Let_def opt_ref_def split: if_splits)

lemma insert_task_event_eff:
  "insert_task_event ev d = ok (ev', d') \<Longrightarrow> ev' = ev\<lparr>te_id := next_id d, te_created_at := now d\<rparr>
    \<and> d' = d\<lparr>task_events := task_events d @ [ev'], next_id := next_id d + 1\<rparr>"
  using insert_task_event_cases(1,2) by blast

lemma insert_task_assignment_cases:
  assumes "insert_task_assignment a d = ok (x, d')"
  shows "d' = d\<lparr>task_assignments := task_assignments d @ [a\<lparr>ta_assigned_at := now d\<rparr>]\<rparr>"
    and "ta_assigned_by a = Some u \<Longrightarrow> u \<in> set (users d)"
  using assms by (auto simp: insert_task_assignment_def opt_ref_def split: if_splits)

lemma update_tasks_cases:
  assumes "update_tasks P f d = ok (x, d')"
  shows "d' = d\<lparr>tasks := update_where P (\<lambda>t. (f t)\<lparr>t_updated_at := now d\<rparr>) (tasks d)\<rparr>"
    and "t \<in> set (tasks d) \<Longrightarrow> P t \<Longrightarrow> t_status (f t) \<in> set task_status_check"
    and "t \<in> set (tasks d) \<Longrightarrow> P t \<Longrightarrow> t_assigned_to_agent (f t) = Some a \<Longrightarrow> a \<in> ag_id ` set (agents d)"
  using assms by (auto simp: update_tasks_def Let_def opt_ref_def split: if_splits)

lemma insert_task_inv:
  assumes "insert_task t d = ok (t', d')" and "task_inv d"
  shows "task_inv d'"
proof -
  note c = insert_task_cases [OF assms(1)]
  have old: "wf_task d' q" if "q \<in> set (tasks d)" for q
    using assms(2) that c(2) by (auto simp: task_inv_def wf_task_def)
  have new: "wf_task d' t'"
    using c assms(2) by (auto simp: task_inv_def wf_task_def)
  have "next_id d \<notin> t_id ` set (tasks d)"
    using assms(2) by (force simp: task_inv_def wf_task_def)
  with assms(2) c(1,2) old new show ?thesis by (auto simp: task_inv_def)
qed

lemma insert_task_event_inv:
  "insert_task_event ev d = ok (ev', d') \<Longrightarrow> task_inv d \<Longrightarrow> task_inv d'"
  using insert_task_event_cases(1) [of ev d ev' d'] insert_task_event_cases(2) [of ev d ev' d']
    insert_task_event_cases(3) [of ev d ev' d']
  by (auto simp: task_inv_def wf_task_def less_Suc_eq)

lemma insert_task_assignment_inv:
  "insert_task_assignment a d = ok (x, d') \<Longrightarrow> task_inv d \<Longrightarrow> task_inv d'"
  using insert_task_assignment_cases(1) [of a d x d'] by (simp add: task_inv_def wf_task_def)

lemma update_tasks_inv:
  assumes u: "update_tasks P f d = ok (x, d')" and inv: "task_inv d"
    and f: "\<And>t. t_id (f t) = t_id t \<and> t_parent_task_id (f t) = t_parent_task_id t
              \<and> t_priority (f t) = t_priority t \<and> t_organization_id (f t) = t_organization_id t"
  shows "task_inv d'"
proof -
  let ?f = "\<lambda>t. (f t)\<lparr>t_updated_at := now d\<rparr>"
  note c = update_tasks_cases [OF u]
  have ids: "map t_id (tasks d') = map t_id (tasks d)"
    using c(1) f by (simp add: map_update_where)
  then have idset: "t_id ` set (tasks d') = t_id ` set (tasks d)" by (metis image_set)
  have "wf_task d' t" if t: "t \<in> set (tasks d')" for t
  proof -
    from t c(1) obtain q where q: "q \<in> set (tasks d)" "t = (if P q then ?f q else q)"
      by (auto simp: in_update_where)
    with inv have "wf_task d q" by (simp add: task_inv_def)
    with q c(1) c(2) [of q] f show ?thesis
      unfolding wf_task_def idset by auto
  qed
  with inv c(1) ids idset show ?thesis by (simp add: task_inv_def)
qed

lemma tx_exec_okD:
  "tx_exec stmt t = (Inr x, t') \<Longrightarrow> \<exists>d d'. t = Some d \<and> stmt d = ok (x, d') \<and> t' = Some d'"
  by (cases t) (auto split: sum.splits)

lemma tx_snd_okD: "snd (tx_exec stmt t) = Some d' \<Longrightarrow> \<exists>d x. t = Some d \<and> stmt d = ok (x, d')"
  by (cases t) (auto split: sum.splits)

lemma tx_commit_okD: "tx_commit t = ok d \<Longrightarrow> t = Some d"
  by (cases t) (auto simp: tx_commit_def)

lemma create_task_okE:
  assumes "create_task g org_id project_id channel_id parent_task_id tm agent user title description
      priority deadline corr created_by d = (d', ok t)"
    and "assigned = (agent \<noteq> None \<or> user \<noteq> None)"
    and "status = (if assigned then ''assigned'' else ''pending'')"
  obtains t0 d1 d2 d3 d4 e1 where
    "insert_task (new_task_row org_id project_id channel_id parent_task_id tm agent user title description
       status (if priority = [] then ''medium'' else priority) deadline corr created_by) d = ok (t0, d1)"
    "if assigned then insert_task_assignment (assignment_row (t_id t0) agent user created_by) d1 = ok ((), d2)
     else d2 = d1"
    "insert_task_event (created_event (t_id t0) title status created_by corr) d2 = ok (e1, d3)"
    "if assigned then \<exists>e2. insert_task_event (assigned_event g (t_id t0) agent user created_by corr) d3 = ok (e2, d4)
     else d4 = d3"
    "d' = inc_tasks d4" "t = scan_task t0"
  using assms(1) that unfolding create_task_def assms(2) [symmetric] Let_def assms(3) [symmetric]
  by (cases assigned) (auto simp del: tx_simps split: prod.splits sum.splits
      dest!: tx_exec_okD tx_snd_okD tx_commit_okD)

lemma update_task_status_okE:
  assumes "update_task_status org_id task_id new_status actor_type actor_id payload d = (d', r)"
    and "d' \<noteq> d \<or> r = ok t"
  obtains old d1 ev d2 where
    "new_status \<in> set valid_task_statuses"
    "query_row (\<lambda>t. t_id t = task_id \<and> t_organization_id t = org_id) (tasks d) = ok old"
    "is_valid_task_transition (t_status old) new_status"
    "update_tasks (\<lambda>t. t_id t = task_id \<and> t_organization_id t = org_id) (\<lambda>t. t\<lparr>t_status := new_status\<rparr>) d = ok ((), d1)"
    "insert_task_event (event_row task_id actor_type (if actor_type = ''user'' then Some actor_id else None)
      (if actor_type = ''agent'' then Some actor_id else None) (status_event_type new_status) payload
      (t_correlation_id old)) d1 = ok (ev, d2)"
    "d' = (if new_status = ''completed'' then inc_tasks_completed d2 else d2)"
    "r = get_task org_id task_id d'"
  using assms(2,1) that unfolding update_task_status_def Let_def
  by (elim disjE) (auto simp del: tx_simps split: prod.splits sum.splits if_split_asm dest!: tx_exec_okD tx_commit_okD)

lemma assign_task_okE:
  assumes "assign_task g org_id task_id agent user assigned_by d = (d', r)" and "d' \<noteq> d \<or> r = ok t"
  obtains d1 d2 ev corr where
    "update_tasks (\<lambda>t. t_id t = task_id \<and> t_organization_id t = org_id)
      (\<lambda>t. t\<lparr>t_assigned_to_agent := agent, t_assigned_to_user := user, t_status := ''assigned''\<rparr>) d = ok ((), d1)"
    "if agent \<noteq> None \<or> user \<noteq> None
     then insert_task_assignment (assignment_row task_id agent user assigned_by) d1 = ok ((), d2) else d2 = d1"
    "insert_task_event (assigned_event g task_id agent user assigned_by corr) d2 = ok (ev, d')"
    "r = get_task org_id task_id d'"
proof -
  define assigned where "assigned \<longleftrightarrow> agent \<noteq> None \<or> user \<noteq> None"
  show ?thesis
    using assms(2,1) that unfolding assign_task_def Let_def assigned_def [symmetric]
    by (elim disjE; cases assigned) (auto simp del: tx_simps split: prod.splits sum.splits if_split_asm
        dest!: tx_exec_okD tx_commit_okD tx_snd_okD)
qed

text \<open>An operation that reports an error leaves the database as it was.\<close>

lemma create_task_error:
  "create_task g org_id project_id channel_id parent_task_id tm agent user title description
      priority deadline corr created_by d = (d', fail e) \<Longrightarrow> d' = d"
  by (auto simp: create_task_def Let_def simp del: tx_simps split: prod.splits sum.splits if_splits)

section \<open>The operations keep the invariant\<close>

lemma counters_inv [simp]:
  "task_inv (inc_tasks d) = task_inv d" "task_inv (inc_tasks_completed d) = task_inv d"
  by (simp_all add: task_inv_def wf_task_def inc_tasks_def inc_tasks_completed_def)

lemma create_task_inv:
  assumes "create_task g org_id project_id channel_id parent_task_id tm agent user title description
      priority deadline corr created_by d = (d', r)" and "task_inv d"
  shows "task_inv d'"
proof (cases r)
  case (Inl e)
  with assms create_task_error show ?thesis by metis
next
  case (Inr t)
  from create_task_okE [OF assms(1) [unfolded Inr] refl refl] obtain t0 d1 d2 d3 d4 e1 e2 x where
    "insert_task t0 d = ok (x, d1)"
    "d2 = d1 \<or> (\<exists>a. insert_task_assignment a d1 = ok ((), d2))"
    "insert_task_event e1 d2 = ok (e2, d3)"
    "d4 = d3 \<or> (\<exists>e3 e4. insert_task_event e3 d3 = ok (e4, d4))" "d' = inc_tasks d4"
    by metis
  with assms(2) show ?thesis
    by (auto dest!: insert_task_inv insert_task_event_inv insert_task_assignment_inv)
qed

lemma update_task_status_inv:
  assumes "update_task_status org_id task_id new_status actor_type actor_id payload d = (d', r)" and "task_inv d"
  shows "task_inv d'"
proof (cases "d' = d")
  case False
  have id: "task_inv d1" if "update_tasks (\<lambda>t. t_id t = task_id \<and> t_organization_id t = org_id)
      (\<lambda>t. t\<lparr>t_status := new_status\<rparr>) d = ok ((), d1)" for d1
    by (rule update_tasks_inv [OF that assms(2)]) simp
  show ?thesis
    by (rule update_task_status_okE [OF assms(1) disjI1 [OF False]]) (drule id, drule (1) insert_task_event_inv, simp)
qed (use assms in simp)

lemma assign_task_inv:
  assumes "assign_task g org_id task_id agent user assigned_by d = (d', r)" and "task_inv d"
  shows "task_inv d'"
proof (cases "d' = d")
  case False
  have id: "task_inv d1" if "update_tasks (\<lambda>t. t_id t = task_id \<and> t_organization_id t = org_id)
      (\<lambda>t. t\<lparr>t_assigned_to_agent := agent, t_assigned_to_user := user, t_status := ''assigned''\<rparr>) d = ok ((), d1)" for d1
    by (rule update_tasks_inv [OF that assms(2)]) simp
  show ?thesis
    by (rule assign_task_okE [OF assms(1) disjI1 [OF False]], drule id)
      (auto split: if_split_asm dest: insert_task_assignment_inv insert_task_event_inv)
qed (use assms in simp)

lemma create_task_event_inv:
  "create_task_event task_id actor_type actor_id event_type payload corr d = (d', r) \<Longrightarrow> task_inv d \<Longrightarrow> task_inv d'"
  by (auto simp: create_task_event_def split: sum.splits prod.splits dest: insert_task_event_inv)

lemma set_task_requirements_inv:
  "set_task_requirements org_id task_id role caps pref d = (d', r) \<Longrightarrow> task_inv d \<Longrightarrow> task_inv d'"
  by (auto simp: set_task_requirements_def split: sum.splits prod.splits elim!: update_tasks_inv)

text \<open>One step of any client of the repository's task operations; time passes between steps.\<close>

inductive task_op :: "golib \<Rightarrow> db \<Rightarrow> db \<Rightarrow> bool" for g where
  create: "create_task g org_id project_id channel_id parent_task_id tm agent user title description
      priority deadline corr created_by d = (d', r) \<Longrightarrow> task_op g d d'"
| update: "update_task_status org_id task_id new_status actor_type actor_id payload d = (d', r) \<Longrightarrow> task_op g d d'"
| assign: "assign_task g org_id task_id agent user assigned_by d = (d', r) \<Longrightarrow> task_op g d d'"
| event: "create_task_event task_id actor_type actor_id event_type payload corr d = (d', r) \<Longrightarrow> task_op g d d'"
| require: "set_task_requirements org_id task_id role caps pref d = (d', r) \<Longrightarrow> task_op g d d'"
| tick: "now d \<le> t \<Longrightarrow> task_op g d (d\<lparr>now := t\<rparr>)"

lemma task_op_inv: "task_op g d d' \<Longrightarrow> task_inv d \<Longrightarrow> task_inv d'"
  by (induction rule: task_op.induct)
    (erule (1) create_task_inv update_task_status_inv assign_task_inv create_task_event_inv
      set_task_requirements_inv | simp add: task_inv_def wf_task_def)+


section \<open>What each operation does\<close>

lemma get_task_ok:
  "get_task org_id task_id d = ok t \<longleftrightarrow>
    (\<exists>r. query_row (\<lambda>t. t_id t = task_id \<and> t_organization_id t = org_id) (tasks d) = ok r \<and> t = scan_task r)"
  by (auto simp: get_task_def split: sum.splits)

lemma update_task_status_tasks:
  assumes "update_task_status org_id task_id st actor_type actor_id payload d = (d', r)" and "d' \<noteq> d \<or> r = ok t"
  shows "\<exists>old. query_row (\<lambda>t. t_id t = task_id \<and> t_organization_id t = org_id) (tasks d) = ok old
    \<and> is_valid_task_transition (t_status old) st
    \<and> tasks d' = update_where (\<lambda>t. t_id t = task_id \<and> t_organization_id t = org_id)
        (\<lambda>t. t\<lparr>t_status := st, t_updated_at := now d\<rparr>) (tasks d)"
proof (rule update_task_status_okE [OF assms])
  fix old d1 ev d2
  assume "query_row (\<lambda>t. t_id t = task_id \<and> t_organization_id t = org_id) (tasks d) = ok old"
    and "is_valid_task_transition (t_status old) st"
    and u: "update_tasks (\<lambda>t. t_id t = task_id \<and> t_organization_id t = org_id) (\<lambda>t. t\<lparr>t_status := st\<rparr>) d = ok ((), d1)"
    and e: "insert_task_event (event_row task_id actor_type (if actor_type = ''user'' then Some actor_id else None)
      (if actor_type = ''agent'' then Some actor_id else None) (status_event_type st) payload (t_correlation_id old)) d1 = ok (ev, d2)"
    and "d' = (if st = ''completed'' then inc_tasks_completed d2 else d2)"
  with update_tasks_cases(1) [OF u] insert_task_event_cases(2) [OF e] show ?thesis
    by (simp add: inc_tasks_completed_def)
qed

text \<open>
  C25: when \<^verbatim>\<open>UpdateTaskStatus\<close> succeeds, the task belongs to the caller's organization, the move
  is one of the transition table, the task's row has the new status and update time and no other
  row has changed, and exactly one event, of the type the status asks for, was logged; the
  returned task is that row.
\<close>

theorem update_task_status_effect:
  assumes "update_task_status org_id task_id st actor_type actor_id payload d = (d', ok t)"
  shows "\<exists>old ev n. old \<in> set (tasks d) \<and> t_id old = task_id \<and> t_organization_id old = org_id
    \<and> is_valid_task_transition (t_status old) st
    \<and> t = scan_task (old\<lparr>t_status := st, t_updated_at := now d\<rparr>)
    \<and> te_task_id ev = task_id \<and> te_event_type ev = status_event_type st
    \<and> te_correlation_id ev = t_correlation_id old
    \<and> d' = d\<lparr>tasks := update_where (\<lambda>t. t_id t = task_id \<and> t_organization_id t = org_id)
                (\<lambda>t. t\<lparr>t_status := st, t_updated_at := now d\<rparr>) (tasks d),
             task_events := task_events d @ [ev], next_id := next_id d + 1,
             metrics := (metrics d)\<lparr>TasksCompleted := TasksCompleted (metrics d) + n\<rparr>\<rparr>
    \<and> n = (if st = ''completed'' then 1 else 0)"
proof -
  let ?P = "\<lambda>t. t_id t = task_id \<and> t_organization_id t = org_id"
  let ?f = "\<lambda>t. t\<lparr>t_status := st, t_updated_at := now d\<rparr>"
  from update_task_status_okE [OF assms disjI2 [OF refl]] obtain old d1 ev d2 where
    old: "query_row ?P (tasks d) = ok old" "is_valid_task_transition (t_status old) st"
    and u: "update_tasks ?P (\<lambda>t. t\<lparr>t_status := st\<rparr>) d = ok ((), d1)"
    and e: "insert_task_event (event_row task_id actor_type (if actor_type = ''user'' then Some actor_id else None)
        (if actor_type = ''agent'' then Some actor_id else None) (status_event_type st) payload
        (t_correlation_id old)) d1 = ok (ev, d2)"
    and d': "d' = (if st = ''completed'' then inc_tasks_completed d2 else d2)"
    and t: "ok t = get_task org_id task_id d'" .
  note d1 = update_tasks_cases(1) [OF u] and d2 = insert_task_event_cases(1,2) [OF e]
  have tasks': "tasks d' = update_where ?P ?f (tasks d)"
    using d1 d2 d' by (simp add: inc_tasks_completed_def)
  then have "t = scan_task (?f old)"
    using t [symmetric] old(1) by (simp add: get_task_ok query_row_update)
  then show ?thesis
    using query_row_okD [OF old(1)] old(2) d1 d2 d'
    by (intro exI [of _ old] exI [of _ ev] exI [of _ "if st = ''completed'' then 1 else 0"])
      (simp add: inc_tasks_completed_def event_row_def)
qed

definition demo_tasks_db :: db where
  "demo_tasks_db = fst (create_task demo_golib 1 3 None None None (Some 4) None ''t'' [] [] None None 2 demo_db)"


lemma update_task_status_effect_witness:
  "case update_task_status 1 100 ''running'' ''agent'' 4 None demo_tasks_db of
     (d', Inr t) \<Rightarrow> t_status t = ''running'' \<and> length (task_events d') = 3 | _ \<Rightarrow> False"
proof -
  have "\<not> isl (snd (update_task_status 1 100 ''running'' ''agent'' 4 None demo_tasks_db))"
    by code_simp
  then obtain d' t where u: "update_task_status 1 100 ''running'' ''agent'' 4 None demo_tasks_db = (d', ok t)"
    by (metis sum.collapse(2) surjective_pairing)
  have "length (task_events demo_tasks_db) = 2" by code_simp
  with update_task_status_effect [OF u] u show ?thesis by (auto simp: scan_task_def)
qed

text \<open>
  \<^verbatim>\<open>CreateTask\<close> adds exactly one task, with a fresh ID and the arguments in its row, in status
  \<^verbatim>\<open>assigned\<close> when somebody is assigned and \<^verbatim>\<open>pending\<close> otherwise, with priority \<^verbatim>\<open>medium\<close> by
  default and the table's limits; it logs \<^verbatim>\<open>created\<close>, and \<^verbatim>\<open>assigned\<close> exactly when somebody is
  assigned; on an error nothing has changed.
\<close>

theorem create_task_effect:
  "case create_task g org_id project_id channel_id parent_task_id tm agent user title description
      priority deadline corr created_by d of
     (d', Inl e) \<Rightarrow> d' = d
   | (d', Inr t) \<Rightarrow>
      (\<exists>row. tasks d' = tasks d @ [row] \<and> t = scan_task row \<and> t_id row = next_id d \<and> next_id d < next_id d'
        \<and> t_organization_id row = org_id \<and> t_project_id row = project_id \<and> t_parent_task_id row = parent_task_id
        \<and> t_assigned_to_agent row = agent \<and> t_assigned_to_user row = user \<and> t_created_by row = Some created_by
        \<and> t_status row = (if agent = None \<and> user = None then ''pending'' else ''assigned'')
        \<and> t_priority row = (if priority = [] then ''medium'' else priority)
        \<and> t_max_retries row = 3 \<and> t_max_delegation_depth row = 5
        \<and> map te_event_type (task_events d') =
            map te_event_type (task_events d) @ (if agent = None \<and> user = None then [''created''] else [''created'', ''assigned''])
        \<and> TasksTotal (metrics d') = TasksTotal (metrics d) + 1)"
proof (cases "create_task g org_id project_id channel_id parent_task_id tm agent user title description
      priority deadline corr created_by d")
  case (Pair d' r)
  show ?thesis
  proof (cases r)
    case (Inl e)
    then show ?thesis using create_task_error Pair by auto
  next
    case (Inr t)
    define assigned where "assigned \<longleftrightarrow> agent \<noteq> None \<or> user \<noteq> None"
    have u: "(agent = None \<and> user = None) \<longleftrightarrow> \<not> assigned" by (simp add: assigned_def)
    define status where "status = (if assigned then ''assigned'' else ''pending'')"
    from create_task_okE [OF Pair [unfolded Inr] assigned_def status_def] obtain t0 d1 d2 d3 d4 e1 where
      i: "insert_task (new_task_row org_id project_id channel_id parent_task_id tm agent user title description
           status (if priority = [] then ''medium'' else priority) deadline corr created_by) d = ok (t0, d1)"
      and a: "if assigned then insert_task_assignment (assignment_row (t_id t0) agent user created_by) d1 = ok ((), d2) else d2 = d1"
      and e1: "insert_task_event (created_event (t_id t0) title status created_by corr) d2 = ok (e1, d3)"
      and e2: "if assigned then \<exists>e2. insert_task_event (assigned_event g (t_id t0) agent user created_by corr) d3 = ok (e2, d4) else d4 = d3"
      and d': "d' = inc_tasks d4" and t: "t = scan_task t0" .
    note c = insert_task_cases(1,2) [OF i] and c1 = insert_task_event_cases(1,2) [OF e1]
    have d2: "tasks d2 = tasks d1 \<and> task_events d2 = task_events d1 \<and> metrics d2 = metrics d1 \<and> next_id d2 = next_id d1"
      using a by (auto split: if_splits dest: insert_task_assignment_cases(1))
    have d4: "tasks d4 = tasks d3 \<and> metrics d4 = metrics d3 \<and> next_id d3 \<le> next_id d4
        \<and> map te_event_type (task_events d4) = map te_event_type (task_events d3) @ (if assigned then [''assigned''] else [])"
      using e2 by (auto simp: assigned_event_def event_row_def split: if_splits dest!: insert_task_event_eff)
    show ?thesis
      unfolding Pair Inr u
      by (simp only: prod.case sum.case, rule exI [of _ t0])
        (use c c1 d2 d4 d' t in \<open>auto simp: new_task_row_def status_def inc_tasks_def created_event_def event_row_def\<close>)
  qed
qed

text \<open>The status of a task, for whoever asks.\<close>

definition status_of :: "uuid \<Rightarrow> db \<Rightarrow> string option" where
  "status_of i d = (case query_row (\<lambda>t. t_id t = i) (tasks d) of Inl _ \<Rightarrow> None | Inr t \<Rightarrow> Some (t_status t))"

type_synonym status_request = "uuid \<times> uuid \<times> string \<times> string \<times> uuid \<times> gomap option"

fun run_updates :: "status_request list \<Rightarrow> db \<Rightarrow> db" where
  "run_updates [] d = d"
| "run_updates ((org_id, task_id, st, actor_type, actor_id, payload) # rs) d =
     run_updates rs (fst (update_task_status org_id task_id st actor_type actor_id payload d))"

lemma status_of_eq: "status_of i d = map_option t_status (find (\<lambda>t. t_id t = i) (tasks d))"
  by (simp add: status_of_def query_row_def split: option.split)

lemma find_update_other:
  "(\<And>r. k (f r) = k r) \<Longrightarrow>
    find (\<lambda>r. k r = i) (update_where P f rs) = map_option (\<lambda>r. if P r then f r else r) (find (\<lambda>r. k r = i) rs)"
  by (induction rs) (auto simp: update_where_def)

lemma update_task_status_moves:
  assumes "task_inv d" and "status_of i d = Some s"
  shows "\<exists>s'. status_of i (fst (update_task_status org_id task_id st actor_type actor_id payload d)) = Some s'
    \<and> is_valid_task_transition s s'"
proof (cases "update_task_status org_id task_id st actor_type actor_id payload d")
  case (Pair d' r)
  show ?thesis
  proof (cases "d' = d")
    case True
    then show ?thesis using assms Pair by simp
  next
    case False
    let ?P = "\<lambda>t. t_id t = task_id \<and> t_organization_id t = org_id"
    from update_task_status_tasks [OF Pair disjI1 [OF False]] obtain old where
      old: "query_row ?P (tasks d) = ok old" "is_valid_task_transition (t_status old) st"
      and t': "tasks d' = update_where ?P (\<lambda>t. t\<lparr>t_status := st, t_updated_at := now d\<rparr>) (tasks d)"
      by blast
    obtain q where q: "find (\<lambda>t. t_id t = i) (tasks d) = Some q" "t_status q = s"
      using assms(2) by (auto simp: status_of_eq)
    have o: "old \<in> set (tasks d)" "?P old" using query_row_okD [OF old(1)] by auto
    have "find (\<lambda>t. t_id t = t_id old) (tasks d) = Some old"
      using assms(1) o(1) by (intro find_distinct) (auto simp: task_inv_def)
    then have "?P q \<Longrightarrow> q = old" using q o find_in [OF q(1)] by auto
    then show ?thesis
      using q old(2) by (auto simp: Pair status_of_eq t' find_update_other)
  qed
qed

lemma run_updates_moves:
  "task_inv d \<Longrightarrow> status_of i d = Some s \<Longrightarrow>
    \<exists>s'. status_of i (run_updates rs d) = Some s' \<and> is_valid_task_transition\<^sup>*\<^sup>* s s'"
proof (induction rs d arbitrary: s rule: run_updates.induct)
  case (1 d)
  then show ?case by auto
next
  case (2 org_id task_id st actor_type actor_id payload rs d)
  let ?d = "fst (update_task_status org_id task_id st actor_type actor_id payload d)"
  from update_task_status_moves [OF 2(2,3)] obtain s1 where
    s1: "status_of i ?d = Some s1" "is_valid_task_transition s s1" by blast
  have "task_inv ?d" using update_task_status_inv [OF surjective_pairing 2(2)] .
  from 2(1) [OF this s1(1)] s1(2) show ?case by (auto intro: converse_rtranclp_into_rtranclp)
qed

text \<open>
  C26: no sequence of \<^verbatim>\<open>UpdateTaskStatus\<close> calls, by whomever and on whichever tasks, brings a
  completed or cancelled task back to life.
\<close>

theorem terminal_status_absorbing:
  assumes "task_inv d" and "status_of i d = Some s" and "s \<in> {''completed'', ''cancelled''}"
  shows "status_of i (run_updates rs d) = Some s"
proof -
  from run_updates_moves [OF assms(1,2)] obtain s' where
    s': "status_of i (run_updates rs d) = Some s'" "is_valid_task_transition\<^sup>*\<^sup>* s s'" by blast
  with assms(3) task_machine.final_absorbing [of s s'] show ?thesis by auto
qed

lemma terminal_status_absorbing_witness:
  "status_of 100 (run_updates [(1, 100, ''pending'', ''user'', 2, None), (1, 100, ''running'', ''user'', 2, None)]
     (run_updates [(1, 100, ''cancelled'', ''user'', 2, None)] demo_tasks_db)) = Some ''cancelled''"
proof -
  let ?d = "run_updates [(1, 100, ''cancelled'', ''user'', 2, None)] demo_tasks_db"
  have "task_inv demo_db" by (simp add: task_inv_def demo_db_def empty_db_def)
  then have "task_inv demo_tasks_db"
    unfolding demo_tasks_db_def by (rule create_task_inv [OF surjective_pairing])
  then have "task_inv ?d" by (simp add: update_task_status_inv [OF surjective_pairing])
  moreover have "status_of 100 ?d = Some ''cancelled''" by code_simp
  ultimately show ?thesis by (rule terminal_status_absorbing) simp
qed

text \<open>
  \<^verbatim>\<open>AssignTask\<close> does not consult the transition table: whatever the status of the task, also
  a completed or cancelled one, an assignment by a known user to a known agent makes it
  \<^verbatim>\<open>assigned\<close> again.
\<close>

theorem assign_task_overrides_status:
  assumes "query_row (\<lambda>t. t_id t = i \<and> t_organization_id t = org_id) (tasks d) = ok old"
    and "\<forall>t \<in> set (tasks d). opt_ref (t_preferred_agent_id t) (map ag_id (agents d))"
    and "a \<in> ag_id ` set (agents d)" and "u \<in> set (users d)"
  shows "\<exists>d' t. assign_task g org_id i (Some a) None u d = (d', ok t) \<and> t_status t = ''assigned''
    \<and> t_assigned_to_agent t = Some a"
proof -
  let ?P = "\<lambda>t. t_id t = i \<and> t_organization_id t = org_id"
  let ?f = "\<lambda>t. t\<lparr>t_assigned_to_agent := Some a, t_assigned_to_user := None, t_status := ''assigned''\<rparr>"
  let ?g = "\<lambda>t. (?f t)\<lparr>t_updated_at := now d\<rparr>"
  define d1 where "d1 = d\<lparr>tasks := update_where ?P ?g (tasks d)\<rparr>"
  have i: "old \<in> set (tasks d)" "?P old" using query_row_okD [OF assms(1)] by auto
  have u: "update_tasks ?P ?f d = ok ((), d1)"
    using assms(2,3) by (auto simp: update_tasks_def Let_def d1_def opt_ref_def task_status_check_def)
  have ids: "t_id ` set (tasks d1) = t_id ` set (tasks d)"
  proof -
    have "map t_id (tasks d1) = map t_id (tasks d)" unfolding d1_def by (simp add: map_update_where)
    then show ?thesis by (metis image_set)
  qed
  with i have i1: "i \<in> t_id ` set (tasks d1)" by auto
  define d2 where "d2 = d1\<lparr>task_assignments := task_assignments d1 @ [(assignment_row i (Some a) None u)\<lparr>ta_assigned_at := now d1\<rparr>]\<rparr>"
  have as: "insert_task_assignment (assignment_row i (Some a) None u) d1 = ok ((), d2)"
    using i1 assms(3,4)
    by (simp add: insert_task_assignment_def assignment_row_def opt_ref_def d1_def d2_def)
  have ev: "\<exists>e d3. insert_task_event (assigned_event g i (Some a) None u c) d2 = ok (e, d3) \<and> tasks d3 = tasks d1" for c
    using i1 assms(4)
    by (simp add: insert_task_event_def assigned_event_def event_row_def opt_ref_def d1_def d2_def Let_def
        actor_type_check_def task_event_type_check_def)
  obtain c where c: "c = (case query_row (\<lambda>t. t_id t = i) (tasks d) of Inl _ \<Rightarrow> None | Inr t \<Rightarrow> t_correlation_id t)" by simp
  from ev [of c] obtain e d3 where e: "insert_task_event (assigned_event g i (Some a) None u c) d2 = ok (e, d3)"
    and t3: "tasks d3 = tasks d1" by blast
  have "get_task org_id i d3 = ok (scan_task (?g old))"
    using assms(1) by (simp add: get_task_def t3 d1_def query_row_update)
  then show ?thesis using u as e by (simp add: assign_task_def Let_def c [symmetric] scan_task_def)
qed

lemma assign_task_overrides_status_witness:
  "\<exists>d' t. assign_task demo_golib 1 100 (Some 4) None 2
     (run_updates [(1, 100, ''cancelled'', ''user'', 2, None)] demo_tasks_db) = (d', ok t)
     \<and> t_status t = ''assigned'' \<and> t_assigned_to_agent t = Some 4"
proof -
  let ?d = "run_updates [(1, 100, ''cancelled'', ''user'', 2, None)] demo_tasks_db"
  have ex: "\<not> isl (query_row (\<lambda>t. t_id t = 100 \<and> t_organization_id t = 1) (tasks ?d))"
    "\<forall>t \<in> set (tasks ?d). opt_ref (t_preferred_agent_id t) (map ag_id (agents ?d))"
    "4 \<in> set (map ag_id (agents ?d))" "2 \<in> set (users ?d)" by code_simp+
  show ?thesis
    by (rule assign_task_overrides_status [OF sum.collapse(2) [OF ex(1), symmetric] ex(2) _ ex(4)])
      (use ex(3) in \<open>simp only: set_map\<close>)
qed

text \<open>
  An assignment in the name of somebody who is not a user, such as an agent that delegates
  with its own ID, always fails and changes nothing: the event's actor is a foreign key to the users.
\<close>

theorem assign_task_needs_user:
  assumes "u \<notin> set (users d)"
  shows "\<exists>e. assign_task g org_id i agent user u d = (d, fail e)"
proof (cases "assign_task g org_id i agent user u d")
  case (Pair d' r)
  have "\<not> (d' \<noteq> d \<or> r = ok t)" for t
  proof
    assume "d' \<noteq> d \<or> r = ok t"
    from Pair this show False
    proof (rule assign_task_okE)
      fix d1 d2 ev corr
      assume u: "update_tasks (\<lambda>t. t_id t = i \<and> t_organization_id t = org_id)
          (\<lambda>t. t\<lparr>t_assigned_to_agent := agent, t_assigned_to_user := user, t_status := ''assigned''\<rparr>) d = ok ((), d1)"
        and a: "if agent \<noteq> None \<or> user \<noteq> None
           then insert_task_assignment (assignment_row i agent user u) d1 = ok ((), d2) else d2 = d1"
        and e: "insert_task_event (assigned_event g i agent user u corr) d2 = ok (ev, d')"
      have "users d2 = users d"
        using a update_tasks_cases(1) [OF u] by (auto split: if_splits dest: insert_task_assignment_cases(1))
      with insert_task_event_cases(4) [OF e, of u] assms show False by (simp add: assigned_event_def event_row_def)
    qed
  qed
  then show ?thesis using Pair by (cases r) auto
qed

lemma assign_task_needs_user_witness:
  "\<exists>e. assign_task demo_golib 1 100 (Some 4) None 4 demo_tasks_db = (demo_tasks_db, fail e)"
  by (rule assign_task_needs_user) code_simp

text \<open>
  A listing shows tasks of the asking organization only, which satisfy every filter given, at
  most a hundred of them, newest first.
\<close>

theorem list_tasks_scoped:
  "length (list_tasks org_id p c st a limit d) \<le> 100
   \<and> (\<exists>rows. subseq rows (rev (tasks d)) \<and> list_tasks org_id p c st a limit d = map scan_task rows)
   \<and> list_all (\<lambda>t. t_organization_id t = org_id \<and> p \<in> {None, Some (t_project_id t)}
        \<and> (c = None \<or> c = t_channel_id t) \<and> st \<in> {[], t_status t} \<and> (a = None \<or> a = t_assigned_to_agent t))
      (list_tasks org_id p c st a limit d)"
proof (intro conjI)
  let ?P = "\<lambda>t. t_organization_id t = org_id
       \<and> (case p of None \<Rightarrow> True | Some p \<Rightarrow> t_project_id t = p)
       \<and> (case c of None \<Rightarrow> True | Some c \<Rightarrow> t_channel_id t = Some c)
       \<and> (st \<noteq> [] \<longrightarrow> t_status t = st)
       \<and> (case a of None \<Rightarrow> True | Some a \<Rightarrow> t_assigned_to_agent t = Some a)"
  let ?rows = "newest (clamp_limit 100 limit) (filter ?P (tasks d))"
  have l: "list_tasks org_id p c st a limit d = map scan_task ?rows" by (simp add: list_tasks_def)
  have "clamp_limit 100 limit \<le> 100" by (simp add: clamp_limit_def)
  then have "length ?rows \<le> 100" by (simp add: newest_def)
  then show "length (list_tasks org_id p c st a limit d) \<le> 100" by (simp add: l)
  have "subseq (take n (filter ?P (rev (tasks d)))) (rev (tasks d))" for n
    by (rule subseq_order.trans [OF prefix_imp_subseq [OF take_is_prefix] subseq_filter_left])
  then have "subseq ?rows (rev (tasks d))" by (simp add: newest_def rev_filter)
  then show "\<exists>rows. subseq rows (rev (tasks d)) \<and> list_tasks org_id p c st a limit d = map scan_task rows"
    using l by blast
  show "list_all (\<lambda>t. t_organization_id t = org_id \<and> p \<in> {None, Some (t_project_id t)}
        \<and> (c = None \<or> c = t_channel_id t) \<and> st \<in> {[], t_status t} \<and> (a = None \<or> a = t_assigned_to_agent t))
      (list_tasks org_id p c st a limit d)"
    by (cases p; cases c; cases a) (auto simp: list_all_iff list_tasks_def newest_def scan_task_def dest!: in_set_takeD)
qed

text \<open>
  The code that reads a task never sees its retry counter, its delegation depth or their
  limits: the queries do not select those columns, so each read gives zero.
\<close>

theorem get_task_hides_limits:
  assumes "get_task org_id i d = ok t"
  shows "t_organization_id t = org_id \<and> t_id t = i
    \<and> t_retry_count t = 0 \<and> t_max_retries t = 0 \<and> t_delegation_depth t = 0 \<and> t_max_delegation_depth t = 0"
  using assms by (auto simp: get_task_ok scan_task_def dest!: query_row_okD)

lemma get_task_hides_limits_witness:
  "\<exists>t. get_task 1 100 demo_tasks_db = ok t \<and> t_max_delegation_depth t = 0
     \<and> map t_max_delegation_depth (tasks demo_tasks_db) = [5]"
proof -
  have "\<not> isl (get_task 1 100 demo_tasks_db)" by code_simp
  then obtain t where "get_task 1 100 demo_tasks_db = ok t" by (metis sum.collapse(2))
  moreover have "map t_max_delegation_depth (tasks demo_tasks_db) = [5]" by code_simp
  ultimately show ?thesis using get_task_hides_limits [of 1 100 demo_tasks_db t] by (intro exI [of _ t]) simp
qed

lemma get_agent_ok: "get_agent org_id i d = ok a \<Longrightarrow> ag_id a = i \<and> ag_organization_id a = org_id"
  by (auto simp: get_agent_def scan_agent_def Let_def split: sum.splits dest!: query_row_okD)

lemma add_team_agents_props:
  "distinct (map ag_id acc) \<Longrightarrow>
    distinct (map ag_id (add_team_agents org_id d as acc))
    \<and> set acc \<subseteq> set (add_team_agents org_id d as acc)
    \<and> (\<forall>a \<in> set (add_team_agents org_id d as acc). a \<in> set acc \<or> (ag_id a \<in> set as \<and> ag_organization_id a = org_id))"
proof (induction as arbitrary: acc)
  case (Cons a as)
  show ?case
  proof (cases "a \<in> ag_id ` set acc \<or> isl (get_agent org_id a d)")
    case True
    with Cons show ?thesis by (auto split: sum.splits simp: isl_def)
  next
    case False
    then obtain ag where ag: "get_agent org_id a d = ok ag" by (auto simp: isl_def) (metis obj_sumE)
    note p = get_agent_ok [OF ag]
    from False p Cons.prems have "distinct (map ag_id (acc @ [ag]))" by auto
    from Cons.IH [OF this] False ag p show ?thesis by auto
  qed
qed simp

text \<open>
  The agents offered for a task are distinct, active, play the required role and have all the
  required capabilities, and each is assigned to the project or belongs, in the same
  organization, to a team of the project.
\<close>

theorem eligible_agents_sound:
  assumes "distinct (map ag_id (agents d))"
  shows "distinct (map ag_id (get_eligible_agents org_id project_id role caps d))
    \<and> list_all (\<lambda>a. ag_status a = ''active'' \<and> matches_role role a \<and> has_capabilities caps a
        \<and> ((project_id, ag_id a) \<in> set (project_agents d)
           \<or> ag_organization_id a = org_id \<and> (\<exists>m \<in> set (members d). tm_agent_id m = ag_id a
               \<and> (project_id, tm_team_id m) \<in> set (project_teams d))))
      (get_eligible_agents org_id project_id role caps d)"
proof -
  let ?as = "[tm_agent_id m. m \<leftarrow> members d, pt \<leftarrow> project_teams d, pt = (project_id, tm_team_id m)]"
  let ?l = "list_project_agents project_id d"
  have "distinct (map ag_id (map scan_agent (filter (\<lambda>a. (project_id, ag_id a) \<in> set (project_agents d)) (agents d))))"
    using assms by (simp add: comp_def scan_agent_def distinct_map_filter)
  then have "distinct (map ag_id ?l)"
    unfolding list_project_agents_def by (metis distinct_map distinct_sort set_sort)
  note p = add_team_agents_props [OF this, of org_id d ?as]
  have team: "i \<in> set ?as \<longleftrightarrow> (\<exists>m \<in> set (members d). tm_agent_id m = i \<and> (project_id, tm_team_id m) \<in> set (project_teams d))" for i
    by auto
  have "(project_id, ag_id a) \<in> set (project_agents d)" if "a \<in> set ?l" for a
    using that by (auto simp: list_project_agents_def scan_agent_def)
  then have c: "(project_id, ag_id a) \<in> set (project_agents d)
      \<or> ag_organization_id a = org_id \<and> (\<exists>m \<in> set (members d). tm_agent_id m = ag_id a
          \<and> (project_id, tm_team_id m) \<in> set (project_teams d))"
    if "a \<in> set (add_team_agents org_id d ?as ?l)" for a
    using p team [of "ag_id a"] that by blast
  have "distinct (map ag_id (add_team_agents org_id d ?as ?l))" using p by blast
  then have "distinct (map ag_id (get_eligible_agents org_id project_id role caps d))"
    unfolding get_eligible_agents_def Let_def by (rule distinct_map_filter)
  moreover have "a \<in> set (add_team_agents org_id d ?as ?l) \<and> ag_status a = ''active''
      \<and> matches_role role a \<and> has_capabilities caps a"
    if "a \<in> set (get_eligible_agents org_id project_id role caps d)" for a
    using that unfolding get_eligible_agents_def Let_def by simp
  ultimately show ?thesis using c unfolding list_all_iff by blast
qed

lemma eligible_agents_sound_witness:
  "distinct (map ag_id (agents demo_db)) \<and> map ag_id (get_eligible_agents 1 3 (Some ''writing'') [''draft''] demo_db) = [4]
   \<and> list_all (\<lambda>a. ag_status a = ''active'') (get_eligible_agents 1 3 (Some ''writing'') [''draft''] demo_db)"
proof -
  have d: "distinct (map ag_id (agents demo_db))" by code_simp
  moreover have "map ag_id (get_eligible_agents 1 3 (Some ''writing'') [''draft''] demo_db) = [4]" by code_simp
  ultimately show ?thesis using eligible_agents_sound [OF d] by (auto simp: list_all_iff)
qed

end
