(* ===== verification/Teams.thy ===== *)
theory Teams
  imports Tasks
begin

text \<open>
  \<^verbatim>\<open>backend/internal/repository/team.go\<close>: teams, their members and coordinator, the teams of a
  project, the activity log, and the dependencies between tasks with their cycle check.
\<close>

section \<open>Teams\<close>

text \<open>\<^verbatim>\<open>slugify\<close> (repository.go); \<open>fresh\<close> is the UUID an empty slug falls back to.\<close>

definition slug_char :: "char \<Rightarrow> bool" where
  "slug_char c \<longleftrightarrow> (let n = (of_char c :: nat) in 97 \<le> n \<and> n \<le> 122 \<or> 48 \<le> n \<and> n \<le> 57) \<or> c = CHR ''-''"

definition trim_dashes :: "string \<Rightarrow> string" where
  "trim_dashes s = rev (dropWhile (\<lambda>c. c = CHR ''-'') (rev (dropWhile (\<lambda>c. c = CHR ''-'') s)))"

definition slugify :: "golib \<Rightarrow> string \<Rightarrow> db \<Rightarrow> string \<times> db" where
  "slugify g s d =
     (let s = map (\<lambda>c. if c = CHR '' '' \<or> c = CHR ''_'' then CHR ''-'' else c) (to_lower (trim_space s));
          out = trim_dashes (filter slug_char s)
      in if out = [] then (take 8 (uuid_string g (next_id d)), d\<lparr>next_id := next_id d + 1\<rparr>) else (out, d))"

definition insert_team :: "uuid \<Rightarrow> string \<Rightarrow> string \<Rightarrow> string \<Rightarrow> string \<Rightarrow> uuid \<Rightarrow> db \<Rightarrow> (agent_team \<times> db) res" where
  "insert_team org_id name slug objective description created_by d =
     (if \<exists>t \<in> set (teams d). team_organization_id t = org_id \<and> team_slug t = slug
      then fail (unique_violation ''agent_teams_organization_id_slug_key'')
      else if org_id \<notin> set (orgs d) then fail (fk_violation ''agent_teams_organization_id_fkey'')
      else if created_by \<notin> set (users d) then fail (fk_violation ''agent_teams_created_by_fkey'')
      else (let t = \<lparr>team_uuid = next_id d, team_organization_id = org_id, team_name = name, team_slug = slug,
                team_objective = objective, team_description = description, team_status = ''draft'',
                team_created_by = Some created_by, team_coordinator_agent_id = None,
                team_created_at = now d, team_updated_at = now d, team_members = [],
                team_current_version = None\<rparr>
            in ok (t, d\<lparr>teams := teams d @ [t], next_id := next_id d + 1\<rparr>)))"

fun create_team_loop :: "golib \<Rightarrow> nat \<Rightarrow> uuid \<Rightarrow> string \<Rightarrow> string \<Rightarrow> string \<Rightarrow> string \<Rightarrow> string \<Rightarrow> uuid \<Rightarrow> db \<Rightarrow> db \<times> agent_team res" where
  "create_team_loop g 0 org_id name base slug objective description created_by d = (d, fail ''failed to create team'')"
| "create_team_loop g (Suc n) org_id name base slug objective description created_by d =
     (case insert_team org_id name slug objective description created_by d of
        Inr (t, d') \<Rightarrow> (d', ok t)
      | Inl e \<Rightarrow>
          if \<not> contains e ''duplicate'' then (d, fail e)
          else create_team_loop g n org_id name base (base @ ''-'' @ take 4 (uuid_string g (next_id d)))
                 objective description created_by (d\<lparr>next_id := next_id d + 1\<rparr>))"

definition create_team :: "golib \<Rightarrow> uuid \<Rightarrow> string \<Rightarrow> string \<Rightarrow> string \<Rightarrow> uuid \<Rightarrow> db \<Rightarrow> db \<times> agent_team res" where
  "create_team g org_id name objective description created_by d =
     (let (slug, d) = slugify g name d
      in create_team_loop g 5 org_id name slug slug objective description created_by d)"

definition list_team_members :: "uuid \<Rightarrow> db \<Rightarrow> agent_team_member list" where
  "list_team_members t d = filter (\<lambda>m. tm_team_id m = t) (members d)"

definition create_team_version :: "uuid \<Rightarrow> int \<Rightarrow> string \<Rightarrow> workflow_step list \<Rightarrow> string list \<Rightarrow> string list \<Rightarrow> gomap option
    \<Rightarrow> gomap option \<Rightarrow> gomap option \<Rightarrow> uuid \<Rightarrow> db \<Rightarrow> db \<times> agent_team_version res" where
  "create_team_version t version objective workflow comm deleg perms approval config created_by d =
     (if version \<le> 0 then (d, fail (check_violation ''agent_team_versions_version_check''))
      else if \<exists>v \<in> set (team_versions d). tver_team_id v = t \<and> tver_version v = version
      then (d, fail (unique_violation ''agent_team_versions_team_id_version_key''))
      else if t \<notin> team_uuid ` set (teams d) then (d, fail (fk_violation ''agent_team_versions_team_id_fkey''))
      else if created_by \<notin> set (users d) then (d, fail (fk_violation ''agent_team_versions_created_by_fkey''))
      else (let v = \<lparr>tver_id = next_id d, tver_team_id = t, tver_version = version, tver_objective = objective,
                 tver_workflow = workflow, tver_communication_rules = comm, tver_delegation_rules = deleg,
                 tver_permissions = perms, tver_approval_policy = approval, tver_config = config,
                 tver_created_by = Some created_by, tver_created_at = now d\<rparr>
            in (d\<lparr>team_versions := team_versions d @ [v], next_id := next_id d + 1\<rparr>, ok v)))"

definition get_team_version :: "uuid \<Rightarrow> int \<Rightarrow> db \<Rightarrow> agent_team_version res" where
  "get_team_version t version d = query_row (\<lambda>v. tver_team_id v = t \<and> tver_version v = version) (team_versions d)"

definition list_team_versions :: "uuid \<Rightarrow> db \<Rightarrow> agent_team_version list" where
  "list_team_versions t d = sort_key tver_version (filter (\<lambda>v. tver_team_id v = t) (team_versions d))"

text \<open>The version a team is shown with is always its first.\<close>

definition get_team :: "uuid \<Rightarrow> uuid \<Rightarrow> db \<Rightarrow> agent_team res" where
  "get_team org_id t d =
     (case query_row (\<lambda>r. team_uuid r = t \<and> team_organization_id r = org_id) (teams d) of
        Inl e \<Rightarrow> fail e
      | Inr r \<Rightarrow> ok (r\<lparr>team_members := list_team_members t d,
          team_current_version := (case get_team_version t 1 d of Inl _ \<Rightarrow> None | Inr v \<Rightarrow> Some v)\<rparr>))"

definition list_teams :: "uuid \<Rightarrow> db \<Rightarrow> agent_team list" where
  "list_teams org_id d = rev (filter (\<lambda>t. team_organization_id t = org_id) (teams d))"

definition add_team_member :: "uuid \<Rightarrow> uuid \<Rightarrow> string \<Rightarrow> string \<Rightarrow> string list \<Rightarrow> string list \<Rightarrow> string list \<Rightarrow> db
    \<Rightarrow> db \<times> agent_team_member res" where
  "add_team_member t agent_id role responsibilities dependencies tls knowledge d =
     (if \<exists>m \<in> set (members d). tm_team_id m = t \<and> tm_agent_id m = agent_id
      then (d, fail (unique_violation ''agent_team_members_team_id_agent_id_key''))
      else if t \<notin> team_uuid ` set (teams d) then (d, fail (fk_violation ''agent_team_members_team_id_fkey''))
      else if agent_id \<notin> ag_id ` set (agents d) then (d, fail (fk_violation ''agent_team_members_agent_id_fkey''))
      else (let m = \<lparr>tm_id = next_id d, tm_team_id = t, tm_agent_id = agent_id, tm_role = role,
                tm_responsibilities = responsibilities, tm_dependencies = dependencies, tm_tools = tls,
                tm_knowledge_requirements = knowledge, tm_added_at = now d\<rparr>
            in (d\<lparr>members := members d @ [m], next_id := next_id d + 1\<rparr>, ok m)))"

definition remove_team_member :: "uuid \<Rightarrow> uuid \<Rightarrow> db \<Rightarrow> db" where
  "remove_team_member t agent_id d =
     d\<lparr>members := filter (\<lambda>m. \<not> (tm_team_id m = t \<and> tm_agent_id m = agent_id)) (members d)\<rparr>"

definition set_team_coordinator :: "uuid \<Rightarrow> uuid \<Rightarrow> uuid \<Rightarrow> db \<Rightarrow> db \<times> unit res" where
  "set_team_coordinator org_id t agent_id d =
     (if \<not> (\<exists>m \<in> set (members d). tm_team_id m = t \<and> tm_agent_id m = agent_id)
      then (d, fail ''coordinator must belong to team'')
      else if agent_id \<notin> ag_id ` set (agents d)
              \<and> (\<exists>r \<in> set (teams d). team_uuid r = t \<and> team_organization_id r = org_id)
      then (d, fail (fk_violation ''agent_teams_coordinator_agent_id_fkey''))
      else (d\<lparr>teams := update_where (\<lambda>r. team_uuid r = t \<and> team_organization_id r = org_id)
                (\<lambda>r. r\<lparr>team_coordinator_agent_id := Some agent_id, team_updated_at := now d\<rparr>) (teams d)\<rparr>, ok ()))"

definition get_team_coordinator :: "uuid \<Rightarrow> uuid \<Rightarrow> db \<Rightarrow> agent res" where
  "get_team_coordinator org_id t d =
     (case query_row (\<lambda>r. team_uuid r = t \<and> team_organization_id r = org_id) (teams d) of
        Inl e \<Rightarrow> fail e
      | Inr r \<Rightarrow> (case team_coordinator_agent_id r of
                    None \<Rightarrow> fail ''team has no coordinator''
                  | Some a \<Rightarrow> get_agent org_id a d))"

definition assign_team_to_project :: "uuid \<Rightarrow> uuid \<Rightarrow> uuid \<Rightarrow> db \<Rightarrow> db \<times> unit res" where
  "assign_team_to_project project_id t assigned_by d =
     (if (project_id, t) \<in> set (project_teams d) then (d, ok ())
      else if project_id \<notin> pr_id ` set (projects d) then (d, fail (fk_violation ''project_teams_project_id_fkey''))
      else if t \<notin> team_uuid ` set (teams d) then (d, fail (fk_violation ''project_teams_team_id_fkey''))
      else if assigned_by \<notin> set (users d) then (d, fail (fk_violation ''project_teams_assigned_by_fkey''))
      else (d\<lparr>project_teams := project_teams d @ [(project_id, t)]\<rparr>, ok ()))"

text \<open>
  \<^verbatim>\<open>ListProjectTeams\<close> selects ten columns and scans into eleven variables, so the first row is
  an error.
\<close>

definition list_project_teams :: "uuid \<Rightarrow> db \<Rightarrow> agent_team list res" where
  "list_project_teams project_id d =
     (case filter (\<lambda>t. (project_id, team_uuid t) \<in> set (project_teams d)) (teams d) of
        [] \<Rightarrow> ok []
      | _ \<Rightarrow> fail ''sql: expected 10 destination arguments in Scan, not 11'')"

definition add_team_activity :: "uuid \<Rightarrow> uuid \<Rightarrow> string \<Rightarrow> uuid option \<Rightarrow> string \<Rightarrow> gomap option \<Rightarrow> db \<Rightarrow> db \<times> unit res" where
  "add_team_activity t org_id actor_type actor_id event_type payload d =
     (if actor_type \<notin> set actor_type_check then (d, fail (check_violation ''team_activity_actor_type_check''))
      else if t \<notin> team_uuid ` set (teams d) then (d, fail (fk_violation ''team_activity_team_id_fkey''))
      else if org_id \<notin> set (orgs d) then (d, fail (fk_violation ''team_activity_organization_id_fkey''))
      else (d\<lparr>activities := activities d @ [\<lparr>tv_team_id = t, tv_organization_id = org_id,
                tv_actor_type = actor_type, tv_actor_id = actor_id, tv_event_type = event_type,
                tv_payload = payload, tv_created_at = now d\<rparr>]\<rparr>, ok ()))"

definition list_team_activity :: "uuid \<Rightarrow> int \<Rightarrow> db \<Rightarrow> team_activity list" where
  "list_team_activity t limit d = newest (clamp_limit 50 limit) (filter (\<lambda>a. tv_team_id a = t) (activities d))"

section \<open>Task dependencies\<close>

text \<open>The rows of one task in \<^verbatim>\<open>task_dependencies\<close>, a list of pairs (task, the task it depends on).\<close>

definition list_task_dependencies :: "uuid \<Rightarrow> db \<Rightarrow> uuid list" where
  "list_task_dependencies t d = map snd (filter (\<lambda>e. fst e = t) (task_dependencies d))"

definition successors :: "(uuid \<times> uuid) list \<Rightarrow> uuid \<Rightarrow> uuid list" where
  "successors deps cur = map snd (filter (\<lambda>e. fst e = cur) deps)"

text \<open>The breadth-first search of \<^verbatim>\<open>AddTaskDependency\<close>: is \<open>t\<close> reached from the queue?\<close>

function (sequential) dep_search :: "(uuid \<times> uuid) list \<Rightarrow> uuid \<Rightarrow> uuid set \<Rightarrow> uuid list \<Rightarrow> bool" where
  "dep_search deps t visited [] = False"
| "dep_search deps t visited (cur # queue) =
     (if cur = t then True
      else if cur \<in> visited then dep_search deps t visited queue
      else dep_search deps t (insert cur visited) (queue @ successors deps cur))"
  by pat_completeness auto

termination
proof (relation "measures [\<lambda>(deps, t, visited, queue). card (fst ` set deps - visited),
      \<lambda>(deps, t, visited, queue). length queue]", goal_cases)
  case 1
  then show ?case by simp
next
  case (2 deps t visited cur queue)
  then show ?case by simp
next
  case (3 deps t visited cur queue)
  show ?case
  proof (cases "cur \<in> fst ` set deps")
    case True
    with 3 have "card (fst ` set deps - insert cur visited) < card (fst ` set deps - visited)"
      by (intro psubset_card_mono) auto
    then show ?thesis by simp
  next
    case False
    then have "successors deps cur = []" by (force simp: successors_def filter_empty_conv)
    moreover have "fst ` set deps - insert cur visited = fst ` set deps - visited" using False by auto
    ultimately show ?thesis by simp
  qed
qed

declare dep_search.simps(2) [simp del]

definition add_task_dependency :: "uuid \<Rightarrow> uuid \<Rightarrow> db \<Rightarrow> db \<times> unit res" where
  "add_task_dependency t depends_on d =
     (if dep_search (task_dependencies d) t {t} [depends_on] then (d, fail ''cycle detected'')
      else if t = depends_on then (d, fail (check_violation ''task_dependencies_check''))
      else if (t, depends_on) \<in> set (task_dependencies d) then (d, ok ())
      else if t \<notin> t_id ` set (tasks d) then (d, fail (fk_violation ''task_dependencies_task_id_fkey''))
      else if depends_on \<notin> t_id ` set (tasks d) then (d, fail (fk_violation ''task_dependencies_depends_on_task_id_fkey''))
      else (d\<lparr>task_dependencies := task_dependencies d @ [(t, depends_on)]\<rparr>, ok ()))"

text \<open>The first dependency that is not completed decides; a missing task counts as not completed.\<close>

definition is_task_blocked :: "uuid \<Rightarrow> db \<Rightarrow> bool" where
  "is_task_blocked t d =
     list_ex (\<lambda>dep. (case query_row (\<lambda>r. t_id r = dep) (tasks d) of Inl _ \<Rightarrow> [] | Inr r \<Rightarrow> t_status r) \<noteq> ''completed'')
       (list_task_dependencies t d)"

section \<open>The cycle check is exact\<close>

lemma successors_iff [simp]: "w \<in> set (successors deps v) \<longleftrightarrow> (v, w) \<in> set deps"
  by (force simp: successors_def)

lemma dep_search_sound: "dep_search deps t visited queue \<Longrightarrow> \<exists>x \<in> set queue. (x, t) \<in> (set deps)\<^sup>*"
proof (induction deps t visited queue rule: dep_search.induct)
  case (2 deps t visited cur queue)
  show ?case
  proof (cases "cur = t \<or> cur \<in> visited")
    case True
    with 2 show ?thesis by (auto simp: dep_search.simps(2) split: if_splits)
  next
    case False
    then have "\<exists>x \<in> set (queue @ successors deps cur). (x, t) \<in> (set deps)\<^sup>*"
      using 2 by (simp add: dep_search.simps(2))
    then show ?thesis by (auto intro: converse_rtrancl_into_rtrancl)
  qed
qed simp

text \<open>
  The search keeps: a successor of a visited node, the target apart, was visited itself or is
  in the queue.
\<close>

definition search_inv :: "(uuid \<times> uuid) list \<Rightarrow> uuid \<Rightarrow> uuid set \<Rightarrow> uuid list \<Rightarrow> bool" where
  "search_inv deps t visited queue \<longleftrightarrow>
     (\<forall>v \<in> visited - {t}. \<forall>w. (v, w) \<in> set deps \<longrightarrow> w \<in> (visited - {t}) \<union> set queue)"

lemma closed_unreachable:
  assumes "(x, y) \<in> E\<^sup>*" and "x \<in> V" and "\<forall>v \<in> V. \<forall>w. (v, w) \<in> E \<longrightarrow> w \<in> V"
  shows "y \<in> V"
  using assms by (induction rule: rtrancl_induct) auto

lemma dep_search_complete:
  "\<not> dep_search deps t visited queue \<Longrightarrow> t \<in> visited \<Longrightarrow> search_inv deps t visited queue \<Longrightarrow>
    x \<in> set queue \<union> (visited - {t}) \<Longrightarrow> (x, t) \<notin> (set deps)\<^sup>*"
proof (induction deps t visited queue rule: dep_search.induct)
  case (1 deps t visited)
  then have closed: "\<forall>v \<in> visited - {t}. \<forall>w. (v, w) \<in> set deps \<longrightarrow> w \<in> visited - {t}"
    and x: "x \<in> visited - {t}"
    unfolding search_inv_def list.set Un_empty_right Un_empty_left by blast+
  show ?case using closed_unreachable [OF _ x closed, of t] by blast
next
  case (2 deps t visited cur queue)
  from 2(3) have cur: "cur \<noteq> t" by (auto simp: dep_search.simps(2))
  show ?case
  proof (cases "cur \<in> visited")
    case True
    have inv: "search_inv deps t visited queue" using 2(5) True cur by (auto simp: search_inv_def)
    have not: "\<not> dep_search deps t visited queue" using 2(3) cur True by (simp add: dep_search.simps(2))
    show ?thesis by (rule 2(1) [OF cur True not 2(4) inv]) (use 2(6) True cur in auto)
  next
    case False
    have inv: "search_inv deps t (insert cur visited) (queue @ successors deps cur)"
      using 2(5) cur by (auto simp: search_inv_def)
    have not: "\<not> dep_search deps t (insert cur visited) (queue @ successors deps cur)"
      using 2(3) cur False by (simp add: dep_search.simps(2))
    show ?thesis by (rule 2(2) [OF cur False not _ inv]) (use 2(4,6) cur in auto)
  qed
qed

lemma dep_search_iff: "dep_search deps t {t} [x] \<longleftrightarrow> (x, t) \<in> (set deps)\<^sup>*"
  using dep_search_sound [of deps t "{t}" "[x]"] dep_search_complete [of deps t "{t}" "[x]" x]
  by (auto simp: search_inv_def)

text \<open>
  The cycle check of \<^verbatim>\<open>AddTaskDependency\<close> is exact. A dependency is refused as a cycle exactly
  when the new edge would close one, that is when the other task already depends, directly or
  through others, on this one; the search ends because every task is visited at most once.
\<close>

theorem cycle_check_exact:
  "snd (add_task_dependency t x d) = fail ''cycle detected'' \<longleftrightarrow> (x, t) \<in> (set (task_dependencies d))\<^sup>*"
  by (simp add: add_task_dependency_def dep_search_iff fk_violation_def check_violation_def)

fun add_dependencies :: "(uuid \<times> uuid) list \<Rightarrow> db \<Rightarrow> db" where
  "add_dependencies [] d = d"
| "add_dependencies ((t, x) # es) d = add_dependencies es (fst (add_task_dependency t x d))"

lemma add_task_dependency_acyclic:
  assumes "acyclic (set (task_dependencies d))"
  shows "acyclic (set (task_dependencies (fst (add_task_dependency t x d))))"
  using assms by (simp add: add_task_dependency_def dep_search_iff acyclic_insert)

text \<open>
  C22: the dependencies between tasks never form a cycle, whatever sequence of
  \<^verbatim>\<open>AddTaskDependency\<close> calls is made; so no set of tasks can block one another for ever.
\<close>

theorem dependencies_acyclic:
  "acyclic (set (task_dependencies d)) \<Longrightarrow> acyclic (set (task_dependencies (add_dependencies es d)))"
  by (induction es d rule: add_dependencies.induct) (simp_all add: add_task_dependency_acyclic)

lemma dependencies_acyclic_witness:
  "acyclic (set (task_dependencies (add_dependencies [(1, 2), (2, 3), (3, 1)] demo_db)))
   \<and> snd (add_task_dependency 3 1 (demo_db\<lparr>task_dependencies := [(1, 2), (2, 3)]\<rparr>)) = fail ''cycle detected''"
proof
  show "acyclic (set (task_dependencies (add_dependencies [(1, 2), (2, 3), (3, 1)] demo_db)))"
    by (rule dependencies_acyclic) (simp add: demo_db_def empty_db_def acyclic_def)
  have "(1::uuid, 3) \<in> (set [(1, 2), (2, 3)])\<^sup>*"
    by (rule converse_rtrancl_into_rtrancl [of _ 2]) auto
  then show "snd (add_task_dependency 3 1 (demo_db\<lparr>task_dependencies := [(1, 2), (2, 3)]\<rparr>)) = fail ''cycle detected''"
    by (simp add: add_task_dependency_def dep_search_iff)
qed

text \<open>
  In a consistent database a task is blocked exactly when one of the tasks it depends on is
  not completed.
\<close>

theorem is_task_blocked_iff:
  "is_task_blocked t d \<longleftrightarrow>
    (\<exists>x. (t, x) \<in> set (task_dependencies d) \<and> status_of x d \<noteq> Some ''completed'')"
proof -
  have "((case query_row (\<lambda>r. t_id r = x) (tasks d) of Inl _ \<Rightarrow> [] | Inr r \<Rightarrow> t_status r) \<noteq> ''completed'')
      = (status_of x d \<noteq> Some ''completed'')" for x
    by (auto simp: status_of_def split: sum.split)
  then show ?thesis
    by (force simp: is_task_blocked_def list_ex_iff list_task_dependencies_def)
qed

section \<open>Teams\<close>

text \<open>
  \<^verbatim>\<open>SetTeamCoordinator\<close> succeeds only for a member of the team, and then the team's
  coordinator is that agent.
\<close>

theorem coordinator_is_member:
  assumes "set_team_coordinator org_id t a d = (d', ok ())" and "get_team org_id t d = ok tm"
  shows "a \<in> tm_agent_id ` set (list_team_members t d')
    \<and> (\<exists>tm'. get_team org_id t d' = ok tm' \<and> team_coordinator_agent_id tm' = Some a)"
proof -
  from assms(1) have m: "\<exists>m \<in> set (members d). tm_team_id m = t \<and> tm_agent_id m = a"
    and d': "d' = d\<lparr>teams := update_where (\<lambda>r. team_uuid r = t \<and> team_organization_id r = org_id)
                (\<lambda>r. r\<lparr>team_coordinator_agent_id := Some a, team_updated_at := now d\<rparr>) (teams d)\<rparr>"
    by (auto simp: set_team_coordinator_def split: if_splits)
  from assms(2) obtain r where "query_row (\<lambda>r. team_uuid r = t \<and> team_organization_id r = org_id) (teams d) = ok r"
    by (auto simp: get_team_def split: sum.splits)
  with m d' show ?thesis by (auto simp: list_team_members_def get_team_def query_row_update)
qed

definition demo_team_db :: db where
  "demo_team_db = fst (add_team_member 100 4 ''lead'' [] [] [] [] (fst (create_team demo_golib 1 ''Core Team'' [] [] 2 demo_db)))"

lemma coordinator_is_member_witness:
  "\<exists>tm'. get_team 1 100 (fst (set_team_coordinator 1 100 4 demo_team_db)) = ok tm'
     \<and> team_coordinator_agent_id tm' = Some 4"
proof -
  have "snd (set_team_coordinator 1 100 4 demo_team_db) = ok ()" "\<not> isl (get_team 1 100 demo_team_db)"
    by code_simp+
  then have "set_team_coordinator 1 100 4 demo_team_db = (fst (set_team_coordinator 1 100 4 demo_team_db), ok ())"
    and "get_team 1 100 demo_team_db = ok (projr (get_team 1 100 demo_team_db))"
    by (metis surjective_pairing, metis sum.collapse(2))
  from coordinator_is_member [OF this] show ?thesis by blast
qed

text \<open>
  \<^verbatim>\<open>ListProjectTeams\<close> fails for every project that has a team, as its scan does not fit its
  query.
\<close>

theorem list_project_teams_fails:
  "isl (list_project_teams p d) \<longleftrightarrow> (\<exists>t \<in> set (teams d). (p, team_uuid t) \<in> set (project_teams d))"
  by (auto simp: list_project_teams_def filter_empty_conv split: list.split)
    (metis (mono_tags, lifting) filter_empty_conv list.distinct(1))

end
