(* ===== verification/Worker.thy ===== *)
theory Worker
  imports Store "HOL-Library.Word"
begin

text \<open>
  \<^verbatim>\<open>backend/internal/worker\<close>: the in-memory pool (\<^verbatim>\<open>worker.go\<close>) with its idempotency window,
  bounded queue, retries and backoff, and the durable queue on the table \<^verbatim>\<open>jobs\<close>
  (\<^verbatim>\<open>durable.go\<close>). A handler is a function on the state of the outside world; so is the
  question whether the pool's context was cancelled.
\<close>

section \<open>The pool\<close>

record job =
  job_id :: string
  job_type :: string
  job_payload :: gomap
  job_retries :: int
  job_timeout :: int \<comment> \<open>seconds\<close>
  job_key :: string

record pool =
  p_queue :: "job list"
  p_capacity :: nat
  p_idem :: "(string \<times> time) list"

definition new_pool :: "nat \<Rightarrow> pool" where
  "new_pool n = \<lparr>p_queue = [], p_capacity = n * 4, p_idem = []\<rparr>"

definition job_defaults :: "job \<Rightarrow> job" where
  "job_defaults j =
     (let j = (if job_key j = [] then j\<lparr>job_key := job_id j @ '':'' @ job_type j\<rparr> else j);
          j = (if job_timeout j = 0 then j\<lparr>job_timeout := 30\<rparr> else j)
      in if job_retries j = 0 then j\<lparr>job_retries := 3\<rparr> else j)"

definition idem_window :: time where "idem_window = 24 * 60 * 60"

text \<open>
  The idempotency part of \<^verbatim>\<open>Enqueue\<close>: false when the key is known and has not expired; otherwise
  the key is recorded and, when the map is large, expired keys are removed.
\<close>

definition claim_idem :: "(string \<times> time) list \<Rightarrow> time \<Rightarrow> string \<Rightarrow> (string \<times> time) list \<times> bool" where
  "claim_idem idem t k =
     (case map_of idem k of
        Some e \<Rightarrow> if t < e then (idem, False)
                  else (let idem = AList.update k (t + idem_window) idem
                        in (if 1000 < length idem then filter (\<lambda>(_, e). \<not> e < t) idem else idem, True))
      | None \<Rightarrow> (let idem = AList.update k (t + idem_window) idem
                 in (if 1000 < length idem then filter (\<lambda>(_, e). \<not> e < t) idem else idem, True)))"

definition enqueue :: "time \<Rightarrow> job \<Rightarrow> pool \<Rightarrow> pool" where
  "enqueue t j p =
     (let j = job_defaults j;
          (idem, fresh) = claim_idem (p_idem p) t (job_key j)
      in if \<not> fresh then p
         else (let p = p\<lparr>p_idem := idem\<rparr>
               in if length (p_queue p) < p_capacity p then p\<lparr>p_queue := p_queue p @ [j]\<rparr> else p))"

section \<open>Execution with retries\<close>

text \<open>
  \<^verbatim>\<open>time.Duration(1<<attempt) * time.Second\<close>, capped at 30 seconds, in nanoseconds on 64 bits.
\<close>

definition backoff_raw :: "nat \<Rightarrow> 64 word" where
  "backoff_raw attempt = push_bit attempt 1 * 1000000000"

definition backoff :: "nat \<Rightarrow> int" where
  "backoff attempt =
     (if 30000000000 < sint (backoff_raw attempt) then 30000000000 else sint (backoff_raw attempt))"

text \<open>
  The loop over the attempts of one job; \<open>n\<close> is the number of attempts left. The result is the
  state, the last error and the delays waited. The \<^verbatim>\<open>break\<close> in the cancellation check before an
  attempt, and the one while waiting, leave only their \<^verbatim>\<open>select\<close>: the attempt is made all the
  same. Only a failed attempt that finds the context cancelled ends the loop.
\<close>

fun attempt_loop :: "('s \<Rightarrow> job \<Rightarrow> 's \<times> unit res) \<Rightarrow> ('s \<Rightarrow> bool) \<Rightarrow> job \<Rightarrow> nat \<Rightarrow> nat \<Rightarrow> 's
    \<Rightarrow> 's \<times> string option \<times> int list" where
  "attempt_loop h cancelled j 0 attempt s = (s, None, [])"
| "attempt_loop h cancelled j (Suc n) attempt s =
     (case h s j of
        (s', Inr _) \<Rightarrow> (s', None, [])
      | (s', Inl e) \<Rightarrow>
          if cancelled s' then (s', Some e, [])
          else if int attempt < job_retries j then
            (let (s'', err, waits) = attempt_loop h cancelled j n (Suc attempt) s'
             in (s'', err, backoff attempt # waits))
          else (s', Some e, []))"

definition run_job :: "(string \<Rightarrow> ('s \<Rightarrow> job \<Rightarrow> 's \<times> unit res) option) \<Rightarrow> ('s \<Rightarrow> bool) \<Rightarrow> job \<Rightarrow> 's
    \<Rightarrow> 's \<times> string option \<times> int list" where
  "run_job handlers cancelled j s =
     (case handlers (job_type j) of
        None \<Rightarrow> (s, None, [])
      | Some h \<Rightarrow> attempt_loop h cancelled j (nat (job_retries j + 1)) 0 s)"

text \<open>One turn of a worker: take the oldest job and run it.\<close>

definition worker_turn :: "(string \<Rightarrow> ('s \<Rightarrow> job \<Rightarrow> 's \<times> unit res) option) \<Rightarrow> ('s \<Rightarrow> bool) \<Rightarrow> pool \<Rightarrow> 's \<Rightarrow> pool \<times> 's" where
  "worker_turn handlers cancelled p s =
     (case p_queue p of
        [] \<Rightarrow> (p, s)
      | j # js \<Rightarrow> (p\<lparr>p_queue := js\<rparr>, fst (run_job handlers cancelled j s)))"

section \<open>The durable queue\<close>

definition job_type_check :: "string list" where
  "job_type_check = [''agent_run'', ''ingest_document'', ''scheduled_task'', ''evaluation'']"

text \<open>The columns migration 000010 gives the table; a statement that names another column fails.\<close>

definition jobs_columns :: "string list" where
  "jobs_columns = [''id'', ''organization_id'', ''type'', ''payload'', ''status'', ''attempts'', ''max_retries'',
     ''idempotency_key'', ''claimed_by'', ''claimed_at'', ''next_retry_at'', ''created_at'', ''updated_at'']"

definition insert_job :: "job \<Rightarrow> db \<Rightarrow> db res" where
  "insert_job j d =
     (if job_type j \<notin> set job_type_check then fail (check_violation ''jobs_type_check'')
      else if \<exists>r \<in> set (jobs d). jr_idempotency_key r = Some (job_key j) then ok d
      else ok (d\<lparr>jobs := jobs d @ [\<lparr>jr_id = next_id d, jr_type = job_type j, jr_payload = Some (job_payload j),
                jr_status = ''pending'', jr_attempts = 0, jr_max_retries = job_retries j,
                jr_idempotency_key = Some (job_key j), jr_claimed_by = None, jr_claimed_at = None,
                jr_next_retry_at = Some (now d), jr_created_at = now d\<rparr>], next_id := next_id d + 1\<rparr>))"

text \<open>
  \<^verbatim>\<open>$1::uuid\<close> fails when the job's ID is not a UUID; then the second statement, without the
  organization, is tried.
\<close>

definition enqueue_durable :: "golib \<Rightarrow> job \<Rightarrow> db \<Rightarrow> pool \<Rightarrow> db \<times> pool \<times> unit res" where
  "enqueue_durable g j d p =
     (let j = job_defaults j;
          first = (if uuid_parse g (job_id j) = None then fail ''invalid input syntax for type uuid''
                   else insert_job j d)
      in case first of
           Inr d' \<Rightarrow> (d', enqueue (now d) j p, ok ())
         | Inl err \<Rightarrow>
             (case insert_job j d of
                Inr d' \<Rightarrow> (d', enqueue (now d) j p, ok ())
              | Inl err2 \<Rightarrow> (d, p, fail (''enqueue durable: '' @ err2 @ '' (first: '' @ err @ '')''))))"

definition undefined_column :: "string \<Rightarrow> string" where
  "undefined_column c = ''column does not exist: '' @ c"

text \<open>\<^verbatim>\<open>UPDATE jobs SET cols WHERE id = i\<close> against a table with the columns \<open>have\<close>.\<close>

definition update_job :: "string list \<Rightarrow> string list \<Rightarrow> (job_row \<Rightarrow> job_row) \<Rightarrow> uuid \<Rightarrow> db \<Rightarrow> db res" where
  "update_job have cols f i d =
     (case filter (\<lambda>c. c \<notin> set have) cols of
        c # _ \<Rightarrow> fail (undefined_column c)
      | [] \<Rightarrow> ok (d\<lparr>jobs := update_where (\<lambda>r. jr_id r = i) f (jobs d)\<rparr>))"

definition job_due :: "db \<Rightarrow> job_row \<Rightarrow> bool" where
  "job_due d r \<longleftrightarrow> jr_status r = ''pending'' \<and> (case jr_next_retry_at r of None \<Rightarrow> True | Some t \<Rightarrow> t \<le> now d)"

definition claim_job :: "string list \<Rightarrow> golib \<Rightarrow> string \<Rightarrow> db \<Rightarrow> db \<times> job res" where
  "claim_job have g worker d =
     (case query_row (job_due d) (jobs d) of
        Inl e \<Rightarrow> (d, fail e)
      | Inr r \<Rightarrow>
          (case update_job have [''status'', ''claimed_by'', ''claimed_at'', ''lease_until'', ''updated_at'']
                 (\<lambda>r. r\<lparr>jr_status := ''claimed'', jr_claimed_by := Some worker, jr_claimed_at := Some (now d)\<rparr>)
                 (jr_id r) d of
             Inl e \<Rightarrow> (d, fail e)
           | Inr d' \<Rightarrow>
               (d', ok \<lparr>job_id = uuid_string g (jr_id r), job_type = jr_type r,
                       job_payload = (case jr_payload r of None \<Rightarrow> [] | Some m \<Rightarrow> m),
                       job_retries = jr_max_retries r, job_timeout = 30, job_key = []\<rparr>)))"

definition ignore_err :: "db \<Rightarrow> db res \<Rightarrow> db" where
  "ignore_err d r = (case r of Inl _ \<Rightarrow> d | Inr d' \<Rightarrow> d')"

definition mark_dead :: "string list \<Rightarrow> uuid \<Rightarrow> db \<Rightarrow> db" where
  "mark_dead have i d = ignore_err d (update_job have [''status'', ''updated_at''] (\<lambda>r. r\<lparr>jr_status := ''dead''\<rparr>) i d)"

text \<open>The handler works on the outside world and on the database.\<close>

fun durable_attempts :: "string list \<Rightarrow> ('s \<times> db \<Rightarrow> job \<Rightarrow> ('s \<times> db) \<times> unit res) \<Rightarrow> job \<Rightarrow> uuid \<Rightarrow> nat \<Rightarrow> nat \<Rightarrow> 's \<times> db \<Rightarrow> 's \<times> db" where
  "durable_attempts have h j i 0 attempt (s, d) = (s, mark_dead have i d)"
| "durable_attempts have h j i (Suc n) attempt (s, d) =
     (case h (s, d) j of
        ((s, d), Inr _) \<Rightarrow>
          (s, ignore_err d (update_job have [''status'', ''completed_at'', ''updated_at'']
             (\<lambda>r. r\<lparr>jr_status := ''succeeded''\<rparr>) i d))
      | ((s, d), Inl e) \<Rightarrow>
          (let d = (if int attempt < job_retries j
                    then ignore_err d (update_job have [''status'', ''next_retry_at'', ''updated_at'']
                      (\<lambda>r. r\<lparr>jr_status := ''pending'', jr_next_retry_at := Some (now d + backoff attempt div 1000000000)\<rparr>) i d)
                    else d)
           in durable_attempts have h j i n (Suc attempt) (s, d)))"

definition execute_claimed :: "string list \<Rightarrow> golib \<Rightarrow> (string \<Rightarrow> ('s \<times> db \<Rightarrow> job \<Rightarrow> ('s \<times> db) \<times> unit res) option)
    \<Rightarrow> job \<Rightarrow> 's \<times> db \<Rightarrow> 's \<times> db" where
  "execute_claimed have g handlers j sd =
     (case uuid_parse g (job_id j) of
        None \<Rightarrow> sd
      | Some i \<Rightarrow>
          (case handlers (job_type j) of
             None \<Rightarrow> (fst sd, mark_dead have i (snd sd))
           | Some h \<Rightarrow>
               (let d = ignore_err (snd sd) (update_job have [''status'', ''attempts'', ''updated_at'']
                      (\<lambda>r. r\<lparr>jr_status := ''running'', jr_attempts := jr_attempts r + 1\<rparr>) i (snd sd))
                in durable_attempts have h j i (nat (job_retries j + 1)) 0 (fst sd, d))))"

section \<open>The idempotency window\<close>

definition idem_live :: "(string \<times> time) list \<Rightarrow> time \<Rightarrow> string \<Rightarrow> bool" where
  "idem_live idem t k \<longleftrightarrow> (\<exists>e. map_of idem k = Some e \<and> t < e)"

lemma claim_idem_taken:
  assumes "snd (claim_idem idem t k)"
  shows "map_of (fst (claim_idem idem t k)) k = Some (t + idem_window)"
  using assms by (auto simp: claim_idem_def Let_def update_conv' idem_window_def
      intro!: map_of_filter_snd split: option.splits if_splits)

lemma claim_idem_kept:
  assumes "idem_live idem t' k'" and "t \<le> t'"
  shows "idem_live (fst (claim_idem idem t k)) t' k'"
proof (cases "snd (claim_idem idem t k)")
  case False
  then have "fst (claim_idem idem t k) = idem"
    by (auto simp: claim_idem_def Let_def split: option.splits if_splits)
  with assms show ?thesis by simp
next
  case True
  from assms(1) obtain e where e: "map_of idem k' = Some e" "t' < e" by (auto simp: idem_live_def)
  have "k' \<noteq> k" using True e assms(2) by (auto simp: claim_idem_def)
  then have "map_of (AList.update k (t + idem_window) idem) k' = Some e" by (simp add: update_conv' e)
  then have "map_of (fst (claim_idem idem t k)) k' = Some e"
    using True e assms(2) by (auto simp: claim_idem_def Let_def intro!: map_of_filter_snd split: option.splits if_splits)
  with e show ?thesis by (simp add: idem_live_def)
qed

interpretation pool_window: claim_window claim_idem idem_live "\<lambda>t t'. t' < t + idem_window"
proof
  fix s t k assume "snd (claim_idem s t k)"
  then show "\<not> idem_live s t k" by (auto simp: claim_idem_def idem_live_def)
next
  fix s t k t' assume "snd (claim_idem s t k)" "t \<le> t'" "t' < t + idem_window"
  then show "idem_live (fst (claim_idem s t k)) t' k" by (simp add: idem_live_def claim_idem_taken)
qed (rule claim_idem_kept)

text \<open>The jobs the pool accepts from a sequence of requests at given times.\<close>

fun enqueue_all :: "(time \<times> job) list \<Rightarrow> pool \<Rightarrow> pool" where
  "enqueue_all [] p = p"
| "enqueue_all ((t, j) # rs) p = enqueue_all rs (enqueue t j p)"

definition req_key :: "time \<times> job \<Rightarrow> time \<times> string" where
  "req_key r = (fst r, job_key (job_defaults (snd r)))"

lemma enqueue_idem: "p_idem (enqueue t j p) = fst (claim_idem (p_idem p) t (job_key (job_defaults j)))"
proof -
  have "\<not> snd (claim_idem i t k) \<Longrightarrow> fst (claim_idem i t k) = i" for i k
    by (auto simp: claim_idem_def Let_def split: option.splits if_splits)
  then show ?thesis by (auto simp: enqueue_def Let_def split: prod.split) (metis fst_conv snd_conv)
qed

lemma enqueue_queue:
  "p_queue (enqueue t j p) =
     (if snd (claim_idem (p_idem p) t (job_key (job_defaults j))) \<and> length (p_queue p) < p_capacity p
      then p_queue p @ [job_defaults j] else p_queue p)
   \<and> p_capacity (enqueue t j p) = p_capacity p"
  by (simp add: enqueue_def Let_def split: prod.split)

fun admitted :: "(time \<times> job) list \<Rightarrow> pool \<Rightarrow> (time \<times> job) list" where
  "admitted [] p = []"
| "admitted ((t, j) # rs) p =
     (if p_queue (enqueue t j p) \<noteq> p_queue p then [(t, j)] else []) @ admitted rs (enqueue t j p)"

lemma admitted_queue: "p_queue (enqueue_all rs p) = p_queue p @ map (job_defaults \<circ> snd) (admitted rs p)"
  by (induction rs p rule: enqueue_all.induct) (auto simp: enqueue_queue)

lemma admitted_subseq: "subseq (admitted rs p) rs"
  by (induction rs p rule: enqueue_all.induct) auto

lemma admitted_accepted: "subseq (map req_key (admitted rs p)) (accepted claim_idem (p_idem p) (map req_key rs))"
proof (induction rs p rule: enqueue_all.induct)
  case (2 t j rs p)
  have k: "req_key (t, j) = (t, job_key (job_defaults j))" by (simp add: req_key_def)
  show ?case using 2 by (auto simp: k enqueue_queue enqueue_idem)
qed simp

text \<open>
  C24: the pool runs a job at most once per 24 hours. Of any sequence of requests made in the order
  of time, the jobs that reach the queue are some of the requested ones, in that order, and two
  of them with the same idempotency key were requested at least 24 hours apart; and the queue never exceeds its capacity.
\<close>

theorem pool_admits_once_per_window:
  assumes "sorted (map fst rs)" and "length (p_queue p) \<le> p_capacity p"
  shows "p_queue (enqueue_all rs p) = p_queue p @ map (job_defaults \<circ> snd) (admitted rs p)
    \<and> subseq (admitted rs p) rs
    \<and> sorted_wrt (\<lambda>(t, j) (t', j'). job_key (job_defaults j) = job_key (job_defaults j') \<longrightarrow> t + idem_window \<le> t') (admitted rs p)
    \<and> length (p_queue (enqueue_all rs p)) \<le> p_capacity p"
proof (intro conjI)
  have "map fst (map req_key rs) = map fst rs" by (simp add: req_key_def)
  then have "sorted_wrt (\<lambda>(t, k) (t', k'). k = k' \<longrightarrow> \<not> t' < t + idem_window)
      (accepted claim_idem (p_idem p) (map req_key rs))"
    using assms(1) by (intro pool_window.accepted_spaced) (simp only:)
  from subseq_sorted_wrt [OF admitted_accepted this]
  show "sorted_wrt (\<lambda>(t, j) (t', j'). job_key (job_defaults j) = job_key (job_defaults j') \<longrightarrow> t + idem_window \<le> t') (admitted rs p)"
    by (simp add: sorted_wrt_map req_key_def not_less) (erule sorted_wrt_mono_rel [rotated], simp add: case_prod_beta)
  show "length (p_queue (enqueue_all rs p)) \<le> p_capacity p"
    using assms(2) by (induction rs p rule: enqueue_all.induct) (auto simp: enqueue_queue)
qed (rule admitted_queue admitted_subseq)+

definition demo_job :: job where
  "demo_job = \<lparr>job_id = ''7'', job_type = ''agent_run'', job_payload = [], job_retries = 0, job_timeout = 0, job_key = []\<rparr>"

lemma pool_admits_once_per_window_witness:
  "map fst (admitted [(0, demo_job), (10, demo_job), (90000, demo_job)] (new_pool 1)) = [0, 90000]
   \<and> length (p_queue (enqueue_all [(0, demo_job), (10, demo_job), (90000, demo_job)] (new_pool 1))) \<le> 4"
proof
  show "map fst (admitted [(0, demo_job), (10, demo_job), (90000, demo_job)] (new_pool 1)) = [0, 90000]"
    by code_simp
  show "length (p_queue (enqueue_all [(0, demo_job), (10, demo_job), (90000, demo_job)] (new_pool 1))) \<le> 4"
    using pool_admits_once_per_window [of "[(0, demo_job), (10, demo_job), (90000, demo_job)]" "new_pool 1"]
    by (simp add: new_pool_def)
qed

text \<open>
  A job dropped because the queue was full is lost for the whole window: the key was recorded
  before the send, so every later request for it within 24 hours is refused, also when the queue has
  long been empty.
\<close>

theorem dropped_job_blocked:
  assumes "p_capacity p \<le> length (p_queue p)" and "t \<le> t'" and "t' < t + idem_window"
    and "\<not> idem_live (p_idem p) t (job_key (job_defaults j))"
  shows "p_queue (enqueue t j p) = p_queue p
    \<and> enqueue t' j ((enqueue t j p)\<lparr>p_queue := q\<rparr>) = (enqueue t j p)\<lparr>p_queue := q\<rparr>"
proof -
  let ?k = "job_key (job_defaults j)"
  have fresh: "snd (claim_idem (p_idem p) t ?k)"
    using assms(4) by (auto simp: claim_idem_def idem_live_def Let_def split: option.split)
  have "idem_live (p_idem (enqueue t j p)) t' ?k"
    using pool_window.taken [OF fresh assms(2,3)] by (simp add: enqueue_idem)
  then have "claim_idem (p_idem (enqueue t j p)) t' ?k = (p_idem (enqueue t j p), False)"
    by (auto simp: idem_live_def claim_idem_def)
  then have "enqueue t' j ((enqueue t j p)\<lparr>p_queue := q\<rparr>) = (enqueue t j p)\<lparr>p_queue := q\<rparr>"
    by (simp add: enqueue_def [of t'] Let_def)
  moreover have "p_queue (enqueue t j p) = p_queue p" using assms(1) by (simp add: enqueue_queue)
  ultimately show ?thesis by simp
qed

lemma dropped_job_blocked_witness:
  "p_queue (enqueue 5 demo_job ((enqueue 0 demo_job (new_pool 0))\<lparr>p_queue := []\<rparr>)) = []"
  using dropped_job_blocked [of "new_pool 0" 0 5 demo_job "[]"]
  by (simp add: new_pool_def idem_window_def idem_live_def)

section \<open>Retries\<close>

text \<open>
  The delay before the next attempt doubles from one second up to 30 seconds for every attempt number
  up to 33; from attempt 34 on the multiplication overflows 64 bits, and the delay is negative,
  that is none.
\<close>

theorem backoff_bounds:
  "list_all (\<lambda>a. backoff a = min (2 ^ a) 30 * 1000000000) [0..<34] \<and> backoff 34 < 0"
  by code_simp

text \<open>A handler that counts its calls.\<close>

definition counted :: "('s \<Rightarrow> job \<Rightarrow> 's \<times> unit res) \<Rightarrow> 's \<times> nat \<Rightarrow> job \<Rightarrow> ('s \<times> nat) \<times> unit res" where
  "counted h sn j = (let (s', r) = h (fst sn) j in ((s', Suc (snd sn)), r))"

lemma attempt_loop_calls:
  "snd (fst (attempt_loop (counted h) c j n a (s, k))) \<le> k + n
   \<and> snd (fst (attempt_loop (counted h) c j n a (s, k)))
       \<le> k + Suc (length (snd (snd (attempt_loop (counted h) c j n a (s, k)))))"
proof (induction n arbitrary: a s k)
  case (Suc n)
  obtain s' r where h: "h s j = (s', r)" by fastforce
  from Suc [of "Suc a" s' "Suc k"] h show ?case
    by (auto simp: counted_def split: sum.split prod.split)
qed simp

text \<open>
  The pool calls a job's handler at most \<^verbatim>\<open>Retries + 1\<close> times, and never again after a call that
  succeeded or that found the pool cancelled.
\<close>

theorem attempts_bounded:
  assumes "0 \<le> job_retries j"
  shows "int (snd (fst (run_job (\<lambda>_. Some (counted h)) c j (s, 0)))) \<le> job_retries j + 1
    \<and> (h s j = (s', ok ()) \<or> h s j = (s', fail e) \<and> c (s', 1) \<longrightarrow>
        snd (fst (run_job (\<lambda>_. Some (counted h)) c j (s, 0))) = 1)"
proof
  show "int (snd (fst (run_job (\<lambda>_. Some (counted h)) c j (s, 0)))) \<le> job_retries j + 1"
    using attempt_loop_calls [of h c j "nat (job_retries j + 1)" 0 s 0] assms by (simp add: run_job_def le_nat_iff)
  have "nat (job_retries j + 1) = Suc (nat (job_retries j))" using assms by simp
  then show "h s j = (s', ok ()) \<or> h s j = (s', fail e) \<and> c (s', 1) \<longrightarrow>
        snd (fst (run_job (\<lambda>_. Some (counted h)) c j (s, 0))) = 1"
    by (auto simp: run_job_def counted_def)
qed

lemma attempts_bounded_witness:
  "int (snd (fst (run_job (\<lambda>_. Some (counted (\<lambda>s _. (s, fail ''x'')))) (\<lambda>_. False) (job_defaults demo_job) ((), 0)))) \<le> 4"
  using attempts_bounded [of "job_defaults demo_job" "\<lambda>s _. (s, fail ''x'')" "\<lambda>_. False" "()"]
  by (simp add: job_defaults_def demo_job_def)



section \<open>The durable queue\<close>

text \<open>
  With the columns the migrations create, no job of the durable queue is ever claimed: the
  claim sets \<^verbatim>\<open>lease_until\<close>, a column that does not exist, so it fails whenever a job is due and
  leaves the table as it was.
\<close>

theorem durable_claim_fails:
  "\<exists>e. claim_job jobs_columns g w d = (d, fail e)"
proof -
  have "filter (\<lambda>c. c \<notin> set jobs_columns) [''status'', ''claimed_by'', ''claimed_at'', ''lease_until'', ''updated_at'']
      = [''lease_until'']" by code_simp
  then show ?thesis by (simp add: claim_job_def update_job_def split: sum.split)
qed

text \<open>The columns the code writes.\<close>

definition intended_columns :: "string list" where
  "intended_columns = jobs_columns @ [''lease_until'', ''completed_at'']"

lemma update_job_intended:
  "set cols \<subseteq> set intended_columns \<Longrightarrow>
    update_job intended_columns cols f i d = ok (d\<lparr>jobs := update_where (\<lambda>r. jr_id r = i) f (jobs d)\<rparr>)"
proof -
  assume "set cols \<subseteq> set intended_columns"
  then have "filter (\<lambda>c. c \<notin> set intended_columns) cols = []" by (auto simp: filter_empty_conv)
  then show ?thesis by (simp add: update_job_def)
qed

text \<open>
  With those columns in place a claim takes the oldest due job, marks it as claimed by the
  worker and changes no other row; a claimed job is not due, so no worker claims it a second time.
\<close>

theorem durable_claim_exclusive:
  assumes "claim_job intended_columns g w d = (d', ok j)"
  shows "\<exists>r. find (job_due d) (jobs d) = Some r \<and> job_id j = uuid_string g (jr_id r) \<and> job_type j = jr_type r
    \<and> d' = d\<lparr>jobs := update_where (\<lambda>q. jr_id q = jr_id r)
          (\<lambda>q. q\<lparr>jr_status := ''claimed'', jr_claimed_by := Some w, jr_claimed_at := Some (now d)\<rparr>) (jobs d)\<rparr>
    \<and> (\<forall>q \<in> set (jobs d'). job_due d' q \<longrightarrow> jr_id q \<noteq> jr_id r)"
proof -
  have c: "set [''status'', ''claimed_by'', ''claimed_at'', ''lease_until'', ''updated_at''] \<subseteq> set intended_columns"
    by code_simp
  from assms obtain r where r: "find (job_due d) (jobs d) = Some r"
    and j: "job_id j = uuid_string g (jr_id r)" "job_type j = jr_type r"
    and d': "d' = d\<lparr>jobs := update_where (\<lambda>q. jr_id q = jr_id r)
          (\<lambda>q. q\<lparr>jr_status := ''claimed'', jr_claimed_by := Some w, jr_claimed_at := Some (now d)\<rparr>) (jobs d)\<rparr>"
    by (auto simp: claim_job_def update_job_intended [OF c] query_row_cases split: sum.splits)
  moreover have "jr_status q = ''claimed''" if "q \<in> set (jobs d')" "jr_id q = jr_id r" for q
  proof -
    let ?f = "\<lambda>q. q\<lparr>jr_status := ''claimed'', jr_claimed_by := Some w, jr_claimed_at := Some (now d)\<rparr>"
    from that(1) d' have "q \<in> set (update_where (\<lambda>q. jr_id q = jr_id r) ?f (jobs d))" by simp
    then obtain p where p: "q = (if jr_id p = jr_id r then ?f p else p)"
      unfolding in_update_where by blast
    with that(2) show ?thesis by (cases "jr_id p = jr_id r") simp_all
  qed
  then have "\<forall>q \<in> set (jobs d'). job_due d' q \<longrightarrow> jr_id q \<noteq> jr_id r"
    by (force simp: job_due_def)
  ultimately show ?thesis by blast
qed

definition demo_jobs_db :: db where
  "demo_jobs_db = fst (enqueue_durable demo_golib demo_job demo_db (new_pool 1))"

lemma durable_claim_exclusive_witness:
  "\<exists>d' j. claim_job intended_columns demo_golib ''w'' demo_jobs_db = (d', ok j)
     \<and> (\<exists>r. find (job_due demo_jobs_db) (jobs demo_jobs_db) = Some r \<and> job_type j = jr_type r)"
proof -
  let ?c = "claim_job intended_columns demo_golib ''w'' demo_jobs_db"
  have "\<not> isl (snd ?c)" by code_simp
  then obtain j where c: "?c = (fst ?c, ok j)" by (metis sum.collapse(2) surjective_pairing)
  from durable_claim_exclusive [OF c] c show ?thesis by blast
qed

text \<open>
  Also with those columns a job that failed once is handed out while it is still being
  retried: the loop sets the row back to \<^verbatim>\<open>pending\<close> and goes on with the next attempt itself. Here
  a handler that always fails notes the status of its row: only the first of its four attempts
  runs under \<^verbatim>\<open>running\<close>.
\<close>

definition watch :: "string list \<times> db \<Rightarrow> job \<Rightarrow> (string list \<times> db) \<times> unit res" where
  "watch sd j = ((fst sd @ map jr_status (jobs (snd sd)), snd sd), fail ''x'')"

theorem retrying_job_is_claimable:
  "fst (execute_claimed intended_columns demo_golib (\<lambda>_. Some watch) ((job_defaults demo_job)\<lparr>job_id := ''100''\<rparr>) ([], demo_jobs_db))
     = [''running'', ''pending'', ''pending'', ''pending'']"
  by code_simp

text \<open>A key is inserted into the table at most once.\<close>

definition job_claim :: "db \<Rightarrow> time \<Rightarrow> job \<Rightarrow> db \<times> bool" where
  "job_claim d t j = (case insert_job j d of Inl _ \<Rightarrow> (d, False) | Inr d' \<Rightarrow> (d', jobs d' \<noteq> jobs d))"

lemma insert_job_cases:
  "insert_job j d = ok d' \<Longrightarrow>
    (\<exists>r \<in> set (jobs d). jr_idempotency_key r = Some (job_key j)) \<and> d' = d
    \<or> (\<forall>r \<in> set (jobs d). jr_idempotency_key r \<noteq> Some (job_key j))
      \<and> map jr_idempotency_key (jobs d') = map jr_idempotency_key (jobs d) @ [Some (job_key j)]"
  by (auto simp: insert_job_def split: if_splits)

definition key_claim :: "job \<Rightarrow> db \<Rightarrow> time \<Rightarrow> string \<Rightarrow> db \<times> bool" where
  "key_claim j d t k = job_claim d t (j\<lparr>job_key := k\<rparr>)"

definition key_live :: "db \<Rightarrow> time \<Rightarrow> string \<Rightarrow> bool" where
  "key_live d t k \<longleftrightarrow> Some k \<in> set (map jr_idempotency_key (jobs d))"

interpretation jobs_once: claim_once "key_claim j" key_live for j
proof
  fix s t k assume "snd (key_claim j s t k)"
  then show "\<not> key_live s t k"
    by (auto simp: key_claim_def job_claim_def key_live_def split: sum.splits dest!: insert_job_cases)
next
  fix s t k t' assume "snd (key_claim j s t k)"
  then show "key_live (fst (key_claim j s t k)) t' k"
    by (auto simp: key_claim_def job_claim_def key_live_def simp del: set_map split: sum.splits dest!: insert_job_cases)
next
  fix s t' k' t k assume "key_live s t' k'"
  then show "key_live (fst (key_claim j s t k)) t' k'"
    by (auto simp: key_claim_def job_claim_def key_live_def simp del: set_map split: sum.splits dest!: insert_job_cases)
qed

text \<open>
  Of any sequence of durable requests, each with a key of its own choice, at most one per key
  ever adds a row to the table.
\<close>

theorem durable_key_once:
  "distinct (map snd (accepted (key_claim j) d (map (\<lambda>k. (now d, k)) ks)))"
  by (rule jobs_once.accepted_distinct) (induction ks; simp)

end
