(* ===== verification/Hub.thy ===== *)
theory Hub
  imports Store
begin

text \<open>
  \<^verbatim>\<open>backend/internal/ws/hub.go\<close> and \<^verbatim>\<open>redis.go\<close>: the WebSocket hub. Clients register and
  unregister through channels, join and leave rooms, and receive the events of their rooms in a
  bounded buffer. \<open>hub_step\<close> is the concurrent system: the loop \<^verbatim>\<open>Run\<close> takes any waiting request,
  the connections and the Redis subscriber run beside it.

  A client is identified by its ID (user and remote address). Sending on the closed channel
  of an unregistered client is Go's panic, which ends the process; \<open>h_panic\<close> records it.
\<close>

section \<open>Data\<close>

text \<open>What an event carries: JSON values, or a struct that is marshalled when it is written.\<close>

datatype pv = PJson json | PTask task | PMsg message | PRun agent_run | PExec tool_execution | PApproval approval

type_synonym event_payload = "(string \<times> pv) list"

record event =
  ev_id :: string
  ev_type :: string
  ev_payload :: "event_payload option"
  ev_room :: string
  ev_timestamp :: time
  ev_organization_id :: string

record client =
  cl_org :: uuid
  cl_user :: uuid
  cl_send :: "event list"
  cl_closed :: bool

definition send_capacity :: nat where "send_capacity = 64"

record hub =
  h_heap :: "string \<Rightarrow> client option" \<comment> \<open>the client of each connection\<close>
  h_clients :: "string list"
  h_rooms :: "string \<Rightarrow> string list option"
  h_register :: "string list"
  h_unregister :: "string list"
  h_seen :: "(string \<times> time) list"
  h_redis :: "event list option" \<comment> \<open>what was published, when Redis is configured\<close>
  h_local :: "(event \<times> string list) list" \<comment> \<open>the Redis subscriber's deliveries under way\<close>
  h_ws :: int
  h_panic :: bool

definition new_hub :: hub where
  "new_hub = \<lparr>h_heap = (\<lambda>_. None), h_clients = [], h_rooms = (\<lambda>_. None), h_register = [], h_unregister = [],
     h_seen = [], h_redis = None, h_local = [], h_ws = 0, h_panic = False\<rparr>"

definition org_room :: "golib \<Rightarrow> uuid \<Rightarrow> string" where
  "org_room g org_id = ''org:'' @ uuid_string g org_id"

definition channel_room :: "golib \<Rightarrow> uuid \<Rightarrow> string" where
  "channel_room g c = ''channel:'' @ uuid_string g c"

section \<open>Operations\<close>

definition is_duplicate :: "time \<Rightarrow> string \<Rightarrow> (string \<times> time) list \<Rightarrow> (string \<times> time) list \<times> bool" where
  "is_duplicate t i seen =
     (if i = [] then (seen, False)
      else if map_of seen i \<noteq> None then (seen, True)
      else (let seen = seen @ [(i, t)]
            in (if 1000 < length seen then filter (\<lambda>(_, s). \<not> 300 < t - s) seen else seen, False)))"

text \<open>\<^verbatim>\<open>fresh\<close> is the UUID that \<^verbatim>\<open>uuid.NewString()\<close> returns.\<close>

definition ensure_event_meta :: "time \<Rightarrow> string \<Rightarrow> event \<Rightarrow> event" where
  "ensure_event_meta t fresh ev =
     (let ev = (if ev_id ev = [] then ev\<lparr>ev_id := fresh\<rparr> else ev)
      in if ev_timestamp ev = 0 then ev\<lparr>ev_timestamp := t\<rparr> else ev)"

text \<open>\<^verbatim>\<open>select { case c.Send <- ev: default: }\<close>: a full buffer drops the event.\<close>

definition send_or_drop :: "event \<Rightarrow> hub \<Rightarrow> string \<Rightarrow> hub" where
  "send_or_drop ev h c =
     (case h_heap h c of
        None \<Rightarrow> h
      | Some cl \<Rightarrow>
          if cl_closed cl then h\<lparr>h_panic := True\<rparr>
          else if length (cl_send cl) < send_capacity
          then h\<lparr>h_heap := (h_heap h)(c \<mapsto> cl\<lparr>cl_send := cl_send cl @ [ev]\<rparr>)\<rparr>
          else h)"

definition deliver :: "event \<Rightarrow> string list \<Rightarrow> hub \<Rightarrow> hub" where
  "deliver ev cs h = foldl (send_or_drop ev) h cs"

definition room_members :: "string \<Rightarrow> hub \<Rightarrow> string list" where
  "room_members r h = (case h_rooms h r of None \<Rightarrow> [] | Some cs \<Rightarrow> cs)"

definition add_to_room :: "string \<Rightarrow> string \<Rightarrow> hub \<Rightarrow> hub" where
  "add_to_room r c h = h\<lparr>h_rooms := (h_rooms h)(r \<mapsto> List.insert c (room_members r h))\<rparr>"

definition without :: "string \<Rightarrow> string list option \<Rightarrow> string list option" where
  "without c r = (case r of None \<Rightarrow> None
     | Some cs \<Rightarrow> (let cs = removeAll c cs in if cs = [] then None else Some cs))"

definition handle_register :: "golib \<Rightarrow> string \<Rightarrow> hub \<Rightarrow> hub" where
  "handle_register g c h =
     (case h_heap h c of
        None \<Rightarrow> h
      | Some cl \<Rightarrow>
          (let h = h\<lparr>h_clients := List.insert c (h_clients h)\<rparr>;
               h = add_to_room (org_room g (cl_org cl)) c h
           in h\<lparr>h_ws := h_ws h + 1\<rparr>))"

definition handle_unregister :: "string \<Rightarrow> hub \<Rightarrow> hub" where
  "handle_unregister c h =
     (let h = h\<lparr>h_clients := removeAll c (h_clients h), h_rooms := (\<lambda>r. without c (h_rooms h r)),
                h_ws := h_ws h - 1\<rparr>
      in case h_heap h c of
           None \<Rightarrow> h
         | Some cl \<Rightarrow> if cl_closed cl then h\<lparr>h_panic := True\<rparr>
                      else h\<lparr>h_heap := (h_heap h)(c \<mapsto> cl\<lparr>cl_closed := True\<rparr>)\<rparr>)"

definition handle_broadcast :: "time \<Rightarrow> string \<Rightarrow> event \<Rightarrow> hub \<Rightarrow> hub" where
  "handle_broadcast t fresh ev h =
     (let (seen, dup) = is_duplicate t (ev_id ev) (h_seen h);
          h = h\<lparr>h_seen := seen\<rparr>
      in if dup then h
         else (let ev = ensure_event_meta t fresh ev;
                   h = (if ev_room ev \<noteq> [] then h\<lparr>h_redis := map_option (\<lambda>evs. evs @ [ev]) (h_redis h)\<rparr> else h)
               in deliver ev (room_members (ev_room ev) h) h))"

text \<open>
  \<^verbatim>\<open>BroadcastLocal\<close>, called by the Redis subscriber: it takes the targets under the lock and
  delivers after releasing it.
\<close>

definition local_begin :: "time \<Rightarrow> string \<Rightarrow> event \<Rightarrow> hub \<Rightarrow> hub" where
  "local_begin t fresh ev h =
     (let ev = ensure_event_meta t fresh ev;
          (seen, dup) = is_duplicate t (ev_id ev) (h_seen h);
          h = h\<lparr>h_seen := seen\<rparr>
      in if dup then h else h\<lparr>h_local := h_local h @ [(ev, room_members (ev_room ev) h)]\<rparr>)"

definition local_deliver :: "hub \<Rightarrow> hub" where
  "local_deliver h =
     (case h_local h of [] \<Rightarrow> h | (ev, cs) # ls \<Rightarrow> deliver ev cs (h\<lparr>h_local := ls\<rparr>))"

definition broadcast_local :: "time \<Rightarrow> string \<Rightarrow> event \<Rightarrow> hub \<Rightarrow> hub" where
  "broadcast_local t fresh ev h = local_deliver (local_begin t fresh ev h)"

definition broadcast_to_org :: "golib \<Rightarrow> time \<Rightarrow> string \<Rightarrow> uuid \<Rightarrow> string \<Rightarrow> event_payload option \<Rightarrow> event" where
  "broadcast_to_org g t fresh org_id typ payload =
     \<lparr>ev_id = fresh, ev_type = typ,
      ev_payload = (case payload of
          None \<Rightarrow> None
        | Some m \<Rightarrow> Some (if map_of m ''organizationId'' = None
                          then m @ [(''organizationId'', PJson (uuid_json g org_id))] else m)),
      ev_room = org_room g org_id, ev_timestamp = t, ev_organization_id = uuid_string g org_id\<rparr>"

definition broadcast_to_channel :: "golib \<Rightarrow> time \<Rightarrow> string \<Rightarrow> uuid \<Rightarrow> string \<Rightarrow> event_payload option \<Rightarrow> event" where
  "broadcast_to_channel g t fresh c typ payload =
     \<lparr>ev_id = fresh, ev_type = typ, ev_payload = payload, ev_room = channel_room g c, ev_timestamp = t,
      ev_organization_id = []\<rparr>"

definition join_channel :: "golib \<Rightarrow> string \<Rightarrow> uuid \<Rightarrow> hub \<Rightarrow> hub" where
  "join_channel g c ch h = add_to_room (channel_room g ch) c h"

definition leave_channel :: "golib \<Rightarrow> string \<Rightarrow> uuid \<Rightarrow> hub \<Rightarrow> hub" where
  "leave_channel g c ch h =
     h\<lparr>h_rooms := (h_rooms h)(channel_room g ch := without c (h_rooms h (channel_room g ch)))\<rparr>"

text \<open>
  One message of \<^verbatim>\<open>ReadPump\<close>, with its decoded type and payload. The replies are sent with a
  plain \<^verbatim>\<open>c.Send <-\<close>, which waits for room in the buffer; here the message is handled when there is.
\<close>

definition reply :: "string \<Rightarrow> event \<Rightarrow> hub \<Rightarrow> hub" where
  "reply c ev h = send_or_drop ev h c"

definition read_message :: "golib \<Rightarrow> time \<Rightarrow> string \<Rightarrow> string \<Rightarrow> gomap option \<Rightarrow> string \<Rightarrow> hub \<Rightarrow> hub" where
  "read_message g t fresh typ payload c h =
     (if typ = ''ping'' then
        reply c \<lparr>ev_id = fresh, ev_type = ''pong'', ev_payload = Some [(''ts'', PJson (JNum (of_int t)))],
                ev_room = [], ev_timestamp = t, ev_organization_id = []\<rparr> h
      else if typ = ''join_channel'' then
        (case mget_str payload ''channelId'' of
           None \<Rightarrow> h
         | Some s \<Rightarrow> (case uuid_parse g s of
                         None \<Rightarrow> h
                       | Some ch \<Rightarrow>
                           reply c \<lparr>ev_id = fresh, ev_type = ''joined_channel'',
                                   ev_payload = Some [(''channelId'', PJson (JStr s))],
                                   ev_room = [], ev_timestamp = t, ev_organization_id = []\<rparr>
                             (join_channel g c ch h)))
      else if typ = ''leave_channel'' then
        (case mget_str payload ''channelId'' of
           None \<Rightarrow> h
         | Some s \<Rightarrow> (case uuid_parse g s of None \<Rightarrow> h | Some ch \<Rightarrow> leave_channel g c ch h))
      else h)"

section \<open>The concurrent system\<close>

definition connect :: "string \<Rightarrow> uuid \<Rightarrow> uuid \<Rightarrow> hub \<Rightarrow> hub" where
  "connect c org_id user h =
     h\<lparr>h_heap := (h_heap h)(c \<mapsto> \<lparr>cl_org = org_id, cl_user = user, cl_send = [], cl_closed = False\<rparr>),
       h_register := h_register h @ [c]\<rparr>"

definition run_register :: "golib \<Rightarrow> hub \<Rightarrow> hub" where
  "run_register g h = (case h_register h of [] \<Rightarrow> h | c # cs \<Rightarrow> handle_register g c (h\<lparr>h_register := cs\<rparr>))"

definition run_unregister :: "hub \<Rightarrow> hub" where
  "run_unregister h = (case h_unregister h of [] \<Rightarrow> h | c # cs \<Rightarrow> handle_unregister c (h\<lparr>h_unregister := cs\<rparr>))"

text \<open>The write pump takes the oldest event of a buffer.\<close>

definition write_pump :: "string \<Rightarrow> hub \<Rightarrow> hub" where
  "write_pump c h = (case h_heap h c of None \<Rightarrow> h
     | Some cl \<Rightarrow> h\<lparr>h_heap := (h_heap h)(c \<mapsto> cl\<lparr>cl_send := tl (cl_send cl)\<rparr>)\<rparr>)"

text \<open>The connections that have not asked to be unregistered.\<close>

definition connected :: "hub \<Rightarrow> string \<Rightarrow> bool" where
  "connected h c \<longleftrightarrow> (\<exists>cl. h_heap h c = Some cl \<and> \<not> cl_closed cl) \<and> c \<notin> set (h_unregister h)"

text \<open>
  \<open>orderly\<close> is the behaviour the hub counts on: \<^verbatim>\<open>Run\<close> does not take an unregistration before the
  registration of the same client, and no delivery of the Redis subscriber is split by another step.
  The Go runtime gives neither: \<^verbatim>\<open>select\<close> picks any ready channel, and the subscriber is a goroutine of its own.
\<close>

inductive hub_step :: "bool \<Rightarrow> golib \<Rightarrow> hub \<Rightarrow> hub \<Rightarrow> bool" for orderly g where
  connect: "h_heap h c = None \<Longrightarrow> hub_step orderly g h (connect c org_id user h)"
| disconnect: "connected h c \<Longrightarrow> hub_step orderly g h (h\<lparr>h_unregister := h_unregister h @ [c]\<rparr>)"
| register: "hub_step orderly g h (run_register g h)"
| unregister: "h_unregister h = c # cs \<Longrightarrow> (orderly \<longrightarrow> c \<notin> set (h_register h)) \<Longrightarrow>
    hub_step orderly g h (run_unregister h)"
| broadcast: "hub_step orderly g h (handle_broadcast t fresh ev h)"
| local_whole: "h_local h = [] \<Longrightarrow> hub_step orderly g h (broadcast_local t fresh ev h)"
| local_begin: "\<not> orderly \<Longrightarrow> hub_step orderly g h (local_begin t fresh ev h)"
| local_deliver: "\<not> orderly \<Longrightarrow> hub_step orderly g h (local_deliver h)"
| message: "connected h c \<Longrightarrow> hub_step orderly g h (read_message g t fresh typ payload c h)"
| pump: "hub_step orderly g h (write_pump c h)"

section \<open>Room names\<close>

lemma org_room_inj: "uuid_law g \<Longrightarrow> org_room g a = org_room g b \<longleftrightarrow> a = b"
  by (auto simp: org_room_def uuid_law_def) (metis option.inject)

lemma room_kinds [simp]: "channel_room g c \<noteq> org_room g a" "org_room g a \<noteq> channel_room g c" "org_room g a \<noteq> []"
  by (simp_all add: channel_room_def org_room_def)

section \<open>The invariant of the orderly hub\<close>

text \<open>What a delivery does not touch: whether a client exists, whom it belongs to, whether it is open.\<close>

definition view :: "hub \<Rightarrow> string \<Rightarrow> (uuid \<times> bool) option" where
  "view h c = map_option (\<lambda>cl. (cl_org cl, cl_closed cl)) (h_heap h c)"

lemma view_simps [simp]:
  "view (h\<lparr>h_rooms := a\<rparr>) = view h" "view (h\<lparr>h_register := b\<rparr>) = view h" "view (h\<lparr>h_clients := d\<rparr>) = view h"
  "view (h\<lparr>h_unregister := e\<rparr>) = view h" "view (h\<lparr>h_seen := f\<rparr>) = view h" "view (h\<lparr>h_ws := i\<rparr>) = view h"
  "view (h\<lparr>h_redis := j\<rparr>) = view h" "view (h\<lparr>h_local := k\<rparr>) = view h"
  by (simp_all add: view_def fun_eq_iff)

lemma local_unchanged: "h_local h = [] \<Longrightarrow> h\<lparr>h_seen := s, h_local := []\<rparr> = h\<lparr>h_seen := s\<rparr>"
  by (cases h) simp

definition alive :: "hub \<Rightarrow> string \<Rightarrow> bool" where
  "alive h c \<longleftrightarrow> (\<exists>a. view h c = Some (a, False))"

definition room_ok :: "golib \<Rightarrow> hub \<Rightarrow> string \<Rightarrow> string list \<Rightarrow> bool" where
  "room_ok g h r cs \<longleftrightarrow> cs \<noteq> [] \<and> distinct cs
     \<and> (\<forall>c \<in> set cs. alive h c \<and> (\<forall>a b. r = org_room g a \<longrightarrow> view h c = Some (b, False) \<longrightarrow> a = b))"

definition buffer_ok :: "golib \<Rightarrow> client \<Rightarrow> bool" where
  "buffer_ok g cl \<longleftrightarrow> length (cl_send cl) \<le> send_capacity
     \<and> (\<forall>ev \<in> set (cl_send cl). \<forall>a. ev_room ev = org_room g a \<longrightarrow> cl_org cl = a)"

definition hub_inv :: "golib \<Rightarrow> hub \<Rightarrow> bool" where
  "hub_inv g h \<longleftrightarrow> \<not> h_panic h \<and> h_local h = []
     \<and> (\<forall>r cs. h_rooms h r = Some cs \<longrightarrow> room_ok g h r cs)
     \<and> (\<forall>c \<in> set (h_register h) \<union> set (h_clients h) \<union> set (h_unregister h). alive h c)
     \<and> distinct (h_unregister h)
     \<and> (\<forall>c cl. h_heap h c = Some cl \<longrightarrow> buffer_ok g cl)"

lemma hub_inv_cong:
  "view h' = view h \<Longrightarrow> h_rooms h' = h_rooms h \<Longrightarrow> h_register h' = h_register h \<Longrightarrow> h_clients h' = h_clients h \<Longrightarrow>
   h_unregister h' = h_unregister h \<Longrightarrow> h_local h' = h_local h \<Longrightarrow> \<not> h_panic h' \<Longrightarrow>
   (\<And>c cl. h_heap h' c = Some cl \<Longrightarrow> buffer_ok g cl) \<Longrightarrow> hub_inv g h \<Longrightarrow> hub_inv g h'"
  by (simp add: hub_inv_def room_ok_def alive_def)

definition may_receive :: "golib \<Rightarrow> event \<Rightarrow> hub \<Rightarrow> string \<Rightarrow> bool" where
  "may_receive g ev h c \<longleftrightarrow> alive h c \<and> (\<forall>a b. ev_room ev = org_room g a \<longrightarrow> view h c = Some (b, False) \<longrightarrow> a = b)"

lemma send_or_drop_inv:
  assumes "hub_inv g h" and "may_receive g ev h c"
  shows "hub_inv g (send_or_drop ev h c) \<and> view (send_or_drop ev h c) = view h"
proof -
  from assms(2) obtain cl where cl: "h_heap h c = Some cl" "\<not> cl_closed cl"
    "\<And>a. ev_room ev = org_room g a \<Longrightarrow> cl_org cl = a"
    by (force simp: may_receive_def alive_def view_def)
  have v: "view (send_or_drop ev h c) = view h"
    using cl by (auto simp: send_or_drop_def view_def fun_eq_iff)
  have b: "buffer_ok g k" if "h_heap (send_or_drop ev h c) x = Some k" for x k
    using that assms(1) cl by (auto simp: send_or_drop_def hub_inv_def buffer_ok_def split: if_splits)
  have "hub_inv g (send_or_drop ev h c)"
    by (rule hub_inv_cong [OF v _ _ _ _ _ _ b assms(1)])
      (use cl assms(1) in \<open>auto simp: send_or_drop_def hub_inv_def\<close>)
  with v show ?thesis by blast
qed

lemma may_receive_view: "view h' = view h \<Longrightarrow> may_receive g ev h' c = may_receive g ev h c"
  by (simp add: may_receive_def alive_def)

lemma deliver_inv:
  "hub_inv g h \<Longrightarrow> \<forall>c \<in> set cs. may_receive g ev h c \<Longrightarrow> hub_inv g (deliver ev cs h)"
  unfolding deliver_def
proof (induction cs arbitrary: h)
  case (Cons c cs)
  then have s: "hub_inv g (send_or_drop ev h c)" "view (send_or_drop ev h c) = view h"
    using send_or_drop_inv [of g h ev c] by auto
  with Cons show ?case by (simp add: may_receive_view [OF s(2)])
qed simp

lemma room_members_iff: "c \<in> set (room_members r h) \<longleftrightarrow> (\<exists>cs. h_rooms h r = Some cs \<and> c \<in> set cs)"
  by (cases "h_rooms h r") (auto simp: room_members_def)

lemma room_members_receive:
  "hub_inv g h \<Longrightarrow> c \<in> set (room_members (ev_room ev) h) \<Longrightarrow> may_receive g ev h c"
proof -
  assume inv: "hub_inv g h" and c: "c \<in> set (room_members (ev_room ev) h)"
  then obtain cs where r: "h_rooms h (ev_room ev) = Some cs" "c \<in> set cs"
    by (auto simp: room_members_iff)
  with inv have "room_ok g h (ev_room ev) cs" by (simp add: hub_inv_def)
  with r(2) show ?thesis by (simp add: room_ok_def may_receive_def)
qed

lemma hub_inv_simps [simp]:
  "hub_inv g (h\<lparr>h_seen := x\<rparr>) = hub_inv g h" "hub_inv g (h\<lparr>h_redis := y\<rparr>) = hub_inv g h"
  "hub_inv g (h\<lparr>h_ws := z\<rparr>) = hub_inv g h"
  by (simp_all add: hub_inv_def room_ok_def alive_def view_def)

lemma handle_broadcast_inv:
  assumes "hub_inv g h" shows "hub_inv g (handle_broadcast t fresh ev h)"
proof -
  have d: "hub_inv g (deliver e (room_members r h') h')" if "hub_inv g h'" "ev_room e = r" for e h' r
    using that room_members_receive by (blast intro: deliver_inv)
  show ?thesis using assms
    by (auto simp: handle_broadcast_def Let_def intro!: d split: prod.split)
qed

lemma broadcast_local_inv:
  assumes "hub_inv g h" shows "hub_inv g (broadcast_local t fresh ev h)"
proof -
  let ?e = "ensure_event_meta t fresh ev"
  obtain seen dup where dup: "is_duplicate t (ev_id ?e) (h_seen h) = (seen, dup)" by fastforce
  have inv: "hub_inv g (h\<lparr>h_seen := seen\<rparr>)" using assms by simp
  have l: "h_local h = []" using assms by (simp add: hub_inv_def)
  show ?thesis
  proof (cases dup)
    case True
    with dup inv l show ?thesis by (simp add: broadcast_local_def local_begin_def local_deliver_def Let_def)
  next
    case False
    have "broadcast_local t fresh ev h = deliver ?e (room_members (ev_room ?e) (h\<lparr>h_seen := seen\<rparr>)) (h\<lparr>h_seen := seen\<rparr>)"
      using dup False l by (simp add: broadcast_local_def local_begin_def local_deliver_def Let_def room_members_def local_unchanged)
    then show ?thesis using room_members_receive [OF inv] deliver_inv [OF inv] by auto
  qed
qed

lemma add_to_room_inv:
  assumes "hub_inv g h" and "alive h c"
    and "\<And>a b. r = org_room g a \<Longrightarrow> view h c = Some (b, False) \<Longrightarrow> a = b"
  shows "hub_inv g (add_to_room r c h)"
proof -
  have v: "view (add_to_room r c h) = view h" by (simp add: add_to_room_def)
  have d: "distinct (List.insert c (room_members r h))" and n: "List.insert c (room_members r h) \<noteq> []"
    using assms(1) by (auto simp: hub_inv_def room_ok_def room_members_def List.insert_def split: option.splits)
  have m: "alive h x \<and> (\<forall>a b. r = org_room g a \<longrightarrow> view h x = Some (b, False) \<longrightarrow> a = b)"
    if "x \<in> set (List.insert c (room_members r h))" for x
    using that assms by (auto simp: room_members_iff hub_inv_def room_ok_def)
  have "room_ok g h r (List.insert c (room_members r h))"
    unfolding room_ok_def using d n m by blast
  then have "room_ok g (add_to_room r c h) r' cs" if "h_rooms (add_to_room r c h) r' = Some cs" for r' cs
    using that assms(1) v by (auto simp: room_ok_def alive_def hub_inv_def add_to_room_def split: if_splits)
  with assms(1) v show ?thesis by (simp add: hub_inv_def alive_def) (simp add: add_to_room_def)
qed

lemma run_register_inv:
  assumes "hub_inv g h" and "uuid_law g" shows "hub_inv g (run_register g h)"
proof (cases "h_register h")
  case (Cons c cs)
  from assms(1) Cons have "alive h c" by (simp add: hub_inv_def)
  then obtain cl where cl: "h_heap h c = Some cl" "\<not> cl_closed cl" by (auto simp: alive_def view_def)
  let ?h = "h\<lparr>h_register := cs, h_clients := List.insert c (h_clients h)\<rparr>"
  have v: "view ?h = view h" by simp
  have inv: "hub_inv g ?h" using assms(1) Cons by (simp add: hub_inv_def room_ok_def alive_def v)
  have "hub_inv g (add_to_room (org_room g (cl_org cl)) c ?h)"
    by (rule add_to_room_inv [OF inv]) (use cl assms(2) in \<open>auto simp: alive_def view_def org_room_inj\<close>)
  with Cons cl show ?thesis by (simp add: run_register_def handle_register_def Let_def)
qed (use assms in \<open>simp add: run_register_def\<close>)

lemma without_Some: "without c r = Some cs \<longleftrightarrow> (\<exists>ds. r = Some ds \<and> cs = removeAll c ds \<and> cs \<noteq> [])"
  by (auto simp: without_def Let_def split: option.split)

lemma room_ok_removeAll:
  "room_ok g h r cs \<Longrightarrow> removeAll c cs \<noteq> [] \<Longrightarrow> (\<And>x. x \<noteq> c \<Longrightarrow> view h' x = view h x) \<Longrightarrow> room_ok g h' r (removeAll c cs)"
  by (auto simp: room_ok_def alive_def distinct_removeAll)

lemma run_unregister_inv:
  assumes inv: "hub_inv g h" and c: "h_unregister h = c # cs" "c \<notin> set (h_register h)"
  shows "hub_inv g (run_unregister h)"
proof -
  from inv c have "alive h c" by (simp add: hub_inv_def)
  then obtain cl where cl: "h_heap h c = Some cl" "\<not> cl_closed cl" by (auto simp: alive_def view_def)
  let ?h = "run_unregister h"
  have h: "?h = h\<lparr>h_unregister := cs, h_clients := removeAll c (h_clients h), h_rooms := (\<lambda>r. without c (h_rooms h r)),
      h_ws := h_ws h - 1, h_heap := (h_heap h)(c \<mapsto> cl\<lparr>cl_closed := True\<rparr>)\<rparr>"
    using c cl by (simp add: run_unregister_def handle_unregister_def Let_def)
  have v: "view ?h x = view h x" if "x \<noteq> c" for x using that by (simp add: h view_def)
  have "room_ok g ?h r ds" if "h_rooms ?h r = Some ds" for r ds
  proof -
    from that obtain es where "h_rooms h r = Some es" "ds = removeAll c es" "ds \<noteq> []"
      by (auto simp: h without_Some)
    with inv v show ?thesis using room_ok_removeAll [of g h r es c ?h] by (simp add: hub_inv_def)
  qed
  moreover have al: "alive ?h x" if "x \<noteq> c" "alive h x" for x using that v by (simp add: alive_def)
  have "\<forall>x \<in> set (h_register h) \<union> set (removeAll c (h_clients h)) \<union> set cs. alive ?h x"
  proof
    fix x assume x: "x \<in> set (h_register h) \<union> set (removeAll c (h_clients h)) \<union> set cs"
    with inv c have "x \<noteq> c" "alive h x" by (auto simp: hub_inv_def)
    then show "alive ?h x" by (rule al)
  qed
  moreover have "buffer_ok g k" if "h_heap ?h x = Some k" for x k
    using that inv cl by (auto simp: h hub_inv_def buffer_ok_def split: if_splits)
  moreover have "h_register ?h = h_register h" "h_clients ?h = removeAll c (h_clients h)" "h_unregister ?h = cs"
    "h_panic ?h = h_panic h" "h_local ?h = h_local h"
    by (simp_all add: h)
  ultimately show ?thesis using inv c unfolding hub_inv_def by auto
qed

lemma leave_channel_inv:
  assumes "hub_inv g h" shows "hub_inv g (leave_channel g c ch h)"
proof -
  let ?h = "leave_channel g c ch h"
  have v: "view ?h = view h" by (simp add: leave_channel_def)
  have "room_ok g ?h r ds" if "h_rooms ?h r = Some ds" for r ds
    using that assms room_ok_removeAll [of g h r _ c ?h] v
    by (auto simp: leave_channel_def without_Some hub_inv_def room_ok_def alive_def split: if_splits)
  with assms show ?thesis by (simp add: hub_inv_def alive_def v) (simp add: leave_channel_def)
qed

lemma reply_inv:
  "hub_inv g h \<Longrightarrow> alive h c \<Longrightarrow> ev_room ev = [] \<Longrightarrow> hub_inv g (reply c ev h)"
  unfolding reply_def by (rule conjunct1 [OF send_or_drop_inv]) (auto simp: may_receive_def org_room_def)

lemma read_message_inv:
  assumes "hub_inv g h" and "alive h c"
  shows "hub_inv g (read_message g t fresh typ payload c h)"
proof -
  have j: "hub_inv g (join_channel g c ch h)" "alive (join_channel g c ch h) c" for ch
    using assms add_to_room_inv [of g h c "channel_room g ch"]
    by (auto simp: join_channel_def add_to_room_def alive_def)
  show ?thesis using assms j
    by (auto simp: read_message_def intro!: reply_inv leave_channel_inv split: option.split)
qed

lemma write_pump_inv:
  assumes "hub_inv g h" shows "hub_inv g (write_pump c h)"
proof -
  have v: "view (write_pump c h) = view h" by (auto simp: write_pump_def view_def fun_eq_iff split: option.split)
  have tl: "buffer_ok g cl \<Longrightarrow> buffer_ok g (cl\<lparr>cl_send := tl (cl_send cl)\<rparr>)" for cl
    by (cases "cl_send cl") (auto simp: buffer_ok_def)
  have b: "buffer_ok g k" if "h_heap (write_pump c h) x = Some k" for x k
    using that assms by (auto simp: write_pump_def hub_inv_def split: option.splits if_splits intro: tl)
  show ?thesis
    by (rule hub_inv_cong [OF v _ _ _ _ _ _ b assms])
      (use assms in \<open>auto simp: write_pump_def hub_inv_def split: option.split\<close>)
qed

lemma connect_inv:
  assumes "hub_inv g h" and "h_heap h c = None" shows "hub_inv g (connect c org_id user h)"
proof -
  let ?h = "connect c org_id user h"
  have v: "view ?h x = view h x" if "x \<noteq> c" for x using that by (simp add: connect_def view_def)
  have nc: "\<not> alive h c" using assms(2) by (simp add: alive_def view_def)
  have al: "alive ?h x \<and> x \<noteq> c" if "alive h x" for x
  proof -
    from that nc have "x \<noteq> c" by blast
    with that v [of x] show ?thesis by (simp add: alive_def)
  qed
  have "alive ?h c" by (simp add: alive_def view_def connect_def)
  moreover have "room_ok g ?h r ds" if "h_rooms ?h r = Some ds" for r ds
  proof -
    from that assms(1) have "room_ok g h r ds" by (simp add: connect_def hub_inv_def)
    then show ?thesis using al v by (auto simp: room_ok_def)
  qed
  moreover have "buffer_ok g k" if "h_heap ?h x = Some k" for x k
    using that assms(1) by (auto simp: connect_def hub_inv_def buffer_ok_def split: if_splits)
  ultimately show ?thesis using assms(1) al
    by (auto simp: hub_inv_def) (auto simp: connect_def)
qed

lemma hub_step_inv:
  assumes "hub_step True g h h'" and "hub_inv g h" and "uuid_law g"
  shows "hub_inv g h'"
  using assms
proof cases
  case (disconnect c)
  then show ?thesis using assms(2)
    by (auto simp: hub_inv_def connected_def room_ok_def alive_def) (auto simp: view_def)
next
  case (message c t i ty payload)
  then have "alive h c" by (auto simp: connected_def alive_def view_def)
  with message assms(2) show ?thesis by (simp add: read_message_inv)
qed (use assms(2,3) connect_inv run_register_inv run_unregister_inv handle_broadcast_inv broadcast_local_inv
      write_pump_inv in auto)


definition demo_hub :: "golib \<Rightarrow> hub" where
  "demo_hub g = run_register g (connect ''c'' 1 2 (new_hub\<lparr>h_redis := Some []\<rparr>))"


text \<open>
  Nothing enforces that order. A client that connects and at once disconnects leaves a request
  in both channels; when \<^verbatim>\<open>Run\<close> takes the second one first, the client's channel is closed and the client enters
  its organization's room afterwards, for good: the next event for the organization is sent on the closed channel,
  which ends the whole process.
\<close>

theorem hub_can_panic:
  "\<exists>h. (hub_step False g)\<^sup>*\<^sup>* new_hub h \<and> h_panic h"
proof -
  let ?h1 = "connect ''c'' 1 2 new_hub"
  let ?h2 = "?h1\<lparr>h_unregister := h_unregister ?h1 @ [''c'']\<rparr>"
  let ?h3 = "run_unregister ?h2"
  let ?h4 = "run_register g ?h3"
  let ?h5 = "handle_broadcast 0 ''e'' (broadcast_to_org g 0 ''e'' 1 ''x'' None) ?h4"
  note ds = connect_def new_hub_def run_unregister_def handle_unregister_def run_register_def handle_register_def
    Let_def add_to_room_def room_members_def without_def handle_broadcast_def broadcast_to_org_def is_duplicate_def
    ensure_event_meta_def deliver_def send_or_drop_def
  have "hub_step False g new_hub ?h1" by (rule hub_step.connect) (simp add: new_hub_def)
  moreover have "hub_step False g ?h1 ?h2" by (rule hub_step.disconnect) (simp add: connected_def connect_def new_hub_def)
  moreover have "hub_step False g ?h2 ?h3" by (rule hub_step.unregister) (simp_all add: connect_def new_hub_def)
  moreover have "hub_step False g ?h3 ?h4" by (rule hub_step.register)
  moreover have "hub_step False g ?h4 ?h5" by (rule hub_step.broadcast)
  moreover have "h_panic ?h5" by (simp add: ds)
  ultimately show ?thesis
    by (meson rtranclp.rtrancl_refl rtranclp.rtrancl_into_rtrancl)
qed

text \<open>
  Joining a channel is not checked against the client's organization: whoever is connected and
  knows the UUID of a channel enters its room with one message.
\<close>

theorem join_channel_unchecked:
  assumes "uuid_parse g s = Some ch" and "h_heap h c = Some cl"
  shows "c \<in> set (room_members (channel_room g ch)
    (read_message g t fresh ''join_channel'' (Some [(''channelId'', JStr s)]) c h))"
proof -
  have r: "h_rooms (send_or_drop ev h' c) = h_rooms h'" for ev h' by (simp add: send_or_drop_def split: option.split)
  show ?thesis using assms
    by (simp add: read_message_def mget_str_def reply_def room_members_def r join_channel_def add_to_room_def)
qed

lemma join_channel_unchecked_witness:
  "''c'' \<in> set (room_members (channel_room demo_golib 55)
     (read_message demo_golib 0 ''e'' ''join_channel'' (Some [(''channelId'', JStr ''55'')]) ''c'' (demo_hub demo_golib)))"
  by (rule join_channel_unchecked)
    (simp_all add: demo_golib_def demo_hub_def run_register_def connect_def new_hub_def handle_register_def Let_def add_to_room_def)

section \<open>Deduplication\<close>

text \<open>An event that comes back from Redis to the instance that published it.\<close>

definition echo :: "time \<Rightarrow> string \<Rightarrow> hub \<Rightarrow> hub" where
  "echo t fresh h = (case h_redis h of Some (ev # evs) \<Rightarrow> broadcast_local t fresh (last (ev # evs)) h | _ \<Rightarrow> h)"

definition buffer :: "string \<Rightarrow> hub \<Rightarrow> event list" where
  "buffer c h = (case h_heap h c of None \<Rightarrow> [] | Some cl \<Rightarrow> cl_send cl)"

text \<open>
  The deduplication keeps an event's echo from Redis away only when the event was broadcast with an ID.
  An event without one, as the message and task handlers send them, gets its ID after the check
  and reaches the clients of the publishing instance twice.
\<close>

theorem redis_echo:
  assumes "ev_room ev = org_room g 1" and "fresh \<noteq> []"
  shows "length (buffer ''c'' (echo t' fresh' (handle_broadcast t fresh ev (demo_hub g))))
    = (if ev_id ev = [] then 2 else 1)"
  using assms
  by (simp add: demo_hub_def run_register_def connect_def new_hub_def handle_register_def Let_def add_to_room_def
      room_members_def handle_broadcast_def is_duplicate_def ensure_event_meta_def deliver_def send_or_drop_def
      echo_def broadcast_local_def local_begin_def local_deliver_def buffer_def send_capacity_def)

lemma redis_echo_witness:
  "length (buffer ''c'' (echo 1 ''f'' (handle_broadcast 0 ''e''
     ((broadcast_to_org demo_golib 0 ''i'' 1 ''x'' None)\<lparr>ev_id := []\<rparr>) (demo_hub demo_golib)))) = 2"
  using redis_echo [of "(broadcast_to_org demo_golib 0 ''i'' 1 ''x'' None)\<lparr>ev_id := []\<rparr>" demo_golib "''e''" 1 "''f''" 0]
  by (simp add: broadcast_to_org_def)

definition seen_claim :: "(string \<times> time) list \<Rightarrow> time \<Rightarrow> string \<Rightarrow> (string \<times> time) list \<times> bool" where
  "seen_claim seen t i = (let (seen', dup) = is_duplicate t i seen in (seen', i \<noteq> [] \<and> \<not> dup))"

definition seen_live :: "(string \<times> time) list \<Rightarrow> time \<Rightarrow> string \<Rightarrow> bool" where
  "seen_live seen t i \<longleftrightarrow> (\<exists>u. map_of seen i = Some u \<and> t - u \<le> 300)"

lemma map_of_append_single:
  "map_of (xs @ [(k, v)]) = (if map_of xs k = None then (map_of xs)(k \<mapsto> v) else map_of xs)"
  by (induction xs) (auto simp: fun_upd_twist simp del: map_of_append)

lemma is_duplicate_kept:
  assumes "map_of seen i' = Some u" and "t - u \<le> 300"
  shows "map_of (fst (is_duplicate t i seen)) i' = Some u"
  using assms
  by (auto simp: is_duplicate_def Let_def not_less map_of_append_single split: option.split
      simp del: filter_append map_of_append intro!: map_of_filter_snd)

lemma is_duplicate_new:
  assumes "i \<noteq> []" and "map_of seen i = None"
  shows "map_of (fst (is_duplicate t i seen)) i = Some t \<and> \<not> snd (is_duplicate t i seen)"
  using assms
  by (auto simp: is_duplicate_def Let_def map_of_append_single simp del: filter_append map_of_append
      intro!: map_of_filter_snd)

interpretation hub_window: claim_window seen_claim seen_live "\<lambda>t t'. t' - t \<le> 300"
proof
  fix s t k assume "snd (seen_claim s t k)"
  then show "\<not> seen_live s t k"
    by (auto simp: seen_claim_def seen_live_def is_duplicate_def Let_def split: if_splits)
next
  fix s t k t' assume c: "snd (seen_claim s t k)" and "t \<le> t'" and "t' - t \<le> 300"
  then have "k \<noteq> []" "map_of s k = None" by (auto simp: seen_claim_def is_duplicate_def Let_def split: if_splits)
  then show "seen_live (fst (seen_claim s t k)) t' k"
    using is_duplicate_new [of k s t] \<open>t' - t \<le> 300\<close> by (simp add: seen_claim_def seen_live_def case_prod_beta)
next
  fix s t' k' t k assume "seen_live s t' k'" "t \<le> t'"
  then show "seen_live (fst (seen_claim s t k)) t' k'"
    using is_duplicate_kept [of s k' _ t k] by (force simp: seen_claim_def seen_live_def case_prod_beta)
qed

fun passed :: "(time \<times> event) list \<Rightarrow> hub \<Rightarrow> (time \<times> event) list" where
  "passed [] h = []"
| "passed ((t, ev) # es) h =
     (if snd (is_duplicate t (ev_id ev) (h_seen h)) then [] else [(t, ev)])
      @ passed es (handle_broadcast t [] ev h)"

lemma deliver_seen: "h_seen (deliver ev cs h) = h_seen h"
proof -
  have "h_seen (send_or_drop ev h c) = h_seen h" for h c by (simp add: send_or_drop_def split: option.split)
  then show ?thesis unfolding deliver_def by (induction cs arbitrary: h) simp_all
qed

lemma handle_broadcast_seen:
  "h_seen (handle_broadcast t fresh ev h) = fst (is_duplicate t (ev_id ev) (h_seen h))"
  by (simp add: handle_broadcast_def Let_def deliver_seen split: prod.split)

lemma passed_accepted:
  "\<forall>e \<in> set es. ev_id (snd e) \<noteq> [] \<Longrightarrow>
    map (\<lambda>(t, ev). (t, ev_id ev)) (passed es h) = accepted seen_claim (h_seen h) (map (\<lambda>(t, ev). (t, ev_id ev)) es)"
  by (induction es h rule: passed.induct) (auto simp: handle_broadcast_seen seen_claim_def case_prod_beta)

text \<open>
  C27: of the events with an ID that are broadcast in the order of time, two with the same ID pass
  the hub only if more than five minutes lie between them; an event that does not pass changes no
  buffer.
\<close>

theorem hub_deduplicates:
  assumes "sorted (map fst es)" and "\<forall>e \<in> set es. ev_id (snd e) \<noteq> []"
  shows "sorted_wrt (\<lambda>(t, ev) (t', ev'). ev_id ev = ev_id ev' \<longrightarrow> 300 < t' - t) (passed es h)
    \<and> (snd (is_duplicate t i (h_seen h')) \<longrightarrow> ev_id ev = i \<longrightarrow> h_heap (handle_broadcast t fresh ev h') = h_heap h')"
proof
  have "map fst (map (\<lambda>(t, ev). (t, ev_id ev)) es) = map fst es" by (simp add: case_prod_beta)
  then have "sorted_wrt (\<lambda>(t, k) (t', k'). k = k' \<longrightarrow> \<not> t' - t \<le> 300)
      (accepted seen_claim (h_seen h) (map (\<lambda>(t, ev). (t, ev_id ev)) es))"
    using assms(1) by (intro hub_window.accepted_spaced) (simp only:)
  then have "sorted_wrt (\<lambda>(t, k) (t', k'). k = k' \<longrightarrow> \<not> t' - t \<le> 300) (map (\<lambda>(t, ev). (t, ev_id ev)) (passed es h))"
    by (simp add: passed_accepted [OF assms(2)])
  then show "sorted_wrt (\<lambda>(t, ev) (t', ev'). ev_id ev = ev_id ev' \<longrightarrow> 300 < t' - t) (passed es h)"
    unfolding sorted_wrt_map by (rule sorted_wrt_mono_rel [rotated]) (auto simp: case_prod_beta)
qed (auto simp: handle_broadcast_def Let_def split: prod.split)

lemma hub_deduplicates_witness:
  "map fst (passed (map (\<lambda>t. (t, broadcast_to_org demo_golib t ''i'' 1 ''x'' None)) [0, 10, 20]) (demo_hub demo_golib)) = [0]
   \<and> sorted_wrt (\<lambda>(t, ev) (t', ev'). ev_id ev = ev_id ev' \<longrightarrow> 300 < t' - t)
     (passed (map (\<lambda>t. (t, broadcast_to_org demo_golib t ''i'' 1 ''x'' None)) [0, 10, 20]) (demo_hub demo_golib))"
proof
  show "map fst (passed (map (\<lambda>t. (t, broadcast_to_org demo_golib t ''i'' 1 ''x'' None)) [0, 10, 20]) (demo_hub demo_golib)) = [0]"
    by (simp add: broadcast_to_org_def handle_broadcast_seen is_duplicate_def demo_hub_def run_register_def connect_def
        new_hub_def handle_register_def Let_def add_to_room_def)
  show "sorted_wrt (\<lambda>(t, ev) (t', ev'). ev_id ev = ev_id ev' \<longrightarrow> 300 < t' - t)
     (passed (map (\<lambda>t. (t, broadcast_to_org demo_golib t ''i'' 1 ''x'' None)) [0, 10, 20]) (demo_hub demo_golib))"
    by (rule conjunct1 [OF hub_deduplicates]) (auto simp: broadcast_to_org_def)
qed

end
