(* ===== verification/Approvals.thy ===== *)
theory Approvals
  imports Store
begin

text \<open>
  \<^verbatim>\<open>backend/internal/approval/service.go\<close>: creating an approval, deciding it, expiring the overdue
  ones, and reading them back. \<^verbatim>\<open>Decide\<close> reads the row in one statement and writes it in another, so
  it is modelled in these two parts and as their composition; the Go clock and the database clock are
  both \<open>now\<close>.

  The abstract specification is a status machine whose only edges leave \<^verbatim>\<open>pending\<close>; the operations
  run one after the other refine it, and two interleaved calls of \<^verbatim>\<open>Decide\<close> do not.
\<close>

section \<open>Model\<close>

definition valid_risk_levels :: "string list" where
  "valid_risk_levels = [''low'', ''medium'', ''high'', ''critical'']"

definition valid_approval_statuses :: "string list" where
  "valid_approval_statuses = [''pending'', ''approved'', ''rejected'', ''expired'', ''cancelled'']"

definition requester_type_check :: "string list" where
  "requester_type_check = [''agent'', ''user'', ''system'']"

definition entity_type_check :: "string list" where
  "entity_type_check = [''agent_action'', ''task'', ''document'', ''integration'', ''tool_execution'']"

definition insert_approval :: "approval \<Rightarrow> db \<Rightarrow> (approval \<times> db) res" where
  "insert_approval a d =
     (if ap_organization_id a \<notin> set (orgs d) then fail (fk_violation ''approvals_organization_id_fkey'')
      else if ap_requester_type a \<notin> set requester_type_check then fail (check_violation ''approvals_requester_type_check'')
      else if \<not> opt_ref (ap_requester_agent_id a) (map ag_id (agents d)) then fail (fk_violation ''approvals_requester_agent_id_fkey'')
      else if \<not> opt_ref (ap_requester_user_id a) (users d) then fail (fk_violation ''approvals_requester_user_id_fkey'')
      else if ap_entity_type a \<notin> set entity_type_check then fail (check_violation ''approvals_entity_type_check'')
      else (let a = a\<lparr>ap_id := next_id d, ap_created_at := now d, ap_updated_at := now d\<rparr>
            in ok (a, d\<lparr>approvals := approvals d @ [a], next_id := next_id d + 1\<rparr>)))"

definition create_approval :: "uuid \<Rightarrow> string \<Rightarrow> uuid option \<Rightarrow> uuid option \<Rightarrow> string \<Rightarrow> uuid \<Rightarrow> string \<Rightarrow> string
    \<Rightarrow> gomap option \<Rightarrow> string \<Rightarrow> string \<Rightarrow> string \<Rightarrow> gomap option \<Rightarrow> time \<Rightarrow> db \<Rightarrow> db \<times> approval res" where
  "create_approval org_id requester_type requester_agent requester_user entity_type entity title description
       payload risk_level action target context expires_in d =
     (let risk_level = (if risk_level = [] then ''medium'' else risk_level);
          risk_level = (if risk_level \<notin> set valid_risk_levels then ''medium'' else risk_level);
          action = (if action = [] then title else action);
          expires_at = (if expires_in = 0 then now d + 24 * 60 * 60 else now d + expires_in)
      in case insert_approval \<lparr>ap_id = 0, ap_organization_id = org_id, ap_requester_type = requester_type,
               ap_requester_agent_id = requester_agent, ap_requester_user_id = requester_user,
               ap_entity_type = entity_type, ap_entity_id = entity, ap_title = title, ap_description = description,
               ap_payload = payload, ap_risk_level = risk_level, ap_action = action, ap_target = target,
               ap_context = context, ap_status = ''pending'', ap_decided_by = None, ap_decided_at = None,
               ap_expires_at = Some expires_at, ap_created_at = 0, ap_updated_at = 0\<rparr> d of
           Inl e \<Rightarrow> (d, fail e)
         | Inr (a, d') \<Rightarrow> (d', ok a))"

definition overdue :: "db \<Rightarrow> approval \<Rightarrow> bool" where
  "overdue d a \<longleftrightarrow> (case ap_expires_at a of None \<Rightarrow> False | Some t \<Rightarrow> t < now d)"

text \<open>The first part of \<^verbatim>\<open>Decide\<close>: the guards on the row as it is now.\<close>

definition decide_check :: "uuid \<Rightarrow> uuid \<Rightarrow> string \<Rightarrow> db \<Rightarrow> db \<times> unit res" where
  "decide_check org_id i decision d =
     (if decision \<notin> set valid_approval_statuses then (d, fail (''invalid status '' @ decision))
      else if decision = ''pending'' then (d, fail ''cannot decide to pending'')
      else case query_row (\<lambda>a. ap_id a = i \<and> ap_organization_id a = org_id) (approvals d) of
             Inl e \<Rightarrow> (d, fail e)
           | Inr a \<Rightarrow>
               if ap_status a \<noteq> ''pending'' then (d, fail (''approval already decided: '' @ ap_status a))
               else if overdue d a then
                 (d\<lparr>approvals := update_where (\<lambda>a. ap_id a = i)
                      (\<lambda>a. a\<lparr>ap_status := ''expired'', ap_updated_at := now d\<rparr>) (approvals d)\<rparr>,
                  fail ''approval expired'')
               else (d, ok ()))"

text \<open>The second part: an update of the row, whatever its status has become.\<close>

definition decide_write :: "uuid \<Rightarrow> uuid \<Rightarrow> uuid \<Rightarrow> string \<Rightarrow> db \<Rightarrow> db \<times> approval res" where
  "decide_write org_id i decided_by decision d =
     (let P = (\<lambda>a. ap_id a = i \<and> ap_organization_id a = org_id)
      in case query_row P (approvals d) of
           Inl e \<Rightarrow> (d, fail e)
         | Inr a \<Rightarrow>
             if decided_by \<notin> set (users d) then (d, fail (fk_violation ''approvals_decided_by_fkey''))
             else (let f = (\<lambda>a. a\<lparr>ap_status := decision, ap_decided_by := Some decided_by,
                            ap_decided_at := Some (now d), ap_updated_at := now d\<rparr>)
                   in (d\<lparr>approvals := update_where P f (approvals d)\<rparr>, ok (f a))))"

definition decide :: "uuid \<Rightarrow> uuid \<Rightarrow> uuid \<Rightarrow> string \<Rightarrow> db \<Rightarrow> db \<times> approval res" where
  "decide org_id i decided_by decision d =
     (case decide_check org_id i decision d of
        (d, Inl e) \<Rightarrow> (d, fail e)
      | (d, Inr _) \<Rightarrow> decide_write org_id i decided_by decision d)"

definition get_approval :: "uuid \<Rightarrow> uuid \<Rightarrow> db \<Rightarrow> approval res" where
  "get_approval org_id i d = query_row (\<lambda>a. ap_id a = i \<and> ap_organization_id a = org_id) (approvals d)"

definition list_approvals :: "uuid \<Rightarrow> string \<Rightarrow> int \<Rightarrow> db \<Rightarrow> approval list" where
  "list_approvals org_id status limit d =
     newest (clamp_limit 50 limit)
       (filter (\<lambda>a. ap_organization_id a = org_id \<and> (status \<noteq> [] \<longrightarrow> ap_status a = status)) (approvals d))"

definition expire_pending :: "db \<Rightarrow> db \<times> int" where
  "expire_pending d =
     (let P = (\<lambda>a. ap_status a = ''pending'' \<and> overdue d a)
      in (d\<lparr>approvals := update_where P (\<lambda>a. a\<lparr>ap_status := ''expired'', ap_updated_at := now d\<rparr>) (approvals d)\<rparr>,
          count_where P (approvals d)))"

section \<open>The status machine\<close>

definition approval_move :: "string \<Rightarrow> string \<Rightarrow> bool" where
  "approval_move s t \<longleftrightarrow> s = t \<or> s = ''pending'' \<and> t \<in> {''approved'', ''rejected'', ''expired'', ''cancelled''}"

interpretation approval_machine: status_machine approval_move "{''approved'', ''rejected'', ''expired'', ''cancelled''}"
  by unfold_locales (auto simp: approval_move_def)

text \<open>What one call may do to a row that is there: nothing, or decide it while it is pending.\<close>

definition row_move :: "approval \<Rightarrow> approval \<Rightarrow> bool" where
  "row_move a b \<longleftrightarrow> ap_id b = ap_id a \<and> approval_move (ap_status a) (ap_status b)
     \<and> (ap_status a \<noteq> ''pending'' \<longrightarrow> b = a)"

definition approvals_wf :: "db \<Rightarrow> bool" where
  "approvals_wf d \<longleftrightarrow> distinct (map ap_id (approvals d)) \<and> (\<forall>a \<in> set (approvals d). ap_id a < next_id d
     \<and> ap_status a \<in> set valid_approval_statuses)"

inductive approval_op :: "db \<Rightarrow> db \<Rightarrow> bool" where
  create: "fst (create_approval org_id rt ra ru et e title desc payload risk act tgt ctx ttl d) = d' \<Longrightarrow> approval_op d d'"
| decide: "fst (decide org_id i who decision d) = d' \<Longrightarrow> approval_op d d'"
| expire: "fst (expire_pending d) = d' \<Longrightarrow> approval_op d d'"
| tick: "0 \<le> s \<Longrightarrow> approval_op d (d\<lparr>now := now d + s\<rparr>)"

lemma row_move_refl [simp]: "row_move a a" by (simp add: row_move_def approval_move_def)

lemma pending_expired: "ap_status a = ''pending'' \<Longrightarrow> row_move a (a\<lparr>ap_status := ''expired'', ap_updated_at := t\<rparr>)"
  by (simp add: row_move_def approval_move_def)

lemma list_all2_update:
  "(\<And>a. a \<in> set rs \<Longrightarrow> P a \<Longrightarrow> R a (f a)) \<Longrightarrow> (\<And>a. R a a) \<Longrightarrow> list_all2 R rs (update_where P f rs)"
  by (induction rs) (auto simp: update_where_def)

lemma distinct_same:
  "distinct (map ap_id rs) \<Longrightarrow> a \<in> set rs \<Longrightarrow> b \<in> set rs \<Longrightarrow> ap_id a = ap_id b \<Longrightarrow> a = b"
  by (induction rs) (auto simp: rev_image_eqI)

lemma decide_cases:
  assumes "decide org_id i who decision d = (d', r)"
  obtains (same) e where "d' = d" "r = fail e"
  | (expired) a where "query_row (\<lambda>a. ap_id a = i \<and> ap_organization_id a = org_id) (approvals d) = ok a"
      "ap_status a = ''pending''" "overdue d a" "r = fail ''approval expired''"
      "d' = d\<lparr>approvals := update_where (\<lambda>a. ap_id a = i)
                      (\<lambda>a. a\<lparr>ap_status := ''expired'', ap_updated_at := now d\<rparr>) (approvals d)\<rparr>"
  | (decided) a where "query_row (\<lambda>a. ap_id a = i \<and> ap_organization_id a = org_id) (approvals d) = ok a"
      "ap_status a = ''pending''" "\<not> overdue d a" "who \<in> set (users d)"
      "decision \<in> set valid_approval_statuses" "decision \<noteq> ''pending''"
      "d' = d\<lparr>approvals := update_where (\<lambda>a. ap_id a = i \<and> ap_organization_id a = org_id)
          (\<lambda>a. a\<lparr>ap_status := decision, ap_decided_by := Some who, ap_decided_at := Some (now d),
                 ap_updated_at := now d\<rparr>) (approvals d)\<rparr>"
      "r = ok (a\<lparr>ap_status := decision, ap_decided_by := Some who, ap_decided_at := Some (now d), ap_updated_at := now d\<rparr>)"
proof (cases "query_row (\<lambda>a. ap_id a = i \<and> ap_organization_id a = org_id) (approvals d)")
  case (Inl e)
  have "\<exists>e'. decide_check org_id i decision d = (d, fail e')" by (simp add: decide_check_def Inl)
  then show ?thesis using assms same by (auto simp: decide_def)
next
  case (Inr a)
  consider "decision \<notin> set valid_approval_statuses \<or> decision = ''pending'' \<or> ap_status a \<noteq> ''pending''"
    | "decision \<in> set valid_approval_statuses" "decision \<noteq> ''pending''" "ap_status a = ''pending''" "overdue d a"
    | "decision \<in> set valid_approval_statuses" "decision \<noteq> ''pending''" "ap_status a = ''pending''" "\<not> overdue d a"
    by blast
  then show ?thesis
  proof cases
    case 1
    have "d' = d \<and> (\<exists>e. r = fail e)" using assms Inr 1 by (auto simp: decide_def decide_check_def split: if_splits)
    then show ?thesis using same by blast
  next
    case 2
    then show ?thesis using assms Inr by (intro expired [of a]) (simp_all add: decide_def decide_check_def)
  next
    case 3
    then have c: "decide_check org_id i decision d = (d, ok ())" using Inr by (simp add: decide_check_def)
    show ?thesis
    proof (cases "who \<in> set (users d)")
      case True
      with 3 show ?thesis using assms Inr
        by (intro decided [of a]) (simp_all add: decide_def c decide_write_def Let_def)
    next
      case False
      have "d' = d \<and> (\<exists>e. r = fail e)" using assms Inr False by (auto simp: decide_def c decide_write_def Let_def split: if_splits)
      then show ?thesis using same by blast
    qed
  qed
qed
lemma insert_approval_ok:
  "insert_approval a d = ok (b, d') \<Longrightarrow> approvals d' = approvals d @ [b] \<and> ap_id b = next_id d \<and> next_id d' = next_id d + 1
    \<and> ap_status b = ap_status a"
  by (auto simp: insert_approval_def Let_def split: if_splits)

lemma wf_update:
  assumes "approvals_wf d" and "\<And>a. ap_id (f a) = ap_id a" and "\<And>a. ap_status (f a) \<in> set valid_approval_statuses"
  shows "approvals_wf (d\<lparr>approvals := update_where P f (approvals d)\<rparr>)"
  using assms by (auto simp: approvals_wf_def map_update_where in_update_where)

lemma rows_kept: "list_all2 row_move rs rs' \<Longrightarrow> \<exists>rows new. rs' @ xs = rows @ new \<and> list_all2 row_move rs rows"
  by blast

lemmas rows_intros = rows_kept [where xs = "[]", simplified] list_all2_same [of row_move, THEN iffD2]

lemma approval_op_rows:
  assumes "approval_op d d'" and "approvals_wf d"
  shows "approvals_wf d' \<and> (\<exists>rows new. approvals d' = rows @ new \<and> list_all2 row_move (approvals d) rows)"
  using assms(1)
proof cases
  case (create org_id rt ra ru et e title desc payload risk act tgt ctx ttl)
  then have "d' = d \<or> (\<exists>a. approvals d' = approvals d @ [a] \<and> ap_id a = next_id d \<and> next_id d' = next_id d + 1
      \<and> ap_status a = ''pending'')"
    unfolding create_approval_def Let_def by (auto dest!: insert_approval_ok split: sum.splits)
  then show ?thesis
  proof
    assume "d' = d"
    then show ?thesis using assms(2) by (simp add: rows_intros)
  next
    assume "\<exists>a. approvals d' = approvals d @ [a] \<and> ap_id a = next_id d \<and> next_id d' = next_id d + 1
      \<and> ap_status a = ''pending''"
    then obtain a where a: "approvals d' = approvals d @ [a]" "ap_id a = next_id d" "next_id d' = next_id d + 1"
      "ap_status a = ''pending''" by blast
    have "next_id d \<notin> ap_id ` set (approvals d)" using assms(2) by (auto simp: approvals_wf_def)
    moreover have "ap_id b < next_id d + 1" if "b \<in> set (approvals d)" for b
      using that assms(2) by (simp add: approvals_wf_def less_SucI)
    ultimately have "approvals_wf d'"
      using assms(2) a by (auto simp: approvals_wf_def valid_approval_statuses_def)
    then show ?thesis using a by (intro conjI exI [of _ "approvals d"] exI [of _ "[a]"]) (simp_all add: list_all2_same)
  qed
next
  case (decide org_id i who decision)
  obtain r where r: "decide org_id i who decision d = (d', r)" using decide by (metis fst_conv surj_pair)
  then show ?thesis
  proof (cases rule: decide_cases)
    case same
    then show ?thesis using assms(2) by (simp add: rows_intros)
  next
    case (expired a)
    let ?f = "\<lambda>a. a\<lparr>ap_status := ''expired'', ap_updated_at := now d\<rparr>"
    have one: "b = a" if "b \<in> set (approvals d)" "ap_id b = i" for b
      using that query_row_okD [OF expired(1)] assms(2) by (auto simp: approvals_wf_def intro: distinct_same)
    have "list_all2 row_move (approvals d) (update_where (\<lambda>a. ap_id a = i) ?f (approvals d))"
      by (rule list_all2_update) (use one expired(2) pending_expired in auto)
    moreover have "approvals_wf d'" unfolding expired(5)
      by (rule wf_update [OF assms(2)]) (simp_all add: valid_approval_statuses_def)
    ultimately show ?thesis using expired(5) by (simp add: rows_intros)
  next
    case (decided a)
    let ?f = "\<lambda>a. a\<lparr>ap_status := decision, ap_decided_by := Some who, ap_decided_at := Some (now d), ap_updated_at := now d\<rparr>"
    have one: "b = a" if "b \<in> set (approvals d)" "ap_id b = i" for b
      using that query_row_okD [OF decided(1)] assms(2) by (auto simp: approvals_wf_def intro: distinct_same)
    have m: "row_move a (?f a)"
      using decided(2,5,6) by (auto simp: row_move_def approval_move_def valid_approval_statuses_def)
    have "list_all2 row_move (approvals d) (update_where (\<lambda>a. ap_id a = i \<and> ap_organization_id a = org_id) ?f (approvals d))"
      by (rule list_all2_update) (use one m in auto)
    moreover have "approvals_wf d'" unfolding decided(7)
      by (rule wf_update [OF assms(2)]) (simp_all add: decided(5))
    ultimately show ?thesis using decided(7) by (simp add: rows_intros)
  qed
next
  case expire
  let ?P = "\<lambda>a. ap_status a = ''pending'' \<and> overdue d a"
  let ?f = "\<lambda>a. a\<lparr>ap_status := ''expired'', ap_updated_at := now d\<rparr>"
  have "list_all2 row_move (approvals d) (update_where ?P ?f (approvals d))"
    by (rule list_all2_update) (use pending_expired in auto)
  moreover have d': "d' = d\<lparr>approvals := update_where ?P ?f (approvals d)\<rparr>"
    using expire by (simp add: expire_pending_def Let_def)
  moreover have "approvals_wf d'" unfolding d'
    by (rule wf_update [OF assms(2)]) (simp_all add: valid_approval_statuses_def)
  ultimately show ?thesis unfolding d' by (simp add: rows_intros)
next
  case (tick s)
  then show ?thesis using assms(2) by (simp add: approvals_wf_def rows_intros)
qed

lemma approval_ops_row:
  assumes "approval_op\<^sup>*\<^sup>* d d'" and "approvals_wf d" and "a \<in> set (approvals d)"
  shows "approvals_wf d' \<and> (\<exists>b \<in> set (approvals d'). ap_id b = ap_id a
    \<and> approval_move\<^sup>*\<^sup>* (ap_status a) (ap_status b) \<and> (ap_status a \<noteq> ''pending'' \<longrightarrow> b = a))"
  using assms
proof (induction rule: rtranclp_induct)
  case (step y z)
  then obtain b where b: "approvals_wf y" "b \<in> set (approvals y)" "ap_id b = ap_id a"
    "approval_move\<^sup>*\<^sup>* (ap_status a) (ap_status b)" "ap_status a \<noteq> ''pending'' \<longrightarrow> b = a" by blast
  from approval_op_rows [OF step(2) b(1)] obtain rows new where
    z: "approvals_wf z" "approvals z = rows @ new" "list_all2 row_move (approvals y) rows" by blast
  from z(3) b(2) obtain c where "c \<in> set rows" "row_move b c"
    by (metis in_set_conv_nth list_all2_conv_all_nth)
  with z b show ?case
    by (intro conjI bexI [of _ c]) (auto simp: row_move_def intro: rtranclp.rtrancl_into_rtrancl)
qed auto

text \<open>
  C35: a decided approval is final. Whatever calls of \<^verbatim>\<open>Create\<close>, \<^verbatim>\<open>Decide\<close> and \<^verbatim>\<open>ExpirePending\<close> run,
  one after the other, a row that is approved, rejected, expired or cancelled stays as it is, who
  decided it and when included, and no row is lost.
\<close>

theorem decided_approval_final:
  assumes "approval_op\<^sup>*\<^sup>* d d'" and "approvals_wf d" and "a \<in> set (approvals d)"
  shows "\<exists>b \<in> set (approvals d'). ap_id b = ap_id a \<and> (if ap_status a = ''pending'' then ap_status b \<in> set valid_approval_statuses else b = a)"
proof -
  from approval_ops_row [OF assms] obtain b where
    "approvals_wf d'" "b \<in> set (approvals d')" "ap_id b = ap_id a" "ap_status a \<noteq> ''pending'' \<longrightarrow> b = a" by blast
  then show ?thesis by (intro bexI [of _ b]) (auto simp: approvals_wf_def)
qed

definition demo_approval_db :: db where
  "demo_approval_db = fst (create_approval 1 ''agent'' (Some 4) None ''tool_execution'' 77 ''send mail'' [] None [] [] [] None 0 demo_db)"

lemma demo_approval_wf: "approvals_wf demo_db" by (simp add: approvals_wf_def demo_db_def empty_db_def)

lemma demo_approval_op: "approval_op demo_db demo_approval_db"
  unfolding demo_approval_db_def by (rule approval_op.create) simp

lemma demo_approval_wf': "approvals_wf demo_approval_db"
  using approval_op_rows [OF demo_approval_op demo_approval_wf] by simp

lemma decided_approval_final_witness:
  "let d = fst (decide 1 100 2 ''rejected'' demo_approval_db); a = hd (approvals d)
   in \<exists>b \<in> set (approvals (fst (decide 1 100 2 ''approved'' d))). ap_id b = 100 \<and> ap_status b = ''rejected''"
proof -
  let ?d = "fst (decide 1 100 2 ''rejected'' demo_approval_db)"
  let ?e = "fst (decide 1 100 2 ''approved'' ?d)"
  have "approval_op demo_approval_db ?d" "approval_op ?d ?e" by (auto intro: approval_op.decide)
  moreover from this(1) have "approvals_wf ?d" using approval_op_rows demo_approval_wf' by blast
  moreover have "map (\<lambda>a. (ap_id a, ap_status a)) (approvals ?d) = [(100, ''rejected'')]" by code_simp
  then obtain a where a: "a \<in> set (approvals ?d)" "ap_id a = 100" "ap_status a = ''rejected''" by auto
  ultimately have "\<exists>b \<in> set (approvals ?e). ap_id b = ap_id a \<and>
      (if ap_status a = ''pending'' then ap_status b \<in> set valid_approval_statuses else b = a)"
    by (intro decided_approval_final [of ?d]) auto
  with a show ?thesis by auto
qed

text \<open>
  A successful \<^verbatim>\<open>Decide\<close> was made on a pending approval of the organization that had not expired,
  by a user, to a final status; it changes that row and no other, and returns it.
\<close>

theorem decide_effect:
  assumes "decide org_id i who decision d = (d', ok b)" and "approvals_wf d"
  shows "\<exists>a. get_approval org_id i d = ok a \<and> ap_status a = ''pending'' \<and> \<not> overdue d a \<and> who \<in> set (users d)
    \<and> decision \<in> {''approved'', ''rejected'', ''expired'', ''cancelled''}
    \<and> b = a\<lparr>ap_status := decision, ap_decided_by := Some who, ap_decided_at := Some (now d), ap_updated_at := now d\<rparr>
    \<and> get_approval org_id i d' = ok b
    \<and> d' = d\<lparr>approvals := map (\<lambda>q. if q = a then b else q) (approvals d)\<rparr>"
  using assms(1)
proof (cases rule: decide_cases)
  case (decided a)
  let ?f = "\<lambda>a. a\<lparr>ap_status := decision, ap_decided_by := Some who, ap_decided_at := Some (now d), ap_updated_at := now d\<rparr>"
  let ?P = "\<lambda>a. ap_id a = i \<and> ap_organization_id a = org_id"
  have a: "a \<in> set (approvals d)" "?P a" using query_row_okD [OF decided(1)] by auto
  have one: "?P q \<longleftrightarrow> q = a" if "q \<in> set (approvals d)" for q
    using that a assms(2) by (auto simp: approvals_wf_def intro: distinct_same)
  have "update_where ?P ?f (approvals d) = map (\<lambda>q. if q = a then ?f a else q) (approvals d)"
    unfolding update_where_def by (rule map_cong) (use one in auto)
  moreover have "query_row ?P (update_where ?P ?f (approvals d)) = ok (?f a)"
    using decided(1) by (subst query_row_update) auto
  moreover have "decision \<in> {''approved'', ''rejected'', ''expired'', ''cancelled''}"
    using decided(5,6) by (auto simp: valid_approval_statuses_def)
  ultimately show ?thesis using decided by (intro exI [of _ a]) (simp add: get_approval_def)
qed auto

lemma decide_effect_witness:
  "\<exists>b. snd (decide 1 100 2 ''approved'' demo_approval_db) = ok b \<and> ap_status b = ''approved'' \<and> ap_decided_by b = Some 2"
proof -
  have "\<not> isl (snd (decide 1 100 2 ''approved'' demo_approval_db))" by code_simp
  then obtain d' b where u: "decide 1 100 2 ''approved'' demo_approval_db = (d', ok b)"
    by (metis sum.collapse(2) surjective_pairing)
  from decide_effect [OF u demo_approval_wf'] u show ?thesis by auto
qed

text \<open>
  Two calls of \<^verbatim>\<open>Decide\<close> whose reads come before both writes succeed both, with the second
  decision overwriting the first: the update has no condition on the status.
\<close>

theorem decide_race:
  assumes "get_approval org_id i d = ok a" and "ap_status a = ''pending''" and "\<not> overdue d a"
    and "u \<in> set (users d)" and "v \<in> set (users d)"
  shows "decide_check org_id i ''approved'' d = (d, ok ()) \<and> decide_check org_id i ''rejected'' d = (d, ok ())
    \<and> (\<exists>b c d2. decide_write org_id i v ''rejected'' (fst (decide_write org_id i u ''approved'' d)) = (d2, ok c)
        \<and> snd (decide_write org_id i u ''approved'' d) = ok b
        \<and> ap_status b = ''approved'' \<and> ap_status c = ''rejected'' \<and> get_approval org_id i d2 = ok c)"
  using assms
  by (simp add: get_approval_def decide_check_def decide_write_def valid_approval_statuses_def Let_def query_row_update)

lemma decide_race_witness:
  "\<exists>c d2. decide_write 1 100 2 ''rejected'' (fst (decide_write 1 100 2 ''approved'' demo_approval_db)) = (d2, ok c)
     \<and> ap_status c = ''rejected''"
proof -
  have "\<not> isl (get_approval 1 100 demo_approval_db)" by code_simp
  then obtain a where a: "get_approval 1 100 demo_approval_db = ok a" by (metis sum.collapse(2))
  have "case get_approval 1 100 demo_approval_db of Inl _ \<Rightarrow> False
      | Inr a \<Rightarrow> ap_status a = ''pending'' \<and> \<not> overdue demo_approval_db a" "2 \<in> set (users demo_approval_db)"
    by code_simp+
  then have "ap_status a = ''pending''" "\<not> overdue demo_approval_db a" unfolding a by simp_all
  from decide_race [OF a this \<open>2 \<in> set (users demo_approval_db)\<close> \<open>2 \<in> set (users demo_approval_db)\<close>]
  show ?thesis by blast
qed

text \<open>
  \<^verbatim>\<open>ExpirePending\<close> leaves no pending approval that is overdue, reports how many there were, and
  a second run finds none.
\<close>

theorem expire_pending_complete:
  "filter (\<lambda>a. ap_status a = ''pending'' \<and> overdue d a) (approvals (fst (expire_pending d))) = []
   \<and> snd (expire_pending d) = int (length (filter (\<lambda>a. ap_status a = ''pending'' \<and> overdue d a) (approvals d)))
   \<and> expire_pending (fst (expire_pending d)) = (fst (expire_pending d), 0)"
proof -
  let ?P = "\<lambda>a. ap_status a = ''pending'' \<and> overdue d a"
  let ?f = "\<lambda>a. a\<lparr>ap_status := ''expired'', ap_updated_at := now d\<rparr>"
  have 1: "filter ?P (update_where ?P ?f (approvals d)) = []"
  proof (rule filter_False, rule ballI)
    fix r assume "r \<in> set (update_where ?P ?f (approvals d))"
    then obtain q where "r = (if ?P q then ?f q else q)" by (auto simp only: in_update_where)
    then show "\<not> ?P r" by (cases "?P q") simp_all
  qed
  have o: "overdue (d\<lparr>approvals := x\<rparr>) = overdue d" for x by (simp add: overdue_def fun_eq_iff split: option.split)
  have 2: "update_where ?P ?f (update_where ?P ?f (approvals d)) = update_where ?P ?f (approvals d)"
    using 1 by (intro update_where_none) (simp add: filter_empty_conv)
  show ?thesis using 1
    by (simp add: expire_pending_def Let_def o count_where_def 2)
qed

end
