(* ===== verification/Runs.thy ===== *)
theory Runs
  imports Store
begin

text \<open>
  \<^verbatim>\<open>backend/internal/repository/run.go\<close> and \<^verbatim>\<open>events.go\<close>: agent runs with their status table, waiting
  state and token counts, the actions of a run, and the table of processed events.

  The CHECK, UNIQUE and foreign key constraints of the migrations are part of each statement. The
  columns \<^verbatim>\<open>input\<close>, \<^verbatim>\<open>context\<close> and \<^verbatim>\<open>output\<close> go through \<^verbatim>\<open>json.Marshal\<close> and back and are kept as maps.
\<close>

section \<open>Runs\<close>

definition trigger_type_check :: "string list" where
  "trigger_type_check = [''manual'', ''mention'', ''schedule'', ''task_assigned'', ''webhook'']"

definition run_status_check :: "string list" where
  "run_status_check = [''queued'', ''running'', ''awaiting_approval'', ''succeeded'', ''failed'', ''cancelled'',
     ''pending'', ''assigned'', ''waiting'', ''blocked'', ''approval_required'', ''completed'',
     ''WAITING_FOR_APPROVAL'', ''RESUMING'', ''RUNNING'', ''COMPLETED'', ''FAILED'']"

definition insert_run :: "agent_run \<Rightarrow> db \<Rightarrow> (agent_run \<times> db) res" where
  "insert_run r d =
     (if run_trigger_type r \<notin> set trigger_type_check then fail (check_violation ''agent_runs_trigger_type_check'')
      else if run_organization_id r \<notin> set (orgs d) then fail (fk_violation ''agent_runs_organization_id_fkey'')
      else if run_agent_id r \<notin> ag_id ` set (agents d) then fail (fk_violation ''agent_runs_agent_id_fkey'')
      else if \<not> opt_ref (run_task_id r) (map t_id (tasks d)) then fail (fk_violation ''agent_runs_task_id_fkey'')
      else if \<not> opt_ref (run_channel_id r) (map ch_id (channels d)) then fail (fk_violation ''agent_runs_channel_id_fkey'')
      else if \<not> opt_ref (run_parent_run_id r) (map run_id (runs d)) then fail (fk_violation ''agent_runs_parent_run_id_fkey'')
      else (let r = r\<lparr>run_id := next_id d, run_created_at := now d, run_updated_at := now d\<rparr>
            in ok (r, d\<lparr>runs := runs d @ [r], next_id := next_id d + 1\<rparr>)))"

definition create_agent_run :: "uuid \<Rightarrow> uuid \<Rightarrow> uuid option \<Rightarrow> uuid option \<Rightarrow> string \<Rightarrow> gomap option \<Rightarrow> gomap option
    \<Rightarrow> uuid option \<Rightarrow> uuid option \<Rightarrow> db \<Rightarrow> db \<times> agent_run res" where
  "create_agent_run org_id agent task channel trigger inp ctx corr parent d =
     (let cv = (case find (\<lambda>a. ag_id a = agent) (agents d) of None \<Rightarrow> 0 | Some a \<Rightarrow> ag_current_version a)
      in case insert_run \<lparr>run_id = 0, run_organization_id = org_id, run_agent_id = agent, run_task_id = task,
             run_channel_id = channel, run_agent_version = (if 0 < cv then Some cv else None),
             run_trigger_type = trigger, run_status = ''queued'', run_current_iteration = 0,
             run_waiting_reason = None, run_pending_action_id = None, run_input = inp, run_context = ctx,
             run_retrieved_knowledge = [], run_output = None, run_token_metadata = Some [],
             run_correlation_id = corr, run_parent_run_id = parent, run_error = None,
             run_started_at = None, run_finished_at = None, run_created_at = 0, run_updated_at = 0,
             run_actions = []\<rparr> d of
           Inl e \<Rightarrow> (d, fail e)
         | Inr (r, d') \<Rightarrow> (d', ok r))"

definition list_agent_actions :: "uuid \<Rightarrow> db \<Rightarrow> agent_action list" where
  "list_agent_actions r d = sort_key aa_seq (filter (\<lambda>a. aa_run_id a = r) (actions d))"

definition get_agent_run :: "uuid \<Rightarrow> uuid \<Rightarrow> db \<Rightarrow> agent_run res" where
  "get_agent_run org_id i d =
     (case query_row (\<lambda>r. run_id r = i \<and> run_organization_id r = org_id) (runs d) of
        Inl e \<Rightarrow> fail e
      | Inr r \<Rightarrow> ok (r\<lparr>run_actions := list_agent_actions i d\<rparr>))"

text \<open>A listed run has no actions.\<close>

definition list_agent_runs :: "uuid \<Rightarrow> uuid option \<Rightarrow> uuid option \<Rightarrow> int \<Rightarrow> db \<Rightarrow> agent_run list" where
  "list_agent_runs org_id agent task limit d =
     map (\<lambda>r. r\<lparr>run_actions := []\<rparr>) (newest (clamp_limit 50 limit) (filter (\<lambda>r. run_organization_id r = org_id
        \<and> (case agent of None \<Rightarrow> True | Some a \<Rightarrow> run_agent_id r = a)
        \<and> (case task of None \<Rightarrow> True | Some t \<Rightarrow> run_task_id r = Some t)) (runs d)))"

text \<open>
  \<^verbatim>\<open>UPDATE agent_runs SET ... WHERE id = i AND organization_id = org\<close>: the constraints are checked
  on the row that changes; when there is none the statement succeeds.
\<close>

definition update_runs :: "uuid \<Rightarrow> uuid \<Rightarrow> (agent_run \<Rightarrow> agent_run) \<Rightarrow> db \<Rightarrow> db \<times> unit res" where
  "update_runs org_id i f d =
     (let P = (\<lambda>r. run_id r = i \<and> run_organization_id r = org_id);
          rows = map f (filter P (runs d))
      in if \<exists>r \<in> set rows. run_status r \<notin> set run_status_check
         then (d, fail (check_violation ''agent_runs_status_check''))
         else if \<exists>r \<in> set rows. \<not> opt_ref (run_pending_action_id r) (map aa_id (actions d))
         then (d, fail (fk_violation ''agent_runs_pending_action_id_fkey''))
         else (d\<lparr>runs := update_where P f (runs d)\<rparr>, ok ()))"

definition update_agent_run_waiting :: "uuid \<Rightarrow> uuid \<Rightarrow> string \<Rightarrow> int \<Rightarrow> string option \<Rightarrow> uuid option \<Rightarrow> gomap option
    \<Rightarrow> db \<Rightarrow> db \<times> unit res" where
  "update_agent_run_waiting org_id i status iteration reason pending out d =
     update_runs org_id i (\<lambda>r. r\<lparr>run_status := status, run_current_iteration := iteration,
       run_waiting_reason := reason, run_pending_action_id := pending, run_output := out,
       run_updated_at := now d\<rparr>) d"

definition get_waiting_run_by_correlation :: "uuid \<Rightarrow> uuid \<Rightarrow> db \<Rightarrow> agent_run res" where
  "get_waiting_run_by_correlation org_id corr d =
     query_row (\<lambda>r. run_organization_id r = org_id \<and> run_correlation_id r = Some corr
       \<and> run_status r \<in> {''awaiting_approval'', ''WAITING_FOR_APPROVAL'', ''waiting''}) (rev (runs d))"

definition valid_run_transitions :: "(string \<times> string list) list" where
  "valid_run_transitions =
    [(''queued'', [''running'', ''cancelled'']),
     (''running'', [''awaiting_approval'', ''succeeded'', ''failed'', ''cancelled'', ''waiting'', ''blocked'']),
     (''awaiting_approval'', [''running'', ''failed'', ''cancelled'']),
     (''waiting'', [''running'', ''succeeded'', ''failed'', ''cancelled'']),
     (''blocked'', [''running'', ''cancelled'']),
     (''succeeded'', []),
     (''failed'', [''queued'', ''running'']),
     (''cancelled'', []),
     (''pending'', [''running'', ''cancelled'']),
     (''assigned'', [''running'', ''cancelled'']),
     (''completed'', [])]"

definition is_valid_run_transition :: "string \<Rightarrow> string \<Rightarrow> bool" where
  "is_valid_run_transition s t =
     (case map_of valid_run_transitions s of
        None \<Rightarrow> False
      | Some allowed \<Rightarrow> t \<in> set allowed \<or> s = t)"

text \<open>The guard of \<^verbatim>\<open>UpdateAgentRunStatus\<close>: a row that is not there reads as the empty status.\<close>

definition run_update_refused :: "string \<Rightarrow> string \<Rightarrow> bool" where
  "run_update_refused current status \<longleftrightarrow>
     current \<noteq> [] \<and> \<not> is_valid_run_transition current status
     \<and> \<not> (current = ''succeeded'' \<and> status = ''running'')
     \<and> current \<in> {''succeeded'', ''completed'', ''cancelled''}"

definition set_run_status :: "time \<Rightarrow> string \<Rightarrow> gomap option \<Rightarrow> string option \<Rightarrow> agent_run \<Rightarrow> agent_run" where
  "set_run_status t status out err r =
     r\<lparr>run_status := status, run_output := out, run_error := err, run_updated_at := t,
       run_started_at := (case run_started_at r of
           Some s \<Rightarrow> Some s | None \<Rightarrow> if status = ''running'' then Some t else None),
       run_finished_at := (if status \<in> {''succeeded'', ''failed'', ''cancelled'', ''completed''}
                           then Some t else run_finished_at r)\<rparr>"

definition update_agent_run_status :: "uuid \<Rightarrow> uuid \<Rightarrow> string \<Rightarrow> gomap option \<Rightarrow> string option \<Rightarrow> db \<Rightarrow> db \<times> unit res" where
  "update_agent_run_status org_id i status out err d =
     (let current = (case query_row (\<lambda>r. run_id r = i \<and> run_organization_id r = org_id) (runs d) of
                       Inl _ \<Rightarrow> [] | Inr r \<Rightarrow> run_status r)
      in if run_update_refused current status
         then (d, fail (''invalid run transition '' @ current @ '' -> '' @ status))
         else update_runs org_id i (set_run_status (now d) status out err) d)"

section \<open>Token counts\<close>

record usage =
  prompt_tokens :: int
  completion_tokens :: int
  total_tokens :: int

text \<open>
  \<^verbatim>\<open>COALESCE((token_metadata->>k)::int, 0)\<close>; a value that is not an integer makes the statement fail.
  The writers of the column store numbers only, so a string that spells one is not considered.
\<close>

definition token_count :: "gomap option \<Rightarrow> string \<Rightarrow> int option" where
  "token_count m k = (case mget m k of
       None \<Rightarrow> Some 0
     | Some JNull \<Rightarrow> Some 0
     | Some (JNum q) \<Rightarrow> if q = of_int \<lfloor>q\<rfloor> then Some \<lfloor>q\<rfloor> else None
     | Some _ \<Rightarrow> None)"

definition token_cost :: "int \<Rightarrow> int \<Rightarrow> rat" where
  "token_cost p c = of_int p * (1 / 100000) + of_int c * (3 / 100000)"

definition add_tokens :: "usage \<Rightarrow> gomap option \<Rightarrow> gomap option option" where
  "add_tokens u m =
     (case (token_count m ''promptTokens'', token_count m ''completionTokens'') of
        (Some p, Some c) \<Rightarrow>
          (let p' = p + prompt_tokens u; c' = c + completion_tokens u;
               e = (case m of None \<Rightarrow> [] | Some e \<Rightarrow> e)
           in Some (Some (AList.update ''estimatedCost'' (JNum (token_cost p' c'))
                (AList.update ''totalTokens'' (JNum (of_int (p' + c')))
                (AList.update ''completionTokens'' (JNum (of_int c'))
                (AList.update ''promptTokens'' (JNum (of_int p')) e))))))
      | _ \<Rightarrow> None)"

definition update_agent_run_tokens :: "uuid \<Rightarrow> uuid \<Rightarrow> usage \<Rightarrow> db \<Rightarrow> db \<times> unit res" where
  "update_agent_run_tokens org_id i u d =
     (let P = (\<lambda>r. run_id r = i \<and> run_organization_id r = org_id)
      in if \<exists>r \<in> set (runs d). P r \<and> add_tokens u (run_token_metadata r) = None
         then (d, fail ''invalid input syntax for type integer'')
         else (d\<lparr>runs := update_where P (\<lambda>r. case add_tokens u (run_token_metadata r) of
                   None \<Rightarrow> r | Some m \<Rightarrow> r\<lparr>run_token_metadata := m\<rparr>) (runs d)\<rparr>, ok ()))"

definition set_agent_run_tokens :: "uuid \<Rightarrow> uuid \<Rightarrow> usage \<Rightarrow> db \<Rightarrow> db \<times> unit res" where
  "set_agent_run_tokens org_id i u d =
     update_runs org_id i (\<lambda>r. r\<lparr>run_token_metadata := Some
        [(''promptTokens'', JNum (of_int (prompt_tokens u))), (''completionTokens'', JNum (of_int (completion_tokens u))),
         (''totalTokens'', JNum (of_int (total_tokens u))),
         (''estimatedCost'', JNum (token_cost (prompt_tokens u) (completion_tokens u)))]\<rparr>) d"

section \<open>Actions\<close>

definition action_type_check :: "string list" where
  "action_type_check = [''llm_call'', ''tool_call'', ''message'', ''approval_request'', ''error'']"

definition action_status_check :: "string list" where
  "action_status_check = [''pending'', ''running'', ''succeeded'', ''failed'']"

definition create_agent_action :: "uuid \<Rightarrow> int \<Rightarrow> string \<Rightarrow> string option \<Rightarrow> gomap option \<Rightarrow> gomap option \<Rightarrow> string
    \<Rightarrow> uuid option \<Rightarrow> db \<Rightarrow> db \<times> agent_action res" where
  "create_agent_action r seq typ name inp out status corr d =
     (if seq < 0 then (d, fail (check_violation ''agent_actions_seq_check''))
      else if typ \<notin> set action_type_check then (d, fail (check_violation ''agent_actions_action_type_check''))
      else if status \<notin> set action_status_check then (d, fail (check_violation ''agent_actions_status_check''))
      else if \<exists>a \<in> set (actions d). aa_run_id a = r \<and> aa_seq a = seq then (d, fail (unique_violation ''agent_actions_run_id_seq_key''))
      else if r \<notin> run_id ` set (runs d) then (d, fail (fk_violation ''agent_actions_run_id_fkey''))
      else (let a = \<lparr>aa_id = next_id d, aa_run_id = r, aa_seq = seq, aa_action_type = typ, aa_tool_name = name,
                 aa_input = inp, aa_output = out, aa_status = status, aa_correlation_id = corr, aa_created_at = now d\<rparr>
            in (d\<lparr>actions := actions d @ [a], next_id := next_id d + 1\<rparr>, ok a)))"

section \<open>Processed events\<close>

text \<open>\<open>sha\<close> is the hex form of the first eight bytes of \<^verbatim>\<open>sha256.Sum256\<close> of the marshalled payload.\<close>

definition payload_hash :: "(string \<Rightarrow> string) \<Rightarrow> golib \<Rightarrow> json \<Rightarrow> string" where
  "payload_hash sha g payload = sha (json_marshal g payload)"

definition event_row_is :: "string \<Rightarrow> string \<Rightarrow> processed_event \<Rightarrow> bool" where
  "event_row_is eid consumer e \<longleftrightarrow> pe_event_id e = eid \<and> pe_consumer e = consumer"

definition check_and_claim_event :: "(string \<Rightarrow> string) \<Rightarrow> golib \<Rightarrow> string \<Rightarrow> string \<Rightarrow> string \<Rightarrow> string \<Rightarrow> uuid option \<Rightarrow> json
    \<Rightarrow> db \<Rightarrow> db \<times> bool res" where
  "check_and_claim_event sha g eid typ src consumer corr payload d =
     (let d = (if \<exists>e \<in> set (processed_events d). event_row_is eid consumer e then d
               else d\<lparr>processed_events := processed_events d @ [\<lparr>pe_event_id = eid, pe_event_type = typ, pe_source = src,
                    pe_correlation_id = corr, pe_payload_hash = payload_hash sha g payload, pe_consumer = consumer,
                    pe_status = ''processing'', pe_processed_at = now d\<rparr>]\<rparr>)
      in case query_row (event_row_is eid consumer) (processed_events d) of
           Inl e \<Rightarrow> (d, fail e)
         | Inr e \<Rightarrow> (d, ok (pe_status e = ''processed'')))"

definition mark_event :: "string \<Rightarrow> string \<Rightarrow> string \<Rightarrow> db \<Rightarrow> db" where
  "mark_event status eid consumer d =
     d\<lparr>processed_events := update_where (event_row_is eid consumer)
         (\<lambda>e. e\<lparr>pe_status := status, pe_processed_at := now d\<rparr>) (processed_events d)\<rparr>"

definition mark_event_processed :: "string \<Rightarrow> string \<Rightarrow> db \<Rightarrow> db" where
  "mark_event_processed = mark_event ''processed''"

definition mark_event_failed :: "string \<Rightarrow> string \<Rightarrow> string \<Rightarrow> db \<Rightarrow> db" where
  "mark_event_failed eid consumer err = mark_event ''failed'' eid consumer"

definition is_event_processed :: "string \<Rightarrow> string \<Rightarrow> db \<Rightarrow> bool" where
  "is_event_processed eid consumer d \<longleftrightarrow>
     (\<exists>e \<in> set (processed_events d). event_row_is eid consumer e \<and> pe_status e = ''processed'')"

section \<open>The status of a run\<close>

definition run_status_of :: "uuid \<Rightarrow> db \<Rightarrow> string option" where
  "run_status_of i d = map_option run_status (find (\<lambda>r. run_id r = i) (runs d))"

definition runs_wf :: "db \<Rightarrow> bool" where
  "runs_wf d \<longleftrightarrow> distinct (map run_id (runs d)) \<and> (\<forall>r \<in> set (runs d). run_status r \<in> set run_status_check)"

type_synonym run_request = "uuid \<times> uuid \<times> string \<times> gomap option \<times> string option"

fun run_requests :: "run_request list \<Rightarrow> db \<Rightarrow> db" where
  "run_requests [] d = d"
| "run_requests ((org_id, i, status, out, err) # rs) d =
     run_requests rs (fst (update_agent_run_status org_id i status out err d))"

interpretation run_machine: status_machine "\<lambda>s t. \<not> run_update_refused s t" "{''completed'', ''cancelled''}"
  by unfold_locales (auto simp: run_update_refused_def is_valid_run_transition_def valid_run_transitions_def)

lemma run_ids_distinct:
  "runs_wf d \<Longrightarrow> r \<in> set (runs d) \<Longrightarrow> find (\<lambda>q. run_id q = run_id r) (runs d) = Some r"
  unfolding runs_wf_def by (blast intro: find_distinct)

lemma set_run_status_simps [simp]:
  "run_id (set_run_status t s out err r) = run_id r"
  "run_organization_id (set_run_status t s out err r) = run_organization_id r"
  "run_status (set_run_status t s out err r) = s"
  "run_pending_action_id (set_run_status t s out err r) = run_pending_action_id r"
  by (simp_all add: set_run_status_def)

lemma update_runs_none:
  assumes "\<forall>r \<in> set (runs d). \<not> (run_id r = i \<and> run_organization_id r = org_id)"
  shows "update_runs org_id i f d = (d, ok ())"
proof -
  have "filter (\<lambda>r. run_id r = i \<and> run_organization_id r = org_id) (runs d) = []"
    using assms by (simp add: filter_empty_conv)
  with update_where_none [OF assms] show ?thesis unfolding update_runs_def Let_def by simp
qed

text \<open>What an update of the status does to the one row it can concern.\<close>

lemma update_agent_run_status_cases:
  assumes "update_agent_run_status org_id i s out err d = (d', res)" and "runs_wf d"
  obtains (same) "d' = d"
  | (changed) r where "r \<in> set (runs d)" "run_id r = i" "run_organization_id r = org_id"
      "\<not> run_update_refused (run_status r) s" "s \<in> set run_status_check" "res = ok ()"
      "d' = d\<lparr>runs := map (\<lambda>q. if q = r then set_run_status (now d) s out err r else q) (runs d)\<rparr>"
proof (cases "query_row (\<lambda>r. run_id r = i \<and> run_organization_id r = org_id) (runs d)")
  case (Inl e)
  then have none: "\<forall>r \<in> set (runs d). \<not> (run_id r = i \<and> run_organization_id r = org_id)" by (simp add: query_row_cases)
  then have "update_runs org_id i f d = (d, ok ())" for f by (rule update_runs_none)
  then have "d' = d" using assms(1) Inl by (simp add: update_agent_run_status_def run_update_refused_def)
  then show ?thesis by (rule same)
next
  case (Inr r)
  let ?P = "\<lambda>r. run_id r = i \<and> run_organization_id r = org_id"
  let ?f = "set_run_status (now d) s out err"
  have r: "r \<in> set (runs d)" "?P r" using query_row_okD [OF Inr] by auto
  have one: "?P q \<longleftrightarrow> q = r" if "q \<in> set (runs d)" for q
  proof
    assume "?P q"
    then have i: "run_id q = run_id r" using r(2) by simp
    have "find (\<lambda>x. run_id x = run_id r) (runs d) = Some q"
      using run_ids_distinct [OF assms(2) that] unfolding i .
    then show "q = r" unfolding run_ids_distinct [OF assms(2) r(1)] by (rule option.inject [THEN iffD1, symmetric])
  qed (use r(2) in simp)
  have upd: "update_where ?P ?f (runs d) = map (\<lambda>q. if q = r then ?f r else q) (runs d)"
    unfolding update_where_def by (rule map_cong) (use one in auto)
  show ?thesis
  proof (cases "run_update_refused (run_status r) s \<or> fst (update_runs org_id i ?f d) = d")
    case True
    then have "d' = d" using assms(1) Inr
      by (cases "run_update_refused (run_status r) s") (simp_all add: update_agent_run_status_def)
    then show ?thesis by (rule same)
  next
    case False
    then have u: "update_runs org_id i ?f d = (d', res)"
      using assms(1) Inr by (simp add: update_agent_run_status_def)
    have "r \<in> set (filter ?P (runs d))" using r by simp
    then have "s \<in> set run_status_check \<and> res = ok () \<and> d' = d\<lparr>runs := update_where ?P ?f (runs d)\<rparr>"
      using u False by (auto simp: update_runs_def Let_def split: if_splits)
    then show ?thesis using r False upd by (intro changed [of r]) auto
  qed
qed

lemma find_map_same_id:
  assumes "find (\<lambda>q. run_id q = i) rs = Some r0" and "\<And>q. run_id (f q) = run_id q"
  shows "find (\<lambda>q. run_id q = i) (map f rs) = Some (f r0)"
  using assms by (induction rs) (auto split: if_splits)

lemma run_update_moves:
  assumes "runs_wf d" and "find (\<lambda>q. run_id q = i) (runs d) = Some r"
    and u: "update_agent_run_status org_id j s out err d = (d', res)"
  shows "runs_wf d' \<and> (\<exists>r'. find (\<lambda>q. run_id q = i) (runs d') = Some r'
      \<and> \<not> run_update_refused (run_status r) (run_status r')
      \<and> (\<forall>t. run_started_at r = Some t \<longrightarrow> run_started_at r' = Some t))"
proof -
  have refl: "\<not> run_update_refused (run_status r) (run_status r)"
    by (auto simp: run_update_refused_def is_valid_run_transition_def valid_run_transitions_def)
  from u assms(1) show ?thesis
  proof (cases rule: update_agent_run_status_cases)
    case same
    then show ?thesis using assms refl by simp
  next
    case (changed r1)
    let ?f = "\<lambda>q. if q = r1 then set_run_status (now d) s out err r1 else q"
    have "map run_id (map ?f (runs d)) = map run_id (runs d)" by auto
    moreover have "\<forall>q \<in> set (map ?f (runs d)). run_status q \<in> set run_status_check"
      using assms(1) changed(5) by (auto simp: runs_wf_def)
    ultimately have wf: "runs_wf d'" using assms(1) unfolding changed(7) runs_wf_def by (simp del: map_map)
    have "find (\<lambda>q. run_id q = i) (runs d') = Some (?f r)"
      using find_map_same_id [OF assms(2), of ?f] unfolding changed(7) by simp
    with wf refl changed(4) show ?thesis by (auto simp: set_run_status_def)
  qed
qed

lemma run_requests_moves:
  assumes "runs_wf d" and "find (\<lambda>q. run_id q = i) (runs d) = Some r"
  shows "\<exists>r'. find (\<lambda>q. run_id q = i) (runs (run_requests rs d)) = Some r'
    \<and> (\<lambda>s t. \<not> run_update_refused s t)\<^sup>*\<^sup>* (run_status r) (run_status r')
    \<and> (\<forall>t. run_started_at r = Some t \<longrightarrow> run_started_at r' = Some t)"
  using assms
proof (induction rs d arbitrary: r rule: run_requests.induct)
  case (2 org_id j s out err rs d)
  obtain d1 res where u: "update_agent_run_status org_id j s out err d = (d1, res)" by fastforce
  from run_update_moves [OF 2(2,3) u] obtain r1 where
    r1: "runs_wf d1" "find (\<lambda>q. run_id q = i) (runs d1) = Some r1"
      "\<not> run_update_refused (run_status r) (run_status r1)"
      "\<forall>t. run_started_at r = Some t \<longrightarrow> run_started_at r1 = Some t" by blast
  from 2(1) r1(1,2) u obtain r2 where
    "find (\<lambda>q. run_id q = i) (runs (run_requests rs d1)) = Some r2"
    "(\<lambda>s t. \<not> run_update_refused s t)\<^sup>*\<^sup>* (run_status r1) (run_status r2)"
    "\<forall>t. run_started_at r1 = Some t \<longrightarrow> run_started_at r2 = Some t" by force
  with r1(3,4) u show ?case by (auto intro: converse_rtranclp_into_rtranclp)
qed auto

text \<open>
  C37: no sequence of \<^verbatim>\<open>UpdateAgentRunStatus\<close> calls takes a run out of \<^verbatim>\<open>completed\<close> or \<^verbatim>\<open>cancelled\<close>,
  loses the run, or changes the time it started once that is recorded.
\<close>

theorem run_terminal_absorbing:
  assumes "runs_wf d" and "find (\<lambda>q. run_id q = i) (runs d) = Some r"
  shows "\<exists>r'. find (\<lambda>q. run_id q = i) (runs (run_requests rs d)) = Some r'
    \<and> (run_status r \<in> {''completed'', ''cancelled''} \<longrightarrow> run_status r' = run_status r)
    \<and> (\<forall>t. run_started_at r = Some t \<longrightarrow> run_started_at r' = Some t)"
  using run_requests_moves [OF assms, of rs] run_machine.final_absorbing by blast

definition demo_run_db :: db where
  "demo_run_db = fst (create_agent_run 1 4 None None ''manual'' None None None None demo_db)"

lemma demo_run_wf: "runs_wf demo_run_db" by (simp add: runs_wf_def) code_simp

lemma run_terminal_absorbing_witness:
  "\<exists>r'. find (\<lambda>q. run_id q = 100) (runs (run_requests [(1, 100, ''running'', None, None)]
      (run_requests [(1, 100, ''running'', None, None), (1, 100, ''cancelled'', None, None)] demo_run_db))) = Some r'
    \<and> run_status r' = ''cancelled'' \<and> run_started_at r' = Some 1000"
proof -
  let ?d = "run_requests [(1, 100, ''running'', None, None), (1, 100, ''cancelled'', None, None)] demo_run_db"
  have wf: "runs_wf ?d" by (simp add: runs_wf_def) code_simp
  have "map_option (\<lambda>r. (run_status r, run_started_at r)) (find (\<lambda>q. run_id q = 100) (runs ?d)) = Some (''cancelled'', Some 1000)"
    by code_simp
  then obtain r where "find (\<lambda>q. run_id q = 100) (runs ?d) = Some r" "run_status r = ''cancelled''" "run_started_at r = Some 1000"
    by auto
  with run_terminal_absorbing [OF wf this(1), of "[(1, 100, ''running'', None, None)]"] show ?thesis by auto
qed

text \<open>
  \<^verbatim>\<open>UpdateAgentRunWaiting\<close> looks at no table: it sets any status the column accepts, also on a
  run that is completed or cancelled.
\<close>

theorem waiting_overrides_status:
  assumes "runs_wf d" and "r \<in> set (runs d)" and "s \<in> set run_status_check"
  shows "\<exists>d'. update_agent_run_waiting (run_organization_id r) (run_id r) s n why None out d = (d', ok ())
    \<and> run_status_of (run_id r) d' = Some s"
proof -
  let ?P = "\<lambda>q. run_id q = run_id r \<and> run_organization_id q = run_organization_id r"
  let ?f = "\<lambda>r. r\<lparr>run_status := s, run_current_iteration := n, run_waiting_reason := why,
       run_pending_action_id := None, run_output := out, run_updated_at := now d\<rparr>"
  have "find (\<lambda>q. run_id q = run_id r) (update_where ?P ?f (runs d)) = Some (?f r)"
    unfolding update_where_def
    by (subst find_map_same_id [OF run_ids_distinct [OF assms(1,2)]]) auto
  then show ?thesis using assms(3)
    by (auto simp: update_agent_run_waiting_def update_runs_def Let_def run_status_of_def opt_ref_def)
qed

lemma waiting_overrides_status_witness:
  "\<exists>d'. update_agent_run_waiting 1 100 ''running'' 1 None None None
      (run_requests [(1, 100, ''cancelled'', None, None)] demo_run_db) = (d', ok ()) \<and> run_status_of 100 d' = Some ''running''"
proof -
  let ?d = "run_requests [(1, 100, ''cancelled'', None, None)] demo_run_db"
  have wf: "runs_wf ?d" by (simp add: runs_wf_def) code_simp
  have "map (\<lambda>r. (run_organization_id r, run_id r)) (runs ?d) = [(1, 100)]" by code_simp
  then obtain r where r: "r \<in> set (runs ?d)" "run_organization_id r = 1" "run_id r = 100" by auto
  have "''running'' \<in> set run_status_check" by code_simp
  from waiting_overrides_status [OF wf r(1) this, of 1 None None] show ?thesis by (simp add: r)
qed

text \<open>
  The triggers that the orchestrator, the delegation actions and the approval handler put into
  their jobs are not among those the table accepts: \<^verbatim>\<open>CreateAgentRun\<close> fails for each of them, on every
  database, and leaves nothing behind. It never sees them, because the worker's handler of the jobs
  (\<^verbatim>\<open>http/router.go\<close>) does not read the trigger and passes \<^verbatim>\<open>task_assigned\<close>.
\<close>

theorem orchestrator_triggers_refused:
  "list_all (\<lambda>trigger. create_agent_run org_id agent task channel trigger inp ctx corr parent d
      = (d, fail (check_violation ''agent_runs_trigger_type_check'')))
    [''team_task'', ''delegated'', ''retry'', ''approval_received'', ''approval_rejected'']"
  by (simp add: create_agent_run_def insert_run_def trigger_type_check_def)

section \<open>The actions of a run\<close>

type_synonym action_request = "uuid \<times> int \<times> string \<times> string option \<times> gomap option \<times> gomap option \<times> string \<times> uuid option"

fun log_actions :: "action_request list \<Rightarrow> db \<Rightarrow> db" where
  "log_actions [] d = d"
| "log_actions ((r, n, typ, name, inp, out, st, corr) # as) d =
     log_actions as (fst (create_agent_action r n typ name inp out st corr d))"

definition actions_wf :: "db \<Rightarrow> bool" where
  "actions_wf d \<longleftrightarrow> distinct (map (\<lambda>a. (aa_run_id a, aa_seq a)) (actions d))"

lemma create_agent_action_cases:
  assumes "create_agent_action r n typ name inp out st corr d = (d', res)"
  obtains (refused) e where "d' = d" "res = fail e"
  | (added) a where "d' = d\<lparr>actions := actions d @ [a], next_id := next_id d + 1\<rparr>" "res = ok a"
      "aa_run_id a = r" "aa_seq a = n" "0 \<le> n" "typ \<in> set action_type_check" "st \<in> set action_status_check"
      "\<forall>b \<in> set (actions d). (aa_run_id b, aa_seq b) \<noteq> (r, n)" "aa_status a = st" "aa_output a = out"
proof (cases "0 \<le> n \<and> typ \<in> set action_type_check \<and> st \<in> set action_status_check
    \<and> (\<forall>b \<in> set (actions d). (aa_run_id b, aa_seq b) \<noteq> (r, n)) \<and> r \<in> run_id ` set (runs d)")
  case True
  let ?a = "\<lparr>aa_id = next_id d, aa_run_id = r, aa_seq = n, aa_action_type = typ, aa_tool_name = name,
     aa_input = inp, aa_output = out, aa_status = st, aa_correlation_id = corr, aa_created_at = now d\<rparr>"
  from True have "\<not> n < 0" "\<not> (\<exists>a \<in> set (actions d). aa_run_id a = r \<and> aa_seq a = n)" by auto
  with True assms have "d' = d\<lparr>actions := actions d @ [?a], next_id := next_id d + 1\<rparr> \<and> res = ok ?a"
    by (simp add: create_agent_action_def Let_def)
  with True show ?thesis by (intro added [of ?a]) simp_all
next
  case False
  have "d' = d \<and> (\<exists>e. res = fail e)"
    using assms False unfolding create_agent_action_def by (simp split: if_splits) blast+
  then show ?thesis using refused by blast
qed

lemma create_agent_action_wf: "actions_wf d \<Longrightarrow> actions_wf (fst (create_agent_action r n typ name inp out st corr d))"
proof -
  assume wf: "actions_wf d"
  obtain d' res where u: "create_agent_action r n typ name inp out st corr d = (d', res)" by fastforce
  then show ?thesis
    by (cases rule: create_agent_action_cases) (use wf u in \<open>auto simp: actions_wf_def\<close>)
qed

lemma log_actions_wf: "actions_wf d \<Longrightarrow> actions_wf (log_actions as d)"
  by (induction as d rule: log_actions.induct) (simp_all add: create_agent_action_wf)

text \<open>
  However actions are logged, \<^verbatim>\<open>ListAgentActions\<close> returns the actions of the run in strictly
  increasing order of their sequence numbers, and a second action with the number of one that was
  accepted is refused: the result that the runtime logs under the number of its \<^verbatim>\<open>running\<close> entry is lost.
\<close>

theorem action_log_strict:
  assumes "actions_wf d"
  shows "sorted_wrt (<) (map aa_seq (list_agent_actions r (log_actions as d)))
    \<and> (snd (create_agent_action r n typ name inp out st corr d) = ok a \<longrightarrow>
        (\<exists>e. create_agent_action r n typ' name' inp' out' st' corr'
               (fst (create_agent_action r n typ name inp out st corr d))
             = (fst (create_agent_action r n typ name inp out st corr d), fail e)))"
proof
  let ?l = "filter (\<lambda>a. aa_run_id a = r) (actions (log_actions as d))"
  have "distinct (map (\<lambda>a. (aa_run_id a, aa_seq a)) ?l)"
    using log_actions_wf [OF assms, of as] unfolding actions_wf_def by (simp add: distinct_map_filter)
  moreover have "map (\<lambda>a. (aa_run_id a, aa_seq a)) ?l = map (Pair r) (map aa_seq ?l)" by simp
  ultimately have "distinct (map aa_seq ?l)" by (metis distinct_map)
  then have "distinct (map aa_seq (sort_key aa_seq ?l))"
    by (metis distinct_map distinct_sort set_sort)
  then show "sorted_wrt (<) (map aa_seq (list_agent_actions r (log_actions as d)))"
    by (simp add: list_agent_actions_def strict_sorted_iff)
next
  show "snd (create_agent_action r n typ name inp out st corr d) = ok a \<longrightarrow>
        (\<exists>e. create_agent_action r n typ' name' inp' out' st' corr'
               (fst (create_agent_action r n typ name inp out st corr d))
             = (fst (create_agent_action r n typ name inp out st corr d), fail e))"
  proof
    assume ok: "snd (create_agent_action r n typ name inp out st corr d) = ok a"
    obtain d' where u: "create_agent_action r n typ name inp out st corr d = (d', ok a)"
      using ok by (metis surjective_pairing)
    then have "\<exists>b \<in> set (actions d'). aa_run_id b = r \<and> aa_seq b = n"
      by (cases rule: create_agent_action_cases) auto
    then show "\<exists>e. create_agent_action r n typ' name' inp' out' st' corr'
               (fst (create_agent_action r n typ name inp out st corr d))
             = (fst (create_agent_action r n typ name inp out st corr d), fail e)"
      unfolding u by (simp add: create_agent_action_def)
  qed
qed

lemma action_log_strict_witness:
  "let d = log_actions [(100, 0, ''tool_call'', None, None, None, ''running'', None),
                        (100, 0, ''tool_call'', None, None, Some [], ''succeeded'', None)] demo_run_db
   in map (\<lambda>a. (aa_seq a, aa_status a)) (list_agent_actions 100 d) = [(0, ''running'')]
      \<and> sorted_wrt (<) (map aa_seq (list_agent_actions 100 d))"
proof -
  let ?as = "[(100, 0, ''tool_call'', None, None, None, ''running'', None),
              (100, 0, ''tool_call'', None, None, Some [], ''succeeded'', None)]"
  have wf: "actions_wf demo_run_db" by (simp add: actions_wf_def) code_simp
  have "map (\<lambda>a. (aa_seq a, aa_status a)) (list_agent_actions 100 (log_actions ?as demo_run_db)) = [(0, ''running'')]"
    by code_simp
  with action_log_strict [OF wf, of 100 ?as] show ?thesis by simp
qed
section \<open>Events\<close>

definition event_status :: "string \<Rightarrow> string \<Rightarrow> db \<Rightarrow> string option" where
  "event_status eid consumer d = map_option pe_status (find (event_row_is eid consumer) (processed_events d))"

lemma event_row_is_simps [simp]:
  "event_row_is e c (x\<lparr>pe_status := st, pe_processed_at := t\<rparr>) = event_row_is e c x"
  "event_row_is e c \<lparr>pe_event_id = eid, pe_event_type = typ, pe_source = src, pe_correlation_id = corr,
     pe_payload_hash = h, pe_consumer = consumer, pe_status = st, pe_processed_at = t\<rparr> \<longleftrightarrow> eid = e \<and> consumer = c"
  by (simp_all add: event_row_is_def)

lemma event_row_is_same: "event_row_is eid consumer x \<Longrightarrow> event_row_is e c x \<longleftrightarrow> e = eid \<and> c = consumer"
  by (auto simp: event_row_is_def)

lemma claim_cases:
  "check_and_claim_event sha g eid typ src consumer corr payload d =
     (case event_status eid consumer d of
        None \<Rightarrow> (d\<lparr>processed_events := processed_events d @ [\<lparr>pe_event_id = eid, pe_event_type = typ, pe_source = src,
                    pe_correlation_id = corr, pe_payload_hash = payload_hash sha g payload, pe_consumer = consumer,
                    pe_status = ''processing'', pe_processed_at = now d\<rparr>]\<rparr>, ok False)
      | Some st \<Rightarrow> (d, ok (st = ''processed'')))"
proof (cases "find (event_row_is eid consumer) (processed_events d)")
  case None
  then have "\<not> (\<exists>e \<in> set (processed_events d). event_row_is eid consumer e)" unfolding find_None_iff by blast
  with None show ?thesis unfolding check_and_claim_event_def by (simp add: event_status_def query_row_def find_append)
next
  case (Some e)
  from find_in [OF Some] have "\<exists>e \<in> set (processed_events d). event_row_is eid consumer e" by blast
  with Some show ?thesis by (simp add: event_status_def check_and_claim_event_def query_row_def)
qed

lemma claim_result:
  "snd (check_and_claim_event sha g eid typ src consumer corr payload d)
     = ok (event_status eid consumer d = Some ''processed'')"
  by (simp add: claim_cases split: option.split)

lemma claim_status:
  "event_status e c (fst (check_and_claim_event sha g eid typ src consumer corr payload d))
     = (if e = eid \<and> c = consumer \<and> event_status e c d = None then Some ''processing'' else event_status e c d)"
  by (cases "event_status eid consumer d") (auto simp: claim_cases event_status_def find_append split: option.split)

lemma mark_status:
  "event_status e c (mark_event st eid consumer d)
     = (if e = eid \<and> c = consumer \<and> event_status e c d \<noteq> None then Some st else event_status e c d)"
proof -
  have "map_option pe_status (find (event_row_is e c) (update_where (event_row_is eid consumer)
      (\<lambda>x. x\<lparr>pe_status := st, pe_processed_at := now d\<rparr>) rs))
     = (if e = eid \<and> c = consumer \<and> map_option pe_status (find (event_row_is e c) rs) \<noteq> None then Some st
        else map_option pe_status (find (event_row_is e c) rs))" for rs
  proof (induction rs)
    case (Cons r rs)
    then show ?case
      by (cases "event_row_is eid consumer r"; cases "event_row_is e c r")
        (auto simp: update_where_def event_row_is_same)
  qed (simp add: update_where_def)
  from this [of "processed_events d"] show ?thesis unfolding mark_event_def event_status_def by simp
qed

lemmas event_facts = claim_result claim_status mark_status mark_event_processed_def mark_event_failed_def

text \<open>
  The way a consumer is meant to use the table: claim, and unless the event was processed before,
  handle it and mark it. A key is an event with its consumer.
\<close>

definition handle_event :: "(string \<Rightarrow> string) \<Rightarrow> golib \<Rightarrow> json \<Rightarrow> db \<Rightarrow> time \<Rightarrow> string \<times> string \<Rightarrow> db \<times> bool" where
  "handle_event sha g payload d t k =
     (case check_and_claim_event sha g (fst k) ''event'' ''source'' (snd k) None payload d of
        (d', Inr False) \<Rightarrow> (mark_event_processed (fst k) (snd k) d', True)
      | (d', _) \<Rightarrow> (d', False))"

definition event_done :: "db \<Rightarrow> time \<Rightarrow> string \<times> string \<Rightarrow> bool" where
  "event_done d t k \<longleftrightarrow> event_status (fst k) (snd k) d = Some ''processed''"

lemma handle_event_eq:
  "handle_event sha g payload d t k =
     (let d' = fst (check_and_claim_event sha g (fst k) ''event'' ''source'' (snd k) None payload d)
      in if event_done d t k then (d', False) else (mark_event_processed (fst k) (snd k) d', True))"
proof -
  let ?c = "check_and_claim_event sha g (fst k) ''event'' ''source'' (snd k) None payload d"
  have "snd ?c = ok (event_done d t k)" by (simp add: claim_result event_done_def)
  then obtain d' where c: "?c = (d', ok (event_done d t k))" by (metis prod.collapse)
  then show ?thesis by (cases "event_done d t k") (simp_all add: handle_event_def)
qed

lemma handle_event_done:
  "event_done (fst (handle_event sha g payload d t k)) t' k' \<longleftrightarrow> k' = k \<or> event_done d t' k'"
proof (cases "event_done d t k")
  case True
  then have "fst (handle_event sha g payload d t k)
      = fst (check_and_claim_event sha g (fst k) ''event'' ''source'' (snd k) None payload d)"
    by (simp add: handle_event_eq)
  with True show ?thesis by (auto simp: event_done_def claim_status prod_eq_iff)
next
  case False
  then have "fst (handle_event sha g payload d t k) = mark_event_processed (fst k) (snd k)
      (fst (check_and_claim_event sha g (fst k) ''event'' ''source'' (snd k) None payload d))"
    by (simp add: handle_event_eq)
  then show ?thesis by (auto simp: event_done_def mark_event_processed_def mark_status claim_status prod_eq_iff)
qed

interpretation events_once: claim_once "handle_event sha g payload" event_done
  by unfold_locales (simp_all add: handle_event_done, simp add: handle_event_eq Let_def split: if_splits)

text \<open>
  Consumers that claim, handle and mark one after the other handle every event at most once; but
  the claim alone excludes nobody: until the mark, a second caller is told, like the first, that the
  event was not processed.
\<close>

theorem event_handling:
  "distinct (map snd (accepted (handle_event sha g payload) d (map (\<lambda>k. (0, k)) ks)))
   \<and> (let d1 = fst (check_and_claim_event sha g eid typ src consumer corr payload d);
          d2 = fst (check_and_claim_event sha g eid typ src consumer corr payload d1)
      in snd (check_and_claim_event sha g eid typ src consumer corr payload d1)
           = snd (check_and_claim_event sha g eid typ src consumer corr payload d)
         \<and> snd (check_and_claim_event sha g eid typ src consumer corr payload (mark_event_processed eid consumer d2)) = ok True
         \<and> snd (check_and_claim_event sha g eid typ src consumer corr payload (mark_event_failed eid consumer err d2)) = ok False)"
proof
  show "distinct (map snd (accepted (handle_event sha g payload) d (map (\<lambda>k. (0, k)) ks)))"
    by (rule events_once.accepted_distinct) (induction ks; simp)
next
  show "let d1 = fst (check_and_claim_event sha g eid typ src consumer corr payload d);
          d2 = fst (check_and_claim_event sha g eid typ src consumer corr payload d1)
      in snd (check_and_claim_event sha g eid typ src consumer corr payload d1)
           = snd (check_and_claim_event sha g eid typ src consumer corr payload d)
         \<and> snd (check_and_claim_event sha g eid typ src consumer corr payload (mark_event_processed eid consumer d2)) = ok True
         \<and> snd (check_and_claim_event sha g eid typ src consumer corr payload (mark_event_failed eid consumer err d2)) = ok False"
    by (simp add: Let_def event_facts)
qed

section \<open>Token counts add up\<close>

lemma token_count_update:
  "token_count (Some (AList.update k v m)) k' = (if k' = k then token_count (Some [(k, v)]) k else token_count (Some m) k')"
  by (simp add: token_count_def update_conv')

lemma add_tokens_counts:
  assumes "token_count m ''promptTokens'' = Some p" and "token_count m ''completionTokens'' = Some c"
  shows "\<exists>m'. add_tokens u m = Some (Some m') \<and> token_count (Some m') ''promptTokens'' = Some (p + prompt_tokens u)
    \<and> token_count (Some m') ''completionTokens'' = Some (c + completion_tokens u)
    \<and> token_count (Some m') ''totalTokens'' = Some (p + prompt_tokens u + (c + completion_tokens u))"
  using assms by (simp add: add_tokens_def token_count_update) (simp add: token_count_def)

fun count_usage :: "usage list \<Rightarrow> gomap option \<Rightarrow> gomap option option" where
  "count_usage [] m = Some m"
| "count_usage (u # us) m = (case add_tokens u m of None \<Rightarrow> None | Some m' \<Rightarrow> count_usage us m')"

text \<open>
  Starting from the empty metadata of a new run, the token counts of a sequence of model calls add
  up: the update never fails, and prompt, completion and total tokens are the sums over the calls.
\<close>

theorem token_counts_sum:
  "\<exists>m. count_usage (us @ [u]) (Some []) = Some m
    \<and> token_count m ''promptTokens'' = Some (sum_list (map prompt_tokens (us @ [u])))
    \<and> token_count m ''completionTokens'' = Some (sum_list (map completion_tokens (us @ [u])))
    \<and> token_count m ''totalTokens'' = Some (sum_list (map (\<lambda>u. prompt_tokens u + completion_tokens u) (us @ [u])))"
proof -
  have "\<exists>m'. count_usage (us @ [u]) m = Some m'
      \<and> token_count m' ''promptTokens'' = Some (p + sum_list (map prompt_tokens (us @ [u])))
      \<and> token_count m' ''completionTokens'' = Some (c + sum_list (map completion_tokens (us @ [u])))
      \<and> token_count m' ''totalTokens'' = Some (p + c + sum_list (map (\<lambda>u. prompt_tokens u + completion_tokens u) (us @ [u])))"
    if "token_count m ''promptTokens'' = Some p" "token_count m ''completionTokens'' = Some c" for m p c
    using that
  proof (induction us arbitrary: m p c)
    case Nil
    from add_tokens_counts [OF Nil, of u] show ?case by (auto simp: algebra_simps)
  next
    case (Cons v us)
    from add_tokens_counts [OF Cons.prems, of v] obtain m' where m': "add_tokens v m = Some (Some m')"
      "token_count (Some m') ''promptTokens'' = Some (p + prompt_tokens v)"
      "token_count (Some m') ''completionTokens'' = Some (c + completion_tokens v)" by blast
    from Cons.IH [OF m'(2,3)] m'(1) show ?case by (auto simp: algebra_simps)
  qed
  from this [of "Some []" 0 0] show ?thesis by (simp add: token_count_def)
qed

end
