(* ===== verification/Guardrails.thy ===== *)
theory Guardrails
  imports Store
begin

text \<open>
  \<^verbatim>\<open>backend/internal/guardrail/service.go\<close>: the checks made before a task is created and before a tool
  is called, and the status that is shown for an agent. Every query error is ignored by the code; the
  variable a failed \<^verbatim>\<open>Scan\<close> would have set keeps its value.
\<close>

section \<open>Model\<close>

definition agent_budget :: "uuid \<Rightarrow> uuid \<Rightarrow> db \<Rightarrow> execution_budget option" where
  "agent_budget org_id a d = find (\<lambda>b. eb_organization_id b = org_id \<and> eb_agent_id b = Some a) (budgets d)"

definition team_budget :: "uuid \<Rightarrow> uuid \<Rightarrow> db \<Rightarrow> execution_budget option" where
  "team_budget org_id t d = find (\<lambda>b. eb_organization_id b = org_id \<and> eb_team_id b = Some t) (budgets d)"

text \<open>
  \<^verbatim>\<open>budget\<close> with the two nullable variables: a row that is found sets them, and once set they stay
  valid for the second assignment.
\<close>

definition task_budget :: "uuid \<Rightarrow> uuid \<Rightarrow> uuid option \<Rightarrow> db \<Rightarrow> int \<times> int" where
  "task_budget org_id agent tm d =
     (let scanned = (if agent \<noteq> nil_uuid then agent_budget org_id agent d else None);
          scanned = (case tm of None \<Rightarrow> scanned
                     | Some t \<Rightarrow> (case team_budget org_id t d of None \<Rightarrow> scanned | Some b \<Rightarrow> Some b))
      in case scanned of None \<Rightarrow> (100, 5) | Some b \<Rightarrow> (eb_max_tasks_per_day b, eb_max_delegation_depth b))"

definition tasks_today :: "uuid \<Rightarrow> uuid \<Rightarrow> db \<Rightarrow> int" where
  "tasks_today org_id agent d = count_where (\<lambda>t. t_organization_id t = org_id
     \<and> t_assigned_to_agent t = Some agent \<and> now d - 24 * 60 * 60 < t_created_at t) (tasks d)"

definition check_task_creation :: "uuid \<Rightarrow> uuid \<Rightarrow> uuid option \<Rightarrow> int \<Rightarrow> db \<Rightarrow> unit res" where
  "check_task_creation org_id agent tm depth d =
     (let (max_tasks, max_depth) = task_budget org_id agent tm d
      in if max_depth < depth then fail (''max delegation depth '' @ int_str max_depth @ '' exceeded'')
         else if 5 < depth then fail ''global max delegation depth 5 exceeded''
         else if max_tasks \<le> tasks_today org_id agent d
         then fail (''daily task limit '' @ int_str max_tasks @ '' exceeded for agent'')
         else ok ())"

definition calls_since :: "time \<Rightarrow> uuid \<Rightarrow> uuid \<Rightarrow> db \<Rightarrow> int" where
  "calls_since t org_id agent d = count_where (\<lambda>e. ex_organization_id e = org_id \<and> ex_agent_id e = agent
     \<and> t < ex_created_at e) (executions d)"

definition tool_calls_since :: "time \<Rightarrow> uuid \<Rightarrow> uuid \<Rightarrow> string \<Rightarrow> db \<Rightarrow> int" where
  "tool_calls_since t org_id agent name d = count_where (\<lambda>e. ex_organization_id e = org_id \<and> ex_agent_id e = agent
     \<and> ex_tool_name e = name \<and> t < ex_created_at e) (executions d)"

definition rate_limit :: "uuid \<Rightarrow> uuid \<Rightarrow> db \<Rightarrow> int" where
  "rate_limit org_id agent d =
     (let limit = (case agent_budget org_id agent d of None \<Rightarrow> 60 | Some b \<Rightarrow> eb_rate_limit_per_minute b)
      in if limit = 0 then 60 else limit)"

definition tool_limit :: "uuid \<Rightarrow> uuid \<Rightarrow> db \<Rightarrow> int" where
  "tool_limit org_id agent d =
     (let limit = (case agent_budget org_id agent d of None \<Rightarrow> 500 | Some b \<Rightarrow> eb_max_tool_calls_per_day b)
      in if limit = 0 then 500 else limit)"

definition check_tool_call :: "uuid \<Rightarrow> uuid \<Rightarrow> string \<Rightarrow> db \<Rightarrow> unit res" where
  "check_tool_call org_id agent name d =
     (if rate_limit org_id agent d \<le> calls_since (now d - 60) org_id agent d
      then fail (''rate limit '' @ int_str (rate_limit org_id agent d) @ '' per minute exceeded for tool '' @ name)
      else if tool_limit org_id agent d \<le> tool_calls_since (now d - 24 * 60 * 60) org_id agent name d
      then fail (''daily tool limit '' @ int_str (tool_limit org_id agent d) @ '' exceeded'')
      else ok ())"

definition check_timeout :: "int \<Rightarrow> unit res" where
  "check_timeout n =
     (if 600 < n then fail ''timeout exceeds max 600s''
      else if n \<le> 0 then fail ''timeout must be positive'' else ok ())"

definition agent_runs_with :: "uuid \<Rightarrow> uuid \<Rightarrow> string \<Rightarrow> db \<Rightarrow> int" where
  "agent_runs_with org_id agent status d = count_where (\<lambda>r. run_organization_id r = org_id
     \<and> run_agent_id r = agent \<and> run_status r = status) (runs d)"

definition agent_tasks_with :: "uuid \<Rightarrow> uuid \<Rightarrow> string list \<Rightarrow> db \<Rightarrow> int" where
  "agent_tasks_with org_id agent statuses d = count_where (\<lambda>t. t_organization_id t = org_id
     \<and> t_assigned_to_agent t = Some agent \<and> t_status t \<in> set statuses) (tasks d)"

text \<open>
  \<open>last_seen\<close> is the column \<^verbatim>\<open>users.last_seen_at\<close>; the value read from it is kept when there is no
  agent with the ID.
\<close>

definition get_agent_status :: "(uuid \<Rightarrow> time option) \<Rightarrow> uuid \<Rightarrow> uuid \<Rightarrow> db \<Rightarrow> string" where
  "get_agent_status last_seen org_id agent d =
     (if 0 < agent_runs_with org_id agent ''awaiting_approval'' d then ''approval_required''
      else if 0 < agent_runs_with org_id agent ''running'' d then ''working''
      else if 0 < agent_tasks_with org_id agent [''waiting'', ''blocked''] d then ''waiting''
      else if 0 < agent_tasks_with org_id agent [''blocked''] d then ''blocked''
      else if 0 < count_where (\<lambda>r. run_organization_id r = org_id \<and> run_agent_id r = agent
                \<and> run_status r = ''failed'' \<and> now d - 60 * 60 < run_created_at r) (runs d) then ''failed''
      else (let seen = (if agent \<in> set (users d) then last_seen agent else None);
                seen = (case find (\<lambda>a. ag_id a = agent) (agents d) of None \<Rightarrow> seen | Some a \<Rightarrow> ag_last_status_at a)
            in case seen of None \<Rightarrow> ''offline''
               | Some t \<Rightarrow> if 5 * 60 < now d - t then ''offline'' else ''idle''))"

section \<open>What the checks guarantee\<close>

lemma count_where_nonneg [simp]: "0 \<le> count_where P rs"
  by (simp add: count_where_def)

lemma count_where_mono: "(\<And>x. P x \<Longrightarrow> Q x) \<Longrightarrow> count_where P rs \<le> count_where Q rs"
  unfolding count_where_def by (induction rs) auto

lemma count_where_append: "count_where P (rs @ [r]) = count_where P rs + (if P r then 1 else 0)"
  by (simp add: count_where_def)

text \<open>
  \<^verbatim>\<open>CheckTaskCreation\<close> lets a task pass exactly when its delegation depth is within the budget and
  within the global bound of five, and the agent has had fewer tasks in the last day than the budget
  allows; the budget is the team's row when there is one, else the agent's, else 100 tasks and depth five.
\<close>

theorem check_task_creation_iff:
  "check_task_creation org_id agent tm depth d = ok () \<longleftrightarrow>
     (let row = (case Option.bind tm (\<lambda>t. team_budget org_id t d) of
                   Some b \<Rightarrow> Some b
                 | None \<Rightarrow> if agent = 0 then None else agent_budget org_id agent d);
          max_depth = (case row of None \<Rightarrow> 5 | Some b \<Rightarrow> eb_max_delegation_depth b);
          max_tasks = (case row of None \<Rightarrow> 100 | Some b \<Rightarrow> eb_max_tasks_per_day b)
      in depth \<le> min max_depth 5 \<and> tasks_today org_id agent d < max_tasks)"
  by (auto simp: check_task_creation_def task_budget_def Let_def not_less split: option.splits)

text \<open>A guarded tool call of an agent: the execution is recorded only when the check passes.\<close>

definition guarded_call :: "tool_execution \<Rightarrow> time \<Rightarrow> db \<Rightarrow> db" where
  "guarded_call e s d =
     (let d = d\<lparr>now := now d + s\<rparr>
      in if check_tool_call (ex_organization_id e) (ex_agent_id e) (ex_tool_name e) d = ok ()
         then d\<lparr>executions := executions d @ [e\<lparr>ex_created_at := now d\<rparr>]\<rparr> else d)"

fun guarded_calls :: "(tool_execution \<times> time) list \<Rightarrow> db \<Rightarrow> db" where
  "guarded_calls [] d = d"
| "guarded_calls ((e, s) # es) d = guarded_calls es (guarded_call e s d)"

definition within_limits :: "uuid \<Rightarrow> uuid \<Rightarrow> db \<Rightarrow> bool" where
  "within_limits org_id agent d \<longleftrightarrow> calls_since (now d - 60) org_id agent d \<le> rate_limit org_id agent d
     \<and> (\<forall>name. tool_calls_since (now d - 24 * 60 * 60) org_id agent name d \<le> tool_limit org_id agent d)"

lemma budget_update [simp]:
  "rate_limit org_id agent (d\<lparr>now := t\<rparr>) = rate_limit org_id agent d"
  "tool_limit org_id agent (d\<lparr>now := t\<rparr>) = tool_limit org_id agent d"
  "rate_limit org_id agent (d\<lparr>executions := x\<rparr>) = rate_limit org_id agent d"
  "tool_limit org_id agent (d\<lparr>executions := x\<rparr>) = tool_limit org_id agent d"
  by (simp_all add: rate_limit_def tool_limit_def agent_budget_def)

lemma guarded_call_within:
  assumes "within_limits org_id agent d" and "0 \<le> s"
  shows "within_limits org_id agent (guarded_call e s d)"
proof -
  let ?d = "d\<lparr>now := now d + s\<rparr>"
  have "calls_since (now ?d - 60) org_id agent ?d \<le> calls_since (now d - 60) org_id agent d"
    "tool_calls_since (now ?d - 24 * 60 * 60) org_id agent name ?d
      \<le> tool_calls_since (now d - 24 * 60 * 60) org_id agent name d" for name
    unfolding calls_since_def tool_calls_since_def using assms(2) by (auto intro!: count_where_mono)
  with assms(1) have w: "within_limits org_id agent ?d"
    unfolding within_limits_def by (auto intro: order_trans)
  show ?thesis
  proof (cases "check_tool_call (ex_organization_id e) (ex_agent_id e) (ex_tool_name e) ?d = ok ()")
    case True
    then have "calls_since (now ?d - 60) (ex_organization_id e) (ex_agent_id e) ?d < rate_limit (ex_organization_id e) (ex_agent_id e) ?d"
      "tool_calls_since (now ?d - 24 * 60 * 60) (ex_organization_id e) (ex_agent_id e) (ex_tool_name e) ?d
         < tool_limit (ex_organization_id e) (ex_agent_id e) ?d"
      unfolding check_tool_call_def by (simp_all split: if_splits)
    with w True show ?thesis
      by (auto simp: guarded_call_def Let_def within_limits_def calls_since_def tool_calls_since_def count_where_append)
  qed (use w in \<open>simp add: guarded_call_def\<close>)
qed

text \<open>
  When every call of an agent passes \<^verbatim>\<open>CheckToolCall\<close> before it is recorded, the calls of the last
  minute never exceed the rate limit, and the calls of one tool in the last day never exceed the daily
  limit, whatever the times of the calls.
\<close>

theorem tool_calls_limited:
  assumes "within_limits org_id agent d" and "list_all (\<lambda>(e, s). 0 \<le> s) calls"
  shows "calls_since (now (guarded_calls calls d) - 60) org_id agent (guarded_calls calls d)
        \<le> rate_limit org_id agent (guarded_calls calls d)
    \<and> tool_calls_since (now (guarded_calls calls d) - 24 * 60 * 60) org_id agent name (guarded_calls calls d)
        \<le> tool_limit org_id agent (guarded_calls calls d)"
proof -
  have "within_limits org_id agent (guarded_calls calls d)" using assms
    by (induction calls d rule: guarded_calls.induct) (auto intro: guarded_call_within)
  then show ?thesis by (simp add: within_limits_def)
qed

definition demo_execution :: tool_execution where
  "demo_execution = \<lparr>ex_id = 9, ex_organization_id = 1, ex_agent_id = 4, ex_task_id = None, ex_run_id = None,
     ex_tool_id = 8, ex_tool_name = ''web_search'', ex_input = None, ex_output = None, ex_status = ''succeeded'',
     ex_approval_id = None, ex_idempotency_key = ''k'', ex_error = None, ex_created_at = 0, ex_updated_at = 0\<rparr>"

definition demo_budget_db :: db where
  "demo_budget_db = demo_db\<lparr>budgets := [\<lparr>eb_organization_id = 1, eb_agent_id = Some 4, eb_team_id = None,
     eb_max_tasks_per_day = 10, eb_max_tool_calls_per_day = 5, eb_max_delegation_depth = 3,
     eb_rate_limit_per_minute = 2\<rparr>]\<rparr>"

lemma tool_calls_limited_witness:
  "let d = guarded_calls [(demo_execution, 0), (demo_execution, 1), (demo_execution, 1)] demo_budget_db
   in length (executions d) = 2 \<and> calls_since (now d - 60) 1 4 d \<le> rate_limit 1 4 d"
proof -
  let ?c = "[(demo_execution, 0), (demo_execution, 1), (demo_execution, 1 :: int)]"
  have "within_limits 1 4 demo_budget_db"
    by (simp add: within_limits_def calls_since_def tool_calls_since_def rate_limit_def tool_limit_def
        agent_budget_def demo_budget_db_def demo_db_def empty_db_def count_where_def)
  from tool_calls_limited [OF this, of ?c] have "calls_since (now (guarded_calls ?c demo_budget_db) - 60) 1 4 (guarded_calls ?c demo_budget_db)
      \<le> rate_limit 1 4 (guarded_calls ?c demo_budget_db)" by simp
  moreover have "length (executions (guarded_calls ?c demo_budget_db)) = 2" by code_simp
  ultimately show ?thesis by (simp add: Let_def)
qed

text \<open>
  The status of an agent is one of six; \<^verbatim>\<open>blocked\<close>, for which the function has a branch, is never
  returned, because the branch before it covers the blocked tasks. A run that awaits approval outranks
  one that is running, which outranks everything else.
\<close>

theorem agent_status_range:
  "get_agent_status seen org_id agent d \<in> {''approval_required'', ''working'', ''waiting'', ''failed'', ''offline'', ''idle''}
   \<and> (get_agent_status seen org_id agent d = ''approval_required'' \<longleftrightarrow>
        (\<exists>r \<in> set (runs d). run_organization_id r = org_id \<and> run_agent_id r = agent \<and> run_status r = ''awaiting_approval''))
   \<and> (get_agent_status seen org_id agent d = ''working'' \<longleftrightarrow>
        agent_runs_with org_id agent ''awaiting_approval'' d = 0 \<and> 0 < agent_runs_with org_id agent ''running'' d)"
proof -
  have 1: "agent_tasks_with org_id agent [''blocked''] d \<le> agent_tasks_with org_id agent [''waiting'', ''blocked''] d"
    unfolding agent_tasks_with_def by (rule count_where_mono) auto
  have 2: "0 < count_where P rs \<longleftrightarrow> (\<exists>r \<in> set rs. P r)" for P and rs :: "agent_run list"
    by (auto simp: count_where_def filter_empty_conv)
  have 3: "agent_runs_with org_id agent s d = 0 \<longleftrightarrow> \<not> 0 < agent_runs_with org_id agent s d" for s
  proof -
    have "0 \<le> agent_runs_with org_id agent s d" unfolding agent_runs_with_def by (rule count_where_nonneg)
    then show ?thesis by linarith
  qed
  have 4: "0 < agent_runs_with org_id agent ''awaiting_approval'' d \<longleftrightarrow>
        (\<exists>r \<in> set (runs d). run_organization_id r = org_id \<and> run_agent_id r = agent \<and> run_status r = ''awaiting_approval'')"
    unfolding agent_runs_with_def 2 ..
  define last where "last = (let seen' = (if agent \<in> set (users d) then seen agent else None);
      seen' = (case find (\<lambda>a. ag_id a = agent) (agents d) of None \<Rightarrow> seen' | Some a \<Rightarrow> ag_last_status_at a)
    in case seen' of None \<Rightarrow> ''offline'' | Some t \<Rightarrow> if 5 * 60 < now d - t then ''offline'' else ''idle'')"
  have l: "last = ''offline'' \<or> last = ''idle''" unfolding last_def Let_def by (simp split: option.split)
  have pick: "(if b then x else y) \<in> {w, x, y}" for b and w x y :: string by simp
  let ?A = "0 < agent_runs_with org_id agent ''awaiting_approval'' d" and ?B = "0 < agent_runs_with org_id agent ''running'' d"
  have rest: "get_agent_status seen org_id agent d \<in> {''waiting'', ''failed'', last}" if "\<not> ?A" "\<not> ?B"
  proof (cases "0 < agent_tasks_with org_id agent [''waiting'', ''blocked''] d")
    case True
    then show ?thesis unfolding get_agent_status_def by (simp only: that if_False if_True insertI1)
  next
    case False
    then have "\<not> 0 < agent_tasks_with org_id agent [''blocked''] d" using 1 by linarith
    then show ?thesis unfolding get_agent_status_def last_def by (simp only: that False if_False) (rule pick)
  qed
  consider (a) ?A | (b) "\<not> ?A" ?B | (c) "\<not> ?A" "\<not> ?B" "get_agent_status seen org_id agent d \<in> {''waiting'', ''failed'', last}"
    using rest by blast
  then show ?thesis
  proof cases
    case a
    then show ?thesis unfolding 3 using 4 by (simp add: get_agent_status_def)
  next
    case b
    then show ?thesis unfolding 3 using 4 by (simp add: get_agent_status_def)
  next
    case c
    then show ?thesis unfolding 3 using l 4 by auto
  qed
qed

end
