(* ===== verification/World.thy ===== *)
theory World
  imports Tasks Teams Worker Hub
begin

text \<open>
  The state the services share: the database, the worker pool that jobs are submitted to and the
  events sent to the hub, in the order of sending. A service may be built without a pool or a hub
  (\<^verbatim>\<open>if o.worker != nil\<close>); then the component is \<open>None\<close>. The jobs run and the events are delivered
  by the theories Worker and Hub. The tools leave two further traces: the calls that went out of the
  program (an execution by the mock provider counts as one), in their order, and the rows of the two
  audit tables.
\<close>

datatype outside_call =
    SearchCall string int
  | ProviderCall string string "gomap option" "gomap option"
  | BrowserCall "uuid option" string "gomap option"

record audit_log =
  al_organization_id :: uuid
  al_actor_type :: string
  al_actor_agent_id :: "uuid option"
  al_action :: string
  al_entity_type :: string
  al_entity_id :: uuid

record browser_audit_log =
  ba_organization_id :: uuid
  ba_agent_id :: "uuid option"
  ba_task_id :: "uuid option"
  ba_run_id :: "uuid option"
  ba_browser_profile_id :: "uuid option"
  ba_tool_name :: string
  ba_action :: string
  ba_target :: "string option"
  ba_domain :: "string option"
  ba_result_status :: "string option"
  ba_metadata :: "gomap option"

text \<open>The messages of a \<^verbatim>\<open>CompletionRequest\<close> are pairs of role and content.\<close>

record completion_request =
  cr_model :: string
  cr_messages :: "(string \<times> string) list"

datatype goroutine =
    ParentAggregation uuid uuid
  | ProjectEvent uuid uuid string gomap

record world =
  w_db :: db
  w_pool :: "pool option"
  w_out :: "event list option"
  w_calls :: "outside_call list"
  w_audit :: "audit_log list"
  w_browser_audit :: "browser_audit_log list"
  w_llm :: "completion_request list"
  w_spawned :: "goroutine list"

text \<open>A process with neither pool nor hub.\<close>

definition world_of :: "db \<Rightarrow> world" where
  "world_of d = \<lparr>w_db = d, w_pool = None, w_out = None, w_calls = [], w_audit = [], w_browser_audit = [], w_llm = [], w_spawned = []\<rparr>"

definition on_db :: "(db \<Rightarrow> db \<times> 'a) \<Rightarrow> world \<Rightarrow> world \<times> 'a" where
  "on_db f w = (case f (w_db w) of (d, x) \<Rightarrow> (w\<lparr>w_db := d\<rparr>, x))"

definition run_db :: "(db \<Rightarrow> db \<times> 'a) \<Rightarrow> world \<Rightarrow> world" where
  "run_db f w = w\<lparr>w_db := fst (f (w_db w))\<rparr>"

text \<open>\<^verbatim>\<open>uuid.New()\<close>.\<close>

definition new_uuid :: "world \<Rightarrow> world \<times> uuid" where
  "new_uuid w = (w\<lparr>w_db := (w_db w)\<lparr>next_id := next_id (w_db w) + 1\<rparr>\<rparr>, next_id (w_db w))"

definition enqueue_job :: "job \<Rightarrow> world \<Rightarrow> world" where
  "enqueue_job j w = w\<lparr>w_pool := map_option (enqueue (now (w_db w)) j) (w_pool w)\<rparr>"

definition send_to_org :: "golib \<Rightarrow> uuid \<Rightarrow> string \<Rightarrow> event_payload \<Rightarrow> world \<Rightarrow> world" where
  "send_to_org g org_id typ payload w =
     (case w_out w of
        None \<Rightarrow> w
      | Some es \<Rightarrow>
          (let (w, i) = new_uuid w
           in w\<lparr>w_out := Some (es @ [broadcast_to_org g (now (w_db w)) (uuid_string g i) org_id typ (Some payload)])\<rparr>))"

definition send_to_channel :: "golib \<Rightarrow> uuid \<Rightarrow> string \<Rightarrow> event_payload \<Rightarrow> world \<Rightarrow> world" where
  "send_to_channel g ch typ payload w =
     (case w_out w of
        None \<Rightarrow> w
      | Some es \<Rightarrow>
          (let (w, i) = new_uuid w
           in w\<lparr>w_out := Some (es @ [broadcast_to_channel g (now (w_db w)) (uuid_string g i) ch typ (Some payload)])\<rparr>))"

definition agent_job :: "string \<Rightarrow> gomap \<Rightarrow> int \<Rightarrow> int \<Rightarrow> job" where
  "agent_job i payload retries timeout =
     \<lparr>job_id = i, job_type = ''agent_run'', job_payload = payload, job_retries = retries, job_timeout = timeout, job_key = []\<rparr>"

text \<open>What the plumbing leaves alone.\<close>

lemma enqueue_job_db [simp]: "w_db (enqueue_job j w) = w_db w" "w_out (enqueue_job j w) = w_out w"
  "w_calls (enqueue_job j w) = w_calls w"
  by (simp_all add: enqueue_job_def)

lemma send_to_org_frame [simp]:
  "w_pool (send_to_org g org_id typ payload w) = w_pool w"
  "tasks (w_db (send_to_org g org_id typ payload w)) = tasks (w_db w)"
  "task_events (w_db (send_to_org g org_id typ payload w)) = task_events (w_db w)"
  "task_dependencies (w_db (send_to_org g org_id typ payload w)) = task_dependencies (w_db w)"
  "members (w_db (send_to_org g org_id typ payload w)) = members (w_db w)"
  "activities (w_db (send_to_org g org_id typ payload w)) = activities (w_db w)"
  "executions (w_db (send_to_org g org_id typ payload w)) = executions (w_db w)"
  "approvals (w_db (send_to_org g org_id typ payload w)) = approvals (w_db w)"
  "runs (w_db (send_to_org g org_id typ payload w)) = runs (w_db w)"
  "agents (w_db (send_to_org g org_id typ payload w)) = agents (w_db w)"
  "w_calls (send_to_org g org_id typ payload w) = w_calls w"
  by (simp_all add: send_to_org_def new_uuid_def split: option.split)

lemma run_db_frame [simp]:
  "w_db (run_db f w) = fst (f (w_db w))" "w_pool (run_db f w) = w_pool w" "w_out (run_db f w) = w_out w"
  "w_calls (run_db f w) = w_calls w"
  by (simp_all add: run_db_def)

lemma new_uuid_frame [simp]:
  "snd (new_uuid w) = next_id (w_db w)"
  "w_db (fst (new_uuid w)) = (w_db w)\<lparr>next_id := next_id (w_db w) + 1\<rparr>"
  "w_pool (fst (new_uuid w)) = w_pool w"
  by (simp_all add: new_uuid_def)

section \<open>What a created task changes and what it leaves alone\<close>

lemma create_task_row:
  assumes "create_task g org_id project_id channel_id parent_task_id tm agent user title description
      priority deadline corr created_by d = (d', ok t)"
  obtains row where "tasks d' = tasks d @ [row]" "t = scan_task row" "t_id row = next_id d" "next_id d < next_id d'"
    "t_organization_id row = org_id" "t_project_id row = project_id" "t_parent_task_id row = parent_task_id"
    "t_team_id row = tm" "t_assigned_to_agent row = agent" "t_correlation_id row = corr" "t_title row = title"
    "t_status row = (if agent = None \<and> user = None then ''pending'' else ''assigned'')" "t_delegation_depth row = 0"
    "task_dependencies d' = task_dependencies d" "members d' = members d" "teams d' = teams d"
    "activities d' = activities d" "user_rows d' = user_rows d" "agents d' = agents d" "organizations d' = organizations d"
    "created_by \<in> us_id ` set (user_rows d)" "now d' = now d"
proof -
  define assigned where "assigned \<longleftrightarrow> agent \<noteq> None \<or> user \<noteq> None"
  define status where "status = (if assigned then ''assigned'' else ''pending'')"
  have u: "(agent = None \<and> user = None) \<longleftrightarrow> \<not> assigned" by (simp add: assigned_def)
  from create_task_okE [OF assms assigned_def status_def] obtain t0 d1 d2 d3 d4 e1 where
    i: "insert_task (new_task_row org_id project_id channel_id parent_task_id tm agent user title description
         status (if priority = [] then ''medium'' else priority) deadline corr created_by) d = ok (t0, d1)"
    and a: "if assigned then insert_task_assignment (assignment_row (t_id t0) agent user created_by) d1 = ok ((), d2) else d2 = d1"
    and e1: "insert_task_event (created_event (t_id t0) title status created_by corr) d2 = ok (e1, d3)"
    and e2: "if assigned then \<exists>e2. insert_task_event (assigned_event g (t_id t0) agent user created_by corr) d3 = ok (e2, d4) else d4 = d3"
    and d': "d' = inc_tasks d4" and t: "t = scan_task t0" .
  note c = insert_task_cases(1,2) [OF i] and c1 = insert_task_event_cases(1,2) [OF e1]
  have cb: "created_by \<in> us_id ` set (user_rows d)"
    using insert_task_cases(7) [OF i] by (simp add: new_task_row_def)
  obtain f where d2: "d2 = d1\<lparr>task_assignments := f\<rparr>"
  proof (cases assigned)
    case True
    with a that show ?thesis by (auto dest: insert_task_assignment_cases(1))
  next
    case False
    with a that [of "task_assignments d1"] show ?thesis by simp
  qed
  obtain es n where d4: "d4 = d3\<lparr>task_events := es, next_id := n\<rparr>" "next_id d3 \<le> n"
  proof (cases assigned)
    case True
    then obtain e2 where "insert_task_event (assigned_event g (t_id t0) agent user created_by corr) d3 = ok (e2, d4)"
      using e2 by auto
    from insert_task_event_eff [OF this] that show ?thesis by auto
  next
    case False
    with e2 that [where es = "task_events d3" and n = "next_id d3"] show ?thesis by simp
  qed
  show ?thesis
    by (rule that [of t0]) (simp_all add: d' d4(1) c1(2) d2 c(2) t, (simp_all add: c(1) new_task_row_def status_def u cb inc_tasks_def),
      use d4(2) in \<open>simp add: c1(2) d2 c(2)\<close>)
qed

end
