(* ===== verification/Orchestrator.thy ===== *)
theory Orchestrator
  imports World Runs
begin

text \<open>
  \<^verbatim>\<open>backend/internal/team/orchestrator.go\<close>: starting a task of a team, delegating a subtask, evaluating
  a task and asking for human input, each as one step on the shared state. An error of a call whose
  result the code drops (\<^verbatim>\<open>_, _ = ...\<close>) leaves the state it found. A \<^verbatim>\<open>nil\<close> dereference is the
  outcome \<open>None\<close>.
\<close>

section \<open>Model\<close>

definition MaxDelegationDepth :: int where "MaxDelegationDepth = 5"
definition MaxRetries :: int where "MaxRetries = 3"
definition TaskTimeout :: int where "TaskTimeout = 5 * 60"

text \<open>The coordinator the team names, if it is a member; otherwise the first member.\<close>

definition pick_coordinator :: "agent_team \<Rightarrow> agent_team_member" where
  "pick_coordinator tm =
     (case team_coordinator_agent_id tm of
        None \<Rightarrow> hd (team_members tm)
      | Some c \<Rightarrow> (case find (\<lambda>m. tm_agent_id m = c) (team_members tm) of
                     Some m \<Rightarrow> m | None \<Rightarrow> hd (team_members tm)))"

definition start_team_task :: "golib \<Rightarrow> uuid \<Rightarrow> uuid \<Rightarrow> uuid \<Rightarrow> uuid option \<Rightarrow> string \<Rightarrow> string \<Rightarrow> uuid \<Rightarrow> world
    \<Rightarrow> world \<times> task res" where
  "start_team_task g org_id tid project_id channel_id title description created_by w =
     (case get_team org_id tid (w_db w) of
        Inl e \<Rightarrow> (w, fail (''team not found: '' @ e))
      | Inr tm \<Rightarrow>
          if team_members tm = [] then (w, fail ''team has no members'')
          else
            (let m = pick_coordinator tm;
                 w = (if team_coordinator_agent_id tm = None
                      then run_db (set_team_coordinator org_id tid (tm_agent_id m)) w else w);
                 (w, corr) = new_uuid w;
                 (w, r) = on_db (create_task g org_id project_id channel_id None (Some tid) (Some (tm_agent_id m)) None
                            title description ''high'' None (Some corr) created_by) w
             in case r of
                  Inl e \<Rightarrow> (w, fail e)
                | Inr t \<Rightarrow>
                    (let w = enqueue_job (agent_job (uuid_string g (t_id t))
                           [(''organization_id'', uuid_json g org_id), (''agent_id'', uuid_json g (tm_agent_id m)),
                            (''task_id'', uuid_json g (t_id t)), (''correlation_id'', uuid_json g corr),
                            (''trigger'', JStr ''team_task'')] MaxRetries TaskTimeout) w;
                         w = send_to_org g org_id ''team.task_started''
                           [(''teamId'', PJson (uuid_json g tid)), (''task'', PTask t)] w;
                         w = run_db (add_team_activity tid org_id ''user'' (Some created_by) ''task_started''
                           (Some [(''task_id'', uuid_json g (t_id t)), (''title'', JStr title)])) w
                     in (w, ok t))))"

text \<open>The three limits that \<^verbatim>\<open>Delegate\<close> checks on the parent as \<^verbatim>\<open>GetTask\<close> returned it.\<close>

definition delegation_limits :: "task \<Rightarrow> unit res" where
  "delegation_limits t =
     (if t_max_delegation_depth t \<le> t_delegation_depth t \<and> 0 < t_max_delegation_depth t
      then fail (''max delegation depth '' @ int_str (t_max_delegation_depth t) @ '' reached'')
      else if MaxDelegationDepth \<le> t_delegation_depth t
      then fail (''max delegation depth '' @ int_str MaxDelegationDepth @ '' reached'')
      else if t_max_retries t \<le> t_retry_count t \<and> 0 < t_max_retries t
      then fail ''max retries reached''
      else ok ())"

text \<open>\<^verbatim>\<open>UPDATE tasks SET delegation_depth=$2 WHERE id=$1\<close>\<close>

definition set_delegation_depth :: "uuid \<Rightarrow> int \<Rightarrow> db \<Rightarrow> db \<times> unit" where
  "set_delegation_depth i n d =
     (d\<lparr>tasks := update_where (\<lambda>t. t_id t = i) (\<lambda>t. t\<lparr>t_delegation_depth := n, t_updated_at := now d\<rparr>) (tasks d)\<rparr>, ())"

definition delegate_guard :: "uuid \<Rightarrow> task \<Rightarrow> db \<Rightarrow> unit res" where
  "delegate_guard dest parent d =
     (case delegation_limits parent of
        Inl e \<Rightarrow> fail e
      | Inr _ \<Rightarrow>
          if (case t_team_id parent of None \<Rightarrow> False
              | Some tm \<Rightarrow> dest \<notin> tm_agent_id ` set (list_team_members tm d))
          then fail ''agent not in team'' else ok ())"

text \<open>What a delegation writes after the subtask: its depth, the dependency and the event, each on its own.\<close>

definition delegation_records :: "golib \<Rightarrow> task \<Rightarrow> task \<Rightarrow> uuid \<Rightarrow> uuid \<Rightarrow> uuid \<Rightarrow> db \<Rightarrow> db" where
  "delegation_records g parent sub dest who corr d =
     (let d = fst (set_delegation_depth (t_id sub) (t_delegation_depth parent + 1) d);
          d = fst (add_task_dependency (t_id parent) (t_id sub) d)
      in fst (create_task_event (t_id parent) ''agent'' (Some who) ''delegated''
            (Some [(''subtask_id'', uuid_json g (t_id sub)), (''to'', uuid_json g dest)]) (Some corr) d))"

definition delegation_announce :: "golib \<Rightarrow> uuid \<Rightarrow> task \<Rightarrow> task \<Rightarrow> uuid \<Rightarrow> uuid \<Rightarrow> uuid \<Rightarrow> world \<Rightarrow> world" where
  "delegation_announce g org_id parent sub dest who corr w =
     (let w = enqueue_job (agent_job (uuid_string g (t_id sub))
                [(''organization_id'', uuid_json g org_id), (''agent_id'', uuid_json g dest),
                 (''task_id'', uuid_json g (t_id sub)), (''correlation_id'', uuid_json g corr),
                 (''trigger'', JStr ''delegated'')] 0 TaskTimeout) w;
          w = send_to_org g org_id ''agent.delegated''
                [(''parent'', PJson (uuid_json g (t_id parent))), (''subtask'', PTask sub),
                 (''to'', PJson (uuid_json g dest)), (''correlationId'', PJson (uuid_json g corr))] w
      in case t_team_id parent of None \<Rightarrow> w
         | Some tm \<Rightarrow> run_db (add_team_activity tm org_id ''agent'' (Some who) ''delegated''
             (Some [(''from'', uuid_json g (t_id parent)), (''to'', uuid_json g (t_id sub))])) w)"

definition delegate_task :: "golib \<Rightarrow> uuid \<Rightarrow> uuid \<Rightarrow> uuid \<Rightarrow> string \<Rightarrow> string \<Rightarrow> uuid \<Rightarrow> world \<Rightarrow> world \<times> task res" where
  "delegate_task g org_id parent_id dest title description who w =
     (case get_task org_id parent_id (w_db w) of
        Inl e \<Rightarrow> (w, fail e)
      | Inr parent \<Rightarrow>
          (case delegate_guard dest parent (w_db w) of
             Inl e \<Rightarrow> (w, fail e)
           | Inr _ \<Rightarrow>
               (let (w, corr) = (case t_correlation_id parent of Some c \<Rightarrow> (w, c) | None \<Rightarrow> new_uuid w);
                    (w, r) = on_db (create_task g org_id (t_project_id parent) (t_channel_id parent) (Some parent_id)
                               (t_team_id parent) (Some dest) None title description ''medium'' None (Some corr) who) w
                in case r of
                     Inl e \<Rightarrow> (w, fail e)
                   | Inr sub \<Rightarrow>
                       (delegation_announce g org_id parent sub dest who corr
                          (w\<lparr>w_db := delegation_records g parent sub dest who corr (w_db w)\<rparr>), ok sub))))"

definition retry_task :: "uuid \<Rightarrow> db \<Rightarrow> db \<times> unit" where
  "retry_task i d =
     (d\<lparr>tasks := update_where (\<lambda>t. t_id t = i)
         (\<lambda>t. t\<lparr>t_retry_count := t_retry_count t + 1, t_status := ''pending'', t_updated_at := now d\<rparr>) (tasks d)\<rparr>, ())"

definition evaluate_task :: "golib \<Rightarrow> uuid \<Rightarrow> uuid \<Rightarrow> world \<Rightarrow> world \<times> string option" where
  "evaluate_task g org_id i w =
     (if is_task_blocked i (w_db w)
      then (run_db (update_task_status org_id i ''blocked'' ''system'' nil_uuid
              (Some [(''reason'', JStr ''dependencies pending'')])) w, Some ''blocked'')
      else (case get_task org_id i (w_db w) of
              Inl _ \<Rightarrow> (w, None)
            | Inr t \<Rightarrow>
                if t_status t = ''failed'' \<and> t_retry_count t < t_max_retries t then
                  (let w = run_db (retry_task i) w;
                       w = (case t_assigned_to_agent t of None \<Rightarrow> w
                            | Some a \<Rightarrow> enqueue_job (agent_job (uuid_string g (t_id t))
                                [(''organization_id'', uuid_json g org_id), (''agent_id'', uuid_json g a),
                                 (''task_id'', uuid_json g (t_id t)), (''trigger'', JStr ''retry'')] 0 0) w)
                   in (w, Some ''retry''))
                else if t_status t = ''failed'' then
                  (send_to_org g org_id ''team.escalated''
                     [(''taskId'', PJson (uuid_json g i)), (''reason'', PJson (JStr ''max retries exceeded''))] w,
                   Some ''escalated'')
                else (w, Some ''ready'')))"

definition request_human_input :: "golib \<Rightarrow> uuid \<Rightarrow> uuid \<Rightarrow> uuid \<Rightarrow> string \<Rightarrow> world \<Rightarrow> world \<times> unit res" where
  "request_human_input g org_id i requester prompt w =
     (let (w, r) = on_db (update_task_status org_id i ''waiting'' ''agent'' requester (Some [(''prompt'', JStr prompt)])) w
      in case r of
           Inl e \<Rightarrow> (w, fail e)
         | Inr _ \<Rightarrow> (send_to_org g org_id ''agent.waiting''
                       [(''taskId'', PJson (uuid_json g i)), (''prompt'', PJson (JStr prompt))] w, ok ()))"

section \<open>Delegation\<close>

text \<open>The tables that a dependency and a delegation rely on.\<close>

definition deps_wf :: "db \<Rightarrow> bool" where
  "deps_wf d \<longleftrightarrow> task_inv d \<and> acyclic (set (task_dependencies d))
     \<and> (\<forall>(t, x) \<in> set (task_dependencies d). t \<in> t_id ` set (tasks d) \<and> x \<in> t_id ` set (tasks d))"

lemma get_task_limits: "get_task org_id i d = ok t \<Longrightarrow> t_delegation_depth t = 0 \<and> delegation_limits t = ok ()"
  by (auto simp: get_task_ok scan_task_def delegation_limits_def MaxDelegationDepth_def)

lemma add_task_dependency_fresh:
  assumes "\<forall>(t, x) \<in> set (task_dependencies d). t \<noteq> sub \<and> x \<noteq> sub"
    and "p \<in> t_id ` set (tasks d)" and "sub \<in> t_id ` set (tasks d)" and "p \<noteq> sub"
  shows "add_task_dependency p sub d = (d\<lparr>task_dependencies := task_dependencies d @ [(p, sub)]\<rparr>, ok ())"
proof -
  have "(sub, p) \<notin> (set (task_dependencies d))\<^sup>*"
    using assms(1,4) by (auto elim: converse_rtranclE)
  then have "\<not> dep_search (task_dependencies d) p {p} [sub]" by (simp add: dep_search_iff)
  with assms show ?thesis by (auto simp: add_task_dependency_def)
qed

lemma acyclic_fresh:
  assumes "acyclic R" and "\<forall>(t, x) \<in> R. t \<noteq> sub \<and> x \<noteq> sub" and "p \<noteq> sub"
  shows "acyclic (insert (p, sub) R)"
proof -
  have "(sub, p) \<notin> R\<^sup>*" using assms(2,3) by (auto elim: converse_rtranclE)
  with assms(1) show ?thesis by (simp add: acyclic_insert)
qed

lemma task_inv_frame:
  assumes "task_inv d" and "tasks d' = tasks d" and "orgs d' = orgs d" and "task_events d' = task_events d"
    and "next_id d \<le> next_id d'"
  shows "task_inv d'"
  using assms unfolding task_inv_def wf_task_def by (auto intro: less_le_trans)

lemma update_where_task_inv:
  assumes inv: "task_inv d" and f: "\<And>t. t_id (f t) = t_id t \<and> t_parent_task_id (f t) = t_parent_task_id t
      \<and> t_priority (f t) = t_priority t \<and> t_organization_id (f t) = t_organization_id t"
    and st: "\<And>t. t_status (f t) = t_status t \<or> t_status (f t) \<in> set task_status_check"
  shows "task_inv (d\<lparr>tasks := update_where P f (tasks d)\<rparr>)"
proof -
  have ids: "map t_id (update_where P f (tasks d)) = map t_id (tasks d)" using f by (simp add: map_update_where)
  then have idset: "t_id ` set (update_where P f (tasks d)) = t_id ` set (tasks d)" by (metis image_set)
  have "wf_task (d\<lparr>tasks := update_where P f (tasks d)\<rparr>) t" if t: "t \<in> set (update_where P f (tasks d))" for t
  proof -
    from t obtain q where q: "q \<in> set (tasks d)" "t = (if P q then f q else q)" by (auto simp: in_update_where)
    with inv have "wf_task d q" by (simp add: task_inv_def)
    with q(2) f [of q] st [of q] show ?thesis unfolding wf_task_def by (simp add: idset split: if_splits) metis
  qed
  with inv ids idset show ?thesis unfolding task_inv_def by simp
qed

lemma set_delegation_depth_inv: "task_inv d \<Longrightarrow> task_inv (fst (set_delegation_depth i n d))"
  unfolding set_delegation_depth_def fst_conv by (rule update_where_task_inv) simp_all

text \<open>The state after a delegation, as far as the tables of the tasks go.\<close>

lemma delegation_announce_frame:
  assumes "d = w_db (delegation_announce g org_id parent sub dest who corr w)"
  shows "tasks d = tasks (w_db w)" "task_events d = task_events (w_db w)" "orgs d = orgs (w_db w)"
    "task_dependencies d = task_dependencies (w_db w)" "next_id (w_db w) \<le> next_id d"
  unfolding assms
  by (simp_all add: delegation_announce_def Let_def add_team_activity_def send_to_org_def new_uuid_def split: option.split)

lemma delegate_task_okE:
  assumes "delegate_task g org_id p dest title description who w = (w', ok sub)"
  obtains parent corr w1 d2 where
    "get_task org_id p (w_db w) = ok parent" "delegate_guard dest parent (w_db w) = ok ()"
    "w1 = w \<or> w1 = fst (new_uuid w)"
    "create_task g org_id (t_project_id parent) (t_channel_id parent) (Some p) (t_team_id parent) (Some dest) None
       title description ''medium'' None (Some corr) who (w_db w1) = (d2, ok sub)"
    "w' = delegation_announce g org_id parent sub dest who corr
       (w1\<lparr>w_db := delegation_records g parent sub dest who corr d2\<rparr>)"
proof -
  from assms obtain parent where p: "get_task org_id p (w_db w) = ok parent"
    by (cases "get_task org_id p (w_db w)") (simp_all add: delegate_task_def)
  from assms p have g: "delegate_guard dest parent (w_db w) = ok ()"
    by (cases "delegate_guard dest parent (w_db w)") (simp_all add: delegate_task_def)
  obtain w1 corr where w1: "(case t_correlation_id parent of Some c \<Rightarrow> (w, c) | None \<Rightarrow> new_uuid w) = (w1, corr)"
    by fastforce
  then have w1': "w1 = w \<or> w1 = fst (new_uuid w)" by (auto split: option.splits)
  obtain d2 r where c: "create_task g org_id (t_project_id parent) (t_channel_id parent) (Some p) (t_team_id parent) (Some dest) None
       title description ''medium'' None (Some corr) who (w_db w1) = (d2, r)" by fastforce
  from assms obtain s where r: "r = ok s" by (cases r) (simp_all add: delegate_task_def p g w1 on_db_def c)
  with assms have "s = sub" and w': "w' = delegation_announce g org_id parent sub dest who corr
       (w1\<lparr>w_db := delegation_records g parent sub dest who corr d2\<rparr>)"
    by (auto simp add: delegate_task_def p g w1 on_db_def c)
  with p g w1' c r show ?thesis by (intro that) simp_all
qed

lemma create_task_event_frame:
  "tasks (fst (create_task_event i typ actor ev payload corr d)) = tasks d"
  "task_dependencies (fst (create_task_event i typ actor ev payload corr d)) = task_dependencies d"
  by (auto simp: create_task_event_def split: sum.split dest: insert_task_event_eff)

lemma delegation_records_effect:
  assumes inv: "task_inv d" and parent: "t_id parent = p" "t_delegation_depth parent = 0" and i: "t_id sub = i"
    and fresh: "\<forall>(t, x) \<in> set (task_dependencies d). t \<noteq> i \<and> x \<noteq> i"
    and ids: "p \<in> t_id ` set (tasks d)" "i \<in> t_id ` set (tasks d)" and pi: "p \<noteq> i"
  shows "tasks (delegation_records g parent sub dest who corr d) = tasks (fst (set_delegation_depth i 1 d))"
    "task_dependencies (delegation_records g parent sub dest who corr d) = task_dependencies d @ [(p, i)]"
    "task_inv (delegation_records g parent sub dest who corr d)"
proof -
  define d3 where "d3 = fst (set_delegation_depth i 1 d)"
  have inv3: "task_inv d3" unfolding d3_def by (rule set_delegation_depth_inv [OF inv])
  have "map t_id (tasks d3) = map t_id (tasks d)" by (simp add: d3_def set_delegation_depth_def map_update_where)
  then have ids3: "t_id ` set (tasks d3) = t_id ` set (tasks d)" by (metis image_set)
  have deps3: "task_dependencies d3 = task_dependencies d" by (simp add: d3_def set_delegation_depth_def)
  note dep = add_task_dependency_fresh [OF fresh [folded deps3] ids [folded ids3] pi]
  define d4 where "d4 = d3\<lparr>task_dependencies := task_dependencies d3 @ [(p, i)]\<rparr>"
  have inv4: "task_inv d4" by (rule task_inv_frame [OF inv3]) (simp_all add: d4_def)
  have d5: "delegation_records g parent sub dest who corr d = fst (create_task_event p ''agent'' (Some who) ''delegated''
      (Some [(''subtask_id'', uuid_json g i), (''to'', uuid_json g dest)]) (Some corr) d4)"
    by (simp add: delegation_records_def Let_def parent i d3_def [symmetric] dep d4_def)
  show "task_inv (delegation_records g parent sub dest who corr d)"
    unfolding d5 by (rule create_task_event_inv [OF _ inv4]) (rule surjective_pairing)
  show "tasks (delegation_records g parent sub dest who corr d) = tasks (fst (set_delegation_depth i 1 d))"
    "task_dependencies (delegation_records g parent sub dest who corr d) = task_dependencies d @ [(p, i)]"
    unfolding d5 create_task_event_frame d3_def [symmetric] by (simp_all add: d4_def deps3)
qed

text \<open>
  C36: a delegation that succeeds was requested by a user, to a member of the parent's team when it has
  one; it creates a subtask of the parent, assigned to the agent, at depth one whatever the parent's
  depth; the parent is blocked until the subtask completes; the task tables stay well formed and the
  dependencies acyclic.
\<close>

theorem delegate_task_effect:
  assumes "deps_wf (w_db w)" and "delegate_task g org_id p dest title description who w = (w', ok sub)"
  shows "deps_wf (w_db w') \<and> is_task_blocked p (w_db w') \<and> who \<in> set (users (w_db w))
    \<and> (\<exists>row \<in> set (tasks (w_db w')). t_id row = t_id sub \<and> t_parent_task_id row = Some p
         \<and> t_assigned_to_agent row = Some dest \<and> t_status row = ''assigned'' \<and> t_delegation_depth row = 1)
    \<and> (\<exists>parent \<in> set (tasks (w_db w)). t_id parent = p \<and> t_organization_id parent = org_id
         \<and> (\<forall>tm. t_team_id parent = Some tm \<longrightarrow> dest \<in> tm_agent_id ` set (list_team_members tm (w_db w))))"
proof -
  from delegate_task_okE [OF assms(2)] obtain parent corr w1 d2 where
    p: "get_task org_id p (w_db w) = ok parent" and gd: "delegate_guard dest parent (w_db w) = ok ()"
    and w1: "w1 = w \<or> w1 = fst (new_uuid w)"
    and c: "create_task g org_id (t_project_id parent) (t_channel_id parent) (Some p) (t_team_id parent) (Some dest) None
       title description ''medium'' None (Some corr) who (w_db w1) = (d2, ok sub)"
    and w': "w' = delegation_announce g org_id parent sub dest who corr
       (w1\<lparr>w_db := delegation_records g parent sub dest who corr d2\<rparr>)" .
  obtain old where old: "old \<in> set (tasks (w_db w))" "t_id old = p" "t_organization_id old = org_id" "parent = scan_task old"
    using p by (auto simp: get_task_ok dest!: query_row_okD)
  have parent: "t_id parent = p" "t_delegation_depth parent = 0" "t_team_id parent = t_team_id old"
    using old by (simp_all add: scan_task_def)
  have w1': "tasks (w_db w1) = tasks (w_db w)" "task_dependencies (w_db w1) = task_dependencies (w_db w)"
    "organizations (w_db w1) = organizations (w_db w)" "user_rows (w_db w1) = user_rows (w_db w)"
    "task_events (w_db w1) = task_events (w_db w)" "next_id (w_db w) \<le> next_id (w_db w1)" using w1 by auto
  have inv: "task_inv (w_db w)" using assms(1) by (simp add: deps_wf_def)
  have inv1: "task_inv (w_db w1)" by (rule task_inv_frame [OF inv]) (simp_all add: w1')
  from create_task_row [OF c] obtain row where row: "tasks d2 = tasks (w_db w1) @ [row]" "sub = scan_task row"
    "t_id row = next_id (w_db w1)" "t_parent_task_id row = Some p" "t_assigned_to_agent row = Some dest"
    "t_status row = ''assigned''" "task_dependencies d2 = task_dependencies (w_db w1)" "who \<in> us_id ` set (user_rows (w_db w1))"
    by (rule create_task_row [OF c]) (rule that, simp_all)
  have inv2: "task_inv d2" using create_task_inv [OF c inv1] .
  let ?i = "t_id sub"
  have i: "?i = next_id (w_db w1)" using row(2,3) by (simp add: scan_task_def)
  have old_ids: "t_id t < ?i" if "t \<in> set (tasks (w_db w))" for t
    using that inv1 w1'(1) i by (auto simp: task_inv_def wf_task_def)
  have wf_deps: "\<forall>(t, x) \<in> set (task_dependencies (w_db w)). t \<in> t_id ` set (tasks (w_db w)) \<and> x \<in> t_id ` set (tasks (w_db w))"
    using assms(1) by (simp add: deps_wf_def)
  have deps2: "task_dependencies d2 = task_dependencies (w_db w)" using row(7) w1'(2) by simp
  have fresh: "\<forall>(t, x) \<in> set (task_dependencies d2). t \<noteq> ?i \<and> x \<noteq> ?i"
    using wf_deps old_ids unfolding deps2 by fastforce
  have pi: "p \<noteq> ?i" using old_ids [OF old(1)] old(2) by simp
  have idset2: "t_id ` set (tasks d2) = insert ?i (t_id ` set (tasks (w_db w)))"
    using row(1,3) w1'(1) i by simp
  then have "p \<in> t_id ` set (tasks d2)" "?i \<in> t_id ` set (tasks d2)" using old(1,2) by auto
  note rec = delegation_records_effect [OF inv2 parent(1,2) refl fresh this pi, of g dest who corr]
  define d3 where "d3 = fst (set_delegation_depth ?i 1 d2)"
  have "map t_id (tasks d3) = map t_id (tasks d2)" by (simp add: d3_def set_delegation_depth_def map_update_where)
  then have idset3: "t_id ` set (tasks d3) = insert ?i (t_id ` set (tasks (w_db w)))"
    unfolding idset2 [symmetric] by (metis image_set)
  note fr = delegation_announce_frame [of _ g org_id parent sub dest who corr, OF refl]
  have db': "tasks (w_db w') = tasks d3" "task_dependencies (w_db w') = task_dependencies (w_db w) @ [(p, ?i)]"
    unfolding w' using rec fr by (simp_all add: d3_def deps2)
  have inv': "task_inv (w_db w')" unfolding w' by (rule task_inv_frame [OF rec(3)])
      (simp_all add: fr(1-4), rule order_trans [OF _ fr(5)], simp)
  have "acyclic (insert (p, ?i) (set (task_dependencies (w_db w))))"
    using assms(1) fresh pi unfolding deps_wf_def deps2 by (intro acyclic_fresh) auto
  then have wf': "deps_wf (w_db w')"
    using db' inv' wf_deps old(1,2) unfolding deps_wf_def db'(1) idset3 by auto
  let ?row = "row\<lparr>t_delegation_depth := 1, t_updated_at := now d2\<rparr>"
  have new: "?row \<in> set (tasks d3)" using row(1,3) i
    by (auto simp: d3_def set_delegation_depth_def in_update_where)
  have "status_of ?i (w_db w') = Some ''assigned''"
  proof -
    have "find (\<lambda>q. t_id q = t_id ?row) (tasks d3) = Some ?row"
      using inv' by (intro find_distinct [OF _ new]) (simp add: task_inv_def db'(1))
    then show ?thesis using row(3,6) i by (simp add: status_of_eq db'(1))
  qed
  then have blocked: "is_task_blocked p (w_db w')"
    using db'(2) by (force simp: is_task_blocked_def list_task_dependencies_def list_ex_iff status_of_def split: sum.splits)
  have member: "\<forall>tm. t_team_id old = Some tm \<longrightarrow> dest \<in> tm_agent_id ` set (list_team_members tm (w_db w))"
    using gd parent(3) by (auto simp: delegate_guard_def split: sum.splits if_splits)
  show ?thesis
    using wf' blocked row(8) w1'(4) new row i old member
    by (intro conjI bexI [of _ ?row] bexI [of _ old]) (auto simp: db'(1))
qed

definition demo_team_world :: world where
  "demo_team_world =
     \<lparr>w_db = demo_db\<lparr>agents := [demo_agent, demo_agent\<lparr>ag_id := 5\<rparr>],
        teams := [\<lparr>team_uuid = 7, team_organization_id = 1, team_name = ''t'', team_slug = ''t'', team_objective = [],
          team_description = [], team_status = ''draft'', team_created_by = Some 2, team_coordinator_agent_id = None,
          team_created_at = 0, team_updated_at = 0, team_members = [], team_current_version = None\<rparr>],
        members := [\<lparr>tm_id = 20, tm_team_id = 7, tm_agent_id = 4, tm_role = ''lead'', tm_responsibilities = [],
          tm_dependencies = [], tm_tools = [], tm_knowledge_requirements = [], tm_added_at = 0\<rparr>,
          \<lparr>tm_id = 21, tm_team_id = 7, tm_agent_id = 5, tm_role = ''dev'', tm_responsibilities = [],
          tm_dependencies = [], tm_tools = [], tm_knowledge_requirements = [], tm_added_at = 0\<rparr>]\<rparr>,
      w_pool = Some (new_pool 4), w_out = Some [], w_calls = [], w_audit = [], w_browser_audit = [], w_llm = [], w_spawned = []\<rparr>"

definition demo_started :: world where
  "demo_started = fst (start_team_task demo_golib 1 7 3 None ''root'' [] 2 demo_team_world)"

lemma delegate_task_effect_witness:
  "\<exists>w' sub. delegate_task demo_golib 1 101 5 ''sub'' [] 2 demo_started = (w', ok sub) \<and> is_task_blocked 101 (w_db w')"
proof -
  have "list_all (\<lambda>t. t_id t < next_id (w_db demo_started) \<and> t_status t \<in> set task_status_check
      \<and> t_priority t \<in> set task_priority_check \<and> t_organization_id t \<in> set (orgs (w_db demo_started))
      \<and> t_parent_task_id t = None) (tasks (w_db demo_started))"
    "map t_id (tasks (w_db demo_started)) = [101]" "task_dependencies (w_db demo_started) = []"
    "list_all (\<lambda>e. te_task_id e = 101 \<and> te_id e < next_id (w_db demo_started)) (task_events (w_db demo_started))"
    by code_simp+
  then have "task_inv (w_db demo_started)"
    unfolding task_inv_def wf_task_def list_all_iff by (force dest: arg_cong [of _ _ set])
  then have wf: "deps_wf (w_db demo_started)"
    using \<open>task_dependencies (w_db demo_started) = []\<close> by (simp add: deps_wf_def acyclic_def)
  have "\<not> isl (snd (delegate_task demo_golib 1 101 5 ''sub'' [] 2 demo_started))" by code_simp
  then obtain w' sub where u: "delegate_task demo_golib 1 101 5 ''sub'' [] 2 demo_started = (w', ok sub)"
    by (metis sum.collapse(2) surjective_pairing)
  with delegate_task_effect [OF wf u] show ?thesis by blast
qed

section \<open>Starting and evaluating\<close>

lemma pick_coordinator_member: "team_members tm \<noteq> [] \<Longrightarrow> pick_coordinator tm \<in> set (team_members tm)"
  by (auto simp: pick_coordinator_def split: option.split dest: find_in)

text \<open>
  Starting a task of a team assigns it to a member of the team, to the coordinator the team names
  when that is a member; the team has a coordinator afterwards; the task belongs to the team and has no
  parent; and the worker pool has received one job for that member and task, with the retries and
  the timeout of the orchestrator.
\<close>

theorem start_team_task_effect:
  assumes "start_team_task g org_id tid project_id channel_id title description who w = (w', ok t)"
    and "get_team org_id tid (w_db w) = ok tm" and "w_pool w = Some p"
  shows "\<exists>m j row. m \<in> set (list_team_members tid (w_db w))
    \<and> (\<forall>c. team_coordinator_agent_id tm = Some c \<longrightarrow> c \<in> tm_agent_id ` set (list_team_members tid (w_db w)) \<longrightarrow> tm_agent_id m = c)
    \<and> row \<in> set (tasks (w_db w')) \<and> t_id row = t_id t \<and> t_assigned_to_agent row = Some (tm_agent_id m)
    \<and> t_team_id row = Some tid \<and> t_parent_task_id row = None \<and> t_status row = ''assigned''
    \<and> w_pool w' = Some (enqueue (now (w_db w)) j p) \<and> job_id j = uuid_string g (t_id t)
    \<and> mget (Some (job_payload j)) ''agent_id'' = Some (uuid_json g (tm_agent_id m))
    \<and> mget_str (Some (job_payload j)) ''trigger'' = Some ''team_task''
    \<and> job_retries (job_defaults j) = 3 \<and> job_timeout (job_defaults j) = 300"
proof -
  have mem: "team_members tm = list_team_members tid (w_db w)"
    using assms(2) by (auto simp: get_team_def split: sum.splits)
  from assms(1,2) have ne: "team_members tm \<noteq> []" by (auto simp: start_team_task_def)
  let ?m = "pick_coordinator tm"
  define w1 where "w1 = (if team_coordinator_agent_id tm = None
      then run_db (set_team_coordinator org_id tid (tm_agent_id ?m)) w else w)"
  have w1: "w_pool w1 = w_pool w" "now (w_db w1) = now (w_db w)"
    by (simp_all add: w1_def set_team_coordinator_def)
  obtain d2 r where c: "create_task g org_id project_id channel_id None (Some tid) (Some (tm_agent_id ?m)) None
      title description ''high'' None (Some (next_id (w_db w1))) who (w_db (fst (new_uuid w1))) = (d2, r)" by fastforce
  note eq = assms(1) [unfolded start_team_task_def, unfolded assms(2) sum.case if_not_P [OF ne] Let_def, folded w1_def]
  from eq c have r: "r = ok t"
    by (cases r) (simp_all add: new_uuid_def on_db_def)
  from create_task_row [OF c [unfolded r]] obtain row where row: "tasks d2 = tasks (w_db (fst (new_uuid w1))) @ [row]"
    "t = scan_task row" "t_team_id row = Some tid" "t_assigned_to_agent row = Some (tm_agent_id ?m)"
    "t_parent_task_id row = None" "t_status row = ''assigned''" "now d2 = now (w_db w)"
    using w1(2) by auto
  let ?j = "agent_job (uuid_string g (t_id t))
      [(''organization_id'', uuid_json g org_id), (''agent_id'', uuid_json g (tm_agent_id ?m)),
       (''task_id'', uuid_json g (t_id t)), (''correlation_id'', uuid_json g (next_id (w_db w1))),
       (''trigger'', JStr ''team_task'')] MaxRetries TaskTimeout"
  have w': "tasks (w_db w') = tasks d2 \<and> w_pool w' = Some (enqueue (now (w_db w)) ?j p)"
    using eq c r w1(1) assms(3) row(7)
    by (auto simp: new_uuid_def on_db_def enqueue_job_def add_team_activity_def)
  have coord: "tm_agent_id ?m = c" if "team_coordinator_agent_id tm = Some c" "c \<in> tm_agent_id ` set (team_members tm)" for c
    using that by (auto simp: pick_coordinator_def find_None_iff split: option.split dest: find_in)
  show ?thesis
    using pick_coordinator_member [OF ne] coord w' row unfolding mem
    by (intro exI [of _ ?m] exI [of _ ?j] exI [of _ row])
      (auto simp: scan_task_def agent_job_def job_defaults_def MaxRetries_def TaskTimeout_def mget_str_def)
qed

lemma start_team_task_effect_witness:
  "\<exists>m row. m \<in> set (list_team_members 7 (w_db demo_team_world)) \<and> row \<in> set (tasks (w_db demo_started))
     \<and> t_assigned_to_agent row = Some (tm_agent_id m)"
proof -
  have "\<not> isl (snd (start_team_task demo_golib 1 7 3 None ''root'' [] 2 demo_team_world))" by code_simp
  then obtain t where u: "start_team_task demo_golib 1 7 3 None ''root'' [] 2 demo_team_world = (demo_started, ok t)"
    unfolding demo_started_def by (metis sum.collapse(2) surjective_pairing)
  have "\<not> isl (get_team 1 7 (w_db demo_team_world))" by code_simp
  then obtain tm where tm: "get_team 1 7 (w_db demo_team_world) = ok tm" by (metis sum.collapse(2))
  have "w_pool demo_team_world = Some (new_pool 4)" by (simp add: demo_team_world_def)
  from start_team_task_effect [OF u tm this] show ?thesis by blast
qed

text \<open>
  The outcomes of \<^verbatim>\<open>Evaluate\<close>: blocked exactly when a prerequisite is open; a nil dereference exactly
  when the task is not there; escalated exactly for a failed task; otherwise ready. A failed task is never
  retried, because \<^verbatim>\<open>GetTask\<close> does not read its retry limit; and a blocked task that has not started
  keeps its status.
\<close>

theorem evaluate_task_outcome:
  assumes "task_inv (w_db w)"
  shows "snd (evaluate_task g org_id i w) =
      (if is_task_blocked i (w_db w) then Some ''blocked''
       else case get_task org_id i (w_db w) of
              Inl _ \<Rightarrow> None
            | Inr t \<Rightarrow> Some (if t_status t = ''failed'' then ''escalated'' else ''ready''))
    \<and> (status_of i (w_db w) \<in> {Some ''pending'', Some ''assigned''} \<longrightarrow> fst (evaluate_task g org_id i w) = w)"
proof
  show "snd (evaluate_task g org_id i w) =
      (if is_task_blocked i (w_db w) then Some ''blocked''
       else case get_task org_id i (w_db w) of
              Inl _ \<Rightarrow> None
            | Inr t \<Rightarrow> Some (if t_status t = ''failed'' then ''escalated'' else ''ready''))"
  proof (cases "get_task org_id i (w_db w)")
    case (Inl e)
    then show ?thesis by (simp add: evaluate_task_def)
  next
    case (Inr t)
    then have "\<not> t_retry_count t < t_max_retries t" by (auto simp: get_task_ok scan_task_def)
    with Inr show ?thesis by (simp add: evaluate_task_def)
  qed
next
  show "status_of i (w_db w) \<in> {Some ''pending'', Some ''assigned''} \<longrightarrow> fst (evaluate_task g org_id i w) = w"
  proof
    assume st: "status_of i (w_db w) \<in> {Some ''pending'', Some ''assigned''}"
    have s: "t_status t \<in> {''pending'', ''assigned''}"
      if "query_row (\<lambda>t. t_id t = i \<and> t_organization_id t = org_id) (tasks (w_db w)) = ok t" for t
    proof -
      from query_row_okD [OF that] have "find (\<lambda>q. t_id q = i) (tasks (w_db w)) = Some t"
        using assms find_distinct [of t_id "tasks (w_db w)" t] by (simp add: task_inv_def)
      with st show ?thesis by (auto simp: status_of_eq)
    qed
    have "fst (update_task_status org_id i ''blocked'' ''system'' nil_uuid p (w_db w)) = w_db w" for p
      using s by (auto simp: update_task_status_def is_valid_task_transition_def valid_task_transitions_def
          valid_task_statuses_def split: sum.split)
    moreover have "t_status t \<noteq> ''failed''" if "get_task org_id i (w_db w) = ok t" for t
      using that s by (force simp: get_task_def scan_task_def split: sum.splits)
    ultimately show "fst (evaluate_task g org_id i w) = w"
      by (auto simp: evaluate_task_def run_db_def split: sum.split)
  qed
qed

lemma evaluate_task_outcome_witness:
  "snd (evaluate_task demo_golib 1 100 (world_of demo_tasks_db)) = Some ''ready''"
proof -
  have "list_all (\<lambda>t. t_id t < next_id demo_tasks_db \<and> t_status t \<in> set task_status_check
      \<and> t_priority t \<in> set task_priority_check \<and> t_organization_id t \<in> set (orgs demo_tasks_db)
      \<and> t_parent_task_id t = None) (tasks demo_tasks_db)"
    "map t_id (tasks demo_tasks_db) = [100]"
    "list_all (\<lambda>e. te_task_id e = 100 \<and> te_id e < next_id demo_tasks_db) (task_events demo_tasks_db)"
    by code_simp+
  then have "task_inv demo_tasks_db"
    unfolding task_inv_def wf_task_def list_all_iff by (force dest: arg_cong [of _ _ set])
  moreover have "\<not> is_task_blocked 100 demo_tasks_db"
    "(case get_task 1 100 demo_tasks_db of Inl _ \<Rightarrow> False | Inr t \<Rightarrow> t_status t \<noteq> ''failed'')" by code_simp+
  ultimately show ?thesis
    using evaluate_task_outcome [of "world_of demo_tasks_db" demo_golib 1 100]
    by (auto simp: world_of_def split: sum.splits)
qed

end
