(* ===== verification/Tools.thy ===== *)
theory Tools
  imports World Guardrails
begin

text \<open>
  The tools an agent may call: the tables \<^verbatim>\<open>tools\<close>, \<^verbatim>\<open>agent_tools\<close> and \<^verbatim>\<open>tool_executions\<close> with the
  statements of \<^verbatim>\<open>repository/tool.go\<close>, the lookup, the input validation and the approval policy of
  \<^verbatim>\<open>tool/registry.go\<close>, the mock provider of \<^verbatim>\<open>integration/mock.go\<close>, and the web search and the tables
  of \<^verbatim>\<open>tool/executor.go\<close>. The theory Executor has the executions themselves.

  What is outside the program is one record of parameters, \<open>tool_env\<close>: the registered providers, the
  two search services, the browser, the hash, the decryption of stored credentials. An answer from
  outside may depend on everything that was sent out before. A number in a tool input is a \<^verbatim>\<open>float64\<close>,
  because inputs are decoded JSON.
\<close>

section \<open>Parameters\<close>

type_synonym provider = "outside_call list \<Rightarrow> string \<Rightarrow> gomap option \<Rightarrow> gomap option \<Rightarrow> gomap option res"

record browser =
  br_profile_org :: "uuid \<Rightarrow> uuid option"
  br_execute :: "outside_call list \<Rightarrow> uuid \<Rightarrow> uuid \<Rightarrow> uuid option \<Rightarrow> string \<Rightarrow> gomap option \<Rightarrow> gomap option res"
  br_domain_of :: "string \<Rightarrow> string"

record tool_env =
  te_go :: golib
  te_sha :: "string \<Rightarrow> string"
  te_time :: "time \<Rightarrow> string"
  te_integrations :: "(string \<Rightarrow> provider option) option"
  te_credentials :: "uuid \<Rightarrow> string \<Rightarrow> gomap option"
  te_serper :: "(outside_call list \<Rightarrow> string \<Rightarrow> int \<Rightarrow> (int \<times> string) option) option"
  te_duckduckgo :: "outside_call list \<Rightarrow> string \<Rightarrow> (int \<times> string) res"
  te_browser :: "browser option"

text \<open>\<^verbatim>\<open>x, _ := v.(T)\<close>: the zero value when the assertion fails.\<close>

definition the_default :: "'a \<Rightarrow> 'a option \<Rightarrow> 'a" where
  "the_default z v = (case v of None \<Rightarrow> z | Some x \<Rightarrow> x)"

lemma the_default_simps [simp]: "the_default z None = z" "the_default z (Some x) = x"
  by (simp_all add: the_default_def)

section \<open>The tables\<close>

definition list_tools :: "uuid \<Rightarrow> db \<Rightarrow> tool list" where
  "list_tools org_id d =
     sort_key tl_name (filter (\<lambda>t. tl_organization_id t = None \<or> tl_organization_id t = Some org_id) (tools d))"

definition get_tool_by_name :: "uuid option \<Rightarrow> string \<Rightarrow> db \<Rightarrow> tool res" where
  "get_tool_by_name org_id name d = query_row (\<lambda>t. tl_organization_id t = org_id \<and> tl_name t = name) (tools d)"

definition get_tool_by_id :: "uuid \<Rightarrow> db \<Rightarrow> tool res" where
  "get_tool_by_id i d = query_row (\<lambda>t. tl_id t = i) (tools d)"

text \<open>The tool of a listed assignment has only its name, description and risk.\<close>

definition joined_tool :: "tool \<Rightarrow> tool" where
  "joined_tool t = \<lparr>tl_id = nil_uuid, tl_organization_id = None, tl_name = tl_name t, tl_description = tl_description t,
     tl_input_schema = None, tl_output_schema = None, tl_risk_level = tl_risk_level t, tl_required_permissions = [],
     tl_approval_policy = None, tl_enabled = False, tl_created_at = 0, tl_updated_at = 0\<rparr>"

definition list_agent_tools :: "uuid \<Rightarrow> db \<Rightarrow> agent_tool list" where
  "list_agent_tools agent d =
     concat (map (\<lambda>a. map (\<lambda>t. a\<lparr>at_tool := Some (joined_tool t)\<rparr>) (filter (\<lambda>t. tl_id t = at_tool_id a) (tools d)))
       (filter (\<lambda>a. at_agent_id a = agent) (agent_tools d)))"

definition assign_tool_to_agent :: "uuid \<Rightarrow> uuid \<Rightarrow> db \<Rightarrow> db \<times> unit res" where
  "assign_tool_to_agent agent tool_id d =
     (if \<exists>a \<in> set (agent_tools d). at_agent_id a = agent \<and> at_tool_id a = tool_id then (d, ok ())
      else if agent \<notin> ag_id ` set (agents d) then (d, fail (fk_violation ''agent_tools_agent_id_fkey''))
      else if tool_id \<notin> tl_id ` set (tools d) then (d, fail (fk_violation ''agent_tools_tool_id_fkey''))
      else (d\<lparr>agent_tools := agent_tools d @ [\<lparr>at_id = next_id d, at_agent_id = agent, at_tool_id = tool_id,
              at_enabled = True, at_created_at = now d, at_tool = None\<rparr>], next_id := next_id d + 1\<rparr>, ok ()))"

definition execution_status_check :: "string list" where
  "execution_status_check = [''pending'', ''running'', ''succeeded'', ''failed'', ''approval_required'', ''cancelled'']"

definition create_tool_execution :: "tool_execution \<Rightarrow> db \<Rightarrow> (tool_execution \<times> db) res" where
  "create_tool_execution e d =
     (if ex_status e \<notin> set execution_status_check then fail (check_violation ''tool_executions_status_check'')
      else if ex_organization_id e \<notin> set (orgs d) then fail (fk_violation ''tool_executions_organization_id_fkey'')
      else if ex_agent_id e \<notin> ag_id ` set (agents d) then fail (fk_violation ''tool_executions_agent_id_fkey'')
      else if \<not> opt_ref (ex_task_id e) (map t_id (tasks d)) then fail (fk_violation ''tool_executions_task_id_fkey'')
      else if \<not> opt_ref (ex_run_id e) (map run_id (runs d)) then fail (fk_violation ''tool_executions_run_id_fkey'')
      else if ex_tool_id e \<notin> tl_id ` set (tools d) then fail (fk_violation ''tool_executions_tool_id_fkey'')
      else if \<not> opt_ref (ex_approval_id e) (map ap_id (approvals d)) then fail (fk_violation ''tool_executions_approval_id_fkey'')
      else if ex_idempotency_key e \<in> ex_idempotency_key ` set (executions d)
      then fail (unique_violation ''tool_executions_idempotency_key_key'')
      else (let e = e\<lparr>ex_id := next_id d, ex_created_at := now d, ex_updated_at := now d\<rparr>
            in ok (e, d\<lparr>executions := executions d @ [e], next_id := next_id d + 1\<rparr>)))"

definition get_tool_execution_by_idempotency :: "uuid \<Rightarrow> string \<Rightarrow> db \<Rightarrow> tool_execution res" where
  "get_tool_execution_by_idempotency org_id key d =
     query_row (\<lambda>e. ex_organization_id e = org_id \<and> ex_idempotency_key e = key) (executions d)"

definition list_tool_executions :: "uuid \<Rightarrow> uuid option \<Rightarrow> uuid option \<Rightarrow> int \<Rightarrow> db \<Rightarrow> tool_execution list" where
  "list_tool_executions org_id agent tid limit d =
     newest (clamp_limit 50 limit) (filter (\<lambda>e. ex_organization_id e = org_id
       \<and> (case agent of None \<Rightarrow> True | Some a \<Rightarrow> ex_agent_id e = a)
       \<and> (case tid of None \<Rightarrow> True | Some _ \<Rightarrow> ex_task_id e = tid)) (executions d))"

definition get_tool_execution :: "uuid \<Rightarrow> db \<Rightarrow> tool_execution res" where
  "get_tool_execution i d = query_row (\<lambda>e. ex_id e = i) (executions d)"

definition update_tool_execution_status :: "uuid \<Rightarrow> string \<Rightarrow> gomap option \<Rightarrow> string option \<Rightarrow> db \<Rightarrow> db \<times> unit res" where
  "update_tool_execution_status i status out err d =
     (if status \<notin> set execution_status_check \<and> (\<exists>e \<in> set (executions d). ex_id e = i)
      then (d, fail (check_violation ''tool_executions_status_check''))
      else (d\<lparr>executions := update_where (\<lambda>e. ex_id e = i)
              (\<lambda>e. e\<lparr>ex_status := status, ex_output := out, ex_error := err, ex_updated_at := now d\<rparr>) (executions d)\<rparr>, ok ()))"

section \<open>The registry\<close>

definition registry_get :: "uuid option \<Rightarrow> string \<Rightarrow> db \<Rightarrow> tool res" where
  "registry_get org_id name d =
     (case (case org_id of None \<Rightarrow> None
            | Some _ \<Rightarrow> (case get_tool_by_name org_id name d of Inl _ \<Rightarrow> None | Inr t \<Rightarrow> Some t)) of
        Some t \<Rightarrow> ok t
      | None \<Rightarrow> get_tool_by_name None name d)"

definition check_type :: "json \<Rightarrow> string \<Rightarrow> bool" where
  "check_type v expected =
     (if expected = ''string'' then (case v of JStr _ \<Rightarrow> True | _ \<Rightarrow> False)
      else if expected = ''integer'' then (case v of JNum _ \<Rightarrow> True | _ \<Rightarrow> False)
      else if expected = ''number'' then (case v of JNum _ \<Rightarrow> True | _ \<Rightarrow> False)
      else if expected = ''boolean'' then (case v of JBool _ \<Rightarrow> True | _ \<Rightarrow> False)
      else if expected = ''array'' then (case v of JArr _ \<Rightarrow> True | _ \<Rightarrow> False)
      else if expected = ''object'' then (case v of JObj _ \<Rightarrow> True | _ \<Rightarrow> False)
      else True)"

text \<open>The type and the enum that the schema gives for one property.\<close>

definition check_property :: "golib \<Rightarrow> string \<Rightarrow> gomap \<Rightarrow> json \<Rightarrow> unit res" where
  "check_property g key def val =
     (let expected = the_default [] (as_str (map_of def ''type''))
      in if expected \<noteq> [] \<and> \<not> check_type val expected then fail (''field '' @ key @ '' expects '' @ expected)
         else case map_of def ''enum'' of
                Some (JArr vs) \<Rightarrow>
                  if \<exists>v \<in> set vs. fmt_v g v = fmt_v g val then ok ()
                  else fail (''field '' @ key @ '' value '' @ fmt_v g val @ '' not in enum '' @ fmt_v g (JArr vs))
              | _ \<Rightarrow> ok ())"

fun check_required :: "golib \<Rightarrow> gomap option \<Rightarrow> gomap option \<Rightarrow> json list \<Rightarrow> unit res" where
  "check_required g props inp [] = ok ()"
| "check_required g props inp (req # reqs) =
     (let key = the_default [] (as_str (Some req))
      in case mget inp key of
           None \<Rightarrow> fail (''missing required field '' @ key)
         | Some val \<Rightarrow>
             (case as_obj (mget props key) of
                None \<Rightarrow> check_required g props inp reqs
              | Some def \<Rightarrow> (case check_property g key def val of
                    Inl e \<Rightarrow> fail e
                  | Inr _ \<Rightarrow> check_required g props inp reqs)))"

definition schema_required :: "gomap \<Rightarrow> json list" where
  "schema_required schema = (case map_of schema ''required'' of Some (JArr rs) \<Rightarrow> rs | _ \<Rightarrow> [])"

definition validate_input :: "golib \<Rightarrow> tool \<Rightarrow> gomap option \<Rightarrow> unit res" where
  "validate_input g t inp =
     (case tl_input_schema t of
        None \<Rightarrow> ok ()
      | Some schema \<Rightarrow> check_required g (as_obj (map_of schema ''properties'')) inp (schema_required schema))"

definition is_high_risk :: "tool \<Rightarrow> bool" where
  "is_high_risk t \<longleftrightarrow> tl_risk_level t = ''high'' \<or> tl_risk_level t = ''critical''"

definition requires_approval :: "tool \<Rightarrow> bool" where
  "requires_approval t =
     (case as_bool (mget (tl_approval_policy t) ''require_approval'') of
        Some v \<Rightarrow> v
      | None \<Rightarrow> is_high_risk t \<or> contains (tl_name t) ''publish'' \<or> contains (tl_name t) ''send_''
                \<or> contains (tl_name t) ''delete'')"

section \<open>The mock provider\<close>

definition mock_execute :: "string \<Rightarrow> gomap option \<Rightarrow> gomap" where
  "mock_execute name inp =
     (let str = (\<lambda>k. the_default [] (mget_str inp k))
      in if name = ''web_search'' then
           [(''results'', JArr [JObj [(''title'', JStr (''Mock result for '' @ str ''query'')),
              (''url'', JStr ''https://example.com''), (''snippet'', JStr ''Mock content'')]])]
         else if name = ''http_request'' then
           [(''status'', JNum 200), (''body'', JObj [(''mock'', JBool True), (''url'', JStr (str ''url''))])]
         else if name = ''send_email'' then [(''messageId'', JStr (''mock-'' @ str ''to''))]
         else if name = ''create_calendar_event'' then [(''eventId'', JStr (''evt-'' @ str ''title''))]
         else if name = ''publish_social_post'' then
           [(''postId'', JStr (''post-'' @ str ''platform'' @ ''-'' @ take 20 (str ''content''))),
            (''url'', JStr (''https://'' @ str ''platform'' @ ''.com/post/mock''))]
         else if name = ''read_social_analytics'' then
           [(''metrics'', JObj [(''impressions'', JNum 1234), (''likes'', JNum 56)])]
         else if name = ''upload_file'' then [(''fileId'', JStr (''file-'' @ str ''filename''))]
         else if name = ''create_task'' then [(''taskId'', JStr (''task-'' @ str ''title''))]
         else if name = ''send_channel_message'' then [(''messageId'', JStr ''msg-mock'')]
         else [(''mock'', JBool True), (''tool'', JStr name),
               (''input'', case inp of None \<Rightarrow> JNull | Some m \<Rightarrow> JObj m)])"

section \<open>Tables of the executor\<close>

definition map_tool_to_provider :: "string \<Rightarrow> string" where
  "map_tool_to_provider name =
     (if name \<in> {''publish_social_post'', ''read_social_analytics''} then ''linkedin''
      else if name = ''send_email'' then ''email''
      else if name = ''create_calendar_event'' then ''calendar''
      else if name = ''web_search'' then ''http_api''
      else if name = ''http_request'' then ''http_api''
      else if name = ''upload_file'' then ''google_drive''
      else if name \<in> {''send_channel_message'', ''create_task''} then []
      else ''http_api'')"

definition capability_to_tools :: "string \<Rightarrow> string list" where
  "capability_to_tools cap =
     (if cap = ''content_creation'' then [''editor'', ''content_gen'', ''create_task'']
      else if cap = ''publish_content'' then [''publish_social_post'', ''social_publish'', ''cms_publish'']
      else if cap = ''performance_analysis'' then [''read_social_analytics'', ''analytics'']
      else if cap = ''scheduling'' then [''create_calendar_event'', ''scheduler'']
      else if cap = ''research'' then [''web_search'', ''search'', ''rag'', ''http_request'']
      else if cap = ''communication'' then [''send_channel_message'', ''messaging'']
      else if cap = ''data_management'' then [''upload_file'', ''database'']
      else if cap = ''send_email'' then [''send_email'']
      else if cap = ''external_api'' then [''http_request'', ''http_tool'']
      else if cap = ''automation'' then [''create_task'', ''workflow'']
      else [])"

text \<open>\<^verbatim>\<open>checkRateLimits\<close> counts as \<^verbatim>\<open>CheckToolCall\<close> of the guardrails does, with texts of its own.\<close>

definition check_rate_limits :: "uuid \<Rightarrow> uuid \<Rightarrow> string \<Rightarrow> db \<Rightarrow> unit res" where
  "check_rate_limits org_id agent name d =
     (if rate_limit org_id agent d \<le> calls_since (now d - 60) org_id agent d
      then fail (''rate limit '' @ int_str (rate_limit org_id agent d) @ ''/min exceeded'')
      else if tool_limit org_id agent d \<le> tool_calls_since (now d - 24 * 60 * 60) org_id agent name d
      then fail (''daily tool limit '' @ int_str (tool_limit org_id agent d) @ '' exceeded for '' @ name)
      else ok ())"

definition safe_uuid :: "golib \<Rightarrow> uuid option \<Rightarrow> string" where
  "safe_uuid g i = (case i of None \<Rightarrow> [] | Some u \<Rightarrow> uuid_string g u)"

definition str_ptr_if :: "golib \<Rightarrow> json option \<Rightarrow> string option" where
  "str_ptr_if g v =
     (case v of
        None \<Rightarrow> None
      | Some JNull \<Rightarrow> None
      | Some x \<Rightarrow>
          (case (case x of JStr s \<Rightarrow> if s \<noteq> [] then Some s else None | _ \<Rightarrow> None) of
             Some s \<Rightarrow> Some s
           | None \<Rightarrow> (let s = fmt_v g x in if s = [] \<or> s = ''<nil>'' then None else Some s)))"

definition is_secret_key :: "string \<Rightarrow> bool" where
  "is_secret_key k \<longleftrightarrow> (let lower = to_lower k
     in contains lower ''token'' \<or> contains lower ''secret'' \<or> contains lower ''key'' \<or> contains lower ''password'')"

definition redacted_input :: "gomap option \<Rightarrow> gomap" where
  "redacted_input inp =
     map (\<lambda>(k, v). (k, if is_secret_key k then JStr ''***REDACTED***'' else v)) (the_default [] inp)"

section \<open>Web search\<close>

definition search_query :: "gomap option \<Rightarrow> string" where
  "search_query inp =
     (let q = the_default [] (mget_str inp ''query'')
      in if q = [] then the_default [] (mget_str inp ''q'') else q)"

definition search_limit :: "gomap option \<Rightarrow> int" where
  "search_limit inp =
     (case as_num (mget inp ''limit'') of None \<Rightarrow> 5 | Some l \<Rightarrow> if 0 < l \<and> l < 10 then \<lfloor>l\<rfloor> else 5)"

text \<open>\<^verbatim>\<open>json.Unmarshal\<close> into a \<^verbatim>\<open>map[string]any\<close>.\<close>

definition unmarshal_map :: "golib \<Rightarrow> string \<Rightarrow> gomap option res" where
  "unmarshal_map g body =
     (case json_parse g body of
        Inl e \<Rightarrow> fail e
      | Inr (JObj m) \<Rightarrow> ok (Some m)
      | Inr JNull \<Rightarrow> ok None
      | Inr v \<Rightarrow> fail (json_type_err g [] v))"

definition member :: "gomap \<Rightarrow> string \<Rightarrow> json" where
  "member m k = (case map_of m k of None \<Rightarrow> JNull | Some v \<Rightarrow> v)"

text \<open>A \<^verbatim>\<open>[]map[string]any\<close> that was never appended to is a nil slice.\<close>

definition results_json :: "json list \<Rightarrow> json" where
  "results_json rs = (if rs = [] then JNull else JArr rs)"

definition serper_results :: "int \<Rightarrow> json list \<Rightarrow> json list" where
  "serper_results limit organic =
     List.map_filter (\<lambda>item. map_option (\<lambda>m. JObj [(''title'', member m ''title''), (''link'', member m ''link''),
         (''snippet'', member m ''snippet'')]) (as_obj (Some item)))
       (take (nat limit) organic)"

definition serper_search :: "tool_env \<Rightarrow> outside_call list \<Rightarrow> string \<Rightarrow> int \<Rightarrow> gomap option" where
  "serper_search env calls query limit =
     (case te_serper env of
        None \<Rightarrow> None
      | Some f \<Rightarrow>
          (case f calls query limit of
             Some (status, body) \<Rightarrow>
               if status = 200 then
                 (case unmarshal_map (te_go env) body of
                    Inl _ \<Rightarrow> None
                  | Inr parsed \<Rightarrow>
                      (case mget parsed ''organic'' of
                         Some (JArr organic) \<Rightarrow>
                           Some [(''results'', results_json (serper_results limit organic)), (''source'', JStr ''serper'')]
                       | _ \<Rightarrow> None))
               else None
           | None \<Rightarrow> None))"

text \<open>The loop over the related topics with its counter; the bound shrinks as results are added.\<close>

fun related_topics :: "int \<Rightarrow> int \<Rightarrow> json list \<Rightarrow> json list \<Rightarrow> json list" where
  "related_topics limit i results [] = results"
| "related_topics limit i results (item # items) =
     (if limit - int (length results) \<le> i then results
      else related_topics limit (i + 1)
        (case as_obj (Some item) of
           Some m \<Rightarrow> (case mget_str (Some m) ''Text'' of
               Some txt \<Rightarrow> if txt \<noteq> [] then results @ [JObj [(''title'', JStr txt), (''link'', member m ''FirstURL''),
                                                     (''snippet'', JStr txt)]] else results
             | None \<Rightarrow> results)
         | None \<Rightarrow> results) items)"

definition duck_results :: "int \<Rightarrow> gomap option \<Rightarrow> json list" where
  "duck_results limit parsed =
     (let results = (case mget_str parsed ''AbstractText'' of
            Some txt \<Rightarrow> if txt \<noteq> [] then [JObj [(''title'', member (the_default [] parsed) ''Heading''),
                (''link'', member (the_default [] parsed) ''AbstractURL''), (''snippet'', JStr txt)]] else []
          | None \<Rightarrow> [])
      in case mget parsed ''RelatedTopics'' of
           Some (JArr related) \<Rightarrow> related_topics limit 0 results related
         | _ \<Rightarrow> results)"

definition try_real_web_search :: "tool_env \<Rightarrow> outside_call list \<Rightarrow> gomap option \<Rightarrow> gomap option res" where
  "try_real_web_search env calls inp =
     (let query = search_query inp; limit = search_limit inp
      in if query = [] then fail ''query required''
         else case serper_search env calls query limit of
                Some out \<Rightarrow> ok (Some out)
              | None \<Rightarrow>
                  (case te_duckduckgo env calls query of
                     Inl e \<Rightarrow> fail e
                   | Inr (status, body) \<Rightarrow>
                       if status \<noteq> 200 then fail (''duckduckgo '' @ int_str status)
                       else case unmarshal_map (te_go env) body of
                              Inl e \<Rightarrow> fail e
                            | Inr parsed \<Rightarrow>
                                (let results = duck_results limit parsed
                                 in if results = []
                                    then ok (Some [(''results'', JArr []), (''query'', JStr query),
                                      (''note'', JStr ''no results from duckduckgo, try serper'')])
                                    else ok (Some [(''results'', JArr results), (''source'', JStr ''duckduckgo'')]))))"

section \<open>Properties\<close>

lemma check_rate_limits_guardrail:
  "check_rate_limits org_id agent name d = ok () \<longleftrightarrow> check_tool_call org_id agent name d = ok ()"
  by (simp add: check_rate_limits_def check_tool_call_def)

lemma create_tool_execution_cases:
  assumes "create_tool_execution e d = ok (e', d')"
  shows "e' = e\<lparr>ex_id := next_id d, ex_created_at := now d, ex_updated_at := now d\<rparr>"
    and "d' = d\<lparr>executions := executions d @ [e'], next_id := next_id d + 1\<rparr>"
    and "ex_idempotency_key e \<notin> ex_idempotency_key ` set (executions d)"
    and "ex_status e \<in> set execution_status_check" and "ex_organization_id e \<in> set (orgs d)"
  using assms by (auto simp: create_tool_execution_def Let_def simp del: set_map split: if_split_asm)

text \<open>
  The table admits a key once: \<open>tool_claim\<close> is the insert of an execution with the key, as a claim.
\<close>

definition tool_claim :: "tool_execution \<Rightarrow> db \<Rightarrow> time \<Rightarrow> string \<Rightarrow> db \<times> bool" where
  "tool_claim e d t key =
     (case create_tool_execution (e\<lparr>ex_idempotency_key := key\<rparr>) (d\<lparr>now := t\<rparr>) of
        Inl _ \<Rightarrow> (d\<lparr>now := t\<rparr>, False) | Inr (_, d') \<Rightarrow> (d', True))"

interpretation tools_once: claim_once "tool_claim e" "\<lambda>d _ key. key \<in> ex_idempotency_key ` set (executions d)" for e
proof
  fix d t t' and key key' :: string
  let ?live = "\<lambda>d key. key \<in> ex_idempotency_key ` set (executions d)"
  show "\<not> ?live d key" if "snd (tool_claim e d t key)"
    using that create_tool_execution_cases(3) [of "e\<lparr>ex_idempotency_key := key\<rparr>" "d\<lparr>now := t\<rparr>"]
    by (auto simp: tool_claim_def split: sum.splits)
  show "?live (fst (tool_claim e d t key)) key" if "snd (tool_claim e d t key)"
    using that create_tool_execution_cases(1,2) [of "e\<lparr>ex_idempotency_key := key\<rparr>" "d\<lparr>now := t\<rparr>"]
    by (auto simp: tool_claim_def split: sum.splits)
  show "?live (fst (tool_claim e d t key)) key'" if "?live d key'"
    using that create_tool_execution_cases(2) [of "e\<lparr>ex_idempotency_key := key\<rparr>" "d\<lparr>now := t\<rparr>"]
    by (auto simp: tool_claim_def split: sum.splits)
qed

text \<open>
  What an input must satisfy for one required entry of the schema: the field is there and, where the
  schema describes it by an object, it has the type and is printed like a value of the enum.
\<close>

definition field_ok :: "golib \<Rightarrow> gomap option \<Rightarrow> gomap option \<Rightarrow> json \<Rightarrow> bool" where
  "field_ok g props inp req =
     (case mget inp (the_default [] (as_str (Some req))) of
        None \<Rightarrow> False
      | Some val \<Rightarrow>
          (case as_obj (mget props (the_default [] (as_str (Some req)))) of
             None \<Rightarrow> True
           | Some def \<Rightarrow>
               (\<forall>ty. as_str (map_of def ''type'') = Some ty \<longrightarrow> ty = [] \<or> check_type val ty)
               \<and> (\<forall>vs. map_of def ''enum'' = Some (JArr vs) \<longrightarrow> fmt_v g val \<in> fmt_v g ` set vs)))"

lemma check_property_iff:
  "check_property g key def val = ok () \<longleftrightarrow>
     (\<forall>ty. as_str (map_of def ''type'') = Some ty \<longrightarrow> ty = [] \<or> check_type val ty)
     \<and> (\<forall>vs. map_of def ''enum'' = Some (JArr vs) \<longrightarrow> fmt_v g val \<in> fmt_v g ` set vs)"
proof -
  have "(case map_of def ''enum'' of Some (JArr vs) \<Rightarrow>
          if \<exists>v \<in> set vs. fmt_v g v = fmt_v g val then ok () else fail (err vs) | _ \<Rightarrow> ok ()) = ok () \<longleftrightarrow>
        (\<forall>vs. map_of def ''enum'' = Some (JArr vs) \<longrightarrow> fmt_v g val \<in> fmt_v g ` set vs)" for err
    by (auto simp: image_iff split: option.splits json.splits) metis+
  then show ?thesis
    by (cases "as_str (map_of def ''type'')") (auto simp: check_property_def Let_def)
qed

lemma check_required_Cons:
  "check_required g props inp (req # reqs) = ok () \<longleftrightarrow> field_ok g props inp req \<and> check_required g props inp reqs = ok ()"
proof -
  let ?k = "the_default [] (as_str (Some req))"
  have *: "field_ok g props inp req \<longleftrightarrow> (case mget inp ?k of None \<Rightarrow> False | Some val \<Rightarrow>
      (case as_obj (mget props ?k) of None \<Rightarrow> True | Some def \<Rightarrow> check_property g ?k def val = ok ()))"
    by (simp only: field_ok_def check_property_iff)
  show ?thesis
  proof (cases "mget inp ?k")
    case None
    then show ?thesis unfolding * by simp
  next
    case (Some val)
    show ?thesis
    proof (cases "as_obj (mget props ?k)")
      case None
      with Some show ?thesis unfolding * by simp
    next
      case def: (Some def)
      with Some show ?thesis unfolding * by (cases "check_property g ?k def val") simp_all
    qed
  qed
qed

lemma check_required_iff: "check_required g props inp reqs = ok () \<longleftrightarrow> list_all (field_ok g props inp) reqs"
  by (induction reqs) (simp_all add: check_required_Cons del: check_required.simps(2))

definition schema_props :: "tool \<Rightarrow> gomap option" where
  "schema_props t = Option.bind (tl_input_schema t) (\<lambda>s. as_obj (map_of s ''properties''))"

definition tool_required :: "tool \<Rightarrow> json list" where
  "tool_required t = (case tl_input_schema t of None \<Rightarrow> [] | Some s \<Rightarrow> schema_required s)"

text \<open>
  \<^verbatim>\<open>ValidateInput\<close> accepts an input exactly when every required field is there with the type and
  the enum of the schema. So a field that is not required is not checked at all: two inputs that agree on
  the required fields are accepted together, whatever types their other fields have.
\<close>

theorem validate_input_iff:
  "(validate_input g t inp = ok () \<longleftrightarrow> list_all (field_ok g (schema_props t) inp) (tool_required t))
   \<and> (list_all (\<lambda>req. mget inp (the_default [] (as_str (Some req))) = mget inp' (the_default [] (as_str (Some req))))
        (tool_required t) \<longrightarrow>
      (validate_input g t inp = ok () \<longleftrightarrow> validate_input g t inp' = ok ()))"
proof -
  have 1: "validate_input g t i = ok () \<longleftrightarrow> list_all (field_ok g (schema_props t) i) (tool_required t)" for i
    by (cases "tl_input_schema t")
      (simp_all add: validate_input_def schema_props_def tool_required_def check_required_iff)
  show ?thesis unfolding 1 by (auto simp: list_all_iff field_ok_def)
qed

definition demo_tool :: tool where
  "demo_tool = \<lparr>tl_id = 8, tl_organization_id = None, tl_name = ''web_search'', tl_description = [],
     tl_input_schema = Some [(''required'', JArr [JStr ''query'']),
       (''properties'', JObj [(''query'', JObj [(''type'', JStr ''string'')]), (''limit'', JObj [(''type'', JStr ''integer'')])])],
     tl_output_schema = None, tl_risk_level = ''low'', tl_required_permissions = [],
     tl_approval_policy = None, tl_enabled = True, tl_created_at = 0, tl_updated_at = 0\<rparr>"

lemma validate_input_iff_witness:
  "validate_input demo_golib demo_tool (Some [(''query'', JStr ''x''), (''limit'', JStr ''many'')]) = ok ()"
proof -
  have "validate_input demo_golib demo_tool (Some [(''query'', JStr ''x'')]) = ok ()" by code_simp
  moreover have "tool_required demo_tool = [JStr ''query'']" by code_simp
  ultimately show ?thesis
    using validate_input_iff [of demo_golib demo_tool "Some [(''query'', JStr ''x''), (''limit'', JStr ''many'')]"
        "Some [(''query'', JStr ''x'')]"] by simp
qed

definition result_count :: "gomap option \<Rightarrow> nat" where
  "result_count out = (case mget out ''results'' of Some (JArr rs) \<Rightarrow> length rs | _ \<Rightarrow> 0)"

lemma search_limit_range: "0 \<le> search_limit inp \<and> search_limit inp < 10"
  unfolding search_limit_def by (auto simp: floor_less_iff split: option.split)

lemma related_topics_length:
  "int (length (related_topics limit i results items)) \<le> max (int (length results)) (limit - i)"
  if "0 \<le> i" for limit i
  using that
proof (induction limit i results items rule: related_topics.induct)
  case (2 limit i results item items)
  let ?r = "case as_obj (Some item) of Some m \<Rightarrow> (case mget_str (Some m) ''Text'' of
               Some txt \<Rightarrow> if txt \<noteq> [] then results @ [JObj [(''title'', JStr txt), (''link'', member m ''FirstURL''),
                                                     (''snippet'', JStr txt)]] else results
             | None \<Rightarrow> results) | None \<Rightarrow> results"
  have "length ?r \<le> Suc (length results)" by (auto split: option.split)
  with 2 show ?case by (cases "limit - int (length results) \<le> i") auto
qed simp

lemma serper_results_length: "0 \<le> limit \<Longrightarrow> int (length (serper_results limit organic)) \<le> limit"
proof -
  have "length (List.map_filter f xs) \<le> length xs" for f :: "json \<Rightarrow> json option" and xs
    by (induction xs) (auto simp: map_filter_simps split: option.split)
  then have "length (serper_results limit organic) \<le> length (take (nat limit) organic)"
    unfolding serper_results_def .
  also have "\<dots> \<le> nat limit" by simp
  finally show "0 \<le> limit \<Longrightarrow> int (length (serper_results limit organic)) \<le> limit" by linarith
qed

lemma duck_results_length: "0 \<le> limit \<Longrightarrow> int (length (duck_results limit parsed)) \<le> max 1 limit"
proof -
  assume "0 \<le> limit"
  have "int (length (related_topics limit 0 rs items)) \<le> max 1 limit" if "length rs \<le> 1" for rs items
    using related_topics_length [of 0 limit rs items] that by simp
  then show ?thesis unfolding duck_results_def Let_def by (auto split: option.split json.split)
qed

text \<open>
  A web search that returns gives at most nine results and, but for one result where the limit
  rounds down to zero, no more than the limit asked for; a search without a query text fails before
  anything is sent.
\<close>

theorem web_search_bounded:
  "case try_real_web_search env calls inp of
     Inl _ \<Rightarrow> True
   | Inr out \<Rightarrow> search_query inp \<noteq> [] \<and> out \<noteq> None
       \<and> int (result_count out) \<le> max 1 (search_limit inp) \<and> result_count out \<le> 9"
proof -
  have l: "0 \<le> search_limit inp" "search_limit inp < 10" using search_limit_range by auto
  have s: "int (result_count (Some out)) \<le> search_limit inp"
    if "serper_search env calls query (search_limit inp) = Some out" for query out
    using that serper_results_length [OF l(1)] l(1)
    by (auto simp: serper_search_def result_count_def results_json_def split: option.splits sum.splits json.splits if_splits)
  have d: "int (length (duck_results (search_limit inp) p)) \<le> max 1 (search_limit inp)" for p
    by (rule duck_results_length [OF l(1)])
  have "search_query inp \<noteq> [] \<and> out \<noteq> None \<and> int (result_count out) \<le> max 1 (search_limit inp)"
    if "try_real_web_search env calls inp = ok out" for out
  proof (cases "serper_search env calls (search_query inp) (search_limit inp)")
    case None
    with that d show ?thesis
      by (auto simp: try_real_web_search_def Let_def result_count_def split: if_splits sum.splits prod.splits)
  next
    case (Some o1)
    with that have "search_query inp \<noteq> []" and "out = Some o1"
      by (simp_all add: try_real_web_search_def Let_def split: if_splits)
    with s [OF Some] show ?thesis by simp
  qed
  with l(2) show ?thesis by (auto split: sum.split dest: le_less_trans)
qed

end
