(* ===== verification/Executor.thy ===== *)
theory Executor
  imports Tools Approvals
begin

text \<open>
  \<^verbatim>\<open>backend/internal/tool/executor.go\<close>: \<^verbatim>\<open>Execute\<close> with its guards and its three ways to go on (ask for an
  approval, drive the browser, call a provider), and the two functions that execute a tool after its
  approval. The source repeats the last steps of an execution in each of them; here they are
  \<open>tool_succeeded\<close> and \<open>tool_failed\<close>.
\<close>

section \<open>Model\<close>

record execute_params =
  xp_organization_id :: uuid
  xp_agent_id :: uuid
  xp_task_id :: "uuid option"
  xp_run_id :: "uuid option"
  xp_tool_name :: string
  xp_input :: "gomap option"
  xp_idempotency_key :: string

text \<open>An error and a value may be returned together.\<close>

type_synonym exec_result = "tool_execution option \<times> string option"

definition gomap_json :: "gomap option \<Rightarrow> json" where
  "gomap_json m = (case m of None \<Rightarrow> JNull | Some e \<Rightarrow> JObj e)"

definition audit :: "uuid \<Rightarrow> uuid \<Rightarrow> string \<Rightarrow> string \<Rightarrow> uuid \<Rightarrow> world \<Rightarrow> world" where
  "audit org_id agent action entity_type entity w =
     (if org_id \<in> set (orgs (w_db w)) \<and> agent \<in> ag_id ` set (agents (w_db w))
      then w\<lparr>w_audit := w_audit w @ [\<lparr>al_organization_id = org_id, al_actor_type = ''agent'', al_actor_agent_id = Some agent,
             al_action = action, al_entity_type = entity_type, al_entity_id = entity\<rparr>]\<rparr>
      else w)"

definition count_metric :: "(counters \<Rightarrow> counters) \<Rightarrow> world \<Rightarrow> world" where
  "count_metric f w = w\<lparr>w_db := (w_db w)\<lparr>metrics := f (metrics (w_db w))\<rparr>\<rparr>"

abbreviation inc_tool_executions :: "world \<Rightarrow> world" where
  "inc_tool_executions \<equiv> count_metric (\<lambda>m. m\<lparr>ToolExecutionsTotal := ToolExecutionsTotal m + 1\<rparr>)"

abbreviation inc_tool_failed :: "world \<Rightarrow> world" where
  "inc_tool_failed \<equiv> count_metric (\<lambda>m. m\<lparr>ToolExecutionsFailed := ToolExecutionsFailed m + 1\<rparr>)"

abbreviation inc_browser_tool_calls :: "world \<Rightarrow> world" where
  "inc_browser_tool_calls \<equiv> count_metric (\<lambda>m. m\<lparr>BrowserToolCalls := BrowserToolCalls m + 1\<rparr>)"

abbreviation inc_browser_tool_failures :: "world \<Rightarrow> world" where
  "inc_browser_tool_failures \<equiv> count_metric (\<lambda>m. m\<lparr>BrowserToolFailures := BrowserToolFailures m + 1\<rparr>)"

definition set_execution :: "uuid \<Rightarrow> string \<Rightarrow> gomap option \<Rightarrow> string option \<Rightarrow> world \<Rightarrow> world" where
  "set_execution i status out err = run_db (update_tool_execution_status i status out err)"

definition tool_succeeded :: "uuid \<Rightarrow> uuid \<Rightarrow> uuid \<Rightarrow> gomap option \<Rightarrow> world \<Rightarrow> world" where
  "tool_succeeded org_id agent i out w =
     audit org_id agent ''tool_succeeded'' ''tool_execution'' i (set_execution i ''succeeded'' out None w)"

definition tool_failed :: "uuid \<Rightarrow> uuid \<Rightarrow> uuid \<Rightarrow> string \<Rightarrow> world \<Rightarrow> world" where
  "tool_failed org_id agent i msg w =
     audit org_id agent ''tool_failed'' ''tool_execution'' i (set_execution i ''failed'' None (Some msg) w)"

definition load_tool :: "uuid \<Rightarrow> string \<Rightarrow> db \<Rightarrow> tool res" where
  "load_tool org_id name d =
     (case registry_get (Some org_id) name d of
        Inr t \<Rightarrow> ok t
      | Inl _ \<Rightarrow> (case registry_get None name d of
            Inr t \<Rightarrow> ok t
          | Inl _ \<Rightarrow> fail (''tool not found: '' @ name)))"

definition tool_allowed :: "uuid \<Rightarrow> uuid \<Rightarrow> string \<Rightarrow> uuid \<Rightarrow> db \<Rightarrow> bool" where
  "tool_allowed org_id agent name tool_id d \<longleftrightarrow>
     (\<exists>a \<in> set (list_agent_tools agent d).
        (case at_tool a of None \<Rightarrow> False | Some t \<Rightarrow> tl_name t = name \<and> at_enabled a) \<or> at_tool_id a = tool_id)
     \<or> (case get_agent org_id agent d of
          Inl _ \<Rightarrow> False
        | Inr a \<Rightarrow>
            (case ag_version a of
               None \<Rightarrow> False
             | Some v \<Rightarrow> \<exists>c \<in> set (ver_capabilities v). name \<in> set (capability_to_tools (cap_name c)))
            \<or> name \<in> set (ag_tools a))"

text \<open>The project of the task, when the agent does not belong to it.\<close>

definition foreign_project :: "uuid \<Rightarrow> uuid \<Rightarrow> uuid option \<Rightarrow> db \<Rightarrow> uuid option" where
  "foreign_project org_id agent tid d =
     (case tid of
        None \<Rightarrow> None
      | Some i \<Rightarrow>
          (case get_task org_id i d of
             Inl _ \<Rightarrow> None
           | Inr t \<Rightarrow>
               if t_project_id t \<noteq> nil_uuid
                  \<and> (t_project_id t, agent) \<notin> set (project_agents d)
                  \<and> \<not> (case t_team_id t of None \<Rightarrow> False
                       | Some tm \<Rightarrow> \<exists>m \<in> set (members d). tm_team_id m = tm \<and> tm_agent_id m = agent)
                  \<and> t_assigned_to_agent t \<noteq> Some agent
               then Some (t_project_id t) else None))"

text \<open>After the approval the assignment of the task and its team no longer count; the teams of the project do.\<close>

definition foreign_project_approved :: "uuid \<Rightarrow> uuid \<Rightarrow> uuid option \<Rightarrow> db \<Rightarrow> uuid option" where
  "foreign_project_approved org_id agent tid d =
     (case tid of
        None \<Rightarrow> None
      | Some i \<Rightarrow>
          (case get_task org_id i d of
             Inl _ \<Rightarrow> None
           | Inr t \<Rightarrow>
               if (t_project_id t, agent) \<notin> set (project_agents d)
                  \<and> \<not> (\<exists>m \<in> set (members d). tm_agent_id m = agent
                        \<and> (t_project_id t, tm_team_id m) \<in> set (project_teams d))
               then Some (t_project_id t) else None))"

definition idempotency_key :: "tool_env \<Rightarrow> execute_params \<Rightarrow> string" where
  "idempotency_key env p =
     (if xp_idempotency_key p = []
      then te_sha env (uuid_string (te_go env) (xp_organization_id p) @ '':'' @ uuid_string (te_go env) (xp_agent_id p)
             @ '':'' @ xp_tool_name p @ '':'' @ fmt_v (te_go env) (JObj (the_default [] (xp_input p))))
      else xp_idempotency_key p)"

definition short_id :: "golib \<Rightarrow> uuid \<Rightarrow> string" where
  "short_id g i = take 8 (uuid_string g i)"

text \<open>The guards in their order; a refusal by the two authorization guards is audited.\<close>

definition execute_guards :: "tool_env \<Rightarrow> execute_params \<Rightarrow> world \<Rightarrow> world \<times> tool res" where
  "execute_guards env p w =
     (let d = w_db w; org_id = xp_organization_id p; agent = xp_agent_id p; name = xp_tool_name p
      in case load_tool org_id name d of
           Inl e \<Rightarrow> (w, fail e)
         | Inr t \<Rightarrow>
             if \<not> tl_enabled t then (w, fail (''tool disabled: '' @ name))
             else case validate_input (te_go env) t (xp_input p) of
                    Inl e \<Rightarrow> (w, fail (''schema validation failed: '' @ e))
                  | Inr _ \<Rightarrow>
                      if \<not> tool_allowed org_id agent name (tl_id t) d
                      then (audit org_id agent ''tool_denied'' ''tool'' (tl_id t) w,
                            fail (''agent not authorized for tool '' @ name))
                      else case foreign_project org_id agent (xp_task_id p) d of
                             Some pr \<Rightarrow> (audit org_id agent ''tool_denied_project'' ''tool'' (tl_id t) w,
                                fail (''agent not assigned to project '' @ short_id (te_go env) pr @ '' for tool '' @ name))
                           | None \<Rightarrow>
                               (case check_rate_limits org_id agent (tl_name t) d of
                                  Inl e \<Rightarrow> (w, fail (''rate limited: '' @ e))
                                | Inr _ \<Rightarrow> (w, ok t)))"

definition new_execution :: "execute_params \<Rightarrow> string \<Rightarrow> tool \<Rightarrow> string \<Rightarrow> uuid option \<Rightarrow> tool_execution" where
  "new_execution p key t status approval =
     \<lparr>ex_id = nil_uuid, ex_organization_id = xp_organization_id p, ex_agent_id = xp_agent_id p,
      ex_task_id = xp_task_id p, ex_run_id = xp_run_id p, ex_tool_id = tl_id t, ex_tool_name = tl_name t,
      ex_input = xp_input p, ex_output = None, ex_status = status, ex_approval_id = approval,
      ex_idempotency_key = key, ex_error = None, ex_created_at = 0, ex_updated_at = 0\<rparr>"

definition on_db_res :: "(db \<Rightarrow> ('a \<times> db) res) \<Rightarrow> world \<Rightarrow> world \<times> 'a res" where
  "on_db_res f w = (case f (w_db w) of Inl e \<Rightarrow> (w, fail e) | Inr (x, d) \<Rightarrow> (w\<lparr>w_db := d\<rparr>, ok x))"

section \<open>Asking for an approval\<close>

definition approval_context :: "tool_env \<Rightarrow> execute_params \<Rightarrow> string \<Rightarrow> tool \<Rightarrow> gomap" where
  "approval_context env p key t =
     (let u = uuid_string (te_go env)
      in [(''tool'', JStr (tl_name t)), (''risk'', JStr (tl_risk_level t)), (''idempotency_key'', JStr key)]
         @ (case xp_run_id p of None \<Rightarrow> [] | Some r \<Rightarrow> [(''run_id'', JStr (u r))])
         @ (case xp_task_id p of None \<Rightarrow> [] | Some i \<Rightarrow> [(''task_id'', JStr (u i))])
         @ (case (xp_run_id p, xp_task_id p) of
              (Some r, Some i) \<Rightarrow> [(''resume_state'',
                JObj [(''run_id'', JStr (u r)), (''task_id'', JStr (u i)), (''tool'', JStr (tl_name t))])]
            | _ \<Rightarrow> []))"

text \<open>\<^verbatim>\<open>UPDATE approvals SET entity_id, context\<close>.\<close>

definition link_approval :: "uuid \<Rightarrow> uuid \<Rightarrow> gomap \<Rightarrow> db \<Rightarrow> db \<times> unit" where
  "link_approval i entity ctx d =
     (d\<lparr>approvals := update_where (\<lambda>a. ap_id a = i)
          (\<lambda>a. a\<lparr>ap_entity_id := entity, ap_context := Some ctx, ap_updated_at := now d\<rparr>) (approvals d)\<rparr>, ())"

definition request_approval :: "tool_env \<Rightarrow> execute_params \<Rightarrow> string \<Rightarrow> tool \<Rightarrow> world \<Rightarrow> world \<times> exec_result" where
  "request_approval env p key t w =
     (let g = te_go env; org_id = xp_organization_id p; agent = xp_agent_id p;
          (w, entity) = new_uuid w
      in case on_db (create_approval org_id ''agent'' (Some agent) None ''tool_execution'' entity
             (''Agent '' @ short_id g agent @ '' wants to '' @ tl_name t)
             (''Tool '' @ tl_name t @ '' with input '' @ fmt_v g (JObj (redacted_input (xp_input p))))
             (xp_input p) (tl_risk_level t) (tl_name t) (xp_tool_name p)
             (Some (approval_context env p key t)) (24 * 60 * 60)) w of
           (w, Inl e) \<Rightarrow> (w, None, Some e)
         | (w, Inr a) \<Rightarrow>
             (case on_db_res (create_tool_execution (new_execution p key t ''approval_required'' (Some (ap_id a)))) w of
                (w, Inl e) \<Rightarrow> (w, None, Some e)
              | (w, Inr created) \<Rightarrow>
                  (let w = run_db (link_approval (ap_id a) (ex_id created)
                             [(''tool'', JStr (tl_name t)), (''run_id'', JStr (safe_uuid g (xp_run_id p))),
                              (''execution_id'', JStr (uuid_string g (ex_id created))),
                              (''task_id'', JStr (safe_uuid g (xp_task_id p)))]) w;
                       w = audit org_id agent ''tool_approval_requested'' ''tool_execution'' (ex_id created) w
                   in (w, Some created, Some (''approval_required: '' @ uuid_string g (ap_id a))))))"

section \<open>Browser tools\<close>

definition profile_id :: "golib \<Rightarrow> gomap option \<Rightarrow> uuid option" where
  "profile_id g inp =
     (let get = (\<lambda>k. case mget_str inp k of None \<Rightarrow> None | Some s \<Rightarrow> if s = [] then None else uuid_parse g s)
      in case get ''profileId'' of Some u \<Rightarrow> Some u | None \<Rightarrow> get ''profile_id'')"

text \<open>\<^verbatim>\<open>Manager.EnforceAgentAccess\<close>: what it finds out about the tools of the agent is not used.\<close>

definition enforce_agent_access :: "browser \<Rightarrow> uuid \<Rightarrow> uuid \<Rightarrow> uuid \<Rightarrow> db \<Rightarrow> unit res" where
  "enforce_agent_access br org_id agent profile d =
     (case br_profile_org br profile of
        None \<Rightarrow> fail ''profile not found''
      | Some o' \<Rightarrow>
          if o' \<noteq> org_id then fail ''profile belongs to different organization''
          else case get_agent org_id agent d of
                 Inl _ \<Rightarrow> fail ''agent not in organization''
               | Inr _ \<Rightarrow> ok ())"

definition record_audit :: "browser \<Rightarrow> browser_audit_log \<Rightarrow> world \<Rightarrow> world" where
  "record_audit br l w =
     (let d = w_db w
      in if ba_organization_id l \<in> set (orgs d) \<and> opt_ref (ba_agent_id l) (map ag_id (agents d))
            \<and> opt_ref (ba_task_id l) (map t_id (tasks d)) \<and> opt_ref (ba_run_id l) (map run_id (runs d))
            \<and> (case ba_browser_profile_id l of None \<Rightarrow> True | Some i \<Rightarrow> br_profile_org br i \<noteq> None)
         then w\<lparr>w_browser_audit := w_browser_audit w @ [l]\<rparr> else w)"

definition browser_log :: "tool_env \<Rightarrow> browser \<Rightarrow> tool_execution \<Rightarrow> gomap option \<Rightarrow> uuid option \<Rightarrow> string \<Rightarrow> bool
    \<Rightarrow> gomap option \<Rightarrow> browser_audit_log" where
  "browser_log env br e inp profile name failed meta =
     (let g = te_go env; domain_str = (case mget_str inp ''url'' of Some u \<Rightarrow> br_domain_of br u | None \<Rightarrow> [])
      in \<lparr>ba_organization_id = ex_organization_id e, ba_agent_id = Some (ex_agent_id e), ba_task_id = ex_task_id e,
          ba_run_id = ex_run_id e, ba_browser_profile_id = profile, ba_tool_name = name,
          ba_action = drop (length ''browser.'') name, ba_target = str_ptr_if g (mget inp ''url''),
          ba_domain = str_ptr_if g (Some (JStr domain_str)),
          ba_result_status = Some (if failed then ''failed'' else ''success''), ba_metadata = meta\<rparr>)"

text \<open>The browser performs the action: the call is made and answered.\<close>

definition drive_browser :: "browser \<Rightarrow> uuid \<Rightarrow> uuid \<Rightarrow> uuid option \<Rightarrow> string \<Rightarrow> gomap option \<Rightarrow> world
    \<Rightarrow> world \<times> gomap option res" where
  "drive_browser br org_id agent profile name inp w =
     (w\<lparr>w_calls := w_calls w @ [BrowserCall profile name inp]\<rparr>,
      br_execute br (w_calls w) org_id agent profile name inp)"

definition output_success :: "gomap option \<Rightarrow> bool option" where
  "output_success out = as_bool (mget out ''success'')"

definition count_pages :: "string \<Rightarrow> gomap option \<Rightarrow> world \<Rightarrow> world" where
  "count_pages name out w =
     (if out = None then w
      else if output_success out = Some False then inc_browser_tool_failures w
      else (let w = count_metric (\<lambda>m. m\<lparr>BrowserPagesVisited := BrowserPagesVisited m + 1\<rparr>) w
            in if name = ''browser.download''
               then count_metric (\<lambda>m. m\<lparr>BrowserDownloads := BrowserDownloads m + 1\<rparr>) w else w))"

definition browser_unavailable :: string where
  "browser_unavailable = ''browser capability unavailable: manager not configured (set PLAYWRIGHT_ENABLED or use mock)''"

definition execute_browser :: "tool_env \<Rightarrow> execute_params \<Rightarrow> string \<Rightarrow> tool \<Rightarrow> world \<Rightarrow> world \<times> exec_result" where
  "execute_browser env p key t w =
     (case te_browser env of
        None \<Rightarrow> (w, None, Some browser_unavailable)
      | Some br \<Rightarrow>
          (let g = te_go env; org_id = xp_organization_id p; agent = xp_agent_id p; inp = xp_input p;
               w = inc_browser_tool_calls (inc_tool_executions w)
           in case on_db_res (create_tool_execution (new_execution p key t ''running'' None)) w of
                (w, Inl e) \<Rightarrow>
                  (case get_tool_execution_by_idempotency org_id key (w_db w) of
                     Inr existing \<Rightarrow> (w, Some existing, None) | Inl _ \<Rightarrow> (w, None, Some e))
              | (w, Inr created) \<Rightarrow>
                  (let w = audit org_id agent ''tool_started'' ''tool_execution'' (ex_id created) w;
                       profile = profile_id g inp
                   in case (case profile of None \<Rightarrow> ok () | Some i \<Rightarrow> enforce_agent_access br org_id agent i (w_db w)) of
                        Inl msg \<Rightarrow>
                          (set_execution (ex_id created) ''failed'' None (Some msg) (inc_browser_tool_failures w),
                           Some created, Some msg)
                      | Inr _ \<Rightarrow>
                          (let (w, out) = drive_browser br org_id agent profile (tl_name t) inp w;
                               val = (case out of Inl _ \<Rightarrow> None | Inr x \<Rightarrow> x);
                               w = record_audit br (browser_log env br created inp profile (tl_name t) (isl out)
                                     (Some [(''input'', JObj (redacted_input inp)),
                                            (''output_success'', JBool (output_success val = Some True))])) w
                           in case out of
                                Inl msg \<Rightarrow>
                                  (tool_failed org_id agent (ex_id created) msg (inc_browser_tool_failures w),
                                   Some (created\<lparr>ex_status := ''failed'', ex_error := Some msg\<rparr>), Some msg)
                              | Inr out \<Rightarrow>
                                  (tool_succeeded org_id agent (ex_id created) out (count_pages (tl_name t) out w),
                                   Some (created\<lparr>ex_status := ''succeeded'', ex_output := out\<rparr>), None)))))"

section \<open>Providers\<close>

definition registered :: "tool_env \<Rightarrow> string \<Rightarrow> provider option" where
  "registered env name = (case te_integrations env of None \<Rightarrow> None | Some reg \<Rightarrow> reg name)"

text \<open>
  The credentials of the organization for the provider; \<^verbatim>\<open>ExecuteAfterApproval\<close> also looks for them when
  the provider is not registered.
\<close>

definition resolve_credentials :: "tool_env \<Rightarrow> bool \<Rightarrow> uuid \<Rightarrow> string \<Rightarrow> gomap option" where
  "resolve_credentials env must_be_registered org_id name =
     (let pv = map_tool_to_provider name
      in if pv \<noteq> [] \<and> te_integrations env \<noteq> None \<and> (must_be_registered \<longrightarrow> registered env pv \<noteq> None)
         then te_credentials env org_id pv else None)"

text \<open>The attempt at a real search, which is made for one tool only.\<close>

definition search_first :: "tool_env \<Rightarrow> string \<Rightarrow> gomap option \<Rightarrow> world \<Rightarrow> world \<times> gomap option" where
  "search_first env name inp w =
     (if name \<noteq> ''web_search'' then (w, None)
      else (let r = try_real_web_search env (w_calls w) inp;
                w = (if search_query inp = [] then w
                     else w\<lparr>w_calls := w_calls w @ [SearchCall (search_query inp) (search_limit inp)]\<rparr>)
            in (w, case r of Inl _ \<Rightarrow> None | Inr out \<Rightarrow> out)))"

definition call_provider :: "tool_env \<Rightarrow> string \<Rightarrow> gomap option \<Rightarrow> gomap option \<Rightarrow> world \<Rightarrow> world \<times> gomap option res" where
  "call_provider env name inp creds w =
     (let pv = map_tool_to_provider name
      in case registered env pv of
           Some prov \<Rightarrow> (w\<lparr>w_calls := w_calls w @ [ProviderCall pv name inp creds]\<rparr>, prov (w_calls w) name inp creds)
         | None \<Rightarrow>
             (w\<lparr>w_calls := w_calls w @ [ProviderCall (if pv = [] then name else pv) name inp creds]\<rparr>,
              ok (Some (mock_execute name inp))))"

definition execute_provider :: "tool_env \<Rightarrow> execute_params \<Rightarrow> string \<Rightarrow> tool \<Rightarrow> world \<Rightarrow> world \<times> exec_result" where
  "execute_provider env p key t w =
     (let org_id = xp_organization_id p; agent = xp_agent_id p; inp = xp_input p; w = inc_tool_executions w
      in case on_db_res (create_tool_execution (new_execution p key t ''running'' None)) w of
           (w, Inl e) \<Rightarrow>
             (case get_tool_execution_by_idempotency org_id key (w_db w) of
                Inr existing \<Rightarrow> (w, Some existing, None) | Inl _ \<Rightarrow> (w, None, Some e))
         | (w, Inr created) \<Rightarrow>
             (let w = audit org_id agent ''tool_started'' ''tool_execution'' (ex_id created) w;
                  creds = resolve_credentials env True org_id (tl_name t)
              in case search_first env (tl_name t) inp w of
                   (w, Some out) \<Rightarrow>
                     (inc_tool_executions (tool_succeeded org_id agent (ex_id created) (Some out) w),
                      Some (created\<lparr>ex_status := ''succeeded'', ex_output := Some out\<rparr>), None)
                 | (w, None) \<Rightarrow>
                     (case call_provider env (tl_name t) inp creds w of
                        (w, Inl msg) \<Rightarrow>
                          (tool_failed org_id agent (ex_id created) msg (inc_tool_failed w),
                           Some (created\<lparr>ex_status := ''failed'', ex_error := Some msg\<rparr>), Some msg)
                      | (w, Inr out) \<Rightarrow>
                          (tool_succeeded org_id agent (ex_id created) out w,
                           Some (created\<lparr>ex_status := ''succeeded'', ex_output := out\<rparr>), None))))"

definition execute :: "tool_env \<Rightarrow> execute_params \<Rightarrow> world \<Rightarrow> world \<times> exec_result" where
  "execute env p w =
     (let key = idempotency_key env p
      in case get_tool_execution_by_idempotency (xp_organization_id p) key (w_db w) of
           Inr existing \<Rightarrow> (w, Some existing, None)
         | Inl _ \<Rightarrow>
             (case execute_guards env p w of
                (w, Inl e) \<Rightarrow> (w, None, Some e)
              | (w, Inr t) \<Rightarrow>
                  if requires_approval t then request_approval env p key t w
                  else if has_prefix (tl_name t) ''browser.'' then execute_browser env p key t w
                  else execute_provider env p key t w))"

section \<open>Execution after an approval\<close>

definition blank_execution :: "uuid \<Rightarrow> gomap option \<Rightarrow> tool_execution" where
  "blank_execution i out =
     \<lparr>ex_id = i, ex_organization_id = nil_uuid, ex_agent_id = nil_uuid, ex_task_id = None, ex_run_id = None,
      ex_tool_id = nil_uuid, ex_tool_name = [], ex_input = None, ex_output = out, ex_status = ''succeeded'',
      ex_approval_id = None, ex_idempotency_key = [], ex_error = None, ex_created_at = 0, ex_updated_at = 0\<rparr>"

definition refuse_execution :: "uuid \<Rightarrow> string \<Rightarrow> world \<Rightarrow> world \<times> exec_result" where
  "refuse_execution i msg w = (set_execution i ''failed'' None (Some msg) w, None, Some msg)"

text \<open>The guards of \<^verbatim>\<open>ExecuteApproved\<close>: neither the status of the approval nor the rate limits are among them.\<close>

definition approved_guards :: "tool_env \<Rightarrow> tool_execution \<Rightarrow> gomap option \<Rightarrow> world \<Rightarrow> world \<times> tool res" where
  "approved_guards env e inp w =
     (let d = w_db w; g = te_go env; org_id = ex_organization_id e; agent = ex_agent_id e; name = ex_tool_name e
      in case load_tool org_id name d of
           Inl msg \<Rightarrow> (w, fail msg)
         | Inr t \<Rightarrow>
             if \<not> tl_enabled t then (w, fail (''tool disabled: '' @ name))
             else case validate_input g t inp of
                    Inl msg \<Rightarrow> (w, fail (''schema validation failed: '' @ msg))
                  | Inr _ \<Rightarrow>
                      if \<not> tool_allowed org_id agent name (ex_tool_id e) d
                      then (let msg = ''agent not authorized for tool '' @ name @ '' (re-check after approval)''
                            in (set_execution (ex_id e) ''failed'' None (Some msg) w, fail msg))
                      else case foreign_project_approved org_id agent (ex_task_id e) d of
                             Some pr \<Rightarrow>
                               (let msg = ''agent '' @ short_id g agent @ '' not assigned to project '' @ short_id g pr
                                in (set_execution (ex_id e) ''failed'' None (Some msg) w, fail msg))
                           | None \<Rightarrow> (w, ok t))"

text \<open>The row is read again to return it.\<close>

definition reread :: "uuid \<Rightarrow> string \<Rightarrow> uuid \<Rightarrow> gomap option \<Rightarrow> world \<Rightarrow> world \<times> exec_result" where
  "reread org_id key i out w =
     (case get_tool_execution_by_idempotency org_id key (w_db w) of
        Inr updated \<Rightarrow> (w, Some updated, None)
      | Inl _ \<Rightarrow> (w, Some (blank_execution i out), None))"

definition execute_approved :: "tool_env \<Rightarrow> uuid \<Rightarrow> world \<Rightarrow> world \<times> exec_result" where
  "execute_approved env i w =
     (case get_tool_execution i (w_db w) of
        Inl e \<Rightarrow> (w, None, Some (''load execution: '' @ e))
      | Inr e \<Rightarrow>
          (let org_id = ex_organization_id e; agent = ex_agent_id e; key = ex_idempotency_key e;
               inp = Some (the_default [] (ex_input e))
           in case approved_guards env e inp w of
                (w, Inl msg) \<Rightarrow> (w, None, Some msg)
              | (w, Inr t) \<Rightarrow>
                  (case (case get_tool_execution i (w_db w) of
                           Inl _ \<Rightarrow> None
                         | Inr current \<Rightarrow>
                             if ex_status current = ''succeeded''
                             then (case get_tool_execution_by_idempotency org_id key (w_db w) of
                                     Inl _ \<Rightarrow> None | Inr existing \<Rightarrow> Some existing)
                             else None) of
                     Some existing \<Rightarrow> (w, Some existing, None)
                   | None \<Rightarrow>
                       (let w = inc_tool_executions (set_execution i ''running'' None None w);
                            creds = resolve_credentials env True org_id (tl_name t)
                        in case search_first env (tl_name t) inp w of
                             (w, Some out) \<Rightarrow>
                               reread org_id key i (Some out) (tool_succeeded org_id agent i (Some out) w)
                           | (w, None) \<Rightarrow>
                               (case call_provider env (tl_name t) inp creds w of
                                  (w, Inl msg) \<Rightarrow> (tool_failed org_id agent i msg (inc_tool_failed w), None, Some msg)
                                | (w, Inr out) \<Rightarrow> reread org_id key i out (tool_succeeded org_id agent i out w))))))"

definition after_approval_browser :: "tool_env \<Rightarrow> tool_execution \<Rightarrow> tool \<Rightarrow> world \<Rightarrow> world \<times> exec_result" where
  "after_approval_browser env e t w =
     (let i = ex_id e; org_id = ex_organization_id e; agent = ex_agent_id e; inp = ex_input e
      in case te_browser env of
           None \<Rightarrow> refuse_execution i ''browser capability unavailable: manager not configured'' w
         | Some br \<Rightarrow>
             (let profile = profile_id (te_go env) inp;
                  w = inc_browser_tool_calls w;
                  (w, out) = drive_browser br org_id agent profile (tl_name t) inp w;
                  w = record_audit br (browser_log env br e inp profile (tl_name t) (isl out) None) w
              in case out of
                   Inl msg \<Rightarrow> (tool_failed org_id agent i msg (inc_browser_tool_failures w), None, Some msg)
                 | Inr out \<Rightarrow>
                     (let w = tool_succeeded org_id agent i out w
                      in case get_tool_execution i (w_db w) of
                           Inr updated \<Rightarrow> (w, Some updated, None)
                         | Inl _ \<Rightarrow> (w, Some (e\<lparr>ex_output := out, ex_status := ''succeeded''\<rparr>), None))))"

definition after_approval_provider :: "tool_env \<Rightarrow> tool_execution \<Rightarrow> tool \<Rightarrow> world \<Rightarrow> world \<times> exec_result" where
  "after_approval_provider env e t w =
     (let i = ex_id e; org_id = ex_organization_id e; agent = ex_agent_id e; inp = ex_input e;
          creds = resolve_credentials env False org_id (tl_name t)
      in case search_first env (tl_name t) inp w of
           (w, Some out) \<Rightarrow>
             (tool_succeeded org_id agent i (Some out) w,
              Some (e\<lparr>ex_status := ''succeeded'', ex_output := Some out\<rparr>), None)
         | (w, None) \<Rightarrow>
             (case call_provider env (tl_name t) inp creds w of
                (w, Inl msg) \<Rightarrow> (tool_failed org_id agent i msg w, None, Some msg)
              | (w, Inr out) \<Rightarrow>
                  (let w = tool_succeeded org_id agent i out w
                   in case get_tool_execution i (w_db w) of
                        Inr updated \<Rightarrow> (w, Some updated, None)
                      | Inl _ \<Rightarrow> (w, Some (e\<lparr>ex_output := out, ex_status := ''succeeded''\<rparr>), None))))"

definition execute_after_approval :: "tool_env \<Rightarrow> uuid \<Rightarrow> world \<Rightarrow> world \<times> exec_result" where
  "execute_after_approval env i w =
     (case get_tool_execution i (w_db w) of
        Inl e \<Rightarrow> (w, None, Some e)
      | Inr e \<Rightarrow>
          if ex_status e \<noteq> ''approval_required'' then (w, Some e, None)
          else case load_tool (ex_organization_id e) (ex_tool_name e) (w_db w) of
                 Inl msg \<Rightarrow> (w, None, Some msg)
               | Inr t \<Rightarrow>
                   (case validate_input (te_go env) t (ex_input e) of
                      Inl msg \<Rightarrow> (w, None, Some (''schema validation failed: '' @ msg))
                    | Inr _ \<Rightarrow>
                        (case check_rate_limits (ex_organization_id e) (ex_agent_id e) (ex_tool_name e) (w_db w) of
                           Inl msg \<Rightarrow> (w, None, Some msg)
                         | Inr _ \<Rightarrow>
                             (let w = set_execution (ex_id e) ''running'' None None w
                              in if has_prefix (tl_name t) ''browser.'' then after_approval_browser env e t w
                                 else after_approval_provider env e t w))))"

section \<open>What the steps leave alone\<close>

lemma audit_frame [simp]:
  "w_db (audit a b c e i w) = w_db w" "w_pool (audit a b c e i w) = w_pool w"
  "w_out (audit a b c e i w) = w_out w" "w_calls (audit a b c e i w) = w_calls w"
  by (simp_all add: audit_def)

lemma count_metric_frame [simp]:
  "w_pool (count_metric f w) = w_pool w" "w_out (count_metric f w) = w_out w"
  "w_calls (count_metric f w) = w_calls w" "w_db (count_metric f w) = (w_db w)\<lparr>metrics := f (metrics (w_db w))\<rparr>"
  by (simp_all add: count_metric_def)

definition mark :: "uuid \<Rightarrow> string \<Rightarrow> gomap option \<Rightarrow> string option \<Rightarrow> time \<Rightarrow> tool_execution list \<Rightarrow> tool_execution list" where
  "mark i status out err t = update_where (\<lambda>e. ex_id e = i)
     (\<lambda>e. e\<lparr>ex_status := status, ex_output := out, ex_error := err, ex_updated_at := t\<rparr>)"

lemma set_execution_db:
  "status \<in> set execution_status_check \<Longrightarrow>
    w_db (set_execution i status out err w) =
      (w_db w)\<lparr>executions := mark i status out err (now (w_db w)) (executions (w_db w))\<rparr>"
  by (simp add: set_execution_def update_tool_execution_status_def mark_def)

lemma set_execution_frame [simp]:
  "w_pool (set_execution i status out err w) = w_pool w" "w_out (set_execution i status out err w) = w_out w"
  "w_calls (set_execution i status out err w) = w_calls w"
  by (simp_all add: set_execution_def run_db_def)

lemma execution_statuses [simp]:
  "''running'' \<in> set execution_status_check" "''succeeded'' \<in> set execution_status_check"
  "''failed'' \<in> set execution_status_check" "''approval_required'' \<in> set execution_status_check"
  by (simp_all add: execution_status_check_def)

lemma tool_end_frame [simp]:
  "w_calls (tool_succeeded a b i out w) = w_calls w" "w_calls (tool_failed a b i msg w) = w_calls w"
  "w_db (tool_succeeded a b i out w) =
     (w_db w)\<lparr>executions := mark i ''succeeded'' out None (now (w_db w)) (executions (w_db w))\<rparr>"
  "w_db (tool_failed a b i msg w) =
     (w_db w)\<lparr>executions := mark i ''failed'' None (Some msg) (now (w_db w)) (executions (w_db w))\<rparr>"
  by (simp_all add: tool_succeeded_def tool_failed_def set_execution_db)

lemma record_audit_frame [simp]:
  "w_db (record_audit br l w) = w_db w" "w_calls (record_audit br l w) = w_calls w"
  by (simp_all add: record_audit_def Let_def)

lemma count_pages_frame [simp]:
  "w_calls (count_pages name out w) = w_calls w" "executions (w_db (count_pages name out w)) = executions (w_db w)"
  "now (w_db (count_pages name out w)) = now (w_db w)"
  by (simp_all add: count_pages_def Let_def)

lemma search_first_frame [simp]: "w_db (fst (search_first env name inp w)) = w_db w"
  by (simp add: search_first_def Let_def)

lemma call_provider_frame [simp]:
  "w_db (fst (call_provider env name inp creds w)) = w_db w"
  "w_calls (fst (call_provider env name inp creds w)) \<noteq> w_calls w"
  by (simp_all add: call_provider_def Let_def split: option.split)

lemma drive_browser_frame [simp]: "w_db (fst (drive_browser br a b p name inp w)) = w_db w"
  by (simp add: drive_browser_def)

text \<open>A key, an organization and a row are found again after the row is marked.\<close>

lemma find_mark:
  "(\<And>e. P (e\<lparr>ex_status := st, ex_output := out, ex_error := err, ex_updated_at := t\<rparr>) = P e) \<Longrightarrow>
    find P (mark i st out err t es) = map_option (\<lambda>e. if ex_id e = i
      then e\<lparr>ex_status := st, ex_output := out, ex_error := err, ex_updated_at := t\<rparr> else e) (find P es)"
  by (induction es) (auto simp: mark_def update_where_def)

section \<open>The guards\<close>

lemma execute_guards_frame:
  "w_db (fst (execute_guards env p w)) = w_db w" "w_calls (fst (execute_guards env p w)) = w_calls w"
  unfolding execute_guards_def Let_def by (auto split: sum.split option.split)

definition guards_pass :: "tool_env \<Rightarrow> execute_params \<Rightarrow> tool \<Rightarrow> db \<Rightarrow> bool" where
  "guards_pass env p t d \<longleftrightarrow>
     load_tool (xp_organization_id p) (xp_tool_name p) d = ok t \<and> tl_enabled t
     \<and> validate_input (te_go env) t (xp_input p) = ok ()
     \<and> tool_allowed (xp_organization_id p) (xp_agent_id p) (xp_tool_name p) (tl_id t) d
     \<and> foreign_project (xp_organization_id p) (xp_agent_id p) (xp_task_id p) d = None
     \<and> check_rate_limits (xp_organization_id p) (xp_agent_id p) (tl_name t) d = ok ()"

lemma execute_guards_ok:
  "execute_guards env p w = (w', ok t) \<longleftrightarrow> w' = w \<and> guards_pass env p t (w_db w)"
  unfolding execute_guards_def Let_def guards_pass_def
  by (auto split: sum.splits option.splits if_splits simp: unit_eq)

lemma execute_cases:
  obtains (existing) e where "get_tool_execution_by_idempotency (xp_organization_id p) (idempotency_key env p) (w_db w) = ok e"
      "execute env p w = (w, Some e, None)"
  | (refused) w' msg where "execute env p w = (w', None, Some msg)" "w_db w' = w_db w" "w_calls w' = w_calls w"
  | (admitted) msg t where "get_tool_execution_by_idempotency (xp_organization_id p) (idempotency_key env p) (w_db w) = fail msg"
      "guards_pass env p t (w_db w)"
      "execute env p w = (if requires_approval t then request_approval env p (idempotency_key env p) t w
        else if has_prefix (tl_name t) ''browser.'' then execute_browser env p (idempotency_key env p) t w
        else execute_provider env p (idempotency_key env p) t w)"
proof (cases "get_tool_execution_by_idempotency (xp_organization_id p) (idempotency_key env p) (w_db w)")
  case (Inr e)
  then show ?thesis using existing by (simp add: execute_def Let_def)
next
  case (Inl msg)
  obtain w' r where g: "execute_guards env p w = (w', r)" by (cases "execute_guards env p w")
  have f: "w_db w' = w_db w" "w_calls w' = w_calls w" using execute_guards_frame [of env p w] g by simp_all
  show ?thesis
  proof (cases r)
    case (Inl e)
    with \<open>get_tool_execution_by_idempotency _ _ _ = fail msg\<close> g f show ?thesis
      using refused by (simp add: execute_def Let_def)
  next
    case (Inr t)
    with g have "w' = w" "guards_pass env p t (w_db w)" using execute_guards_ok by auto
    with \<open>get_tool_execution_by_idempotency _ _ _ = fail msg\<close> g Inr show ?thesis
      using admitted by (simp add: execute_def Let_def)
  qed
qed

section \<open>What an execution leaves behind\<close>

definition stored :: "uuid \<Rightarrow> string \<Rightarrow> uuid \<Rightarrow> tool_execution list \<Rightarrow> bool" where
  "stored org_id key i es \<longleftrightarrow>
     map_option ex_id (find (\<lambda>e. ex_organization_id e = org_id \<and> ex_idempotency_key e = key) es) = Some i"

lemma stored_iff:
  "stored org_id key i (executions d) \<longleftrightarrow>
    (\<exists>e. get_tool_execution_by_idempotency org_id key d = ok e \<and> ex_id e = i)"
  by (auto simp: stored_def get_tool_execution_by_idempotency_def query_row_cases)

lemma stored_mark [simp]: "stored org_id key i (mark j st out err t es) = stored org_id key i es"
  unfolding stored_def by (subst find_mark) (simp_all add: option.map_comp comp_def if_distrib cong: if_cong)

lemma get_by_key_fail_iff:
  "get_tool_execution_by_idempotency org_id key d = fail msg \<longleftrightarrow> msg = no_rows \<and>
    (\<forall>e \<in> set (executions d). \<not> (ex_organization_id e = org_id \<and> ex_idempotency_key e = key))"
  by (simp add: get_tool_execution_by_idempotency_def query_row_cases)

lemma stored_new:
  assumes "get_tool_execution_by_idempotency org_id key d = fail msg"
    and "ex_organization_id e = org_id" "ex_idempotency_key e = key"
  shows "stored org_id key (ex_id e) (executions d @ [e])"
  using assms by (auto simp: stored_def find_append get_by_key_fail_iff dest: find_in split: option.split)

lemma stored_key: "stored org_id key i es \<Longrightarrow> key \<in> ex_idempotency_key ` set es"
  by (force simp: stored_def dest: find_in)

text \<open>The insert of a step, and its two outcomes.\<close>

lemma on_db_res_cases:
  obtains (fails) e where "on_db_res f w = (w, fail e)" "f (w_db w) = fail e"
  | (works) x d where "on_db_res f w = (w\<lparr>w_db := d\<rparr>, ok x)" "f (w_db w) = ok (x, d)"
  by (cases "f (w_db w)") (auto simp: on_db_res_def)

lemma insert_execution:
  assumes "create_tool_execution (new_execution p key t status approval) d = ok (e, d')"
  shows "executions d' = executions d @ [e]" "ex_organization_id e = xp_organization_id p" "ex_idempotency_key e = key"
    "ex_id e = next_id d" "ex_status e = status" "ex_approval_id e = approval" "approvals d' = approvals d"
    "key \<notin> ex_idempotency_key ` set (executions d)" "now d' = now d"
  using create_tool_execution_cases [OF assms] by (auto simp: new_execution_def)

lemma execute_provider_effect:
  assumes "execute_provider env p key t w = (w', r)"
    and "get_tool_execution_by_idempotency (xp_organization_id p) key (w_db w) = fail msg"
  shows "(executions (w_db w') = executions (w_db w) \<and> w_calls w' = w_calls w \<and> fst r = None)
    \<or> (\<exists>e. fst r = Some e \<and> stored (xp_organization_id p) key (ex_id e) (executions (w_db w'))
         \<and> key \<notin> ex_idempotency_key ` set (executions (w_db w))
         \<and> (ex_status e = ''succeeded'' \<longleftrightarrow> snd r = None))"
proof -
  let ?w = "inc_tool_executions w" and ?f = "create_tool_execution (new_execution p key t ''running'' None)"
  have none: "get_tool_execution_by_idempotency (xp_organization_id p) key (w_db ?w) = fail msg"
    using assms(2) by (simp add: get_tool_execution_by_idempotency_def)
  show ?thesis
  proof (cases rule: on_db_res_cases [of ?f ?w])
    case (fails e)
    with assms(1) none show ?thesis by (auto simp: execute_provider_def Let_def)
  next
    case (works e d)
    note i = insert_execution [OF works(2)]
    have s: "stored (xp_organization_id p) key (ex_id e) (executions d)"
      using stored_new [OF none i(2,3)] i(1) by simp
    have k: "key \<notin> ex_idempotency_key ` set (executions (w_db w))" using i(8) by simp
    let ?w1 = "audit (xp_organization_id p) (xp_agent_id p) ''tool_started'' ''tool_execution'' (ex_id e) (?w\<lparr>w_db := d\<rparr>)"
    obtain w2 o2 where 2: "search_first env (tl_name t) (xp_input p) ?w1 = (w2, o2)"
      by (cases "search_first env (tl_name t) (xp_input p) ?w1")
    have db2: "w_db w2 = d" using search_first_frame [of env "tl_name t" "xp_input p" ?w1] 2 by simp
    show ?thesis
    proof (cases o2)
      case (Some out)
      with assms(1) works(1) 2 s k db2 show ?thesis by (auto simp: execute_provider_def Let_def)
    next
      case None
      let ?c = "resolve_credentials env True (xp_organization_id p) (tl_name t)"
      obtain w3 r3 where 3: "call_provider env (tl_name t) (xp_input p) ?c w2 = (w3, r3)"
        by (cases "call_provider env (tl_name t) (xp_input p) ?c w2")
      have db3: "w_db w3 = d" using call_provider_frame(1) [of env "tl_name t" "xp_input p" ?c w2] 3 db2 by simp
      from None 2 3 assms(1) works(1) s k db3 show ?thesis
        by (cases r3) (auto simp: execute_provider_def Let_def)
    qed
  qed
qed

lemma execute_browser_effect:
  assumes "execute_browser env p key t w = (w', r)"
    and "get_tool_execution_by_idempotency (xp_organization_id p) key (w_db w) = fail msg"
  shows "(executions (w_db w') = executions (w_db w) \<and> w_calls w' = w_calls w \<and> fst r = None)
    \<or> (\<exists>e. fst r = Some e \<and> stored (xp_organization_id p) key (ex_id e) (executions (w_db w'))
         \<and> key \<notin> ex_idempotency_key ` set (executions (w_db w))
         \<and> (ex_status e = ''succeeded'' \<longleftrightarrow> snd r = None))"
proof (cases "te_browser env")
  case None
  with assms(1) show ?thesis by (auto simp: execute_browser_def)
next
  case (Some br)
  let ?w = "inc_browser_tool_calls (inc_tool_executions w)"
    and ?f = "create_tool_execution (new_execution p key t ''running'' None)"
    and ?o = "xp_organization_id p" and ?a = "xp_agent_id p"
  have none: "get_tool_execution_by_idempotency ?o key (w_db ?w) = fail msg"
    using assms(2) by (simp add: get_tool_execution_by_idempotency_def)
  show ?thesis
  proof (cases rule: on_db_res_cases [of ?f ?w])
    case (fails e)
    with Some assms(1) none show ?thesis by (auto simp: execute_browser_def Let_def)
  next
    case (works e d)
    note i = insert_execution [OF works(2)]
    have s: "stored ?o key (ex_id e) (executions d)" using stored_new [OF none i(2,3)] i(1) by simp
    have k: "key \<notin> ex_idempotency_key ` set (executions (w_db w))" using i(8) by simp
    let ?w1 = "audit ?o ?a ''tool_started'' ''tool_execution'' (ex_id e) (?w\<lparr>w_db := d\<rparr>)"
    let ?pr = "profile_id (te_go env) (xp_input p)"
    let ?acc = "case ?pr of None \<Rightarrow> ok () | Some i \<Rightarrow> enforce_agent_access br ?o ?a i (w_db ?w1)"
    show ?thesis
    proof (cases ?acc)
      case (Inl m)
      with Some assms(1) works(1) s k i(5) show ?thesis
        by (auto simp: execute_browser_def Let_def set_execution_db)
    next
      case (Inr u)
      obtain w2 o2 where 2: "drive_browser br ?o ?a ?pr (tl_name t) (xp_input p) ?w1 = (w2, o2)"
        by (cases "drive_browser br ?o ?a ?pr (tl_name t) (xp_input p) ?w1")
      have db2: "w_db w2 = d" using drive_browser_frame [of br ?o ?a ?pr "tl_name t" "xp_input p" ?w1] 2 by simp
      from Inr 2 Some assms(1) works(1) s k db2 show ?thesis
        by (cases o2) (auto simp: execute_browser_def Let_def)
    qed
  qed
qed

lemma create_approval_cases:
  assumes "create_approval org_id rt ra ru et entity title description payload risk action target ctx ex d = (d', ok a)"
  shows "a \<in> set (approvals d')" "ap_status a = ''pending''" "ap_organization_id a = org_id" "executions d' = executions d"
    "ap_id a = next_id d" "ap_requester_agent_id a = ra" "ap_payload a = payload" "ap_entity_type a = et"
    "ap_expires_at a = Some (if ex = 0 then now d + 24 * 60 * 60 else now d + ex)" "now d' = now d"
  using assms by (auto simp: create_approval_def insert_approval_def Let_def split: if_split_asm sum.splits)

lemma create_approval_fails:
  "create_approval org_id rt ra ru et entity title description payload risk action target ctx ex d = (d', fail e) \<Longrightarrow> d' = d"
  by (auto simp: create_approval_def Let_def split: sum.splits)

lemma request_approval_effect:
  assumes "request_approval env p key t w = (w', r)"
    and "get_tool_execution_by_idempotency (xp_organization_id p) key (w_db w) = fail msg"
  shows "w_calls w' = w_calls w"
    and "(executions (w_db w') = executions (w_db w) \<and> fst r = None \<and> snd r \<noteq> None)
    \<or> (\<exists>e a. r = (Some e, Some (''approval_required: '' @ uuid_string (te_go env) (ap_id a)))
         \<and> stored (xp_organization_id p) key (ex_id e) (executions (w_db w'))
         \<and> executions (w_db w') = executions (w_db w) @ [e]
         \<and> ex_status e = ''approval_required'' \<and> ex_approval_id e = Some (ap_id a)
         \<and> a \<in> set (approvals (w_db w')) \<and> ap_status a = ''pending'' \<and> ap_organization_id a = xp_organization_id p
         \<and> ap_entity_id a = ex_id e \<and> ap_requester_agent_id a = Some (xp_agent_id p)
         \<and> ap_payload a = xp_input p \<and> ap_expires_at a = Some (now (w_db w) + 24 * 60 * 60))"
proof -
  let ?o = "xp_organization_id p"
  obtain w1 i where 1: "new_uuid w = (w1, i)" by (cases "new_uuid w")
  have db1: "w_db w1 = (w_db w)\<lparr>next_id := next_id (w_db w) + 1\<rparr>" "w_calls w1 = w_calls w"
    using 1 by (auto simp: new_uuid_def)
  define f where "f = create_approval ?o ''agent'' (Some (xp_agent_id p)) None ''tool_execution'' i
      (''Agent '' @ short_id (te_go env) (xp_agent_id p) @ '' wants to '' @ tl_name t)
      (''Tool '' @ tl_name t @ '' with input '' @ fmt_v (te_go env) (JObj (redacted_input (xp_input p))))
      (xp_input p) (tl_risk_level t) (tl_name t) (xp_tool_name p) (Some (approval_context env p key t)) (24 * 60 * 60)"
  obtain d2 r2 where 2: "f (w_db w1) = (d2, r2)" by (cases "f (w_db w1)")
  have run: "request_approval env p key t w = (case (w1\<lparr>w_db := d2\<rparr>, r2) of
      (w, Inl e) \<Rightarrow> (w, None, Some e)
    | (w, Inr a) \<Rightarrow> (case on_db_res (create_tool_execution (new_execution p key t ''approval_required'' (Some (ap_id a)))) w of
         (w, Inl e) \<Rightarrow> (w, None, Some e)
       | (w, Inr created) \<Rightarrow> (audit ?o (xp_agent_id p) ''tool_approval_requested'' ''tool_execution'' (ex_id created)
             (run_db (link_approval (ap_id a) (ex_id created) [(''tool'', JStr (tl_name t)),
                (''run_id'', JStr (safe_uuid (te_go env) (xp_run_id p))),
                (''execution_id'', JStr (uuid_string (te_go env) (ex_id created))),
                (''task_id'', JStr (safe_uuid (te_go env) (xp_task_id p)))]) w),
           Some created, Some (''approval_required: '' @ uuid_string (te_go env) (ap_id a)))))"
    unfolding request_approval_def Let_def 1 prod.case on_db_def f_def [symmetric] 2 by (rule refl)
  have "w_calls w' = w_calls w \<and> ((executions (w_db w') = executions (w_db w) \<and> fst r = None \<and> snd r \<noteq> None)
    \<or> (\<exists>e a. r = (Some e, Some (''approval_required: '' @ uuid_string (te_go env) (ap_id a)))
         \<and> stored ?o key (ex_id e) (executions (w_db w'))
         \<and> executions (w_db w') = executions (w_db w) @ [e]
         \<and> ex_status e = ''approval_required'' \<and> ex_approval_id e = Some (ap_id a)
         \<and> a \<in> set (approvals (w_db w')) \<and> ap_status a = ''pending'' \<and> ap_organization_id a = ?o
         \<and> ap_entity_id a = ex_id e \<and> ap_requester_agent_id a = Some (xp_agent_id p)
         \<and> ap_payload a = xp_input p \<and> ap_expires_at a = Some (now (w_db w) + 24 * 60 * 60)))" (is "?C \<and> (?A \<or> ?B)")
  proof (cases r2)
    case (Inl e)
    then have "d2 = w_db w1" using 2 create_approval_fails unfolding f_def by blast
    with Inl run assms(1) db1 show ?thesis by auto
  next
    case (Inr a)
    note c = create_approval_cases [OF 2 [unfolded f_def Inr]]
    let ?new = "new_execution p key t ''approval_required'' (Some (ap_id a))"
    show ?thesis
    proof (cases rule: on_db_res_cases [of "create_tool_execution ?new" "w1\<lparr>w_db := d2\<rparr>"])
      case (fails e)
      with Inr run assms(1) db1 c(4) show ?thesis by auto
    next
      case (works e d3)
      note ie = insert_execution [OF works(2)]
      define ctx where "ctx = [(''tool'', JStr (tl_name t)), (''run_id'', JStr (safe_uuid (te_go env) (xp_run_id p))),
                (''execution_id'', JStr (uuid_string (te_go env) (ex_id e))),
                (''task_id'', JStr (safe_uuid (te_go env) (xp_task_id p)))]"
      define a' where "a' = a\<lparr>ap_entity_id := ex_id e, ap_context := Some ctx, ap_updated_at := now d3\<rparr>"
      have r: "r = (Some e, Some (''approval_required: '' @ uuid_string (te_go env) (ap_id a)))"
        and w': "w_db w' = fst (link_approval (ap_id a) (ex_id e) ctx d3)" "w_calls w' = w_calls w"
        using Inr run assms(1) works(1) db1(2) by (auto simp: ctx_def)
      have "a' \<in> set (approvals (w_db w'))"
        using c(1) ie(7) by (auto simp: w'(1) link_approval_def a'_def in_update_where)
      moreover have "stored ?o key (ex_id e) (executions d3)"
        using stored_new [of ?o key d2 msg e] assms(2) c(4) db1(1) ie by (simp add: get_tool_execution_by_idempotency_def)
      ultimately have ?B
        using r ie c db1(1)
        by (intro exI [of _ e] exI [of _ a']) (simp add: w'(1) link_approval_def a'_def)
      with w'(2) show ?thesis by simp
    qed
  qed
  then show ?C and "?A \<or> ?B" by blast+
qed

section \<open>Properties of \<^verbatim>\<open>Execute\<close>\<close>

lemma execute_effect:
  assumes "execute env p w = (w', r)"
    and "get_tool_execution_by_idempotency (xp_organization_id p) (idempotency_key env p) (w_db w) = fail msg"
    and "w_calls w' \<noteq> w_calls w \<or> fst r \<noteq> None"
  obtains t e where "guards_pass env p t (w_db w)" "fst r = Some e"
    "stored (xp_organization_id p) (idempotency_key env p) (ex_id e) (executions (w_db w'))"
    "requires_approval t \<longrightarrow> w_calls w' = w_calls w"
    "\<not> requires_approval t \<longrightarrow> idempotency_key env p \<notin> ex_idempotency_key ` set (executions (w_db w))"
proof (cases rule: execute_cases [of p env w])
  case (existing e)
  with assms(2) show ?thesis by simp
next
  case (refused w'' m)
  with assms show ?thesis by auto
next
  case (admitted m t)
  let ?key = "idempotency_key env p"
  show ?thesis
  proof (cases "requires_approval t")
    case True
    with admitted assms(1) have "request_approval env p ?key t w = (w', r)" by simp
    note e = request_approval_effect [OF this assms(2)]
    from e assms(3) show ?thesis using that [OF admitted(2)] True by auto
  next
    case False
    with admitted assms(1) have "execute_browser env p ?key t w = (w', r) \<or> execute_provider env p ?key t w = (w', r)"
      by (auto split: if_splits)
    then show ?thesis
      using execute_browser_effect [OF _ assms(2)] execute_provider_effect [OF _ assms(2)] assms(3)
        that [OF admitted(2)] False by metis
  qed
qed

text \<open>
  C30: \<^verbatim>\<open>Execute\<close> lets a call out of the program only for an enabled tool with a valid input, for an agent
  that is authorized for the tool, belongs to the project of the task and is within its rate limits, when
  the tool needs no approval and its key was never used; and the call is recorded under the key.
\<close>

theorem execute_call_authorized:
  assumes "w_calls (fst (execute env p w)) \<noteq> w_calls w"
  shows "\<exists>t. load_tool (xp_organization_id p) (xp_tool_name p) (w_db w) = ok t
     \<and> tl_enabled t \<and> validate_input (te_go env) t (xp_input p) = ok () \<and> \<not> requires_approval t
     \<and> tool_allowed (xp_organization_id p) (xp_agent_id p) (xp_tool_name p) (tl_id t) (w_db w)
     \<and> foreign_project (xp_organization_id p) (xp_agent_id p) (xp_task_id p) (w_db w) = None
     \<and> check_rate_limits (xp_organization_id p) (xp_agent_id p) (tl_name t) (w_db w) = ok ()
     \<and> idempotency_key env p \<notin> ex_idempotency_key ` set (executions (w_db w))
     \<and> idempotency_key env p \<in> ex_idempotency_key ` set (executions (w_db (fst (execute env p w))))"
proof -
  obtain w' r where x: "execute env p w = (w', r)" by (cases "execute env p w")
  with assms have calls: "w_calls w' \<noteq> w_calls w" by simp
  obtain msg where "get_tool_execution_by_idempotency (xp_organization_id p) (idempotency_key env p) (w_db w) = fail msg"
    using x calls by (cases rule: execute_cases [of p env w]) (auto simp: execute_def Let_def split: sum.splits)
  from x this obtain t e where "guards_pass env p t (w_db w)" "fst r = Some e"
      "stored (xp_organization_id p) (idempotency_key env p) (ex_id e) (executions (w_db w'))"
      "requires_approval t \<longrightarrow> w_calls w' = w_calls w"
      "\<not> requires_approval t \<longrightarrow> idempotency_key env p \<notin> ex_idempotency_key ` set (executions (w_db w))"
    by (rule execute_effect) (use calls in auto)
  with calls x show ?thesis
    by (auto simp: guards_pass_def intro!: exI [of _ t] dest: stored_key)
qed

text \<open>
  C31: once \<^verbatim>\<open>Execute\<close> has returned an execution, the same request returns that execution again, makes
  no call and changes nothing, and reports no error: also when the execution waits for an approval or has
  failed, which the first request reported as an error.
\<close>

theorem execute_idempotent:
  assumes "execute env p w = (w', (Some e, err))" and "executions (w_db v) = executions (w_db w')"
  shows "\<exists>e'. execute env p v = (v, Some e', None) \<and> ex_id e' = ex_id e
    \<and> get_tool_execution_by_idempotency (xp_organization_id p) (idempotency_key env p) (w_db v) = ok e'"
proof -
  let ?get = "get_tool_execution_by_idempotency (xp_organization_id p) (idempotency_key env p)"
  have "stored (xp_organization_id p) (idempotency_key env p) (ex_id e) (executions (w_db w'))"
  proof (cases "?get (w_db w)")
    case (Inl msg)
    show ?thesis by (rule execute_effect [OF assms(1) Inl]) auto
  next
    case (Inr e0)
    with assms(1) have "e = e0" "w' = w" by (auto simp: execute_def Let_def)
    with Inr show ?thesis using stored_iff by blast
  qed
  then have "stored (xp_organization_id p) (idempotency_key env p) (ex_id e) (executions (w_db v))"
    using assms(2) by simp
  then obtain e' where "?get (w_db v) = ok e'" "ex_id e' = ex_id e" unfolding stored_iff by blast
  then show ?thesis by (simp add: execute_def Let_def)
qed

text \<open>
  C32: for a tool that requires an approval a new request that passes the guards makes no call; it returns
  either an error and no execution, or the new execution, waiting, together with the error that names the
  pending approval, which expires after a day, points to the execution and holds the input as it was given.
\<close>

theorem execute_waits_for_approval:
  assumes "guards_pass env p t (w_db w)" and "requires_approval t"
    and "get_tool_execution_by_idempotency (xp_organization_id p) (idempotency_key env p) (w_db w) = fail msg"
    and "execute env p w = (w', r)"
  shows "w_calls w' = w_calls w \<and>
    ((executions (w_db w') = executions (w_db w) \<and> fst r = None \<and> snd r \<noteq> None)
     \<or> (\<exists>e a. r = (Some e, Some (''approval_required: '' @ uuid_string (te_go env) (ap_id a)))
         \<and> executions (w_db w') = executions (w_db w) @ [e]
         \<and> ex_status e = ''approval_required'' \<and> ex_approval_id e = Some (ap_id a)
         \<and> a \<in> set (approvals (w_db w')) \<and> ap_status a = ''pending'' \<and> ap_organization_id a = xp_organization_id p
         \<and> ap_entity_id a = ex_id e \<and> ap_requester_agent_id a = Some (xp_agent_id p)
         \<and> ap_payload a = xp_input p \<and> ap_expires_at a = Some (now (w_db w) + 24 * 60 * 60)))"
proof -
  have "execute_guards env p w = (w, ok t)" using assms(1) execute_guards_ok by blast
  with assms have "request_approval env p (idempotency_key env p) t w = (w', r)"
    by (simp add: execute_def Let_def)
  from request_approval_effect [OF this assms(3)] show ?thesis by blast
qed

section \<open>Properties of the execution after an approval\<close>

definition status_in :: "uuid \<Rightarrow> tool_execution list \<Rightarrow> string option" where
  "status_in i es = map_option ex_status (find (\<lambda>e. ex_id e = i) es)"

lemma status_in_mark: "status_in i (mark i st out err t es) = (case status_in i es of None \<Rightarrow> None | Some _ \<Rightarrow> Some st)"
  unfolding status_in_def by (subst find_mark) (auto split: option.split dest: find_in)

lemma status_in_ok: "get_tool_execution i d = ok e \<Longrightarrow> status_in i (executions d) = Some (ex_status e)"
  by (simp add: get_tool_execution_def query_row_cases status_in_def)

lemma status_in_some: "status_in i (executions d) = Some st \<Longrightarrow> \<exists>e. get_tool_execution i d = ok e \<and> ex_status e = st"
  by (auto simp: get_tool_execution_def query_row_cases status_in_def)

lemma get_tool_execution_id: "get_tool_execution i d = ok e \<Longrightarrow> ex_id e = i"
  by (auto simp: get_tool_execution_def query_row_cases dest: find_in)

lemma reread_frame [simp]: "fst (reread org_id key i out w) = w"
  by (simp add: reread_def split: sum.split)

lemma after_approval_browser_status:
  assumes "status_in (ex_id e) (executions (w_db w)) \<noteq> None"
  shows "status_in (ex_id e) (executions (w_db (fst (after_approval_browser env e t w)))) \<in> {Some ''succeeded'', Some ''failed''}"
proof (cases "te_browser env")
  case None
  then show ?thesis using assms
    by (auto simp: after_approval_browser_def refuse_execution_def set_execution_db status_in_mark)
next
  case (Some br)
  then show ?thesis using assms
    by (auto simp: after_approval_browser_def Let_def drive_browser_def status_in_mark split: sum.split prod.split)
qed

lemma after_approval_provider_status:
  assumes "status_in (ex_id e) (executions (w_db w)) \<noteq> None"
  shows "status_in (ex_id e) (executions (w_db (fst (after_approval_provider env e t w)))) \<in> {Some ''succeeded'', Some ''failed''}"
proof -
  obtain w1 o1 where 1: "search_first env (tl_name t) (ex_input e) w = (w1, o1)"
    by (cases "search_first env (tl_name t) (ex_input e) w")
  have db1: "w_db w1 = w_db w" using search_first_frame [of env "tl_name t" "ex_input e" w] 1 by simp
  let ?c = "resolve_credentials env False (ex_organization_id e) (tl_name t)"
  obtain w2 o2 where 2: "call_provider env (tl_name t) (ex_input e) ?c w1 = (w2, o2)"
    by (cases "call_provider env (tl_name t) (ex_input e) ?c w1")
  have db2: "w_db w2 = w_db w" using call_provider_frame(1) [of env "tl_name t" "ex_input e" ?c w1] 2 db1 by simp
  show ?thesis using assms 1 2 db1 db2
    by (cases o1; cases o2) (auto simp: after_approval_provider_def Let_def status_in_mark split: sum.split)
qed

text \<open>
  C33: \<^verbatim>\<open>ExecuteAfterApproval\<close> makes a call only for an execution that waits for an approval, and then the
  execution has ended: further calls of it return the execution and do nothing, so however often it is
  called, the calls of one execution leave the program once.
\<close>

theorem execute_after_approval_once:
  assumes "w_calls (fst (execute_after_approval env i w)) \<noteq> w_calls w"
    and "executions (w_db v) = executions (w_db (fst (execute_after_approval env i w)))"
  shows "status_in i (executions (w_db w)) = Some ''approval_required''
    \<and> status_in i (executions (w_db v)) \<in> {Some ''succeeded'', Some ''failed''}
    \<and> fst (execute_after_approval env i v) = v"
proof -
  obtain e where e: "get_tool_execution i (w_db w) = ok e" "ex_status e = ''approval_required''"
    using assms(1) unfolding execute_after_approval_def by (auto split: sum.splits if_splits)
  note id = get_tool_execution_id [OF e(1)]
  have s: "status_in i (executions (w_db w)) = Some ''approval_required''" using status_in_ok [OF e(1)] e(2) by simp
  let ?w = "set_execution (ex_id e) ''running'' None None w"
  obtain t where t: "fst (execute_after_approval env i w) =
      fst (if has_prefix (tl_name t) ''browser.'' then after_approval_browser env e t ?w else after_approval_provider env e t ?w)"
    using assms(1) e unfolding execute_after_approval_def by (auto simp: Let_def split: sum.splits if_splits)
  have r: "status_in (ex_id e) (executions (w_db ?w)) \<noteq> None"
    using s id by (simp add: set_execution_db status_in_mark)
  have "status_in i (executions (w_db (fst (execute_after_approval env i w)))) \<in> {Some ''succeeded'', Some ''failed''}"
    using after_approval_browser_status [OF r] after_approval_provider_status [OF r] id
    unfolding t by (cases "has_prefix (tl_name t) ''browser.''") simp_all
  then have v: "status_in i (executions (w_db v)) \<in> {Some ''succeeded'', Some ''failed''}" using assms(2) by simp
  then obtain st where "status_in i (executions (w_db v)) = Some st" "st \<in> {''succeeded'', ''failed''}" by auto
  with status_in_some obtain e' where "get_tool_execution i (w_db v) = ok e'" "ex_status e' \<in> {''succeeded'', ''failed''}"
    by metis
  then have "fst (execute_after_approval env i v) = v"
    by (auto simp: execute_after_approval_def)
  with s v show ?thesis by simp
qed

lemma approved_guards_cases:
  "w_calls (fst (approved_guards env e inp w)) = w_calls w"
  "approved_guards env e inp w = (w', ok t) \<Longrightarrow> w' = w
     \<and> load_tool (ex_organization_id e) (ex_tool_name e) (w_db w) = ok t \<and> tl_enabled t
     \<and> validate_input (te_go env) t inp = ok ()
     \<and> tool_allowed (ex_organization_id e) (ex_agent_id e) (ex_tool_name e) (ex_tool_id e) (w_db w)
     \<and> foreign_project_approved (ex_organization_id e) (ex_agent_id e) (ex_task_id e) (w_db w) = None"
  unfolding approved_guards_def Let_def by (auto split: sum.splits option.splits if_splits)


text \<open>
  An assignment of the tool authorizes the agent whether it is enabled or not: the second test of the
  loop over the assignments asks only for the tool's ID.
\<close>

theorem disabled_assignment_authorizes:
  assumes "a \<in> set (agent_tools d)" and "at_agent_id a = agent" and "at_tool_id a = tl_id t" and "t \<in> set (tools d)"
  shows "tool_allowed org_id agent name (tl_id t) d"
proof -
  have "a\<lparr>at_tool := Some (joined_tool t)\<rparr> \<in> set (list_agent_tools agent d)"
    using assms by (auto simp: list_agent_tools_def)
  then show ?thesis using assms(3) unfolding tool_allowed_def 
    by (intro disjI1 bexI [of _ "a\<lparr>at_tool := Some (joined_tool t)\<rparr>"] disjI2) simp_all
qed

section \<open>Witnesses\<close>

definition demo_env :: tool_env where
  "demo_env = \<lparr>te_go = demo_golib, te_sha = (\<lambda>s. s), te_time = (\<lambda>_. []), te_integrations = None, te_credentials = (\<lambda>_ _. None),
     te_serper = None, te_duckduckgo = (\<lambda>_ _. fail ''no network''), te_browser = None\<rparr>"

definition email_tool :: tool where
  "email_tool = demo_tool\<lparr>tl_id := 9, tl_name := ''send_email'', tl_input_schema := None\<rparr>"

text \<open>
  The agent has the web search by a disabled assignment and the e-mail tool by its profile; a task of the
  project is assigned to a second agent that is in no project.
\<close>

definition demo_task :: task where
  "demo_task = \<lparr>t_id = 50, t_organization_id = 1, t_project_id = 3, t_channel_id = None, t_parent_task_id = None,
     t_team_id = None, t_title = ''t'', t_description = [], t_created_by = Some 2, t_assigned_to_agent = Some 5,
     t_assigned_to_user = None, t_status = ''running'', t_priority = ''medium'', t_deadline = None,
     t_correlation_id = None, t_retry_count = 0, t_max_retries = 0, t_delegation_depth = 0,
     t_max_delegation_depth = 0, t_timeout_seconds = 0, t_required_role = None, t_required_capabilities = [],
     t_preferred_agent_id = None, t_created_at = 0, t_updated_at = 0\<rparr>"

definition tools_db :: db where
  "tools_db = demo_db\<lparr>tools := [demo_tool, email_tool],
     agents := [demo_agent\<lparr>ag_tools := [''send_email'']\<rparr>, demo_agent\<lparr>ag_id := 5, ag_tools := [''send_email'']\<rparr>],
     tasks := [demo_task],
     agent_tools := [\<lparr>at_id = 7, at_agent_id = 4, at_tool_id = 8, at_enabled = False, at_created_at = 0, at_tool = None\<rparr>]\<rparr>"

definition search_params :: execute_params where
  "search_params = \<lparr>xp_organization_id = 1, xp_agent_id = 4, xp_task_id = None, xp_run_id = None,
     xp_tool_name = ''web_search'', xp_input = Some [(''query'', JStr ''x'')], xp_idempotency_key = ''k1''\<rparr>"

definition email_params :: execute_params where
  "email_params = \<lparr>xp_organization_id = 1, xp_agent_id = 4, xp_task_id = None, xp_run_id = None,
     xp_tool_name = ''send_email'', xp_input = Some [(''to'', JStr ''x'')], xp_idempotency_key = ''k2''\<rparr>"

definition after_search :: world where "after_search = fst (execute demo_env search_params (world_of tools_db))"
definition after_email :: world where "after_email = fst (execute demo_env email_params (world_of tools_db))"

lemma search_runs: "w_calls after_search \<noteq> w_calls (world_of tools_db)"
  by code_simp

lemma execute_call_authorized_witness:
  "\<exists>t. load_tool 1 ''web_search'' tools_db = ok t \<and> tl_enabled t \<and> \<not> requires_approval t"
proof -
  have "w_calls (fst (execute demo_env search_params (world_of tools_db))) \<noteq> w_calls (world_of tools_db)" by code_simp
  from execute_call_authorized [OF this] show ?thesis
    by (auto simp: search_params_def world_of_def)
qed

lemma disabled_assignment_authorizes_witness: "tool_allowed 1 4 ''web_search'' 8 tools_db"
proof -
  have "\<lparr>at_id = 7, at_agent_id = 4, at_tool_id = 8, at_enabled = False, at_created_at = 0, at_tool = None\<rparr>
      \<in> set (agent_tools tools_db)" "demo_tool \<in> set (tools tools_db)" "tl_id demo_tool = 8"
    by (simp_all add: tools_db_def demo_tool_def)
  with disabled_assignment_authorizes [of "\<lparr>at_id = 7, at_agent_id = 4, at_tool_id = 8, at_enabled = False,
      at_created_at = 0, at_tool = None\<rparr>" tools_db 4 demo_tool 1 "''web_search''"] show ?thesis by simp
qed

lemma execute_idempotent_witness:
  "snd (snd (execute demo_env email_params (world_of tools_db))) \<noteq> None
   \<and> snd (snd (execute demo_env email_params after_email)) = None
   \<and> fst (execute demo_env email_params after_email) = after_email"
proof -
  have r: "fst (snd (execute demo_env email_params (world_of tools_db))) \<noteq> None"
    "snd (snd (execute demo_env email_params (world_of tools_db))) \<noteq> None" by code_simp+
  then obtain e err where "execute demo_env email_params (world_of tools_db) = (after_email, Some e, err)"
    unfolding after_email_def by (metis not_None_eq surjective_pairing)
  from execute_idempotent [OF this refl] r show ?thesis by auto
qed

lemma execute_waits_for_approval_witness:
  "w_calls after_email = [] \<and> length (executions (w_db after_email)) = 1"
proof -
  let ?w = "world_of tools_db"
  have g: "guards_pass demo_env email_params email_tool (w_db ?w)" "requires_approval email_tool" by code_simp+
  have "isl (get_tool_execution_by_idempotency (xp_organization_id email_params)
      (idempotency_key demo_env email_params) (w_db ?w))" by code_simp
  then obtain m where "get_tool_execution_by_idempotency (xp_organization_id email_params)
      (idempotency_key demo_env email_params) (w_db ?w) = fail m" by (auto simp: isl_def)
  from execute_waits_for_approval [OF g this, of after_email "snd (execute demo_env email_params ?w)"]
  have "w_calls after_email = w_calls ?w" by (simp add: after_email_def)
  moreover have "length (executions (w_db after_email)) = 1" by code_simp
  ultimately show ?thesis by (simp add: world_of_def)
qed

text \<open>
  A tool may be approved and then refused: an agent that has the task but not the project may ask for
  the tool, and after the approval is told that it is not in the project; no call is made and the
  execution ends as failed.
\<close>

definition assignee_params :: execute_params where
  "assignee_params = email_params\<lparr>xp_agent_id := 5, xp_task_id := Some 50\<rparr>"

theorem approved_then_refused:
  "let (w, e, err) = execute demo_env assignee_params (world_of tools_db);
       i = ex_id (the e);
       (w', r) = execute_approved demo_env i w
   in map_option ex_status e = Some ''approval_required''
      \<and> snd r = Some (''agent 5 not assigned to project 3'')
      \<and> status_in i (executions (w_db w')) = Some ''failed'' \<and> w_calls w' = []"
  by code_simp

text \<open>The two executions after an approval, at the e-mail execution that waits.\<close>

definition waiting_id :: uuid where "waiting_id = ex_id (hd (executions (w_db after_email)))"

lemma execute_after_approval_once_witness:
  "status_in waiting_id (executions (w_db after_email)) = Some ''approval_required''
   \<and> status_in waiting_id (executions (w_db (fst (execute_after_approval demo_env waiting_id after_email))))
       \<in> {Some ''succeeded'', Some ''failed''}"
proof -
  have "w_calls (fst (execute_after_approval demo_env waiting_id after_email)) \<noteq> w_calls after_email" by code_simp
  from execute_after_approval_once [OF this refl] show ?thesis by blast
qed


end
