(* ===== verification/Conversations.thy ===== *)
theory Conversations
  imports Teams
begin

text \<open>
  \<^verbatim>\<open>backend/internal/repository/repository.go\<close>: users, organizations and their members, projects and
  their members and agents, channels and their members, messages and threads. Slugs and the agents of a
  project are in Tasks and Teams.
\<close>

section \<open>Users\<close>

text \<open>\<^verbatim>\<open>^[^@]+@[^@]+\.[^@]+$\<close>.\<close>

definition email_ok :: "string \<Rightarrow> bool" where
  "email_ok s \<longleftrightarrow>
     (let name = takeWhile (\<lambda>c. c \<noteq> CHR ''@'') s; host = tl (dropWhile (\<lambda>c. c \<noteq> CHR ''@'') s)
      in name \<noteq> [] \<and> CHR ''@'' \<in> set s \<and> CHR ''@'' \<notin> set host
         \<and> (\<exists>k \<in> set [1..<length host - 1]. host ! k = CHR ''.''))"

definition create_user :: "string \<Rightarrow> string \<Rightarrow> string \<Rightarrow> db \<Rightarrow> db \<times> user res" where
  "create_user email display_name password_hash d =
     (let email = to_lower (trim_space email);
          u = \<lparr>us_id = next_id d, us_email = email, us_display_name = display_name, us_avatar_url = None,
               us_password_hash = password_hash, us_status = ''active'', us_last_seen_at = None,
               us_created_at = now d, us_updated_at = now d\<rparr>
      in if \<not> email_ok email then (d, fail (check_violation ''users_email_check''))
         else if email \<in> us_email ` set (user_rows d) then (d, fail (unique_violation ''users_email_key''))
         else (d\<lparr>user_rows := user_rows d @ [u], next_id := next_id d + 1\<rparr>, ok u))"

definition find_user_by_email :: "string \<Rightarrow> db \<Rightarrow> user res" where
  "find_user_by_email email d = query_row (\<lambda>u. us_email u = to_lower (trim_space email)) (user_rows d)"

definition find_user_by_id :: "uuid \<Rightarrow> db \<Rightarrow> user res" where
  "find_user_by_id i d = query_row (\<lambda>u. us_id u = i) (user_rows d)"

section \<open>Organizations\<close>

text \<open>\<^verbatim>\<open>^[a-z0-9]+(?:-[a-z0-9]+)*$\<close>: no dash at an end, none after another.\<close>

definition alnum :: "char \<Rightarrow> bool" where
  "alnum c \<longleftrightarrow> (CHR ''a'' \<le> c \<and> c \<le> CHR ''z'') \<or> (CHR ''0'' \<le> c \<and> c \<le> CHR ''9'')"

fun org_slug_ok :: "string \<Rightarrow> bool" where
  "org_slug_ok [] = False"
| "org_slug_ok [c] = alnum c"
| "org_slug_ok (c # c' # cs) =
     (if c = CHR ''-'' then False else alnum c \<and> (if c' = CHR ''-'' then org_slug_ok cs else org_slug_ok (c' # cs)))"

definition insert_organization :: "string \<Rightarrow> string \<Rightarrow> db \<Rightarrow> (organization \<times> db) res" where
  "insert_organization name slug d =
     (if \<not> org_slug_ok slug then fail (check_violation ''organizations_slug_check'')
      else if slug \<in> og_slug ` set (organizations d) then fail (unique_violation ''organizations_slug_key'')
      else (let og = \<lparr>og_id = next_id d, og_name = name, og_slug = slug, og_avatar_url = None, og_settings = Some [],
                     og_created_at = now d, og_updated_at = now d\<rparr>
            in ok (og, d\<lparr>organizations := organizations d @ [og], next_id := next_id d + 1\<rparr>)))"

definition org_role_check :: "string list" where "org_role_check = [''owner'', ''admin'', ''member'', ''guest'']"

definition insert_org_member :: "uuid \<Rightarrow> uuid \<Rightarrow> string \<Rightarrow> db \<Rightarrow> (unit \<times> db) res" where
  "insert_org_member org_id user role d =
     (if role \<notin> set org_role_check then fail (check_violation ''organization_members_role_check'')
      else if org_id \<notin> set (orgs d) then fail (fk_violation ''organization_members_organization_id_fkey'')
      else if user \<notin> set (users d) then fail (fk_violation ''organization_members_user_id_fkey'')
      else if \<exists>r. (org_id, user, r) \<in> set (org_members d) then fail (unique_violation ''organization_members_key'')
      else ok ((), d\<lparr>org_members := org_members d @ [(org_id, user, role)]\<rparr>))"

text \<open>Which errors the loops over slugs take for a conflict.\<close>

definition is_conflict :: "string \<Rightarrow> bool" where
  "is_conflict e \<longleftrightarrow> contains e ''duplicate'' \<or> contains e ''unique''"

text \<open>\<^verbatim>\<open>fmt.Sprintf("%s-%s", base, uuid.NewString()[:4])\<close>.\<close>

definition next_slug :: "golib \<Rightarrow> string \<Rightarrow> db \<Rightarrow> string \<times> db" where
  "next_slug g base d =
     (base @ ''-'' @ take 4 (uuid_string g (next_id d)), d\<lparr>next_id := next_id d + 1\<rparr>)"

text \<open>
  The loop of \<^verbatim>\<open>CreateOrganization\<close> runs in one transaction, whose state is \<open>t\<close>; the UUIDs for the
  suffixes come from \<open>d\<close>, which is what a failure leaves. The error is the last one.
\<close>

fun org_loop :: "nat \<Rightarrow> golib \<Rightarrow> string \<Rightarrow> string \<Rightarrow> string \<Rightarrow> uuid \<Rightarrow> string \<Rightarrow> tx \<Rightarrow> db \<Rightarrow> db \<times> organization res" where
  "org_loop 0 g name base slug owner err t d = (d, fail err)"
| "org_loop (Suc n) g name base slug owner err t d =
     (let (r, t) = tx_exec (insert_organization name slug) t
      in case r of
           Inr og \<Rightarrow>
             (let (r2, t) = tx_exec (insert_org_member (og_id og) owner ''owner'') t
              in case r2 of
                   Inl e \<Rightarrow> (d, fail e)
                 | Inr _ \<Rightarrow> (case tx_commit t of Inl e \<Rightarrow> (d, fail e) | Inr d' \<Rightarrow> (d', ok og)))
         | Inl e \<Rightarrow>
             if \<not> is_conflict e then (d, fail e)
             else (let (slug, d) = next_slug g base d in org_loop n g name base slug owner e t d))"

definition create_organization :: "golib \<Rightarrow> string \<Rightarrow> string \<Rightarrow> uuid \<Rightarrow> db \<Rightarrow> db \<times> organization res" where
  "create_organization g name slug owner d =
     (let (slug, d) = (if slug = [] then slugify g name d else (slug, d))
      in org_loop 5 g name slug slug owner [] (Some d) d)"

definition get_organization :: "uuid \<Rightarrow> db \<Rightarrow> organization res" where
  "get_organization org_id d = query_row (\<lambda>og. og_id og = org_id) (organizations d)"

definition list_organizations_for_user :: "uuid \<Rightarrow> db \<Rightarrow> organization list" where
  "list_organizations_for_user user d =
     filter (\<lambda>og. \<exists>(oid, u, r) \<in> set (org_members d). oid = og_id og \<and> u = user) (organizations d)"

definition update_organization :: "uuid \<Rightarrow> string \<Rightarrow> db \<Rightarrow> db \<times> organization res" where
  "update_organization org_id name d =
     (let d' = d\<lparr>organizations := update_where (\<lambda>og. og_id og = org_id)
            (\<lambda>og. og\<lparr>og_name := name, og_updated_at := now d\<rparr>) (organizations d)\<rparr>
      in (d', get_organization org_id d'))"

definition is_org_member :: "uuid \<Rightarrow> uuid \<Rightarrow> db \<Rightarrow> string \<times> bool" where
  "is_org_member org_id user d =
     (case find (\<lambda>(oid, u, r). oid = org_id \<and> u = user) (org_members d) of
        None \<Rightarrow> ([], False) | Some (_, _, r) \<Rightarrow> (r, True))"

definition list_org_members :: "uuid \<Rightarrow> db \<Rightarrow> (uuid \<times> string) list" where
  "list_org_members org_id d =
     map snd (filter (\<lambda>(oid, u, r). oid = org_id \<and> u \<in> set (users d)) (org_members d))"

definition add_org_member :: "uuid \<Rightarrow> uuid \<Rightarrow> string \<Rightarrow> db \<Rightarrow> db \<times> unit res" where
  "add_org_member org_id user role d =
     (let role = (if role = [] then ''member'' else role)
      in if role \<notin> set org_role_check then (d, fail (check_violation ''organization_members_role_check''))
         else if org_id \<notin> set (orgs d) then (d, fail (fk_violation ''organization_members_organization_id_fkey''))
         else if user \<notin> set (users d) then (d, fail (fk_violation ''organization_members_user_id_fkey''))
         else if \<exists>(oid, u, r) \<in> set (org_members d). oid = org_id \<and> u = user
         then (d\<lparr>org_members := map (\<lambda>(oid, u, r). (oid, u, if oid = org_id \<and> u = user then role else r)) (org_members d)\<rparr>, ok ())
         else (d\<lparr>org_members := org_members d @ [(org_id, user, role)]\<rparr>, ok ()))"

definition remove_org_member :: "uuid \<Rightarrow> uuid \<Rightarrow> db \<Rightarrow> db" where
  "remove_org_member org_id user d =
     d\<lparr>org_members := filter (\<lambda>(oid, u, r). \<not> (oid = org_id \<and> u = user)) (org_members d)\<rparr>"

section \<open>Projects\<close>

definition insert_project :: "uuid \<Rightarrow> string \<Rightarrow> string \<Rightarrow> string \<Rightarrow> string \<Rightarrow> string \<Rightarrow> uuid \<Rightarrow> db \<Rightarrow> (project \<times> db) res" where
  "insert_project org_id name slug description objective icon creator d =
     (if org_id \<notin> set (orgs d) then fail (fk_violation ''projects_organization_id_fkey'')
      else if creator \<notin> set (users d) then fail (fk_violation ''projects_created_by_fkey'')
      else if \<exists>p \<in> set (projects d). pr_organization_id p = org_id \<and> pr_slug p = slug
      then fail (unique_violation ''projects_organization_id_slug_key'')
      else (let p = \<lparr>pr_id = next_id d, pr_organization_id = org_id, pr_name = name, pr_slug = slug,
                 pr_description = description, pr_objective = objective, pr_icon = icon, pr_status = ''active'',
                 pr_settings = Some [], pr_created_by = Some creator, pr_created_at = now d, pr_updated_at = now d\<rparr>
            in ok (p, d\<lparr>projects := projects d @ [p], next_id := next_id d + 1\<rparr>)))"

text \<open>\<^verbatim>\<open>INSERT INTO project_members ... ON CONFLICT DO NOTHING\<close>.\<close>

definition insert_lead :: "uuid \<Rightarrow> uuid \<Rightarrow> db \<Rightarrow> db" where
  "insert_lead p user d =
     (if (\<exists>(q, u, r) \<in> set (project_members d). q = p \<and> u = user) \<or> p \<notin> pr_id ` set (projects d) \<or> user \<notin> set (users d)
      then d else d\<lparr>project_members := project_members d @ [(p, user, ''lead'')]\<rparr>)"

fun project_loop :: "nat \<Rightarrow> golib \<Rightarrow> uuid \<Rightarrow> string \<Rightarrow> string \<Rightarrow> string \<Rightarrow> string \<Rightarrow> string \<Rightarrow> string \<Rightarrow> uuid \<Rightarrow> db
    \<Rightarrow> db \<times> project res" where
  "project_loop 0 g org_id name description objective icon base slug creator d =
     (d, fail ''failed to create project: slug conflict'')"
| "project_loop (Suc n) g org_id name description objective icon base slug creator d =
     (case insert_project org_id name slug description objective icon creator d of
        Inr (p, d) \<Rightarrow> (insert_lead (pr_id p) creator d, ok p)
      | Inl e \<Rightarrow>
          if \<not> is_conflict e then (d, fail e)
          else (let (slug, d) = next_slug g base d
                in project_loop n g org_id name description objective icon base slug creator d))"

definition create_project :: "golib \<Rightarrow> uuid \<Rightarrow> string \<Rightarrow> string \<Rightarrow> string \<Rightarrow> string \<Rightarrow> string \<Rightarrow> uuid \<Rightarrow> db
    \<Rightarrow> db \<times> project res" where
  "create_project g org_id name description objective icon slug creator d =
     (let (slug, d) = (if slug = [] then slugify g name d else (slug, d))
      in project_loop 5 g org_id name description objective icon slug slug creator d)"

definition list_projects :: "uuid \<Rightarrow> db \<Rightarrow> project list" where
  "list_projects org_id d = rev (filter (\<lambda>p. pr_organization_id p = org_id \<and> pr_status p = ''active'') (projects d))"

definition get_project :: "uuid \<Rightarrow> uuid \<Rightarrow> db \<Rightarrow> project res" where
  "get_project org_id i d = query_row (\<lambda>p. pr_id p = i \<and> pr_organization_id p = org_id) (projects d)"

definition get_project_by_slug :: "uuid \<Rightarrow> string \<Rightarrow> db \<Rightarrow> project res" where
  "get_project_by_slug org_id slug d =
     query_row (\<lambda>p. pr_organization_id p = org_id \<and> pr_slug p = to_lower (trim_space slug)) (projects d)"

definition home_icon :: string where "home_icon = [CHR 0xF0, CHR 0x9F, CHR 0x8F, CHR 0xA0]"

definition ensure_home_project :: "uuid \<Rightarrow> uuid \<Rightarrow> db \<Rightarrow> db \<times> uuid res" where
  "ensure_home_project org_id creator d =
     (case get_project_by_slug org_id ''home'' d of
        Inr p \<Rightarrow> (d, ok (pr_id p))
      | Inl e \<Rightarrow>
          if e \<noteq> no_rows then (d, fail e)
          else (let d = (case insert_project org_id ''Home'' ''home'' ''Home for general channel tasks'' [] home_icon creator d of
                           Inl _ \<Rightarrow> d | Inr (_, d') \<Rightarrow> d')
                in case get_project_by_slug org_id ''home'' d of
                     Inl e \<Rightarrow> (d, fail e)
                   | Inr p \<Rightarrow> (insert_lead (pr_id p) creator d, ok (pr_id p))))"

definition update_project :: "uuid \<Rightarrow> uuid \<Rightarrow> string option \<Rightarrow> string option \<Rightarrow> string option \<Rightarrow> db \<Rightarrow> db \<times> project res" where
  "update_project org_id i name description objective d =
     (case get_project org_id i d of
        Inl e \<Rightarrow> (d, fail e)
      | Inr p \<Rightarrow>
          (let or_old = (\<lambda>new old. case new of None \<Rightarrow> old | Some x \<Rightarrow> x);
               name = or_old name (pr_name p); description = or_old description (pr_description p);
               objective = or_old objective (pr_objective p);
               d' = d\<lparr>projects := update_where (\<lambda>p. pr_id p = i \<and> pr_organization_id p = org_id)
                 (\<lambda>p. p\<lparr>pr_name := name, pr_description := description, pr_objective := objective,
                       pr_updated_at := now d\<rparr>) (projects d)\<rparr>
           in (d', get_project org_id i d')))"

definition archive_project :: "uuid \<Rightarrow> uuid \<Rightarrow> db \<Rightarrow> db" where
  "archive_project org_id i d =
     d\<lparr>projects := update_where (\<lambda>p. pr_id p = i \<and> pr_organization_id p = org_id)
         (\<lambda>p. p\<lparr>pr_status := ''archived'', pr_updated_at := now d\<rparr>) (projects d)\<rparr>"

definition is_project_member :: "uuid \<Rightarrow> uuid \<Rightarrow> db \<Rightarrow> bool" where
  "is_project_member p user d \<longleftrightarrow> (\<exists>(q, u, r) \<in> set (project_members d). q = p \<and> u = user)"

definition list_project_members :: "uuid \<Rightarrow> db \<Rightarrow> (uuid \<times> string) list" where
  "list_project_members p d =
     map snd (filter (\<lambda>(q, u, r). q = p \<and> u \<in> set (users d)) (project_members d))"

definition project_role_check :: "string list" where "project_role_check = [''lead'', ''member'', ''viewer'']"

definition add_project_member :: "uuid \<Rightarrow> uuid \<Rightarrow> string \<Rightarrow> db \<Rightarrow> db \<times> unit res" where
  "add_project_member p user role d =
     (let role = (if role = [] then ''member'' else role)
      in if role \<notin> set project_role_check then (d, fail (check_violation ''project_members_role_check''))
         else if p \<notin> pr_id ` set (projects d) then (d, fail (fk_violation ''project_members_project_id_fkey''))
         else if user \<notin> set (users d) then (d, fail (fk_violation ''project_members_user_id_fkey''))
         else if is_project_member p user d
         then (d\<lparr>project_members := map (\<lambda>(q, u, r). (q, u, if q = p \<and> u = user then role else r)) (project_members d)\<rparr>, ok ())
         else (d\<lparr>project_members := project_members d @ [(p, user, role)]\<rparr>, ok ()))"

definition remove_project_member :: "uuid \<Rightarrow> uuid \<Rightarrow> db \<Rightarrow> db" where
  "remove_project_member p user d =
     d\<lparr>project_members := filter (\<lambda>(q, u, r). \<not> (q = p \<and> u = user)) (project_members d)\<rparr>"

text \<open>The role of an agent in a project is checked; it is read nowhere and not kept.\<close>

definition project_agent_role_check :: "string list" where
  "project_agent_role_check = [''lead'', ''collaborator'', ''reviewer'', ''observer'']"

definition add_project_agent :: "uuid \<Rightarrow> uuid \<Rightarrow> string \<Rightarrow> uuid \<Rightarrow> db \<Rightarrow> db \<times> unit res" where
  "add_project_agent p agent role added_by d =
     (let role = (if role = [] then ''collaborator'' else role)
      in if role \<notin> set project_agent_role_check then (d, fail (check_violation ''project_agents_role_check''))
         else if p \<notin> pr_id ` set (projects d) then (d, fail (fk_violation ''project_agents_project_id_fkey''))
         else if agent \<notin> ag_id ` set (agents d) then (d, fail (fk_violation ''project_agents_agent_id_fkey''))
         else if added_by \<notin> set (users d) then (d, fail (fk_violation ''project_agents_added_by_fkey''))
         else if (p, agent) \<in> set (project_agents d) then (d, ok ())
         else (d\<lparr>project_agents := project_agents d @ [(p, agent)]\<rparr>, ok ()))"

definition remove_project_agent :: "uuid \<Rightarrow> uuid \<Rightarrow> db \<Rightarrow> db" where
  "remove_project_agent p agent d = d\<lparr>project_agents := filter (\<lambda>x. x \<noteq> (p, agent)) (project_agents d)\<rparr>"

section \<open>Channels\<close>

text \<open>\<^verbatim>\<open>^[a-z0-9_-]{1,80}$\<close>.\<close>

definition channel_name_ok :: "string \<Rightarrow> bool" where
  "channel_name_ok s \<longleftrightarrow> s \<noteq> [] \<and> length s \<le> 80 \<and> list_all (\<lambda>c. alnum c \<or> c = CHR ''_'' \<or> c = CHR ''-'') s"

definition channel_type_check :: "string list" where
  "channel_type_check = [''standard'', ''private'', ''direct'', ''announcement'']"

text \<open>The unique key is (project, name), and NULL projects differ from each other.\<close>

definition insert_channel :: "channel \<Rightarrow> db \<Rightarrow> (channel \<times> db) res" where
  "insert_channel c d =
     (if \<not> channel_name_ok (ch_name c) then fail (check_violation ''channels_name_check'')
      else if ch_channel_type c \<notin> set channel_type_check then fail (check_violation ''channels_channel_type_check'')
      else if ch_organization_id c \<notin> set (orgs d) then fail (fk_violation ''channels_organization_id_fkey'')
      else if \<not> opt_ref (ch_project_id c) (map pr_id (projects d)) then fail (fk_violation ''channels_project_id_fkey'')
      else if \<not> opt_ref (ch_created_by c) (users d) then fail (fk_violation ''channels_created_by_fkey'')
      else if ch_project_id c \<noteq> None \<and> (\<exists>x \<in> set (channels d). ch_project_id x = ch_project_id c \<and> ch_name x = ch_name c)
      then fail (unique_violation ''channels_project_id_name_key'')
      else (let c = c\<lparr>ch_id := next_id d, ch_created_at := now d, ch_updated_at := now d\<rparr>
            in ok (c, d\<lparr>channels := channels d @ [c], next_id := next_id d + 1\<rparr>)))"

definition channel_role_check :: "string list" where "channel_role_check = [''admin'', ''member'']"

text \<open>
  The unique key of a membership contains \<^verbatim>\<open>agent_id\<close>, which is NULL for a user, so no two rows of a user
  conflict: \<^verbatim>\<open>ON CONFLICT DO NOTHING\<close> never applies.
\<close>

definition insert_channel_user :: "uuid \<Rightarrow> uuid \<Rightarrow> string \<Rightarrow> db \<Rightarrow> db \<times> unit res" where
  "insert_channel_user c user role d =
     (if role \<notin> set channel_role_check then (d, fail (check_violation ''channel_members_role_check''))
      else if c \<notin> ch_id ` set (channels d) then (d, fail (fk_violation ''channel_members_channel_id_fkey''))
      else if user \<notin> set (users d) then (d, fail (fk_violation ''channel_members_user_id_fkey''))
      else (d\<lparr>channel_members := channel_members d @ [\<lparr>cm_id = next_id d, cm_channel_id = c, cm_member_type = ''user'',
              cm_user_id = Some user, cm_agent_id = None, cm_role = role, cm_joined_at = now d\<rparr>], next_id := next_id d + 1\<rparr>, ok ()))"

definition create_channel :: "uuid \<Rightarrow> uuid option \<Rightarrow> string \<Rightarrow> string \<Rightarrow> string \<Rightarrow> string \<Rightarrow> string \<Rightarrow> uuid \<Rightarrow> db
    \<Rightarrow> db \<times> channel res" where
  "create_channel org_id p name display_name description topic channel_type creator d =
     (let name = to_lower (trim_space name);
          display_name = (if display_name = [] then name else display_name);
          channel_type = (if channel_type = [] then ''standard'' else channel_type)
      in case insert_channel \<lparr>ch_id = 0, ch_organization_id = org_id, ch_project_id = p, ch_name = name,
               ch_display_name = display_name, ch_description = description, ch_topic = topic,
               ch_channel_type = channel_type, ch_created_by = Some creator, ch_created_at = 0, ch_updated_at = 0\<rparr> d of
           Inl e \<Rightarrow> (d, fail e)
         | Inr (c, d) \<Rightarrow> (fst (insert_channel_user (ch_id c) creator ''admin'' d), ok c))"

definition list_channels :: "uuid \<Rightarrow> uuid option \<Rightarrow> db \<Rightarrow> channel list" where
  "list_channels org_id p d =
     sort_key ch_name (filter (\<lambda>c. ch_organization_id c = org_id \<and> (p = None \<or> ch_project_id c = p)) (channels d))"

definition get_channel :: "uuid \<Rightarrow> uuid \<Rightarrow> db \<Rightarrow> channel res" where
  "get_channel org_id i d = query_row (\<lambda>c. ch_id c = i \<and> ch_organization_id c = org_id) (channels d)"

definition get_channel_by_name :: "uuid \<Rightarrow> string \<Rightarrow> db \<Rightarrow> channel res" where
  "get_channel_by_name org_id name d =
     (case query_row (\<lambda>c. ch_organization_id c = org_id \<and> ch_name c = to_lower (trim_space name)) (channels d) of
        Inl e \<Rightarrow> fail e
      | Inr c \<Rightarrow> get_channel org_id (ch_id c) d)"

definition update_channel :: "uuid \<Rightarrow> uuid \<Rightarrow> string option \<Rightarrow> string option \<Rightarrow> string option \<Rightarrow> db \<Rightarrow> db \<times> channel res" where
  "update_channel org_id i display_name description topic d =
     (case get_channel org_id i d of
        Inl e \<Rightarrow> (d, fail e)
      | Inr c \<Rightarrow>
          (let or_old = (\<lambda>new old. case new of None \<Rightarrow> old | Some x \<Rightarrow> x);
               display_name = or_old display_name (ch_display_name c);
               description = or_old description (ch_description c); topic = or_old topic (ch_topic c);
               d' = d\<lparr>channels := update_where (\<lambda>c. ch_id c = i \<and> ch_organization_id c = org_id)
                 (\<lambda>c. c\<lparr>ch_display_name := display_name, ch_description := description, ch_topic := topic,
                       ch_updated_at := now d\<rparr>) (channels d)\<rparr>
           in (d', get_channel org_id i d')))"

definition rename_channel :: "uuid \<Rightarrow> uuid \<Rightarrow> string \<Rightarrow> db \<Rightarrow> db \<times> channel res" where
  "rename_channel org_id i new_name d =
     (let new_name = to_lower (trim_space new_name)
      in case get_channel org_id i d of
           Inl e \<Rightarrow> (d, fail e)
         | Inr c \<Rightarrow>
             if \<not> channel_name_ok new_name then (d, fail (check_violation ''channels_name_check''))
             else if ch_project_id c \<noteq> None
               \<and> (\<exists>x \<in> set (channels d). ch_id x \<noteq> i \<and> ch_project_id x = ch_project_id c \<and> ch_name x = new_name)
             then (d, fail (unique_violation ''channels_project_id_name_key''))
             else (let d' = d\<lparr>channels := update_where (\<lambda>c. ch_id c = i \<and> ch_organization_id c = org_id)
                         (\<lambda>c. c\<lparr>ch_name := new_name, ch_updated_at := now d\<rparr>) (channels d)\<rparr>
                   in (d', get_channel org_id i d')))"

text \<open>\<^verbatim>\<open>DELETE FROM channels\<close> with the cascades of the tables that refer to it.\<close>

definition archive_channel :: "uuid \<Rightarrow> uuid \<Rightarrow> db \<Rightarrow> db" where
  "archive_channel org_id i d =
     (if \<not> (\<exists>c \<in> set (channels d). ch_id c = i \<and> ch_organization_id c = org_id) then d
      else (let gone = (\<lambda>j. j = Some i)
            in d\<lparr>channels := filter (\<lambda>c. ch_id c \<noteq> i) (channels d),
                 channel_members := filter (\<lambda>m. cm_channel_id m \<noteq> i) (channel_members d),
                 messages := map (\<lambda>m. if m_thread_id m \<noteq> None
                       \<and> the (m_thread_id m) \<in> m_id ` {x \<in> set (messages d). m_channel_id x = i}
                     then m\<lparr>m_thread_id := None, m_updated_at := now d\<rparr> else m) (filter (\<lambda>m. m_channel_id m \<noteq> i) (messages d)),
                 message_threads := filter (\<lambda>(r, c, n). c \<noteq> i
                     \<and> r \<notin> m_id ` {x \<in> set (messages d). m_channel_id x = i}) (message_threads d),
                 tasks := update_where (\<lambda>t. gone (t_channel_id t)) (\<lambda>t. t\<lparr>t_channel_id := None, t_updated_at := now d\<rparr>) (tasks d),
                 runs := update_where (\<lambda>r. gone (run_channel_id r)) (\<lambda>r. r\<lparr>run_channel_id := None, run_updated_at := now d\<rparr>) (runs d)\<rparr>))"

definition is_channel_member :: "uuid \<Rightarrow> uuid \<Rightarrow> db \<Rightarrow> bool" where
  "is_channel_member c user d \<longleftrightarrow>
     (\<exists>m \<in> set (channel_members d). cm_channel_id m = c \<and> cm_member_type m = ''user'' \<and> cm_user_id m = Some user)"

definition list_channel_members :: "uuid \<Rightarrow> db \<Rightarrow> channel_member list" where
  "list_channel_members c d = filter (\<lambda>m. cm_channel_id m = c) (channel_members d)"

definition add_channel_member :: "uuid \<Rightarrow> uuid \<Rightarrow> string \<Rightarrow> db \<Rightarrow> db \<times> unit res" where
  "add_channel_member c user role d = insert_channel_user c user (if role = [] then ''member'' else role) d"

definition remove_channel_member :: "uuid \<Rightarrow> uuid \<Rightarrow> db \<Rightarrow> db" where
  "remove_channel_member c user d =
     d\<lparr>channel_members := filter (\<lambda>m. \<not> (cm_channel_id m = c \<and> cm_member_type m = ''user'' \<and> cm_user_id m = Some user))
         (channel_members d)\<rparr>"

section \<open>Messages\<close>

definition insert_message :: "message \<Rightarrow> db \<Rightarrow> (message \<times> db) res" where
  "insert_message m d =
     (if m_organization_id m \<notin> set (orgs d) then fail (fk_violation ''messages_organization_id_fkey'')
      else if m_channel_id m \<notin> ch_id ` set (channels d) then fail (fk_violation ''messages_channel_id_fkey'')
      else if \<not> opt_ref (m_thread_id m) (map m_id (messages d)) then fail (fk_violation ''messages_thread_id_fkey'')
      else if m_sender_type m \<notin> {''user'', ''agent'', ''system''} then fail (check_violation ''messages_sender_type_check'')
      else if \<not> opt_ref (m_sender_user_id m) (users d) then fail (fk_violation ''messages_sender_user_id_fkey'')
      else if \<not> opt_ref (m_sender_agent_id m) (map ag_id (agents d)) then fail (fk_violation ''messages_sender_agent_id_fkey'')
      else if (m_sender_type m = ''user'' \<and> m_sender_user_id m = None)
           \<or> (m_sender_type m = ''agent'' \<and> m_sender_agent_id m = None) then fail (check_violation ''messages_check'')
      else (let m = m\<lparr>m_id := next_id d, m_created_at := now d, m_updated_at := now d\<rparr>
            in ok (m, d\<lparr>messages := messages d @ [m], next_id := next_id d + 1\<rparr>)))"

text \<open>The thread of a reply gets one reply more.\<close>

definition count_reply :: "uuid \<Rightarrow> uuid \<Rightarrow> db \<Rightarrow> db" where
  "count_reply i c d =
     d\<lparr>message_threads := (if \<exists>(r, c', n) \<in> set (message_threads d). r = i
        then map (\<lambda>(r, c', n). (r, c', if r = i then n + 1 else n)) (message_threads d)
        else message_threads d @ [(i, c, 1)])\<rparr>"

definition create_message :: "uuid \<Rightarrow> uuid \<Rightarrow> uuid option \<Rightarrow> string \<Rightarrow> uuid option \<Rightarrow> string \<Rightarrow> db \<Rightarrow> db \<times> message res" where
  "create_message org_id c thread sender_type sender body d =
     (if body = [] then (d, fail ''body required'')
      else case insert_message \<lparr>m_id = 0, m_organization_id = org_id, m_channel_id = c, m_thread_id = thread,
               m_sender_type = sender_type, m_sender_user_id = (if sender_type = ''agent'' then None else sender),
               m_sender_agent_id = (if sender_type = ''agent'' then sender else None), m_body = body,
               m_body_format = ''markdown'', m_metadata = Some [], m_edited_at = None, m_deleted_at = None,
               m_created_at = 0, m_updated_at = 0\<rparr> d of
             Inl e \<Rightarrow> (d, fail e)
           | Inr (m, d) \<Rightarrow> (case thread of None \<Rightarrow> d | Some i \<Rightarrow> count_reply i c d, ok m))"

definition get_message :: "uuid \<Rightarrow> uuid \<Rightarrow> db \<Rightarrow> message res" where
  "get_message org_id i d = query_row (\<lambda>m. m_id m = i \<and> m_organization_id m = org_id) (messages d)"

text \<open>\<open>None\<close> for \<^verbatim>\<open>before\<close> is the zero time.\<close>

definition list_messages :: "uuid \<Rightarrow> uuid \<Rightarrow> uuid option \<Rightarrow> time option \<Rightarrow> int \<Rightarrow> bool \<Rightarrow> db \<Rightarrow> message list" where
  "list_messages org_id c thread before limit include_deleted d =
     newest (clamp_limit 100 limit) (filter (\<lambda>m. m_organization_id m = org_id \<and> m_channel_id m = c
       \<and> m_thread_id m = thread \<and> (include_deleted \<or> m_deleted_at m = None)
       \<and> (case before of None \<Rightarrow> True | Some t \<Rightarrow> m_created_at m < t)) (messages d))"

definition update_message :: "uuid \<Rightarrow> uuid \<Rightarrow> string \<Rightarrow> db \<Rightarrow> db \<times> message res" where
  "update_message org_id i body d =
     (let P = (\<lambda>m. m_id m = i \<and> m_organization_id m = org_id \<and> m_deleted_at m = None);
          f = (\<lambda>m. m\<lparr>m_body := body, m_edited_at := Some (now d), m_updated_at := now d\<rparr>)
      in case query_row P (messages d) of
           Inl e \<Rightarrow> (d, fail e)
         | Inr m \<Rightarrow> (d\<lparr>messages := update_where P f (messages d)\<rparr>, ok (f m)))"

definition delete_message :: "uuid \<Rightarrow> uuid \<Rightarrow> db \<Rightarrow> db" where
  "delete_message org_id i d =
     d\<lparr>messages := update_where (\<lambda>m. m_id m = i \<and> m_organization_id m = org_id)
         (\<lambda>m. m\<lparr>m_deleted_at := Some (now d), m_updated_at := now d\<rparr>) (messages d)\<rparr>"

definition count_thread_replies :: "uuid \<Rightarrow> db \<Rightarrow> int" where
  "count_thread_replies thread d = count_where (\<lambda>m. m_thread_id m = Some thread \<and> m_deleted_at m = None) (messages d)"

section \<open>Reactions\<close>

text \<open>\<^verbatim>\<open>^.{1,16}$\<close> counts characters; a byte that continues one is between 128 and 191.\<close>

definition utf8_length :: "string \<Rightarrow> nat" where
  "utf8_length s = length (filter (\<lambda>c. \<not> (128 \<le> (of_char c :: nat) \<and> (of_char c :: nat) < 192)) s)"

definition add_reaction :: "uuid \<Rightarrow> uuid \<Rightarrow> uuid \<Rightarrow> string \<Rightarrow> db \<Rightarrow> db \<times> reaction res" where
  "add_reaction org_id m user emoji d =
     (if utf8_length emoji < 1 \<or> 16 < utf8_length emoji then (d, fail (check_violation ''reactions_emoji_check''))
      else if org_id \<notin> set (orgs d) then (d, fail (fk_violation ''reactions_organization_id_fkey''))
      else if m \<notin> m_id ` set (messages d) then (d, fail (fk_violation ''reactions_message_id_fkey''))
      else if user \<notin> set (users d) then (d, fail (fk_violation ''reactions_user_id_fkey''))
      else if \<exists>r \<in> set (reactions d). re_message_id r = m \<and> re_user_id r = user \<and> re_emoji r = emoji
      then (d, fail (unique_violation ''reactions_message_id_user_id_emoji_key''))
      else (let r = \<lparr>re_id = next_id d, re_organization_id = org_id, re_message_id = m, re_user_id = user,
                 re_emoji = emoji, re_created_at = now d\<rparr>
            in (d\<lparr>reactions := reactions d @ [r], next_id := next_id d + 1\<rparr>, ok r)))"

definition remove_reaction :: "uuid \<Rightarrow> uuid \<Rightarrow> uuid \<Rightarrow> string \<Rightarrow> db \<Rightarrow> db" where
  "remove_reaction org_id m user emoji d =
     d\<lparr>reactions := filter (\<lambda>r. \<not> (re_organization_id r = org_id \<and> re_message_id r = m \<and> re_user_id r = user
         \<and> re_emoji r = emoji)) (reactions d)\<rparr>"

definition list_reactions :: "uuid \<Rightarrow> db \<Rightarrow> reaction list" where
  "list_reactions m d = filter (\<lambda>r. re_message_id r = m) (reactions d)"

text \<open>\<^verbatim>\<open>HydrateReactions\<close> pairs each message with its reactions and its number of replies.\<close>

definition hydrate_reactions :: "message list \<Rightarrow> db \<Rightarrow> (message \<times> reaction list \<times> int) list" where
  "hydrate_reactions ms d = map (\<lambda>m. (m, list_reactions (m_id m) d, count_thread_replies (m_id m) d)) ms"

section \<open>The general channel\<close>

definition GeneralChannelName :: string where "GeneralChannelName = ''general''"

definition welcome_text :: string where
  "welcome_text = ''Welcome to #general '' @ [CHR 0xE2, CHR 0x80, CHR 0x94]
     @ '' humans and agents collaborate here. Mention an agent or just ask.''"

definition post_welcome :: "uuid \<Rightarrow> uuid \<Rightarrow> db \<Rightarrow> db" where
  "post_welcome org_id c d = fst (create_message org_id c None ''system'' None welcome_text d)"

definition ensure_general_channel :: "uuid \<Rightarrow> uuid \<Rightarrow> db \<Rightarrow> db \<times> channel res" where
  "ensure_general_channel org_id owner d =
     (case get_channel_by_name org_id GeneralChannelName d of
        Inr c \<Rightarrow> (d, ok c)
      | Inl e \<Rightarrow>
          if e \<noteq> no_rows then (d, fail e)
          else (case create_channel org_id None GeneralChannelName ''General'' ''Home for humans and agents'' [] ''standard'' owner d of
                  (d, Inl e) \<Rightarrow>
                    (case get_channel_by_name org_id GeneralChannelName d of
                       Inr c \<Rightarrow> (d, ok c) | Inl _ \<Rightarrow> (d, fail e))
                | (d, Inr c) \<Rightarrow> (post_welcome org_id (ch_id c) d, ok c)))"

section \<open>Lemmas\<close>

text \<open>No row has an ID that is still to be given out.\<close>

definition ids_below :: "('r \<Rightarrow> uuid) \<Rightarrow> 'r list \<Rightarrow> db \<Rightarrow> bool" where
  "ids_below k rs d \<longleftrightarrow> (\<forall>r \<in> set rs. k r < next_id d)"

lemma ids_below_fresh: "ids_below k rs d \<Longrightarrow> r \<in> set rs \<Longrightarrow> k r \<noteq> next_id d"
  by (auto simp: ids_below_def)

lemma insert_message_ok:
  "insert_message m d = ok (m', d') \<Longrightarrow>
    m' = m\<lparr>m_id := next_id d, m_created_at := now d, m_updated_at := now d\<rparr>
    \<and> d' = d\<lparr>messages := messages d @ [m'], next_id := next_id d + 1\<rparr>"
  by (auto simp: insert_message_def Let_def split: if_splits)

lemma count_reply_frame [simp]: "messages (count_reply i c d) = messages d"
  by (simp add: count_reply_def)

lemma create_message_ok:
  assumes "create_message org_id c thread sender_type sender body d = (d', ok m)"
  shows "messages d' = messages d @ [m] \<and> m_id m = next_id d \<and> m_organization_id m = org_id \<and> m_channel_id m = c
    \<and> m_thread_id m = thread \<and> m_body m = body \<and> m_deleted_at m = None"
  using assms
  by (auto simp: create_message_def dest!: insert_message_ok split: if_splits sum.splits option.splits)

lemma hd_newest_append: "hd (newest (clamp_limit 100 n) (xs @ [x])) = x"
  by (cases "nat (clamp_limit 100 n)") (auto simp: newest_def clamp_limit_def split: if_splits)

lemma set_newest: "set (newest n xs) \<subseteq> set xs"
  using set_take_subset [of "nat n" "rev xs"] by (simp add: newest_def)

lemma post_welcome_channels [simp]: "channels (post_welcome org_id c d) = channels d"
  by (auto simp: post_welcome_def create_message_def dest!: insert_message_ok split: sum.splits)

lemma insert_channel_ok:
  "insert_channel c d = ok (c', d') \<Longrightarrow>
    c' = c\<lparr>ch_id := next_id d, ch_created_at := now d, ch_updated_at := now d\<rparr> \<and> channels d' = channels d @ [c']"
  by (auto simp: insert_channel_def Let_def split: if_splits)

lemma insert_channel_user_channels [simp]: "channels (fst (insert_channel_user c u r d)) = channels d"
  by (simp add: insert_channel_user_def)

lemma create_channel_ok:
  assumes "create_channel org_id p name dn ds tp ct creator d = (d', ok c)"
  shows "channels d' = channels d @ [c] \<and> ch_id c = next_id d \<and> ch_organization_id c = org_id
    \<and> ch_name c = to_lower (trim_space name)"
  using assms by (auto simp: create_channel_def Let_def dest!: insert_channel_ok split: sum.splits)

lemma create_channel_fail: "create_channel org_id p name dn ds tp ct creator d = (d', fail e) \<Longrightarrow> d' = d"
  by (auto simp: create_channel_def Let_def split: sum.splits)

lemma get_channel_by_name_new:
  assumes "ids_below ch_id (channels d) d" and "get_channel_by_name org_id name d = fail e"
    and "channels d' = channels d @ [c]" and "ch_id c = next_id d" and "ch_organization_id c = org_id"
    and "ch_name c = to_lower (trim_space name)"
  shows "get_channel_by_name org_id name d' = ok c"
proof -
  let ?P = "\<lambda>c. ch_organization_id c = org_id \<and> ch_name c = to_lower (trim_space name)"
  have none: "\<forall>x \<in> set (channels d). \<not> ?P x"
  proof (cases "query_row ?P (channels d)")
    case (Inl e)
    then show ?thesis by (simp add: query_row_cases)
  next
    case (Inr x)
    then have x: "x \<in> set (channels d)" "ch_organization_id x = org_id" using query_row_okD by fastforce+
    have "get_channel org_id (ch_id x) d = fail e" using assms(2) Inr by (simp add: get_channel_by_name_def)
    then have False using x by (auto simp: get_channel_def query_row_cases)
    then show ?thesis ..
  qed
  have "query_row ?P (channels d') = ok c"
    unfolding assms(3) by (rule query_row_append_fresh) (use none assms(5,6) in auto)
  moreover have "get_channel org_id (ch_id c) d' = ok c"
    unfolding get_channel_def assms(3)
    by (rule query_row_append_fresh) (use assms(1,4,5) ids_below_fresh in fastforce)+
  ultimately show ?thesis by (simp add: get_channel_by_name_def)
qed

lemma general_name [simp]: "to_lower (trim_space GeneralChannelName) = GeneralChannelName"
  by code_simp

lemma ensure_general_again:
  assumes fresh: "ids_below ch_id (channels d) d" and run: "ensure_general_channel org_id owner d = (d', ok c)"
  shows "get_channel_by_name org_id GeneralChannelName d' = ok c"
proof (cases "get_channel_by_name org_id GeneralChannelName d")
  case (Inr x)
  then show ?thesis using run by (simp add: ensure_general_channel_def)
next
  case (Inl e)
  obtain d1 r where cc: "create_channel org_id None GeneralChannelName ''General'' ''Home for humans and agents'' []
      ''standard'' owner d = (d1, r)" by fastforce
  show ?thesis
  proof (cases r)
    case (Inl e')
    then have "d1 = d" using cc create_channel_fail by blast
    then show ?thesis using run cc Inl \<open>get_channel_by_name org_id GeneralChannelName d = Inl e\<close>
      by (auto simp: ensure_general_channel_def split: if_splits)
  next
    case (Inr x)
    then have x: "channels d1 = channels d @ [x]" "ch_id x = next_id d" "ch_organization_id x = org_id"
      "ch_name x = to_lower (trim_space GeneralChannelName)" using cc create_channel_ok by blast+
    have "c = x" "d' = post_welcome org_id (ch_id x) d1"
      using run cc Inr Inl by (auto simp: ensure_general_channel_def split: if_splits)
    then show ?thesis
      using get_channel_by_name_new [OF fresh Inl, of d' x] x by simp
  qed
qed

lemma insert_project_ok:
  "insert_project org_id n s ds ob ic u d = ok (p, d') \<Longrightarrow>
    projects d' = projects d @ [p] \<and> pr_id p = next_id d \<and> pr_organization_id p = org_id \<and> pr_slug p = s"
  by (auto simp: insert_project_def Let_def split: if_splits)

lemma insert_lead_projects [simp]: "projects (insert_lead p u d) = projects d"
  by (simp add: insert_lead_def)

lemma home_slug [simp]: "to_lower (trim_space ''home'') = ''home''"
  by code_simp

lemma ensure_home_again:
  assumes run: "ensure_home_project org_id u d = (d', ok i)"
  shows "\<exists>p. get_project_by_slug org_id ''home'' d' = ok p \<and> pr_id p = i"
  using run
  by (auto simp: ensure_home_project_def Let_def get_project_by_slug_def split: sum.splits if_splits)

section \<open>Properties\<close>


definition demo_channel :: "uuid \<Rightarrow> channel" where
  "demo_channel i = \<lparr>ch_id = i, ch_organization_id = 1, ch_project_id = None, ch_name = ''general'',
     ch_display_name = ''General'', ch_description = [], ch_topic = [], ch_channel_type = ''standard'',
     ch_created_by = Some 2, ch_created_at = 0, ch_updated_at = 0\<rparr>"

definition demo_talk :: db where "demo_talk = demo_db\<lparr>channels := [demo_channel 7]\<rparr>"

lemmas demo_talk_simps = demo_talk_def demo_db_def empty_db_def demo_channel_def demo_agent_def


text \<open>
  The bootstrap of an organization is idempotent: what EnsureGeneralChannel and EnsureHomeProject
  return they return again, for any user, without a change to the database but the lead of the home project.
\<close>

theorem bootstrap_idempotent:
  assumes "ids_below ch_id (channels d) d"
    and "ensure_general_channel org_id owner d = (d1, ok c)" and "ensure_home_project org_id creator d1 = (d2, ok i)"
  shows "ensure_general_channel org_id other d1 = (d1, ok c) \<and> ensure_home_project org_id other d2 = (d2, ok i)"
  using ensure_general_again [OF assms(1,2)] ensure_home_again [OF assms(3)]
  by (auto simp: ensure_general_channel_def ensure_home_project_def)

theorem bootstrap_idempotent_witness:
  "\<exists>d1 d2 c i. ensure_general_channel 1 2 demo_db = (d1, ok c) \<and> ensure_home_project 1 2 d1 = (d2, ok i)
    \<and> ensure_general_channel 1 5 d1 = (d1, ok c) \<and> ensure_home_project 1 5 d2 = (d2, ok i)"
proof -
  let ?g = "ensure_general_channel 1 2 demo_db" and ?ok = "case_sum (\<lambda>_. False) (\<lambda>_. True)"
  have "?ok (snd ?g) \<and> ?ok (snd (ensure_home_project 1 2 (fst ?g)))" by code_simp
  then obtain d1 c d2 i where g: "ensure_general_channel 1 2 demo_db = (d1, ok c)"
    and h: "ensure_home_project 1 2 d1 = (d2, ok i)"
    by (cases ?g; cases "ensure_home_project 1 2 (fst ?g)") (auto split: sum.splits)
  show ?thesis using bootstrap_idempotent [OF _ g h] g h by (auto simp: ids_below_def demo_db_def empty_db_def)
qed

text \<open>
  C40: CreateOrganization means to try five slugs, but the first conflict aborts its transaction: for a
  slug that is taken it always fails with the error of the aborted transaction, also when a suffix
  would be free.
\<close>

theorem organization_slug_conflict:
  assumes "org_slug_ok slug" and "slug \<in> og_slug ` set (organizations d)"
  shows "create_organization g name slug owner d = (d\<lparr>next_id := next_id d + 1\<rparr>, fail tx_aborted)"
proof -
  have first: "insert_organization name slug d = fail (unique_violation ''organizations_slug_key'')"
    using assms by (simp add: insert_organization_def)
  have conflict: "is_conflict (unique_violation ''organizations_slug_key'')" "\<not> is_conflict tx_aborted"
    by code_simp+
  have "slug \<noteq> []" using assms(1) by auto
  then show ?thesis
    by (simp add: create_organization_def numeral_eq_Suc first conflict next_slug_def)
qed

theorem organization_slug_conflict_witness:
  "create_organization demo_golib ''other'' ''o'' 2 demo_db = (demo_db\<lparr>next_id := 101\<rparr>, fail tx_aborted)"
  using organization_slug_conflict [of "''o''" demo_db demo_golib "''other''" 2]
  by (simp add: demo_db_def empty_db_def alnum_def less_eq_char_def)

text \<open>
  AddChannelMember does not notice that the user is a member: each call adds a row, of any role, so
  ListChannelMembers shows the user again, and one RemoveChannelMember removes them all.
\<close>

theorem channel_member_twice:
  assumes "c \<in> ch_id ` set (channels d)" and "user \<in> set (users d)" and "role \<in> {[], ''admin'', ''member''}"
  shows "(\<exists>m. list_channel_members c (fst (add_channel_member c user role d)) = list_channel_members c d @ [m]
      \<and> cm_user_id m = Some user \<and> cm_role m = (if role = [] then ''member'' else role))
    \<and> \<not> is_channel_member c user (remove_channel_member c user (fst (add_channel_member c user role d)))"
  using assms
  by (auto simp: add_channel_member_def insert_channel_user_def channel_role_check_def list_channel_members_def
      is_channel_member_def remove_channel_member_def)

theorem channel_member_twice_witness:
  "length (list_channel_members 7 (fst (add_channel_member 7 2 [] (fst (add_channel_member 7 2 [] demo_talk))))) = 2"
proof -
  let ?d = "fst (add_channel_member 7 2 [] demo_talk)"
  have d: "7 \<in> ch_id ` set (channels demo_talk)" "2 \<in> set (users demo_talk)" "list_channel_members 7 demo_talk = []"
    by (simp_all add: demo_talk_simps list_channel_members_def)
  moreover have "7 \<in> ch_id ` set (channels ?d)" "2 \<in> set (users ?d)"
    using d by (simp_all add: add_channel_member_def insert_channel_user_def)
  ultimately show ?thesis using channel_member_twice [of 7 demo_talk 2 "[]"] channel_member_twice [of 7 ?d 2 "[]"]
    by auto
qed

end
