(* ===== verification/ApprovalHandler.thy ===== *)
theory ApprovalHandler
  imports Executor Runs
begin

text \<open>
  \<^verbatim>\<open>backend/internal/http/handlers/approval.go\<close>: what a decision of a user sets in motion. \<^verbatim>\<open>Approve\<close>
  decides the approval, executes the tools that wait for it, sets task and run to running and enqueues a
  job to go on; \<^verbatim>\<open>Reject\<close> marks the executions as failed and does the same. The request is reduced to
  the claims of the user, the ID in the path and the reason in the body; the reply to the decided
  approval or the error text.
\<close>

section \<open>Model\<close>

record claims =
  claim_organization_id :: uuid
  claim_user_id :: uuid

text \<open>\<^verbatim>\<open>encoding/json\<close> of a \<^verbatim>\<open>*domain.ToolExecution\<close>.\<close>

definition opt_str_json :: "string option \<Rightarrow> json" where
  "opt_str_json s = (case s of None \<Rightarrow> JNull | Some x \<Rightarrow> JStr x)"

definition execution_json :: "tool_env \<Rightarrow> tool_execution option \<Rightarrow> json" where
  "execution_json env e =
     (let g = te_go env
      in case e of
           None \<Rightarrow> JNull
         | Some e \<Rightarrow> JObj [(''id'', uuid_json g (ex_id e)), (''organizationId'', uuid_json g (ex_organization_id e)),
             (''agentId'', uuid_json g (ex_agent_id e)), (''taskId'', opt_uuid_json g (ex_task_id e)),
             (''runId'', opt_uuid_json g (ex_run_id e)), (''toolId'', uuid_json g (ex_tool_id e)),
             (''toolName'', JStr (ex_tool_name e)), (''input'', gomap_json (ex_input e)),
             (''output'', gomap_json (ex_output e)), (''status'', JStr (ex_status e)),
             (''approvalId'', opt_uuid_json g (ex_approval_id e)), (''idempotencyKey'', JStr (ex_idempotency_key e)),
             (''error'', opt_str_json (ex_error e)), (''createdAt'', JStr (te_time env (ex_created_at e))),
             (''updatedAt'', JStr (te_time env (ex_updated_at e)))])"

definition path_id :: "golib \<Rightarrow> string \<Rightarrow> uuid" where
  "path_id g s = (case uuid_parse g s of None \<Rightarrow> nil_uuid | Some u \<Rightarrow> u)"

text \<open>The job that continues: in the run when there is one, as a new run of the task otherwise.\<close>

definition continue_job :: "golib \<Rightarrow> uuid \<Rightarrow> uuid \<Rightarrow> uuid \<Rightarrow> uuid option \<Rightarrow> string \<Rightarrow> string \<Rightarrow> uuid \<Rightarrow> job" where
  "continue_job g org_id agent tid rid mid trigger approval_id =
     (let payload = [(''organization_id'', uuid_json g org_id), (''agent_id'', uuid_json g agent),
            (''task_id'', uuid_json g tid), (''correlation_id'', uuid_json g approval_id), (''trigger'', JStr trigger)]
      in case rid of
           Some r \<Rightarrow> (agent_job (uuid_string g r @ mid @ short_id g approval_id) (payload @ [(''run_id'', uuid_json g r)]) 0 0)
                       \<lparr>job_type := ''resume_run''\<rparr>
         | None \<Rightarrow> agent_job (uuid_string g tid @ mid @ short_id g approval_id) payload 0 0)"

text \<open>One row of the loop of \<^verbatim>\<open>Approve\<close>.\<close>

definition announce_execution :: "tool_env \<Rightarrow> uuid \<Rightarrow> approval \<Rightarrow> string \<Rightarrow> exec_result \<Rightarrow> world \<Rightarrow> world" where
  "announce_execution env org_id a tool_name r w =
     (let g = te_go env; aid = (''approvalId'', PJson (uuid_json g (ap_id a))); tl = (''tool'', PJson (JStr tool_name))
      in case r of
           (_, Some err) \<Rightarrow> send_to_org g org_id ''tool.failed'' [aid, tl, (''error'', PJson (JStr err))] w
         | (e, None) \<Rightarrow>
             (let out = (''output'', PJson (gomap_json (Option.bind e ex_output)));
                  w = send_to_org g org_id ''tool.approved'' [aid, tl, out] w
              in send_to_org g org_id ''agent.tool_completed'' [tl, aid, out] w))"

definition resume_row :: "tool_env \<Rightarrow> approval \<Rightarrow> tool_execution \<Rightarrow> json \<Rightarrow> world \<Rightarrow> world" where
  "resume_row env a e result w =
     (case ex_task_id e of
        None \<Rightarrow> w
      | Some tid \<Rightarrow>
          (let g = te_go env; org_id = ex_organization_id e; agent = ex_agent_id e; aid = uuid_json g (ap_id a);
               w = run_db (update_task_status org_id tid ''running'' ''agent'' agent
                     (Some [(''resumed_after_approval'', aid), (''tool_result'', result)])) w;
               w = (case ex_run_id e of
                      None \<Rightarrow> w
                    | Some rid \<Rightarrow>
                        run_db (update_agent_run_status org_id rid ''running'' (Some [(''approval_resumed'', aid)]) None)
                         (run_db (update_agent_run_waiting org_id rid ''running'' 0 None None
                            (Some [(''approval_resumed'', aid), (''tool_result'', result)])) w));
               w = enqueue_job (continue_job g org_id agent tid (ex_run_id e) ''-resume-'' ''approval_received'' (ap_id a)) w
           in send_to_org g org_id ''agent.resumed''
                [(''taskId'', PJson (uuid_json g tid)), (''approvalId'', PJson aid)] w))"

definition approve_row :: "tool_env \<Rightarrow> uuid \<Rightarrow> approval \<Rightarrow> tool_execution \<Rightarrow> world \<Rightarrow> world" where
  "approve_row env org_id a e w =
     (let (w, r) = execute_approved env (ex_id e) w;
          w = announce_execution env org_id a (ex_tool_name e) r w
      in resume_row env a e (execution_json env (fst r)) w)"

definition executions_of :: "uuid \<Rightarrow> db \<Rightarrow> tool_execution list" where
  "executions_of i d = filter (\<lambda>e. ex_approval_id e = Some i) (executions d)"

definition approve :: "tool_env \<Rightarrow> claims \<Rightarrow> string \<Rightarrow> world \<Rightarrow> world \<times> approval res" where
  "approve env c i w =
     (let g = te_go env; org_id = claim_organization_id c
      in case on_db (decide org_id (path_id g i) (claim_user_id c) ''approved'') w of
           (w, Inl e) \<Rightarrow> (w, fail e)
         | (w, Inr a) \<Rightarrow>
             (let w = (if ap_entity_type a = ''tool_execution''
                       then fold (approve_row env org_id a) (executions_of (ap_id a) (w_db w)) w else w)
              in (send_to_org g org_id ''approval.decided''
                    [(''approval'', PApproval a), (''decision'', PJson (JStr ''approved''))] w, ok a)))"

text \<open>\<^verbatim>\<open>Reject\<close>: all rows are marked before the first agent is resumed.\<close>

definition reject_row :: "golib \<Rightarrow> claims \<Rightarrow> string \<Rightarrow> tool_execution \<Rightarrow> world \<Rightarrow> world" where
  "reject_row g c reason e w =
     set_execution (ex_id e) ''failed'' None
       (Some (if reason = [] then ''rejected by '' @ uuid_string g (claim_user_id c) else reason)) w"

definition resume_rejected :: "golib \<Rightarrow> approval \<Rightarrow> string \<Rightarrow> tool_execution \<Rightarrow> world \<Rightarrow> world" where
  "resume_rejected g a reason e w =
     (case ex_task_id e of
        None \<Rightarrow> w
      | Some tid \<Rightarrow>
          (let org_id = ex_organization_id e; agent = ex_agent_id e; aid = uuid_json g (ap_id a);
               w = run_db (update_task_status org_id tid ''running'' ''agent'' agent
                     (Some [(''rejected_approval'', aid), (''reason'', JStr reason)])) w;
               w = (case ex_run_id e of
                      None \<Rightarrow> w
                    | Some rid \<Rightarrow>
                        run_db (create_agent_action rid 999 ''approval_rejected'' None
                            (Some [(''approval_id'', aid), (''reason'', JStr reason)])
                            (Some [(''rejected'', JBool True)]) ''failed'' (Some (ap_id a)))
                         (run_db (update_agent_run_status org_id rid ''running''
                            (Some [(''rejection'', JStr reason), (''approval'', aid)]) None) w));
               w = enqueue_job (continue_job g org_id agent tid (ex_run_id e) ''-rejected-'' ''approval_rejected'' (ap_id a)) w
           in send_to_org g org_id ''agent.resumed'' [(''taskId'', PJson (uuid_json g tid)),
                (''approvalId'', PJson aid), (''decision'', PJson (JStr ''rejected''))] w))"

definition reject :: "tool_env \<Rightarrow> claims \<Rightarrow> string \<Rightarrow> string \<Rightarrow> world \<Rightarrow> world \<times> approval res" where
  "reject env c i reason w =
     (let g = te_go env; org_id = claim_organization_id c
      in case on_db (decide org_id (path_id g i) (claim_user_id c) ''rejected'') w of
           (w, Inl e) \<Rightarrow> (w, fail e)
         | (w, Inr a) \<Rightarrow>
             (let rows = executions_of (ap_id a) (w_db w);
                  w = fold (reject_row g c reason) rows w;
                  w = fold (resume_rejected g a reason) rows w;
                  w = send_to_org g org_id ''approval.decided''
                        [(''approval'', PApproval a), (''decision'', PJson (JStr ''rejected''))] w
              in (send_to_org g org_id ''tool.rejected'' [(''approvalId'', PJson (uuid_json g (ap_id a)))] w, ok a)))"

definition cancel_approval :: "golib \<Rightarrow> claims \<Rightarrow> string \<Rightarrow> world \<Rightarrow> world \<times> approval res" where
  "cancel_approval g c i w =
     on_db (decide (claim_organization_id c) (path_id g i) (claim_user_id c) ''cancelled'') w"

definition get_approval_handler :: "golib \<Rightarrow> claims \<Rightarrow> string \<Rightarrow> db \<Rightarrow> approval res" where
  "get_approval_handler g c i d =
     (case get_approval (claim_organization_id c) (path_id g i) d of
        Inl _ \<Rightarrow> fail ''approval not found'' | Inr a \<Rightarrow> ok a)"

definition list_approvals_handler :: "claims \<Rightarrow> string \<Rightarrow> db \<Rightarrow> approval list" where
  "list_approvals_handler c status d = list_approvals (claim_organization_id c) status 20 d"

section \<open>What a row of an approval changes\<close>

lemma approved_guards_db:
  "w_db (fst (approved_guards env e inp w)) = w_db w \<or>
   (\<exists>es. w_db (fst (approved_guards env e inp w)) = (w_db w)\<lparr>executions := es\<rparr>)"
  unfolding approved_guards_def Let_def
  by (auto simp: set_execution_db split: sum.splits option.splits)

lemma execute_approved_frame [simp]:
  "runs (w_db (fst (execute_approved env i w))) = runs (w_db w)"
  "approvals (w_db (fst (execute_approved env i w))) = approvals (w_db w)"
proof -
  have g: "runs (w_db v) = runs (w_db w) \<and> approvals (w_db v) = approvals (w_db w)"
    if "approved_guards env e inp w = (v, r)" for e inp v r
    using approved_guards_db [of env e inp w] that by auto
  have s: "w_db v = w_db u" if "search_first env n inp u = (v, r)" for n inp u v r
    using search_first_frame [of env n inp u] that by simp
  have c: "w_db v = w_db u" if "call_provider env n inp cr u = (v, r)" for n inp cr u v r
    using call_provider_frame(1) [of env n inp cr u] that by simp
  have "runs (w_db (fst (execute_approved env i w))) = runs (w_db w)
    \<and> approvals (w_db (fst (execute_approved env i w))) = approvals (w_db w)"
    unfolding execute_approved_def Let_def
    by (auto split: sum.splits prod.splits option.splits if_splits dest!: g s c simp: set_execution_db)
  then show "runs (w_db (fst (execute_approved env i w))) = runs (w_db w)"
    "approvals (w_db (fst (execute_approved env i w))) = approvals (w_db w)" by simp_all
qed

lemma update_task_status_frame [simp]:
  "runs (fst (update_task_status org_id i st typ who payload d)) = runs d"
  "approvals (fst (update_task_status org_id i st typ who payload d)) = approvals d"
proof -
  obtain d' r where u: "update_task_status org_id i st typ who payload d = (d', r)" by fastforce
  have "runs d' = runs d \<and> approvals d' = approvals d"
  proof (cases "d' = d")
    case False
    show ?thesis
      by (rule update_task_status_okE [OF u disjI1 [OF False]])
        (auto simp: update_tasks_def insert_task_event_def Let_def inc_tasks_completed_def split: if_splits)
  qed simp
  with u show "runs (fst (update_task_status org_id i st typ who payload d)) = runs d"
    "approvals (fst (update_task_status org_id i st typ who payload d)) = approvals d" by simp_all
qed

lemma update_runs_cases:
  "update_runs org_id i f d = (d, snd (update_runs org_id i f d)) \<or>
   update_runs org_id i f d = (d\<lparr>runs := update_where (\<lambda>r. run_id r = i \<and> run_organization_id r = org_id) f (runs d)\<rparr>, ok ())"
  by (simp add: update_runs_def Let_def)

lemma update_run_approvals [simp]:
  "approvals (fst (update_agent_run_waiting org_id i st n why p out d)) = approvals d"
  "approvals (fst (update_agent_run_status org_id i st out err d)) = approvals d"
  by (simp_all add: update_agent_run_waiting_def update_agent_run_status_def update_runs_def Let_def)

lemma send_to_org_approvals [simp]: "approvals (w_db (send_to_org g org_id t p w)) = approvals (w_db w)"
  by simp

lemma announce_frame [simp]:
  "runs (w_db (announce_execution env org_id a n r w)) = runs (w_db w)"
  "approvals (w_db (announce_execution env org_id a n r w)) = approvals (w_db w)"
  "w_calls (announce_execution env org_id a n r w) = w_calls w"
  by (simp_all add: announce_execution_def Let_def split: prod.split option.split)

lemma resume_row_approvals [simp]: "approvals (w_db (resume_row env a e x w)) = approvals (w_db w)"
  by (simp add: resume_row_def Let_def split: option.split)

lemma approve_row_approvals [simp]: "approvals (w_db (approve_row env org_id a e w)) = approvals (w_db w)"
  by (simp add: approve_row_def split: prod.split) (metis execute_approved_frame(2) fst_conv)

lemma approve_rows_approvals [simp]: "approvals (w_db (fold (approve_row env org_id a) es w)) = approvals (w_db w)"
  by (induction es arbitrary: w) simp_all

section \<open>The run of an approved execution\<close>

definition run_running :: "uuid \<Rightarrow> uuid \<Rightarrow> db \<Rightarrow> bool" where
  "run_running org_id i d \<longleftrightarrow>
     (\<forall>r \<in> set (runs d). run_id r = i \<and> run_organization_id r = org_id \<longrightarrow> run_status r = ''running'')"

lemma running_update:
  assumes "\<And>q. run_id (f q) = run_id q \<and> run_organization_id (f q) = run_organization_id q \<and> run_status (f q) = ''running''"
  shows "run_running org_id i (d\<lparr>runs := update_where (\<lambda>r. run_id r = i \<and> run_organization_id r = org_id) f (runs d)\<rparr>)"
    and "run_running org_id i d \<Longrightarrow> run_running org_id i (d\<lparr>runs := update_where P f (runs d)\<rparr>)"
  using assms by (auto simp: run_running_def update_where_def)

lemma running_waiting:
  "run_running org_id i (fst (update_agent_run_waiting org_id i ''running'' n None None out d))"
  by (simp add: update_agent_run_waiting_def update_runs_def Let_def run_status_check_def opt_ref_def running_update(1))

lemma running_kept:
  "run_running org_id i d \<Longrightarrow> run_running org_id i (fst (update_agent_run_waiting o2 j ''running'' n why p out d))"
  "run_running org_id i d \<Longrightarrow> run_running org_id i (fst (update_agent_run_status o2 j ''running'' out err d))"
  by (simp_all add: update_agent_run_waiting_def update_agent_run_status_def update_runs_def Let_def running_update(2))

lemma running_frame: "runs d' = runs d \<Longrightarrow> run_running org_id i d' = run_running org_id i d"
  by (simp add: run_running_def)

lemma resume_row_kept: "run_running org_id i (w_db w) \<Longrightarrow> run_running org_id i (w_db (resume_row env a e x w))"
  by (auto simp: resume_row_def Let_def running_kept running_frame [OF send_to_org_frame(9)]
      running_frame [OF update_task_status_frame(1)] split: option.split)

lemma resume_row_running:
  "ex_task_id e = Some t \<Longrightarrow> ex_run_id e = Some i \<Longrightarrow>
    run_running (ex_organization_id e) i (w_db (resume_row env a e x w))"
  by (simp add: resume_row_def Let_def running_kept running_waiting running_frame [OF send_to_org_frame(9)])

lemma approve_row_resumes:
  "\<exists>v x. approve_row env org a e w = resume_row env a e x v \<and> runs (w_db v) = runs (w_db w)"
proof -
  obtain v r where ex: "execute_approved env (ex_id e) w = (v, r)" by (cases "execute_approved env (ex_id e) w")
  then have "runs (w_db v) = runs (w_db w)" using execute_approved_frame(1) [of env "ex_id e" w] by simp
  then show ?thesis
    by (intro exI [of _ "announce_execution env org a (ex_tool_name e) r v"] exI [of _ "execution_json env (fst r)"])
      (simp add: approve_row_def ex)
qed

lemma approve_row_runs:
  "run_running org_id i (w_db w) \<Longrightarrow> run_running org_id i (w_db (approve_row env org a e w))"
  "ex_task_id e = Some t \<Longrightarrow> ex_run_id e = Some i \<Longrightarrow>
    run_running (ex_organization_id e) i (w_db (approve_row env org a e w))"
proof -
  obtain v x where v: "approve_row env org a e w = resume_row env a e x v" "runs (w_db v) = runs (w_db w)"
    using approve_row_resumes by blast
  show "run_running org_id i (w_db w) \<Longrightarrow> run_running org_id i (w_db (approve_row env org a e w))"
    unfolding v(1) by (rule resume_row_kept) (simp add: running_frame [OF v(2)])
  show "ex_task_id e = Some t \<Longrightarrow> ex_run_id e = Some i \<Longrightarrow>
      run_running (ex_organization_id e) i (w_db (approve_row env org a e w))"
    unfolding v(1) by (rule resume_row_running)
qed

lemma approve_rows_kept:
  "run_running org_id i (w_db w) \<Longrightarrow> run_running org_id i (w_db (fold (approve_row env org a) es w))"
  by (induction es arbitrary: w) (simp_all add: approve_row_runs(1))

lemma approve_rows_running:
  "e \<in> set es \<Longrightarrow> ex_task_id e = Some t \<Longrightarrow> ex_run_id e = Some i \<Longrightarrow>
    run_running (ex_organization_id e) i (w_db (fold (approve_row env org a) es w))"
  by (induction es arbitrary: w) (auto intro: approve_rows_kept approve_row_runs(2))

lemma decide_db: "decide org_id i who decision d = (d', r) \<Longrightarrow> executions d' = executions d \<and> runs d' = runs d"
  by (erule decide_cases) simp_all

lemma approve_running:
  assumes "approve env c s w = (w', ok a)" and "ap_entity_type a = ''tool_execution''"
    and "e \<in> set (executions_of (ap_id a) (w_db w))" and "ex_task_id e = Some t" and "ex_run_id e = Some i"
  shows "run_running (ex_organization_id e) i (w_db w')"
  using assms
  by (auto simp: approve_def Let_def on_db_def executions_of_def running_frame [OF send_to_org_frame(9)]
      split: sum.splits prod.splits dest!: decide_db intro!: approve_rows_running)

section \<open>Properties\<close>

lemma decide_again:
  assumes "\<And>x. x \<in> set (approvals d) \<Longrightarrow> ap_id x = i \<Longrightarrow> ap_status x \<noteq> ''pending''"
  shows "\<exists>e. decide org_id i who decision d = (d, fail e)"
proof -
  obtain d' r where u: "decide org_id i who decision d = (d', r)" by fastforce
  have "d' = d \<and> (\<exists>e. r = fail e)"
    by (rule decide_cases [OF u]) (use assms query_row_okD in fastforce)+
  with u show ?thesis by blast
qed

text \<open>
  C38: an approval is acted on once. After \<^verbatim>\<open>Approve\<close> has answered with the approval, any further \<^verbatim>\<open>Approve\<close>,
  \<^verbatim>\<open>Reject\<close> or \<^verbatim>\<open>Cancel\<close> of it, by any user, is refused and changes nothing: no tool runs, no job is enqueued,
  no event is sent.
\<close>

theorem approve_once:
  assumes "approve env c s w = (w', ok a)" and "approvals_wf (w_db w)" and "path_id (te_go env) s' = path_id (te_go env) s"
  shows "\<exists>e1 e2 e3. approve env c' s' w' = (w', fail e1) \<and> reject env c' s' reason w' = (w', fail e2)
    \<and> cancel_approval (te_go env) c' s' w' = (w', fail e3)"
proof -
  let ?g = "te_go env"
  obtain d1 where d: "decide (claim_organization_id c) (path_id ?g s) (claim_user_id c) ''approved'' (w_db w) = (d1, ok a)"
    and w': "approvals (w_db w') = approvals d1"
    using assms(1) by (auto simp: approve_def Let_def on_db_def split: prod.splits sum.splits if_splits)
  have wf1: "approvals_wf d1" using approval_op_rows [OF approval_op.decide assms(2)] d by (metis fst_conv)
  from decide_effect [OF d assms(2)] have a: "a \<in> set (approvals d1)" "ap_id a = path_id ?g s" "ap_status a = ''approved''"
    by (auto simp: get_approval_def dest: query_row_okD)
  have "ap_status x \<noteq> ''pending''" if "x \<in> set (approvals d1)" "ap_id x = path_id ?g s'" for x
    using that a wf1 distinct_same [of "approvals d1" x a] by (auto simp: approvals_wf_def assms(3))
  then have again: "\<exists>e. decide o2 (path_id ?g s') who dec (w_db w') = (w_db w', fail e)" for o2 who dec
    by (intro decide_again) (simp add: w')
  obtain e1 where e1: "decide (claim_organization_id c') (path_id ?g s') (claim_user_id c') ''approved'' (w_db w') = (w_db w', fail e1)"
    using again by blast
  obtain e2 where e2: "decide (claim_organization_id c') (path_id ?g s') (claim_user_id c') ''rejected'' (w_db w') = (w_db w', fail e2)"
    using again by blast
  obtain e3 where e3: "decide (claim_organization_id c') (path_id ?g s') (claim_user_id c') ''cancelled'' (w_db w') = (w_db w', fail e3)"
    using again by blast
  show ?thesis
    by (simp add: approve_def reject_def cancel_approval_def on_db_def e1 e2 e3)
qed

definition demo_claims :: claims where "demo_claims = \<lparr>claim_organization_id = 1, claim_user_id = 2\<rparr>"

definition waiting_approval :: string where "waiting_approval = nat_str (ap_id (hd (approvals (w_db after_email))))"

definition after_approve :: world where "after_approve = fst (approve demo_env demo_claims waiting_approval after_email)"

lemma after_email_wf: "approvals_wf (w_db after_email)"
  by (simp add: approvals_wf_def list_all_iff [symmetric]) code_simp

theorem approve_once_witness:
  "length (w_calls after_approve) = 1
   \<and> (\<exists>e. approve demo_env demo_claims waiting_approval after_approve = (after_approve, fail e))"
proof -
  have "\<not> isl (snd (approve demo_env demo_claims waiting_approval after_email))" by code_simp
  then obtain a where "approve demo_env demo_claims waiting_approval after_email = (after_approve, ok a)"
    unfolding after_approve_def by (metis isl_def prod.collapse sum.exhaust)
  from approve_once [OF this after_email_wf refl]
  have "\<exists>e. approve demo_env demo_claims waiting_approval after_approve = (after_approve, fail e)" by blast
  moreover have "length (w_calls after_approve) = 1" by code_simp
  ultimately show ?thesis by simp
qed

section \<open>Rejection\<close>

lemma rejected_never_logged: "fst (create_agent_action r n ''approval_rejected'' name inp out st corr d) = d"
  by (simp add: create_agent_action_def action_type_check_def)

lemma update_task_status_more [simp]:
  "actions (fst (update_task_status org_id i st typ who payload d)) = actions d"
  "executions (fst (update_task_status org_id i st typ who payload d)) = executions d"
proof -
  obtain d' r where u: "update_task_status org_id i st typ who payload d = (d', r)" by fastforce
  have "actions d' = actions d \<and> executions d' = executions d"
  proof (cases "d' = d")
    case False
    show ?thesis
      by (rule update_task_status_okE [OF u disjI1 [OF False]])
        (auto simp: update_tasks_def insert_task_event_def Let_def inc_tasks_completed_def split: if_splits)
  qed simp
  with u show "actions (fst (update_task_status org_id i st typ who payload d)) = actions d"
    "executions (fst (update_task_status org_id i st typ who payload d)) = executions d" by simp_all
qed

lemma update_run_more [simp]:
  "actions (fst (update_agent_run_status org_id i st out err d)) = actions d"
  "executions (fst (update_agent_run_status org_id i st out err d)) = executions d"
  by (simp_all add: update_agent_run_status_def update_runs_def Let_def)

lemma send_to_org_actions [simp]: "actions (w_db (send_to_org g org_id typ payload w)) = actions (w_db w)"
  by (simp add: send_to_org_def new_uuid_def split: option.split)

lemma resume_rejected_frame [simp]:
  "actions (w_db (resume_rejected g a reason e w)) = actions (w_db w)"
  "executions (w_db (resume_rejected g a reason e w)) = executions (w_db w)"
  "w_calls (resume_rejected g a reason e w) = w_calls w"
  by (simp_all add: resume_rejected_def Let_def rejected_never_logged split: option.split)

lemma resume_all_frame [simp]:
  "actions (w_db (fold (resume_rejected g a reason) es w)) = actions (w_db w)"
  "executions (w_db (fold (resume_rejected g a reason) es w)) = executions (w_db w)"
  "w_calls (fold (resume_rejected g a reason) es w) = w_calls w"
  by (induction es arbitrary: w) simp_all

definition reject_msg :: "golib \<Rightarrow> claims \<Rightarrow> string \<Rightarrow> string" where
  "reject_msg g c reason = (if reason = [] then ''rejected by '' @ uuid_string g (claim_user_id c) else reason)"

lemma reject_row_frame [simp]:
  "w_calls (reject_row g c reason e w) = w_calls w"
  "w_db (reject_row g c reason e w) = (w_db w)\<lparr>executions :=
     mark (ex_id e) ''failed'' None (Some (reject_msg g c reason)) (now (w_db w)) (executions (w_db w))\<rparr>"
  by (simp_all add: reject_row_def reject_msg_def set_execution_db)

lemma reject_all_frame [simp]:
  "actions (w_db (fold (reject_row g c reason) es w)) = actions (w_db w)"
  "w_calls (fold (reject_row g c reason) es w) = w_calls w"
  by (induction es arbitrary: w) simp_all

definition ended :: "uuid \<Rightarrow> string \<Rightarrow> tool_execution list \<Rightarrow> bool" where
  "ended i msg es \<longleftrightarrow> (\<forall>e \<in> set es. ex_id e = i \<longrightarrow> ex_status e = ''failed'' \<and> ex_error e = Some msg)"

lemma ended_simps:
  "ended i msg []"
  "ended i msg (e # es) \<longleftrightarrow> (ex_id e = i \<longrightarrow> ex_status e = ''failed'' \<and> ex_error e = Some msg) \<and> ended i msg es"
  by (simp_all add: ended_def)

lemma mark_simps:
  "mark i st out err t [] = []"
  "mark i st out err t (e # es) =
     (if ex_id e = i then e\<lparr>ex_status := st, ex_output := out, ex_error := err, ex_updated_at := t\<rparr> else e)
     # mark i st out err t es"
  by (simp_all add: mark_def update_where_def)

lemma ended_mark: "ended i msg (mark i ''failed'' out (Some msg) t es)"
  "ended i msg es \<Longrightarrow> ended i msg (mark j ''failed'' out (Some msg) t es)"
  by (induction es) (simp_all add: ended_simps mark_simps)

lemma reject_all_kept:
  "ended i (reject_msg g c reason) (executions (w_db w)) \<Longrightarrow>
    ended i (reject_msg g c reason) (executions (w_db (fold (reject_row g c reason) es w)))"
  by (induction es arbitrary: w) (simp_all add: ended_mark)

lemma reject_all_ended:
  "i \<in> ex_id ` set es \<Longrightarrow> ended i (reject_msg g c reason) (executions (w_db (fold (reject_row g c reason) es w)))"
proof (induction es arbitrary: w)
  case (Cons e es)
  show ?case
  proof (cases "i = ex_id e")
    case True
    have "ended i (reject_msg g c reason) (executions (w_db (reject_row g c reason e w)))"
      unfolding True reject_row_frame(2) by (simp add: ended_mark(1))
    then show ?thesis using reject_all_kept by simp
  next
    case False
    then show ?thesis using Cons by simp
  qed
qed simp

text \<open>
  A rejection makes no call and ends every execution that waits for it as failed with the reason given;
  it also means to record an action in each run, but the type \<^verbatim>\<open>approval_rejected\<close> is none the table
  accepts, so no action is ever recorded.
\<close>

theorem reject_effect:
  assumes "reject env c s reason w = (w', ok a)" and "e \<in> set (executions_of (ap_id a) (w_db w))"
    and "x \<in> set (executions (w_db w'))" and "ex_id x = ex_id e"
  shows "ex_status x = ''failed''
    \<and> ex_error x = Some (if reason = [] then ''rejected by '' @ uuid_string (te_go env) (claim_user_id c) else reason)
    \<and> w_calls w' = w_calls w \<and> actions (w_db w') = actions (w_db w)"
proof -
  let ?g = "te_go env"
  obtain d1 where d: "decide (claim_organization_id c) (path_id ?g s) (claim_user_id c) ''rejected'' (w_db w) = (d1, ok a)"
    using assms(1) by (auto simp: reject_def Let_def on_db_def split: prod.splits sum.splits)
  have d1: "executions d1 = executions (w_db w) \<and> actions d1 = actions (w_db w)"
    using d by (rule decide_cases) simp_all
  have es: "executions_of (ap_id a) d1 = executions_of (ap_id a) (w_db w)" by (simp add: executions_of_def d1)
  have i: "ex_id e \<in> ex_id ` set (executions_of (ap_id a) (w_db w))" using assms(2) by simp
  have "w_calls w' = w_calls w \<and> actions (w_db w') = actions (w_db w)"
    and w': "executions (w_db w') = executions (w_db (fold (reject_row ?g c reason) (executions_of (ap_id a) (w_db w)) (w\<lparr>w_db := d1\<rparr>)))"
    using assms(1) d d1 es by (auto simp: reject_def Let_def on_db_def)
  then show ?thesis
    using reject_all_ended [OF i, of ?g c reason "w\<lparr>w_db := d1\<rparr>"] assms(3,4)
    by (simp add: ended_def reject_msg_def)
qed

theorem reject_effect_witness:
  "\<exists>x. executions (w_db (fst (reject demo_env demo_claims waiting_approval ''no'' after_email))) = [x]
    \<and> ex_status x = ''failed'' \<and> ex_error x = Some ''no''"
proof -
  let ?r = "reject demo_env demo_claims waiting_approval ''no'' after_email"
  have n: "\<not> isl (snd ?r)" "length (executions (w_db (fst ?r))) = 1" "length (executions (w_db after_email)) = 1"
    "map ex_id (executions (w_db (fst ?r))) = map ex_id (executions (w_db after_email))"
    "map ex_approval_id (executions (w_db after_email)) = [case snd ?r of Inl _ \<Rightarrow> None | Inr a \<Rightarrow> Some (ap_id a)]"
    by code_simp+
  obtain a where r: "?r = (fst ?r, ok a)" using n(1) by (metis isl_def prod.collapse sum.exhaust)
  obtain x y where x: "executions (w_db (fst ?r)) = [x]" and y: "executions (w_db after_email) = [y]"
    using n(2,3) by (auto simp: length_Suc_conv)
  have "y \<in> set (executions_of (ap_id a) (w_db after_email))"
    using n(5) y by (subst (asm) r) (simp add: executions_of_def)
  from reject_effect [OF r this, of x] show ?thesis using x n(4) y by simp
qed

end
