(* ===== verification/Context.thy ===== *)
theory Context
  imports Security Executor Conversations Runs Decision
begin

text \<open>
  What a run shows the language model: \<^verbatim>\<open>backend/internal/runtime/context.go\<close> (the bounded context, the
  conversation, the transition table of the runtime), the tool definitions of
  \<^verbatim>\<open>execution.go\<close>, and from \<^verbatim>\<open>runtime.go\<close> the choice of model and provider and the messages.

  The runtime gets its collaborators as interfaces: the language models, the retriever, the memory
  service. They are the fields of \<open>runtime_env\<close>: a model answers depending on all that was asked so
  far, the retriever reads and the memory service changes the database.
\<close>

section \<open>The collaborators\<close>

record retrieval_result =
  rr_title :: string
  rr_content :: string
  rr_score :: rat

record memory_svc =
  ms_retrieve :: "uuid \<Rightarrow> uuid option \<Rightarrow> uuid option \<Rightarrow> string \<Rightarrow> int \<Rightarrow> rat \<Rightarrow> db \<Rightarrow> db \<times> memory list res"
  ms_create :: "uuid \<Rightarrow> uuid option \<Rightarrow> uuid option \<Rightarrow> string \<Rightarrow> string \<Rightarrow> string \<Rightarrow> string \<Rightarrow> rat \<Rightarrow> db \<Rightarrow> db \<times> memory res"

text \<open>
  \<open>rt_done\<close> is \<^verbatim>\<open>ctx.Done()\<close>; \<open>rt_caps\<close> is the text \<^verbatim>\<open>fmt\<close> gives a slice of capability structs;
  \<open>rt_sort\<close> is \<^verbatim>\<open>sort.Slice\<close>, which leaves the order of equal elements open.
\<close>

record runtime_env =
  rt_go :: golib
  rt_time :: "time \<Rightarrow> string"
  rt_tools :: "tool_env option"
  rt_model :: "string \<Rightarrow> (completion_request list \<Rightarrow> (string \<times> usage) res) option"
  rt_search :: "(uuid \<Rightarrow> uuid \<Rightarrow> uuid \<Rightarrow> string \<Rightarrow> db \<Rightarrow> retrieval_result list res) option"
  rt_memory :: "memory_svc option"
  rt_autonomy :: bool
  rt_done :: "world \<Rightarrow> bool"
  rt_caps :: "agent_capability list \<Rightarrow> string"
  rt_sort :: "(agent \<Rightarrow> agent \<Rightarrow> bool) \<Rightarrow> agent list \<Rightarrow> agent list"

section \<open>The context\<close>

abbreviation nl :: string where "nl \<equiv> [CHR 0x0A]"

definition get_role :: "agent \<Rightarrow> string" where
  "get_role a = (case ag_version a of None \<Rightarrow> ag_purpose a
     | Some v \<Rightarrow> if ver_role v \<noteq> [] then ver_role v else ag_purpose a)"

definition get_objective :: "agent \<Rightarrow> string" where
  "get_objective a = (case ag_version a of None \<Rightarrow> ag_purpose a
     | Some v \<Rightarrow> if ver_objective v \<noteq> [] then ver_objective v else ag_purpose a)"

definition agent_part :: "runtime_env \<Rightarrow> agent \<Rightarrow> string" where
  "agent_part env a =
     ''AGENT DEFINITION:'' @ nl @ ''Name: '' @ ag_name a @ nl @ ''Role: '' @ get_role a @ nl @ ''Purpose: '' @ ag_purpose a @ nl
     @ ''Objective: '' @ get_objective a @ nl
     @ (case ag_version a of None \<Rightarrow> []
        | Some v \<Rightarrow> ''Instructions: '' @ sanitize_user_content (ver_instructions v) @ nl
            @ ''Capabilities: '' @ rt_caps env (ver_capabilities v) @ nl
            @ ''Behavioral Rules: '' @ fmt_v (rt_go env) (JArr (map JStr (ver_behavioral_rules v))) @ nl)"

definition project_part :: "project option \<Rightarrow> string" where
  "project_part p = nl @ ''PROJECT:'' @ nl
     @ (case p of None \<Rightarrow> []
        | Some p \<Rightarrow> ''Name: '' @ pr_name p @ nl @ ''Objective: '' @ pr_objective p @ nl @ ''Description: '' @ pr_description p @ nl)"

definition task_part :: "golib \<Rightarrow> task \<Rightarrow> string" where
  "task_part g t = nl @ ''TASK:'' @ nl @ ''Title: '' @ sanitize_user_content (t_title t) @ nl
     @ ''Description: '' @ sanitize_user_content (t_description t) @ nl @ ''Status: '' @ t_status t @ nl
     @ ''Priority: '' @ t_priority t @ nl
     @ (case t_parent_task_id t of None \<Rightarrow> [] | Some p \<Rightarrow> ''Parent: '' @ uuid_string g p @ nl)"

text \<open>\<^verbatim>\<open>s[len(s)-n:]\<close> when \<^verbatim>\<open>s\<close> is longer than \<^verbatim>\<open>n\<close>.\<close>

definition last_n :: "nat \<Rightarrow> 'a list \<Rightarrow> 'a list" where
  "last_n n xs = drop (length xs - n) xs"

definition conversation_part :: "string list \<Rightarrow> string" where
  "conversation_part ms = nl @ ''CONVERSATION (last 5):'' @ nl
     @ concat (map (\<lambda>m. sanitize_user_content m @ nl) (last_n 5 ms))"

fun knowledge_lines :: "golib \<Rightarrow> nat \<Rightarrow> retrieval_result list \<Rightarrow> string" where
  "knowledge_lines g i [] = []"
| "knowledge_lines g i (r # rs) =
     (if 3 \<le> i then []
      else ''['' @ nat_str (i + 1) @ ''] '' @ rr_title r @ '': '' @ sanitize_user_content (take 300 (rr_content r))
        @ '' (score '' @ num_fixed2 g (rr_score r) @ '')'' @ nl @ knowledge_lines g (i + 1) rs)"

definition knowledge_part :: "golib \<Rightarrow> retrieval_result list \<Rightarrow> string" where
  "knowledge_part g rs = nl @ ''RETRIEVED KNOWLEDGE (permission-filtered, top 3):'' @ nl
     @ (if rs = [] then ''none'' @ nl else knowledge_lines g 0 rs)"

section \<open>Memories in the context\<close>

text \<open>Live memories, the first of each text.\<close>

fun live_memories :: "string set \<Rightarrow> memory list \<Rightarrow> memory list" where
  "live_memories seen [] = []"
| "live_memories seen (m # ms) =
     (if mem_status m \<in> {''archived'', ''superseded'', ''stale'', ''merged''} then live_memories seen ms
      else let norm = to_lower (trim_space (mem_content m))
           in if norm \<in> seen then live_memories seen ms else m # live_memories (insert norm seen) ms)"

definition ranks_before :: "memory \<Rightarrow> memory \<Rightarrow> bool" where
  "ranks_before m n \<longleftrightarrow> mem_confidence n < mem_confidence m
     \<or> (mem_confidence m = mem_confidence n \<and> mem_importance n < mem_importance m)"

text \<open>The inner loop for one \<^verbatim>\<open>i\<close>: what stands at \<^verbatim>\<open>i\<close> is swapped with each later element that ranks before it.\<close>

fun exchange :: "memory \<Rightarrow> memory list \<Rightarrow> memory \<times> memory list" where
  "exchange x [] = (x, [])"
| "exchange x (y # ys) =
     (if ranks_before y x then let (h, r) = exchange y ys in (h, x # r) else let (h, r) = exchange x ys in (h, y # r))"

lemma length_exchange: "exchange x ys = (h, r) \<Longrightarrow> length r = length ys"
  by (induction x ys arbitrary: h r rule: exchange.induct) (auto split: if_splits prod.splits)

function exchange_sort :: "memory list \<Rightarrow> memory list" where
  "exchange_sort [] = []"
| "exchange_sort (x # xs) = fst (exchange x xs) # exchange_sort (snd (exchange x xs))"
  by pat_completeness auto
termination
proof (relation "measure length")
  fix x :: memory and xs :: "memory list"
  show "(snd (exchange x xs), x # xs) \<in> measure length"
    using length_exchange [of x xs] by (cases "exchange x xs") auto
qed simp

definition memory_line :: "golib \<Rightarrow> nat \<Rightarrow> memory \<Rightarrow> string" where
  "memory_line g count m =
     (let content = (if 250 < length (mem_content m) then take 250 (mem_content m) @ ''...'' else mem_content m);
          conf = (if 0 < mem_confidence m then '' [conf:'' @ num_fixed2 g (mem_confidence m) @ '']'' else []);
          src = (if mem_source m \<notin> {[], ''manual'', ''interaction''} then '' src:'' @ mem_source m else [])
      in ''['' @ nat_str (count + 1) @ ''] ('' @ mem_memory_type m @ '':'' @ mem_scope m @ conf @ src @ '') ''
         @ sanitize_user_content content @ nl)"

fun memory_lines :: "golib \<Rightarrow> nat \<Rightarrow> nat \<Rightarrow> memory list \<Rightarrow> string list" where
  "memory_lines g used count [] = []"
| "memory_lines g used count (m # ms) =
     (if 3 \<le> count then []
      else let line = memory_line g count m
           in if 1000 < used + length line then [] else line # memory_lines g (used + length line) (count + 1) ms)"

definition memory_part :: "golib \<Rightarrow> memory list \<Rightarrow> string" where
  "memory_part g ms =
     nl @ ''RELEVANT MEMORIES (bounded, importance >=0.3, ACTIVE only, deduped, confidence-aware):'' @ nl
     @ (if ms = [] then ''none'' @ nl
        else let ls = memory_lines g 0 0 (exchange_sort (live_memories {} ms))
             in if ls = [] then ''none (filtered duplicates/superseded)'' @ nl else concat ls)"

section \<open>The rest of the context\<close>


definition team_part :: "golib \<Rightarrow> uuid option \<Rightarrow> db \<Rightarrow> string" where
  "team_part g tm d = nl @ ''TEAM CONTEXT:'' @ nl
     @ (case tm of None \<Rightarrow> []
        | Some i \<Rightarrow> concat (map (\<lambda>m. ''- '' @ short_id g (tm_agent_id m) @ '' ('' @ tm_role m @ ''): '' @ tm_responsibilities m @ nl)
            (list_team_members i d)))"

definition capability_names :: "agent \<Rightarrow> string" where
  "capability_names a = (case ag_version a of
       Some v \<Rightarrow> if ver_capabilities v \<noteq> [] then join '','' (map cap_name (ver_capabilities v)) else join '','' (ag_capabilities a)
     | None \<Rightarrow> join '','' (ag_capabilities a))"

definition colleagues_part :: "golib \<Rightarrow> agent \<Rightarrow> project option \<Rightarrow> task \<Rightarrow> db \<Rightarrow> string" where
  "colleagues_part g a p t d = nl @ ''AVAILABLE PROJECT AGENTS (for delegation '' @ [CHR 0xE2, CHR 0x80, CHR 0x94]
     @ '' choose by ID if you need help):'' @ nl
     @ (if p = None then []
        else concat (map (\<lambda>b. ''- '' @ ag_name b @ '' | ID:'' @ uuid_string g (ag_id b) @ '' | Role:'' @ get_role b
               @ '' | Capabilities:'' @ capability_names b @ nl)
             (filter (\<lambda>b. ag_id b \<noteq> ag_id a) (list_project_agents (t_project_id t) d))))"

definition policy_part :: "golib \<Rightarrow> agent \<Rightarrow> string" where
  "policy_part g a = nl @ ''PERMISSIONS/POLICIES:'' @ nl @ ''Autonomy: '' @ ag_autonomy_level a @ nl
     @ (case ag_version a of None \<Rightarrow> []
        | Some v \<Rightarrow> (case ver_approval_policy v of None \<Rightarrow> [] | Some m \<Rightarrow> ''Approval: '' @ fmt_v g (JObj m) @ nl))"

definition results_part :: "golib \<Rightarrow> gomap list \<Rightarrow> string" where
  "results_part g outs = nl @ ''PREVIOUS TOOL RESULTS (last 2):'' @ nl
     @ (if outs = [] then ''none'' @ nl else concat (map (\<lambda>m. fmt_v g (JObj m) @ nl) (last_n 2 outs)))"

definition build_agent_context :: "runtime_env \<Rightarrow> agent \<Rightarrow> project option \<Rightarrow> task \<Rightarrow> retrieval_result list \<Rightarrow> memory list
    \<Rightarrow> string list \<Rightarrow> gomap list \<Rightarrow> db \<Rightarrow> string" where
  "build_agent_context env a p t retrieved ms conversation outs d =
     (let g = rt_go env;
          s = agent_part env a @ project_part p @ task_part g t @ conversation_part conversation
            @ knowledge_part g retrieved @ memory_part g ms @ team_part g (t_team_id t) d @ colleagues_part g a p t d
            @ policy_part g a @ results_part g outs
      in if 8000 < length s then take 8000 s @ '' [truncated]'' else s)"

definition load_conversation :: "uuid \<Rightarrow> uuid option \<Rightarrow> int \<Rightarrow> db \<Rightarrow> string list" where
  "load_conversation org_id ch limit d =
     (case ch of None \<Rightarrow> []
      | Some c \<Rightarrow> map (\<lambda>m. m_sender_type m @ '': '' @ sanitize_user_content (m_body m))
          (list_messages org_id c None None (if limit \<le> 0 then 5 else limit) False d))"

section \<open>Transitions of the runtime\<close>

definition valid_transitions :: "(string \<times> string list) list" where
  "valid_transitions =
     [(''pending'', [''assigned'', ''cancelled'']),
      (''assigned'', [''running'', ''cancelled'']),
      (''running'', [''waiting'', ''blocked'', ''approval_required'', ''completed'', ''failed'', ''cancelled'']),
      (''waiting'', [''running'', ''completed'', ''failed'', ''cancelled'']),
      (''blocked'', [''running'', ''cancelled'']),
      (''approval_required'', [''running'', ''completed'', ''failed'', ''cancelled'']),
      (''completed'', []),
      (''failed'', [''pending'', ''cancelled'']),
      (''cancelled'', [])]"

definition is_valid_transition :: "string \<Rightarrow> string \<Rightarrow> bool" where
  "is_valid_transition s t = (case map_of valid_transitions s of None \<Rightarrow> False | Some ts \<Rightarrow> t \<in> set ts)"

section \<open>Tool definitions\<close>

definition schema_entry :: "uuid \<Rightarrow> string \<Rightarrow> db \<Rightarrow> gomap" where
  "schema_entry org_id name d =
     (case (case get_tool_by_name (Some org_id) name d of Inl _ \<Rightarrow> None | Inr t \<Rightarrow> tl_input_schema t) of
        Some m \<Rightarrow> [(''input_schema'', JObj m)]
      | None \<Rightarrow> (case (case get_tool_by_name None name d of Inl _ \<Rightarrow> None | Inr t \<Rightarrow> tl_input_schema t) of
          Some m \<Rightarrow> [(''input_schema'', JObj m)] | None \<Rightarrow> []))"

definition assigned_definitions :: "uuid \<Rightarrow> uuid \<Rightarrow> db \<Rightarrow> gomap list" where
  "assigned_definitions org_id agent d =
     concat (map (\<lambda>a. case at_tool a of
           Some t \<Rightarrow> if at_enabled a
             then [[(''name'', JStr (tl_name t)), (''description'', JStr (tl_description t)), (''risk_level'', JStr (tl_risk_level t))]
                   @ schema_entry org_id (tl_name t) d] else []
         | None \<Rightarrow> []) (list_agent_tools agent d))"

definition get_tool_definitions :: "uuid \<Rightarrow> uuid \<Rightarrow> db \<Rightarrow> gomap list" where
  "get_tool_definitions org_id agent d =
     (let out = assigned_definitions org_id agent d
      in if out \<noteq> [] then out
         else take 8 (map (\<lambda>t. [(''name'', JStr (tl_name t)), (''description'', JStr (tl_description t)),
                  (''input_schema'', JObj (the_default [] (tl_input_schema t))), (''risk_level'', JStr (tl_risk_level t))])
                (filter (\<lambda>t. tl_enabled t \<and> tl_risk_level t \<noteq> ''high'' \<and> tl_risk_level t \<noteq> ''critical'') (list_tools org_id d))))"

section \<open>Model, provider and messages\<close>

definition choose_model :: "agent \<Rightarrow> string" where
  "choose_model a = (case ag_version a of None \<Rightarrow> ag_model a
     | Some v \<Rightarrow> (case mget_str (ver_model_configuration v) ''model'' of
         Some m \<Rightarrow> if m \<noteq> [] then m else ag_model a | None \<Rightarrow> ag_model a))"

definition provider_name :: "agent \<Rightarrow> string \<Rightarrow> string" where
  "provider_name a model =
     (if has_prefix model ''anthropic/'' then ''anthropic''
      else if has_prefix model ''openai/'' then ''openai''
      else if has_prefix model ''google/'' then ''google''
      else if contains model ''/'' then ''openrouter'' else ag_provider a)"

definition stub_complete :: "string \<Rightarrow> completion_request list \<Rightarrow> (string \<times> usage) res" where
  "stub_complete model h = ok (''[stub] response for model '' @ model,
     \<lparr>prompt_tokens = 10, completion_tokens = 5, total_tokens = 15\<rparr>)"

definition choose_provider :: "runtime_env \<Rightarrow> agent \<Rightarrow> completion_request list \<Rightarrow> (string \<times> usage) res" where
  "choose_provider env a =
     (let model = choose_model a; name = provider_name a model
      in case (if name \<noteq> [] then rt_model env name else None) of
           Some p \<Rightarrow> p
         | None \<Rightarrow> (case rt_model env ''openrouter'' of
             Some p \<Rightarrow> p
           | None \<Rightarrow> (case rt_model env ''stub'' of Some p \<Rightarrow> p | None \<Rightarrow> stub_complete model)))"

definition ask_model :: "runtime_env \<Rightarrow> agent \<Rightarrow> (string \<times> string) list \<Rightarrow> world \<Rightarrow> world \<times> (string \<times> usage) res" where
  "ask_model env a msgs w =
     (let w = w\<lparr>w_llm := w_llm w @ [\<lparr>cr_model = choose_model a, cr_messages = msgs\<rparr>]\<rparr>
      in (w, choose_provider env a (w_llm w)))"

definition system_text :: "agent \<Rightarrow> string" where
  "system_text a =
     (let i = (case ag_version a of None \<Rightarrow> [] | Some v \<Rightarrow> ver_instructions v);
          i = (if i = [] then ag_system_prompt a else i);
          i = (if i = [] then ''You are a helpful assistant. Complete the assigned task.'' else i)
      in system_prompt_hardening @ i)"

definition decision_schema :: string where
  "decision_schema =
     [CHR 0x0A, CHR 0x0A]
     @ ''Respond ONLY with valid JSON matching AgentDecision schema:''
     @ [CHR 0x0A]
     @ ''{\"status\":\"continue|delegate|waiting|approval_required|needs_human|completed|failed\",\"response\":\"human-readable ''
     @ ''summary\",\"actions\":[{\"type\":\"send_message|create_task|delegate_task|call_tool|request_approval|request_human_input|update_task|complete_task|fail_task|store_memory\",''
     @ ''...}],\"memory_updates\":[{\"content\":\"...\",\"memory_type\":\"working|project|agent|conversation\",''
     @ ''\"scope\":\"task|session|project|agent|conversation|organization\",\"importance\":0.0-1.0}]}''
     @ [CHR 0x0A]
     @ ''Action schemas:''
     @ [CHR 0x0A]
     @ ''- send_message: {\"type\":\"send_message\",\"body\":\"message text\"}''
     @ [CHR 0x0A]
     @ ''- create_task: {\"type\":\"create_task\",\"title\":\"task title\",\"description\":\"details\"}''
     @ [CHR 0x0A]
     @ ''- call_tool: {\"type\":\"call_tool\",\"tool\":\"web_search\",\"input\":{\"query\":\"...\"}}''
     @ [CHR 0x0A]
     @ ''- delegate_task: {\"type\":\"delegate_task\",\"task_id\":\"uuid\",\"agent_id\":\"uuid\"}''
     @ [CHR 0x0A]
     @ ''- complete_task/fail_task: {\"type\":\"complete_task\"} or {\"type\":\"fail_task\"}''
     @ [CHR 0x0A]
     @ ''Valid statuses: continue, delegate, waiting, approval_required, needs_human, completed, failed''
     @ [CHR 0x0A]
     @ ''Example: {\"status\":\"delegate\",\"response\":\"Delegated research\",\"actions\":[{\"type\":\"call_tool\",''
     @ ''\"tool\":\"web_search\",\"input\":{\"query\":\"LinkedIn trends\"}},{\"type\":\"create_task\",\"title\":\"Draft ''
     @ ''posts\",\"description\":\"Create 3 posts\"}]}''"

definition resume_schema :: string where
  "resume_schema =
     [CHR 0x0A, CHR 0x0A]
     @ ''Respond ONLY with valid JSON matching AgentDecision schema:''
     @ [CHR 0x0A]
     @ ''{\"status\":\"continue|delegate|waiting|approval_required|needs_human|completed|failed\",\"response\":\"summary\",''
     @ ''\"actions\":[]}''
     @ [CHR 0x0A]
     @ ''Previous tool results: ''"

text \<open>The tools are added to the second message, after the messages with the outputs were appended.\<close>

definition llm_messages :: "golib \<Rightarrow> agent \<Rightarrow> string \<Rightarrow> gomap list \<Rightarrow> gomap list \<Rightarrow> (string \<times> string) list" where
  "llm_messages g a user_text outs tls =
     [(''system'', system_text a),
      (''user'', user_text @ (if tls \<noteq> [] then nl @ ''Available tools: '' @ fmt_v g (JArr (map JObj tls)) else []))]
     @ map (\<lambda>m. (''user'', ''Previous tool/output '' @ fmt_v g (JObj m))) outs"

text \<open>What a new iteration has before it asks: conversation, knowledge, memories, and from them the context.\<close>

definition retrieve_knowledge :: "runtime_env \<Rightarrow> uuid \<Rightarrow> uuid \<Rightarrow> task \<Rightarrow> string \<Rightarrow> world \<Rightarrow> retrieval_result list" where
  "retrieve_knowledge env org_id agent t q w =
     (case rt_search env of None \<Rightarrow> []
      | Some f \<Rightarrow> (case f org_id agent (t_project_id t) q (w_db w) of Inl _ \<Rightarrow> [] | Inr rs \<Rightarrow> rs))"

definition retrieve_memories :: "runtime_env \<Rightarrow> uuid \<Rightarrow> uuid \<Rightarrow> task \<Rightarrow> string \<Rightarrow> world \<Rightarrow> world \<times> memory list" where
  "retrieve_memories env org_id agent t q w =
     (case rt_memory env of None \<Rightarrow> (w, [])
      | Some s \<Rightarrow> (case on_db (ms_retrieve s org_id (Some agent) (Some (t_project_id t)) q 3 (3/10)) w of
          (w, Inl _) \<Rightarrow> (w, []) | (w, Inr ms) \<Rightarrow> (w, ms)))"

definition turn_context :: "runtime_env \<Rightarrow> uuid \<Rightarrow> agent \<Rightarrow> project option \<Rightarrow> task \<Rightarrow> gomap list \<Rightarrow> world \<Rightarrow> world \<times> string" where
  "turn_context env org_id a p t outs w =
     (let q = sanitize_user_content (t_title t @ '' '' @ t_description t);
          conversation = load_conversation org_id (t_channel_id t) 5 (w_db w);
          retrieved = retrieve_knowledge env org_id (ag_id a) t q w;
          (w, ms) = retrieve_memories env org_id (ag_id a) t q w
      in (w, build_agent_context env a p t retrieved ms conversation outs (w_db w)))"

end
