(* ===== verification/Actions.thy ===== *)
theory Actions
  imports Context
begin

text \<open>
  \<^verbatim>\<open>backend/internal/runtime/execution.go\<close> and \<^verbatim>\<open>eligible.go\<close>: the check of a decision, the choice of the agent
  a subtask goes to, and the execution of the actions of a decision, one step per action. The
  executions share a state: the world, the status of the decision and of the task (which actions overwrite)
  and the outputs for the next iteration.
\<close>

section \<open>Limits\<close>

definition MaxIterations :: nat where "MaxIterations = 10"
definition MaxToolCalls :: nat where "MaxToolCalls = 10"
definition MaxTaskDepth :: int where "MaxTaskDepth = 5"

section \<open>Checking a decision\<close>

definition count_tool_calls :: "agent_decision \<Rightarrow> nat" where
  "count_tool_calls dec = length (filter (\<lambda>a. act_type a = ''call_tool'') (d_actions dec))"

definition action_tool :: "decision_action \<Rightarrow> string" where
  "action_tool a =
     (let p = act_params a; n = act_tool a;
          n = (if n = [] then (case mget_str p ''tool'' of None \<Rightarrow> [] | Some s \<Rightarrow> s) else n)
      in if n = [] then (case mget_str p ''name'' of None \<Rightarrow> [] | Some s \<Rightarrow> s) else n)"

text \<open>The input that is checked, and the one that is executed; they differ in the key \<^verbatim>\<open>input\<close>.\<close>

definition checked_input :: "decision_action \<Rightarrow> gomap option" where
  "checked_input a = (case act_input a of
       Some m \<Rightarrow> Some m
     | None \<Rightarrow> (case act_params a of None \<Rightarrow> None
         | Some p \<Rightarrow> (case as_obj (mget (Some p) ''input'') of
             Some m \<Rightarrow> Some m | None \<Rightarrow> Some (filter (\<lambda>(k, v). k \<noteq> ''tool'' \<and> k \<noteq> ''name'') p))))"

definition executed_input :: "decision_action \<Rightarrow> gomap" where
  "executed_input a = (case act_input a of
       Some m \<Rightarrow> m
     | None \<Rightarrow> (case act_params a of None \<Rightarrow> []
         | Some p \<Rightarrow> (case as_obj (mget (Some p) ''input'') of
             Some m \<Rightarrow> m | None \<Rightarrow> filter (\<lambda>(k, v). k \<noteq> ''tool'' \<and> k \<noteq> ''name'' \<and> k \<noteq> ''input'') p)))"

definition is_risky :: "tool \<Rightarrow> bool" where
  "is_risky t \<longleftrightarrow> tl_risk_level t = ''high'' \<or> tl_risk_level t = ''critical''"

definition tool_assigned :: "uuid \<Rightarrow> string \<Rightarrow> db \<Rightarrow> bool" where
  "tool_assigned agent name d \<longleftrightarrow>
     (\<exists>a \<in> set (list_agent_tools agent d). at_enabled a \<and> (case at_tool a of None \<Rightarrow> False | Some t \<Rightarrow> tl_name t = name))"

definition validate_call :: "uuid \<Rightarrow> agent \<Rightarrow> decision_action \<Rightarrow> db \<Rightarrow> unit res" where
  "validate_call org_id ag a d =
     (let name = action_tool a
      in if name = [] then fail ''call_tool missing tool name''
         else if (case (case get_tool_by_name (Some org_id) name d of
                          Inr t \<Rightarrow> ok t | Inl _ \<Rightarrow> get_tool_by_name None name d) of
                    Inl _ \<Rightarrow> False | Inr t \<Rightarrow> is_risky t)
              \<and> \<not> tool_assigned (ag_id ag) name d \<and> ag_autonomy_level ag = ''assistant''
         then fail (''agent autonomy '' @ ag_autonomy_level ag @ '' cannot call high-risk tool '' @ name)
         else case checked_input a of None \<Rightarrow> ok ()
              | Some m \<Rightarrow> (case validate_tool_input m of
                  Inl e \<Rightarrow> fail (''tool '' @ name @ '' input validation failed: '' @ e) | Inr _ \<Rightarrow> ok ()))"

definition check_action :: "uuid \<Rightarrow> agent \<Rightarrow> task \<Rightarrow> decision_action \<Rightarrow> db \<Rightarrow> unit res" where
  "check_action org_id ag t a d =
     (let depth = (if t_parent_task_id t \<noteq> None then 1 else 0 :: int)
      in if act_type a \<in> {''create_task'', ''delegate_task''} \<and> MaxTaskDepth \<le> depth
         then fail (''max delegation depth '' @ int_str MaxTaskDepth @ '' exceeded'')
         else and_then (if act_type a = ''call_tool'' then validate_call org_id ag a d else ok ()) (\<lambda>_.
           if act_type a = ''complete_task'' \<and> \<not> is_valid_transition (t_status t) ''completed''
           then fail (''invalid transition '' @ t_status t @ '' -> completed'')
           else if act_type a = ''fail_task'' \<and> \<not> is_valid_transition (t_status t) ''failed''
           then fail (''invalid transition '' @ t_status t @ '' -> failed'')
           else ok ()))"

fun check_actions :: "uuid \<Rightarrow> agent \<Rightarrow> task \<Rightarrow> decision_action list \<Rightarrow> db \<Rightarrow> unit res" where
  "check_actions org_id ag t [] d = ok ()"
| "check_actions org_id ag t (a # as) d = and_then (check_action org_id ag t a d) (\<lambda>_. check_actions org_id ag t as d)"

definition validate_decision :: "uuid \<Rightarrow> agent \<Rightarrow> task \<Rightarrow> agent_decision \<Rightarrow> nat \<Rightarrow> db \<Rightarrow> unit res" where
  "validate_decision org_id ag t dec calls d =
     (let new = count_tool_calls dec
      in if MaxToolCalls < calls + new
         then fail (''tool call limit exceeded: '' @ nat_str calls @ '' + '' @ nat_str new @ '' > '' @ nat_str MaxToolCalls)
         else and_then (check_actions org_id ag t (d_actions dec) d) (\<lambda>_.
           if d_status dec \<in> {''needs_human'', ''waiting'', ''approval_required''} \<and> d_response dec = [] \<and> d_actions dec = []
           then fail (''status '' @ d_status dec @ '' requires response or actions'') else ok ()))"

section \<open>Threads\<close>

definition resolve_thread_id :: "uuid \<Rightarrow> task \<Rightarrow> db \<Rightarrow> uuid option" where
  "resolve_thread_id org_id t d =
     (case (t_correlation_id t, t_channel_id t, t_parent_task_id t) of
        (Some c, Some ch, Some _) \<Rightarrow>
          (case get_message org_id c d of
             Inl _ \<Rightarrow> None
           | Inr m \<Rightarrow> if m_channel_id m \<noteq> ch \<or> m_id m = t_id t then None else Some (m_id m))
      | _ \<Rightarrow> None)"

section \<open>Who gets a subtask\<close>

definition hint_score :: "string \<Rightarrow> agent \<Rightarrow> nat" where
  "hint_score hint a =
     (let name = to_lower (ag_name a); slug = to_lower (ag_slug a); purpose = to_lower (ag_purpose a);
          role = (case ag_version a of None \<Rightarrow> [] | Some v \<Rightarrow> to_lower (ver_role v));
          either = (\<lambda>x. contains hint x \<or> contains x hint)
      in (if either name then 10 else 0) + (if either slug then 10 else 0)
         + (if role \<noteq> [] \<and> either role then 8 else 0) + (if either purpose then 5 else 0)
         + (if contains hint ''research'' \<and> (contains name ''research'' \<or> contains role ''research'' \<or> contains purpose ''research'')
            then 7 else 0)
         + (if (contains hint ''content'' \<or> contains hint ''copy'')
               \<and> (contains name ''content'' \<or> contains name ''copy'' \<or> contains role ''content'' \<or> contains role ''copy'')
            then 7 else 0)
         + (if contains hint ''design'' \<and> (contains name ''design'' \<or> contains role ''design'') then 7 else 0)
         + (if contains hint ''worker'' \<and> hint \<in> {''worker_1'', ''worker 1'', ''content worker 1''} then 3 else 0))"

text \<open>The first element with the highest score.\<close>

fun first_best :: "('a \<Rightarrow> nat) \<Rightarrow> 'a \<Rightarrow> 'a list \<Rightarrow> 'a" where
  "first_best score b [] = b"
| "first_best score b (x # xs) = first_best score (if score b < score x then x else b) xs"

definition resolve_agent_hint :: "golib \<Rightarrow> uuid \<Rightarrow> string \<Rightarrow> uuid \<Rightarrow> db \<Rightarrow> uuid option" where
  "resolve_agent_hint g org_id hint exclude d =
     (let hint = trim_space (to_lower hint)
      in if hint = [] then None
         else case Option.bind (uuid_parse g hint) (\<lambda>u. case get_agent org_id u d of Inl _ \<Rightarrow> None | Inr _ \<Rightarrow> Some u) of
                Some u \<Rightarrow> Some u
              | None \<Rightarrow>
                  (case filter (\<lambda>a. ag_id a \<noteq> exclude \<and> ag_status a = ''active'') (list_agents org_id d) of
                     [] \<Rightarrow> None
                   | a # as \<Rightarrow>
                       (let b = first_best (hint_score hint) a as
                        in if 0 < hint_score hint b then Some (ag_id b) else None)))"

definition hint_keys :: "string list" where
  "hint_keys = [''assign_to_agent'', ''agent_id'', ''assignee'', ''assigned_to'', ''assignedToAgent'', ''worker'', ''assignee_agent'',
     ''target_agent'']"

fun first_hint :: "golib \<Rightarrow> uuid \<Rightarrow> uuid \<Rightarrow> gomap \<Rightarrow> string list \<Rightarrow> db \<Rightarrow> uuid option" where
  "first_hint g org_id exclude m [] d = None"
| "first_hint g org_id exclude m (k # ks) d =
     (case mget_str (Some m) k of
        None \<Rightarrow> first_hint g org_id exclude m ks d
      | Some s \<Rightarrow>
          if s = [] then first_hint g org_id exclude m ks d
          else case uuid_parse g s of
                 Some u \<Rightarrow> Some u
               | None \<Rightarrow> (case resolve_agent_hint g org_id s exclude d of
                   Some u \<Rightarrow> Some u | None \<Rightarrow> first_hint g org_id exclude m ks d))"

definition or_else :: "'a option \<Rightarrow> 'a option \<Rightarrow> 'a option" where
  "or_else x y = (case x of None \<Rightarrow> y | Some _ \<Rightarrow> x)"

definition hinted_agent :: "golib \<Rightarrow> uuid \<Rightarrow> uuid \<Rightarrow> decision_action \<Rightarrow> db \<Rightarrow> uuid option" where
  "hinted_agent g org_id self a d =
     or_else (if act_agent_id a = [] then None
              else or_else (uuid_parse g (act_agent_id a)) (resolve_agent_hint g org_id (act_agent_id a) self d))
       (case act_params a of None \<Rightarrow> None
        | Some p \<Rightarrow>
            or_else (first_hint g org_id self p hint_keys d)
              (case as_obj (mget (Some p) ''params'') of None \<Rightarrow> None | Some m \<Rightarrow> first_hint g org_id self m hint_keys d))"

definition eligible_score :: "task \<Rightarrow> agent \<Rightarrow> nat" where
  "eligible_score t a =
     (case (t_required_role t, ag_version a) of (Some r, Some v) \<Rightarrow> if ver_role v = r then 10 else 0 | _ \<Rightarrow> 0)
     + sum_list (map (\<lambda>rc. 5 * length (filter (\<lambda>c. c = rc) (ag_capabilities a))
         + (case ag_version a of None \<Rightarrow> 0 | Some v \<Rightarrow> 5 * length (filter (\<lambda>c. cap_name c = rc) (ver_capabilities v))))
         (t_required_capabilities t))"

definition try_eligible_assignment :: "uuid \<Rightarrow> task \<Rightarrow> db \<Rightarrow> uuid option" where
  "try_eligible_assignment org_id t d =
     (case get_eligible_agents org_id (t_project_id t) (t_required_role t) (t_required_capabilities t) d of
        [] \<Rightarrow> None
      | e # es \<Rightarrow>
          (case (case t_preferred_agent_id t of None \<Rightarrow> None | Some p \<Rightarrow> find (\<lambda>x. ag_id x = p) (e # es)) of
             Some x \<Rightarrow> Some (ag_id x)
           | None \<Rightarrow> Some (ag_id (first_best (eligible_score t) e es))))"

text \<open>The position of a role in the workflow: the last step that names it counts.\<close>

fun workflow_order :: "nat \<Rightarrow> workflow_step list \<Rightarrow> (string \<Rightarrow> nat option) \<Rightarrow> string \<Rightarrow> nat option" where
  "workflow_order i [] ord = ord"
| "workflow_order i (s # ss) ord =
     workflow_order (i + 1) ss ((ord(to_lower (wf_to s) := Some i))(to_lower (wf_from s) := Some i))"

definition workflow_less :: "(string \<Rightarrow> nat option) \<Rightarrow> agent \<Rightarrow> agent \<Rightarrow> bool" where
  "workflow_less ord a b =
     (let role = (\<lambda>x. case ag_version x of None \<Rightarrow> [] | Some v \<Rightarrow> to_lower (ver_role v))
      in case (ord (role a), ord (role b)) of
           (Some i, Some j) \<Rightarrow> i < j | (Some _, None) \<Rightarrow> True | (None, Some _) \<Rightarrow> False
         | (None, None) \<Rightarrow> ag_name a < ag_name b)"

definition team_candidates :: "runtime_env \<Rightarrow> uuid \<Rightarrow> task \<Rightarrow> db \<Rightarrow> agent list" where
  "team_candidates env org_id t d =
     (case t_team_id t of
        None \<Rightarrow> []
      | Some tm \<Rightarrow>
          (let cs = concat (map (\<lambda>m. case get_agent org_id (tm_agent_id m) d of Inl _ \<Rightarrow> [] | Inr a \<Rightarrow> [a]) (list_team_members tm d))
           in case get_team org_id tm d of
                Inl _ \<Rightarrow> cs
              | Inr x \<Rightarrow> (case team_current_version x of
                  None \<Rightarrow> cs
                | Some v \<Rightarrow> if tver_workflow v = [] \<or> cs = [] then cs
                    else rt_sort env (workflow_less (workflow_order 0 (tver_workflow v) (\<lambda>_. None))) cs)))"

definition auto_agent :: "runtime_env \<Rightarrow> uuid \<Rightarrow> uuid \<Rightarrow> string \<Rightarrow> task \<Rightarrow> db \<Rightarrow> uuid option" where
  "auto_agent env org_id self status t d =
     (let cs = team_candidates env org_id t d;
          cs = (if cs = [] then filter (\<lambda>a. ag_id a \<noteq> self \<and> ag_status a = ''active'') (list_agents org_id d) else cs)
      in if cs \<noteq> [] then Some (ag_id (hd cs))
         else if contains (to_lower status) ''delegate'' \<and> 1 < length (list_agents org_id d)
         then map_option ag_id (find (\<lambda>a. ag_id a \<noteq> self) (list_agents org_id d)) else None)"

definition validate_delegation_target :: "golib \<Rightarrow> uuid \<Rightarrow> uuid \<Rightarrow> uuid option \<Rightarrow> uuid \<Rightarrow> db \<Rightarrow> unit res" where
  "validate_delegation_target g org_id p tm dest d =
     (case get_agent org_id dest d of
        Inl _ \<Rightarrow> fail ''target agent not in organization''
      | Inr a \<Rightarrow>
          if ag_status a \<noteq> ''active'' then fail (''target agent not active: '' @ ag_status a)
          else if (p, dest) \<in> set (project_agents d)
               \<or> (case tm of None \<Rightarrow> False | Some i \<Rightarrow> \<exists>m \<in> set (members d). tm_team_id m = i \<and> tm_agent_id m = dest)
          then ok ()
          else fail (''target agent '' @ ag_name a @ '' not assigned to project '' @ short_id g p))"

definition validate_eligible_or_needs_human :: "golib \<Rightarrow> uuid \<Rightarrow> task \<Rightarrow> uuid \<Rightarrow> db \<Rightarrow> unit res" where
  "validate_eligible_or_needs_human g org_id t dest d =
     (if \<exists>e \<in> set (get_eligible_agents org_id (t_project_id t) (t_required_role t) (t_required_capabilities t) d). ag_id e = dest
      then ok ()
      else if t_required_role t \<noteq> None \<or> t_required_capabilities t \<noteq> []
      then fail (''agent '' @ short_id g dest @ '' not eligible for task requirements'') else ok ())"

section \<open>The state of a turn\<close>

record turn =
  tn_org :: uuid
  tn_agent :: agent
  tn_run :: uuid
  tn_corr :: "uuid option"
  tn_response :: string
  tn_thread :: "uuid option"

record act_state =
  as_w :: world
  as_status :: string
  as_task :: task
  as_out :: "gomap list"

text \<open>
  The closure \<^verbatim>\<open>broadcast\<close> of a run: it writes the IDs of agent, task, run and correlation over the keys
  of the payload, which \<^verbatim>\<open>BroadcastToOrg\<close> extends by the organization, and sends it to the room of the
  organization and, without an event ID, to that of the channel.
\<close>

definition run_payload :: "golib \<Rightarrow> uuid \<Rightarrow> uuid \<Rightarrow> uuid \<Rightarrow> uuid option \<Rightarrow> event_payload \<Rightarrow> event_payload" where
  "run_payload g agent tid rid corr m =
     (let m = AList.update ''runId'' (PJson (uuid_json g rid)) (AList.update ''taskId'' (PJson (uuid_json g tid))
                (AList.update ''agentId'' (PJson (uuid_json g agent)) m))
      in case corr of None \<Rightarrow> m | Some c \<Rightarrow> AList.update ''correlationId'' (PJson (uuid_json g c)) m)"

definition with_org :: "golib \<Rightarrow> uuid \<Rightarrow> event_payload \<Rightarrow> event_payload" where
  "with_org g org_id m =
     (if map_of m ''organizationId'' = None then m @ [(''organizationId'', PJson (uuid_json g org_id))] else m)"

definition broadcast :: "golib \<Rightarrow> turn \<Rightarrow> task \<Rightarrow> string \<Rightarrow> event_payload \<Rightarrow> world \<Rightarrow> world" where
  "broadcast g tn t typ payload w =
     (case w_out w of
        None \<Rightarrow> w
      | Some _ \<Rightarrow>
          (let m = run_payload g (ag_id (tn_agent tn)) (t_id t) (tn_run tn) (tn_corr tn) payload;
               w = send_to_org g (tn_org tn) typ m w
           in case t_channel_id t of
                None \<Rightarrow> w
              | Some c \<Rightarrow> w\<lparr>w_out := map_option (\<lambda>es. es @ [\<lparr>ev_id = [], ev_type = typ, ev_payload = Some (with_org g (tn_org tn) m),
                  ev_room = channel_room g c, ev_timestamp = 0, ev_organization_id = []\<rparr>]) (w_out w)\<rparr>))"

definition log_action :: "turn \<Rightarrow> int \<Rightarrow> string \<Rightarrow> string option \<Rightarrow> gomap option \<Rightarrow> gomap option \<Rightarrow> string \<Rightarrow> world \<Rightarrow> world" where
  "log_action tn seq typ name inp out status = run_db (create_agent_action (tn_run tn) seq typ name inp out status (tn_corr tn))"

text \<open>A message of the agent to the channel of the task, and its event.\<close>

definition post :: "golib \<Rightarrow> turn \<Rightarrow> task \<Rightarrow> string \<Rightarrow> (uuid \<Rightarrow> event_payload) \<Rightarrow> world \<Rightarrow> world \<times> message option" where
  "post g tn t body extra w =
     (case t_channel_id t of
        None \<Rightarrow> (w, None)
      | Some c \<Rightarrow>
          (case on_db (create_message (tn_org tn) c (tn_thread tn) ''agent'' (Some (ag_id (tn_agent tn))) body) w of
             (w, Inl _) \<Rightarrow> (w, None)
           | (w, Inr m) \<Rightarrow> (broadcast g tn t ''agent.message'' ((''message'', PMsg m) # extra c) w, Some m)))"

definition add_output :: "gomap \<Rightarrow> act_state \<Rightarrow> act_state" where
  "add_output m s = s\<lparr>as_out := as_out s @ [m]\<rparr>"

definition on_world :: "(world \<Rightarrow> world) \<Rightarrow> act_state \<Rightarrow> act_state" where
  "on_world f s = s\<lparr>as_w := f (as_w s)\<rparr>"

definition first_text :: "string \<Rightarrow> string \<Rightarrow> string" where
  "first_text s t = (if s \<noteq> [] then s else t)"

definition param :: "decision_action \<Rightarrow> string \<Rightarrow> string" where
  "param a k = (case mget_str (act_params a) k of None \<Rightarrow> [] | Some s \<Rightarrow> s)"

section \<open>send\_message\<close>

definition msg_json :: "golib \<Rightarrow> message option \<Rightarrow> json" where
  "msg_json g m = JStr (case m of None \<Rightarrow> [] | Some m \<Rightarrow> uuid_string g (m_id m))"

definition do_send_message :: "golib \<Rightarrow> turn \<Rightarrow> int \<Rightarrow> decision_action \<Rightarrow> act_state \<Rightarrow> act_state" where
  "do_send_message g tn seq a s =
     (let body = first_text (first_text (act_body a) (param a ''body'')) (tn_response tn)
      in if body = [] then s
         else (let body = take 5000 (sanitize_user_content body);
                   (w, m) = post g tn (as_task s) body (\<lambda>c. [(''channelId'', PJson (uuid_json g c)),
                       (''sourceAgent'', PJson (uuid_json g (ag_id (tn_agent tn))))]) (as_w s);
                   w = log_action tn seq ''message'' None (Some [(''body'', JStr body)]) (Some [(''message_id'', msg_json g m)]) ''succeeded'' w
               in add_output [(''action'', JStr ''send_message''), (''body'', JStr body), (''message_id'', msg_json g m)] (s\<lparr>as_w := w\<rparr>)))"

section \<open>create\_task\<close>

definition subtask_title :: "turn \<Rightarrow> decision_action \<Rightarrow> string" where
  "subtask_title tn a = sanitize_user_content
     (first_text (first_text (first_text (act_title a) (param a ''title'')) (tn_response tn))
       (''Subtask from '' @ ag_name (tn_agent tn)))"

definition subtask_description :: "decision_action \<Rightarrow> string" where
  "subtask_description a = sanitize_user_content
     (first_text (first_text (act_description a) (param a ''description'')) (param a ''body''))"

definition has_requirements :: "task \<Rightarrow> bool" where
  "has_requirements t \<longleftrightarrow> t_required_role t \<noteq> None \<or> t_required_capabilities t \<noteq> []"

definition creator_of :: "uuid \<Rightarrow> agent \<Rightarrow> task \<Rightarrow> db \<Rightarrow> uuid" where
  "creator_of org_id ag t d =
     (case t_created_by t of Some u \<Rightarrow> u | None \<Rightarrow>
       (case ag_created_by ag of Some u \<Rightarrow> u | None \<Rightarrow>
         (case ag_owner_id ag of Some u \<Rightarrow> u | None \<Rightarrow>
           (case list_org_members org_id d of [] \<Rightarrow> ag_id ag | (u, _) # _ \<Rightarrow> u))))"

definition child_count :: "uuid \<Rightarrow> task \<Rightarrow> db \<Rightarrow> nat" where
  "child_count org_id t d =
     length (filter (\<lambda>c. t_parent_task_id c = Some (t_id t)) (list_tasks org_id (Some (t_project_id t)) None [] None 100 d))"

text \<open>The refusals of a target in their order, with the input that is logged.\<close>

definition target_refusal :: "golib \<Rightarrow> uuid \<Rightarrow> task \<Rightarrow> string \<Rightarrow> uuid \<Rightarrow> db \<Rightarrow> (string \<times> gomap) option" where
  "target_refusal g org_id t title dest d =
     (case validate_delegation_target g org_id (t_project_id t) (t_team_id t) dest d of
        Inl e \<Rightarrow> Some (e, [(''title'', JStr title), (''assign_to'', uuid_json g dest)])
      | Inr _ \<Rightarrow>
          if MaxTaskDepth \<le> t_delegation_depth t + (if t_parent_task_id t \<noteq> None then 1 else 0)
          then Some (''max delegation depth '' @ int_str MaxTaskDepth @ '' exceeded'', [(''title'', JStr title)])
          else if 20 \<le> child_count org_id t d
          then Some (''max child tasks 20 exceeded'', [(''title'', JStr title)]) else None)"

definition create_task_failed :: "turn \<Rightarrow> int \<Rightarrow> gomap option \<Rightarrow> string \<Rightarrow> act_state \<Rightarrow> act_state" where
  "create_task_failed tn seq inp e s =
     add_output [(''action'', JStr ''create_task''), (''error'', JStr e)]
       (on_world (log_action tn seq ''tool_call'' (Some ''create_task'') inp (Some [(''error'', JStr e)]) ''failed'') s)"

definition subtask_job :: "golib \<Rightarrow> turn \<Rightarrow> uuid \<Rightarrow> uuid \<Rightarrow> job" where
  "subtask_job g tn agent sub = agent_job (uuid_string g sub)
     [(''organization_id'', uuid_json g (tn_org tn)), (''agent_id'', uuid_json g agent), (''task_id'', uuid_json g sub),
      (''correlation_id'', JStr (case tn_corr tn of None \<Rightarrow> [] | Some c \<Rightarrow> uuid_string g c)), (''trigger'', JStr ''delegated'')] 3 60"

definition announce_subtask :: "golib \<Rightarrow> turn \<Rightarrow> task \<Rightarrow> string \<Rightarrow> uuid option \<Rightarrow> task \<Rightarrow> world \<Rightarrow> world" where
  "announce_subtask g tn t title dest sub w =
     (let self = PJson (uuid_json g (ag_id (tn_agent tn)));
          w = broadcast g tn t ''agent.task_created'' [(''subtask'', PTask sub), (''parent'', PJson (uuid_json g (t_id t))),
                (''sourceAgent'', self), (''destAgent'', PJson (opt_uuid_json g dest))] w;
          w = (case dest of None \<Rightarrow> w
               | Some u \<Rightarrow> broadcast g tn t ''agent.delegated'' [(''taskId'', PJson (uuid_json g (t_id sub))), (''from'', self),
                   (''to'', PJson (uuid_json g u)),
                   (''correlationId'', PJson (JStr (case tn_corr tn of None \<Rightarrow> [] | Some c \<Rightarrow> uuid_string g c)))] w);
          body = ''**'' @ ag_name (tn_agent tn) @ ''** created subtask **'' @ title @ ''**''
            @ (case dest of None \<Rightarrow> [] | Some u \<Rightarrow> '' '' @ [CHR 0xE2, CHR 0x86, CHR 0x92] @ '' agent '' @ short_id g u)
      in fst (post g tn t body (\<lambda>_. []) w))"

definition do_create_task :: "runtime_env \<Rightarrow> turn \<Rightarrow> int \<Rightarrow> decision_action \<Rightarrow> act_state \<Rightarrow> act_state \<times> string option" where
  "do_create_task env tn seq a s =
     (let g = rt_go env; t = as_task s; org_id = tn_org tn; self = ag_id (tn_agent tn); d = w_db (as_w s);
          title = subtask_title tn a; priority = first_text (param a ''priority'') ''medium'';
          eligible = try_eligible_assignment org_id t d
      in if eligible = None \<and> has_requirements t
         then (on_world (log_action tn seq ''error'' None (Some [(''error'', JStr ''no eligible agent'')]) None ''failed'') s,
               Some ''no eligible agent'')
         else
           (let dest = or_else (or_else eligible (hinted_agent g org_id self a d)) (auto_agent env org_id self (as_status s) t d)
            in case Option.bind dest (\<lambda>u. target_refusal g org_id t title u d) of
                 Some (e, inp) \<Rightarrow> (create_task_failed tn seq (Some inp) e s, None)
               | None \<Rightarrow>
                   (case on_db (create_task g org_id (t_project_id t) (t_channel_id t) (Some (t_id t)) (t_team_id t) dest None
                           title (subtask_description a) priority None (tn_corr tn) (creator_of org_id (tn_agent tn) t d)) (as_w s) of
                      (w, Inl e) \<Rightarrow> (create_task_failed tn seq (act_params a) e (s\<lparr>as_w := w\<rparr>), None)
                    | (w, Inr sub) \<Rightarrow>
                        (let w = log_action tn seq ''tool_call'' (Some ''create_task'') (Some [(''title'', JStr title)])
                                   (Some [(''subtask_id'', uuid_json g (t_id sub))]) ''succeeded'' w;
                             w = announce_subtask g tn t title dest sub w;
                             w = run_db (create_task_event (t_id sub) ''agent'' (Some self) ''created''
                                   (Some [(''title'', JStr title), (''parent'', uuid_json g (t_id t))]) (tn_corr tn)) w;
                             w = (case dest of None \<Rightarrow> w | Some u \<Rightarrow> enqueue_job (subtask_job g tn u (t_id sub)) w)
                         in (add_output [(''action'', JStr ''create_task''), (''subtask_id'', uuid_json g (t_id sub)),
                               (''title'', JStr title), (''assigned_to'', JStr (case dest of None \<Rightarrow> [] | Some u \<Rightarrow> uuid_string g u))]
                               (s\<lparr>as_w := w\<rparr>), None)))))"

section \<open>delegate\_task\<close>

definition delegated_ids :: "decision_action \<Rightarrow> string \<times> string" where
  "delegated_ids a = (first_text (first_text (act_task_id a) (param a ''taskId'')) (param a ''task_id''),
     first_text (first_text (act_agent_id a) (param a ''agentId'')) (param a ''agent_id''))"

definition do_delegate_task :: "golib \<Rightarrow> turn \<Rightarrow> int \<Rightarrow> decision_action \<Rightarrow> act_state \<Rightarrow> act_state" where
  "do_delegate_task g tn seq a s =
     (let t = as_task s; org_id = tn_org tn; self = ag_id (tn_agent tn);
          failed = (\<lambda>e. add_output [(''action'', JStr ''delegate_task''), (''error'', JStr e)])
      in case (uuid_parse g (fst (delegated_ids a)), uuid_parse g (snd (delegated_ids a))) of
           (Some tid, Some aid) \<Rightarrow>
             (let inp = Some [(''taskId'', uuid_json g tid), (''agentId'', uuid_json g aid)]
              in case validate_delegation_target g org_id (t_project_id t) (t_team_id t) aid (w_db (as_w s)) of
                   Inl e \<Rightarrow> on_world (log_action tn seq ''tool_call'' (Some ''delegate_task'') inp (Some [(''error'', JStr e)]) ''failed'')
                              (failed e s)
                 | Inr _ \<Rightarrow>
                     (case on_db (assign_task g org_id tid (Some aid) None self) (as_w s) of
                        (w, Inl e) \<Rightarrow> failed e (s\<lparr>as_w := w\<rparr>)
                      | (w, Inr _) \<Rightarrow>
                          (let w = log_action tn seq ''tool_call'' (Some ''delegate_task'') inp (Some [(''delegated'', JBool True)]) ''succeeded'' w;
                               w = broadcast g tn t ''agent.delegated'' [(''taskId'', PJson (uuid_json g tid)), (''from'', PJson (uuid_json g self)),
                                     (''to'', PJson (uuid_json g aid))] w
                           in add_output [(''action'', JStr ''delegate_task''), (''taskId'', uuid_json g tid), (''agentId'', uuid_json g aid)]
                                (s\<lparr>as_w := w\<rparr>))))
         | _ \<Rightarrow> failed ''invalid ids'' s)"

section \<open>call\_tool\<close>

definition executed_tool :: "decision_action \<Rightarrow> string" where
  "executed_tool a = (let n = action_tool a in if n \<in> {[], ''search''} then ''web_search'' else n)"

definition call_params :: "golib \<Rightarrow> turn \<Rightarrow> task \<Rightarrow> decision_action \<Rightarrow> execute_params" where
  "call_params g tn t a =
     \<lparr>xp_organization_id = tn_org tn, xp_agent_id = ag_id (tn_agent tn), xp_task_id = Some (t_id t), xp_run_id = Some (tn_run tn),
      xp_tool_name = executed_tool a, xp_input = Some (executed_input a),
      xp_idempotency_key = uuid_string g (t_id t) @ '':'' @ executed_tool a @ '':'' @ fmt_v g (JObj (executed_input a))\<rparr>"

definition tool_output :: "string \<Rightarrow> gomap \<Rightarrow> act_state \<Rightarrow> act_state" where
  "tool_output name m = add_output ([(''action'', JStr ''call_tool''), (''tool'', JStr name)] @ m)"

definition do_call_tool :: "runtime_env \<Rightarrow> turn \<Rightarrow> int \<Rightarrow> decision_action \<Rightarrow> act_state \<Rightarrow> act_state \<times> string option" where
  "do_call_tool env tn seq a s =
     (let g = rt_go env; t = as_task s; name = executed_tool a; inp = Some (executed_input a);
          tl = (''tool'', PJson (JStr name)); w = broadcast g tn t ''agent.tool_started'' [tl] (as_w s);
          log = log_action tn seq ''tool_call'' (Some name) inp
      in case rt_tools env of
           None \<Rightarrow>
             (let w = broadcast g tn t ''agent.tool_completed'' [tl, (''mock'', PJson (JBool True))] (log (Some [(''mock'', JBool True)]) ''succeeded'' w)
              in (tool_output name [(''mock'', JBool True)] (s\<lparr>as_w := w\<rparr>), None))
         | Some te \<Rightarrow>
             (case execute te (call_params g tn t a) (log None ''running'' w) of
                (w, e, err) \<Rightarrow>
                  (case err of
                     Some msg \<Rightarrow>
                       if (case e of None \<Rightarrow> False | Some x \<Rightarrow> ex_status x = ''approval_required'') then
                         (let ap = Option.bind e ex_approval_id;
                              w = log (Some [(''approval_required'', JBool True), (''approval_id'', opt_uuid_json g ap)]) ''succeeded'' w
                          in (tool_output name [(''approval_required'', JBool True),
                                (''approval_id'', JStr (case ap of None \<Rightarrow> [] | Some u \<Rightarrow> uuid_string g u))]
                                (s\<lparr>as_w := w, as_status := ''approval_required''\<rparr>), Some ''approval_required''))
                       else
                         (let w = broadcast g tn t ''agent.tool_completed'' [tl, (''error'', PJson (JStr msg))] w;
                              w = log (Some [(''error'', JStr msg)]) ''failed'' w
                          in (tool_output name [(''error'', JStr msg)] (s\<lparr>as_w := w\<rparr>), None))
                   | None \<Rightarrow>
                       (let out = Option.bind e ex_output;
                            w = broadcast g tn t ''agent.tool_completed'' [tl, (''output'', PJson (gomap_json out))] w;
                            w = log out ''succeeded'' w;
                            w = run_db (create_task_event (t_id t) ''agent'' (Some (ag_id (tn_agent tn))) ''tool_completed''
                                  (Some [(''tool'', JStr name)]) (tn_corr tn)) w
                        in (tool_output name [(''output'', gomap_json out)] (s\<lparr>as_w := w\<rparr>), None)))))"

section \<open>The remaining actions\<close>

definition do_request :: "golib \<Rightarrow> turn \<Rightarrow> int \<Rightarrow> decision_action \<Rightarrow> act_state \<Rightarrow> act_state" where
  "do_request g tn seq a s =
     (let body = sanitize_user_content
            (first_text (first_text (first_text (act_body a) (param a ''body'')) (param a ''message'')) (tn_response tn));
          w = log_action tn seq (act_type a) None (Some [(''body'', JStr body)]) None ''succeeded'' (as_w s);
          w = (if body = [] then w else fst (post g tn (as_task s) body (\<lambda>_. []) w))
      in (add_output [(''action'', JStr (act_type a)), (''body'', JStr body)] (s\<lparr>as_w := w\<rparr>))\<lparr>as_status := ''approval_required''\<rparr>)"

text \<open>\<^verbatim>\<open>go func\<close>: the aggregation of the parent runs later.\<close>

definition spawn_aggregation :: "turn \<Rightarrow> task \<Rightarrow> world \<Rightarrow> world" where
  "spawn_aggregation tn t w =
     (case t_parent_task_id t of None \<Rightarrow> w
      | Some p \<Rightarrow> w\<lparr>w_spawned := w_spawned w @ [ParentAggregation (tn_org tn) p]\<rparr>)"

definition do_update_task :: "turn \<Rightarrow> int \<Rightarrow> decision_action \<Rightarrow> act_state \<Rightarrow> act_state" where
  "do_update_task tn seq a s =
     (let t = as_task s; st = param a ''status'';
          failed = (\<lambda>e. add_output [(''action'', JStr ''update_task''), (''error'', JStr e)]);
          done_log = (\<lambda>m s. on_world (log_action tn seq ''update_task'' None (act_params a) (Some m) ''succeeded'') (add_output m s))
      in if st = [] then done_log [(''action'', JStr ''update_task''), (''noop'', JBool True)] s
         else if \<not> is_valid_transition (t_status t) st
         then failed (''invalid transition '' @ t_status t @ '' -> '' @ st) s
         else case on_db (update_task_status (tn_org tn) (t_id t) st ''agent'' (ag_id (tn_agent tn)) (act_params a)) (as_w s) of
                (w, Inl e) \<Rightarrow> failed e (s\<lparr>as_w := w\<rparr>)
              | (w, Inr _) \<Rightarrow>
                  done_log [(''action'', JStr ''update_task''), (''status'', JStr st)]
                    (s\<lparr>as_w := (if st = ''completed'' then spawn_aggregation tn t w else w), as_task := t\<lparr>t_status := st\<rparr>\<rparr>))"

definition do_complete_task :: "golib \<Rightarrow> turn \<Rightarrow> int \<Rightarrow> act_state \<Rightarrow> act_state" where
  "do_complete_task g tn seq s =
     (let t = as_task s; failed = (\<lambda>e. add_output [(''action'', JStr ''complete_task''), (''error'', JStr e)])
      in if \<not> is_valid_transition (t_status t) ''completed'' then failed ''invalid transition'' s
         else case on_db (update_task_status (tn_org tn) (t_id t) ''completed'' ''agent'' (ag_id (tn_agent tn))
                     (Some [(''run_id'', uuid_json g (tn_run tn))])) (as_w s) of
                (w, Inl e) \<Rightarrow> failed e (s\<lparr>as_w := w\<rparr>)
              | (w, Inr _) \<Rightarrow>
                  (let w = log_action tn seq ''complete_task'' None None None ''succeeded'' w
                   in (add_output [(''action'', JStr ''complete_task''), (''status'', JStr ''completed'')] s)
                        \<lparr>as_w := spawn_aggregation tn t w, as_task := t\<lparr>t_status := ''completed''\<rparr>, as_status := ''completed''\<rparr>))"

definition do_fail_task :: "turn \<Rightarrow> int \<Rightarrow> act_state \<Rightarrow> act_state" where
  "do_fail_task tn seq s =
     (let t = as_task s; failed = (\<lambda>e. add_output [(''action'', JStr ''fail_task''), (''error'', JStr e)])
      in if \<not> is_valid_transition (t_status t) ''failed'' then failed ''invalid transition'' s
         else case on_db (update_task_status (tn_org tn) (t_id t) ''failed'' ''agent'' (ag_id (tn_agent tn))
                     (Some [(''response'', JStr (tn_response tn))])) (as_w s) of
                (w, Inl e) \<Rightarrow> failed e (s\<lparr>as_w := w\<rparr>)
              | (w, Inr _) \<Rightarrow>
                  (add_output [(''action'', JStr ''fail_task''), (''status'', JStr ''failed'')] s)
                    \<lparr>as_w := log_action tn seq ''fail_task'' None None None ''succeeded'' w,
                     as_task := t\<lparr>t_status := ''failed''\<rparr>, as_status := ''failed''\<rparr>)"

definition create_memory_from_update :: "runtime_env \<Rightarrow> uuid \<Rightarrow> uuid \<Rightarrow> uuid \<Rightarrow> memory_update \<Rightarrow> world \<Rightarrow> world \<times> memory res" where
  "create_memory_from_update env org_id agent p mu w =
     (case rt_memory env of
        None \<Rightarrow> (w, fail ''memory service not available'')
      | Some svc \<Rightarrow>
          (let target = (\<lambda>own x. case x of None \<Rightarrow> Some own | Some s \<Rightarrow> uuid_parse (rt_go env) s)
           in on_db (ms_create svc org_id (target agent (mu_agent_id mu)) (target p (mu_project_id mu))
                (first_text (mu_memory_type mu) ''agent'') (first_text (mu_scope mu) ''agent'') ''agent''
                (sanitize_user_content (mu_content mu)) (if mu_importance mu = 0 then 1/2 else mu_importance mu)) w))"

definition memory_of_action :: "turn \<Rightarrow> decision_action \<Rightarrow> memory_update" where
  "memory_of_action tn a =
     (let or_default = (\<lambda>k z. case mget_str (act_params a) k of None \<Rightarrow> z | Some s \<Rightarrow> s)
      in \<lparr>mu_content = first_text (param a ''content'') (tn_response tn), mu_memory_type = or_default ''memory_type'' ''agent'',
          mu_scope = or_default ''scope'' ''agent'',
          mu_importance = (case as_num (mget (act_params a) ''importance'') of None \<Rightarrow> 1/2 | Some q \<Rightarrow> q),
          mu_project_id = None, mu_agent_id = None\<rparr>)"

definition do_store_memory :: "runtime_env \<Rightarrow> turn \<Rightarrow> int \<Rightarrow> decision_action \<Rightarrow> act_state \<Rightarrow> act_state" where
  "do_store_memory env tn seq a s =
     (let mu = memory_of_action tn a
      in if mu_content mu = [] then s
         else (case create_memory_from_update env (tn_org tn) (ag_id (tn_agent tn)) (t_project_id (as_task s)) mu (as_w s) of
                 (w, r) \<Rightarrow>
                   (let m = (case r of Inr _ \<Rightarrow> (''content'', JStr (take 100 (mu_content mu))) | Inl e \<Rightarrow> (''error'', JStr e))
                    in on_world (log_action tn seq ''store_memory'' None (Some [(''content'', JStr (mu_content mu))]) None ''succeeded'')
                         (add_output [(''action'', JStr ''store_memory''), m] (s\<lparr>as_w := w\<rparr>)))))"

section \<open>All actions of a decision\<close>

definition action_step :: "runtime_env \<Rightarrow> turn \<Rightarrow> int \<Rightarrow> decision_action \<Rightarrow> act_state \<Rightarrow> act_state \<times> string option" where
  "action_step env tn seq a s =
     (let g = rt_go env; typ = act_type a
      in if typ = ''send_message'' then (do_send_message g tn seq a s, None)
         else if typ = ''create_task'' then do_create_task env tn seq a s
         else if typ = ''delegate_task'' then (do_delegate_task g tn seq a s, None)
         else if typ = ''call_tool'' then do_call_tool env tn seq a s
         else if typ = ''request_approval'' \<or> typ = ''request_human_input'' then (do_request g tn seq a s, None)
         else if typ = ''update_task'' then (do_update_task tn seq a s, None)
         else if typ = ''complete_task'' then (do_complete_task g tn seq s, None)
         else if typ = ''fail_task'' then (do_fail_task tn seq s, None)
         else if typ = ''store_memory'' then (do_store_memory env tn seq a s, None)
         else (add_output [(''action'', JStr typ), (''error'', JStr ''unsupported'')] s, None))"

text \<open>The sequence number of an action is its index plus two, in every iteration.\<close>

fun run_actions :: "runtime_env \<Rightarrow> turn \<Rightarrow> int \<Rightarrow> decision_action list \<Rightarrow> act_state \<Rightarrow> act_state \<times> string option" where
  "run_actions env tn idx [] s = (s, None)"
| "run_actions env tn idx (a # as) s =
     (case action_step env tn (idx + 2) a s of
        (s, Some e) \<Rightarrow> (s, Some e)
      | (s, None) \<Rightarrow> run_actions env tn (idx + 1) as s)"

definition execute_decision_actions :: "runtime_env \<Rightarrow> uuid \<Rightarrow> agent \<Rightarrow> task \<Rightarrow> uuid \<Rightarrow> agent_decision \<Rightarrow> uuid option \<Rightarrow> world
    \<Rightarrow> act_state \<times> string option" where
  "execute_decision_actions env org_id ag t rid dec corr w =
     run_actions env
       \<lparr>tn_org = org_id, tn_agent = ag, tn_run = rid, tn_corr = corr, tn_response = d_response dec,
        tn_thread = resolve_thread_id org_id t (w_db w)\<rparr> 0 (d_actions dec)
       \<lparr>as_w = w, as_status = d_status dec, as_task = t, as_out = []\<rparr>"

end
