(* ===== verification/Runtime.thy ===== *)
theory Runtime
  imports Actions ApprovalHandler
begin

text \<open>
  \<^verbatim>\<open>backend/internal/runtime/runtime.go\<close>, \<^verbatim>\<open>resume.go\<close> and \<^verbatim>\<open>aggregation.go\<close>: the loop that runs a task (ask
  the model, check the decision, execute its actions, go on or end), the loop that resumes a run, the
  completion of a parent task, and the job handlers that \<^verbatim>\<open>router.go\<close> registers with the pool.
\<close>

section \<open>JSON of the structs a run is created with\<close>

definition opt_time_json :: "runtime_env \<Rightarrow> time option \<Rightarrow> json" where
  "opt_time_json env t = (case t of None \<Rightarrow> JNull | Some x \<Rightarrow> JStr (rt_time env x))"

definition omit_empty :: "bool \<Rightarrow> string \<Rightarrow> json \<Rightarrow> gomap" where
  "omit_empty e k v = (if e then [] else [(k, v)])"

definition task_json :: "runtime_env \<Rightarrow> task \<Rightarrow> json" where
  "task_json env t =
     (let g = rt_go env; num = (\<lambda>i. JNum (of_int i))
      in JObj ([(''id'', uuid_json g (t_id t)), (''organizationId'', uuid_json g (t_organization_id t)),
        (''projectId'', uuid_json g (t_project_id t)), (''channelId'', opt_uuid_json g (t_channel_id t)),
        (''parentTaskId'', opt_uuid_json g (t_parent_task_id t)), (''teamId'', opt_uuid_json g (t_team_id t)),
        (''title'', JStr (t_title t)), (''description'', JStr (t_description t)), (''createdBy'', opt_uuid_json g (t_created_by t)),
        (''assignedToAgent'', opt_uuid_json g (t_assigned_to_agent t)), (''assignedToUser'', opt_uuid_json g (t_assigned_to_user t)),
        (''status'', JStr (t_status t)), (''priority'', JStr (t_priority t)), (''deadline'', opt_time_json env (t_deadline t)),
        (''dueAt'', JNull), (''correlationId'', opt_uuid_json g (t_correlation_id t)), (''retryCount'', num (t_retry_count t)),
        (''maxRetries'', num (t_max_retries t)), (''delegationDepth'', num (t_delegation_depth t)),
        (''maxDelegationDepth'', num (t_max_delegation_depth t)), (''timeoutSeconds'', num (t_timeout_seconds t))]
       @ omit_empty (t_required_role t = None) ''requiredRole'' (opt_str_json (t_required_role t))
       @ omit_empty (t_required_capabilities t = []) ''requiredCapabilities'' (JArr (map JStr (t_required_capabilities t)))
       @ omit_empty (t_preferred_agent_id t = None) ''preferredAgentId'' (opt_uuid_json g (t_preferred_agent_id t))
       @ [(''createdAt'', JStr (rt_time env (t_created_at t))), (''updatedAt'', JStr (rt_time env (t_updated_at t)))]))"

definition project_json :: "runtime_env \<Rightarrow> project option \<Rightarrow> json" where
  "project_json env p =
     (let g = rt_go env
      in case p of
           None \<Rightarrow> JNull
         | Some p \<Rightarrow> JObj [(''id'', uuid_json g (pr_id p)), (''organizationId'', uuid_json g (pr_organization_id p)),
             (''name'', JStr (pr_name p)), (''slug'', JStr (pr_slug p)), (''description'', JStr (pr_description p)),
             (''objective'', JStr (pr_objective p)), (''icon'', JStr (pr_icon p)), (''status'', JStr (pr_status p)),
             (''settings'', gomap_json (pr_settings p)), (''createdBy'', opt_uuid_json g (pr_created_by p)),
             (''createdAt'', JStr (rt_time env (pr_created_at p))), (''updatedAt'', JStr (rt_time env (pr_updated_at p)))])"

definition usage_json :: "usage \<Rightarrow> json" where
  "usage_json u = JObj [(''promptTokens'', JNum (of_int (prompt_tokens u))),
     (''completionTokens'', JNum (of_int (completion_tokens u))), (''totalTokens'', JNum (of_int (total_tokens u)))]"

definition messages_json :: "(string \<times> string) list \<Rightarrow> json" where
  "messages_json ms = JArr (map (\<lambda>(r, c). JObj [(''role'', JStr r), (''content'', JStr c)]) ms)"

abbreviation jint :: "int \<Rightarrow> json" where "jint i \<equiv> JNum (of_int i)"

section \<open>A run\<close>

text \<open>What stays fixed while a run executes; the turn is the one its broadcasts and log entries use.\<close>

record run_ctx =
  rc_org :: uuid
  rc_agent :: agent
  rc_project :: "project option"
  rc_run :: uuid
  rc_corr :: "uuid option"

record loop_state =
  ls_w :: world
  ls_task :: task
  ls_outs :: "gomap list"
  ls_calls :: nat

datatype turn_result = Stop world "string option" | Next loop_state

definition turn_of :: "run_ctx \<Rightarrow> turn" where
  "turn_of c = \<lparr>tn_org = rc_org c, tn_agent = rc_agent c, tn_run = rc_run c, tn_corr = rc_corr c, tn_response = [], tn_thread = None\<rparr>"

definition set_run :: "run_ctx \<Rightarrow> string \<Rightarrow> gomap option \<Rightarrow> string option \<Rightarrow> world \<Rightarrow> world" where
  "set_run c status out err = run_db (update_agent_run_status (rc_org c) (rc_run c) status out err)"

definition set_waiting :: "run_ctx \<Rightarrow> string \<Rightarrow> int \<Rightarrow> string option \<Rightarrow> gomap option \<Rightarrow> world \<Rightarrow> world" where
  "set_waiting c status iteration reason out =
     run_db (update_agent_run_waiting (rc_org c) (rc_run c) status iteration reason None out)"

definition set_task :: "run_ctx \<Rightarrow> task \<Rightarrow> string \<Rightarrow> gomap option \<Rightarrow> world \<Rightarrow> world" where
  "set_task c t status payload = run_db (update_task_status (rc_org c) (t_id t) status ''agent'' (ag_id (rc_agent c)) payload)"

definition tell :: "runtime_env \<Rightarrow> run_ctx \<Rightarrow> task \<Rightarrow> string \<Rightarrow> gomap \<Rightarrow> world \<Rightarrow> world" where
  "tell env c t typ m = broadcast (rt_go env) (turn_of c) t typ (map (\<lambda>(k, v). (k, PJson v)) m)"

definition log_run :: "run_ctx \<Rightarrow> int \<Rightarrow> string \<Rightarrow> gomap option \<Rightarrow> string \<Rightarrow> world \<Rightarrow> world" where
  "log_run c seq typ inp status = log_action (turn_of c) seq typ None inp None status"

text \<open>The part of an iteration up to the answer of the model; \<open>extra\<close> is what is added to the context.\<close>

definition ask_turn :: "runtime_env \<Rightarrow> run_ctx \<Rightarrow> int \<Rightarrow> string \<Rightarrow> gomap \<Rightarrow> task \<Rightarrow> gomap list \<Rightarrow> world \<Rightarrow> world \<times> (string \<times> usage) res" where
  "ask_turn env c iteration extra note t outs w =
     (let ag = rc_agent c;
          (w, ctx) = turn_context env (rc_org c) ag (rc_project c) t outs w;
          msgs = llm_messages (rt_go env) ag (ctx @ extra) outs (get_tool_definitions (rc_org c) (ag_id ag) (w_db w));
          w = log_run c ((iteration - 1) * 10) ''llm_call'' (Some [(''messages'', messages_json msgs),
                (''model'', JStr (choose_model ag)), (''iteration'', jint iteration)]) ''running'' w;
          w = tell env c t ''agent.thinking'' ([(''iteration'', jint iteration)] @ note) w
      in ask_model env ag msgs w)"

definition answered :: "runtime_env \<Rightarrow> run_ctx \<Rightarrow> int \<Rightarrow> string \<Rightarrow> usage \<Rightarrow> world \<Rightarrow> world" where
  "answered env c iteration content u w =
     run_db (update_agent_run_tokens (rc_org c) (rc_run c) u)
      (log_run c ((iteration - 1) * 10 + 1) ''llm_call'' (Some [(''response'', JStr content), (''iteration'', jint iteration),
         (''usage'', usage_json u)]) ''succeeded'' w)"

text \<open>A repair asks with the system text and the prompt only.\<close>

definition ask_repair :: "runtime_env \<Rightarrow> agent \<Rightarrow> world \<Rightarrow> string \<Rightarrow> world \<times> string res" where
  "ask_repair env ag w prompt =
     (case ask_model env ag [(''system'', system_text ag), (''user'', prompt)] w of
        (w, Inl e) \<Rightarrow> (w, fail e) | (w, Inr (content, u)) \<Rightarrow> (w, ok content))"

section \<open>ExecuteTask\<close>

text \<open>The answer of the model, repaired when it is no decision.\<close>

definition decide_turn :: "runtime_env \<Rightarrow> run_ctx \<Rightarrow> int \<Rightarrow> task \<Rightarrow> string \<Rightarrow> world \<Rightarrow> world \<times> agent_decision res" where
  "decide_turn env c iteration t content w =
     (case parse_agent_decision (rt_go env) content of
        Inr dec \<Rightarrow> (w, ok dec)
      | Inl e \<Rightarrow>
          (let w = log_run c ((iteration - 1) * 10 + 2) ''error'' (Some [(''validation_error'', JStr e), (''iteration'', jint iteration)]) ''failed'' w
           in case retry_decision (rt_go env) (ask_repair env (rc_agent c)) content w of
                (w, Inr dec) \<Rightarrow> (tell env c t ''agent.thinking'' [(''repaired'', JBool True), (''iteration'', jint iteration)] w, ok dec)
              | (w, Inl e) \<Rightarrow>
                  (let msg = ''invalid LLM decision after '' @ nat_str MaxDecisionRetries @ '' retries: '' @ e;
                       w = set_run c ''failed'' (Some [(''error'', JStr msg), (''iteration'', jint iteration), (''needs_human'', JBool True)]) (Some msg) w;
                       w = set_task c t ''failed'' (Some [(''error'', JStr msg), (''needs_human'', JBool True)]) w;
                       w = tell env c t ''agent.failed'' [(''error'', JStr msg), (''needs_human'', JBool True), (''iteration'', jint iteration)] w;
                       w = log_run c ((iteration - 1) * 10 + 9) ''error'' (Some [(''final_error'', JStr msg)]) ''failed'' w
                   in (w, fail msg))))"

definition model_failed :: "runtime_env \<Rightarrow> run_ctx \<Rightarrow> int \<Rightarrow> task \<Rightarrow> string \<Rightarrow> world \<Rightarrow> world" where
  "model_failed env c iteration t e w =
     (let w = count_metric (\<lambda>m. m\<lparr>AgentRunsFailed := AgentRunsFailed m + 1\<rparr>) w;
          w = set_run c ''failed'' (Some [(''error'', JStr e), (''iteration'', jint iteration)]) (Some e) w;
          w = set_task c t ''failed'' (Some [(''error'', JStr e)]) w;
          w = tell env c t ''agent.failed'' [(''error'', JStr e), (''iteration'', jint iteration)] w
      in log_run c ((iteration - 1) * 10 + 1) ''error'' (Some [(''error'', JStr e)]) ''failed'' w)"

definition decision_refused :: "runtime_env \<Rightarrow> run_ctx \<Rightarrow> int \<Rightarrow> task \<Rightarrow> string \<Rightarrow> world \<Rightarrow> world" where
  "decision_refused env c iteration t e w =
     (let w = set_run c ''failed'' (Some [(''error'', JStr e)]) None w;
          w = set_task c t ''failed'' (Some [(''error'', JStr e)]) w
      in tell env c t ''agent.failed'' [(''error'', JStr e), (''iteration'', jint iteration)] w)"

definition park :: "runtime_env \<Rightarrow> run_ctx \<Rightarrow> int \<Rightarrow> task \<Rightarrow> string \<Rightarrow> world \<Rightarrow> world" where
  "park env c iteration t status w =
     (let out = Some [(''approval'', JStr status), (''iteration'', jint iteration)];
          w = set_waiting c ''WAITING_FOR_APPROVAL'' iteration (Some status) out w;
          w = set_run c ''awaiting_approval'' out None w;
          w = set_task c t ''approval_required'' (Some [(''decision'', JStr status), (''run_id'', uuid_json (rt_go env) (rc_run c))]) w
      in tell env c t ''agent.waiting'' [(''reason'', JStr status), (''iteration'', jint iteration),
           (''runId'', uuid_json (rt_go env) (rc_run c))] w)"

text \<open>The reply of the agent to the channel; \<open>key\<close> says whether the event names the channel.\<close>

definition reply_to_channel :: "runtime_env \<Rightarrow> run_ctx \<Rightarrow> task \<Rightarrow> string \<Rightarrow> bool \<Rightarrow> world \<Rightarrow> world" where
  "reply_to_channel env c t response key w =
     (if response = [] then w
      else fst (post (rt_go env) ((turn_of c)\<lparr>tn_thread := resolve_thread_id (rc_org c) t (w_db w)\<rparr>) t
                  (sanitize_user_content response)
                  (\<lambda>ch. if key then [(''channelId'', PJson (uuid_json (rt_go env) ch))] else []) w))"

definition project_event :: "runtime_env \<Rightarrow> run_ctx \<Rightarrow> task \<Rightarrow> string \<Rightarrow> world \<Rightarrow> world" where
  "project_event env c t typ w =
     (if rt_autonomy env then w\<lparr>w_spawned := w_spawned w @ [ProjectEvent (rc_org c) (t_project_id t) typ
          [(''taskId'', uuid_json (rt_go env) (t_id t)), (''title'', JStr (t_title t))]]\<rparr> else w)"

definition store_updates :: "runtime_env \<Rightarrow> run_ctx \<Rightarrow> task \<Rightarrow> memory_update list \<Rightarrow> world \<Rightarrow> world" where
  "store_updates env c t mus w =
     fold (\<lambda>mu w. fst (create_memory_from_update env (rc_org c) (ag_id (rc_agent c)) (t_project_id t) mu w)) mus w"

definition finish_completed :: "runtime_env \<Rightarrow> run_ctx \<Rightarrow> int \<Rightarrow> task \<Rightarrow> agent_decision \<Rightarrow> world \<Rightarrow> world" where
  "finish_completed env c iteration t dec w =
     (let g = rt_go env; rid = (''run_id'', uuid_json g (rc_run c)); resp = (''response'', JStr (d_response dec));
          w = set_run c ''succeeded'' (Some [resp, (''iteration'', jint iteration)]) None w;
          w = store_updates env c t (d_memory_updates dec) w;
          w = set_task c t ''completed'' (Some [rid]) w;
          w = tell env c t ''agent.completed'' [(''taskId'', uuid_json g (t_id t)), resp, (''iteration'', jint iteration)] w;
          w = reply_to_channel env c t (d_response dec) True w;
          w = run_db (create_task_event (t_id t) ''agent'' (Some (ag_id (rc_agent c))) ''completed'' (Some [rid]) (rc_corr c)) w;
          w = spawn_aggregation (turn_of c) t w
      in project_event env c t ''task.completed'' w)"

definition finish_failed :: "runtime_env \<Rightarrow> run_ctx \<Rightarrow> int \<Rightarrow> task \<Rightarrow> agent_decision \<Rightarrow> world \<Rightarrow> world" where
  "finish_failed env c iteration t dec w =
     (let resp = (''response'', JStr (d_response dec));
          w = set_run c ''failed'' (Some [resp]) None w;
          w = set_task c t ''failed'' (Some [resp]) w;
          w = tell env c t ''agent.failed'' [resp, (''iteration'', jint iteration)] w
      in project_event env c t ''task.failed'' w)"

definition finish_waiting :: "runtime_env \<Rightarrow> run_ctx \<Rightarrow> int \<Rightarrow> task \<Rightarrow> string \<Rightarrow> agent_decision \<Rightarrow> world \<Rightarrow> world" where
  "finish_waiting env c iteration t status dec w =
     (let resp = (''response'', JStr (d_response dec));
          w = set_run c ''awaiting_approval'' (Some [(''status'', JStr status), resp]) None w;
          w = set_task c t ''waiting'' (Some [(''status'', JStr status)]) w;
          w = tell env c t ''agent.waiting'' [(''reason'', JStr status), resp, (''iteration'', jint iteration)] w
      in reply_to_channel env c t (d_response dec) False w)"

text \<open>The end of an iteration whose actions went through.\<close>

definition after_actions :: "runtime_env \<Rightarrow> run_ctx \<Rightarrow> int \<Rightarrow> agent_decision \<Rightarrow> nat \<Rightarrow> gomap list \<Rightarrow> act_state \<Rightarrow> turn_result" where
  "after_actions env c iteration dec calls outs s =
     (let t = as_task s; status = as_status s; w = set_waiting c ''running'' iteration None None (as_w s);
          calls = calls + count_tool_calls dec
      in if status = ''completed'' then Stop (finish_completed env c iteration t dec w) None
         else if status = ''failed'' then Stop (finish_failed env c iteration t dec w) (Some (''agent decided failed: '' @ d_response dec))
         else if status \<in> {''needs_human'', ''waiting'', ''approval_required''} then Stop (finish_waiting env c iteration t status dec w) None
         else if status \<in> {''continue'', ''delegate''} \<and> MaxToolCalls < calls
         then Stop (set_run c ''failed'' (Some [(''error'', JStr ''max tool calls exceeded'')]) None w)
                (Some (''max tool calls '' @ nat_str MaxToolCalls @ '' exceeded''))
         else Next \<lparr>ls_w = w, ls_task = t, ls_outs = outs @ as_out s, ls_calls = calls\<rparr>)"

definition task_turn :: "runtime_env \<Rightarrow> run_ctx \<Rightarrow> int \<Rightarrow> loop_state \<Rightarrow> turn_result" where
  "task_turn env c iteration st =
     (let t = ls_task st; outs = ls_outs st; calls = ls_calls st
      in case ask_turn env c iteration decision_schema [] t outs (ls_w st) of
           (w, Inl e) \<Rightarrow> Stop (model_failed env c iteration t e w) (Some e)
         | (w, Inr (content, u)) \<Rightarrow>
             (let w = answered env c iteration content u w;
                  w = tell env c t ''agent.tool_completed'' [(''tool'', JStr ''llm_call''), (''iteration'', jint iteration), (''usage'', usage_json u)] w
              in case decide_turn env c iteration t content w of
                   (w, Inl e) \<Rightarrow> Stop w (Some e)
                 | (w, Inr dec) \<Rightarrow>
                     (case validate_decision (rc_org c) (rc_agent c) t dec calls (w_db w) of
                        Inl e \<Rightarrow> Stop (decision_refused env c iteration t e w) (Some e)
                      | Inr _ \<Rightarrow>
                          (case execute_decision_actions env (rc_org c) (rc_agent c) t (rc_run c) dec (rc_corr c) w of
                             (s, None) \<Rightarrow> after_actions env c iteration dec calls outs s
                           | (s, Some e) \<Rightarrow>
                               if as_status s = ''approval_required'' \<or> as_status s = ''waiting''
                               then Stop (park env c iteration (as_task s) (as_status s) (as_w s)) None
                               else Stop (as_w s) (Some e)))))"

text \<open>\<open>n\<close> iterations are left.\<close>

fun task_loop :: "runtime_env \<Rightarrow> run_ctx \<Rightarrow> nat \<Rightarrow> loop_state \<Rightarrow> world \<times> string option" where
  "task_loop env c 0 st =
     (let w = set_run c ''failed'' (Some [(''error'', JStr ''max iterations exceeded'')]) None (ls_w st);
          w = set_task c (ls_task st) ''failed'' (Some [(''error'', JStr ''max iterations'')]) w
      in (tell env c (ls_task st) ''agent.failed'' [(''error'', JStr ''max iterations'')] w,
          Some (''max iterations '' @ nat_str MaxIterations @ '' exceeded'')))"
| "task_loop env c (Suc n) st =
     (let iteration = int MaxIterations - int n
      in if rt_done env (ls_w st)
         then (tell env c (ls_task st) ''agent.failed'' [(''reason'', JStr ''timeout/cancelled''), (''iteration'', jint iteration)]
                 (set_run c ''cancelled'' None None (ls_w st)), Some ''context canceled'')
         else case task_turn env c iteration st of
                Stop w r \<Rightarrow> (w, r)
              | Next st \<Rightarrow> task_loop env c n st)"

definition previous_output :: "tool_execution \<Rightarrow> gomap list" where
  "previous_output e =
     (let head = [(''action'', JStr ''call_tool''), (''tool'', JStr (ex_tool_name e))]
      in if ex_status e = ''succeeded'' \<and> ex_output e \<noteq> None
         then [head @ [(''output'', gomap_json (ex_output e)), (''resumed'', JBool True)]]
         else if ex_status e = ''failed'' \<and> ex_error e \<noteq> None
         then [head @ [(''error'', opt_str_json (ex_error e)), (''resumed'', JBool True)]] else [])"

definition previous_outputs :: "uuid \<Rightarrow> uuid \<Rightarrow> uuid \<Rightarrow> db \<Rightarrow> gomap list" where
  "previous_outputs org_id agent tid d =
     concat (map previous_output (list_tool_executions org_id (Some agent) (Some tid) 5 d))"

definition load_project :: "uuid \<Rightarrow> task \<Rightarrow> db \<Rightarrow> project option" where
  "load_project org_id t d =
     (if t_project_id t = nil_uuid then None
      else case get_project org_id (t_project_id t) d of Inl _ \<Rightarrow> None | Inr p \<Rightarrow> Some p)"

definition start_run :: "runtime_env \<Rightarrow> uuid \<Rightarrow> agent \<Rightarrow> task \<Rightarrow> project option \<Rightarrow> uuid option \<Rightarrow> string \<Rightarrow> world \<Rightarrow> world \<times> agent_run res" where
  "start_run env org_id ag t p corr trigger w =
     on_db (create_agent_run org_id (ag_id ag) (Some (t_id t)) (t_channel_id t) trigger
         (Some [(''task_id'', uuid_json (rt_go env) (t_id t)), (''trigger'', JStr trigger)])
         (Some [(''project'', project_json env p), (''task'', task_json env t), (''agent_version'', jint (ag_current_version ag))])
         corr None)
       (count_metric (\<lambda>m. m\<lparr>AgentRunsTotal := AgentRunsTotal m + 1\<rparr>) w)"

definition execute_task :: "runtime_env \<Rightarrow> uuid \<Rightarrow> uuid \<Rightarrow> uuid \<Rightarrow> uuid option \<Rightarrow> string \<Rightarrow> world \<Rightarrow> world \<times> string option" where
  "execute_task env org_id agent tid corr trigger w =
     (case get_agent org_id agent (w_db w) of
        Inl e \<Rightarrow> (w, Some (''load agent: '' @ e))
      | Inr ag \<Rightarrow>
          (case get_task org_id tid (w_db w) of
             Inl e \<Rightarrow> (w, Some (''load task: '' @ e))
           | Inr t \<Rightarrow>
               (let p = load_project org_id t (w_db w)
                in case start_run env org_id ag t p corr trigger w of
                     (w, Inl e) \<Rightarrow> (w, Some (''create run: '' @ e))
                   | (w, Inr r) \<Rightarrow>
                       (let c = \<lparr>rc_org = org_id, rc_agent = ag, rc_project = p, rc_run = run_id r, rc_corr = corr\<rparr>;
                            w = set_run c ''running'' None None w;
                            w = tell env c t ''agent.started'' [(''agent'', JStr (ag_name ag)), (''task'', JStr (t_title t))] w;
                            w = set_task c t ''running'' (Some [(''run_id'', uuid_json (rt_go env) (run_id r))]) w;
                            outs = (if trigger \<in> {''approval_received'', ''approval_rejected''} \<or> corr \<noteq> None
                                    then previous_outputs org_id agent tid (w_db w) else [])
                        in task_loop env c MaxIterations
                             \<lparr>ls_w = w, ls_task = t, ls_outs = outs, ls_calls = length outs\<rparr>))))"

section \<open>ResumeRun\<close>

text \<open>The repair loop is written out again, with another prompt.\<close>

definition resume_prompt :: "string \<Rightarrow> string" where
  "resume_prompt e = ''Validation failed: '' @ e @ '' '' @ [CHR 0xE2, CHR 0x80, CHR 0x94] @ '' Provide valid AgentDecision JSON only.''"

fun resume_repair :: "runtime_env \<Rightarrow> agent \<Rightarrow> nat \<Rightarrow> string \<Rightarrow> world \<Rightarrow> world \<times> agent_decision res" where
  "resume_repair env ag 0 e w = (w, fail e)"
| "resume_repair env ag (Suc n) e w =
     (case ask_repair env ag w (resume_prompt e) of
        (w, Inl e) \<Rightarrow> (w, fail e)
      | (w, Inr content) \<Rightarrow>
          (case parse_agent_decision (rt_go env) content of
             Inr dec \<Rightarrow> (w, ok dec) | Inl e \<Rightarrow> resume_repair env ag n e w))"

definition resume_decide :: "runtime_env \<Rightarrow> run_ctx \<Rightarrow> string \<Rightarrow> world \<Rightarrow> world \<times> agent_decision res" where
  "resume_decide env c content w =
     (case parse_agent_decision (rt_go env) content of
        Inr dec \<Rightarrow> (w, ok dec)
      | Inl e \<Rightarrow>
          (case resume_repair env (rc_agent c) MaxDecisionRetries e w of
             (w, Inr dec) \<Rightarrow> (w, ok dec)
           | (w, Inl e) \<Rightarrow>
               (let msg = ''invalid decision after retries: '' @ e
                in (set_run c ''failed'' (Some [(''error'', JStr msg)]) (Some msg) w, fail e))))"

definition resume_turn :: "runtime_env \<Rightarrow> run_ctx \<Rightarrow> int \<Rightarrow> loop_state \<Rightarrow> turn_result" where
  "resume_turn env c iteration st =
     (let t = ls_task st; outs = ls_outs st; extra = resume_schema @ fmt_v (rt_go env) (JArr (map JObj outs))
      in case ask_turn env c iteration extra [(''resumed'', JBool True)] t outs (ls_w st) of
           (w, Inl e) \<Rightarrow>
             (let w = set_run c ''failed'' (Some [(''error'', JStr e)]) (Some e) w;
                  w = set_task c t ''failed'' (Some [(''error'', JStr e)]) w
              in Stop (tell env c t ''agent.failed'' [(''error'', JStr e)] w) (Some e))
         | (w, Inr (content, u)) \<Rightarrow>
             (case resume_decide env c content (answered env c iteration content u w) of
                (w, Inl e) \<Rightarrow> Stop w (Some e)
              | (w, Inr dec) \<Rightarrow>
                  (case validate_decision (rc_org c) (rc_agent c) t dec (length outs) (w_db w) of
                     Inl e \<Rightarrow> Stop (set_run c ''failed'' (Some [(''error'', JStr e)]) None w) (Some e)
                   | Inr _ \<Rightarrow>
                       (case execute_decision_actions env (rc_org c) (rc_agent c) t (rc_run c) dec (rc_corr c) w of
                          (s, Some e) \<Rightarrow>
                            if as_status s = ''approval_required'' \<or> as_status s = ''waiting''
                            then Stop (set_waiting c ''WAITING_FOR_APPROVAL'' iteration (Some (as_status s))
                                         (Some [(''approval'', JStr (as_status s))]) (as_w s)) None
                            else Stop (as_w s) (Some e)
                        | (s, None) \<Rightarrow>
                            (let w = as_w s; t = as_task s; resp = Some [(''response'', JStr (d_response dec))]
                             in if as_status s = ''completed'' then
                                  (let w = set_run c ''succeeded'' resp None w; w = set_task c t ''completed'' None w
                                   in Stop (tell env c t ''agent.completed'' [(''taskId'', uuid_json (rt_go env) (t_id t))] w) None)
                                else if as_status s = ''failed'' then
                                  Stop (set_task c t ''failed'' None (set_run c ''failed'' resp None w)) None
                                else Next \<lparr>ls_w = set_waiting c ''running'' iteration None None w, ls_task = t,
                                       ls_outs = outs @ as_out s, ls_calls = ls_calls st\<rparr>)))))"

fun resume_loop :: "runtime_env \<Rightarrow> run_ctx \<Rightarrow> nat \<Rightarrow> loop_state \<Rightarrow> world \<times> string option" where
  "resume_loop env c 0 st = (set_run c ''failed'' (Some [(''error'', JStr ''max iterations'')]) None (ls_w st), Some ''max iterations'')"
| "resume_loop env c (Suc n) st =
     (if rt_done env (ls_w st) then (set_run c ''cancelled'' None None (ls_w st), Some ''context canceled'')
      else case resume_turn env c (int MaxIterations - int n) st of
             Stop w r \<Rightarrow> (w, r)
           | Next st \<Rightarrow> resume_loop env c n st)"

definition resume_run :: "runtime_env \<Rightarrow> uuid \<Rightarrow> uuid \<Rightarrow> world \<Rightarrow> world \<times> string option" where
  "resume_run env org_id rid w =
     (case get_agent_run org_id rid (w_db w) of
        Inl e \<Rightarrow> (w, Some e)
      | Inr r \<Rightarrow>
          if run_status r \<notin> {''WAITING_FOR_APPROVAL'', ''awaiting_approval'', ''waiting''}
          then (w, Some (''run '' @ uuid_string (rt_go env) rid @ '' not waiting (status='' @ run_status r @ '')''))
          else case run_task_id r of
                 None \<Rightarrow> (w, Some ''run has no task'')
               | Some tid \<Rightarrow>
                   (case get_task org_id tid (w_db w) of
                      Inl e \<Rightarrow> (w, Some e)
                    | Inr t \<Rightarrow>
                        (case get_agent org_id (run_agent_id r) (w_db w) of
                           Inl e \<Rightarrow> (w, Some e)
                         | Inr ag \<Rightarrow>
                             (let c = \<lparr>rc_org = org_id, rc_agent = ag, rc_project = load_project org_id t (w_db w),
                                       rc_run = run_id r, rc_corr = run_correlation_id r\<rparr>;
                                  w = set_run c ''running'' (Some [(''resumed'', JBool True)]) None w;
                                  w = set_waiting c ''RESUMING'' (run_current_iteration r) None None w;
                                  w = tell env c t ''agent.resumed'' [(''runId'', uuid_json (rt_go env) (run_id r)),
                                        (''iteration'', jint (run_current_iteration r))] w
                              in resume_loop env c (nat (int MaxIterations - run_current_iteration r))
                                   \<lparr>ls_w = w, ls_task = t,
                                    ls_outs = previous_outputs org_id (run_agent_id r) tid (w_db w), ls_calls = 0\<rparr>))))"

section \<open>CheckParentAggregation\<close>

definition is_final :: "string \<Rightarrow> bool" where
  "is_final s \<longleftrightarrow> s \<in> {''completed'', ''failed'', ''cancelled''}"

definition listed_children :: "uuid \<Rightarrow> task \<Rightarrow> db \<Rightarrow> task list" where
  "listed_children org_id p d =
     filter (\<lambda>c. t_parent_task_id c = Some (t_id p)) (list_tasks org_id (Some (t_project_id p)) None [] None 100 d)"

definition aggregation_text :: "task \<Rightarrow> nat \<Rightarrow> nat \<Rightarrow> string" where
  "aggregation_text p n m = [CHR 0xE2, CHR 0x9C, CHR 0x85] @ '' Parent **'' @ t_title p @ ''** completed ''
     @ [CHR 0xE2, CHR 0x80, CHR 0x94] @ '' '' @ nat_str n @ ''/'' @ nat_str m @ '' subtasks done''"

definition check_parent_aggregation :: "runtime_env \<Rightarrow> uuid \<Rightarrow> uuid \<Rightarrow> world \<Rightarrow> world \<times> string option" where
  "check_parent_aggregation env org_id pid w =
     (case get_task org_id pid (w_db w) of
        Inl e \<Rightarrow> (w, Some e)
      | Inr p \<Rightarrow>
          (let cs = listed_children org_id p (w_db w); n = length (filter (\<lambda>c. t_status c = ''completed'') cs)
           in if is_final (t_status p) \<or> cs = [] \<or> (\<exists>c \<in> set cs. \<not> is_final (t_status c)) \<or> n = 0 then (w, None)
              else case on_db (update_task_status org_id pid ''completed'' ''agent''
                          (case t_assigned_to_agent p of None \<Rightarrow> nil_uuid | Some a \<Rightarrow> a)
                          (Some [(''aggregated'', jint (int n))])) w of
                     (w, Inl e) \<Rightarrow> (w, Some (''update parent: '' @ e))
                   | (w, Inr _) \<Rightarrow>
                       (case t_channel_id p of
                          None \<Rightarrow> (w, None)
                        | Some ch \<Rightarrow>
                            (case on_db (create_message org_id ch (resolve_thread_id org_id p (w_db w)) ''agent'' (t_assigned_to_agent p)
                                     (sanitize_user_content (aggregation_text p n (length cs)))) w of
                               (w, Inl _) \<Rightarrow> (w, None)
                             | (w, Inr m) \<Rightarrow>
                                 (send_to_org (rt_go env) org_id ''agent.message'' [(''message'', PMsg m)]
                                   (send_to_org (rt_go env) org_id ''agent.completed'' [(''taskId'', PJson (uuid_json (rt_go env) pid)),
                                      (''aggregated'', PJson (JBool True))] w), None)))))"

section \<open>The registered job handlers\<close>

definition payload_id :: "golib \<Rightarrow> job \<Rightarrow> string \<Rightarrow> uuid" where
  "payload_id g j k = path_id g (case mget_str (Some (job_payload j)) k of None \<Rightarrow> [] | Some s \<Rightarrow> s)"

definition agent_run_handler :: "runtime_env \<Rightarrow> world \<Rightarrow> job \<Rightarrow> world \<times> unit res" where
  "agent_run_handler env w j =
     (let g = rt_go env; corr = (case mget_str (Some (job_payload j)) ''correlation_id'' of None \<Rightarrow> [] | Some s \<Rightarrow> s)
      in case execute_task env (payload_id g j ''organization_id'') (payload_id g j ''agent_id'') (payload_id g j ''task_id'')
                (if corr = [] then None else uuid_parse g corr) ''task_assigned'' w of
           (w, None) \<Rightarrow> (w, ok ()) | (w, Some e) \<Rightarrow> (w, fail e))"

text \<open>The handlers of the memory and the knowledge service are parameters.\<close>

definition job_handlers :: "runtime_env \<Rightarrow> (world \<Rightarrow> job \<Rightarrow> world \<times> unit res) \<Rightarrow> (world \<Rightarrow> job \<Rightarrow> world \<times> unit res)
    \<Rightarrow> string \<Rightarrow> (world \<Rightarrow> job \<Rightarrow> world \<times> unit res) option" where
  "job_handlers env consolidate ingest typ =
     (if typ = ''memory_consolidation'' then Some consolidate
      else if typ = ''ingest_document'' then Some ingest
      else if typ = ''agent_run'' then Some (agent_run_handler env) else None)"

end
