(* ===== verification/Effects.thy ===== *)
theory Effects
  imports Runtime
begin

text \<open>
  What a run does to the state, whatever relation between states one looks at. The runtime touches the
  world only through a few operations of the repository, the hub, the pool, the tool executor and the
  memory service. A preorder on worlds that each of these respects is respected by a whole decision, by
  an iteration, by \<^verbatim>\<open>ExecuteTask\<close> and by \<^verbatim>\<open>ResumeRun\<close>. The locales state the interface in three parts: what the
  actions use apart from the tools, the tools, and what only the loops use.
\<close>

section \<open>What the actions use\<close>

lemma world_of_output [simp]: "as_w (add_output m s) = as_w s" "as_w (on_world f s) = f (as_w s)"
  by (simp_all add: add_output_def on_world_def)

lemma create_task_failed [simp]:
  "as_w (create_task_failed tn n inp e s) = log_action tn n ''tool_call'' (Some ''create_task'') inp (Some [(''error'', JStr e)]) ''failed'' (as_w s)"
  by (simp add: create_task_failed_def)

lemma run_db_status: "run_db f w = fst (on_db f w)"
  by (simp add: run_db_def on_db_def split_beta)

locale action_effects =
  fixes env :: runtime_env and R :: "world \<Rightarrow> world \<Rightarrow> bool"
  assumes R_refl [intro!]: "R w w"
    and R_trans: "R u v \<Longrightarrow> R v w \<Longrightarrow> R u w"
    and R_log: "R w (run_db (create_agent_action r n typ name inp out st corr) w)"
    and R_event: "R w (send_to_org g org_id typ pl w)"
    and R_out: "R w (w\<lparr>w_out := es\<rparr>)"
    and R_message: "R w (fst (on_db (create_message org_id c th sender i body) w))"
    and R_subtask: "R w (fst (on_db (create_task g org_id p ch pt tm a usr title desc prio dl corr cb) w))"
    and R_assign: "R w (fst (on_db (assign_task g org_id tid a usr aby) w))"
    and R_status: "R w (fst (on_db (update_task_status org_id tid st actor aid pl') w))"
    and R_task_event: "R w (run_db (create_task_event tid actor i ev pl' corr) w)"
    and R_job: "R w (enqueue_job j w)"
    and R_spawn: "R w (w\<lparr>w_spawned := gs\<rparr>)"
    and R_retrieve: "rt_memory env = Some svc \<Longrightarrow> R w (fst (on_db (ms_retrieve svc org_id ag' pr' q lm mn) w))"
    and R_memory: "rt_memory env = Some svc \<Longrightarrow> R w (fst (on_db (ms_create svc org_id ag pr mt sc src content imp) w))"
begin

text \<open>The same facts as introduction rules that extend a chain on the right.\<close>

lemma log [intro!]: "R u w \<Longrightarrow> R u (log_action tn n typ name inp out st w)"
  unfolding log_action_def by (blast intro: R_trans R_log)

lemma event [intro!]: "R u w \<Longrightarrow> R u (send_to_org g org_id typ pl w)"
  by (blast intro: R_trans R_event)

lemma out [intro!]: "R u w \<Longrightarrow> R u (w\<lparr>w_out := es\<rparr>)"
  by (blast intro: R_trans R_out)

lemma message [intro!]: "R u w \<Longrightarrow> R u (fst (on_db (create_message org_id c th sender i body) w))"
  by (blast intro: R_trans R_message)

lemma subtask [intro!]:
  "R u w \<Longrightarrow> R u (fst (on_db (create_task g org_id p ch pt tm a v title desc prio dl corr cb) w))"
  by (blast intro: R_trans R_subtask)

lemma assign [intro!]: "R u w \<Longrightarrow> R u (fst (on_db (assign_task g org_id tid a v aby) w))"
  by (blast intro: R_trans R_assign)

lemma status [intro!]: "R u w \<Longrightarrow> R u (fst (on_db (update_task_status org_id tid st typ i pl) w))"
  by (blast intro: R_trans R_status)

lemma task_event [intro!]: "R u w \<Longrightarrow> R u (run_db (create_task_event tid typ i ev pl corr) w)"
  by (blast intro: R_trans R_task_event)

lemma job [intro!]: "R u w \<Longrightarrow> R u (enqueue_job j w)"
  by (blast intro: R_trans R_job)

lemma spawn [intro!]: "R u w \<Longrightarrow> R u (w\<lparr>w_spawned := gs\<rparr>)"
  by (blast intro: R_trans R_spawn)

lemma memory [intro!]:
  "rt_memory env = Some svc \<Longrightarrow> R u w \<Longrightarrow> R u (fst (on_db (ms_create svc org_id ag pr mt sc src content imp) w))"
  by (blast intro: R_trans R_memory)

lemma broadcast [intro!]: "R u w \<Longrightarrow> R u (broadcast g tn t typ pl w)"
  by (auto simp: broadcast_def Let_def split: option.split)

lemma post [intro!]: "R u w \<Longrightarrow> R u (fst (post g tn t body extra w))"
  by (auto simp: post_def split_beta split: option.split sum.split)

lemma aggregation [intro!]: "R u w \<Longrightarrow> R u (spawn_aggregation tn t w)"
  by (auto simp: spawn_aggregation_def split: option.split)

lemma created_memory [intro!]: "R u w \<Longrightarrow> R u (fst (create_memory_from_update env org_id ag p mu w))"
  by (auto simp: create_memory_from_update_def Let_def split: option.split)

lemma retrieve [intro!]:
  "rt_memory env = Some svc \<Longrightarrow> R u w \<Longrightarrow> R u (fst (on_db (ms_retrieve svc org_id ag pr q lm mn) w))"
  by (blast intro: R_trans R_retrieve)

lemma task_status [intro!]: "R u w \<Longrightarrow> R u (set_task c t st pl w)"
  unfolding set_task_def run_db_status by blast

lemma tell [intro!]: "R u w \<Longrightarrow> R u (tell e c t typ m w)"
  unfolding tell_def by blast

lemma log_run [intro!]: "R u w \<Longrightarrow> R u (log_run c n typ inp st w)"
  unfolding log_run_def by blast

lemma reply [intro!]: "R u w \<Longrightarrow> R u (reply_to_channel e c t resp key w)"
  unfolding reply_to_channel_def by auto

lemma project_event [intro!]: "R u w \<Longrightarrow> R u (project_event e c t typ w)"
  unfolding project_event_def by auto

lemma updates [intro!]: "R u w \<Longrightarrow> R u (store_updates env c t mus w)"
  unfolding store_updates_def by (induction mus arbitrary: w) auto

lemma memories [intro!]: "R u w \<Longrightarrow> R u (fst (retrieve_memories env org_id ag t q w))"
  by (auto simp: retrieve_memories_def split_beta split: option.split sum.split)

lemma turn_ctx [intro!]: "R u w \<Longrightarrow> R u (fst (turn_context env org_id a p t outs w))"
  by (auto simp: turn_context_def Let_def split_beta)

text \<open>One lemma for each kind of action.\<close>

lemma send_message: "R (as_w s) (as_w (do_send_message g tn n a s))"
  by (auto simp: do_send_message_def Let_def split_beta)

lemma announce [intro!]: "R u w \<Longrightarrow> R u (announce_subtask g tn t title dest sub w)"
  by (auto simp: announce_subtask_def Let_def split: option.split)

lemma create_task: "R (as_w s) (as_w (fst (do_create_task env tn n a s)))"
  unfolding do_create_task_def Let_def split_beta
  by (auto split: option.split sum.split)

lemma delegate_task: "R (as_w s) (as_w (do_delegate_task g tn n a s))"
  unfolding do_delegate_task_def Let_def split_beta
  by (auto split: option.split sum.split)

lemma request: "R (as_w s) (as_w (do_request g tn n a s))"
  by (auto simp: do_request_def Let_def)

lemma update_task: "R (as_w s) (as_w (do_update_task tn n a s))"
  unfolding do_update_task_def Let_def split_beta
  by (auto split: sum.split)

lemma complete_task: "R (as_w s) (as_w (do_complete_task g tn n s))"
  unfolding do_complete_task_def Let_def split_beta
  by (auto split: sum.split)

lemma fail_task: "R (as_w s) (as_w (do_fail_task tn n s))"
  unfolding do_fail_task_def Let_def split_beta
  by (auto split: sum.split)

lemma store_memory: "R (as_w s) (as_w (do_store_memory env tn n a s))"
  unfolding do_store_memory_def Let_def split_beta
  by (auto split: sum.split)

lemma quiet_action:
  assumes "act_type a \<noteq> ''call_tool''"
  shows "R (as_w s) (as_w (fst (action_step env tn n a s)))"
  using assms send_message create_task delegate_task request update_task complete_task fail_task store_memory
  by (simp add: action_step_def Let_def R_refl)

end

section \<open>The tools\<close>

locale tool_effects = action_effects +
  assumes R_tool: "rt_tools env = Some te \<Longrightarrow> R w (fst (execute te p w))"
begin

lemma tool [intro!]: "rt_tools env = Some te \<Longrightarrow> R u w \<Longrightarrow> R u (fst (execute te p w))"
  by (blast intro: R_trans R_tool)

lemma call_tool: "R (as_w s) (as_w (fst (do_call_tool env tn n a s)))"
  unfolding do_call_tool_def Let_def split_beta tool_output_def
  by (auto split: option.split)

lemma action: "R (as_w s) (as_w (fst (action_step env tn n a s)))"
  by (cases "act_type a = ''call_tool''") (use call_tool quiet_action in \<open>simp_all add: action_step_def\<close>)

lemma actions: "R (as_w s) (as_w (fst (run_actions env tn i as s)))"
proof (induction as arbitrary: i s)
  case (Cons a as)
  obtain s' e where s': "action_step env tn (i + 2) a s = (s', e)" by (cases "action_step env tn (i + 2) a s")
  from action [of s tn "i + 2" a] have "R (as_w s) (as_w s')" by (simp add: s')
  with Cons.IH [of s' "i + 1"] show ?case by (auto simp: s' split: option.split intro: R_trans)
qed (simp add: R_refl)

lemma decision [intro!]: "R u w \<Longrightarrow> R u (as_w (fst (execute_decision_actions env org_id ag t rid dec corr w)))"
  unfolding execute_decision_actions_def
  by (rule R_trans, assumption) (use actions in \<open>metis act_state.select_convs(1)\<close>)

lemma execution: "execute_decision_actions env org_id ag t rid dec corr w = (s, e) \<Longrightarrow> R u w \<Longrightarrow> R u (as_w s)"
  using decision [of u w org_id ag t rid dec corr] by simp

end

section \<open>The questions\<close>

text \<open>A run records what it asks the model.\<close>

locale question_effects = tool_effects +
  assumes R_llm: "R w (w\<lparr>w_llm := w_llm w @ [q]\<rparr>)"
begin

lemma ask [intro!]: "R u w \<Longrightarrow> R u (fst (ask_model env a msgs w))"
  unfolding ask_model_def Let_def by (auto intro: R_trans R_llm)

lemma ask_turn [intro!]: "R u w \<Longrightarrow> R u (fst (ask_turn env c it extra note t outs w))"
  unfolding ask_turn_def Let_def split_beta by auto

lemma ask_repair [intro!]: "R u w \<Longrightarrow> R u (fst (ask_repair env a w p))"
  unfolding ask_repair_def split_beta by (auto split: sum.split)

lemma repair_loop: "R u w \<Longrightarrow> R u (fst (repair_loop g (ask_repair env a) n e w))"
proof (induction n arbitrary: e w)
  case (Suc n)
  have "R u (fst (ask_repair env a w p))" for p using Suc.prems by blast
  with Suc.IH show ?case by (auto simp: split_beta split: sum.split)
qed simp

lemma retry [intro!]: "R u w \<Longrightarrow> R u (fst (retry_decision g (ask_repair env a) raw w))"
  by (auto simp: retry_decision_def repair_loop split: sum.split)

lemma resume_repair: "R u w \<Longrightarrow> R u (fst (resume_repair env a n e w))"
proof (induction n arbitrary: e w)
  case (Suc n)
  have "R u (fst (ask_repair env a w p))" for p using Suc.prems by blast
  with Suc.IH show ?case by (auto simp: split_beta split: sum.split)
qed simp

end

section \<open>What only the loops use\<close>

definition turn_world :: "turn_result \<Rightarrow> world" where
  "turn_world r = (case r of Stop w e \<Rightarrow> w | Next st \<Rightarrow> ls_w st)"

lemma turn_world_simps [simp]: "turn_world (Stop w e) = w" "turn_world (Next st) = ls_w st"
  by (simp_all add: turn_world_def)

locale run_effects = tool_effects +
  assumes R_run_status: "R w (run_db (update_agent_run_status org_id rid st out err) w)"
    and R_run_waiting: "R w (run_db (update_agent_run_waiting org_id rid st it err pend out) w)"
    and R_run_tokens: "R w (run_db (update_agent_run_tokens org_id rid us) w)"
    and R_run_created: "R w (fst (on_db (create_agent_run org_id agent task chan trig inp ctx corr parent) w))"
    and R_metric: "R w (count_metric mf w)"
begin

lemma run_status [intro!]: "R u w \<Longrightarrow> R u (set_run c st out err w)"
  unfolding set_run_def by (blast intro: R_trans R_run_status)

lemma run_waiting [intro!]: "R u w \<Longrightarrow> R u (set_waiting c st it rs out w)"
  unfolding set_waiting_def by (blast intro: R_trans R_run_waiting)

lemma run_tokens [intro!]: "R u w \<Longrightarrow> R u (run_db (update_agent_run_tokens org_id rid us) w)"
  by (blast intro: R_trans R_run_tokens)

lemma metric [intro!]: "R u w \<Longrightarrow> R u (count_metric f w)"
  by (blast intro: R_trans R_metric)

text \<open>The ways an iteration ends.\<close>

lemma ends [intro!]:
  "R u w \<Longrightarrow> R u (model_failed env c it t e w)" "R u w \<Longrightarrow> R u (decision_refused env c it t e w)"
  "R u w \<Longrightarrow> R u (park env c it t st w)" "R u w \<Longrightarrow> R u (finish_completed env c it t dec w)"
  "R u w \<Longrightarrow> R u (finish_failed env c it t dec w)" "R u w \<Longrightarrow> R u (finish_waiting env c it t st dec w)"
  "R u w \<Longrightarrow> R u (answered env c it content us w)"
  unfolding model_failed_def decision_refused_def park_def finish_completed_def finish_failed_def finish_waiting_def
    answered_def Let_def by auto

end

text \<open>The courses an iteration of \<^verbatim>\<open>ExecuteTask\<close> can take.\<close>

definition heard :: "runtime_env \<Rightarrow> run_ctx \<Rightarrow> int \<Rightarrow> task \<Rightarrow> string \<Rightarrow> usage \<Rightarrow> world \<Rightarrow> world" where
  "heard env c it t content us w =
     tell env c t ''agent.tool_completed'' [(''tool'', JStr ''llm_call''), (''iteration'', jint it), (''usage'', usage_json us)]
       (answered env c it content us w)"

lemma task_turn_cases:
  fixes st :: loop_state
  defines "t \<equiv> ls_task st"
  obtains (no_answer) w1 e where "ask_turn env c it decision_schema [] t (ls_outs st) (ls_w st) = (w1, Inl e)"
      "task_turn env c it st = Stop (model_failed env c it t e w1) (Some e)"
  | (no_decision) w1 content us w2 e where
      "ask_turn env c it decision_schema [] t (ls_outs st) (ls_w st) = (w1, Inr (content, us))"
      "decide_turn env c it t content (heard env c it t content us w1) = (w2, Inl e)"
      "task_turn env c it st = Stop w2 (Some e)"
  | (refused) w1 content us w2 dec e where
      "ask_turn env c it decision_schema [] t (ls_outs st) (ls_w st) = (w1, Inr (content, us))"
      "decide_turn env c it t content (heard env c it t content us w1) = (w2, Inr dec)"
      "validate_decision (rc_org c) (rc_agent c) t dec (ls_calls st) (w_db w2) = Inl e"
      "task_turn env c it st = Stop (decision_refused env c it t e w2) (Some e)"
  | (executed) w1 content us w2 dec s where
      "ask_turn env c it decision_schema [] t (ls_outs st) (ls_w st) = (w1, Inr (content, us))"
      "decide_turn env c it t content (heard env c it t content us w1) = (w2, Inr dec)"
      "validate_decision (rc_org c) (rc_agent c) t dec (ls_calls st) (w_db w2) = ok ()"
      "execute_decision_actions env (rc_org c) (rc_agent c) t (rc_run c) dec (rc_corr c) w2 = (s, None)"
      "task_turn env c it st = after_actions env c it dec (ls_calls st) (ls_outs st) s"
  | (parked) w1 content us w2 dec s e where
      "ask_turn env c it decision_schema [] t (ls_outs st) (ls_w st) = (w1, Inr (content, us))"
      "decide_turn env c it t content (heard env c it t content us w1) = (w2, Inr dec)"
      "validate_decision (rc_org c) (rc_agent c) t dec (ls_calls st) (w_db w2) = ok ()"
      "execute_decision_actions env (rc_org c) (rc_agent c) t (rc_run c) dec (rc_corr c) w2 = (s, Some e)"
      "as_status s = ''approval_required'' \<or> as_status s = ''waiting''"
      "task_turn env c it st = Stop (park env c it (as_task s) (as_status s) (as_w s)) None"
  | (aborted) w1 content us w2 dec s e where
      "ask_turn env c it decision_schema [] t (ls_outs st) (ls_w st) = (w1, Inr (content, us))"
      "decide_turn env c it t content (heard env c it t content us w1) = (w2, Inr dec)"
      "validate_decision (rc_org c) (rc_agent c) t dec (ls_calls st) (w_db w2) = ok ()"
      "execute_decision_actions env (rc_org c) (rc_agent c) t (rc_run c) dec (rc_corr c) w2 = (s, Some e)"
      "as_status s \<noteq> ''approval_required''" "as_status s \<noteq> ''waiting''"
      "task_turn env c it st = Stop (as_w s) (Some e)"
proof -
  obtain w1 r1 where 1: "ask_turn env c it decision_schema [] t (ls_outs st) (ls_w st) = (w1, r1)"
    by (cases "ask_turn env c it decision_schema [] t (ls_outs st) (ls_w st)")
  note def = task_turn_def Let_def t_def [symmetric]
  show thesis
  proof (cases r1)
    case (Inl e)
    with 1 show thesis by (intro no_answer) (simp_all add: def)
  next
    case (Inr x)
    then obtain content us where x: "r1 = Inr (content, us)" by (cases x) simp
    obtain w2 r2 where 2: "decide_turn env c it t content (heard env c it t content us w1) = (w2, r2)"
      by (cases "decide_turn env c it t content (heard env c it t content us w1)")
    note turn = 1 [unfolded x] 2 [unfolded heard_def]
    show thesis
    proof (cases r2)
      case (Inl e)
      with 1 2 x turn show thesis by (intro no_decision) (simp_all add: def)
    next
      case (Inr dec)
      obtain s e where s: "execute_decision_actions env (rc_org c) (rc_agent c) t (rc_run c) dec (rc_corr c) w2 = (s, e)"
        by (cases "execute_decision_actions env (rc_org c) (rc_agent c) t (rc_run c) dec (rc_corr c) w2")
      note known = 1 [unfolded x] 2 [unfolded Inr]
      show thesis
      proof (cases "validate_decision (rc_org c) (rc_agent c) t dec (ls_calls st) (w_db w2)")
        case (Inl e)
        with known turn Inr show thesis by (intro refused) (simp_all add: def)
      next
        case v: (Inr u)
        show thesis
        proof (cases e)
          case None
          with known turn Inr v s show thesis by (intro executed) (simp_all add: def)
        next
          case (Some msg)
          with known turn Inr v s show thesis
            by (cases "as_status s = ''approval_required'' \<or> as_status s = ''waiting''")
              ((rule parked, (simp_all add: def) [6]), (rule aborted, (simp_all add: def) [7]))
        qed
      qed
    qed
  qed
qed

text \<open>The loops put the two together.\<close>

locale model_effects = question_effects + run_effects
begin

lemma decide_turn [intro!]: "R u w \<Longrightarrow> R u (fst (decide_turn env c it t content w))"
  unfolding decide_turn_def Let_def split_beta by (auto split: sum.split)

lemma resume_decide [intro!]: "R u w \<Longrightarrow> R u (fst (resume_decide env c content w))"
  unfolding resume_decide_def Let_def split_beta by (auto simp: resume_repair split: sum.split)

text \<open>An iteration, the loops, and a whole run.\<close>

lemma after: "R u (as_w s) \<Longrightarrow> R u (turn_world (after_actions env c it dec calls outs s))"
  unfolding after_actions_def Let_def by auto

lemma turn: "R (ls_w st) (turn_world (task_turn env c it st))"
proof -
  let ?t = "ls_task st"
  have asked: "R (ls_w st) w1" if "ask_turn env c it decision_schema [] ?t (ls_outs st) (ls_w st) = (w1, r)" for w1 r
    using ask_turn [of "ls_w st" "ls_w st" c it decision_schema "[]" ?t "ls_outs st"] that by (simp add: R_refl)
  have decided: "R (ls_w st) w2" if "decide_turn env c it ?t content (heard env c it ?t content us w1) = (w2, r)"
    and "R (ls_w st) w1" for w1 w2 content us r
  proof -
    have "R (ls_w st) (heard env c it ?t content us w1)" using that(2) by (auto simp: heard_def)
    from decide_turn [OF this, of c it ?t content] show ?thesis by (simp add: that(1))
  qed
  show ?thesis
    by (cases rule: task_turn_cases [of env c it st])
      (auto dest!: asked decided execution intro: after)
qed

lemma loop: "R (ls_w st) (fst (task_loop env c n st))"
proof (induction n arbitrary: st)
  case (Suc n)
  show ?case
  proof (cases "rt_done env (ls_w st)")
    case False
    let ?it = "int MaxIterations - int n"
    show ?thesis
    proof (cases "task_turn env c ?it st")
      case (Next st')
      with turn [of st c ?it] Suc.IH [of st'] False show ?thesis by (auto intro: R_trans)
    qed (use False turn [of st c ?it] in simp)
  qed auto
qed auto

lemma started [intro!]: "R u w \<Longrightarrow> R u (fst (start_run env org_id ag t p corr trig w))"
  unfolding start_run_def by (blast intro: R_trans R_run_created)

lemma executed: "R w (fst (execute_task env org_id agent tid corr trig w))"
  unfolding execute_task_def Let_def split_beta
  by (auto split: sum.split intro!: R_trans [OF _ loop])

lemma resumed_turn: "R (ls_w st) (turn_world (resume_turn env c it st))"
proof -
  let ?t = "ls_task st" and ?outs = "ls_outs st" and ?x = "resume_schema @ fmt_v (rt_go env) (JArr (map JObj (ls_outs st)))"
  obtain w1 r1 where 1: "ask_turn env c it ?x [(''resumed'', JBool True)] ?t ?outs (ls_w st) = (w1, r1)"
    by (cases "ask_turn env c it ?x [(''resumed'', JBool True)] ?t ?outs (ls_w st)")
  have R1: "R (ls_w st) w1" using ask_turn [of "ls_w st" "ls_w st" c it ?x "[(''resumed'', JBool True)]" ?t ?outs] 1 by (simp add: R_refl)
  show ?thesis
  proof (cases r1)
    case (Inl e)
    with 1 R1 show ?thesis by (auto simp: resume_turn_def Let_def)
  next
    case (Inr x)
    obtain content us where x: "x = (content, us)" by (cases x)
    obtain w3 r3 where 3: "resume_decide env c content (answered env c it content us w1) = (w3, r3)"
      by (cases "resume_decide env c content (answered env c it content us w1)")
    have "R (ls_w st) (answered env c it content us w1)" using R1 by blast
    from resume_decide [OF this, of c content] have R3: "R (ls_w st) w3" by (simp add: 3)
    show ?thesis
    proof (cases r3)
      case (Inr dec)
      obtain s e where s: "execute_decision_actions env (rc_org c) (rc_agent c) ?t (rc_run c) dec (rc_corr c) w3 = (s, e)"
        by (cases "execute_decision_actions env (rc_org c) (rc_agent c) ?t (rc_run c) dec (rc_corr c) w3")
      have "R (ls_w st) (as_w s)" using execution [OF s R3] .
      then show ?thesis using R3 1 3
        by (auto simp: resume_turn_def Let_def \<open>r1 = Inr x\<close> x Inr s split: sum.split option.split)
    qed (use R3 1 3 in \<open>simp add: resume_turn_def Let_def \<open>r1 = Inr x\<close> x\<close>)
  qed
qed

lemma resumed_loop: "R (ls_w st) (fst (resume_loop env c n st))"
proof (induction n arbitrary: st)
  case (Suc n)
  show ?case
  proof (cases "rt_done env (ls_w st)")
    case False
    let ?it = "int MaxIterations - int n"
    show ?thesis
    proof (cases "resume_turn env c ?it st")
      case (Next st')
      with resumed_turn [of st c ?it] Suc.IH [of st'] False show ?thesis by (auto intro: R_trans)
    qed (use False resumed_turn [of st c ?it] in simp)
  qed auto
qed auto

lemma resumed: "R w (fst (resume_run env org_id rid w))"
  unfolding resume_run_def Let_def
  by (auto split: sum.split option.split intro!: R_trans [OF _ resumed_loop])

lemma aggregated: "R w (fst (check_parent_aggregation env org_id pid w))"
  unfolding check_parent_aggregation_def Let_def split_beta
  by (auto split: sum.split option.split)

lemma job_run: "R w (fst (agent_run_handler env w j))"
  using executed by (auto simp: agent_run_handler_def Let_def split_beta split: option.split)

end

end
