(* ===== verification/Lifecycle.thy ===== *)
theory Lifecycle
  imports Effects
begin

text \<open>
  What a run does to the rest of the system. The theory instantiates the locales of Effects with the
  relations that matter: which tables an operation touches, the questions asked, the invariants of the
  tables, the steps of the repository. From them follow how a run ends, how many questions and tool
  calls it makes, and that the tables stay consistent whatever the model answers.
\<close>

section \<open>The tables an operation touches\<close>

text \<open>Two databases agree on all tables but those of one part of the repository, and IDs are only handed out.\<close>

definition tasks_touched :: "db \<Rightarrow> db \<Rightarrow> bool" where
  "tasks_touched d d' \<longleftrightarrow> next_id d \<le> next_id d' \<and>
     (let f = (\<lambda>d. d\<lparr>tasks := [], task_assignments := [], task_events := [], next_id := 0, metrics := metrics empty_db\<rparr>)
      in f d' = f d)"

definition tools_touched :: "db \<Rightarrow> db \<Rightarrow> bool" where
  "tools_touched d d' \<longleftrightarrow> next_id d \<le> next_id d' \<and>
     (let f = (\<lambda>d. d\<lparr>executions := [], approvals := [], next_id := 0, metrics := metrics empty_db\<rparr>) in f d' = f d)"

definition messages_touched :: "db \<Rightarrow> db \<Rightarrow> bool" where
  "messages_touched d d' \<longleftrightarrow> next_id d \<le> next_id d' \<and>
     (let f = (\<lambda>d. d\<lparr>messages := [], message_threads := [], next_id := 0\<rparr>) in f d' = f d)"

definition log_touched :: "db \<Rightarrow> db \<Rightarrow> bool" where
  "log_touched d d' \<longleftrightarrow> next_id d \<le> next_id d' \<and> (let f = (\<lambda>d. d\<lparr>actions := [], next_id := 0\<rparr>) in f d' = f d)"

definition runs_touched :: "db \<Rightarrow> db \<Rightarrow> bool" where
  "runs_touched d d' \<longleftrightarrow> next_id d \<le> next_id d' \<and> (let f = (\<lambda>d. d\<lparr>runs := [], next_id := 0\<rparr>) in f d' = f d)"

lemmas touched_defs = tasks_touched_def tools_touched_def messages_touched_def log_touched_def runs_touched_def Let_def

lemma touched_refl [simp]: "tasks_touched d d" "tools_touched d d" "messages_touched d d" "log_touched d d" "runs_touched d d"
  by (simp_all add: touched_defs)

lemma touched_trans:
  "tasks_touched d1 d2 \<Longrightarrow> tasks_touched d2 d3 \<Longrightarrow> tasks_touched d1 d3"
  "tools_touched d1 d2 \<Longrightarrow> tools_touched d2 d3 \<Longrightarrow> tools_touched d1 d3"
  by (simp_all add: touched_defs)

text \<open>What the touched part leaves alone.\<close>

lemma tasks_touched_frame:
  assumes "tasks_touched d d'"
  shows "runs d' = runs d" "executions d' = executions d" "actions d' = actions d" "approvals d' = approvals d"
    "organizations d' = organizations d" "now d' = now d" "next_id d \<le> next_id d'" "agents d' = agents d"
  using assms by (cases d; cases d'; simp add: touched_defs)+

lemma tools_touched_frame:
  assumes "tools_touched d d'"
  shows "runs d' = runs d" "tasks d' = tasks d" "task_events d' = task_events d" "actions d' = actions d"
    "organizations d' = organizations d" "now d' = now d" "next_id d \<le> next_id d'" "agents d' = agents d"
  using assms by (cases d; cases d'; simp add: touched_defs)+

lemma messages_touched_frame:
  assumes "messages_touched d d'"
  shows "runs d' = runs d" "tasks d' = tasks d" "task_events d' = task_events d" "actions d' = actions d"
    "executions d' = executions d" "approvals d' = approvals d"
    "organizations d' = organizations d" "now d' = now d" "next_id d \<le> next_id d'" "agents d' = agents d"
  using assms by (cases d; cases d'; simp add: touched_defs)+

lemma log_touched_frame:
  assumes "log_touched d d'"
  shows "runs d' = runs d" "tasks d' = tasks d" "task_events d' = task_events d"
    "executions d' = executions d" "approvals d' = approvals d"
    "organizations d' = organizations d" "now d' = now d" "next_id d \<le> next_id d'" "agents d' = agents d"
  using assms by (cases d; cases d'; simp add: touched_defs)+

lemma runs_touched_frame:
  assumes "runs_touched d d'"
  shows "tasks d' = tasks d" "task_events d' = task_events d" "actions d' = actions d"
    "executions d' = executions d" "approvals d' = approvals d"
    "organizations d' = organizations d" "now d' = now d" "next_id d \<le> next_id d'" "agents d' = agents d"
  using assms by (cases d; cases d'; simp add: touched_defs)+

text \<open>The operations of the repository, by the part they touch.\<close>

lemma insert_task_touched: "insert_task t d = ok (t', d') \<Longrightarrow> tasks_touched d d'"
  by (drule insert_task_cases(2)) (simp add: touched_defs)

lemma insert_event_touched: "insert_task_event e d = ok (e', d') \<Longrightarrow> tasks_touched d d'"
  by (drule insert_task_event_cases(2)) (simp add: touched_defs)

lemma insert_assignment_touched: "insert_task_assignment a d = ok (x, d') \<Longrightarrow> tasks_touched d d'"
  by (drule insert_task_assignment_cases(1)) (simp add: touched_defs)

lemma update_tasks_touched: "update_tasks P f d = ok (x, d') \<Longrightarrow> tasks_touched d d'"
  by (drule update_tasks_cases(1)) (simp add: touched_defs)

lemma counters_touched: "tasks_touched d (inc_tasks d)" "tasks_touched d (inc_tasks_completed d)"
  by (simp_all add: touched_defs inc_tasks_def inc_tasks_completed_def)

lemma create_task_touched:
  "tasks_touched d (fst (create_task g org_id p ch pt tm a u title desc prio dl corr cb d))"
proof -
  obtain d' r where e: "create_task g org_id p ch pt tm a u title desc prio dl corr cb d = (d', r)" by fastforce
  show ?thesis
  proof (cases r)
    case (Inl msg)
    with e create_task_error show ?thesis by fastforce
  next
    case (Inr t)
    from create_task_okE [OF e [unfolded Inr] refl refl] obtain t0 d1 d2 d3 d4 e1 e2 x where
      "insert_task t0 d = ok (x, d1)" "d2 = d1 \<or> (\<exists>a. insert_task_assignment a d1 = ok ((), d2))"
      "insert_task_event e1 d2 = ok (e2, d3)" "d4 = d3 \<or> (\<exists>e3 e4. insert_task_event e3 d3 = ok (e4, d4))" "d' = inc_tasks d4"
      by metis
    then have "tasks_touched d d1" "tasks_touched d1 d2" "tasks_touched d2 d3" "tasks_touched d3 d4" "tasks_touched d4 d'"
      using counters_touched by (auto dest: insert_task_touched insert_event_touched insert_assignment_touched)
    then show ?thesis unfolding e fst_conv by (meson touched_trans(1))
  qed
qed

lemma update_task_status_touched: "tasks_touched d (fst (update_task_status org_id i st actor who pl d))"
proof -
  obtain d' r where u: "update_task_status org_id i st actor who pl d = (d', r)" by fastforce
  show ?thesis
  proof (cases "d' = d")
    case False
    show ?thesis
      unfolding u fst_conv
      by (rule update_task_status_okE [OF u disjI1 [OF False]], drule update_tasks_touched, drule insert_event_touched)
        (auto split: if_split_asm intro: touched_trans(1) [OF touched_trans(1)] counters_touched)
  qed (simp add: u)
qed

lemma assign_task_touched: "tasks_touched d (fst (assign_task g org_id i a u aby d))"
proof -
  obtain d' r where u: "assign_task g org_id i a u aby d = (d', r)" by fastforce
  show ?thesis
  proof (cases "d' = d")
    case False
    show ?thesis
      unfolding u fst_conv
      by (rule assign_task_okE [OF u disjI1 [OF False]], drule update_tasks_touched)
        (auto split: if_split_asm dest!: insert_event_touched insert_assignment_touched intro: touched_trans(1) [OF touched_trans(1)] touched_trans(1))
  qed (simp add: u)
qed

lemma create_task_event_touched: "tasks_touched d (fst (create_task_event i actor who ev pl corr d))"
  by (auto simp: create_task_event_def split: sum.split prod.split dest: insert_event_touched)

lemma create_message_touched: "messages_touched d (fst (create_message org_id c th sender i body d))"
  by (auto simp: create_message_def touched_defs count_reply_def dest!: insert_message_ok split: sum.split option.split prod.split)

lemma create_action_touched: "log_touched d (fst (create_agent_action r n typ name inp out st corr d))"
proof -
  obtain d' x where e: "create_agent_action r n typ name inp out st corr d = (d', x)" by fastforce
  then show ?thesis
    by (cases rule: create_agent_action_cases) (simp_all add: e, simp add: touched_defs)
qed

lemma update_runs_touched: "runs_touched d (fst (update_runs org_id i f d))"
  by (simp add: update_runs_def Let_def) (simp add: touched_defs)

lemma run_updates_touched:
  "runs_touched d (fst (update_agent_run_status org_id i st out err d))"
  "runs_touched d (fst (update_agent_run_waiting org_id i st n why pend out d))"
  "runs_touched d (fst (update_agent_run_tokens org_id i us d))"
  "runs_touched d (fst (create_agent_run org_id agent task chan trig inp ctx corr parent d))"
proof -
  show "runs_touched d (fst (update_agent_run_status org_id i st out err d))"
    by (simp add: update_agent_run_status_def Let_def update_runs_touched)
  show "runs_touched d (fst (update_agent_run_waiting org_id i st n why pend out d))"
    by (simp add: update_agent_run_waiting_def update_runs_touched)
  show "runs_touched d (fst (update_agent_run_tokens org_id i us d))"
    by (simp add: update_agent_run_tokens_def Let_def) (simp add: touched_defs)
  show "runs_touched d (fst (create_agent_run org_id agent task chan trig inp ctx corr parent d))"
    by (simp add: create_agent_run_def insert_run_def Let_def) (simp add: touched_defs)
qed

text \<open>The executor.\<close>

lemma new_execution_touched: "create_tool_execution e d = ok (e', d') \<Longrightarrow> tools_touched d d'"
  by (drule create_tool_execution_cases(2)) (simp add: touched_defs)

text \<open>
  \<open>only_tools n\<close>: nothing but the tables of the executor changed, the keys stay unique and at most \<open>n\<close>
  executions were added.
\<close>

definition keys_unique :: "db \<Rightarrow> bool" where
  "keys_unique d \<longleftrightarrow> distinct (map ex_idempotency_key (executions d))"

definition only_tools :: "nat \<Rightarrow> world \<Rightarrow> world \<Rightarrow> bool" where
  "only_tools n v w \<longleftrightarrow> tools_touched (w_db v) (w_db w) \<and> w_llm w = w_llm v \<and> w_pool w = w_pool v \<and> w_out w = w_out v
     \<and> w_spawned w = w_spawned v \<and> (keys_unique (w_db v) \<longrightarrow> keys_unique (w_db w))
     \<and> length (executions (w_db w)) \<le> length (executions (w_db v)) + n"

lemma only_tools_refl [intro!, simp]: "only_tools n w w"
  by (simp add: only_tools_def)

lemma only_tools_steps [intro!]:
  assumes "only_tools k v w"
  shows "only_tools k v (audit a b c e i w)" "only_tools k v (count_metric f w)" "only_tools k v (set_execution i st out err w)"
    "only_tools k v (record_audit br l w)" "only_tools k v (fst (search_first env n inp w))"
    "only_tools k v (fst (call_provider env n inp creds w))" "only_tools k v (fst (drive_browser br org_id ag pr n inp w))"
    "only_tools k v (fst (new_uuid w))" "only_tools k v (run_db (link_approval i ent ctx) w)"
  using assms
  by (auto simp: only_tools_def touched_defs audit_def count_metric_def set_execution_def update_tool_execution_status_def
      record_audit_def search_first_def call_provider_def drive_browser_def new_uuid_def run_db_def link_approval_def
      keys_unique_def map_update_where split: option.split)

lemma only_tools_ends [intro!]:
  assumes "only_tools k v w"
  shows "only_tools k v (tool_succeeded org_id ag i out w)" "only_tools k v (tool_failed org_id ag i msg w)"
    "only_tools k v (count_pages n out w)"
  using assms by (auto simp: tool_succeeded_def tool_failed_def count_pages_def Let_def)

lemma only_tools_insert [intro!]:
  "only_tools 0 v w \<Longrightarrow> only_tools (Suc 0) v (fst (on_db_res (create_tool_execution e) w))"
proof (cases rule: on_db_res_cases [of "create_tool_execution e" w])
  case (works x d)
  assume "only_tools 0 v w"
  with works create_tool_execution_cases [OF works(2)] show ?thesis
    by (auto simp: only_tools_def keys_unique_def touched_defs)
qed (simp add: only_tools_def)

lemma only_tools_approval [intro!]:
  "only_tools n v w \<Longrightarrow> only_tools n v (fst (on_db (create_approval org_id rt ra ru et ent title desc pl risk act target ctx ex) w))"
  by (auto simp: only_tools_def on_db_def create_approval_def insert_approval_def Let_def touched_defs keys_unique_def
      split: sum.split prod.split)

lemma only_tools_guards [intro!]: "only_tools n v w \<Longrightarrow> only_tools n v (fst (execute_guards env p w))"
  unfolding execute_guards_def Let_def by (auto split: sum.split option.split)

lemma execute_only_tools: "only_tools (Suc 0) w (fst (execute env p w))"
proof -
  have r: "only_tools (Suc 0) v (fst (request_approval env p key t w))" if "only_tools 0 v w" for v w key t
  proof -
    have "only_tools (Suc 0) v w" using that by (simp add: only_tools_def)
    with that show ?thesis unfolding request_approval_def Let_def split_beta by (auto split: sum.split)
  qed
  have b: "only_tools (Suc 0) v (fst (execute_browser env p key t w))" if "only_tools 0 v w" for v w key t
  proof -
    have "only_tools (Suc 0) v w" using that by (simp add: only_tools_def)
    with that show ?thesis unfolding execute_browser_def Let_def split_beta by (auto split: sum.split option.split)
  qed
  have q: "only_tools (Suc 0) v (fst (execute_provider env p key t w))" if "only_tools 0 v w" for v w key t
    unfolding execute_provider_def Let_def split_beta using that by (auto split: sum.split option.split)
  show ?thesis
    unfolding execute_def Let_def split_beta by (auto split: sum.split intro!: r b q)
qed

lemma execute_touched: "tools_touched (w_db w) (w_db (fst (execute env p w)))"
  using execute_only_tools by (simp add: only_tools_def)

text \<open>The memory service is free to do what it likes with its own tables.\<close>

definition memories_touched :: "db \<Rightarrow> db \<Rightarrow> bool" where
  "memories_touched d d' \<longleftrightarrow> next_id d \<le> next_id d' \<and>
     (let f = (\<lambda>d. d\<lparr>memories := [], memory_versions := [], memory_events := [], next_id := 0\<rparr>) in f d' = f d)"

lemma memories_touched_frame:
  assumes "memories_touched d d'"
  shows "runs d' = runs d" "tasks d' = tasks d" "task_events d' = task_events d" "actions d' = actions d"
    "executions d' = executions d" "approvals d' = approvals d"
    "organizations d' = organizations d" "now d' = now d" "next_id d \<le> next_id d'" "agents d' = agents d"
  using assms by (cases d; cases d'; simp add: memories_touched_def)+

definition memory_quiet :: "runtime_env \<Rightarrow> bool" where
  "memory_quiet env \<longleftrightarrow> (\<forall>svc. rt_memory env = Some svc \<longrightarrow>
     (\<forall>org_id ag pr mt sc src content imp d. memories_touched d (fst (ms_create svc org_id ag pr mt sc src content imp d)))
     \<and> (\<forall>org_id ag pr q lm mn d. memories_touched d (fst (ms_retrieve svc org_id ag pr q lm mn d))))"

lemma memory_quietD:
  assumes "memory_quiet env" and "rt_memory env = Some svc"
  shows "memories_touched d (fst (ms_create svc org_id ag pr mt sc src content imp d))"
    "memories_touched d (fst (ms_retrieve svc org_id ag pr q lm mn d))"
  using assms by (simp_all add: memory_quiet_def)

section \<open>The relations\<close>

lemma on_db_frame [simp]:
  "w_db (fst (on_db f w)) = fst (f (w_db w))" "w_llm (fst (on_db f w)) = w_llm w" "w_spawned (fst (on_db f w)) = w_spawned w"
  "w_pool (fst (on_db f w)) = w_pool w" "w_out (fst (on_db f w)) = w_out w"
  by (simp_all add: on_db_def split_beta)

lemma plumbing_llm [simp]:
  "w_llm (run_db f w) = w_llm w" "w_llm (send_to_org g org_id typ pl w) = w_llm w" "w_llm (enqueue_job j w) = w_llm w"
  "w_llm (count_metric mf w) = w_llm w"
  by (simp_all add: run_db_def send_to_org_def new_uuid_def enqueue_job_def count_metric_def split: option.split)

lemma send_to_org_db:
  "w_db (send_to_org g org_id typ pl w) = w_db w \<or>
   w_db (send_to_org g org_id typ pl w) = (w_db w)\<lparr>next_id := next_id (w_db w) + 1\<rparr>"
  by (simp add: send_to_org_def new_uuid_def split: option.split)

text \<open>Only the questions of a run go to the model.\<close>

interpretation unasked: run_effects env "\<lambda>v w. w_llm w = w_llm v"
  for env :: runtime_env
  by unfold_locales (use execute_only_tools in \<open>auto simp: only_tools_def\<close>)

text \<open>No action changes a run.\<close>

interpretation run_rows: question_effects env "\<lambda>v w. memory_quiet env \<longrightarrow> runs (w_db w) = runs (w_db v)"
  for env :: runtime_env
  by unfold_locales
    (auto simp: log_touched_frame [OF create_action_touched] messages_touched_frame [OF create_message_touched]
       tasks_touched_frame [OF create_task_touched] tasks_touched_frame [OF assign_task_touched]
       tasks_touched_frame [OF update_task_status_touched] tasks_touched_frame [OF create_task_event_touched]
       memories_touched_frame [OF memory_quietD(1)] memories_touched_frame [OF memory_quietD(2)] tools_touched_frame [OF execute_touched])

text \<open>No action but a tool call makes an execution.\<close>

interpretation execution_rows: action_effects env "\<lambda>v w. memory_quiet env \<longrightarrow> executions (w_db w) = executions (w_db v)"
  for env :: runtime_env
  by unfold_locales
    (auto simp: log_touched_frame [OF create_action_touched] messages_touched_frame [OF create_message_touched]
       tasks_touched_frame [OF create_task_touched] tasks_touched_frame [OF assign_task_touched]
       tasks_touched_frame [OF update_task_status_touched] tasks_touched_frame [OF create_task_event_touched]
       memories_touched_frame [OF memory_quietD(1)] memories_touched_frame [OF memory_quietD(2)])

section \<open>The repository as an abstract machine\<close>

text \<open>
  One step of the repository: an operation with any arguments. The other tables of a step stay as
  they are, so what every step keeps, every run keeps.
\<close>

inductive repo_step :: "runtime_env \<Rightarrow> db \<Rightarrow> db \<Rightarrow> bool" for env where
  log: "repo_step env d (fst (create_agent_action r n typ name inp out st corr d))"
| fresh: "repo_step env d (d\<lparr>next_id := next_id d + 1\<rparr>)"
| message: "repo_step env d (fst (create_message org_id c th sender i body d))"
| subtask: "repo_step env d (fst (create_task g org_id p ch pt tm a u title desc prio dl corr cb d))"
| assign: "repo_step env d (fst (assign_task g org_id tid a u aby d))"
| status: "repo_step env d (fst (update_task_status org_id tid st actor aid pl d))"
| task_event: "repo_step env d (fst (create_task_event tid actor i ev pl corr d))"
| remember: "rt_memory env = Some svc \<Longrightarrow> repo_step env d (fst (ms_create svc org_id ag pr mt sc src content imp d))"
| recall: "rt_memory env = Some svc \<Longrightarrow> repo_step env d (fst (ms_retrieve svc org_id ag pr q lm mn d))"
| tool: "rt_tools env = Some te \<Longrightarrow> repo_step env (w_db w) (w_db (fst (execute te p w)))"
| run_status: "repo_step env d (fst (update_agent_run_status org_id rid st out err d))"
| run_waiting: "repo_step env d (fst (update_agent_run_waiting org_id rid st it why pend out d))"
| run_tokens: "repo_step env d (fst (update_agent_run_tokens org_id rid us d))"
| run_created: "repo_step env d (fst (create_agent_run org_id agent task chan trig inp ctx corr parent d))"
| metric: "repo_step env d (d\<lparr>metrics := m\<rparr>)"

definition repo_reach :: "runtime_env \<Rightarrow> db \<Rightarrow> db \<Rightarrow> bool" where
  "repo_reach env = (repo_step env)\<^sup>*\<^sup>*"

lemma repo_reach_refl [simp]: "repo_reach env d d"
  by (simp add: repo_reach_def)

lemma repo_reach_trans: "repo_reach env d1 d2 \<Longrightarrow> repo_reach env d2 d3 \<Longrightarrow> repo_reach env d1 d3"
  unfolding repo_reach_def by (rule rtranclp_trans)

lemma repo_reach_step: "repo_step env d d' \<Longrightarrow> repo_reach env d d'"
  unfolding repo_reach_def by (rule r_into_rtranclp)

lemmas repo_moves = repo_step.intros [THEN repo_reach_step]

lemma send_to_org_steps: "repo_reach env (w_db w) (w_db (send_to_org g org_id typ pl w))"
  using send_to_org_db [where w = w] repo_moves(2) [of env "w_db w"] by (metis repo_reach_refl)

interpretation steps: model_effects env "\<lambda>v w. repo_reach env (w_db v) (w_db w)"
  for env :: runtime_env
proof (unfold_locales, goal_cases)
  case 2
  then show ?case by (rule repo_reach_trans)
qed (simp_all add: repo_moves send_to_org_steps)

section \<open>The tables stay consistent\<close>

definition run_inv :: "db \<Rightarrow> bool" where
  "run_inv d \<longleftrightarrow> runs_wf d \<and> ids_below run_id (runs d) d"

definition log_inv :: "db \<Rightarrow> bool" where
  "log_inv d \<longleftrightarrow> actions_wf d \<and> (\<forall>a \<in> set (actions d). aa_run_id a \<in> run_id ` set (runs d)
     \<and> 0 \<le> aa_seq a \<and> aa_action_type a \<in> set action_type_check)"

definition consistent :: "db \<Rightarrow> bool" where
  "consistent d \<longleftrightarrow> task_inv d \<and> run_inv d \<and> log_inv d \<and> keys_unique d"

text \<open>Each part depends on its own tables.\<close>

lemma task_inv_same:
  "tasks d' = tasks d \<Longrightarrow> task_events d' = task_events d \<Longrightarrow> organizations d' = organizations d \<Longrightarrow> next_id d \<le> next_id d' \<Longrightarrow>
    task_inv d \<Longrightarrow> task_inv d'"
  by (auto simp: task_inv_def wf_task_def dest: less_le_trans)

lemma run_inv_frame: "runs d' = runs d \<Longrightarrow> next_id d \<le> next_id d' \<Longrightarrow> run_inv d \<Longrightarrow> run_inv d'"
  by (auto simp: run_inv_def runs_wf_def ids_below_def dest: less_le_trans)

lemma log_inv_frame: "actions d' = actions d \<Longrightarrow> run_id ` set (runs d) \<subseteq> run_id ` set (runs d') \<Longrightarrow> log_inv d \<Longrightarrow> log_inv d'"
  by (auto simp: log_inv_def actions_wf_def)

lemma keys_unique_frame: "executions d' = executions d \<Longrightarrow> keys_unique d \<Longrightarrow> keys_unique d'"
  by (simp add: keys_unique_def)

lemma consistent_tasks: "tasks_touched d d' \<Longrightarrow> (task_inv d \<Longrightarrow> task_inv d') \<Longrightarrow> consistent d \<Longrightarrow> consistent d'"
  using tasks_touched_frame [of d d']
  by (auto simp: consistent_def intro: run_inv_frame log_inv_frame keys_unique_frame)

lemma consistent_messages: "messages_touched d d' \<Longrightarrow> consistent d \<Longrightarrow> consistent d'"
  using messages_touched_frame [of d d']
  by (auto simp: consistent_def intro: task_inv_same run_inv_frame log_inv_frame keys_unique_frame)

lemma consistent_memories: "memories_touched d d' \<Longrightarrow> consistent d \<Longrightarrow> consistent d'"
  using memories_touched_frame [of d d']
  by (auto simp: consistent_def intro: task_inv_same run_inv_frame log_inv_frame keys_unique_frame)

lemma consistent_tools: "tools_touched d d' \<Longrightarrow> (keys_unique d \<Longrightarrow> keys_unique d') \<Longrightarrow> consistent d \<Longrightarrow> consistent d'"
  using tools_touched_frame [of d d']
  by (auto simp: consistent_def intro: task_inv_same run_inv_frame log_inv_frame)

lemma consistent_runs:
  "runs_touched d d' \<Longrightarrow> (run_inv d \<Longrightarrow> run_inv d') \<Longrightarrow> run_id ` set (runs d) \<subseteq> run_id ` set (runs d') \<Longrightarrow> consistent d \<Longrightarrow> consistent d'"
  using runs_touched_frame [of d d']
  by (auto simp: consistent_def intro: task_inv_same log_inv_frame keys_unique_frame)

lemma consistent_log: "log_touched d d' \<Longrightarrow> (log_inv d \<Longrightarrow> log_inv d') \<Longrightarrow> consistent d \<Longrightarrow> consistent d'"
  using log_touched_frame [of d d']
  by (auto simp: consistent_def intro: task_inv_same run_inv_frame keys_unique_frame)

lemma create_action_log_inv:
  assumes "log_inv d"
  shows "log_inv (fst (create_agent_action r n typ name inp out st corr d))"
proof -
  obtain d' x where e: "create_agent_action r n typ name inp out st corr d = (d', x)" by fastforce
  have wf: "actions_wf d'" using create_agent_action_wf [of d r n] assms by (metis e fst_conv log_inv_def)
  have "x = ok a \<Longrightarrow> r \<in> run_id ` set (runs d) \<and> aa_action_type a = typ" for a
    using e by (auto simp: create_agent_action_def Let_def split: if_splits)
  with e show ?thesis
    by (cases rule: create_agent_action_cases) (use wf assms in \<open>auto simp: e log_inv_def\<close>)
qed

text \<open>An update of a row of a run keeps its ID, and the check of the column keeps its status legal.\<close>

lemma update_where_ids: "(\<And>r. k (f r) = k r) \<Longrightarrow> map k (update_where P f rs) = map k rs"
  by (simp add: map_update_where)

lemma run_rows_updated:
  assumes "\<And>r. run_id (f r) = run_id r" and "\<forall>r \<in> set (runs d). P r \<longrightarrow> run_status (f r) \<in> set run_status_check"
    and "run_inv d"
  shows "run_inv (d\<lparr>runs := update_where P f (runs d)\<rparr>)"
proof -
  have ids: "map run_id (update_where P f (runs d)) = map run_id (runs d)" by (rule update_where_ids) (rule assms(1))
  then have "run_id ` set (update_where P f (runs d)) = run_id ` set (runs d)" by (metis set_map)
  moreover have "\<forall>i \<in> run_id ` set (runs d). i < next_id d" using assms(3) by (auto simp: run_inv_def ids_below_def)
  ultimately have "ids_below run_id (update_where P f (runs d)) d" unfolding ids_below_def by (metis imageI)
  moreover have "run_status r \<in> set run_status_check" if "r \<in> set (update_where P f (runs d))" for r
    using that assms(2,3) by (auto simp: in_update_where run_inv_def runs_wf_def split: if_splits)
  ultimately show ?thesis using ids assms(3) by (simp add: run_inv_def runs_wf_def ids_below_def)
qed

lemma update_runs_inv:
  assumes "\<And>r. run_id (f r) = run_id r"
  shows "run_inv d \<Longrightarrow> run_inv (fst (update_runs org_id i f d))"
    and "run_id ` set (runs (fst (update_runs org_id i f d))) = run_id ` set (runs d)"
proof -
  show "run_inv d \<Longrightarrow> run_inv (fst (update_runs org_id i f d))"
    using run_rows_updated [OF assms, of d "\<lambda>r. run_id r = i \<and> run_organization_id r = org_id"]
    by (auto simp: update_runs_def Let_def)
  have "map run_id (runs (fst (update_runs org_id i f d))) = map run_id (runs d)"
    using update_where_ids [of run_id f, OF assms] by (simp add: update_runs_def Let_def)
  then show "run_id ` set (runs (fst (update_runs org_id i f d))) = run_id ` set (runs d)" by (metis set_map)
qed

lemma create_run_inv:
  "run_inv d \<Longrightarrow> run_inv (fst (create_agent_run org_id agent task chan trig inp ctx corr parent d))"
  "run_id ` set (runs d) \<subseteq> run_id ` set (runs (fst (create_agent_run org_id agent task chan trig inp ctx corr parent d)))"
  by (auto simp: create_agent_run_def insert_run_def Let_def run_inv_def runs_wf_def ids_below_def run_status_check_def)

lemma update_tokens_inv:
  shows "run_inv d \<Longrightarrow> run_inv (fst (update_agent_run_tokens org_id rid us d))"
    and "run_id ` set (runs (fst (update_agent_run_tokens org_id rid us d))) = run_id ` set (runs d)"
proof -
  let ?f = "\<lambda>r :: agent_run. case add_tokens us (run_token_metadata r) of None \<Rightarrow> r | Some m \<Rightarrow> r\<lparr>run_token_metadata := m\<rparr>"
  have id: "run_id (?f r) = run_id r" "run_status (?f r) = run_status r" for r by (simp_all split: option.split)
  have "run_inv d \<Longrightarrow> run_inv (d\<lparr>runs := update_where P ?f (runs d)\<rparr>)" for P
    by (rule run_rows_updated [OF id(1)]) (auto simp: id(2) run_inv_def runs_wf_def)
  then show "run_inv d \<Longrightarrow> run_inv (fst (update_agent_run_tokens org_id rid us d))"
    by (simp add: update_agent_run_tokens_def Let_def)
  have "map run_id (runs (fst (update_agent_run_tokens org_id rid us d))) = map run_id (runs d)"
    using update_where_ids [of run_id ?f, OF id(1)] by (simp add: update_agent_run_tokens_def Let_def)
  then show "run_id ` set (runs (fst (update_agent_run_tokens org_id rid us d))) = run_id ` set (runs d)" by (metis set_map)
qed

lemma repo_step_consistent:
  assumes "repo_step env d d'" and "memory_quiet env" and "consistent d"
  shows "consistent d'"
  using assms(1)
proof cases
  case (log r n ty name inp out st corr)
  then show ?thesis using consistent_log [OF create_action_touched] create_action_log_inv assms(3) by blast
next
  case fresh
  then show ?thesis using assms(3) consistent_messages [of d "d\<lparr>next_id := next_id d + 1\<rparr>"] by (simp add: touched_defs)
next
  case (message org_id c th sender i body)
  then show ?thesis using consistent_messages [OF create_message_touched] assms(3) by blast
next
  case (subtask g org_id p ch pt tm a u title desc prio dl corr cb)
  then show ?thesis
    using consistent_tasks [OF create_task_touched] create_task_inv assms(3) by (metis prod.collapse)
next
  case (assign g org_id tid a u aby)
  then show ?thesis
    using consistent_tasks [OF assign_task_touched] assign_task_inv assms(3) by (metis prod.collapse)
next
  case (status org_id tid st actor aid pl)
  then show ?thesis
    using consistent_tasks [OF update_task_status_touched] update_task_status_inv assms(3) by (metis prod.collapse)
next
  case (task_event tid actor i ev pl corr)
  then show ?thesis
    using consistent_tasks [OF create_task_event_touched] create_task_event_inv assms(3) by (metis prod.collapse)
next
  case (remember svc org_id ag pr mt sc src content imp)
  then show ?thesis using consistent_memories memory_quietD(1) [OF assms(2)] assms(3) by blast
next
  case (recall svc org_id ag pr q lm mn)
  then show ?thesis using consistent_memories memory_quietD(2) [OF assms(2)] assms(3) by blast
next
  case (tool te w p)
  then show ?thesis
    using consistent_tools [OF execute_touched] execute_only_tools assms(3) unfolding only_tools_def by metis
next
  case (run_status org_id rid st out err)
  have "run_inv d \<Longrightarrow> run_inv (fst (update_agent_run_status org_id rid st out err d))"
    "run_id ` set (runs (fst (update_agent_run_status org_id rid st out err d))) = run_id ` set (runs d)"
    by (simp_all add: update_agent_run_status_def Let_def update_runs_inv)
  then show ?thesis using run_status consistent_runs [OF run_updates_touched(1)] assms(3) by (metis order_refl)
next
  case (run_waiting org_id rid st it why pend out)
  have "run_inv d \<Longrightarrow> run_inv (fst (update_agent_run_waiting org_id rid st it why pend out d))"
    "run_id ` set (runs (fst (update_agent_run_waiting org_id rid st it why pend out d))) = run_id ` set (runs d)"
    by (simp_all add: update_agent_run_waiting_def update_runs_inv)
  then show ?thesis using run_waiting consistent_runs [OF run_updates_touched(2)] assms(3) by (metis order_refl)
next
  case (run_tokens org_id rid us)
  then show ?thesis
    using consistent_runs [OF run_updates_touched(3)] update_tokens_inv assms(3) by (metis order_refl)
next
  case (run_created org_id agent task chan trig inp ctx corr parent)
  then show ?thesis using consistent_runs [OF run_updates_touched(4) create_run_inv] assms(3) by blast
next
  case (metric m)
  then show ?thesis using assms(3) consistent_tasks [of d "d\<lparr>metrics := m\<rparr>"]
    by (simp add: touched_defs task_inv_def wf_task_def)
qed

lemma repo_reach_consistent: "repo_reach env d d' \<Longrightarrow> memory_quiet env \<Longrightarrow> consistent d \<Longrightarrow> consistent d'"
  unfolding repo_reach_def by (induction rule: rtranclp_induct) (auto intro: repo_step_consistent)

text \<open>The entry points of the runtime.\<close>

inductive runtime_call :: "runtime_env \<Rightarrow> world \<Rightarrow> world \<Rightarrow> bool" for env where
  run: "runtime_call env w (fst (execute_task env org_id agent tid corr trig w))"
| resume: "runtime_call env w (fst (resume_run env org_id rid w))"
| aggregate: "runtime_call env w (fst (check_parent_aggregation env org_id pid w))"

lemma runtime_call_steps: "runtime_call env w w' \<Longrightarrow> repo_reach env (w_db w) (w_db w')"
  by (induction rule: runtime_call.induct) (rule steps.executed steps.resumed steps.aggregated)+



section \<open>How a run ends\<close>

text \<open>The run of the context is the last row, after the rows that were there; no action is pending.\<close>

definition run_row :: "run_ctx \<Rightarrow> agent_run list \<Rightarrow> string \<Rightarrow> db \<Rightarrow> bool" where
  "run_row c rs s d \<longleftrightarrow> rc_run c \<notin> run_id ` set rs \<and> (\<exists>r. runs d = rs @ [r] \<and> run_id r = rc_run c
     \<and> run_organization_id r = rc_org c \<and> run_pending_action_id r = None \<and> run_status r = s)"

lemma run_row_frame: "runs d' = runs d \<Longrightarrow> run_row c rs s d' = run_row c rs s d"
  by (simp add: run_row_def)

lemma run_rowE:
  assumes "run_row c rs s d"
  obtains r where "runs d = rs @ [r]" "run_id r = rc_run c" "run_organization_id r = rc_org c"
    "run_pending_action_id r = None" "run_status r = s" "rc_run c \<notin> run_id ` set rs"
    "filter (\<lambda>r. run_id r = rc_run c \<and> run_organization_id r = rc_org c) (runs d) = [r]"
    "query_row (\<lambda>r. run_id r = rc_run c \<and> run_organization_id r = rc_org c) (runs d) = ok r"
    "\<And>f. update_where (\<lambda>r. run_id r = rc_run c \<and> run_organization_id r = rc_org c) f (runs d) = rs @ [f r]"
proof -
  let ?P = "\<lambda>r. run_id r = rc_run c \<and> run_organization_id r = rc_org c"
  from assms obtain r where r: "runs d = rs @ [r]" "?P r" "run_pending_action_id r = None" "run_status r = s"
      "rc_run c \<notin> run_id ` set rs"
    by (auto simp: run_row_def)
  have none: "\<not> ?P q" if "q \<in> set rs" for q using r(5) that by force
  have "filter ?P rs = []" using none by (simp add: filter_empty_conv)
  moreover have "find ?P rs = None" using none by (simp add: find_None_iff)
  moreover have "map (\<lambda>q. if ?P q then f q else q) rs = rs" for f using none by (intro map_idI) auto
  ultimately show thesis
    using r by (intro that [of r]) (simp_all add: query_row_def find_append update_where_def)
qed

lemma update_runs_row:
  assumes row: "run_row c rs s d" and st: "s' \<in> set run_status_check"
    and f: "\<And>r. run_pending_action_id r = None \<Longrightarrow> run_id (f r) = run_id r \<and> run_organization_id (f r) = run_organization_id r
           \<and> run_pending_action_id (f r) = None \<and> run_status (f r) = s'"
  shows "run_row c rs s' (fst (update_runs (rc_org c) (rc_run c) f d))"
  using row
proof (cases rule: run_rowE)
  case (1 r)
  with st f [of r] show ?thesis
    unfolding update_runs_def Let_def 1(7) 1(9) by (simp add: run_row_def opt_ref_def)
qed

lemma set_run_row:
  assumes row: "run_row c rs s (w_db w)" and st: "s' \<in> set run_status_check" and tr: "\<not> run_update_refused s s'"
  shows "run_row c rs s' (w_db (set_run c s' out err w))"
  using row
proof (cases rule: run_rowE)
  case (1 r)
  with tr update_runs_row [OF row st, of "set_run_status (now (w_db w)) s' out err"] show ?thesis
    by (simp add: set_run_def update_agent_run_status_def Let_def)
qed

lemma set_waiting_row:
  assumes "run_row c rs s (w_db w)" and "s' \<in> set run_status_check"
  shows "run_row c rs s' (w_db (set_waiting c s' it why out w))"
  using update_runs_row [OF assms] by (simp add: set_waiting_def update_agent_run_waiting_def)

lemma tokens_row:
  assumes row: "run_row c rs s (w_db w)"
  shows "run_row c rs s (w_db (run_db (update_agent_run_tokens (rc_org c) (rc_run c) us) w))"
  using row
proof (cases rule: run_rowE)
  case (1 r)
  then show ?thesis
    using row by (auto simp: update_agent_run_tokens_def Let_def run_row_def split: option.split)
qed

text \<open>The row of a run under a quiet memory service, and what keeps it.\<close>

lemma run_row_kept:
  assumes "memory_quiet env \<longrightarrow> runs (w_db w) = runs (w_db v)" and "memory_quiet env"
  shows "run_row c rs s (w_db v) \<Longrightarrow> run_row c rs s (w_db w)"
  using run_row_frame assms by blast

lemma refused_subtask: "snd (do_create_task env tn n a s) = Some e \<Longrightarrow> e = ''no eligible agent''"
  unfolding do_create_task_def Let_def split_beta
  by (cases "try_eligible_assignment (tn_org tn) (as_task s) (w_db (as_w s)) = None \<and> has_requirements (as_task s)")
    (simp_all split: option.split_asm sum.split_asm)

lemma parked_call: "do_call_tool env tn n a s = (s', Some e) \<Longrightarrow> as_status s' = ''approval_required''"
  unfolding do_call_tool_def Let_def split_beta tool_output_def add_output_def
  by (simp split: option.split_asm if_split_asm) auto

lemma failing_action:
  assumes "action_step env tn n a s = (s', Some e)"
  shows "e = ''no eligible agent'' \<or> as_status s' = ''approval_required''"
proof -
  from assms have "do_create_task env tn n a s = (s', Some e) \<or> do_call_tool env tn n a s = (s', Some e)"
    by (simp add: action_step_def Let_def split: if_split_asm)
  then show ?thesis using refused_subtask [of env tn n a s e] parked_call [of env tn n a s s' e] by auto
qed

lemma failing_actions:
  "run_actions env tn i as s = (s', Some e) \<Longrightarrow> e = ''no eligible agent'' \<or> as_status s' = ''approval_required''"
  by (induction as arbitrary: i s) (auto split: prod.splits option.splits dest: failing_action)

lemma kept_row:
  assumes q: "memory_quiet env" and row: "run_row c rs s (w_db w)"
  shows "run_row c rs s (w_db (set_task k t st pl w))" "run_row c rs s (w_db (tell env k t typ m w))"
    "run_row c rs s (w_db (log_run k n typ inp st w))" "run_row c rs s (w_db (reply_to_channel env k t resp key w))"
    "run_row c rs s (w_db (store_updates env k t mus w))" "run_row c rs s (w_db (project_event env k t typ w))"
    "run_row c rs s (w_db (spawn_aggregation tn t w))" "run_row c rs s (w_db (run_db (create_task_event tid actor i ev pl corr) w))"
    "run_row c rs s (w_db (count_metric mf w))" "run_row c rs s (w_db (fst (ask_turn env k it extra note t outs w)))"
    "run_row c rs s (w_db (fst (retry_decision g (ask_repair env a) raw w)))"
    "run_row c rs s (w_db (as_w (fst (execute_decision_actions env org_id a t rid dec corr w))))"
  using run_row_kept [OF run_rows.task_status [OF run_rows.R_refl] q row] run_row_kept [OF run_rows.tell [OF run_rows.R_refl] q row]
    run_row_kept [OF run_rows.log_run [OF run_rows.R_refl] q row] run_row_kept [OF run_rows.reply [OF run_rows.R_refl] q row]
    run_row_kept [OF run_rows.updates [OF run_rows.R_refl] q row] run_row_kept [OF run_rows.project_event [OF run_rows.R_refl] q row]
    run_row_kept [OF run_rows.aggregation [OF run_rows.R_refl] q row] run_row_kept [OF run_rows.task_event [OF run_rows.R_refl] q row]
    run_row_kept [OF run_rows.ask_turn [OF run_rows.R_refl] q row] run_row_kept [OF run_rows.retry [OF run_rows.R_refl] q row]
    run_row_kept [OF run_rows.decision [OF run_rows.R_refl] q row] row
  by (auto simp: run_row_def)

lemma run_moves [simp]:
  "\<not> run_update_refused ''running'' s" "\<not> run_update_refused ''WAITING_FOR_APPROVAL'' s" "\<not> run_update_refused ''queued'' s"
  by (simp_all add: run_update_refused_def)

lemma run_states [simp]:
  "''running'' \<in> set run_status_check" "''failed'' \<in> set run_status_check" "''succeeded'' \<in> set run_status_check"
  "''awaiting_approval'' \<in> set run_status_check" "''cancelled'' \<in> set run_status_check"
  "''WAITING_FOR_APPROVAL'' \<in> set run_status_check" "''RESUMING'' \<in> set run_status_check"
  by (simp_all add: run_status_check_def)

text \<open>The last status an end of an iteration writes.\<close>

lemma end_row:
  assumes q: "memory_quiet env" and row: "run_row c rs ''running'' (w_db w)"
  shows "run_row c rs ''failed'' (w_db (model_failed env c it t e w))"
    "run_row c rs ''failed'' (w_db (decision_refused env c it t e w))"
    "run_row c rs ''awaiting_approval'' (w_db (park env c it t st w))"
    "run_row c rs ''succeeded'' (w_db (finish_completed env c it t dec w))"
    "run_row c rs ''failed'' (w_db (finish_failed env c it t dec w))"
    "run_row c rs ''awaiting_approval'' (w_db (finish_waiting env c it t st dec w))"
    "run_row c rs ''running'' (w_db (heard env c it t content us w))"
  unfolding model_failed_def decision_refused_def park_def finish_completed_def finish_failed_def finish_waiting_def
    heard_def answered_def Let_def
  by (rule kept_row [OF q] set_waiting_row set_run_row tokens_row row run_states run_moves)+

text \<open>A run ends as its result says; the exit without an eligible agent leaves it running.\<close>

definition run_ended :: "run_ctx \<Rightarrow> agent_run list \<Rightarrow> string option \<Rightarrow> db \<Rightarrow> bool" where
  "run_ended c rs r d \<longleftrightarrow>
     (case r of
        None \<Rightarrow> run_row c rs ''succeeded'' d \<or> run_row c rs ''awaiting_approval'' d
      | Some e \<Rightarrow> run_row c rs ''failed'' d \<or> run_row c rs ''cancelled'' d
          \<or> e = ''no eligible agent'' \<and> run_row c rs ''running'' d)"

definition turn_ended :: "run_ctx \<Rightarrow> agent_run list \<Rightarrow> turn_result \<Rightarrow> bool" where
  "turn_ended c rs r \<longleftrightarrow> (case r of Stop w e \<Rightarrow> run_ended c rs e (w_db w) | Next st \<Rightarrow> run_row c rs ''running'' (w_db (ls_w st)))"

lemma decide_turn_row:
  assumes q: "memory_quiet env" and row: "run_row c rs ''running'' (w_db w)" and d: "decide_turn env c it t content w = (w', r)"
  shows "run_row c rs (if isl r then ''failed'' else ''running'') (w_db w')"
proof (cases "parse_agent_decision (rt_go env) content")
  case (Inr dec)
  then show ?thesis using d row by (auto simp: decide_turn_def Inr)
next
  case (Inl e)
  define v where "v = log_run c ((it - 1) * 10 + 2) ''error'' (Some [(''validation_error'', JStr e), (''iteration'', jint it)]) ''failed'' w"
  obtain u x where u: "retry_decision (rt_go env) (ask_repair env (rc_agent c)) content v = (u, x)" by fastforce
  have "run_row c rs ''running'' (w_db v)" unfolding v_def by (rule kept_row [OF q] row)+
  from kept_row(11) [OF q this, of "rt_go env" "rc_agent c" content] have ur: "run_row c rs ''running'' (w_db u)" by (simp add: u)
  have dt: "decide_turn env c it t content w = (case x of
      Inr dec \<Rightarrow> (tell env c t ''agent.thinking'' [(''repaired'', JBool True), (''iteration'', jint it)] u, ok dec)
    | Inl e \<Rightarrow> (let msg = ''invalid LLM decision after '' @ nat_str MaxDecisionRetries @ '' retries: '' @ e;
                   w = set_run c ''failed'' (Some [(''error'', JStr msg), (''iteration'', jint it), (''needs_human'', JBool True)]) (Some msg) u;
                   w = set_task c t ''failed'' (Some [(''error'', JStr msg), (''needs_human'', JBool True)]) w;
                   w = tell env c t ''agent.failed'' [(''error'', JStr msg), (''needs_human'', JBool True), (''iteration'', jint it)] w
               in (log_run c ((it - 1) * 10 + 9) ''error'' (Some [(''final_error'', JStr msg)]) ''failed'' w, fail msg)))"
    using u by (simp add: decide_turn_def Inl v_def Let_def split: sum.split)
  show ?thesis
  proof (cases x)
    case (Inl e')
    have f: "run_row c rs ''failed'' (w_db (set_run c ''failed'' out err u))" for out err
      by (rule set_run_row ur run_states run_moves)+
    show ?thesis using d dt Inl by (auto simp: Let_def intro!: kept_row [OF q] f)
  next
    case (Inr dec)
    then show ?thesis using d dt by (auto intro!: kept_row [OF q] ur)
  qed
qed

lemma after_actions_row:
  assumes q: "memory_quiet env" and row: "run_row c rs ''running'' (w_db (as_w s))"
  shows "turn_ended c rs (after_actions env c it dec calls outs s)"
proof -
  have w: "run_row c rs ''running'' (w_db (set_waiting c ''running'' it None None (as_w s)))"
    by (rule set_waiting_row row run_states)+
  have f: "run_row c rs ''failed'' (w_db (set_run c ''failed'' out err (set_waiting c ''running'' it None None (as_w s))))" for out err
    by (rule set_run_row w run_states run_moves)+
  show ?thesis
    unfolding after_actions_def Let_def
    using end_row [OF q w] f w by (auto simp: turn_ended_def run_ended_def)
qed

lemma task_turn_row:
  assumes q: "memory_quiet env" and row: "run_row c rs ''running'' (w_db (ls_w st))"
  shows "turn_ended c rs (task_turn env c it st)"
proof -
  have asked: "run_row c rs ''running'' (w_db w1)"
    if "ask_turn env c it decision_schema [] (ls_task st) (ls_outs st) (ls_w st) = (w1, r)" for w1 r
    using kept_row(10) [OF q row, of c it decision_schema "[]" "ls_task st" "ls_outs st"] that by simp
  have decided: "run_row c rs (if isl r then ''failed'' else ''running'') (w_db w2)"
    if "decide_turn env c it (ls_task st) content (heard env c it (ls_task st) content us w1) = (w2, r)"
      "run_row c rs ''running'' (w_db w1)" for w1 w2 content us r
    using decide_turn_row [OF q end_row(7) [OF q that(2)] that(1)] .
  have acted: "run_row c rs ''running'' (w_db (as_w s))"
    if "execute_decision_actions env (rc_org c) (rc_agent c) (ls_task st) (rc_run c) dec (rc_corr c) w2 = (s, e)"
      "run_row c rs ''running'' (w_db w2)" for dec w2 s e
    using kept_row(12) [OF q that(2), of "rc_org c" "rc_agent c" "ls_task st" "rc_run c" dec "rc_corr c"] that(1) by simp
  show ?thesis
  proof (cases rule: task_turn_cases [of env c it st])
    case (no_answer w1 e)
    with end_row(1) [OF q asked] show ?thesis by (simp add: turn_ended_def run_ended_def)
  next
    case (no_decision w1 content us w2 e)
    with decided [OF no_decision(2) asked] show ?thesis by (simp add: turn_ended_def run_ended_def)
  next
    case (refused w1 content us w2 dec e)
    from decided [OF refused(2) asked [OF refused(1)]] end_row(2) [OF q] refused(4) show ?thesis
      by (simp add: turn_ended_def run_ended_def)
  next
    case (executed w1 content us w2 dec s)
    from decided [OF executed(2) asked [OF executed(1)]] have "run_row c rs ''running'' (w_db w2)" by simp
    from after_actions_row [OF q acted [OF executed(4) this]] show ?thesis by (simp add: executed(5))
  next
    case (parked w1 content us w2 dec s e)
    from decided [OF parked(2) asked [OF parked(1)]] have "run_row c rs ''running'' (w_db w2)" by simp
    from end_row(3) [OF q acted [OF parked(4) this]] show ?thesis by (simp add: parked(6) turn_ended_def run_ended_def)
  next
    case (aborted w1 content us w2 dec s e)
    from decided [OF aborted(2) asked [OF aborted(1)]] have "run_row c rs ''running'' (w_db w2)" by simp
    moreover have "e = ''no eligible agent''"
      using failing_actions [OF aborted(4) [unfolded execute_decision_actions_def]] aborted(5) by blast
    ultimately show ?thesis using acted [OF aborted(4)] by (simp add: aborted(7) turn_ended_def run_ended_def)
  qed
qed

lemma task_loop_row:
  assumes q: "memory_quiet env"
  shows "run_row c rs ''running'' (w_db (ls_w st)) \<Longrightarrow> task_loop env c n st = (w', r) \<Longrightarrow> run_ended c rs r (w_db w')"
proof (induction n arbitrary: st)
  case 0
  have "run_row c rs ''failed'' (w_db w')"
    using 0 by (auto simp: Let_def intro!: kept_row [OF q] set_run_row [OF 0(1)])
  then show ?case using 0(2) by (auto simp: run_ended_def Let_def)
next
  case (Suc n)
  let ?it = "int MaxIterations - int n"
  show ?case
  proof (cases "rt_done env (ls_w st)")
    case True
    then have "run_row c rs ''cancelled'' (w_db w')"
      using Suc.prems by (auto simp: Let_def intro!: kept_row [OF q] set_run_row [OF Suc.prems(1)])
    then show ?thesis using Suc.prems(2) True by (auto simp: run_ended_def Let_def)
  next
    case False
    have t: "turn_ended c rs (task_turn env c ?it st)" by (rule task_turn_row [OF q Suc.prems(1)])
    show ?thesis
    proof (cases "task_turn env c ?it st")
      case (Next st')
      with t Suc.IH [of st'] Suc.prems(2) False show ?thesis by (simp add: turn_ended_def Let_def)
    qed (use t Suc.prems(2) False in \<open>simp add: turn_ended_def Let_def\<close>)
  qed
qed

text \<open>What happens before the loop.\<close>

lemma start_run_fails:
  "start_run env org_id ag t p corr trig w = (v, fail e) \<Longrightarrow>
    runs (w_db v) = runs (w_db w) \<and> executions (w_db v) = executions (w_db w) \<and> w_llm v = w_llm w"
  by (auto simp: start_run_def on_db_def create_agent_run_def Let_def split: prod.splits sum.splits)

lemma start_run_ok:
  assumes "start_run env org_id ag t p corr trig w = (v, ok y)"
  shows "executions (w_db v) = executions (w_db w)" "w_llm v = w_llm w"
    "run_inv (w_db w) \<Longrightarrow> c = \<lparr>rc_org = org_id, rc_agent = ag, rc_project = p, rc_run = run_id y, rc_corr = corr'\<rparr> \<Longrightarrow>
      run_row c (runs (w_db w)) ''queued'' (w_db v)"
  using assms
  by (auto simp: start_run_def on_db_def create_agent_run_def insert_run_def run_row_def Let_def run_inv_def ids_below_def
      split: prod.splits sum.splits if_splits)

lemma execute_task_cases:
  obtains (no_run) v e where "execute_task env org_id agent tid corr trig w = (v, Some e)"
      "runs (w_db v) = runs (w_db w)" "executions (w_db v) = executions (w_db w)" "w_llm v = w_llm w"
  | (started) c st where "execute_task env org_id agent tid corr trig w = task_loop env c MaxIterations st"
      "memory_quiet env \<Longrightarrow> executions (w_db (ls_w st)) = executions (w_db w)" "w_llm (ls_w st) = w_llm w"
      "memory_quiet env \<Longrightarrow> run_inv (w_db w) \<Longrightarrow> run_row c (runs (w_db w)) ''running'' (w_db (ls_w st))"
proof (cases "get_agent org_id agent (w_db w)")
  case (Inl e)
  then show thesis by (intro no_run [of w "''load agent: '' @ e"]) (simp_all add: execute_task_def)
next
  case (Inr ag)
  note ag = Inr
  show thesis
  proof (cases "get_task org_id tid (w_db w)")
    case (Inl e)
    with ag show thesis by (intro no_run [of w "''load task: '' @ e"]) (simp_all add: execute_task_def)
  next
    case (Inr t)
    let ?p = "load_project org_id t (w_db w)"
    obtain v x where v: "start_run env org_id ag t ?p corr trig w = (v, x)" by fastforce
    show thesis
    proof (cases x)
      case (Inl e)
      with start_run_fails [of env org_id ag t ?p corr trig w v e] v ag Inr show thesis
        by (intro no_run [of v "''create run: '' @ e"]) (simp_all add: execute_task_def Let_def)
    next
      case run: (Inr y)
      define c where "c = \<lparr>rc_org = org_id, rc_agent = ag, rc_project = ?p, rc_run = run_id y, rc_corr = corr\<rparr>"
      define u where "u = set_task c t ''running'' (Some [(''run_id'', uuid_json (rt_go env) (run_id y))])
          (tell env c t ''agent.started'' [(''agent'', JStr (ag_name ag)), (''task'', JStr (t_title t))]
            (set_run c ''running'' None None v))"
      define outs where "outs = (if trig \<in> {''approval_received'', ''approval_rejected''} \<or> corr \<noteq> None
          then previous_outputs org_id agent tid (w_db u) else [])"
      note r = start_run_ok [OF v [unfolded run]]
      have "executions (w_db u) = executions (w_db v)" if "memory_quiet env"
        using execution_rows.task_status [OF execution_rows.tell [OF execution_rows.R_refl]] that runs_touched_frame(4) [OF run_updates_touched(1)]
        unfolding u_def by (auto simp: set_run_def)
      moreover have "w_llm u = w_llm v"
        unfolding u_def using unasked.task_status [OF unasked.tell [OF unasked.run_status [OF unasked.R_refl]]] by blast
      moreover have "run_row c (runs (w_db w)) ''running'' (w_db u)" if "memory_quiet env" "run_inv (w_db w)"
        unfolding u_def by (rule kept_row [OF that(1)] set_run_row r(3) that(2) c_def run_states run_moves)+
      moreover have "execute_task env org_id agent tid corr trig w = task_loop env c MaxIterations
          \<lparr>ls_w = u, ls_task = t, ls_outs = outs, ls_calls = length outs\<rparr>"
        using ag Inr v run by (simp add: execute_task_def Let_def u_def outs_def c_def)
      ultimately show thesis
        using r(1,2) by (intro started [where st = "\<lparr>ls_w = u, ls_task = t, ls_outs = outs, ls_calls = length outs\<rparr>" and c = c]) simp_all
    qed
  qed
qed


section \<open>How much a run asks and calls\<close>

text \<open>One question per iteration, and at most \<^verbatim>\<open>MaxDecisionRetries\<close> for repairs.\<close>

lemma ask_model_llm: "w_llm (fst (ask_model env a msgs w)) = w_llm w @ [\<lparr>cr_model = choose_model a, cr_messages = msgs\<rparr>]"
  by (simp add: ask_model_def Let_def)

lemma ask_turn_llm: "\<exists>q. w_llm (fst (ask_turn env c it extra note t outs w)) = w_llm w @ [q]"
proof -
  obtain v ctx where v: "turn_context env (rc_org c) (rc_agent c) (rc_project c) t outs w = (v, ctx)" by fastforce
  have "w_llm v = w_llm w"
    using unasked.turn_ctx [OF unasked.R_refl, of env "rc_org c" "rc_agent c" "rc_project c" t outs w] v by simp
  then show ?thesis
    using unasked.tell [OF unasked.log_run [OF unasked.R_refl]]
    by (simp add: ask_turn_def v Let_def ask_model_llm)
qed

lemma repair_loop_llm: "length (w_llm (fst (repair_loop g (ask_repair env a) n e w))) \<le> length (w_llm w) + n"
proof (induction n arbitrary: e w)
  case (Suc n)
  obtain v r where v: "ask_repair env a w (decision_repair_prompt e) = (v, r)" by fastforce
  have "length (w_llm v) = length (w_llm w) + 1"
    using v ask_model_llm [of env a _ w] by (auto simp: ask_repair_def split: prod.splits sum.splits) (metis fst_conv length_append_singleton)+
  with Suc.IH [of _ v] show ?case by (auto simp: v split: sum.split)
qed simp

lemma run_notes_llm [simp]:
  "w_llm (log_run c n ty inp st u) = w_llm u" "w_llm (tell env c t ty m u) = w_llm u"
  "w_llm (set_run c st out err u) = w_llm u" "w_llm (set_task c t st out u) = w_llm u"
  "w_llm (answered env c it content us u) = w_llm u" "w_llm (heard env c it t content us u) = w_llm u"
  "w_llm (as_w (fst (execute_decision_actions env org_id a t rid dec corr u))) = w_llm u"
  unfolding heard_def
  using unasked.log_run [OF unasked.R_refl] unasked.tell [OF unasked.R_refl] unasked.run_status [OF unasked.R_refl]
    unasked.task_status [OF unasked.R_refl] unasked.ends(7) [OF unasked.R_refl] unasked.tell [OF unasked.ends(7) [OF unasked.R_refl]]
    unasked.decision [OF unasked.R_refl]
  by blast+

lemma decide_turn_llm: "length (w_llm (fst (decide_turn env c it t content w))) \<le> length (w_llm w) + MaxDecisionRetries"
proof (cases "parse_agent_decision (rt_go env) content")
  case (Inl e)
  define v where "v = log_run c ((it - 1) * 10 + 2) ''error'' (Some [(''validation_error'', JStr e), (''iteration'', jint it)]) ''failed'' w"
  obtain u x where u: "retry_decision (rt_go env) (ask_repair env (rc_agent c)) content v = (u, x)" by fastforce
  have "w_llm (fst (decide_turn env c it t content w)) = w_llm u"
    using Inl u by (auto simp: decide_turn_def v_def Let_def split: sum.split)
  moreover have "length (w_llm u) \<le> length (w_llm w) + MaxDecisionRetries"
    using u Inl repair_loop_llm [of "rt_go env" env "rc_agent c" MaxDecisionRetries e v]
    by (simp add: retry_decision_def v_def)
  ultimately show ?thesis by simp
qed (simp add: decide_turn_def)

lemma ends_llm [simp]:
  "w_llm (model_failed env c it t e w) = w_llm w" "w_llm (decision_refused env c it t e w) = w_llm w"
  "w_llm (park env c it t st w) = w_llm w"
  using unasked.ends [OF unasked.R_refl] by blast+

lemma after_actions_llm [simp]: "w_llm (turn_world (after_actions env c it dec calls outs s)) = w_llm (as_w s)"
proof -
  have "w_llm (set_waiting c st it why out w) = w_llm w" for st it why out w
    using unasked.run_waiting [OF unasked.R_refl] by blast
  moreover have "w_llm (finish_completed env c it t dec w) = w_llm w" "w_llm (finish_failed env c it t dec w) = w_llm w"
    "w_llm (finish_waiting env c it t st dec w) = w_llm w" for t w st
    using unasked.ends [OF unasked.R_refl] by blast+
  ultimately show ?thesis by (simp add: after_actions_def Let_def)
qed

lemma task_turn_llm: "length (w_llm (turn_world (task_turn env c it st))) \<le> length (w_llm (ls_w st)) + 1 + MaxDecisionRetries"
proof -
  have asked: "length (w_llm w1) = length (w_llm (ls_w st)) + 1"
    if "ask_turn env c it decision_schema [] (ls_task st) (ls_outs st) (ls_w st) = (w1, r)" for w1 r
    using ask_turn_llm [of env c it decision_schema "[]" "ls_task st" "ls_outs st" "ls_w st"] that by auto
  have decided: "length (w_llm w2) \<le> length (w_llm w1) + MaxDecisionRetries"
    if "decide_turn env c it (ls_task st) content (heard env c it (ls_task st) content us w1) = (w2, r)" for w1 w2 content us r
    using decide_turn_llm [of env c it "ls_task st" content "heard env c it (ls_task st) content us w1"] that by simp
  have acted: "w_llm (as_w s) = w_llm w2"
    if "execute_decision_actions env (rc_org c) (rc_agent c) (ls_task st) (rc_run c) dec (rc_corr c) w2 = (s, e)" for dec w2 s e
    using run_notes_llm(7) [of env "rc_org c" "rc_agent c" "ls_task st" "rc_run c" dec "rc_corr c" w2] that by simp
  show ?thesis
    by (cases rule: task_turn_cases [of env c it st]) (auto dest!: asked decided acted)
qed

lemma task_loop_llm: "length (w_llm (fst (task_loop env c n st))) \<le> length (w_llm (ls_w st)) + n * (1 + MaxDecisionRetries)"
proof (induction n arbitrary: st)
  case (Suc n)
  let ?it = "int MaxIterations - int n"
  show ?case
  proof (cases "rt_done env (ls_w st)")
    case False
    show ?thesis
    proof (cases "task_turn env c ?it st")
      case (Next st')
      with task_turn_llm [of env c ?it st] Suc.IH [of st'] False show ?thesis by simp
    qed (use False task_turn_llm [of env c ?it st] in simp)
  qed simp
qed (simp add: Let_def)

text \<open>
  C4: One run asks the model at most thirty times, whatever it answers: ten iterations of one question and two
  repairs. So the loop of \<^verbatim>\<open>ExecuteTask\<close> ends.
\<close>

theorem execute_task_questions:
  "length (w_llm (fst (execute_task env org_id agent tid corr trig w))) \<le> length (w_llm w) + MaxIterations * (1 + MaxDecisionRetries)"
proof (cases rule: execute_task_cases [of env org_id agent tid corr trig w])
  case (started c st)
  with task_loop_llm [of env c MaxIterations st] show ?thesis by simp
qed simp

section \<open>How many tools a run calls\<close>

lemma action_executions:
  assumes "memory_quiet env"
  shows "length (executions (w_db (as_w (fst (action_step env tn n a s)))))
    \<le> length (executions (w_db (as_w s))) + (if act_type a = ''call_tool'' then 1 else 0)"
proof (cases "act_type a = ''call_tool''")
  case False
  with execution_rows.quiet_action [where a = a and env = env and s = s and tn = tn and n = n] assms show ?thesis by simp
next
  case True
  let ?t = "as_task s" and ?name = "executed_tool a"
  define v where "v = log_action tn n ''tool_call'' (Some ?name) (Some (executed_input a)) None ''running''
      (broadcast (rt_go env) tn ?t ''agent.tool_started'' [(''tool'', PJson (JStr ?name))] (as_w s))"
  have keep: "executions (w_db (log_action tn n ty nm inp out st w)) = executions (w_db w)"
    "executions (w_db (broadcast g tn t ty pl w)) = executions (w_db w)"
    for ty nm inp out st w g t pl
    by (rule execution_rows.log [OF execution_rows.R_refl, THEN mp, OF assms]
          execution_rows.broadcast [OF execution_rows.R_refl, THEN mp, OF assms])+
  have v: "executions (w_db v) = executions (w_db (as_w s))" by (simp add: v_def keep)
  have ex: "length (executions (w_db (fst (execute te p v)))) \<le> length (executions (w_db (as_w s))) + 1" for te p
    using execute_only_tools [of v te p] v by (simp add: only_tools_def)
  show ?thesis
    unfolding action_step_def Let_def True do_call_tool_def tool_output_def split_beta
    using ex by (auto simp: keep v_def tasks_touched_frame(2) [OF create_task_event_touched] split: option.split)
qed

lemma actions_executions:
  assumes "memory_quiet env"
  shows "length (executions (w_db (as_w (fst (run_actions env tn i as s)))))
    \<le> length (executions (w_db (as_w s))) + length (filter (\<lambda>a. act_type a = ''call_tool'') as)"
proof (induction as arbitrary: i s)
  case (Cons a as)
  obtain s' e where s': "action_step env tn (i + 2) a s = (s', e)" by (cases "action_step env tn (i + 2) a s")
  with action_executions [OF assms, of tn "i + 2" a s] Cons.IH [of "i + 1" s'] show ?case
    by (auto split: option.split)
qed simp

lemma execution_notes:
  assumes "memory_quiet env"
  shows "executions (w_db (set_task c t st pl w)) = executions (w_db w)" "executions (w_db (tell env c t ty m w)) = executions (w_db w)"
    "executions (w_db (log_run c n ty inp st w)) = executions (w_db w)"
    "executions (w_db (reply_to_channel env c t resp key w)) = executions (w_db w)"
    "executions (w_db (store_updates env c t mus w)) = executions (w_db w)"
    "executions (w_db (project_event env c t ty w)) = executions (w_db w)"
    "executions (w_db (spawn_aggregation tn t w)) = executions (w_db w)"
    "executions (w_db (fst (turn_context env org_id a p t outs w))) = executions (w_db w)"
  by (rule execution_rows.task_status [OF execution_rows.R_refl, THEN mp, OF assms]
      execution_rows.tell [OF execution_rows.R_refl, THEN mp, OF assms] execution_rows.log_run [OF execution_rows.R_refl, THEN mp, OF assms]
      execution_rows.reply [OF execution_rows.R_refl, THEN mp, OF assms] execution_rows.updates [OF execution_rows.R_refl, THEN mp, OF assms]
      execution_rows.project_event [OF execution_rows.R_refl, THEN mp, OF assms]
      execution_rows.aggregation [OF execution_rows.R_refl, THEN mp, OF assms]
      execution_rows.turn_ctx [OF execution_rows.R_refl, THEN mp, OF assms])+

lemma execution_runs [simp]:
  "executions (w_db (set_run c st out err w)) = executions (w_db w)" "executions (w_db (set_waiting c st it why out w)) = executions (w_db w)"
  "executions (w_db (answered env c it content us w)) = executions (w_db (log_run c ((it - 1) * 10 + 1) ''llm_call''
     (Some [(''response'', JStr content), (''iteration'', jint it), (''usage'', usage_json us)]) ''succeeded'' w))"
  by (simp_all add: set_run_def set_waiting_def answered_def runs_touched_frame(4) [OF run_updates_touched(1)]
      runs_touched_frame(4) [OF run_updates_touched(2)] runs_touched_frame(4) [OF run_updates_touched(3)])

lemma turn_parts_executions:
  assumes q: "memory_quiet env"
  shows "executions (w_db (fst (ask_turn env c it extra note t outs w))) = executions (w_db w)"
    "executions (w_db (fst (decide_turn env c it t content w))) = executions (w_db w)"
    "executions (w_db (model_failed env c it t e w)) = executions (w_db w)"
    "executions (w_db (decision_refused env c it t e w)) = executions (w_db w)"
    "executions (w_db (park env c it t st w)) = executions (w_db w)"
    "executions (w_db (heard env c it t content us w)) = executions (w_db w)"
    "executions (w_db (turn_world (after_actions env c it dec calls outs s))) = executions (w_db (as_w s))"
proof -
  note n = execution_notes [OF q]
  have ask: "executions (w_db (fst (ask_model env a msgs w))) = executions (w_db w)" for a msgs w by (simp add: ask_model_def Let_def)
  have rep: "executions (w_db (fst (ask_repair env a w p))) = executions (w_db w)" for a w p
    by (simp add: ask_repair_def split_beta ask split: sum.split)
  have loop: "executions (w_db (fst (repair_loop g (ask_repair env a) k e w))) = executions (w_db w)" for g a k e w
    by (induction k arbitrary: e w) (auto simp: split_beta rep split: sum.split)
  show "executions (w_db (fst (ask_turn env c it extra note t outs w))) = executions (w_db w)"
    by (simp add: ask_turn_def Let_def split_beta ask n)
  show "executions (w_db (fst (decide_turn env c it t content w))) = executions (w_db w)"
    by (simp add: decide_turn_def retry_decision_def Let_def split_beta loop n split: sum.split)
  show "executions (w_db (model_failed env c it t e w)) = executions (w_db w)"
    "executions (w_db (decision_refused env c it t e w)) = executions (w_db w)"
    "executions (w_db (park env c it t st w)) = executions (w_db w)"
    "executions (w_db (heard env c it t content us w)) = executions (w_db w)"
    by (simp_all add: model_failed_def decision_refused_def park_def heard_def Let_def n)
  show "executions (w_db (turn_world (after_actions env c it dec calls outs s))) = executions (w_db (as_w s))"
    by (simp add: after_actions_def finish_completed_def finish_failed_def finish_waiting_def Let_def n
        tasks_touched_frame(2) [OF create_task_event_touched])
qed

text \<open>The check of a decision counts its calls, and what an iteration executes it has counted.\<close>

lemma validate_counts:
  "validate_decision org_id ag t dec calls d = ok () \<Longrightarrow> calls + count_tool_calls dec \<le> MaxToolCalls"
  by (simp add: validate_decision_def Let_def split: if_split_asm)

lemma after_actions_next:
  "after_actions env c it dec calls outs s = Next st' \<Longrightarrow> ls_calls st' = calls + count_tool_calls dec"
  by (auto simp: after_actions_def Let_def split: if_split_asm)

lemma task_turn_executions:
  assumes q: "memory_quiet env"
  shows "length (executions (w_db (turn_world (task_turn env c it st)))) + (case task_turn env c it st of Stop w e \<Rightarrow> 0 | Next st' \<Rightarrow> MaxToolCalls - ls_calls st')
    \<le> length (executions (w_db (ls_w st))) + (MaxToolCalls - ls_calls st)"
proof -
  note e = turn_parts_executions [OF q]
  have asked: "executions (w_db w1) = executions (w_db (ls_w st))"
    if "ask_turn env c it decision_schema [] (ls_task st) (ls_outs st) (ls_w st) = (w1, r)" for w1 r
    using e(1) [of c it decision_schema "[]" "ls_task st" "ls_outs st" "ls_w st"] that by simp
  have decided: "executions (w_db w2) = executions (w_db w1)"
    if "decide_turn env c it (ls_task st) content (heard env c it (ls_task st) content us w1) = (w2, r)" for w1 w2 content us r
    using e(2) [of c it "ls_task st" content "heard env c it (ls_task st) content us w1"] that e(6) by simp
  have acted: "length (executions (w_db (as_w s))) \<le> length (executions (w_db w2)) + count_tool_calls dec"
    if "execute_decision_actions env (rc_org c) (rc_agent c) (ls_task st) (rc_run c) dec (rc_corr c) w2 = (s, x)" for dec w2 s x
    using actions_executions [OF q, of _ 0 "d_actions dec"] that
    by (simp add: execute_decision_actions_def count_tool_calls_def) (metis act_state.select_convs(1) fst_conv)
  show ?thesis
  proof (cases rule: task_turn_cases [of env c it st])
    case (executed w1 content us w2 dec s)
    from acted [OF executed(4)] decided [OF executed(2)] asked [OF executed(1)] validate_counts [OF executed(3)]
    have "length (executions (w_db (as_w s))) + (MaxToolCalls - (ls_calls st + count_tool_calls dec))
        \<le> length (executions (w_db (ls_w st))) + (MaxToolCalls - ls_calls st)" by simp
    with e(7) [of c it dec "ls_calls st" "ls_outs st" s] after_actions_next [of env c it dec "ls_calls st" "ls_outs st" s]
    show ?thesis unfolding executed(5) by (auto split: turn_result.split)
  next
    case (parked w1 content us w2 dec s x)
    from acted [OF parked(4)] decided [OF parked(2)] asked [OF parked(1)] validate_counts [OF parked(3)]
    show ?thesis by (simp add: parked(6) e)
  next
    case (aborted w1 content us w2 dec s x)
    from acted [OF aborted(4)] decided [OF aborted(2)] asked [OF aborted(1)] validate_counts [OF aborted(3)]
    show ?thesis by (simp add: aborted(7))
  qed (auto simp: e dest!: asked decided)
qed

lemma task_loop_executions:
  assumes q: "memory_quiet env"
  shows "length (executions (w_db (fst (task_loop env c n st)))) \<le> length (executions (w_db (ls_w st))) + (MaxToolCalls - ls_calls st)"
proof (induction n arbitrary: st)
  case 0
  show ?case by (simp add: Let_def execution_notes [OF q])
next
  case (Suc n)
  let ?it = "int MaxIterations - int n"
  show ?case
  proof (cases "rt_done env (ls_w st)")
    case True
    then show ?thesis by (simp add: Let_def execution_notes [OF q])
  next
    case False
    with task_turn_executions [OF q, of c ?it st] show ?thesis
      by (cases "task_turn env c ?it st") (auto intro: le_trans [OF Suc.IH])
  qed
qed

text \<open>
  C5: One run adds at most ten tool executions, whatever the model asks for; an outside call without an
  execution there is none.
\<close>

theorem execute_task_tools:
  assumes "memory_quiet env"
  shows "length (executions (w_db (fst (execute_task env org_id agent tid corr trig w)))) \<le> length (executions (w_db w)) + MaxToolCalls"
proof (cases rule: execute_task_cases [of env org_id agent tid corr trig w])
  case (started c st)
  with task_loop_executions [OF assms, of c MaxIterations st] started(2) [OF assms] show ?thesis by simp
qed simp

section \<open>Witnesses\<close>

text \<open>A model that gives one answer, and a task that is assigned to the agent of the database.\<close>

definition scripted :: "json \<Rightarrow> runtime_env" where
  "scripted v = \<lparr>rt_go = demo_golib\<lparr>json_parse := (\<lambda>_. ok v)\<rparr>, rt_time = (\<lambda>_. []), rt_tools = Some demo_env,
     rt_model = (\<lambda>_. Some (\<lambda>_. ok (''{}'', \<lparr>prompt_tokens = 1, completion_tokens = 1, total_tokens = 2\<rparr>))),
     rt_search = None, rt_memory = None, rt_autonomy = False, rt_done = (\<lambda>_. False), rt_caps = (\<lambda>_. []), rt_sort = (\<lambda>_ xs. xs)\<rparr>"

definition reply_done :: json where
  "reply_done = JObj [(''status'', JStr ''completed''), (''response'', JStr ''ok'')]"

definition runtime_db :: db where
  "runtime_db = tools_db\<lparr>tasks := [demo_task\<lparr>t_status := ''assigned''\<rparr>]\<rparr>"

lemma scripted_quiet: "memory_quiet (scripted v)" "memory_quiet (scripted v\<lparr>rt_done := f\<rparr>)"
  by (simp_all add: memory_quiet_def scripted_def)

lemma runtime_db_consistent: "consistent runtime_db"
  by (simp add: consistent_def task_inv_def wf_task_def run_inv_def runs_wf_def ids_below_def log_inv_def actions_wf_def keys_unique_def
      runtime_db_def tools_db_def demo_db_def empty_db_def demo_task_def task_status_check_def task_priority_check_def)

lemma scripted_call:
  "(runtime_call (scripted reply_done))\<^sup>*\<^sup>* (world_of runtime_db)
     (fst (execute_task (scripted reply_done) 1 4 50 None ''task_assigned'' (world_of runtime_db)))"
  by (rule r_into_rtranclp, rule runtime_call.run)



definition cancelled_env :: runtime_env where
  "cancelled_env = scripted reply_done\<lparr>rt_done := (\<lambda>_. True)\<rparr>"


lemma execute_task_tools_witness:
  "length (executions (w_db (fst (execute_task (scripted reply_done) 1 4 50 None ''task_assigned'' (world_of runtime_db)))))
     \<le> length (executions runtime_db) + 10"
  using execute_task_tools [OF scripted_quiet(1) [of reply_done], of 1 4 50 None "''task_assigned''" "world_of runtime_db"]
  by (simp add: world_of_def MaxToolCalls_def)

end
