(* ===== verification/RuntimeFacts.thy ===== *)
theory RuntimeFacts
  imports Lifecycle "HOL-Library.Multiset"
begin

text \<open>
  Further facts of the runtime: which memories the context shows, whom a subtask goes to, when a parent is
  completed, and what becomes of a run once its approval was given.
\<close>

section \<open>The memories of the context\<close>

definition not_worse :: "memory \<Rightarrow> memory \<Rightarrow> bool" where
  "not_worse m n \<longleftrightarrow> \<not> ranks_before n m"

lemma not_worse_trans: "not_worse l m \<Longrightarrow> not_worse m n \<Longrightarrow> not_worse l n"
  by (auto simp: not_worse_def ranks_before_def)

lemma ranks_before_trans: "ranks_before l m \<Longrightarrow> not_worse m n \<Longrightarrow> not_worse l n"
  by (auto simp: not_worse_def ranks_before_def)

lemma exchange_mset: "exchange x ys = (h, r) \<Longrightarrow> add_mset h (mset r) = add_mset x (mset ys)"
proof (induction x ys arbitrary: h r rule: exchange.induct)
  case (2 x y ys)
  then show ?case by (cases "ranks_before y x") (auto split: prod.splits simp: add_mset_commute)
qed simp

lemma exchange_best: "exchange x ys = (h, r) \<Longrightarrow> not_worse h x \<and> (\<forall>y \<in> set r. not_worse h y)"
proof (induction x ys arbitrary: h r rule: exchange.induct)
  case (1 x)
  then show ?case by (simp add: not_worse_def ranks_before_def)
next
  case (2 x y ys)
  show ?case
  proof (cases "ranks_before y x")
    case True
    then obtain r' where r: "exchange y ys = (h, r')" "r = x # r'" using 2(3) by (auto split: prod.splits)
    from 2(1) [OF True r(1)] True r(2) show ?thesis
      by (auto simp: not_worse_def ranks_before_def)
  next
    case False
    then obtain r' where r: "exchange x ys = (h, r')" "r = y # r'" using 2(3) by (auto split: prod.splits)
    from 2(2) [OF False r(1)] have h: "not_worse h x" "\<forall>z \<in> set r'. not_worse h z" by simp_all
    from not_worse_trans [OF h(1), of y] False have "not_worse h y" by (simp add: not_worse_def)
    with h r(2) show ?thesis by simp
  qed
qed

lemma exchange_sort_sorted: "mset (exchange_sort ms) = mset ms \<and> sorted_wrt not_worse (exchange_sort ms)"
proof (induction ms rule: exchange_sort.induct)
  case (2 x xs)
  obtain h r where e: "exchange x xs = (h, r)" by (cases "exchange x xs")
  from exchange_mset [OF e] have m: "add_mset h (mset r) = mset (x # xs)" by simp
  have "mset (exchange_sort r) = mset r" "sorted_wrt not_worse (exchange_sort r)" using 2 e by simp_all
  moreover from this(1) have "set (exchange_sort r) = set r" by (metis set_mset_mset)
  ultimately show ?case using exchange_best [OF e] m by (simp add: e)
qed simp

definition shown_text :: "memory \<Rightarrow> string" where
  "shown_text m = to_lower (trim_space (mem_content m))"

lemma live_memories_props:
  "set (live_memories seen ms) \<subseteq> {m \<in> set ms. mem_status m \<notin> {''archived'', ''superseded'', ''stale'', ''merged''} \<and> shown_text m \<notin> seen}
    \<and> distinct (map shown_text (live_memories seen ms))"
proof (induction seen ms rule: live_memories.induct)
  case (2 seen m ms)
  show ?case
  proof (cases "mem_status m \<in> {''archived'', ''superseded'', ''stale'', ''merged''} \<or> shown_text m \<in> seen")
    case True
    then show ?thesis using 2 by (auto simp: Let_def shown_text_def [symmetric])
  next
    case False
    from 2(3) False show ?thesis by (auto simp: Let_def shown_text_def [symmetric])
  qed
qed simp

lemma memory_lines_prefix:
  "\<exists>k. memory_lines g used n ms = map (\<lambda>(j, m). memory_line g j m) (zip [n ..< n + k] (take k ms)) \<and> k \<le> length ms
     \<and> n + k \<le> max n 3 \<and> used + length (concat (memory_lines g used n ms)) \<le> max used 1000"
proof (induction g used n ms rule: memory_lines.induct)
  case (1 g used n)
  show ?case by (intro exI [of _ 0]) simp
next
  case (2 g used n m ms)
  show ?case
  proof (cases "3 \<le> n \<or> 1000 < used + length (memory_line g n m)")
    case True
    then show ?thesis by (intro exI [of _ 0]) (auto simp: Let_def)
  next
    case False
    with 2 obtain k where k: "memory_lines g (used + length (memory_line g n m)) (n + 1) ms
        = map (\<lambda>(j, m). memory_line g j m) (zip [n + 1 ..< n + 1 + k] (take k ms))" "k \<le> length ms"
        "n + 1 + k \<le> max (n + 1) 3"
        "used + length (memory_line g n m) + length (concat (memory_lines g (used + length (memory_line g n m)) (n + 1) ms))
          \<le> max (used + length (memory_line g n m)) 1000"
      by auto
    have "[n ..< n + Suc k] = n # [n + 1 ..< n + 1 + k]" by (simp add: upt_rec)
    with False k show ?thesis by (intro exI [of _ "Suc k"]) (auto simp: Let_def)
  qed
qed


text \<open>The context as a whole is bounded, however much the tables hold.\<close>

lemma context_bounded: "length (build_agent_context env a p t retrieved ms conversation outs d) \<le> 8012"
  by (simp add: build_agent_context_def Let_def del: take_append)

section \<open>Whom a subtask goes to\<close>

lemma broadcast_tasks [simp]: "tasks (w_db (broadcast g tn t ty pl w)) = tasks (w_db w)"
  by (simp add: broadcast_def Let_def split: option.split)

lemma post_tasks [simp]: "tasks (w_db (fst (post g tn t body extra w))) = tasks (w_db w)"
  by (simp add: post_def split_beta messages_touched_frame(2) [OF create_message_touched] split: option.split sum.split)

lemma log_tasks [simp]: "tasks (w_db (log_action tn n ty nm inp out st w)) = tasks (w_db w)"
  by (simp add: log_action_def log_touched_frame(2) [OF create_action_touched])

lemma announce_tasks [simp]: "tasks (w_db (announce_subtask g tn t title dest sub w)) = tasks (w_db w)"
  by (simp add: announce_subtask_def Let_def split: option.split)

lemma event_tasks [simp]: "tasks (fst (create_task_event i actor who ev pl corr d)) = tasks d"
  by (auto simp: create_task_event_def dest: insert_task_event_cases(2) split: sum.split prod.split)

text \<open>An agent a subtask may go to: active, of the organization, and of the project or the team.\<close>

definition proper_target :: "uuid \<Rightarrow> task \<Rightarrow> uuid \<Rightarrow> db \<Rightarrow> bool" where
  "proper_target org_id t u d \<longleftrightarrow> (\<exists>ag. get_agent org_id u d = ok ag \<and> ag_status ag = ''active'')
     \<and> ((t_project_id t, u) \<in> set (project_agents d)
        \<or> (\<exists>m \<in> set (members d). t_team_id t = Some (tm_team_id m) \<and> tm_agent_id m = u))"

lemma target_proper: "target_refusal g org_id t title u d = None \<Longrightarrow> proper_target org_id t u d \<and> child_count org_id t d < 20"
  by (auto simp: target_refusal_def validate_delegation_target_def proper_target_def split: sum.splits option.splits if_splits)


section \<open>When a parent is completed\<close>

lemma send_tasks [simp]: "tasks (w_db (send_to_org g org_id ty pl w)) = tasks (w_db w)"
  by (simp add: send_to_org_def new_uuid_def split: option.split)

lemma create_message_tasks [simp]: "tasks (fst (create_message org_id ch th ty who body d)) = tasks d"
  by (rule messages_touched_frame(2) [OF create_message_touched])

text \<open>
  C8: A parent is completed only when it is not at its end, each of its subtasks among the 100 newest tasks of
  the project is, and one of those was completed; nothing else of the task table changes. A parent the
  delegation has blocked is never completed.
\<close>

theorem aggregation_completes:
  assumes "check_parent_aggregation env org_id pid w = (w', r)"
  defines "d \<equiv> w_db w"
  shows "tasks (w_db w') = tasks d
    \<or> (\<exists>p. get_task org_id pid d = ok p \<and> t_status p \<notin> {''completed'', ''failed'', ''cancelled'', ''blocked''}
         \<and> (\<exists>c \<in> set (listed_children org_id p d). t_status c = ''completed'')
         \<and> (\<forall>c \<in> set (listed_children org_id p d). t_status c \<in> {''completed'', ''failed'', ''cancelled''})
         \<and> tasks (w_db w') = update_where (\<lambda>t. t_id t = pid \<and> t_organization_id t = org_id)
              (\<lambda>t. t\<lparr>t_status := ''completed'', t_updated_at := now d\<rparr>) (tasks d))"
proof (cases "get_task org_id pid d")
  case (Inl e)
  with assms show ?thesis by (simp add: check_parent_aggregation_def)
next
  case (Inr p)
  define cs where "cs = listed_children org_id p d"
  define n where "n = length (filter (\<lambda>c. t_status c = ''completed'') cs)"
  obtain d1 y where u: "update_task_status org_id pid ''completed'' ''agent''
      (case t_assigned_to_agent p of None \<Rightarrow> nil_uuid | Some a \<Rightarrow> a) (Some [(''aggregated'', jint (int n))]) d = (d1, y)"
    by fastforce
  show ?thesis
  proof (cases "is_final (t_status p) \<or> cs = [] \<or> (\<exists>c \<in> set cs. \<not> is_final (t_status c)) \<or> n = 0")
    case True
    with assms Inr show ?thesis by (auto simp: check_parent_aggregation_def Let_def cs_def n_def)
  next
    case False
    have run: "on_db (update_task_status org_id pid ''completed'' ''agent''
        (case t_assigned_to_agent p of None \<Rightarrow> nil_uuid | Some a \<Rightarrow> a) (Some [(''aggregated'', jint (int n))])) w
        = (w\<lparr>w_db := d1\<rparr>, y)"
      using u by (simp add: on_db_def d_def)
    note step = assms(1) [unfolded check_parent_aggregation_def Let_def d_def [symmetric] Inr sum.case
        cs_def [symmetric] n_def [symmetric] run]
    have t: "tasks (w_db w') = tasks d1"
      using False step by (cases y) (auto simp: on_db_def split_beta split: sum.splits option.splits)
    show ?thesis
    proof (cases "d1 = d")
      case changed: False
      from update_task_status_tasks [OF u disjI1 [OF this]] obtain old where old:
        "query_row (\<lambda>t. t_id t = pid \<and> t_organization_id t = org_id) (tasks d) = ok old"
        "is_valid_task_transition (t_status old) ''completed''"
        "tasks d1 = update_where (\<lambda>t. t_id t = pid \<and> t_organization_id t = org_id)
          (\<lambda>t. t\<lparr>t_status := ''completed'', t_updated_at := now d\<rparr>) (tasks d)" by blast
      from old(1) Inr have "t_status old = t_status p" by (auto simp: get_task_def scan_task_def)
      with old(2) False have "t_status p \<notin> {''completed'', ''failed'', ''cancelled'', ''blocked''}"
        by (auto simp: is_valid_task_transition_def valid_task_transitions_def is_final_def)
      moreover have "\<exists>c \<in> set cs. t_status c = ''completed''" using False by (auto simp: n_def filter_empty_conv)
      ultimately show ?thesis using False t old(3) Inr by (auto simp: cs_def is_final_def)
    qed (use t in simp)
  qed
qed

section \<open>A run after its approval\<close>


section \<open>A completion the model asks for\<close>

text \<open>
  The task of the context is read before \<^verbatim>\<open>ExecuteTask\<close> sets its row to running and not read again, so in
  the first turn it still has the status it was assigned with: an action \<^verbatim>\<open>complete_task\<close> is refused,
  though the row would allow it.
\<close>

lemma completion_refused:
  assumes "t_status t = ''assigned''" and "act_type a = ''complete_task''" and "a \<in> set (d_actions dec)"
  shows "\<exists>e. validate_decision org_id ag t dec calls d = fail e"
proof -
  have no: "check_action org_id ag t a d \<noteq> ok ()"
    using assms by (simp add: check_action_def is_valid_transition_def valid_transitions_def)
  have "check_actions org_id ag t as d \<noteq> ok ()" if "a \<in> set as" for as
    using that no by (induction as) (auto simp: and_then_def split: sum.splits)
  from this [OF assms(3)] show ?thesis
    by (cases "check_actions org_id ag t (d_actions dec) d") (auto simp: validate_decision_def Let_def)
qed

section \<open>Witnesses\<close>

definition subtask_action :: decision_action where
  "subtask_action = \<lparr>act_type = ''create_task'', act_params = None, act_title = ''part'', act_description = [],
     act_agent_id = [], act_task_id = [], act_channel_id = [], act_body = [], act_tool = [], act_input = None\<rparr>"

definition demo_turn :: turn where
  "demo_turn = \<lparr>tn_org = 1, tn_agent = demo_agent, tn_run = 60, tn_corr = None, tn_response = [], tn_thread = None\<rparr>"

definition subtask_start :: act_state where
  "subtask_start = \<lparr>as_w = world_of runtime_db, as_status = ''running'', as_task = demo_task, as_out = []\<rparr>"


definition family_db :: db where
  "family_db = runtime_db\<lparr>tasks := [demo_task, demo_task\<lparr>t_id := 51, t_parent_task_id := Some 50, t_status := ''completed''\<rparr>]\<rparr>"

lemma aggregation_completes_witness:
  "\<exists>p. get_task 1 50 family_db = ok p \<and> t_status p \<notin> {''completed'', ''failed'', ''cancelled'', ''blocked''}"
proof -
  let ?r = "check_parent_aggregation (scripted reply_done) 1 50 (world_of family_db)"
  have "map t_status (tasks (w_db (fst ?r))) \<noteq> map t_status (tasks family_db)" by code_simp
  then have "tasks (w_db (fst ?r)) \<noteq> tasks family_db" by metis
  then show ?thesis
    using aggregation_completes [OF surjective_pairing [of ?r]] by (auto simp: world_of_def)
qed

definition run_db60 :: db where
  "run_db60 = (let d = fst (create_agent_run 1 4 (Some 50) None ''manual'' None None None None (tools_db\<lparr>next_id := 60\<rparr>)) in d\<lparr>next_id := 100\<rparr>)"

definition email_in_run :: world where
  "email_in_run = fst (execute demo_env (email_params\<lparr>xp_task_id := Some 50, xp_run_id := Some 60\<rparr>) (world_of run_db60))"

definition run_approval :: string where "run_approval = nat_str (ap_id (hd (approvals (w_db email_in_run))))"

lemma approve_answer: "snd (approve tenv c s w) = snd (decide (claim_organization_id c) (path_id (te_go tenv) s) (claim_user_id c) ''approved'' (w_db w))"
  by (simp add: approve_def Let_def on_db_def split_beta split: sum.split)

lemma email_decided:
  "map_sum id (\<lambda>a. (ap_entity_type a, map (\<lambda>e. (ex_organization_id e, ex_task_id e, ex_run_id e)) (executions_of (ap_id a) (w_db email_in_run))))
     (snd (decide 1 (path_id demo_golib run_approval) 2 ''approved'' (w_db email_in_run)))
   = Inr (''tool_execution'', [(1, Some 50, Some 60)])"
  by code_simp


end
