(* ===== verification/MemoryText.thy ===== *)
theory MemoryText
  imports Prelude Security
begin

text \<open>
  The functions on texts of \<^verbatim>\<open>backend/internal/memory/service.go\<close>: normal form, the checks for low value and
  for secrets, the similarity of two texts and what it says about their relationship. A \<^verbatim>\<open>float64\<close> is a
  rational. The theorems relate the dynamic program to the longest common subsequence, bound the
  similarity and the confidence, and say when two memories count as the same.
\<close>

section \<open>Words and tokens\<close>

text \<open>\<^verbatim>\<open>strings.Fields\<close> and \<^verbatim>\<open>strings.FieldsFunc\<close>: the maximal runs of characters that do not separate.\<close>

fun split_runs :: "(char \<Rightarrow> bool) \<Rightarrow> string \<Rightarrow> string \<Rightarrow> string list" where
  "split_runs sep acc [] = (if acc = [] then [] else [rev acc])"
| "split_runs sep acc (c # cs) =
     (if sep c then (if acc = [] then [] else [rev acc]) @ split_runs sep [] cs else split_runs sep (c # acc) cs)"

definition fields_func :: "(char \<Rightarrow> bool) \<Rightarrow> string \<Rightarrow> string list" where
  "fields_func sep s = split_runs sep [] s"

definition fields :: "string \<Rightarrow> string list" where
  "fields s = fields_func is_space s"

definition code :: "char \<Rightarrow> nat" where "code c = of_char c"

definition is_digit :: "char \<Rightarrow> bool" where "is_digit c \<longleftrightarrow> 48 \<le> code c \<and> code c \<le> 57"
definition is_lower :: "char \<Rightarrow> bool" where "is_lower c \<longleftrightarrow> 97 \<le> code c \<and> code c \<le> 122"
definition is_upper :: "char \<Rightarrow> bool" where "is_upper c \<longleftrightarrow> 65 \<le> code c \<and> code c \<le> 90"
definition is_alnum :: "char \<Rightarrow> bool" where "is_alnum c \<longleftrightarrow> is_digit c \<or> is_lower c \<or> is_upper c"

text \<open>
  The set of a \<^verbatim>\<open>map[string]struct{}\<close> as the list of its keys, each once. An upper case letter separates
  tokens, as every other character does that is not a lower case letter or a digit.
\<close>

definition token_set :: "string \<Rightarrow> string list" where
  "token_set s = remdups (filter (\<lambda>t. 2 \<le> length t)
     (map (\<lambda>t. to_lower (trim_space t)) (fields_func (\<lambda>r. \<not> (is_lower r \<or> is_digit r)) s)))"

definition jaccard :: "string list \<Rightarrow> string list \<Rightarrow> rat" where
  "jaccard a b =
     (if a = [] \<and> b = [] then 1
      else let inter = length (filter (\<lambda>k. k \<in> set b) a); union = length a + length b - inter
           in if union = 0 then 0 else of_nat inter / of_nat union)"

text \<open>\<^verbatim>\<open>normalizeContent\<close>; \<^verbatim>\<open>\s+\<close> is replaced by one space, and one period at the end removed.\<close>

definition trim_suffix :: "string \<Rightarrow> char \<Rightarrow> string" where
  "trim_suffix s c = (if s \<noteq> [] \<and> last s = c then butlast s else s)"

definition normalize_content :: "string \<Rightarrow> string" where
  "normalize_content s = trim_suffix (rx_replace [Sp1] '' '' (to_lower (trim_space s))) (CHR ''.'')"

section \<open>The longest common subsequence\<close>

text \<open>
  One row of the table from the row above it: \<open>diag\<close> and \<open>left\<close> are the entries to the upper left and to
  the left, \<open>ups\<close> the entries above.
\<close>

fun lcs_row :: "'a \<Rightarrow> 'a list \<Rightarrow> nat \<Rightarrow> nat \<Rightarrow> nat list \<Rightarrow> nat list" where
  "lcs_row x (y # ys) diag left (up # ups) =
     (let v = (if x = y then diag + 1 else if left < up then up else left) in v # lcs_row x ys up v ups)"
| "lcs_row x _ diag left _ = []"

fun lcs_rows :: "'a list \<Rightarrow> 'a list \<Rightarrow> nat list \<Rightarrow> nat list" where
  "lcs_rows [] b row = row"
| "lcs_rows (x # xs) b row = lcs_rows xs b (lcs_row x b 0 0 row)"

definition longest_common_subsequence :: "'a list \<Rightarrow> 'a list \<Rightarrow> nat" where
  "longest_common_subsequence a b =
     (if a = [] \<or> b = [] then 0 else last (lcs_rows a b (replicate (length b) 0)))"

section \<open>Similarity and relationship\<close>

definition text_similarity :: "string \<Rightarrow> string \<Rightarrow> rat" where
  "text_similarity a b =
     (let a_norm = normalize_content a; b_norm = normalize_content b
      in if a_norm = b_norm then 1
         else if max (length a_norm) (length b_norm) = 0 then 0
         else let j = jaccard (token_set a_norm) (token_set b_norm);
                  words_a = fields a_norm; words_b = fields b_norm;
                  seq_sim = of_nat (longest_common_subsequence words_a words_b * 2) / of_nat (length words_a + length words_b)
              in j * (6 / 10) + seq_sim * (4 / 10))"

definition subjects :: "string list" where
  "subjects = [''customer'', ''user'', ''report'', ''reports'', ''preference'', ''prefers'', ''format'', ''csv'', ''pdf'',
     ''project'', ''task'', ''memory'']"

definition shares_subject :: "string \<Rightarrow> string \<Rightarrow> bool" where
  "shares_subject a b \<longleftrightarrow>
     (let a_low = to_lower a; b_low = to_lower b
      in (\<exists>s \<in> set subjects. contains a_low s \<and> contains b_low s)
         \<or> 3 / 10 < jaccard (token_set (normalize_content a)) (token_set (normalize_content b)))"

text \<open>The last format of the list that occurs.\<close>

definition last_format :: "string list \<Rightarrow> string \<Rightarrow> string" where
  "last_format fs low = fold (\<lambda>f r. if contains low f then f else r) fs []"

definition contradiction_formats :: "string list" where
  "contradiction_formats = [''csv'', ''pdf'', ''json'', ''xlsx'', ''xls'', ''tsv'', ''xml'', ''txt'', ''html'']"

definition value_formats :: "string list" where
  "value_formats = contradiction_formats @ [''parquet'', ''avro'']"

text \<open>\<^verbatim>\<open>FindAllString\<close> of \<^verbatim>\<open>\d+\.?\d*%?\<close>.\<close>

definition number_at :: "string \<Rightarrow> string \<times> string" where
  "number_at s =
     (let whole = takeWhile is_digit s; r = dropWhile is_digit s;
          point = (case r of c # _ \<Rightarrow> if c = CHR ''.'' then [c] else [] | [] \<Rightarrow> []); r = drop (length point) r;
          frac = takeWhile is_digit r; r = dropWhile is_digit r;
          pct = (case r of c # _ \<Rightarrow> if c = CHR ''%'' then [c] else [] | [] \<Rightarrow> [])
      in (whole @ point @ frac @ pct, drop (length pct) r))"

lemma number_at_shorter:
  assumes "is_digit c"
  shows "length (snd (number_at (c # s))) \<le> length s"
proof -
  have "length (drop m (dropWhile is_digit (drop n (dropWhile is_digit s)))) \<le> length s" for m n
  proof -
    have "length (drop m (dropWhile is_digit (drop n (dropWhile is_digit s)))) \<le> length (dropWhile is_digit (drop n (dropWhile is_digit s)))"
      by simp
    also have "\<dots> \<le> length (drop n (dropWhile is_digit s))" by (rule length_dropWhile_le)
    also have "\<dots> \<le> length (dropWhile is_digit s)" by simp
    also have "\<dots> \<le> length s" by (rule length_dropWhile_le)
    finally show ?thesis .
  qed
  with assms show ?thesis by (simp add: number_at_def Let_def)
qed

function numbers :: "string \<Rightarrow> string list" where
  "numbers [] = []"
| "numbers (c # s) = (if is_digit c then fst (number_at (c # s)) # numbers (snd (number_at (c # s))) else numbers s)"
  by pat_completeness auto
termination
  by (relation "measure length") (auto simp: number_at_shorter less_Suc_eq_le)

definition has_value_change :: "string \<Rightarrow> string \<Rightarrow> bool" where
  "has_value_change a b \<longleftrightarrow>
     (let a_low = to_lower a; b_low = to_lower b; a_has = last_format value_formats a_low; b_has = last_format value_formats b_low;
          nums_a = numbers a_low; nums_b = numbers b_low
      in a_has \<noteq> [] \<and> b_has \<noteq> [] \<and> a_has \<noteq> b_has
         \<or> nums_a \<noteq> [] \<and> nums_b \<noteq> [] \<and> join '','' nums_a \<noteq> join '','' nums_b \<and> shares_subject a b)"

definition contradict_pairs :: "(string \<times> string) list" where
  "contradict_pairs = [(''csv'', ''pdf''), (''pdf'', ''csv''), (''enabled'', ''disabled''), (''active'', ''archived''), (''yes'', ''no'')]"

definition is_contradictory :: "string \<Rightarrow> string \<Rightarrow> bool" where
  "is_contradictory a b \<longleftrightarrow>
     (let a_low = to_lower a; b_low = to_lower b;
          a_fmt = last_format contradiction_formats a_low; b_fmt = last_format contradiction_formats b_low
      in a_fmt \<noteq> [] \<and> b_fmt \<noteq> [] \<and> a_fmt \<noteq> b_fmt \<and> shares_subject a b
         \<or> contains a_low ''not'' \<noteq> contains b_low ''not'' \<and> shares_subject a b
         \<or> (\<exists>(x, y) \<in> set contradict_pairs. contains a_low x \<and> contains b_low y \<and> shares_subject a b
               \<or> contains a_low y \<and> contains b_low x \<and> shares_subject a b))"

datatype relation = Duplicate | Reinforce | Update | Contradiction | Unrelated | Ambiguous

text \<open>The relationship and how sure it is. The other parameters of the function are not used by its body.\<close>

definition classify_relationship :: "string \<Rightarrow> string \<Rightarrow> relation \<times> rat" where
  "classify_relationship existing candidate =
     (let norm_e = normalize_content existing; norm_c = normalize_content candidate;
          jacc = jaccard (token_set norm_e) (token_set norm_c); sim = text_similarity existing candidate
      in if norm_e = norm_c then (Duplicate, 95 / 100)
         else if is_contradictory existing candidate then (Contradiction, 85 / 100)
         else if shares_subject existing candidate \<and> has_value_change existing candidate \<and> (45 / 100 < sim \<or> 35 / 100 < jacc)
         then (Update, 78 / 100)
         else if 88 / 100 < sim \<or> 85 / 100 < jacc then (Duplicate, 9 / 10)
         else if 75 / 100 < sim \<or> 7 / 10 < jacc then (Reinforce, 8 / 10)
         else if shares_subject existing candidate \<and> (45 / 100 < sim \<or> 4 / 10 < jacc)
         then (if has_value_change existing candidate then (Update, 75 / 100) else (Reinforce, 7 / 10))
         else if sim < 3 / 10 \<and> jacc < 2 / 10 then (Unrelated, 2 / 10)
         else if 3 / 10 \<le> sim \<and> sim \<le> 75 / 100 then (Ambiguous, 5 / 10)
         else (Unrelated, 3 / 10))"

section \<open>What is not stored\<close>

text \<open>\<^verbatim>\<open>MatchString\<close> of \<^verbatim>\<open>\d{1,2}:\d{2}\<close>.\<close>

fun has_clock :: "string \<Rightarrow> bool" where
  "has_clock (a # b # c # d # s) =
     (is_digit a \<and> b = CHR '':'' \<and> is_digit c \<and> is_digit d \<or> has_clock (b # c # d # s))"
| "has_clock _ = False"

definition low_phrases :: "string list" where
  "low_phrases = [''agent said hello'', ''the task started'', ''task started at'', ''user asked a temporary question'',
     ''the user asked a temporary question'', ''hello'', ''hi there'', ''temporary question'']"

definition is_low_value :: "string \<Rightarrow> rat \<Rightarrow> bool" where
  "is_low_value content importance =
     (let trimmed = trim_space content; lower = to_lower trimmed
      in if length trimmed < 4 then True
         else if length trimmed < 8 \<and> importance < 6 / 10 then lower \<noteq> ''test''
         else if (\<exists>p \<in> set low_phrases. (lower = p \<or> contains lower p) \<and> importance < 7 / 10) then True
         else if length trimmed < 20 \<and> has_clock trimmed then True
         else if lower \<in> {''hello'', ''hi'', ''thanks'', ''ok''} then True
         else contains lower ''said hello'' \<and> length trimmed < 50)"

text \<open>A run of at least \<open>n\<close> characters of a class somewhere in the text, or right at its start.\<close>

definition starts_run :: "(char \<Rightarrow> bool) \<Rightarrow> nat \<Rightarrow> string \<Rightarrow> bool" where
  "starts_run P n s \<longleftrightarrow> n \<le> length (takeWhile P s)"

definition has_run :: "(char \<Rightarrow> bool) \<Rightarrow> nat \<Rightarrow> string \<Rightarrow> bool" where
  "has_run P n s \<longleftrightarrow> (\<exists>t \<in> set (suffixes s). starts_run P n t)"

text \<open>\<^verbatim>\<open>api[_-]?key\<close> in either case, at the start of a text: what follows it.\<close>

definition api_key_at :: "string \<Rightarrow> string option" where
  "api_key_at s =
     (if to_lower (take 3 s) = ''api''
      then let r = drop 3 s; r = (case r of c # cs \<Rightarrow> if c = CHR ''_'' \<or> c = CHR ''-'' then cs else r | [] \<Rightarrow> r)
           in if to_lower (take 3 r) = ''key'' then Some (drop 3 r) else None
      else None)"

definition secret_words :: "string list" where
  "secret_words = [''password'', ''secret'', ''token'', ''credentials'', ''bearer'', ''aws_access'', ''github_token'', ''-----begin'']"

definition secret_pattern :: "string \<Rightarrow> bool" where
  "secret_pattern s \<longleftrightarrow> (\<exists>w \<in> set secret_words. contains (to_lower s) w)
     \<or> (\<exists>t \<in> set (suffixes s). api_key_at t \<noteq> None \<or> to_lower (take 3 t) = ''sk-'' \<and> starts_run is_alnum 20 (drop 3 t))"

text \<open>\<^verbatim>\<open>(?i)api[_-]?key\s*[=:]\s*['"]?[a-zA-Z0-9_\-]{16,}\<close> at the start of a text.\<close>

definition assigns_key :: "string \<Rightarrow> bool" where
  "assigns_key s =
     (case api_key_at s of None \<Rightarrow> False
      | Some r \<Rightarrow>
          (case dropWhile rx_space r of [] \<Rightarrow> False
           | c # r \<Rightarrow> (c = CHR ''='' \<or> c = CHR '':'') \<and>
               (let r = dropWhile rx_space r;
                    r = (case r of q # r' \<Rightarrow> if code q = 39 \<or> code q = 34 then r' else r | [] \<Rightarrow> r)
                in starts_run (\<lambda>c. is_alnum c \<or> c = CHR ''_'' \<or> c = CHR ''-'') 16 r)))"

definition is_secret_content :: "string \<Rightarrow> bool" where
  "is_secret_content content \<longleftrightarrow>
     (let lower = to_lower content
      in secret_pattern content \<and>
         (contains lower ''sk-'' \<or> contains lower ''bearer'' \<or> contains lower ''password'' \<or> contains content ''-----BEGIN''
          \<or> (contains lower ''api_key'' \<or> contains lower ''apikey'') \<and> (\<exists>t \<in> set (suffixes content). assigns_key t)
          \<or> has_run is_alnum 20 content \<and> (contains lower ''secret'' \<or> contains lower ''token'')))"

section \<open>Confidence and formulation\<close>

definition explicit_sources :: "string list" where
  "explicit_sources = [''EXPLICIT_USER_PREFERENCE'', ''explicit_user_preference'']"

text \<open>The new confidence of the parameters is defaulted but does not enter the result.\<close>

definition reinforce_confidence :: "rat \<Rightarrow> rat \<Rightarrow> string \<Rightarrow> rat" where
  "reinforce_confidence old_conf new_conf source =
     (let base = (if old_conf = 0 then 5 / 10 else old_conf)
      in if source \<in> set explicit_sources then min (99 / 100) (base + (1 - base) * (5 / 10))
         else min (99 / 100) (base + (1 - base) * (3 / 10)))"

definition content_score :: "string \<Rightarrow> rat" where
  "content_score s =
     (let words = length (fields s)
      in of_nat words * (5 / 10) + of_nat (length (token_set s)) * (5 / 10) - (if words < 4 then 2 else 0))"

definition choose_stronger_content :: "string \<Rightarrow> string \<Rightarrow> string" where
  "choose_stronger_content a b =
     (let a_trim = trim_space a; b_trim = trim_space b
      in if b_trim = [] then a_trim else if a_trim = [] then b_trim
         else if content_score a_trim < content_score b_trim then b_trim else a_trim)"

section \<open>The table computes the longest common subsequence\<close>

text \<open>The recursion on the last characters, on reversed lists.\<close>

fun lcs_ref :: "'a list \<Rightarrow> 'a list \<Rightarrow> nat" where
  "lcs_ref [] ys = 0"
| "lcs_ref (x # xs) [] = 0"
| "lcs_ref (x # xs) (y # ys) = (if x = y then lcs_ref xs ys + 1 else max (lcs_ref (x # xs) ys) (lcs_ref xs (y # ys)))"

lemma lcs_ref_Nil [simp]: "lcs_ref xs [] = 0"
  by (cases xs) auto

fun table :: "'a list \<Rightarrow> 'a list \<Rightarrow> 'a list \<Rightarrow> nat list" where
  "table pa pb [] = []"
| "table pa pb (y # ys) = lcs_ref pa (y # pb) # table pa (y # pb) ys"

lemma lcs_row_table: "lcs_row x ys (lcs_ref pa pb) (lcs_ref (x # pa) pb) (table pa pb ys) = table (x # pa) pb ys"
proof (induction ys arbitrary: pb)
  case (Cons y ys)
  have "(if x = y then lcs_ref pa pb + 1 else if lcs_ref (x # pa) pb < lcs_ref pa (y # pb) then lcs_ref pa (y # pb)
      else lcs_ref (x # pa) pb) = lcs_ref (x # pa) (y # pb)" by simp
  with Cons [of "y # pb"] show ?case by (simp add: Let_def del: lcs_ref.simps)
qed simp

lemma lcs_rows_table: "lcs_rows xs b (table pa [] b) = table (rev xs @ pa) [] b"
proof (induction xs arbitrary: pa)
  case (Cons x xs)
  from lcs_row_table [of x b pa "[]"] have "lcs_row x b 0 0 (table pa [] b) = table (x # pa) [] b" by simp
  with Cons [of "x # pa"] show ?case by simp
qed simp

lemma table_Nil: "table [] pb ys = replicate (length ys) 0"
  by (induction ys arbitrary: pb) auto

lemma table_last: "ys \<noteq> [] \<Longrightarrow> last (table pa pb ys) = lcs_ref pa (rev ys @ pb)"
proof (induction ys arbitrary: pb)
  case (Cons y ys)
  then show ?case by (cases ys) simp_all
qed simp

lemma lcs_eq_ref: "longest_common_subsequence a b = lcs_ref (rev a) (rev b)"
  using lcs_rows_table [of a b "[]"] table_last [of b "rev a" "[]"]
  by (auto simp: longest_common_subsequence_def table_Nil)

lemma lcs_ref_upper: "subseq s xs \<Longrightarrow> subseq s ys \<Longrightarrow> length s \<le> lcs_ref xs ys"
proof (induction xs ys arbitrary: s rule: lcs_ref.induct)
  case (3 x xs y ys)
  show ?case
  proof (cases s)
    case (Cons z s')
    show ?thesis
    proof (cases "x = y")
      case True
      have "subseq s' xs" "subseq s' ys" using 3(4,5) Cons by (auto intro: subseq_Cons' split: if_splits)
      with 3(1) [OF True] True Cons show ?thesis by simp
    next
      case False
      then consider "z \<noteq> x" | "z \<noteq> y" by blast
      then show ?thesis
      proof cases
        case 1
        with 3(4) Cons have "subseq s xs" by simp
        from 3(3) [OF False this 3(5)] False show ?thesis by simp
      next
        case 2
        with 3(5) Cons have "subseq s ys" by simp
        from 3(2) [OF False 3(4) this] False show ?thesis by simp
      qed
    qed
  qed simp
qed auto

lemma lcs_ref_reached: "\<exists>s. subseq s xs \<and> subseq s ys \<and> length s = lcs_ref xs ys"
proof (induction xs ys rule: lcs_ref.induct)
  case (3 x xs y ys)
  show ?case
  proof (cases "x = y")
    case True
    with 3(1) obtain s where "subseq s xs" "subseq s ys" "length s = lcs_ref xs ys" by blast
    with True show ?thesis by (intro exI [of _ "x # s"]) simp
  next
    case False
    from 3(2) [OF False] obtain s where s: "subseq s (x # xs)" "subseq s ys" "length s = lcs_ref (x # xs) ys" by blast
    from 3(3) [OF False] obtain t where t: "subseq t xs" "subseq t (y # ys)" "length t = lcs_ref xs (y # ys)" by blast
    show ?thesis
    proof (cases "lcs_ref xs (y # ys) \<le> lcs_ref (x # xs) ys")
      case True
      with s False show ?thesis by (intro exI [of _ s]) (auto simp del: subseq_Cons2_iff intro: list_emb_Cons)
    next
      case le: False
      with t False show ?thesis by (intro exI [of _ t]) (auto simp del: subseq_Cons2_iff intro: list_emb_Cons)
    qed
  qed
qed auto

lemma subseq_rev_imp: "subseq s xs \<Longrightarrow> subseq (rev s) (rev xs)"
proof (induction rule: list_emb.induct)
  case (list_emb_Cons2 x y xs ys)
  then show ?case by (auto intro: list_emb_append_mono)
qed (auto intro: subseq_rev_drop_many)

lemma subseq_rev: "subseq (rev s) (rev xs) \<longleftrightarrow> subseq s xs"
  using subseq_rev_imp subseq_rev_imp [of "rev s" "rev xs"] by auto

text \<open>
  C14: \<^verbatim>\<open>longestCommonSubsequence\<close> is the length of a longest common subsequence: one has that length and none
  is longer.
\<close>

theorem lcs_correct:
  "(\<exists>s. subseq s a \<and> subseq s b \<and> length s = longest_common_subsequence a b)
   \<and> (\<forall>s. subseq s a \<and> subseq s b \<longrightarrow> length s \<le> longest_common_subsequence a b)"
proof
  from lcs_ref_reached [of "rev a" "rev b"] obtain s where
    "subseq s (rev a)" "subseq s (rev b)" "length s = lcs_ref (rev a) (rev b)" by blast
  then show "\<exists>s. subseq s a \<and> subseq s b \<and> length s = longest_common_subsequence a b"
    by (intro exI [of _ "rev s"]) (metis lcs_eq_ref length_rev rev_rev_ident subseq_rev)
  show "\<forall>s. subseq s a \<and> subseq s b \<longrightarrow> length s \<le> longest_common_subsequence a b"
    using lcs_ref_upper subseq_rev lcs_eq_ref by (metis length_rev)
qed

lemma lcs_ref_commute: "lcs_ref xs ys = lcs_ref ys xs"
  by (induction xs ys rule: lcs_ref.induct) (simp_all add: max.commute)

lemma lcs_commute: "longest_common_subsequence a b = longest_common_subsequence b a"
  by (simp add: lcs_eq_ref lcs_ref_commute)

lemma lcs_length: "longest_common_subsequence a b \<le> length a" "longest_common_subsequence a b \<le> length b"
  using lcs_ref_reached [of "rev a" "rev b"] by (auto simp: lcs_eq_ref dest!: list_emb_length)

section \<open>Bounds and symmetry\<close>

lemma distinct_token_set [simp]: "distinct (token_set s)"
  by (simp add: token_set_def)

lemma common_card: "distinct a \<Longrightarrow> length (filter (\<lambda>k. k \<in> set b) a) = card (set a \<inter> set b)"
  by (metis Collect_mem_eq distinct_card distinct_filter inf_commute inter_set_filter)

lemma jaccard_card:
  assumes "distinct a" and "distinct b"
  shows "jaccard a b = (if a = [] \<and> b = [] then 1 else of_nat (card (set a \<inter> set b)) / of_nat (card (set a \<union> set b)))"
proof -
  have "card (set a \<union> set b) = length a + length b - card (set a \<inter> set b)"
    using card_Un_Int [of "set a" "set b"] assms by (simp add: distinct_card)
  then show ?thesis by (simp add: jaccard_def Let_def common_card assms)
qed

lemma jaccard_commute: "distinct a \<Longrightarrow> distinct b \<Longrightarrow> jaccard a b = jaccard b a"
  by (simp add: jaccard_card Int_commute Un_commute conj_commute)

lemma jaccard_bounds:
  assumes "distinct a" and "distinct b"
  shows "0 \<le> jaccard a b" "jaccard a b \<le> 1"
proof -
  have "card (set a \<inter> set b) \<le> card (set a \<union> set b)" by (rule card_mono) auto
  then show "0 \<le> jaccard a b" "jaccard a b \<le> 1" by (auto simp: jaccard_card assms divide_le_eq_1)
qed

lemma seq_similarity_bounds:
  "(of_nat (longest_common_subsequence a b * 2) :: rat) / of_nat (length a + length b) \<le> 1"
proof -
  have "longest_common_subsequence a b * 2 \<le> length a + length b" using lcs_length [of a b] by linarith
  then show ?thesis by (auto simp: divide_le_eq_1 simp del: of_nat_mult of_nat_add)
qed

lemma weighted: "0 \<le> j \<Longrightarrow> j \<le> 1 \<Longrightarrow> 0 \<le> q \<Longrightarrow> q \<le> 1 \<Longrightarrow> 0 \<le> j * (6 / 10) + q * (4 / 10) \<and> j * (6 / 10) + q * (4 / 10) \<le> (1 :: rat)"
  by simp

lemma similarity_bounds: "0 \<le> text_similarity a b \<and> text_similarity a b \<le> 1"
  unfolding text_similarity_def Let_def
  by (simp only: split: if_split)
    (intro conjI impI weighted jaccard_bounds distinct_token_set seq_similarity_bounds; simp)

lemma similarity_commute: "text_similarity a b = text_similarity b a"
  by (simp add: text_similarity_def Let_def jaccard_commute [of "token_set (normalize_content a)"]
      lcs_commute [of "fields (normalize_content a)"] max.commute add.commute eq_commute [of "normalize_content a"])

lemma shares_subject_commute: "shares_subject a b = shares_subject b a"
  by (auto simp: shares_subject_def Let_def jaccard_commute [of "token_set (normalize_content a)"])

lemma has_value_change_commute: "has_value_change a b = has_value_change b a"
  by (auto simp: has_value_change_def Let_def shares_subject_commute [of a])

lemma is_contradictory_commute: "is_contradictory a b = is_contradictory b a"
  by (auto simp: is_contradictory_def Let_def shares_subject_commute [of a])

text \<open>
  The relationship of two texts is the same in both directions: it says nothing about which of them is
  the newer.
\<close>

theorem classify_symmetric: "classify_relationship a b = classify_relationship b a"
  by (simp only: classify_relationship_def Let_def similarity_commute [of a] shares_subject_commute [of a]
      has_value_change_commute [of a] is_contradictory_commute [of a] eq_commute [of "normalize_content a"]
      jaccard_commute [OF distinct_token_set distinct_token_set, of "normalize_content a"])

text \<open>
  The confidence of a memory that is seen again grows, stays within 0.99, and keeps what is above the
  starting value; above 0.99 it falls.
\<close>

theorem reinforce_bounds:
  assumes "0 \<le> c" and "c \<le> 1"
  shows "0 < reinforce_confidence c n src \<and> reinforce_confidence c n src \<le> 99 / 100
    \<and> (if c \<le> 99 / 100 then c \<le> reinforce_confidence c n src else reinforce_confidence c n src < c)"
  using assms by (auto simp: reinforce_confidence_def Let_def min_def field_simps)

section \<open>A part of a text that is no secret is none\<close>

lemma contains_lower: "contains s t \<Longrightarrow> contains (to_lower s) (to_lower t)"
  unfolding contains_iff by (metis to_lower_append)

lemma starts_run_extend: "starts_run P n s \<Longrightarrow> starts_run P n (s @ t)"
proof -
  have "length (takeWhile P s) \<le> length (takeWhile P (s @ t))" by (induction s) auto
  then show "starts_run P n s \<Longrightarrow> starts_run P n (s @ t)" by (simp add: starts_run_def)
qed

lemma has_run_within: "contains s t \<Longrightarrow> has_run P n t \<Longrightarrow> has_run P n s"
proof -
  assume c: "contains s t" and r: "has_run P n t"
  from c obtain a b where s: "s = a @ t @ b" by (auto simp: contains_iff)
  from r obtain u where u: "suffix u t" "starts_run P n u" by (auto simp: has_run_def)
  then have "suffix (u @ b) s" by (auto simp: s suffix_def)
  with starts_run_extend [OF u(2), of b] show ?thesis unfolding has_run_def by (intro bexI [of _ "u @ b"]) simp_all
qed

lemma take_extend: "to_lower (take n s) = l \<Longrightarrow> length l = n \<Longrightarrow> take n (s @ t) = take n s \<and> drop n (s @ t) = drop n s @ t"
  by (auto simp: to_lower_def)

lemma api_key_extend: "api_key_at s = Some r \<Longrightarrow> api_key_at (s @ t) = Some (r @ t)"
proof -
  assume k: "api_key_at s = Some r"
  define r1 where "r1 = (case drop 3 s of c # cs \<Rightarrow> if c = CHR ''_'' \<or> c = CHR ''-'' then cs else drop 3 s | [] \<Rightarrow> drop 3 s)"
  from k have a: "to_lower (take 3 s) = ''api''" and b: "to_lower (take 3 r1) = ''key''" and r: "r = drop 3 r1"
    by (auto simp: api_key_at_def Let_def r1_def split: if_splits)
  from take_extend [OF a, of t] have s: "take 3 (s @ t) = take 3 s" "drop 3 (s @ t) = drop 3 s @ t" by simp_all
  from take_extend [OF b, of t] have e: "take 3 (r1 @ t) = take 3 r1" "drop 3 (r1 @ t) = drop 3 r1 @ t" by simp_all
  have "drop 3 s \<noteq> []" using b by (auto simp: r1_def to_lower_def)
  then have c: "(case drop 3 s @ t of c # cs \<Rightarrow> if c = CHR ''_'' \<or> c = CHR ''-'' then cs else drop 3 s @ t | [] \<Rightarrow> drop 3 s @ t) = r1 @ t"
    by (cases "drop 3 s") (auto simp: r1_def)
  show ?thesis unfolding api_key_at_def Let_def s c by (simp only: a e b r if_True simp_thms)
qed

lemma assigns_key_extend: "assigns_key s \<Longrightarrow> assigns_key (s @ t)"
proof -
  assume k: "assigns_key s"
  then obtain r c r1 where r: "api_key_at s = Some r" "dropWhile rx_space r = c # r1" "c = CHR ''='' \<or> c = CHR '':''"
    by (auto simp: assigns_key_def split: option.splits list.splits)
  let ?P = "\<lambda>c. is_alnum c \<or> c = CHR ''_'' \<or> c = CHR ''-''"
  define strip where "strip = (\<lambda>r. case r of q # r' \<Rightarrow> if code q = 39 \<or> code q = 34 then r' else r | [] \<Rightarrow> r)"
  have val: "assigns_key (s' :: string) = starts_run ?P 16 (strip (dropWhile rx_space r'))"
    if "api_key_at s' = Some q" "dropWhile rx_space q = c # r'" for s' q r'
    using that r(3) by (simp add: assigns_key_def strip_def Let_def)
  from val [OF r(1,2)] k have run: "starts_run ?P 16 (strip (dropWhile rx_space r1))" by simp
  then have ne: "dropWhile rx_space r1 \<noteq> []" by (intro notI) (simp add: starts_run_def strip_def)
  then have e: "dropWhile rx_space (r1 @ t) = dropWhile rx_space r1 @ t"
    by (metis dropWhile_append1 dropWhile_eq_Nil_conv)
  have f: "strip (dropWhile rx_space r1 @ t) = strip (dropWhile rx_space r1) @ t"
    using ne by (auto simp: strip_def split: list.splits)
  have q: "dropWhile rx_space (r @ t) = c # r1 @ t"
    using r(2) by (metis append_Cons dropWhile_append1 dropWhile_eq_Nil_conv list.distinct(1))
  show ?thesis
    using val [OF api_key_extend [OF r(1)] q] starts_run_extend [OF run, of t] e f by simp
qed

lemma suffix_within: "contains s t \<Longrightarrow> u \<in> set (suffixes t) \<Longrightarrow> \<exists>b. u @ b \<in> set (suffixes s)"
  by (auto simp: contains_iff suffix_def) (metis append.assoc)

lemma secret_pattern_within:
  assumes "contains s t" and "secret_pattern t"
  shows "secret_pattern s"
proof -
  from assms(2) consider (word) w where "w \<in> set secret_words" "contains (to_lower t) w"
    | (part) u where "u \<in> set (suffixes t)"
        "api_key_at u \<noteq> None \<or> to_lower (take 3 u) = ''sk-'' \<and> starts_run is_alnum 20 (drop 3 u)"
    unfolding secret_pattern_def by blast
  then show ?thesis
  proof cases
    case word
    then show ?thesis unfolding secret_pattern_def using contains_trans [OF contains_lower [OF assms(1)]] by blast
  next
    case u: part
    from suffix_within [OF assms(1) u(1)] obtain b where b: "u @ b \<in> set (suffixes s)" ..
    have "api_key_at (u @ b) \<noteq> None \<or> to_lower (take 3 (u @ b)) = ''sk-'' \<and> starts_run is_alnum 20 (drop 3 (u @ b))"
      using u(2) api_key_extend [of u _ b] take_extend [of 3 u "''sk-''" b] starts_run_extend [of is_alnum 20 "drop 3 u" b]
      by auto
    with b show ?thesis unfolding secret_pattern_def by blast
  qed
qed
text \<open>So what is cut out of a text that passed the check passes it too.\<close>

lemma secret_within:
  assumes "contains s t" and "is_secret_content t"
  shows "is_secret_content s"
proof -
  have low: "contains (to_lower t) w \<Longrightarrow> contains (to_lower s) w" for w
    using contains_trans [OF contains_lower [OF assms(1)]] .
  have "\<exists>u \<in> set (suffixes s). assigns_key u" if "\<exists>u \<in> set (suffixes t). assigns_key u"
    using that suffix_within [OF assms(1)] assigns_key_extend by blast
  then show ?thesis
    using assms(2) low secret_pattern_within [OF assms(1)] contains_trans [OF assms(1)] has_run_within [OF assms(1)]
    unfolding is_secret_content_def Let_def by blast
qed

lemma choose_part: "contains a (choose_stronger_content a b) \<or> contains b (choose_stronger_content a b)"
  by (simp add: choose_stronger_content_def Let_def contains_trim_space)

section \<open>Witnesses\<close>

lemma lcs_correct_witness: "3 \<le> longest_common_subsequence ''abcb'' ''bdcab''"
proof -
  have "subseq ''bcb'' ''abcb'' \<and> subseq ''bcb'' ''bdcab''" by code_simp
  with lcs_correct [of "''abcb''" "''bdcab''"] have "length ''bcb'' \<le> longest_common_subsequence ''abcb'' ''bdcab''" by blast
  then show ?thesis by simp
qed

lemma reinforce_bounds_witness: "reinforce_confidence 1 3 ''manual'' < 1"
  using reinforce_bounds [of 1 3 "''manual''"] by simp

end
