(* ===== verification/Memory.thy ===== *)
theory Memory
  imports MemoryText World Decision
begin

text \<open>
  \<^verbatim>\<open>backend/internal/memory/service.go\<close>: the service that stores what agents are to remember. A new
  memory is compared with the old ones of its scope and creates, reinforces, replaces or contradicts one
  of them; others archive, expire, list and retrieve. The service works on three tables and the audit log.

  The embedder, the optional language model, SHA-256, the rendering of floats and times, the cast to
  \<^verbatim>\<open>vector(1536)\<close> and the order \<^verbatim>\<open>embedding <=> v\<close> of the vector index are parameters. A \<^verbatim>\<open>jsonb\<close> that is not an
  object is read into a Go map as nil, so the column is a \<open>gomap option\<close>.
\<close>

section \<open>Data\<close>

record mem_env =
  me_go :: golib
  me_time :: "time \<Rightarrow> string"
  me_float :: "rat \<Rightarrow> string"
  me_hash :: "string \<Rightarrow> string"
  me_embed :: "(string \<Rightarrow> rat list list res) option"
  me_llm :: "(string \<Rightarrow> string res) option"
  me_vector_ok :: "string \<Rightarrow> bool"
  me_nearest :: "string \<Rightarrow> memory list \<Rightarrow> memory list"

datatype consolidation_result = CREATED | MERGED | UPDATED | CONFLICT | REJECTED | UNCHANGED

record consolidate_input =
  ci_organization_id :: uuid
  ci_agent_id :: "uuid option"
  ci_project_id :: "uuid option"
  ci_conversation_id :: "uuid option"
  ci_task_id :: "uuid option"
  ci_memory_type :: string
  ci_scope :: string
  ci_source :: string
  ci_source_event_id :: "uuid option"
  ci_content :: string
  ci_importance :: rat
  ci_confidence :: rat
  ci_metadata :: "gomap option"
  ci_expires_at :: "time option"
  ci_correlation_id :: "uuid option"

record consolidate_output =
  co_memory :: "memory option"
  co_result :: consolidation_result
  co_reason :: string
  co_related_id :: "uuid option"

definition max_candidates :: nat where "max_candidates = 10"
definition MinImportanceToStore :: rat where "MinImportanceToStore = 3 / 10"
definition WorkingTTL :: int where "WorkingTTL = 3600"
definition ConversationTTL :: int where "ConversationTTL = 7 * 24 * 3600"

section \<open>The tables\<close>

definition memory_type_check :: "string list" where
  "memory_type_check = [''working'', ''project'', ''agent'', ''conversation'', ''task'']"

definition memory_scope_check :: "string list" where
  "memory_scope_check = [''task'', ''session'', ''project'', ''agent'', ''conversation'', ''organization'']"

definition memory_status_check :: "string list" where
  "memory_status_check = [''candidate'', ''validating'', ''active'', ''merged'', ''superseded'', ''stale'', ''archived'', ''conflict'']"

definition memory_event_check :: "string list" where
  "memory_event_check = [''memory.created'', ''memory.merged'', ''memory.updated'', ''memory.conflict'', ''memory.archived'',
     ''memory.reconfirmed'', ''memory.stale'', ''memory.candidate'', ''memory.validating'', ''memory.rejected'']"

definition memory_checks :: "memory \<Rightarrow> bool" where
  "memory_checks m \<longleftrightarrow> mem_memory_type m \<in> set memory_type_check \<and> mem_scope m \<in> set memory_scope_check
     \<and> mem_status m \<in> set memory_status_check \<and> 0 \<le> mem_importance m \<and> mem_importance m \<le> 1
     \<and> 0 \<le> mem_confidence m \<and> mem_confidence m \<le> 1"

text \<open>The unique index \<^verbatim>\<open>idx_memories_idempotency\<close> over the rows that count; a missing hash is empty here.\<close>

definition or_nil :: "uuid option \<Rightarrow> uuid" where
  "or_nil u = (case u of None \<Rightarrow> nil_uuid | Some i \<Rightarrow> i)"

definition memory_key :: "memory \<Rightarrow> uuid \<times> string \<times> uuid \<times> uuid \<times> string" where
  "memory_key m = (mem_organization_id m, mem_scope m, or_nil (mem_agent_id m), or_nil (mem_project_id m), mem_content_hash m)"

definition indexed :: "memory \<Rightarrow> bool" where
  "indexed m \<longleftrightarrow> mem_content_hash m \<noteq> [] \<and> mem_status m \<in> {''active'', ''candidate'', ''validating''}"

definition unique_keys :: "memory list \<Rightarrow> bool" where
  "unique_keys ms \<longleftrightarrow> distinct (map memory_key (filter indexed ms))"

definition memory_refs :: "db \<Rightarrow> memory \<Rightarrow> bool" where
  "memory_refs d m \<longleftrightarrow> mem_organization_id m \<in> set (orgs d) \<and> opt_ref (mem_agent_id m) (map ag_id (agents d))
     \<and> opt_ref (mem_project_id m) (map pr_id (projects d)) \<and> opt_ref (mem_task_id m) (map t_id (tasks d))"

definition insert_memory_row :: "mem_env \<Rightarrow> string \<Rightarrow> memory \<Rightarrow> db \<Rightarrow> db \<times> memory res" where
  "insert_memory_row env vec m d =
     (let m = m\<lparr>mem_id := next_id d, mem_superseded_by := None, mem_version := 1, mem_created_at := now d, mem_updated_at := now d\<rparr>
      in if \<not> me_vector_ok env vec then (d, fail ''invalid input syntax for type vector'')
         else if \<not> memory_checks m then (d, fail (check_violation ''memories''))
         else if indexed m \<and> (\<exists>r \<in> set (memories d). indexed r \<and> memory_key r = memory_key m)
         then (d, fail (unique_violation ''idx_memories_idempotency''))
         else if \<not> memory_refs d m then (d, fail (fk_violation ''memories''))
         else (d\<lparr>memories := memories d @ [m], next_id := next_id d + 1\<rparr>, ok m))"

text \<open>\<^verbatim>\<open>UPDATE memories SET ... WHERE P\<close>, with the trigger on \<^verbatim>\<open>updated_at\<close>; the number of rows.\<close>

definition update_memories :: "(memory \<Rightarrow> bool) \<Rightarrow> (memory \<Rightarrow> memory) \<Rightarrow> db \<Rightarrow> db \<times> int res" where
  "update_memories P f d =
     (let g = (\<lambda>m. (f m)\<lparr>mem_updated_at := now d\<rparr>); rows = update_where P g (memories d)
      in if \<exists>m \<in> set (memories d). P m \<and> \<not> memory_checks (f m) then (d, fail (check_violation ''memories''))
         else if \<not> unique_keys rows then (d, fail (unique_violation ''idx_memories_idempotency''))
         else if \<exists>m \<in> set (memories d). P m \<and> \<not> opt_ref (mem_superseded_by (f m)) (map mem_id (memories d))
         then (d, fail (fk_violation ''memories_superseded_by_fkey''))
         else (d\<lparr>memories := rows\<rparr>, ok (count_where P (memories d))))"

definition by_id :: "uuid \<Rightarrow> memory \<Rightarrow> bool" where "by_id i m \<longleftrightarrow> mem_id m = i"

text \<open>\<^verbatim>\<open>a || b\<close> of two objects; anything else is no object afterwards.\<close>

definition json_concat :: "gomap option \<Rightarrow> gomap \<Rightarrow> gomap option" where
  "json_concat a b = map_option (\<lambda>m. fold (\<lambda>(k, v). AList.update k v) b m) a"

definition get_memory_by_id :: "uuid \<Rightarrow> db \<Rightarrow> memory res" where
  "get_memory_by_id i d = query_row (by_id i) (memories d)"

definition create_version :: "memory \<Rightarrow> string \<Rightarrow> db \<Rightarrow> db" where
  "create_version m reason d =
     (if (\<exists>v \<in> set (memory_versions d). mver_memory_id v = mem_id m \<and> mver_version v = mem_version m)
         \<or> mem_id m \<notin> mem_id ` set (memories d) then d
      else d\<lparr>memory_versions := memory_versions d @ [\<lparr>mver_memory_id = mem_id m, mver_version = mem_version m,
              mver_content = mem_content m, mver_importance = mem_importance m, mver_confidence = mem_confidence m,
              mver_status = mem_status m, mver_metadata = mem_metadata m, mver_source = mem_source m, mver_reason = reason,
              mver_created_at = now d\<rparr>]\<rparr>)"

definition emit_event :: "uuid \<Rightarrow> uuid option \<Rightarrow> string \<Rightarrow> string \<Rightarrow> uuid option \<Rightarrow> gomap \<Rightarrow> db \<Rightarrow> db" where
  "emit_event org_id i scope ty corr payload d =
     (if org_id \<in> set (orgs d) \<and> opt_ref i (map mem_id (memories d)) \<and> ty \<in> set memory_event_check
      then d\<lparr>memory_events := memory_events d @ [\<lparr>mev_organization_id = org_id, mev_memory_id = i, mev_scope = scope,
              mev_event_type = ty, mev_correlation_id = corr, mev_payload = Some payload, mev_created_at = now d\<rparr>]\<rparr>
      else d)"

definition insert_audit :: "uuid \<Rightarrow> string \<Rightarrow> uuid \<Rightarrow> world \<Rightarrow> world" where
  "insert_audit org_id action entity w =
     (if org_id \<in> set (orgs (w_db w))
      then w\<lparr>w_audit := w_audit w @ [\<lparr>al_organization_id = org_id, al_actor_type = ''system'', al_actor_agent_id = None,
               al_action = action, al_entity_type = ''memory'', al_entity_id = entity\<rparr>]\<rparr> else w)"

text \<open>A statement whose result is not looked at.\<close>

definition touch :: "(db \<Rightarrow> db) \<Rightarrow> world \<Rightarrow> world" where
  "touch f w = w\<lparr>w_db := f (w_db w)\<rparr>"

section \<open>Keys\<close>

definition vector_to_string :: "mem_env \<Rightarrow> rat list \<Rightarrow> string" where
  "vector_to_string env v = (if v = [] then [] else ''['' @ join '','' (map (me_float env) v) @ '']'')"

definition content_hash :: "mem_env \<Rightarrow> string \<Rightarrow> string" where
  "content_hash env normalized = me_hash env normalized"

definition idempotency_key_of :: "mem_env \<Rightarrow> consolidate_input \<Rightarrow> string \<Rightarrow> string" where
  "idempotency_key_of env i hash =
     (let part = (\<lambda>u. case u of None \<Rightarrow> [] | Some x \<Rightarrow> [uuid_string (me_go env) x])
      in join '':'' ([uuid_string (me_go env) (ci_organization_id i), ci_scope i] @ part (ci_agent_id i) @ part (ci_project_id i)
           @ part (ci_conversation_id i) @ part (ci_task_id i) @ [take 16 hash]))"

definition embedding_of :: "mem_env \<Rightarrow> string \<Rightarrow> string" where
  "embedding_of env s =
     (case me_embed env of None \<Rightarrow> []
      | Some e \<Rightarrow> (case e s of Inr (v # _) \<Rightarrow> vector_to_string env v | _ \<Rightarrow> []))"

section \<open>Candidates\<close>

text \<open>The insertion sort \<^verbatim>\<open>sort.Slice\<close> is on at most twelve elements; also the order of a query, ties in table order.\<close>

fun insert_back :: "('a \<Rightarrow> 'a \<Rightarrow> bool) \<Rightarrow> 'a \<Rightarrow> 'a list \<Rightarrow> 'a list" where
  "insert_back lt x [] = [x]"
| "insert_back lt x (p # ps) = (if lt x p then p # insert_back lt x ps else x # p # ps)"

definition sort_slice :: "('a \<Rightarrow> 'a \<Rightarrow> bool) \<Rightarrow> 'a list \<Rightarrow> 'a list" where
  "sort_slice lt xs = rev (fold (insert_back lt) xs [])"

text \<open>\<^verbatim>\<open>ORDER BY x DESC\<close> puts NULL first.\<close>

definition later :: "time option \<Rightarrow> time option \<Rightarrow> bool" where
  "later a b \<longleftrightarrow> (case (a, b) of (None, Some _) \<Rightarrow> True | (Some s, Some t) \<Rightarrow> t < s | _ \<Rightarrow> False)"

definition same_scope :: "consolidate_input \<Rightarrow> memory \<Rightarrow> bool" where
  "same_scope i m \<longleftrightarrow> mem_organization_id m = ci_organization_id i \<and> mem_scope m = ci_scope i
     \<and> mem_agent_id m = ci_agent_id i \<and> mem_project_id m = ci_project_id i
     \<and> mem_conversation_id m = ci_conversation_id i \<and> mem_task_id m = ci_task_id i
     \<and> mem_status m \<in> {''active'', ''candidate'', ''validating'', ''conflict''}"

definition unexpired :: "db \<Rightarrow> memory \<Rightarrow> bool" where
  "unexpired d m \<longleftrightarrow> (case mem_expires_at m of None \<Rightarrow> True | Some t \<Rightarrow> now d < t)"

fun count_sub :: "nat \<Rightarrow> string \<Rightarrow> string \<Rightarrow> nat" where
  "count_sub 0 sub s = 0"
| "count_sub (Suc n) sub s =
     (case s of [] \<Rightarrow> 0
      | c # cs \<Rightarrow> if has_prefix s sub then 1 + count_sub n sub (drop (length sub) s) else count_sub n sub cs)"

definition is_stub_embedding :: "string \<Rightarrow> bool" where
  "is_stub_embedding s \<longleftrightarrow> 5 < count_sub (length s) ''0.010000'' s"

definition better_candidate :: "string \<Rightarrow> memory \<Rightarrow> memory \<Rightarrow> bool" where
  "better_candidate content a b \<longleftrightarrow>
     (let sa = text_similarity (mem_content a) content; sb = text_similarity (mem_content b) content
      in if sa = sb then if mem_confidence a = mem_confidence b then mem_importance b < mem_importance a
                         else mem_confidence b < mem_confidence a
         else sb < sa)"

definition find_candidates :: "mem_env \<Rightarrow> consolidate_input \<Rightarrow> string \<Rightarrow> db \<Rightarrow> memory list res" where
  "find_candidates env i emb d =
     (let rows = filter (\<lambda>m. same_scope i m \<and> unexpired d m) (memories d);
          by_rank = (\<lambda>a b. mem_importance b < mem_importance a \<or> mem_importance a = mem_importance b \<and>
                (mem_confidence b < mem_confidence a \<or> mem_confidence a = mem_confidence b \<and>
                 later (mem_last_confirmed_at a) (mem_last_confirmed_at b)))
      in if emb \<noteq> [] \<and> \<not> me_vector_ok env emb then fail ''invalid input syntax for type vector''
         else let out = take max_candidates (if emb \<noteq> [] then me_nearest env emb rows else sort_slice by_rank rows);
                  kept = filter (\<lambda>c. \<not> (text_similarity (mem_content c) (ci_content i) < 25 / 100 \<and> emb \<noteq> []
                           \<and> \<not> shares_subject (mem_content c) (ci_content i))) out;
                  kept = (if emb = [] \<or> is_stub_embedding emb then sort_slice (better_candidate (ci_content i)) kept else kept)
              in ok (take max_candidates kept))"

section \<open>What becomes of a candidate\<close>

definition insert_memory :: "mem_env \<Rightarrow> consolidate_input \<Rightarrow> string \<Rightarrow> string \<Rightarrow> string \<Rightarrow> string \<Rightarrow> string \<Rightarrow> db \<Rightarrow> db \<times> memory res" where
  "insert_memory env i hash idem emb status content d =
     insert_memory_row env emb \<lparr>mem_id = nil_uuid, mem_organization_id = ci_organization_id i, mem_agent_id = ci_agent_id i,
       mem_project_id = ci_project_id i, mem_conversation_id = ci_conversation_id i, mem_task_id = ci_task_id i,
       mem_memory_type = ci_memory_type i, mem_scope = ci_scope i, mem_source = ci_source i,
       mem_source_event_id = ci_source_event_id i, mem_content = content,
       mem_importance = (if ci_importance i = 0 then 5 / 10 else ci_importance i),
       mem_confidence = (if ci_confidence i = 0 then 5 / 10 else ci_confidence i), mem_status = status,
       mem_metadata = ci_metadata i, mem_expires_at = ci_expires_at i, mem_last_accessed_at = Some (now d),
       mem_last_confirmed_at = Some (now d), mem_content_hash = hash, mem_idempotency_key = idem,
       mem_superseded_by = None, mem_version = 1, mem_created_at = now d, mem_updated_at = now d\<rparr> d"

definition default_confidence :: "consolidate_input \<Rightarrow> rat" where
  "default_confidence i =
     (if ci_confidence i \<noteq> 0 then ci_confidence i
      else if ci_source i = ''EXPLICIT_USER_PREFERENCE'' then 95 / 100
      else if ci_source i = ''USER_MESSAGE'' then 8 / 10 else 5 / 10)"

definition default_importance :: "consolidate_input \<Rightarrow> rat" where
  "default_importance i =
     (if ci_importance i \<noteq> 0 then ci_importance i
      else if ci_source i = ''EXPLICIT_USER_PREFERENCE'' then 85 / 100 else 5 / 10)"

definition create_new_memory :: "mem_env \<Rightarrow> consolidate_input \<Rightarrow> string \<Rightarrow> string \<Rightarrow> string \<Rightarrow> world \<Rightarrow> world \<times> consolidate_output res" where
  "create_new_memory env i hash idem emb w =
     (let conf = default_confidence i; imp = default_importance i;
          content = take 5000 (trim_space (ci_content i)); org_id = ci_organization_id i
      in case on_db (insert_memory env i hash idem emb ''active'' content) w of
           (w, Inl e) \<Rightarrow>
             if contains e ''duplicate'' \<or> contains e ''unique'' \<or> contains e ''idx_memories_idempotency''
             then (case query_row (\<lambda>m. mem_organization_id m = org_id \<and> mem_scope m = ci_scope i \<and> mem_content_hash m = hash)
                          (memories (w_db w)) of
                     Inl _ \<Rightarrow> (w, fail e)
                   | Inr m \<Rightarrow> (w, ok \<lparr>co_memory = Some m, co_result = MERGED, co_reason = ''idempotent duplicate'',
                                       co_related_id = Some (mem_id m)\<rparr>))
             else (w, fail e)
         | (w, Inr m) \<Rightarrow>
             (let differs = conf \<noteq> mem_confidence m \<or> imp \<noteq> mem_importance m;
                  w = (if differs then run_db (update_memories (by_id (mem_id m)) (\<lambda>x. x\<lparr>mem_confidence := conf, mem_importance := imp\<rparr>)) w
                       else w);
                  m = (if differs then m\<lparr>mem_confidence := conf, mem_importance := imp\<rparr> else m);
                  w = touch (emit_event org_id (Some (mem_id m)) (ci_scope i) ''memory.created'' (ci_correlation_id i)
                        [(''confidence'', JNum conf), (''importance'', JNum imp)]) w
              in (insert_audit org_id ''memory.created'' (mem_id m) w,
                  ok \<lparr>co_memory = Some m, co_result = CREATED, co_reason = ''new memory created'', co_related_id = None\<rparr>)))"

text \<open>
  The statement that both kinds of merge execute: the stronger text, the higher importance, the given
  confidence, the next version. The row is read again for the answer.
\<close>

definition merge_into :: "mem_env \<Rightarrow> consolidate_input \<Rightarrow> memory \<Rightarrow> rat \<Rightarrow> string \<Rightarrow> string \<Rightarrow> gomap \<Rightarrow> string \<Rightarrow> world
    \<Rightarrow> world \<times> consolidate_output res" where
  "merge_into env i m conf version_reason event_reason meta reason w =
     (let imp = max (mem_importance m) (ci_importance i); content = choose_stronger_content (mem_content m) (ci_content i);
          hash = content_hash env (normalize_content content); t = now (w_db w); org_id = ci_organization_id i;
          w = touch (create_version m version_reason) w
      in case on_db (update_memories (by_id (mem_id m)) (\<lambda>x. x\<lparr>mem_content := content, mem_content_hash := hash,
                mem_importance := imp, mem_confidence := conf, mem_last_confirmed_at := Some t, mem_last_accessed_at := Some t,
                mem_version := mem_version x + 1, mem_metadata := json_concat (mem_metadata x) meta\<rparr>)) w of
           (w, Inl e) \<Rightarrow> (w, fail e)
         | (w, Inr _) \<Rightarrow>
             (let updated = (case get_memory_by_id (mem_id m) (w_db w) of
                    Inr u \<Rightarrow> u | Inl _ \<Rightarrow> m\<lparr>mem_content := content, mem_confidence := conf, mem_importance := imp\<rparr>);
                  w = touch (emit_event org_id (Some (mem_id m)) (ci_scope i) ''memory.merged'' (ci_correlation_id i)
                        [(''reason'', JStr event_reason), (''confidence'', JNum conf)]) w
              in (insert_audit org_id ''memory.merged'' (mem_id m) w,
                  ok \<lparr>co_memory = Some updated, co_result = MERGED, co_reason = reason, co_related_id = Some (mem_id m)\<rparr>)))"

definition handle_exact_duplicate :: "mem_env \<Rightarrow> consolidate_input \<Rightarrow> uuid \<Rightarrow> string \<Rightarrow> string \<Rightarrow> world \<Rightarrow> world \<times> consolidate_output res" where
  "handle_exact_duplicate env i existing_id hash idem w =
     (case get_memory_by_id existing_id (w_db w) of
        Inl _ \<Rightarrow> create_new_memory env i hash idem [] w
      | Inr m \<Rightarrow>
          merge_into env i m (reinforce_confidence (mem_confidence m) (ci_confidence i) (ci_source i)) ''reinforce duplicate''
            ''exact_duplicate'' [(''consolidated'', JBool True), (''last_seen'', JStr (me_time env (now (w_db w)))),
              (''merge_reason'', JStr ''exact_duplicate'')] ''exact duplicate reinforced'' w)"

definition handle_merge :: "mem_env \<Rightarrow> consolidate_input \<Rightarrow> memory \<Rightarrow> rat \<Rightarrow> world \<Rightarrow> world \<times> consolidate_output res" where
  "handle_merge env i cand classification_conf w =
     (let conf = reinforce_confidence (mem_confidence cand) (ci_confidence i) (ci_source i);
          conf = (if 0 < classification_conf \<and> conf < classification_conf then classification_conf else conf)
      in merge_into env i cand conf ''semantic merge'' ''semantic_duplicate''
           [(''consolidated'', JBool True), (''merge_reason'', JStr ''semantic_duplicate''),
            (''last_seen'', JStr (me_time env (now (w_db w))))] ''semantic duplicate merged'' w)"

text \<open>
  \<^verbatim>\<open>handleUpdate\<close>: the old row is to become superseded by a UUID that is drawn for it; whether that
  statement succeeds is not looked at.
\<close>

definition supersede :: "mem_env \<Rightarrow> memory \<Rightarrow> world \<Rightarrow> world" where
  "supersede env cand w =
     (let t = now (w_db w); (w, fresh) = new_uuid w
      in run_db (update_memories (by_id (mem_id cand)) (\<lambda>x. x\<lparr>mem_status := ''superseded'', mem_superseded_by := Some fresh,
           mem_metadata := json_concat (mem_metadata x) [(''superseded_reason'', JStr ''update''),
             (''superseded_at'', JStr (me_time env t))]\<rparr>)) w)"

definition handle_update :: "mem_env \<Rightarrow> consolidate_input \<Rightarrow> memory \<Rightarrow> string \<Rightarrow> string \<Rightarrow> string \<Rightarrow> world
    \<Rightarrow> world \<times> consolidate_output res" where
  "handle_update env i cand hash idem emb w =
     (let org_id = ci_organization_id i; g = me_go env;
          w = touch (create_version cand ''superseded by update'') w;
          w = supersede env cand w;
          w = touch (emit_event org_id (Some (mem_id cand)) (mem_scope cand) ''memory.updated'' (ci_correlation_id i)
                [(''superseded_by'', JStr ''new''), (''reason'', JStr ''update'')]) w
      in case on_db (insert_memory env i hash idem emb ''active'' (choose_stronger_content (mem_content cand) (ci_content i))) w of
           (w, Inl _) \<Rightarrow> handle_merge env i cand 0 w
         | (w, Inr m) \<Rightarrow>
             (let w = run_db (update_memories (by_id (mem_id cand)) (\<lambda>x. x\<lparr>mem_superseded_by := Some (mem_id m)\<rparr>)) w;
                  w = touch (emit_event org_id (Some (mem_id m)) (ci_scope i) ''memory.created'' (ci_correlation_id i)
                        [(''reason'', JStr ''update_supersede''), (''supersedes'', uuid_json g (mem_id cand))]) w
              in (insert_audit org_id ''memory.updated'' (mem_id m) w,
                  ok \<lparr>co_memory = Some m, co_result = UPDATED, co_reason = ''update superseded previous'',
                      co_related_id = Some (mem_id cand)\<rparr>)))"

definition handle_contradiction :: "mem_env \<Rightarrow> consolidate_input \<Rightarrow> memory \<Rightarrow> string \<Rightarrow> string \<Rightarrow> string \<Rightarrow> world
    \<Rightarrow> world \<times> consolidate_output res" where
  "handle_contradiction env i cand hash idem emb w =
     (let explicit = ci_source i \<in> {''EXPLICIT_USER_PREFERENCE'', ''USER_MESSAGE'', ''user_preference''};
          conf = (if ci_confidence i = 0 then 5 / 10 else ci_confidence i)
      in if explicit \<and> 9 / 10 \<le> conf \<and> mem_confidence cand < 8 / 10 then handle_update env i cand hash idem emb w
         else
           (let org_id = ci_organization_id i; g = me_go env; t = now (w_db w);
                w = run_db (update_memories (by_id (mem_id cand)) (\<lambda>x. x\<lparr>mem_status := ''conflict'', mem_last_confirmed_at := Some t,
                      mem_metadata := json_concat (mem_metadata x) [(''conflict_with'', JStr (take 8 hash)),
                        (''conflict_reason'', JStr ''contradictory value''), (''conflict_at'', JStr (me_time env t))]\<rparr>)) w;
                w = touch (create_version cand ''conflict detected'') w
            in case on_db (insert_memory env i hash idem emb ''conflict'' (ci_content i)) w of
                 (w, Inl e) \<Rightarrow> (w, fail e)
               | (w, Inr m) \<Rightarrow>
                   (let w = run_db (update_memories (by_id (mem_id m)) (\<lambda>x. x\<lparr>mem_metadata := json_concat (mem_metadata x)
                              [(''conflict_with'', uuid_json g (mem_id cand)), (''conflict_reason'', JStr ''contradictory value'')]\<rparr>)) w;
                        w = touch (emit_event org_id (Some (mem_id m)) (ci_scope i) ''memory.conflict'' (ci_correlation_id i)
                              [(''existing'', uuid_json g (mem_id cand)), (''reason'', JStr ''contradictory values''),
                               (''csv_vs_pdf'', JBool True)]) w;
                        w = touch (emit_event org_id (Some (mem_id cand)) (mem_scope cand) ''memory.conflict'' (ci_correlation_id i)
                              [(''conflict_with'', uuid_json g (mem_id m))]) w
                    in (insert_audit org_id ''memory.conflict'' (mem_id m) w,
                        ok \<lparr>co_memory = Some m, co_result = CONFLICT, co_reason = ''contradictory facts preserved'',
                            co_related_id = Some (mem_id cand)\<rparr>))))"

section \<open>Consolidation\<close>

definition classify_prompt :: "string \<Rightarrow> string \<Rightarrow> string" where
  "classify_prompt existing candidate =
     ''You are a memory consolidation classifier. Determine relationship between existing memory and candidate.'' @ [CHR 0x0A, CHR 0x0A]
     @ ''Existing: \"'' @ existing @ ''\"'' @ [CHR 0x0A] @ ''Candidate: \"'' @ candidate @ ''\"'' @ [CHR 0x0A, CHR 0x0A]
     @ ''Classify as one of: duplicate, reinforce, update, contradiction, unrelated.'' @ [CHR 0x0A]
     @ ''Return ONLY JSON: {\"relationship\":\"duplicate|reinforce|update|contradiction|unrelated\",\"confidence\":0.0-1.0,''
     @ ''\"consolidated_memory\":\"strongest formulation\",\"reason\":\"short reason\"}''"

definition relation_names :: "(string \<times> relation) list" where
  "relation_names = [(''duplicate'', Duplicate), (''reinforce'', Reinforce), (''update'', Update), (''contradiction'', Contradiction),
     (''unrelated'', Unrelated)]"

definition llm_classify :: "mem_env \<Rightarrow> (string \<Rightarrow> string res) \<Rightarrow> string \<Rightarrow> string \<Rightarrow> (relation \<times> rat \<times> string) res" where
  "llm_classify env ask existing candidate =
     and_then (ask (classify_prompt existing candidate)) (\<lambda>content.
       let start = index_char (CHR ''{'') content; stop = last_index_char (CHR ''}'') content; g = me_go env
       in if start < 0 \<or> stop \<le> start then fail ''no json''
          else and_then (json_parse g (drop (nat start) (take (nat (stop + 1)) content))) (\<lambda>v.
            case (case v of JObj m \<Rightarrow> ok m | JNull \<Rightarrow> ok [] | _ \<Rightarrow> fail (json_type_err g [] v)) of
              Inl e \<Rightarrow> fail e
            | Inr m \<Rightarrow>
                and_then (field_string g ''relationship'' m []) (\<lambda>r.
                and_then (field_num g ''confidence'' m 0) (\<lambda>conf.
                and_then (field_string g ''consolidated_memory'' m []) (\<lambda>text.
                and_then (field_string g ''reason'' m []) (\<lambda>_.
                case map_of relation_names r of None \<Rightarrow> fail ''invalid relationship'' | Some x \<Rightarrow> ok (x, conf, text)))))))"

fun consolidate_with :: "mem_env \<Rightarrow> consolidate_input \<Rightarrow> string \<Rightarrow> string \<Rightarrow> string \<Rightarrow> memory list \<Rightarrow> world
    \<Rightarrow> world \<times> consolidate_output res" where
  "consolidate_with env i hash idem emb [] w = create_new_memory env i hash idem emb w"
| "consolidate_with env i hash idem emb (cand # cands) w =
     (let (rel, conf) = classify_relationship (mem_content cand) (ci_content i)
      in if rel = Duplicate \<or> rel = Reinforce then handle_merge env i cand conf w
         else if rel = Contradiction then handle_contradiction env i cand hash idem emb w
         else if rel = Update then handle_update env i cand hash idem emb w
         else if rel = Unrelated then consolidate_with env i hash idem emb cands w
         else case me_llm env of
                None \<Rightarrow> consolidate_with env i hash idem emb cands w
              | Some ask \<Rightarrow>
                  (case llm_classify env ask (mem_content cand) (ci_content i) of
                     Inl _ \<Rightarrow> consolidate_with env i hash idem emb cands w
                   | Inr (rel, conf, text) \<Rightarrow>
                       if rel = Duplicate \<or> rel = Reinforce
                       then handle_merge env (if text \<noteq> [] then i\<lparr>ci_content := text\<rparr> else i) cand conf w
                       else if rel = Contradiction then handle_contradiction env i cand hash idem emb w
                       else if rel = Update then handle_update env i cand hash idem emb w
                       else consolidate_with env i hash idem emb cands w))"

definition rejected :: "string \<Rightarrow> consolidate_output" where
  "rejected reason = \<lparr>co_memory = None, co_result = REJECTED, co_reason = reason, co_related_id = None\<rparr>"

definition consolidate :: "mem_env \<Rightarrow> consolidate_input \<Rightarrow> world \<Rightarrow> world \<times> consolidate_output res" where
  "consolidate env i w =
     (let normalized = normalize_content (ci_content i);
          told = (\<lambda>reason content. touch (emit_event (ci_organization_id i) None (ci_scope i) ''memory.rejected'' (ci_correlation_id i)
                    [(''reason'', JStr reason), (''content'', JStr content)]))
      in if trim_space (ci_content i) = [] then (w, ok (rejected ''empty content''))
         else if normalized = [] then (w, ok (rejected ''empty after normalization''))
         else if is_low_value (ci_content i) (ci_importance i)
         then (told ''low_value'' (take 100 (ci_content i)) w, ok (rejected ''low-value memory''))
         else if is_secret_content (ci_content i)
         then (told ''potential_secret'' ''redacted'' w, ok (rejected ''potential secret detected''))
         else
           (let hash = content_hash env normalized; idem = idempotency_key_of env i hash
            in case query_row (\<lambda>m. same_scope i m \<and> mem_content_hash m = hash) (memories (w_db w)) of
                 Inr m \<Rightarrow> handle_exact_duplicate env i (mem_id m) hash idem w
               | Inl _ \<Rightarrow>
                   (let emb = embedding_of env (ci_content i);
                        cands = (case find_candidates env i emb (w_db w) of Inl _ \<Rightarrow> [] | Inr cs \<Rightarrow> cs)
                    in consolidate_with env i hash idem emb cands w)))"

text \<open>What \<^verbatim>\<open>Create\<close> makes of its arguments: the defaults, and the life time by type.\<close>

definition source_confidence :: "string \<Rightarrow> rat" where
  "source_confidence source =
     (if source \<in> {''EXPLICIT_USER_PREFERENCE'', ''explicit_user_preference'', ''user_preference''} then 95 / 100
      else if source = ''USER_MESSAGE'' then 8 / 10 else 5 / 10)"

definition create_input :: "uuid \<Rightarrow> uuid option \<Rightarrow> uuid option \<Rightarrow> string \<Rightarrow> string \<Rightarrow> string \<Rightarrow> string \<Rightarrow> rat
    \<Rightarrow> gomap option \<Rightarrow> time option \<Rightarrow> time \<Rightarrow> consolidate_input" where
  "create_input org_id agent project ty scope source content importance meta expires t =
     (let source = (if source = [] then ''manual'' else source);
          expires = (if ty = ''working'' \<and> expires = None then Some (t + WorkingTTL) else expires);
          expires = (if ty = ''conversation'' \<and> expires = None then Some (t + ConversationTTL) else expires)
      in \<lparr>ci_organization_id = org_id, ci_agent_id = agent, ci_project_id = project, ci_conversation_id = None,
          ci_task_id = None, ci_memory_type = ty, ci_scope = scope, ci_source = source, ci_source_event_id = None,
          ci_content = content, ci_importance = (if importance = 0 then 5 / 10 else importance),
          ci_confidence = source_confidence source, ci_metadata = meta, ci_expires_at = expires, ci_correlation_id = None\<rparr>)"

definition create :: "mem_env \<Rightarrow> uuid \<Rightarrow> uuid option \<Rightarrow> uuid option \<Rightarrow> string \<Rightarrow> string \<Rightarrow> string \<Rightarrow> string \<Rightarrow> rat
    \<Rightarrow> gomap option \<Rightarrow> time option \<Rightarrow> world \<Rightarrow> world \<times> memory option res" where
  "create env org_id agent project ty scope source content importance meta expires w =
     (if ty \<notin> set memory_type_check then (w, fail ''invalid memory_type'')
      else if scope \<notin> set memory_scope_check then (w, fail ''invalid scope'')
      else if trim_space content = [] then (w, fail ''content required'')
      else if scope = ''project'' \<and> project = None then (w, fail ''project_id required for project scope'')
      else if scope = ''agent'' \<and> agent = None then (w, fail ''agent_id required for agent scope'')
      else
        (let i = create_input org_id agent project ty scope source content importance meta expires (now (w_db w))
         in if ty = ''conversation'' \<and> ci_importance i < MinImportanceToStore
            then (w, fail (''conversation memory importance too low ('' @ num_fixed2 (me_go env) (ci_importance i) @ '' < ''
                    @ num_fixed2 (me_go env) MinImportanceToStore @ '')''))
            else case consolidate env i w of
                   (w, Inl e) \<Rightarrow> (w, fail e)
                 | (w, Inr out) \<Rightarrow>
                     if co_result out = REJECTED then (w, fail (''memory rejected: '' @ co_reason out))
                     else (w, ok (co_memory out))))"

section \<open>Reading\<close>

text \<open>
  The scopes a reader sees. Of a project alone the clause for conversations compares the project with
  the parameter of the importance, which PostgreSQL refuses for its type.
\<close>

definition in_reach :: "uuid option \<Rightarrow> uuid option \<Rightarrow> memory \<Rightarrow> bool" where
  "in_reach agent project m \<longleftrightarrow>
     (let s = mem_scope m; of_agent = agent \<noteq> None \<and> mem_agent_id m = agent; of_project = project \<noteq> None \<and> mem_project_id m = project
      in s = ''organization''
         \<or> s \<in> {''project'', ''task''} \<and> of_project
         \<or> s \<in> {''agent'', ''session''} \<and> of_agent
         \<or> s \<in> {''working'', ''conversation''} \<and> (if agent = None \<and> project = None then True else of_agent \<or> of_project))"

definition scope_filter :: "uuid option \<Rightarrow> uuid option \<Rightarrow> (memory \<Rightarrow> bool) res" where
  "scope_filter agent project =
     (if agent = None \<and> project \<noteq> None then fail ''operator does not exist: uuid = real'' else ok (in_reach agent project))"

fun deduplicate_for_context :: "string set \<Rightarrow> memory list \<Rightarrow> memory list" where
  "deduplicate_for_context seen [] = []"
| "deduplicate_for_context seen (m # ms) =
     (let norm = normalize_content (mem_content m)
      in if norm \<in> seen then deduplicate_for_context seen ms
         else if mem_status m \<in> {''superseded'', ''archived'', ''stale'', ''merged''} then deduplicate_for_context seen ms
         else m # deduplicate_for_context (insert norm seen) ms)"

definition scan_memories_extended :: "memory list \<Rightarrow> memory list" where
  "scan_memories_extended rows = deduplicate_for_context {} rows"

definition readable :: "uuid \<Rightarrow> rat \<Rightarrow> db \<Rightarrow> memory \<Rightarrow> bool" where
  "readable org_id min_importance d m \<longleftrightarrow> mem_organization_id m = org_id \<and> min_importance \<le> mem_importance m
     \<and> mem_status m \<in> {''active'', ''conflict''} \<and> unexpired d m"

definition by_confidence :: "memory \<Rightarrow> memory \<Rightarrow> bool" where
  "by_confidence a b \<longleftrightarrow> mem_confidence b < mem_confidence a \<or> mem_confidence a = mem_confidence b \<and>
     (mem_importance b < mem_importance a \<or> mem_importance a = mem_importance b \<and>
      (later (mem_last_confirmed_at a) (mem_last_confirmed_at b)
       \<or> mem_last_confirmed_at a = mem_last_confirmed_at b \<and> mem_created_at b < mem_created_at a))"

definition query_embedding :: "mem_env \<Rightarrow> string \<Rightarrow> string option" where
  "query_embedding env q =
     (if q = [] then None
      else case me_embed env of None \<Rightarrow> None
           | Some e \<Rightarrow> (case e q of Inr (v # _) \<Rightarrow> Some (vector_to_string env v) | _ \<Rightarrow> None))"

definition retrieve :: "mem_env \<Rightarrow> uuid \<Rightarrow> uuid option \<Rightarrow> uuid option \<Rightarrow> string \<Rightarrow> int \<Rightarrow> rat \<Rightarrow> db \<Rightarrow> memory list res" where
  "retrieve env org_id agent project q limit min_importance d =
     (let limit = (if limit \<le> 0 \<or> 20 < limit then 5 else limit)
      in and_then (scope_filter agent project) (\<lambda>seen.
           let rows = filter (\<lambda>m. readable org_id min_importance d m \<and> seen m) (memories d)
           in case query_embedding env q of
                Some v \<Rightarrow> if me_vector_ok env v then ok (scan_memories_extended (take (nat limit) (me_nearest env v rows)))
                          else fail ''invalid input syntax for type vector''
              | None \<Rightarrow> ok (scan_memories_extended (take (nat limit) (sort_slice by_confidence rows)))))"

definition get_memory :: "uuid \<Rightarrow> uuid \<Rightarrow> db \<Rightarrow> db \<times> memory res" where
  "get_memory org_id i d =
     (case get_memory_by_id i d of
        Inl e \<Rightarrow> (d, fail e)
      | Inr m \<Rightarrow>
          if mem_organization_id m \<noteq> org_id then (d, fail ''not found'')
          else (fst (update_memories (by_id i) (\<lambda>x. x\<lparr>mem_last_accessed_at := Some (now d)\<rparr>) d), ok m))"

definition list_memories :: "uuid \<Rightarrow> uuid option \<Rightarrow> uuid option \<Rightarrow> string \<Rightarrow> string \<Rightarrow> string \<Rightarrow> int \<Rightarrow> db \<Rightarrow> memory list" where
  "list_memories org_id agent project status scope ty limit d =
     (let limit = (if limit \<le> 0 \<or> 100 < limit then 20 else limit);
          rows = filter (\<lambda>m. mem_organization_id m = org_id
             \<and> (if status \<noteq> [] then mem_status m = status else mem_status m \<in> {''active'', ''conflict''})
             \<and> (scope \<noteq> [] \<longrightarrow> mem_scope m = scope) \<and> (ty \<noteq> [] \<longrightarrow> mem_memory_type m = ty)
             \<and> (agent \<noteq> None \<longrightarrow> mem_agent_id m = agent) \<and> (project \<noteq> None \<longrightarrow> mem_project_id m = project)) (memories d);
          by_rank = (\<lambda>a b. mem_confidence b < mem_confidence a \<or> mem_confidence a = mem_confidence b \<and>
             (mem_importance b < mem_importance a \<or> mem_importance a = mem_importance b \<and> mem_created_at b < mem_created_at a))
      in scan_memories_extended (take (nat limit) (sort_slice by_rank rows)))"

definition list_versions :: "uuid \<Rightarrow> db \<Rightarrow> memory_version list" where
  "list_versions i d = sort_slice (\<lambda>a b. mver_version a < mver_version b) (filter (\<lambda>v. mver_memory_id v = i) (memory_versions d))"

section \<open>Keeping house\<close>

definition expired :: "db \<Rightarrow> memory \<Rightarrow> bool" where
  "expired d m \<longleftrightarrow> (case mem_expires_at m of None \<Rightarrow> False | Some t \<Rightarrow> t < now d)"

text \<open>
  \<^verbatim>\<open>DELETE FROM memories\<close>: the versions of the rows go with them, references to them become NULL.
\<close>

definition delete_memories :: "(memory \<Rightarrow> bool) \<Rightarrow> db \<Rightarrow> db \<times> int" where
  "delete_memories P d =
     (let gone = mem_id ` set (filter P (memories d)); dangling = (\<lambda>r. case r of None \<Rightarrow> False | Some i \<Rightarrow> i \<in> gone)
      in (d\<lparr>memories := update_where (\<lambda>m. dangling (mem_superseded_by m))
                (\<lambda>m. m\<lparr>mem_superseded_by := None, mem_updated_at := now d\<rparr>) (filter (\<lambda>m. \<not> P m) (memories d)),
            memory_versions := filter (\<lambda>v. mver_memory_id v \<notin> gone) (memory_versions d),
            memory_events := update_where (\<lambda>e. dangling (mev_memory_id e)) (\<lambda>e. e\<lparr>mev_memory_id := None\<rparr>) (memory_events d)\<rparr>,
          count_where P (memories d)))"

definition cleanup_expired :: "db \<Rightarrow> db \<times> int" where
  "cleanup_expired d =
     (let (d, n) = delete_memories (\<lambda>m. expired d m \<and> mem_status m \<in> {''stale'', ''archived''}) d
      in (fst (update_memories (\<lambda>m. expired d m \<and> mem_status m = ''active'') (\<lambda>m. m\<lparr>mem_status := ''stale''\<rparr>) d), n))"

definition archive :: "uuid \<Rightarrow> uuid \<Rightarrow> db \<Rightarrow> db \<times> string option" where
  "archive org_id i d =
     (case get_memory_by_id i d of
        Inl e \<Rightarrow> (d, Some e)
      | Inr m \<Rightarrow>
          if mem_organization_id m \<noteq> org_id then (d, Some ''not found'')
          else case update_memories (\<lambda>x. by_id i x \<and> mem_organization_id x = org_id) (\<lambda>x. x\<lparr>mem_status := ''archived''\<rparr>)
                      (create_version m ''archived'' d) of
                 (d, Inl e) \<Rightarrow> (d, Some e)
               | (d, Inr _) \<Rightarrow>
                   (emit_event org_id (Some i) (mem_scope m) ''memory.archived'' None [(''reason'', JStr ''manual'')] d, None))"

definition restore :: "uuid \<Rightarrow> uuid \<Rightarrow> db \<Rightarrow> db \<times> string option" where
  "restore org_id i d =
     (case get_memory_by_id i d of
        Inl e \<Rightarrow> (d, Some e)
      | Inr m \<Rightarrow>
          if mem_organization_id m \<noteq> org_id then (d, Some ''not found'')
          else if mem_status m \<notin> {''archived'', ''stale'', ''superseded''} then (d, Some ''memory not archived'')
          else case update_memories (\<lambda>x. by_id i x \<and> mem_organization_id x = org_id)
                      (\<lambda>x. x\<lparr>mem_status := ''active'', mem_last_confirmed_at := Some (now d)\<rparr>) (create_version m ''restored'' d) of
                 (d, Inl e) \<Rightarrow> (d, Some e)
               | (d, Inr _) \<Rightarrow>
                   (emit_event org_id (Some i) (mem_scope m) ''memory.reconfirmed'' None [(''reason'', JStr ''restore'')] d, None))"

definition before :: "time option \<Rightarrow> time \<Rightarrow> bool" where
  "before t u \<longleftrightarrow> (case t of None \<Rightarrow> False | Some s \<Rightarrow> s < u)"

definition goes_stale :: "db \<Rightarrow> memory \<Rightarrow> bool" where
  "goes_stale d m \<longleftrightarrow> mem_status m = ''active'' \<and>
     (expired d m
      \<or> mem_memory_type m = ''working'' \<and> before (mem_last_confirmed_at m) (now d - 3600)
      \<or> mem_memory_type m = ''conversation''
        \<and> before (if mem_last_accessed_at m = None then mem_last_confirmed_at m else mem_last_accessed_at m) (now d - 7 * 24 * 3600))"

definition mark_stale :: "int \<Rightarrow> db \<Rightarrow> db \<times> int res" where
  "mark_stale batch d =
     (let batch = (if batch \<le> 0 then 50 else batch); chosen = mem_id ` set (take (nat batch) (filter (goes_stale d) (memories d)))
      in update_memories (\<lambda>m. mem_id m \<in> chosen) (\<lambda>m. m\<lparr>mem_status := ''stale''\<rparr>) d)"

section \<open>Consolidation in the background\<close>

text \<open>A row of the batch: the columns the query reads, every other field has Go's zero value.\<close>

definition partial_memory :: "memory \<Rightarrow> memory" where
  "partial_memory m = \<lparr>mem_id = mem_id m, mem_organization_id = mem_organization_id m, mem_agent_id = mem_agent_id m,
     mem_project_id = mem_project_id m, mem_conversation_id = None, mem_task_id = None, mem_memory_type = [],
     mem_scope = mem_scope m, mem_source = [], mem_source_event_id = None, mem_content = mem_content m, mem_importance = 0,
     mem_confidence = 0, mem_status = [], mem_metadata = None, mem_expires_at = None, mem_last_accessed_at = None,
     mem_last_confirmed_at = None, mem_content_hash = [], mem_idempotency_key = [], mem_superseded_by = None, mem_version = 0,
     mem_created_at = 0, mem_updated_at = 0\<rparr>"

definition item_input :: "memory \<Rightarrow> consolidate_input" where
  "item_input m = \<lparr>ci_organization_id = mem_organization_id m, ci_agent_id = mem_agent_id m, ci_project_id = mem_project_id m,
     ci_conversation_id = mem_conversation_id m, ci_task_id = mem_task_id m, ci_memory_type = [], ci_scope = mem_scope m,
     ci_source = ''manual'', ci_source_event_id = None, ci_content = mem_content m, ci_importance = 5 / 10, ci_confidence = 0,
     ci_metadata = None, ci_expires_at = None, ci_correlation_id = None\<rparr>"

fun pairs :: "'a list \<Rightarrow> ('a \<times> 'a) list" where
  "pairs [] = []"
| "pairs (x # xs) = map (\<lambda>y. (x, y)) xs @ pairs xs"

definition mergeable :: "memory \<Rightarrow> memory \<Rightarrow> bool" where
  "mergeable a b \<longleftrightarrow> mem_organization_id a = mem_organization_id b \<and> mem_scope a = mem_scope b
     \<and> mem_agent_id a = mem_agent_id b \<and> mem_project_id a = mem_project_id b
     \<and> fst (classify_relationship (mem_content a) (mem_content b)) \<in> {Duplicate, Reinforce}"

fun merge_pairs :: "mem_env \<Rightarrow> nat \<Rightarrow> nat \<Rightarrow> (memory \<times> memory) list \<Rightarrow> world \<Rightarrow> world \<times> nat" where
  "merge_pairs env batch n [] w = (w, n)"
| "merge_pairs env batch n ((a, b) # ps) w =
     (if mergeable a b
      then case handle_merge env (item_input b) (partial_memory a) (8 / 10) w of
             (w, Inl _) \<Rightarrow> merge_pairs env batch n ps w
           | (w, Inr _) \<Rightarrow> if batch \<le> n + 1 then (w, n + 1) else merge_pairs env batch (n + 1) ps w
      else merge_pairs env batch n ps w)"

definition background_consolidation :: "mem_env \<Rightarrow> int \<Rightarrow> world \<Rightarrow> world \<times> nat" where
  "background_consolidation env batch w =
     (let batch = (if batch \<le> 0 then 20 else batch)
      in merge_pairs env (nat batch) 0
           (pairs (newest (batch * 2) (filter (\<lambda>m. mem_status m = ''active'') (memories (w_db w))))) w)"

end
