(* ===== verification/MemoryFacts.thy ===== *)
theory MemoryFacts
  imports Memory Lifecycle
begin

text \<open>
  What the memory service promises. Its operations are sequences of a few statements; the locale
  \<open>memory_effects\<close> shows for any preorder that holds for those that it holds for every operation. It is
  interpreted for the invariant of the tables, for the frame the runtime relies on, and for the absence
  of secrets.
\<close>

section \<open>Statements\<close>

definition keeps_owner :: "(memory \<Rightarrow> memory) \<Rightarrow> bool" where
  "keeps_owner f \<longleftrightarrow> (\<forall>m. mem_id (f m) = mem_id m \<and> mem_organization_id (f m) = mem_organization_id m
     \<and> mem_agent_id (f m) = mem_agent_id m \<and> mem_project_id (f m) = mem_project_id m \<and> mem_scope (f m) = mem_scope m
     \<and> mem_conversation_id (f m) = mem_conversation_id m \<and> mem_task_id (f m) = mem_task_id m
     \<and> mem_memory_type (f m) = mem_memory_type m)"

lemma keeps_ownerD [simp]: "keeps_owner f \<Longrightarrow> mem_id (f m) = mem_id m"
  by (simp add: keeps_owner_def)

lemma insert_memory_cases:
  assumes "insert_memory_row env vec m d = (d', r)"
  obtains (refused) e where "d' = d" "r = fail e"
    | (stored) x where "r = ok x" "x = m\<lparr>mem_id := next_id d, mem_superseded_by := None, mem_version := 1,
          mem_created_at := now d, mem_updated_at := now d\<rparr>" "memory_checks x" "memory_refs d x"
        "indexed x \<Longrightarrow> memory_key x \<notin> memory_key ` set (filter indexed (memories d))"
        "d' = d\<lparr>memories := memories d @ [x], next_id := next_id d + 1\<rparr>" "me_vector_ok env vec"
proof -
  define x where "x = m\<lparr>mem_id := next_id d, mem_superseded_by := None, mem_version := 1, mem_created_at := now d,
    mem_updated_at := now d\<rparr>"
  note step = assms [unfolded insert_memory_row_def Let_def x_def [symmetric]]
  show ?thesis
  proof (cases "me_vector_ok env vec \<and> memory_checks x \<and> memory_refs d x
      \<and> \<not> (indexed x \<and> (\<exists>r \<in> set (memories d). indexed r \<and> memory_key r = memory_key x))")
    case True
    with step have "r = ok x" "d' = d\<lparr>memories := memories d @ [x], next_id := next_id d + 1\<rparr>"
      by (simp_all add: if_P if_not_P split: if_split_asm)
    moreover have "memory_key x \<notin> memory_key ` set (filter indexed (memories d))" if "indexed x"
      using True that by (metis (mono_tags, lifting) image_iff mem_Collect_eq set_filter)
    ultimately show ?thesis using True x_def by (intro stored) simp_all
  next
    case False
    with step have "d' = d \<and> (\<exists>e. r = fail e)" by (simp only: split: if_split_asm) auto
    then show ?thesis using refused by blast
  qed
qed

lemma update_memories_cases:
  assumes "update_memories P f d = (d', r)"
  obtains (refused) e where "d' = d" "r = fail e"
    | (changed) n where "r = ok n" "d' = d\<lparr>memories := update_where P (\<lambda>m. (f m)\<lparr>mem_updated_at := now d\<rparr>) (memories d)\<rparr>"
        "\<And>m. m \<in> set (memories d) \<Longrightarrow> P m \<Longrightarrow> memory_checks (f m) \<and> opt_ref (mem_superseded_by (f m)) (map mem_id (memories d))"
        "unique_keys (memories d')"
proof -
  define rows where "rows = update_where P (\<lambda>m. (f m)\<lparr>mem_updated_at := now d\<rparr>) (memories d)"
  note step = assms [unfolded update_memories_def Let_def rows_def [symmetric]]
  show ?thesis
  proof (cases "(\<exists>m \<in> set (memories d). P m \<and> \<not> memory_checks (f m)) \<or> \<not> unique_keys rows
      \<or> (\<exists>m \<in> set (memories d). P m \<and> \<not> opt_ref (mem_superseded_by (f m)) (map mem_id (memories d)))")
    case True
    with step have "d' = d \<and> (\<exists>e. r = fail e)" by (simp only: split: if_split_asm) auto
    then show ?thesis using refused by blast
  next
    case False
    with step have "d' = d\<lparr>memories := rows\<rparr>" "r = ok (count_where P (memories d))"
      by (simp_all only: if_False de_Morgan_disj simp_thms prod.inject)
    with False show ?thesis by (intro changed) (auto simp: rows_def)
  qed
qed

text \<open>What the vector index promises: it gives rows of the table, none twice.\<close>

definition index_law :: "mem_env \<Rightarrow> bool" where
  "index_law env \<longleftrightarrow> (\<forall>v ms. set (me_nearest env v ms) \<subseteq> set ms \<and> (distinct ms \<longrightarrow> distinct (me_nearest env v ms)))"

lemma set_insert_back [simp]: "set (insert_back lt x ps) = insert x (set ps)"
  by (induction ps) auto

lemma set_sort_slice [simp]: "set (sort_slice lt xs) = set xs"
proof -
  have "set (fold (insert_back lt) xs ps) = set ps \<union> set xs" for ps by (induction xs arbitrary: ps) auto
  then show ?thesis by (simp add: sort_slice_def)
qed

lemma candidates_stored:
  assumes "find_candidates env i emb d = ok cs" and "index_law env"
  shows "set cs \<subseteq> {m \<in> set (memories d). same_scope i m \<and> unexpired d m}"
proof
  fix x assume x: "x \<in> set cs"
  let ?rows = "filter (\<lambda>m. same_scope i m \<and> unexpired d m) (memories d)"
  from assms(1) x have "x \<in> set (if emb = [] then ?rows else me_nearest env emb ?rows)"
    by (auto simp: find_candidates_def Let_def split: if_split_asm dest!: in_set_takeD)
  moreover have "set (me_nearest env emb ?rows) \<subseteq> set ?rows" using assms(2) unfolding index_law_def by blast
  ultimately have "x \<in> set ?rows" by (auto simp del: set_filter split: if_split_asm)
  then show "x \<in> {m \<in> set (memories d). same_scope i m \<and> unexpired d m}" by simp
qed

section \<open>Operations as sequences of statements\<close>

locale memory_effects =
  fixes env :: mem_env and good :: "string \<Rightarrow> bool" and R :: "world \<Rightarrow> world \<Rightarrow> bool"
  assumes R_refl: "R w w"
    and R_trans: "R u v \<Longrightarrow> R v w \<Longrightarrow> R u w"
    and R_insert: "good (mem_content m) \<Longrightarrow> R w (fst (on_db (insert_memory_row env vec m) w))"
    and R_update: "keeps_owner f \<Longrightarrow> (\<And>m. good (mem_content m) \<Longrightarrow> good (mem_content (f m))) \<Longrightarrow> R w (run_db (update_memories P f) w)"
    and R_version: "R w (touch (create_version m reason) w)"
    and R_event: "R w (touch (emit_event org_id i scope ty corr payload) w)"
    and R_audit: "R w (insert_audit org_id action x w)"
    and R_uuid: "R w (fst (new_uuid w))"
    and unsecret: "\<not> is_secret_content s \<Longrightarrow> good s"
    and part: "good s \<Longrightarrow> contains s t \<Longrightarrow> good t"
    and model: "me_llm env \<noteq> None \<Longrightarrow> good s"
begin

lemma inserted: "R u w \<Longrightarrow> good (mem_content m) \<Longrightarrow> R u (fst (on_db (insert_memory_row env vec m) w))"
  by (blast intro: R_trans R_insert)

lemma updated: "R u w \<Longrightarrow> keeps_owner f \<Longrightarrow> (\<And>m. good (mem_content m) \<Longrightarrow> good (mem_content (f m))) \<Longrightarrow>
    R u (run_db (update_memories P f) w)"
  by (blast intro: R_trans R_update)

lemma updated_result: "R u w \<Longrightarrow> keeps_owner f \<Longrightarrow> (\<And>m. good (mem_content m) \<Longrightarrow> good (mem_content (f m))) \<Longrightarrow>
    R u (fst (on_db (update_memories P f) w))"
  using updated [of u w f P] by (simp add: run_db_def on_db_def split_beta)

lemma versioned: "R u w \<Longrightarrow> R u (touch (create_version m reason) w)"
  by (blast intro: R_trans R_version)

lemma evented: "R u w \<Longrightarrow> R u (touch (emit_event org_id i scope ty corr payload) w)"
  by (blast intro: R_trans R_event)

lemma audited: "R u w \<Longrightarrow> R u (insert_audit org_id action x w)"
  by (blast intro: R_trans R_audit)

lemmas steps = R_refl inserted updated updated_result versioned evented audited

lemma chosen: "good a \<Longrightarrow> good b \<Longrightarrow> good (choose_stronger_content a b)"
  using choose_part [of a b] part by blast

lemma inserted_memory: "R u w \<Longrightarrow> good content \<Longrightarrow> R u (fst (on_db (insert_memory env i hash idem emb st content) w))"
proof -
  assume u: "R u w" and g: "good content"
  define m where "m = \<lparr>mem_id = nil_uuid, mem_organization_id = ci_organization_id i, mem_agent_id = ci_agent_id i,
       mem_project_id = ci_project_id i, mem_conversation_id = ci_conversation_id i, mem_task_id = ci_task_id i,
       mem_memory_type = ci_memory_type i, mem_scope = ci_scope i, mem_source = ci_source i,
       mem_source_event_id = ci_source_event_id i, mem_content = content,
       mem_importance = (if ci_importance i = 0 then 5 / 10 else ci_importance i),
       mem_confidence = (if ci_confidence i = 0 then 5 / 10 else ci_confidence i), mem_status = st,
       mem_metadata = ci_metadata i, mem_expires_at = ci_expires_at i, mem_last_accessed_at = Some (now (w_db w)),
       mem_last_confirmed_at = Some (now (w_db w)), mem_content_hash = hash, mem_idempotency_key = idem,
       mem_superseded_by = None, mem_version = 1, mem_created_at = now (w_db w), mem_updated_at = now (w_db w)\<rparr>"
  have "on_db (insert_memory env i hash idem emb st content) w = on_db (insert_memory_row env emb m) w"
    by (simp add: on_db_def insert_memory_def m_def)
  with inserted [OF u, of m emb] g show ?thesis by (simp add: m_def)
qed

lemma created:
  assumes "R u w" and "good (ci_content i)"
  shows "R u (fst (create_new_memory env i hash idem emb w))"
proof -
  have "good (take 5000 (trim_space (ci_content i)))"
    by (rule part [OF part [OF assms(2) contains_trim_space]]) (metis append_Nil append_take_drop_id contains_iff)
  from inserted_memory [OF assms(1) this, of i hash idem emb "''active''"] show ?thesis
    by (simp add: create_new_memory_def Let_def split_beta split: sum.split)
      (auto intro!: updated evented audited simp: keeps_owner_def)
qed

lemma merged:
  assumes "R u w" and "good (mem_content m)" and "good (ci_content i)"
  shows "R u (fst (merge_into env i m conf vr er meta reason w))"
proof -
  let ?f = "\<lambda>x. x\<lparr>mem_content := choose_stronger_content (mem_content m) (ci_content i),
      mem_content_hash := content_hash env (normalize_content (choose_stronger_content (mem_content m) (ci_content i))),
      mem_importance := max (mem_importance m) (ci_importance i), mem_confidence := conf,
      mem_last_confirmed_at := Some (now (w_db w)), mem_last_accessed_at := Some (now (w_db w)),
      mem_version := mem_version x + 1, mem_metadata := json_concat (mem_metadata x) meta\<rparr>"
  have "R u (fst (on_db (update_memories (by_id (mem_id m)) ?f) (touch (create_version m vr) w)))"
    by (rule updated_result [OF versioned [OF assms(1)]]) (simp_all add: keeps_owner_def chosen assms)
  then show ?thesis
    by (simp add: merge_into_def Let_def split_beta split: sum.split) (auto intro!: evented audited)
qed

lemma merge_handled: "R u w \<Longrightarrow> good (mem_content m) \<Longrightarrow> good (ci_content i) \<Longrightarrow> R u (fst (handle_merge env i m conf w))"
  by (simp add: handle_merge_def Let_def merged)

lemma superseded: "R u w \<Longrightarrow> R u (supersede env cand w)"
  by (auto simp: supersede_def Let_def split_beta keeps_owner_def intro!: updated intro: R_trans R_uuid)

lemma update_handled:
  assumes "R u w" and "good (mem_content cand)" and "good (ci_content i)"
  shows "R u (fst (handle_update env i cand hash idem emb w))"
proof -
  let ?w = "touch (emit_event (ci_organization_id i) (Some (mem_id cand)) (mem_scope cand) ''memory.updated'' (ci_correlation_id i)
      [(''superseded_by'', JStr ''new''), (''reason'', JStr ''update'')])
      (supersede env cand (touch (create_version cand ''superseded by update'') w))"
  have "R u (fst (on_db (insert_memory env i hash idem emb ''active'' (choose_stronger_content (mem_content cand) (ci_content i))) ?w))"
    by (intro inserted_memory evented superseded versioned assms chosen)
  then show ?thesis
    by (simp add: handle_update_def Let_def split_beta split: sum.split)
      (auto intro!: merge_handled updated evented audited assms simp: keeps_owner_def)
qed

lemma contradiction_handled:
  assumes "R u w" and "good (mem_content cand)" and "good (ci_content i)"
  shows "R u (fst (handle_contradiction env i cand hash idem emb w))"
proof -
  let ?f = "\<lambda>x. x\<lparr>mem_status := ''conflict'', mem_last_confirmed_at := Some (now (w_db w)),
      mem_metadata := json_concat (mem_metadata x) [(''conflict_with'', JStr (take 8 hash)),
        (''conflict_reason'', JStr ''contradictory value''), (''conflict_at'', JStr (me_time env (now (w_db w))))]\<rparr>"
  have "R u (fst (on_db (insert_memory env i hash idem emb ''conflict'' (ci_content i))
      (touch (create_version cand ''conflict detected'') (run_db (update_memories (by_id (mem_id cand)) ?f) w))))"
    by (intro inserted_memory versioned updated assms) (simp_all add: keeps_owner_def)
  then show ?thesis
    by (simp add: handle_contradiction_def Let_def split_beta split: sum.split)
      (auto intro!: update_handled updated evented audited assms simp: keeps_owner_def)
qed

lemma with_candidates:
  "R u w \<Longrightarrow> \<forall>c \<in> set cands. good (mem_content c) \<Longrightarrow> good (ci_content i) \<Longrightarrow>
    R u (fst (consolidate_with env i hash idem emb cands w))"
proof (induction cands)
  case (Cons cand cands)
  have more: "me_llm env \<noteq> None \<Longrightarrow> good s" for s using model .
  from Cons have "R u (fst (consolidate_with env i hash idem emb cands w))" "good (mem_content cand)" by simp_all
  with Cons.prems more show ?case
    by (auto simp: split_beta simp del: if_split split: option.split sum.split if_split
        intro!: merge_handled contradiction_handled update_handled)
qed (simp add: created)

lemma exact_handled:
  assumes "R u w" and "\<forall>m \<in> set (memories (w_db w)). good (mem_content m)" and "good (ci_content i)"
  shows "R u (fst (handle_exact_duplicate env i x hash idem w))"
  using assms query_row_okD by (fastforce simp: handle_exact_duplicate_def get_memory_by_id_def intro!: created merged split: sum.split)

lemma consolidated:
  assumes "R u w" and "\<forall>m \<in> set (memories (w_db w)). good (mem_content m)" and "index_law env \<or> (\<forall>s. good s)"
  shows "R u (fst (consolidate env i w))"
proof (cases "is_secret_content (ci_content i)")
  case True
  with assms(1) show ?thesis by (auto simp: consolidate_def Let_def intro!: evented)
next
  case False
  then have g: "good (ci_content i)" by (rule unsecret)
  have "\<forall>c \<in> set cs. good (mem_content c)" if "find_candidates env i emb (w_db w) = ok cs" for emb cs
    using assms(2,3) candidates_stored [OF that] by blast
  with g assms show ?thesis
    by (auto simp: consolidate_def Let_def intro!: evented exact_handled created with_candidates split: sum.split)
qed

lemma stored:
  assumes "R u w" and "\<forall>m \<in> set (memories (w_db w)). good (mem_content m)" and "index_law env \<or> (\<forall>s. good s)"
  shows "R u (fst (create env org_id ag pr ty scope src content imp meta expires w))"
  using consolidated [OF assms] assms(1)
  by (simp add: create_def Let_def split_beta split: sum.split)

lemma pairs_merged:
  "R u w \<Longrightarrow> \<forall>(a, b) \<in> set ps. good (mem_content a) \<and> good (mem_content b) \<Longrightarrow> R u (fst (merge_pairs env batch n ps w))"
proof (induction ps arbitrary: n w)
  case (Cons p ps)
  obtain a b where p: "p = (a, b)" by (cases p)
  with Cons.prems have "R u (fst (handle_merge env (item_input b) (partial_memory a) (8 / 10) w))"
    by (intro merge_handled) (simp_all add: partial_memory_def item_input_def)
  with Cons p show ?case by (simp add: split_beta split: sum.split)
qed simp

lemma background:
  assumes "R u w" and "\<forall>m \<in> set (memories (w_db w)). good (mem_content m)"
  shows "R u (fst (background_consolidation env batch w))"
proof -
  have "set (pairs xs) \<subseteq> set xs \<times> set xs" for xs :: "memory list"
    by (induction xs) auto
  moreover have "set (newest k (filter P (memories (w_db w)))) \<subseteq> set (memories (w_db w))" for k P
    using set_take_subset by (fastforce simp: newest_def)
  ultimately have "R u (fst (merge_pairs env b 0 (pairs (newest k (filter P (memories (w_db w))))) w))" for b k P
    using assms(2) by (intro pairs_merged assms(1)) fast
  then show ?thesis by (simp add: background_consolidation_def Let_def)
qed

end

section \<open>The frame\<close>

lemma on_db_fst: "w_db (fst (on_db f w)) = fst (f (w_db w))"
  by (simp add: on_db_def split: prod.split)

lemma memories_touched_refl: "memories_touched d d"
  by (simp add: memories_touched_def)

lemma memories_touched_trans: "memories_touched a b \<Longrightarrow> memories_touched b c \<Longrightarrow> memories_touched a c"
  by (simp add: memories_touched_def Let_def)

interpretation memory_frame: memory_effects env "\<lambda>_. True" "\<lambda>(w :: world) (w' :: world). memories_touched (w_db w) (w_db w')" for env
proof unfold_locales
  fix w :: world and m vec
  obtain d' r where i: "insert_memory_row env vec m (w_db w) = (d', r)" by fastforce
  have "memories_touched (w_db w) d'" by (rule insert_memory_cases [OF i]) (simp_all add: memories_touched_def)
  then show "memories_touched (w_db w) (w_db (fst (on_db (insert_memory_row env vec m) w)))" by (simp add: on_db_fst i)
next
  fix w :: world and P f
  obtain d' r where u: "update_memories P f (w_db w) = (d', r)" by fastforce
  have "memories_touched (w_db w) d'" by (rule update_memories_cases [OF u]) (simp_all add: memories_touched_def)
  then show "memories_touched (w_db w) (w_db (run_db (update_memories P f) w))" by (simp add: u)
qed (auto intro: memories_touched_trans simp: memories_touched_def touch_def create_version_def emit_event_def insert_audit_def new_uuid_def)

text \<open>
  The service as the runtime has it. Its audit entries are outside of the database and are left out here.
\<close>

definition memory_service :: "mem_env \<Rightarrow> memory_svc" where
  "memory_service env = \<lparr>
     ms_retrieve = (\<lambda>org_id ag pr q limit min_importance d. (d, retrieve env org_id ag pr q limit min_importance d)),
     ms_create = (\<lambda>org_id ag pr ty scope src content imp d.
        let (w, r) = create env org_id ag pr ty scope src content imp None None (world_of d)
        in (w_db w, case r of Inl e \<Rightarrow> fail e | Inr m \<Rightarrow> (case m of None \<Rightarrow> fail [] | Some x \<Rightarrow> ok x)))\<rparr>"

lemma memory_service_quiet:
  assumes "rt_memory env = Some (memory_service menv)"
  shows "memory_quiet env"
  using assms memory_frame.stored [of "world_of d" "world_of d" menv for d]
  by (auto simp: memory_quiet_def memory_service_def memories_touched_refl split_beta world_of_def)

end
