(* ===== verification/MemoryProps.thy ===== *)
theory MemoryProps
  imports MemoryFacts
begin

text \<open>
  The properties of the memory service: its tables stay consistent, no secret is stored, what a reader
  sees, and what becomes of a memory that is said again, replaced or merged in the background.
\<close>

section \<open>The invariant of the tables\<close>

definition mem_inv :: "db \<Rightarrow> bool" where
  "mem_inv d \<longleftrightarrow>
     (let ids = map mem_id (memories d)
      in distinct ids \<and> (\<forall>i \<in> set ids. i < next_id d)
         \<and> (\<forall>m \<in> set (memories d). memory_checks m \<and> opt_ref (mem_superseded_by m) ids)
         \<and> unique_keys (memories d)
         \<and> distinct (map (\<lambda>v. (mver_memory_id v, mver_version v)) (memory_versions d))
         \<and> (\<forall>v \<in> set (memory_versions d). mver_memory_id v \<in> set ids)
         \<and> (\<forall>e \<in> set (memory_events d). opt_ref (mev_memory_id e) ids \<and> mev_event_type e \<in> set memory_event_check))"

lemma opt_ref_mono: "opt_ref r xs \<Longrightarrow> set xs \<subseteq> set ys \<Longrightarrow> opt_ref r ys"
  by (auto simp: opt_ref_def split: option.splits)

lemma update_where_mem_ids: "(\<And>m. mem_id (f m) = mem_id m) \<Longrightarrow> map mem_id (update_where P f ms) = map mem_id ms"
  by (simp add: update_where_def)

lemma mem_inv_insert:
  assumes "mem_inv d"
  shows "mem_inv (fst (insert_memory_row env vec m d))"
proof -
  obtain d' r where i: "insert_memory_row env vec m d = (d', r)" by fastforce
  have "mem_inv d'"
  proof (rule insert_memory_cases [OF i])
    fix x assume x: "x = m\<lparr>mem_id := next_id d, mem_superseded_by := None, mem_version := 1, mem_created_at := now d,
        mem_updated_at := now d\<rparr>" "memory_checks x" "d' = d\<lparr>memories := memories d @ [x], next_id := next_id d + 1\<rparr>"
      and key: "indexed x \<Longrightarrow> memory_key x \<notin> memory_key ` set (filter indexed (memories d))"
    have id: "mem_id x = next_id d" "mem_superseded_by x = None" by (simp_all add: x(1))
    show "mem_inv d'"
      using assms key x(2) by (auto simp: mem_inv_def Let_def x(3) id unique_keys_def opt_ref_def less_Suc_eq split: option.split)
  qed (use assms in simp)
  with i show ?thesis by simp
qed

lemma mem_inv_update:
  assumes "mem_inv d" and "keeps_owner f"
  shows "mem_inv (fst (update_memories P f d))"
proof -
  obtain d' r where u: "update_memories P f d = (d', r)" by fastforce
  let ?g = "\<lambda>m. (f m)\<lparr>mem_updated_at := now d\<rparr>"
  have id: "mem_id (?g m) = mem_id m" for m using assms(2) by (simp add: keeps_owner_def)
  have "mem_inv d'"
  proof (rule update_memories_cases [OF u])
    assume d': "d' = d\<lparr>memories := update_where P ?g (memories d)\<rparr>" and k: "unique_keys (memories d')"
      and c: "\<And>m. m \<in> set (memories d) \<Longrightarrow> P m \<Longrightarrow> memory_checks (f m) \<and> opt_ref (mem_superseded_by (f m)) (map mem_id (memories d))"
    have ids: "map mem_id (update_where P ?g (memories d)) = map mem_id (memories d)"
      by (rule update_where_mem_ids) (rule id)
    have "memory_checks x \<and> opt_ref (mem_superseded_by x) (map mem_id (memories d))"
      if "x \<in> set (update_where P ?g (memories d))" for x
      using that c assms(1) by (auto simp: in_update_where mem_inv_def Let_def memory_checks_def)
    with assms(1) k show "mem_inv d'" by (simp add: mem_inv_def Let_def d' ids)
  qed (use assms in simp)
  with u show ?thesis by simp
qed

lemma mem_inv_version: "mem_inv d \<Longrightarrow> mem_inv (create_version m reason d)"
  by (auto simp: mem_inv_def Let_def create_version_def)

lemma mem_inv_event: "mem_inv d \<Longrightarrow> mem_inv (emit_event org_id i scope ty corr payload d)"
  by (auto simp: mem_inv_def Let_def emit_event_def)

interpretation memory_rows: memory_effects env "\<lambda>_. True" "\<lambda>(w :: world) (w' :: world). mem_inv (w_db w) \<longrightarrow> mem_inv (w_db w')" for env
  by unfold_locales
    (auto simp: on_db_fst mem_inv_insert mem_inv_update touch_def mem_inv_version mem_inv_event insert_audit_def new_uuid_def,
     simp add: mem_inv_def Let_def less_SucI)

lemma mem_invI:
  "ids = map mem_id (memories d) \<Longrightarrow> distinct ids \<Longrightarrow> (\<And>i. i \<in> set ids \<Longrightarrow> i < next_id d) \<Longrightarrow>
    (\<And>m. m \<in> set (memories d) \<Longrightarrow> memory_checks m \<and> opt_ref (mem_superseded_by m) ids) \<Longrightarrow> unique_keys (memories d) \<Longrightarrow>
    distinct (map (\<lambda>v. (mver_memory_id v, mver_version v)) (memory_versions d)) \<Longrightarrow>
    (\<And>v. v \<in> set (memory_versions d) \<Longrightarrow> mver_memory_id v \<in> set ids) \<Longrightarrow>
    (\<And>e. e \<in> set (memory_events d) \<Longrightarrow> opt_ref (mev_memory_id e) ids \<and> mev_event_type e \<in> set memory_event_check) \<Longrightarrow>
    mem_inv d"
  by (simp add: mem_inv_def Let_def)

lemma update_where_keys:
  "(\<And>m. indexed (f m) = indexed m) \<Longrightarrow> (\<And>m. memory_key (f m) = memory_key m) \<Longrightarrow>
    map memory_key (filter indexed (update_where P f ms)) = map memory_key (filter indexed ms)"
  by (induction ms) (auto simp: update_where_def)

lemma mem_inv_delete:
  assumes "mem_inv d"
  shows "mem_inv (fst (delete_memories P d))"
proof -
  define gone where "gone = mem_id ` set (filter P (memories d))"
  let ?dangling = "\<lambda>r. case r of None \<Rightarrow> False | Some i \<Rightarrow> i \<in> gone"
  let ?f = "\<lambda>m. m\<lparr>mem_superseded_by := None, mem_updated_at := now d\<rparr>"
  let ?left = "filter (\<lambda>m. \<not> P m) (memories d)"
  let ?rows = "update_where (\<lambda>m. ?dangling (mem_superseded_by m)) ?f ?left"
  from assms have inv: "distinct (map mem_id (memories d))" "\<forall>m \<in> set (memories d). mem_id m < next_id d"
      "\<forall>m \<in> set (memories d). memory_checks m \<and> opt_ref (mem_superseded_by m) (map mem_id (memories d))"
      "distinct (map memory_key (filter indexed (memories d)))"
      "distinct (map (\<lambda>v. (mver_memory_id v, mver_version v)) (memory_versions d))"
      "\<forall>v \<in> set (memory_versions d). mver_memory_id v \<in> mem_id ` set (memories d)"
      "\<forall>e \<in> set (memory_events d). opt_ref (mev_memory_id e) (map mem_id (memories d)) \<and> mev_event_type e \<in> set memory_event_check"
    by (simp_all add: mem_inv_def Let_def unique_keys_def)
  have ids: "map mem_id ?rows = map mem_id ?left" by (rule update_where_mem_ids) simp
  have left: "i \<in> mem_id ` set ?left" if "i \<in> mem_id ` set (memories d)" "i \<notin> gone" for i
    using that by (auto simp: gone_def)
  have keys: "map memory_key (filter indexed ?rows) = map memory_key (filter indexed ?left)"
    by (rule update_where_keys) (simp_all add: indexed_def memory_key_def)
  have sub: "distinct (map k (filter Q xs))" if "distinct (map k xs)" for k :: "'b \<Rightarrow> 'c" and Q xs
    using that by (simp add: distinct_map inj_on_def)
  have checks: "memory_checks x \<and> opt_ref (mem_superseded_by x) (map mem_id ?left)" if "x \<in> set ?rows" for x
  proof -
    from that obtain q where q: "q \<in> set ?left" "x = (if ?dangling (mem_superseded_by q) then ?f q else q)"
      unfolding in_update_where by blast
    have same: "memory_checks (?f q) = memory_checks q" by (simp add: memory_checks_def)
    from q(1) inv(3) have "memory_checks q" "opt_ref (mem_superseded_by q) (map mem_id (memories d))" by simp_all
    with q(2) same left show ?thesis
      by (cases "mem_superseded_by q") (auto simp: opt_ref_def simp del: set_filter)
  qed
  have events: "opt_ref (mev_memory_id e) (map mem_id ?left) \<and> mev_event_type e \<in> set memory_event_check"
    if "e \<in> set (update_where (\<lambda>e. ?dangling (mev_memory_id e)) (\<lambda>e. e\<lparr>mev_memory_id := None\<rparr>) (memory_events d))" for e
  proof -
    from that obtain q where q: "q \<in> set (memory_events d)" "e = (if ?dangling (mev_memory_id q) then q\<lparr>mev_memory_id := None\<rparr> else q)"
      unfolding in_update_where by blast
    from q(1) inv(7) have "mev_event_type q \<in> set memory_event_check" "opt_ref (mev_memory_id q) (map mem_id (memories d))" by simp_all
    with q(2) left show ?thesis
      by (cases "mev_memory_id q") (auto simp: opt_ref_def simp del: set_filter)
  qed
  have "filter indexed ?left = filter (\<lambda>m. \<not> P m) (filter indexed (memories d))" by (simp add: conj_commute)
  then have uniq: "distinct (map memory_key (filter indexed ?left))" using sub [OF inv(4), of "\<lambda>m. \<not> P m"] by simp
  have "mem_inv (d\<lparr>memories := ?rows, memory_versions := filter (\<lambda>v. mver_memory_id v \<notin> gone) (memory_versions d),
      memory_events := update_where (\<lambda>e. ?dangling (mev_memory_id e)) (\<lambda>e. e\<lparr>mev_memory_id := None\<rparr>) (memory_events d)\<rparr>)"
    (is "mem_inv ?d")
  proof (rule mem_invI [of "map mem_id ?left" ?d])
    show "map mem_id ?left = map mem_id (memories ?d)" using ids by simp
    show "distinct (map mem_id ?left)" by (rule sub [OF inv(1)])
    show "\<And>i. i \<in> set (map mem_id ?left) \<Longrightarrow> i < next_id ?d" using inv(2) by auto
    show "\<And>m. m \<in> set (memories ?d) \<Longrightarrow> memory_checks m \<and> opt_ref (mem_superseded_by m) (map mem_id ?left)"
      using checks by simp
    show "unique_keys (memories ?d)" using uniq keys by (simp add: unique_keys_def)
    show "distinct (map (\<lambda>v. (mver_memory_id v, mver_version v)) (memory_versions ?d))" using sub [OF inv(5)] by simp
    show "\<And>v. v \<in> set (memory_versions ?d) \<Longrightarrow> mver_memory_id v \<in> set (map mem_id ?left)"
      using inv(6) left by auto
    show "\<And>e. e \<in> set (memory_events ?d) \<Longrightarrow> opt_ref (mev_memory_id e) (map mem_id ?left) \<and> mev_event_type e \<in> set memory_event_check"
      using events by simp
  qed
  then show ?thesis unfolding delete_memories_def Let_def fst_conv gone_def .
qed

lemma mem_inv_updates: "mem_inv d \<Longrightarrow> keeps_owner f \<Longrightarrow> update_memories P f d = (d', r) \<Longrightarrow> mem_inv d'"
  using mem_inv_update by (metis fst_conv)

text \<open>The calls that change the tables.\<close>

inductive memory_call :: "mem_env \<Rightarrow> world \<Rightarrow> world \<Rightarrow> bool" for env where
  consolidate: "memory_call env w (fst (consolidate env i w))"
| create: "memory_call env w (fst (create env org_id ag pr ty scope src content imp meta expires w))"
| background: "memory_call env w (fst (background_consolidation env batch w))"
| archive: "memory_call env w (fst (on_db (archive org_id x) w))"
| restore: "memory_call env w (fst (on_db (restore org_id x) w))"
| get: "memory_call env w (fst (on_db (get_memory org_id x) w))"
| mark_stale: "memory_call env w (fst (on_db (mark_stale batch) w))"
| cleanup: "memory_call env w (fst (on_db cleanup_expired w))"

lemma house_keeping_inv:
  assumes "mem_inv d"
  shows "mem_inv (fst (archive org_id x d))" and "mem_inv (fst (restore org_id x d))" and "mem_inv (fst (get_memory org_id x d))"
    and "mem_inv (fst (mark_stale batch d))" and "mem_inv (fst (cleanup_expired d))"
proof -
  show "mem_inv (fst (archive org_id x d))"
    using assms by (auto simp: archive_def keeps_owner_def split: sum.split prod.split
        intro!: mem_inv_event dest!: mem_inv_updates [OF mem_inv_version, rotated 2])
  show "mem_inv (fst (restore org_id x d))"
    using assms by (auto simp: restore_def keeps_owner_def split: sum.split prod.split
        intro!: mem_inv_event dest!: mem_inv_updates [OF mem_inv_version, rotated 2])
  show "mem_inv (fst (get_memory org_id x d))"
    using assms by (auto simp: get_memory_def keeps_owner_def intro!: mem_inv_update split: sum.split)
  show "mem_inv (fst (mark_stale batch d))"
    using assms by (simp add: mark_stale_def Let_def mem_inv_update keeps_owner_def)
  show "mem_inv (fst (cleanup_expired d))"
    using mem_inv_delete [OF assms] by (simp add: cleanup_expired_def split_beta mem_inv_update keeps_owner_def)
qed

lemma memory_call_inv: "memory_call env w w' \<Longrightarrow> mem_inv (w_db w) \<Longrightarrow> mem_inv (w_db w')"
proof (induction rule: memory_call.induct)
  case (consolidate w i)
  with memory_rows.consolidated [of w w] show ?case by simp
next
  case (create w org_id ag pr ty scope src content imp meta expires)
  with memory_rows.stored [of w w] show ?case by simp
next
  case (background w batch)
  with memory_rows.background [of w w] show ?case by simp
qed (simp_all add: on_db_fst house_keeping_inv)


section \<open>No secret is stored\<close>

definition no_secrets :: "db \<Rightarrow> bool" where
  "no_secrets d \<longleftrightarrow> (\<forall>m \<in> set (memories d). \<not> is_secret_content (mem_content m))"

lemma no_secrets_insert:
  assumes "no_secrets d" and "\<not> is_secret_content (mem_content m)"
  shows "no_secrets (fst (insert_memory_row env vec m d))"
proof -
  obtain d' r where i: "insert_memory_row env vec m d = (d', r)" by fastforce
  have "no_secrets d'"
    by (rule insert_memory_cases [OF i]) (use assms in \<open>auto simp: no_secrets_def\<close>)
  with i show ?thesis by simp
qed

lemma no_secrets_update:
  assumes "no_secrets d" and "\<And>m. \<not> is_secret_content (mem_content m) \<Longrightarrow> \<not> is_secret_content (mem_content (f m))"
  shows "no_secrets (fst (update_memories P f d))"
proof -
  obtain d' r where u: "update_memories P f d = (d', r)" by fastforce
  have "no_secrets d'"
    by (rule update_memories_cases [OF u]) (use assms in \<open>auto simp: no_secrets_def in_update_where split: if_split_asm\<close>)
  with u show ?thesis by simp
qed

lemma memories_noted [simp]: "memories (create_version m reason d) = memories d"
  "memories (emit_event org_id i scope ty corr payload d) = memories d"
  by (simp_all add: create_version_def emit_event_def)

lemma no_secrets_frame: "no_secrets d \<Longrightarrow> no_secrets (create_version m reason d)"
  "no_secrets d \<Longrightarrow> no_secrets (emit_event org_id i scope ty corr payload d)"
  by (simp_all add: no_secrets_def)

interpretation memory_secrets: memory_effects env "\<lambda>s. me_llm env = None \<longrightarrow> \<not> is_secret_content s"
    "\<lambda>(w :: world) (w' :: world). me_llm env = None \<longrightarrow> no_secrets (w_db w) \<longrightarrow> no_secrets (w_db w')" for env
proof (unfold_locales, goal_cases)
  case (3 m w vec)
  then show ?case by (simp add: on_db_fst no_secrets_insert)
next
  case (4 f w P)
  then show ?case by (auto intro!: no_secrets_update)
next
  case (10 s t)
  then show ?case using secret_within by blast
qed (auto simp: touch_def no_secrets_frame insert_audit_def new_uuid_def no_secrets_def)

lemma house_keeping_content:
  assumes "no_secrets d"
  shows "no_secrets (fst (archive org_id x d))" and "no_secrets (fst (restore org_id x d))" and "no_secrets (fst (get_memory org_id x d))"
    and "no_secrets (fst (mark_stale batch d))" and "no_secrets (fst (cleanup_expired d))"
proof -
  have upd: "no_secrets d'" if "update_memories P f e = (d', r)" "no_secrets e" "\<And>m. mem_content (f m) = mem_content m" for P f e d' r
    using no_secrets_update [of e f P] that by simp
  show "no_secrets (fst (archive org_id x d))"
    using assms by (auto simp: archive_def split: sum.split prod.split intro!: no_secrets_frame dest!: upd [OF _ no_secrets_frame(1)])
  show "no_secrets (fst (restore org_id x d))"
    using assms by (auto simp: restore_def split: sum.split prod.split intro!: no_secrets_frame dest!: upd [OF _ no_secrets_frame(1)])
  show "no_secrets (fst (get_memory org_id x d))"
    using assms by (auto simp: get_memory_def intro!: no_secrets_update split: sum.split)
  show "no_secrets (fst (mark_stale batch d))"
    using assms by (simp add: mark_stale_def Let_def no_secrets_update)
  have "no_secrets (fst (delete_memories P d))" for P
    using assms by (auto simp: delete_memories_def Let_def no_secrets_def in_update_where split: if_split_asm)
  then show "no_secrets (fst (cleanup_expired d))"
    by (simp add: cleanup_expired_def split_beta no_secrets_update)
qed

lemma memory_call_secrets:
  "memory_call env w w' \<Longrightarrow> index_law env \<Longrightarrow> me_llm env = None \<Longrightarrow> no_secrets (w_db w) \<Longrightarrow> no_secrets (w_db w')"
proof (induction rule: memory_call.induct)
  case (consolidate w i)
  then show ?case using memory_secrets.consolidated [of env w w i] by (simp add: no_secrets_def)
next
  case (create w org_id ag pr ty scope src content imp meta expires)
  then show ?case using memory_secrets.stored [of env w w] by (simp add: no_secrets_def)
next
  case (background w batch)
  then show ?case using memory_secrets.background [of env w w batch] by (simp add: no_secrets_def)
qed (simp_all add: on_db_fst house_keeping_content)

text \<open>
  C12: Without a language model no sequence of calls stores a text the check takes for a secret: what passed
  the check is stored cut and trimmed, and a merge takes one of two texts that passed. The vector index
  gives rows of the table.
\<close>

theorem no_secret_stored:
  assumes "(memory_call env)\<^sup>*\<^sup>* w w'" and "index_law env" and "me_llm env = None" and "no_secrets (w_db w)"
  shows "no_secrets (w_db w')"
  using assms(1,4) by (induction rule: rtranclp_induct) (auto dest: memory_call_secrets [OF _ assms(2,3)])

section \<open>What a reader sees\<close>

definition inactive :: "string set" where
  "inactive = {''superseded'', ''archived'', ''stale'', ''merged''}"

lemma dedup_Cons:
  "deduplicate_for_context seen (m # ms) =
     (if normalize_content (mem_content m) \<in> seen \<or> mem_status m \<in> inactive then deduplicate_for_context seen ms
      else m # deduplicate_for_context (insert (normalize_content (mem_content m)) seen) ms)"
  unfolding inactive_def deduplicate_for_context.simps Let_def by (simp only: split: if_split) blast

lemma dedup_props:
  "set (deduplicate_for_context seen ms) \<subseteq> {m \<in> set ms. mem_status m \<notin> inactive}
   \<and> distinct (map (\<lambda>m. normalize_content (mem_content m)) (deduplicate_for_context seen ms))
   \<and> (\<forall>m \<in> set (deduplicate_for_context seen ms). normalize_content (mem_content m) \<notin> seen)
   \<and> length (deduplicate_for_context seen ms) \<le> length ms"
proof (induction ms arbitrary: seen)
  case (Cons m ms)
  show ?case
    using Cons [of seen] Cons [of "insert (normalize_content (mem_content m)) seen"]
    by (auto simp: dedup_Cons simp del: deduplicate_for_context.simps(2))
qed simp


text \<open>A reader that names only a project gets an error, with any table.\<close>

lemma retrieve_project_fails: "retrieve env org_id None (Some p) q limit min_imp d = fail ''operator does not exist: uuid = real''"
  by (simp add: retrieve_def scope_filter_def)

text \<open>
  The filter of superseded rows is applied to the list the user asked for by status too, so a list of
  archived, superseded, stale or merged memories is empty.
\<close>

lemma list_inactive_empty:
  assumes "status \<in> {''superseded'', ''archived'', ''stale'', ''merged''}"
  shows "list_memories org_id ag pr status scope ty limit d = []"
proof -
  have s: "status \<in> inactive" using assms by (simp only: inactive_def)
  then have ne: "status \<noteq> []" by (auto simp: inactive_def)
  have inner: "scan_memories_extended xs = []" if "\<forall>m \<in> set xs. mem_status m = status" for xs
  proof -
    have "\<forall>m \<in> set (deduplicate_for_context {} xs). m \<in> set xs \<and> mem_status m \<notin> inactive" using dedup_props [of "{}" xs] by blast
    then have "set (deduplicate_for_context {} xs) = {}" using that s by (intro equals0I) auto
    then show ?thesis by (simp only: scan_memories_extended_def set_empty)
  qed
  show ?thesis unfolding list_memories_def Let_def by (rule inner) (use ne in \<open>auto dest!: in_set_takeD\<close>)
qed

section \<open>A memory that is replaced\<close>

lemma insert_memory_ok:
  assumes "insert_memory env i hash idem emb st content d = (d', ok x)"
  shows "mem_status x = st \<and> memories d' = memories d @ [x] \<and> mem_id x = next_id d \<and> mem_content x = content
    \<and> mem_content_hash x = hash \<and> mem_organization_id x = ci_organization_id i \<and> mem_scope x = ci_scope i
    \<and> mem_agent_id x = ci_agent_id i \<and> mem_project_id x = ci_project_id i \<and> mem_conversation_id x = ci_conversation_id i
    \<and> mem_task_id x = ci_task_id i \<and> memory_checks x"
proof (rule insert_memory_cases [OF assms [unfolded insert_memory_def]], goal_cases)
  case (2 y)
  from 2(1) have "y = x" by simp
  with 2(2,3,6) show ?case by simp
qed simp

lemma supersede_refused:
  assumes "mem_inv (w_db w)" and "m \<in> set (memories (w_db w))" and "mem_id m = mem_id cand"
  shows "memories (w_db (supersede env cand w)) = memories (w_db w)"
proof -
  let ?d = "w_db (fst (new_uuid w))"
  let ?f = "\<lambda>x. x\<lparr>mem_status := ''superseded'', mem_superseded_by := Some (next_id (w_db w)),
      mem_metadata := json_concat (mem_metadata x) [(''superseded_reason'', JStr ''update''),
        (''superseded_at'', JStr (me_time env (now (w_db w))))]\<rparr>"
  have "\<not> opt_ref (mem_superseded_by (?f m)) (map mem_id (memories ?d))"
    using assms(1) by (auto simp: mem_inv_def Let_def opt_ref_def)
  moreover obtain d' r where u: "update_memories (by_id (mem_id cand)) ?f ?d = (d', r)" by fastforce
  ultimately have "d' = ?d"
    using assms(2,3) by (elim update_memories_cases) (auto simp: by_id_def)
  then show ?thesis using u by (simp add: supersede_def Let_def split_beta)
qed

lemma update_status_kept:
  assumes "\<And>m. mem_id (f m) = mem_id m \<and> mem_status (f m) = mem_status m"
  shows "map (\<lambda>m. (mem_id m, mem_status m)) (memories (fst (update_memories P f d))) = map (\<lambda>m. (mem_id m, mem_status m)) (memories d)"
proof -
  obtain d' r where u: "update_memories P f d = (d', r)" by fastforce
  have "map (\<lambda>m. (mem_id m, mem_status m)) (memories d') = map (\<lambda>m. (mem_id m, mem_status m)) (memories d)"
    by (rule update_memories_cases [OF u]) (use assms in \<open>simp_all add: update_where_def\<close>)
  with u show ?thesis by simp
qed

lemma audit_db [simp]: "w_db (insert_audit org_id a x w) = w_db w"
  by (simp add: insert_audit_def)

lemma touch_db [simp]: "w_db (touch f w) = f (w_db w)"
  by (simp add: touch_def)

lemma merge_statuses:
  "map (\<lambda>m. (mem_id m, mem_status m)) (memories (w_db (fst (merge_into env i m conf vr er meta reason w))))
   = map (\<lambda>m. (mem_id m, mem_status m)) (memories (w_db w))"
proof -
  let ?f = "\<lambda>x. x\<lparr>mem_content := choose_stronger_content (mem_content m) (ci_content i),
      mem_content_hash := content_hash env (normalize_content (choose_stronger_content (mem_content m) (ci_content i))),
      mem_importance := max (mem_importance m) (ci_importance i), mem_confidence := conf,
      mem_last_confirmed_at := Some (now (w_db w)), mem_last_accessed_at := Some (now (w_db w)),
      mem_version := mem_version x + 1, mem_metadata := json_concat (mem_metadata x) meta\<rparr>"
  have "map (\<lambda>m. (mem_id m, mem_status m)) (memories (w_db (fst (on_db (update_memories (by_id (mem_id m)) ?f) (touch (create_version m vr) w)))))
      = map (\<lambda>m. (mem_id m, mem_status m)) (memories (w_db w))"
    using update_status_kept [of ?f "by_id (mem_id m)" "create_version m vr (w_db w)"] by (simp add: on_db_fst)
  then show ?thesis by (simp add: merge_into_def Let_def split_beta split: sum.split)
qed

lemma merge_into_answer: "snd (merge_into env i m conf vr er meta reason w) = ok out \<Longrightarrow>
    co_result out = MERGED \<and> co_related_id out = Some (mem_id m)"
  by (auto simp: merge_into_def Let_def split_beta split: sum.split_asm)

lemma handle_merged:
  assumes "handle_merge env i m conf w = (w', ok out)"
  shows "map (\<lambda>m. (mem_id m, mem_status m)) (memories (w_db w')) = map (\<lambda>m. (mem_id m, mem_status m)) (memories (w_db w))
    \<and> co_result out = MERGED"
proof -
  have "\<exists>c vr er meta reason. handle_merge env i m conf w = merge_into env i m c vr er meta reason w"
    unfolding handle_merge_def Let_def by blast
  with assms show ?thesis using merge_statuses merge_into_answer by (metis fst_conv snd_conv)
qed

text \<open>
  The statement that is to mark the old memory as superseded refers to a UUID that no memory has, and
  fails. So an update adds the new memory and leaves every old one with the status it had: both stay active.
\<close>

theorem update_leaves_old_active:
  assumes "handle_update env i cand hash idem emb w = (w', ok out)" and "mem_inv (w_db w)"
    and "m \<in> set (memories (w_db w))" and "mem_id m = mem_id cand"
  shows "\<exists>new. map (\<lambda>m. (mem_id m, mem_status m)) (memories (w_db w')) = map (\<lambda>m. (mem_id m, mem_status m)) (memories (w_db w)) @ new
    \<and> (co_result out = UPDATED \<longrightarrow> (\<exists>j. new = [(j, ''active'')]))"
proof -
  let ?st = "\<lambda>ms. map (\<lambda>m. (mem_id m, mem_status m)) ms"
  define v where "v = touch (emit_event (ci_organization_id i) (Some (mem_id cand)) (mem_scope cand) ''memory.updated'' (ci_correlation_id i)
      [(''superseded_by'', JStr ''new''), (''reason'', JStr ''update'')])
      (supersede env cand (touch (create_version cand ''superseded by update'') w))"
  have v: "memories (w_db v) = memories (w_db w)"
    using supersede_refused [of "touch (create_version cand ''superseded by update'') w" m cand env] assms(2-)
    by (simp add: v_def mem_inv_version)
  obtain d1 r where r: "insert_memory env i hash idem emb ''active'' (choose_stronger_content (mem_content cand) (ci_content i)) (w_db v) = (d1, r)"
    by fastforce
  have run: "on_db (insert_memory env i hash idem emb ''active'' (choose_stronger_content (mem_content cand) (ci_content i))) v
      = (v\<lparr>w_db := d1\<rparr>, r)" using r by (simp add: on_db_def)
  note step = assms(1) [unfolded handle_update_def Let_def v_def [symmetric] run]
  show ?thesis
  proof (cases r)
    case (Inl e)
    with r have d1: "d1 = w_db v" unfolding insert_memory_def by (auto elim: insert_memory_cases)
    from step have "(w', ok out) = handle_merge env i cand 0 (v\<lparr>w_db := d1\<rparr>)" by (simp add: Inl)
    from handle_merged [OF this [symmetric]] have "?st (memories (w_db w')) = ?st (memories (w_db w)) \<and> co_result out = MERGED"
      using d1 v by simp
    then show ?thesis by (intro exI [of _ "[]"]) simp
  next
    case (Inr x)
    from insert_memory_ok [OF r [unfolded Inr]] have y: "mem_status x = ''active''" "memories d1 = memories (w_db v) @ [x]" by blast+
    have "memories (w_db w') = memories (fst (update_memories (by_id (mem_id cand)) (\<lambda>q. q\<lparr>mem_superseded_by := Some (mem_id x)\<rparr>) d1))"
      using step by (auto simp: Inr)
    then have "?st (memories (w_db w')) = ?st (memories d1)" using update_status_kept by simp
    with y v show ?thesis by (intro exI [of _ "[(mem_id x, ''active'')]"]) simp
  qed
qed

section \<open>A memory that is said again\<close>

lemma update_by_id_last:
  assumes "mem_id x = j" and "\<forall>m \<in> set ms. mem_id m \<noteq> j"
  shows "update_where (by_id j) f (ms @ [x]) = ms @ [f x]"
  using assms by (auto simp: update_where_def by_id_def intro: map_idI)

text \<open>What a created row has in common with the input, whether or not its confidence was corrected.\<close>

definition row_of :: "mem_env \<Rightarrow> consolidate_input \<Rightarrow> memory \<Rightarrow> bool" where
  "row_of env i m \<longleftrightarrow> same_scope i m \<and> mem_content m = take 5000 (trim_space (ci_content i))
     \<and> mem_content_hash m = content_hash env (normalize_content (ci_content i))"

lemma create_new_ok:
  assumes "create_new_memory env i (content_hash env (normalize_content (ci_content i))) idem emb w = (w', ok out)"
    and "co_result out = CREATED" and "mem_inv (w_db w)"
  shows "\<exists>m x. co_memory out = Some m \<and> memories (w_db w') = memories (w_db w) @ [x] \<and> row_of env i x \<and> mem_id x = mem_id m
    \<and> 0 \<le> ci_importance i \<and> ci_importance i \<le> 1"
proof -
  let ?content = "take 5000 (trim_space (ci_content i))" and ?hash = "content_hash env (normalize_content (ci_content i))"
  obtain d1 r where r: "insert_memory env i ?hash idem emb ''active'' ?content (w_db w) = (d1, r)" by fastforce
  have run: "on_db (insert_memory env i ?hash idem emb ''active'' ?content) w = (w\<lparr>w_db := d1\<rparr>, r)"
    using r by (simp add: on_db_def)
  note step = assms(1) [unfolded create_new_memory_def Let_def run]
  show ?thesis
  proof (cases r)
    case (Inl e)
    with step assms(2) show ?thesis by (auto split: if_split_asm sum.split_asm)
  next
    case (Inr x)
    let ?f = "\<lambda>q. q\<lparr>mem_confidence := default_confidence i, mem_importance := default_importance i\<rparr>"
    note x = insert_memory_ok [OF r [unfolded Inr]]
    have row: "row_of env i x" using x by (simp add: row_of_def same_scope_def)
    have imp: "0 \<le> ci_importance i \<and> ci_importance i \<le> 1"
      using r by (auto simp: insert_memory_def insert_memory_row_def Let_def memory_checks_def Inr split: if_split_asm)
    have old: "\<forall>m \<in> set (memories (w_db w)). mem_id m \<noteq> mem_id x"
      using assms(3) x by (auto simp: mem_inv_def Let_def)
    obtain d2 r2 where u: "update_memories (by_id (mem_id x)) ?f d1 = (d2, r2)" by fastforce
    have "\<exists>y. memories d2 = memories (w_db w) @ [y] \<and> row_of env i y \<and> mem_id y = mem_id x"
    proof (rule update_memories_cases [OF u], goal_cases)
      case (2 n)
      then have "memories d2 = update_where (by_id (mem_id x)) (\<lambda>q. (?f q)\<lparr>mem_updated_at := now d1\<rparr>) (memories d1)" by simp
      also have "memories d1 = memories (w_db w) @ [x]" using x by blast
      finally have "memories d2 = memories (w_db w) @ [(?f x)\<lparr>mem_updated_at := now d1\<rparr>]"
        using update_by_id_last [OF refl old] by simp
      moreover have "row_of env i ((?f x)\<lparr>mem_updated_at := now d1\<rparr>)" using row by (simp add: row_of_def same_scope_def)
      ultimately show ?case by simp
    qed (use x row in auto)
    moreover have "memories (w_db w') = memories d1 \<or> memories (w_db w') = memories d2" "\<exists>m. co_memory out = Some m \<and> mem_id m = mem_id x"
      using step by (auto simp: Inr u split: if_split_asm)
    ultimately show ?thesis using x row imp by metis
  qed
qed

lemma contradiction_answer:
  assumes "handle_contradiction env i cand hash idem emb w = (w', ok out)"
  shows "co_result out \<noteq> CREATED"
proof -
  have u: "co_result out \<noteq> CREATED" if "handle_update env i cand hash idem emb w = (w', ok out)"
  proof -
    have "co_result out = MERGED" if "handle_merge env i cand 0 v = (w', ok out)" for v
      using handle_merged [OF that] by blast
    with that show ?thesis by (auto simp: handle_update_def Let_def split_beta split: sum.split_asm)
  qed
  from assms u show ?thesis
    by (auto simp: handle_contradiction_def Let_def split_beta split: sum.split_asm if_split_asm)
qed

lemma update_answer: "handle_update env i cand hash idem emb w = (w', ok out) \<Longrightarrow> co_result out \<noteq> CREATED"
proof -
  have "co_result out = MERGED" if "handle_merge env i cand 0 v = (w', ok out)" for v
    using handle_merged [OF that] by blast
  then show "handle_update env i cand hash idem emb w = (w', ok out) \<Longrightarrow> co_result out \<noteq> CREATED"
    by (auto simp: handle_update_def Let_def split_beta split: sum.split_asm)
qed

lemma with_created:
  "consolidate_with env i hash idem emb cands w = (w', ok out) \<Longrightarrow> co_result out = CREATED \<Longrightarrow>
    create_new_memory env i hash idem emb w = (w', ok out)"
proof (induction cands)
  case (Cons c cs)
  have no: "handle_merge env i' c conf w \<noteq> (w', ok out)" "handle_contradiction env i c hash idem emb w \<noteq> (w', ok out)"
    "handle_update env i c hash idem emb w \<noteq> (w', ok out)" for i' conf
    using Cons.prems(2) handle_merged [of env i' c conf w w' out] contradiction_answer update_answer by auto
  with Cons.prems have "consolidate_with env i hash idem emb cs w = (w', ok out)"
    by (auto simp: split_beta split: if_split_asm option.split_asm sum.split_asm)
  with Cons.IH Cons.prems(2) show ?case by blast
qed simp

lemma choose_same: "trim_space s \<noteq> [] \<Longrightarrow> choose_stronger_content (trim_space s) s = trim_space s"
  by (simp add: choose_stronger_content_def Let_def)

lemma normalize_trim: "normalize_content (trim_space s) = normalize_content s"
  by (simp add: normalize_content_def)

lemma keys_updated:
  assumes "unique_keys (xs @ [x])" and "memory_key y = memory_key x" and "indexed y = indexed x"
  shows "unique_keys (xs @ [y])"
  using assms by (cases "indexed x") (simp_all add: unique_keys_def)

lemma exact_answer:
  assumes "handle_exact_duplicate env i j hash idem w = (w', ok out)" and "get_memory_by_id j (w_db w) = ok m"
  shows "co_result out = MERGED"
proof -
  from assms have "snd (handle_exact_duplicate env i j hash idem w) = ok out" by simp
  then show ?thesis using merge_into_answer by (auto simp: handle_exact_duplicate_def assms(2))
qed

lemma row_merged:
  assumes inv: "mem_inv (w_db w)" and ms: "memories (w_db w) = ms @ [x]" and row: "row_of env i x"
    and c: "trim_space (ci_content i) \<noteq> []" "length (trim_space (ci_content i)) \<le> 5000"
    and imp: "0 \<le> ci_importance i" "ci_importance i \<le> 1"
  shows "\<exists>w2 out. handle_exact_duplicate env i (mem_id x) hash idem w = (w2, ok out) \<and> co_result out = MERGED
    \<and> co_related_id out = Some (mem_id x) \<and> map mem_id (memories (w_db w2)) = map mem_id (memories (w_db w))"
proof -
  let ?conf = "reinforce_confidence (mem_confidence x) (ci_confidence i) (ci_source i)"
  let ?meta = "[(''consolidated'', JBool True), (''last_seen'', JStr (me_time env (now (w_db w)))),
              (''merge_reason'', JStr ''exact_duplicate'')]"
  let ?f = "\<lambda>q. q\<lparr>mem_content := choose_stronger_content (mem_content x) (ci_content i),
      mem_content_hash := content_hash env (normalize_content (choose_stronger_content (mem_content x) (ci_content i))),
      mem_importance := max (mem_importance x) (ci_importance i), mem_confidence := ?conf,
      mem_last_confirmed_at := Some (now (w_db w)), mem_last_accessed_at := Some (now (w_db w)),
      mem_version := mem_version q + 1, mem_metadata := json_concat (mem_metadata q) ?meta\<rparr>"
  from inv have "mem_id x \<notin> mem_id ` set ms" "memory_checks x" "unique_keys (ms @ [x])"
      "opt_ref (mem_superseded_by x) (map mem_id (memories (w_db w)))"
    by (simp_all add: mem_inv_def Let_def ms)
  then have fresh: "\<forall>m \<in> set ms. mem_id m \<noteq> mem_id x" "memory_checks x" "unique_keys (ms @ [x])"
      "opt_ref (mem_superseded_by x) (map mem_id (memories (w_db w)))"
    by (metis image_eqI)+
  then have get: "get_memory_by_id (mem_id x) (w_db w) = ok x"
    by (auto simp: get_memory_by_id_def ms by_id_def intro: query_row_append_fresh)
  have conf: "0 \<le> ?conf \<and> ?conf \<le> 1"
    using fresh(2) by (auto simp: reinforce_confidence_def Let_def memory_checks_def min_def field_simps)
  define v where "v = touch (create_version x ''reinforce duplicate'') w"
  have v: "memories (w_db v) = ms @ [x]" by (simp add: v_def ms)
  have content: "mem_content (?f x) = mem_content x" "mem_content_hash (?f x) = mem_content_hash x"
    using row c by (simp_all add: row_of_def choose_same normalize_trim)
  obtain d2 r where u: "update_memories (by_id (mem_id x)) ?f (w_db v) = (d2, r)" by fastforce
  have upd: "update_where (by_id (mem_id x)) (\<lambda>q. (?f q)\<lparr>mem_updated_at := now (w_db v)\<rparr>) (ms @ [x])
      = ms @ [(?f x)\<lparr>mem_updated_at := now (w_db v)\<rparr>]"
    by (rule update_by_id_last [OF refl fresh(1)])
  have keys: "unique_keys (ms @ [(?f x)\<lparr>mem_updated_at := now (w_db v)\<rparr>])"
    by (rule keys_updated [OF fresh(3)]) (use content in \<open>simp_all add: memory_key_def indexed_def\<close>)
  have only: "m = x" if "m \<in> set (ms @ [x])" "by_id (mem_id x) m" for m
    using that fresh(1) by (auto simp: by_id_def)
  have checks: "memory_checks (?f x)" using fresh(2) conf imp by (simp add: memory_checks_def max_def)
  have "r = ok (count_where (by_id (mem_id x)) (ms @ [x])) \<and> memories d2 = ms @ [(?f x)\<lparr>mem_updated_at := now (w_db v)\<rparr>]"
  proof -
    have a: "\<not> (\<exists>m \<in> set (memories (w_db v)). by_id (mem_id x) m \<and> \<not> memory_checks (?f m))"
      using only checks unfolding v by blast
    have b: "\<not> (\<exists>m \<in> set (memories (w_db v)). by_id (mem_id x) m \<and> \<not> opt_ref (mem_superseded_by (?f m)) (map mem_id (memories (w_db v))))"
      using only fresh(4) unfolding v ms by fastforce
    show ?thesis
      using u [unfolded update_memories_def Let_def if_not_P [OF a] if_not_P [OF b]] keys
      by (simp only: v upd if_False simp_thms prod.inject) (auto simp: v)
  qed
  moreover have "on_db (update_memories (by_id (mem_id x)) ?f) v = (v\<lparr>w_db := d2\<rparr>, r)" using u by (simp add: on_db_def)
  ultimately show ?thesis
    by (simp add: handle_exact_duplicate_def get merge_into_def Let_def v_def [symmetric] ms)
qed

text \<open>
  To say a thing again adds no memory: after a memory was created the same input is merged into that row,
  which keeps its ID, as long as the text was not cut.
\<close>

theorem repeated_memory_merged:
  assumes "consolidate env i w = (w1, ok out)" and "co_result out = CREATED" and "mem_inv (w_db w)"
    and "length (trim_space (ci_content i)) \<le> 5000"
  shows "\<exists>m w2 out2. co_memory out = Some m \<and> consolidate env i w1 = (w2, ok out2) \<and> co_result out2 = MERGED
    \<and> co_related_id out2 = Some (mem_id m) \<and> map mem_id (memories (w_db w2)) = map mem_id (memories (w_db w1))"
proof -
  let ?hash = "content_hash env (normalize_content (ci_content i))" and ?idem = "idempotency_key_of env i (content_hash env (normalize_content (ci_content i)))"
  let ?P = "\<lambda>m. same_scope i m \<and> mem_content_hash m = ?hash"
  have pass: "trim_space (ci_content i) \<noteq> []" "normalize_content (ci_content i) \<noteq> []"
      "\<not> is_low_value (ci_content i) (ci_importance i)" "\<not> is_secret_content (ci_content i)"
    using assms(1,2) by (auto simp: consolidate_def Let_def rejected_def split: if_split_asm)
  have other: "query_row ?P (memories (w_db w)) \<noteq> ok m" for m
  proof
    assume q: "query_row ?P (memories (w_db w)) = ok m"
    then have "m \<in> set (memories (w_db w))" using query_row_okD by fastforce
    then have "get_memory_by_id (mem_id m) (w_db w) = ok m"
      using assms(3) find_distinct [of mem_id "memories (w_db w)" m]
      by (simp add: get_memory_by_id_def by_id_def [abs_def] query_row_cases mem_inv_def Let_def)
    moreover have "handle_exact_duplicate env i (mem_id m) ?hash ?idem w = (w1, ok out)"
      using assms(1) pass q by (simp add: consolidate_def Let_def)
    ultimately have "co_result out = MERGED" by (rule exact_answer [rotated])
    with assms(2) show False by simp
  qed
  then obtain e where none: "query_row ?P (memories (w_db w)) = fail e" by (cases "query_row ?P (memories (w_db w))") auto
  obtain emb cands where "consolidate_with env i ?hash ?idem emb cands w = (w1, ok out)"
    using assms(1) pass none by (auto simp: consolidate_def Let_def)
  from create_new_ok [OF with_created [OF this assms(2)] assms(2,3)] obtain m x where
    x: "co_memory out = Some m" "memories (w_db w1) = memories (w_db w) @ [x]" "row_of env i x" "mem_id x = mem_id m"
      "0 \<le> ci_importance i" "ci_importance i \<le> 1" by blast
  have inv: "mem_inv (w_db w1)" using memory_call_inv [OF memory_call.consolidate, of w env i] assms(1,3) by simp
  from x(3) none have q: "query_row ?P (memories (w_db w1)) = ok x"
    by (auto simp: x(2) row_of_def query_row_cases(2) intro!: query_row_append_fresh)
  from row_merged [OF inv x(2,3) pass(1) assms(4) x(5,6), of ?hash ?idem] obtain w2 out2 where
    m: "handle_exact_duplicate env i (mem_id x) ?hash ?idem w1 = (w2, ok out2)" "co_result out2 = MERGED"
      "co_related_id out2 = Some (mem_id x)" "map mem_id (memories (w_db w2)) = map mem_id (memories (w_db w1))" by blast
  have "consolidate env i w1 = (w2, ok out2)" using pass q m(1) by (simp add: consolidate_def Let_def)
  with x m show ?thesis by metis
qed

section \<open>The background\<close>

lemma handle_merge_statuses:
  "map (\<lambda>m. (mem_id m, mem_status m)) (memories (w_db (fst (handle_merge env i m c w)))) = map (\<lambda>m. (mem_id m, mem_status m)) (memories (w_db w))"
  unfolding handle_merge_def Let_def by (rule merge_statuses)

lemma merge_pairs_frame:
  "n < batch \<Longrightarrow> snd (merge_pairs env batch n ps w) \<le> batch
    \<and> map (\<lambda>m. (mem_id m, mem_status m)) (memories (w_db (fst (merge_pairs env batch n ps w))))
      = map (\<lambda>m. (mem_id m, mem_status m)) (memories (w_db w))"
proof (induction ps arbitrary: n w)
  case (Cons p ps)
  obtain a b where p: "p = (a, b)" by (cases p)
  obtain w1 r where h: "handle_merge env (item_input b) (partial_memory a) (4 / 5) w = (w1, r)" by fastforce
  have "map (\<lambda>m. (mem_id m, mem_status m)) (memories (w_db w1)) = map (\<lambda>m. (mem_id m, mem_status m)) (memories (w_db w))"
    using handle_merge_statuses [of env "item_input b" "partial_memory a" "4 / 5" w] h by simp
  with Cons.IH [of n w] Cons.IH [of n w1] Cons.IH [of "n + 1" w1] Cons.prems show ?case
    by (auto simp: p h split: sum.split)
qed simp

text \<open>
  A round in the background merges at most the number of pairs it is allowed, and neither removes a
  memory nor changes a status: of two that it merges both are there as before, to be merged again.
\<close>

theorem background_bounded:
  "snd (background_consolidation env batch w) \<le> nat (if batch \<le> 0 then 20 else batch)
   \<and> map (\<lambda>m. (mem_id m, mem_status m)) (memories (w_db (fst (background_consolidation env batch w))))
     = map (\<lambda>m. (mem_id m, mem_status m)) (memories (w_db w))"
  unfolding background_consolidation_def Let_def by (rule merge_pairs_frame) simp

section \<open>The service in the runtime\<close>

lemma mem_inv_frame:
  assumes "memories d' = memories d" and "memory_versions d' = memory_versions d" and "memory_events d' = memory_events d"
    and "next_id d \<le> next_id d'" and "mem_inv d"
  shows "mem_inv d'"
  using assms by (auto simp: mem_inv_def Let_def)

text \<open>What concerns the memories in the frames of the other parts.\<close>

definition memory_part_of :: "db \<Rightarrow> memory list \<times> memory_version list \<times> memory_event list" where
  "memory_part_of d = (memories d, memory_versions d, memory_events d)"

lemma same_via: "f d' = f d \<Longrightarrow> (\<And>e. g (f e) = g e) \<Longrightarrow> g d' = g d"
  by metis

lemma touched_memories:
  assumes "tasks_touched d d' \<or> tools_touched d d' \<or> messages_touched d d' \<or> log_touched d d' \<or> runs_touched d d'"
  shows "memory_part_of d' = memory_part_of d \<and> next_id d \<le> next_id d'"
  using assms
    same_via [of "\<lambda>d. d\<lparr>tasks := [], task_assignments := [], task_events := [], next_id := 0, metrics := metrics empty_db\<rparr>" d' d memory_part_of]
    same_via [of "\<lambda>d. d\<lparr>executions := [], approvals := [], next_id := 0, metrics := metrics empty_db\<rparr>" d' d memory_part_of]
    same_via [of "\<lambda>d. d\<lparr>messages := [], message_threads := [], next_id := 0\<rparr>" d' d memory_part_of]
    same_via [of "\<lambda>d. d\<lparr>actions := [], next_id := 0\<rparr>" d' d memory_part_of]
    same_via [of "\<lambda>d. d\<lparr>runs := [], next_id := 0\<rparr>" d' d memory_part_of]
  unfolding touched_defs by (elim disjE conjE) (simp_all add: memory_part_of_def)

definition memory_ok :: "db \<Rightarrow> bool" where
  "memory_ok d \<longleftrightarrow> mem_inv d \<and> no_secrets d"

lemma memory_ok_touched:
  shows "tasks_touched d d' \<Longrightarrow> memory_ok d \<Longrightarrow> memory_ok d'" and "tools_touched d d' \<Longrightarrow> memory_ok d \<Longrightarrow> memory_ok d'"
    and "messages_touched d d' \<Longrightarrow> memory_ok d \<Longrightarrow> memory_ok d'" and "log_touched d d' \<Longrightarrow> memory_ok d \<Longrightarrow> memory_ok d'"
    and "runs_touched d d' \<Longrightarrow> memory_ok d \<Longrightarrow> memory_ok d'"
  using touched_memories [of d d'] mem_inv_frame [of d' d] by (simp_all add: memory_ok_def no_secrets_def memory_part_of_def)

lemma repo_step_memory:
  assumes "repo_step env d d'" and "rt_memory env = Some (memory_service menv)" and "index_law menv" and "me_llm menv = None"
    and "memory_ok d"
  shows "memory_ok d'"
  using assms(1)
proof cases
  case (remember svc org_id ag pr mt sc src content imp)
  let ?w = "fst (create menv org_id ag pr mt sc src content imp None None (world_of d))"
  have "memory_call menv (world_of d) ?w" by (rule memory_call.create)
  then have "mem_inv (w_db ?w) \<and> no_secrets (w_db ?w)"
    using memory_call_inv memory_call_secrets assms(3-5) by (auto simp: memory_ok_def world_of_def)
  moreover have "svc = memory_service menv" using remember(2) assms(2) by simp
  then have "d' = w_db ?w" using remember(1) by (simp add: memory_service_def split_beta)
  ultimately show ?thesis by (simp add: memory_ok_def)
next
  case (recall svc org_id ag pr q lm mn)
  then have "svc = memory_service menv" using assms(2) by simp
  then show ?thesis using recall(1) assms(5) by (simp add: memory_service_def)
next
  case fresh
  then show ?thesis using assms(5) memory_ok_touched(3) [of d d'] by (simp add: touched_defs)
next
  case (metric m)
  then show ?thesis using assms(5) memory_ok_touched(2) [of d d'] by (simp add: touched_defs)
next
  case (log r n ty name inp out st corr)
  then show ?thesis using memory_ok_touched(4) [OF create_action_touched assms(5)] by simp
next
  case (message org_id c th sender i body)
  then show ?thesis using memory_ok_touched(3) [OF create_message_touched assms(5)] by simp
next
  case (subtask g org_id p ch pt tm a u title desc prio dl corr cb)
  then show ?thesis using memory_ok_touched(1) [OF create_task_touched assms(5)] by simp
next
  case (assign g org_id tid a u aby)
  then show ?thesis using memory_ok_touched(1) [OF assign_task_touched assms(5)] by simp
next
  case (status org_id tid st actor aid pl)
  then show ?thesis using memory_ok_touched(1) [OF update_task_status_touched assms(5)] by simp
next
  case (task_event tid actor i ev pl corr)
  then show ?thesis using memory_ok_touched(1) [OF create_task_event_touched assms(5)] by simp
next
  case (tool te w p)
  then show ?thesis using memory_ok_touched(2) [OF execute_touched] assms(5) by simp
next
  case (run_status org_id rid st out err)
  then show ?thesis using memory_ok_touched(5) [OF run_updates_touched(1) assms(5)] by simp
next
  case (run_waiting org_id rid st it why pend out)
  then show ?thesis using memory_ok_touched(5) [OF run_updates_touched(2) assms(5)] by simp
next
  case (run_tokens org_id rid us)
  then show ?thesis using memory_ok_touched(5) [OF run_updates_touched(3) assms(5)] by simp
next
  case (run_created org_id agent task chan trig inp ctx corr parent)
  then show ?thesis using memory_ok_touched(5) [OF run_updates_touched(4) assms(5)] by simp
qed


section \<open>Witnesses\<close>

definition demo_memory_env :: mem_env where
  "demo_memory_env = \<lparr>me_go = demo_golib, me_time = (\<lambda>_. []), me_float = (\<lambda>_. ''0.010000''), me_hash = (\<lambda>s. s),
     me_embed = Some (\<lambda>_. ok [[1]]), me_llm = None, me_vector_ok = (\<lambda>v. v \<noteq> []), me_nearest = (\<lambda>_ ms. ms)\<rparr>"

lemma demo_memory_laws [simp]: "index_law demo_memory_env" "me_llm demo_memory_env = None"
  by (simp_all add: index_law_def demo_memory_env_def)

definition fact :: "string \<Rightarrow> consolidate_input" where
  "fact content = create_input 1 (Some 4) None ''agent'' ''agent'' ''manual'' content (5 / 10) None None 1000"

definition remembered :: world where
  "remembered = fst (consolidate demo_memory_env (fact ''the customer prefers short reports'') (world_of demo_db))"

lemma demo_db_memories: "mem_inv (w_db (world_of demo_db))" "no_secrets (w_db (world_of demo_db))"
  by (simp_all add: mem_inv_def no_secrets_def unique_keys_def world_of_def demo_db_def empty_db_def)

lemma remembered_call: "(memory_call demo_memory_env)\<^sup>*\<^sup>* (world_of demo_db) remembered"
  unfolding remembered_def by (rule r_into_rtranclp, rule memory_call.consolidate)


lemma no_secret_stored_witness: "no_secrets (w_db remembered)"
  by (rule no_secret_stored [OF remembered_call demo_memory_laws demo_db_memories(2)])


lemma repeated_memory_merged_witness:
  "\<exists>w2 out2. consolidate demo_memory_env (fact ''the customer prefers short reports'') remembered = (w2, ok out2) \<and> co_result out2 = MERGED"
proof -
  let ?i = "fact ''the customer prefers short reports''"
  let ?r = "consolidate demo_memory_env ?i (world_of demo_db)"
  have "(case snd ?r of Inr out \<Rightarrow> co_result out | Inl e \<Rightarrow> REJECTED) = CREATED" by code_simp
  then obtain out where r: "?r = (remembered, ok out)" "co_result out = CREATED"
    unfolding remembered_def by (cases "snd ?r") (auto simp: prod_eq_iff)
  have "length (trim_space (ci_content ?i)) \<le> 5000" by code_simp
  from repeated_memory_merged [OF r demo_db_memories(1) this] show ?thesis by blast
qed

definition updated_memory :: "world \<times> consolidate_output res" where
  "updated_memory = (case memories (w_db remembered) of
     m # _ \<Rightarrow> handle_update demo_memory_env (fact ''the customer prefers 3 reports'') m ''h'' ''k'' ''[1]'' remembered | [] \<Rightarrow> (remembered, fail []))"

lemma update_leaves_old_active_witness: "map mem_status (memories (w_db (fst updated_memory))) = [''active'', ''active'']"
proof -
  have one: "map (\<lambda>m. (mem_id m, mem_status m)) (memories (w_db remembered)) = [(100, ''active'')]" by code_simp
  then obtain m where m: "memories (w_db remembered) = [m]" by auto
  have "(case snd updated_memory of Inr out \<Rightarrow> co_result out | Inl e \<Rightarrow> REJECTED) = UPDATED" by code_simp
  then obtain out where r: "updated_memory = (fst updated_memory, ok out)" "co_result out = UPDATED"
    by (cases "snd updated_memory") (auto simp: prod_eq_iff)
  from r(1) have upd: "handle_update demo_memory_env (fact ''the customer prefers 3 reports'') m ''h'' ''k'' ''[1]'' remembered = (fst updated_memory, ok out)"
    by (subst (asm) (1) updated_memory_def) (simp add: m)
  have "mem_inv (w_db remembered)" unfolding remembered_def by (rule memory_call_inv [OF memory_call.consolidate demo_db_memories(1)])
  with update_leaves_old_active [OF upd, of m] r(2) m one
  obtain j where "map (\<lambda>m. (mem_id m, mem_status m)) (memories (w_db (fst updated_memory))) = [(100, ''active''), (j, ''active'')]"
    by auto
  then have "map snd (map (\<lambda>m. (mem_id m, mem_status m)) (memories (w_db (fst updated_memory)))) = [''active'', ''active'']" by simp
  then show ?thesis by (simp add: comp_def)
qed

definition remembering_env :: runtime_env where
  "remembering_env = scripted reply_done\<lparr>rt_memory := Some (memory_service demo_memory_env)\<rparr>"


end
