(* ===== verification/Scheduler.thy ===== *)
theory Scheduler
  imports World
begin

text \<open>
  \<^verbatim>\<open>backend/internal/scheduler/service.go\<close>: triggers of a schedule, and the loop that fires those that
  are due. A firing claims the trigger in a transaction, records a scheduled task, creates the task and
  enqueues its run. Several processes may read the due triggers before one of them claims.

  Times are whole seconds since 1970. A location is the offset it has from UTC at an instant; the
  database of locations and the parser of RFC 3339 are parameters.
\<close>

section \<open>The calendar\<close>

type_synonym location = "time \<Rightarrow> int"

record sched_env =
  se_go :: golib
  se_parse_time :: "string \<Rightarrow> time option"
  se_location :: "string \<Rightarrow> location option"

definition utc :: location where "utc t = 0"

definition in_zone :: "location \<Rightarrow> time \<Rightarrow> int" where "in_zone loc t = t + loc t"

definition weekday :: "int \<Rightarrow> int" where "weekday l = (l div 86400 + 4) mod 7"
definition hour_of :: "int \<Rightarrow> int" where "hour_of l = l mod 86400 div 3600"

text \<open>\<^verbatim>\<open>time.Date\<close>: the instant that has the given reading of the clock.\<close>

definition date_in :: "location \<Rightarrow> int \<Rightarrow> time" where
  "date_in loc l = (if loc l = 0 then l else l - loc (l - loc l))"

definition next_weekly :: "location \<Rightarrow> string \<Rightarrow> time \<Rightarrow> time" where
  "next_weekly loc cron t =
     (if cron = ''0 9 * * 1'' \<or> cron = ''weekly:mon@09:00''
      then (let l = in_zone loc t; days = (8 - weekday l) mod 7;
                days = (if days = 0 \<and> 9 \<le> hour_of l then 7 else days)
            in date_in loc ((l div 86400 + days) * 86400 + 9 * 3600))
      else t + 60)"

definition zone_of :: "sched_env \<Rightarrow> gomap option \<Rightarrow> location" where
  "zone_of env config =
     (let tz = (case mget_str config ''timezone'' of None \<Rightarrow> [] | Some s \<Rightarrow> s)
      in case se_location env (if tz = [] then ''UTC'' else tz) of None \<Rightarrow> utc | Some loc \<Rightarrow> loc)"

definition config_str :: "gomap option \<Rightarrow> string \<Rightarrow> string" where
  "config_str config k = (case mget_str config k of None \<Rightarrow> [] | Some s \<Rightarrow> s)"

section \<open>Triggers\<close>

definition valid_trigger_types :: "string list" where
  "valid_trigger_types = [''schedule'', ''message_received'', ''task_completed'', ''task_failed'', ''new_document'',
     ''approval_received'', ''project_event'']"

definition first_run :: "sched_env \<Rightarrow> string \<Rightarrow> gomap option \<Rightarrow> time \<Rightarrow> time option" where
  "first_run env ty config t =
     (if ty \<noteq> ''schedule'' then None
      else if config_str config ''scheduledAt'' \<noteq> [] then se_parse_time env (config_str config ''scheduledAt'')
      else if config_str config ''cron'' \<noteq> [] then Some (next_weekly (zone_of env config) (config_str config ''cron'') t)
      else None)"

definition create_trigger :: "sched_env \<Rightarrow> uuid \<Rightarrow> string \<Rightarrow> string \<Rightarrow> gomap option \<Rightarrow> uuid option \<Rightarrow> uuid option \<Rightarrow> uuid option \<Rightarrow> uuid
    \<Rightarrow> db \<Rightarrow> db \<times> trigger res" where
  "create_trigger env org_id name ty config agent tm project created_by d =
     (if ty \<notin> set valid_trigger_types then (d, fail ''invalid trigger_type'')
      else if org_id \<notin> set (orgs d) then (d, fail (fk_violation ''triggers_organization_id_fkey''))
      else if \<not> opt_ref agent (map ag_id (agents d)) then (d, fail (fk_violation ''triggers_agent_id_fkey''))
      else if \<not> opt_ref tm (map team_uuid (teams d)) then (d, fail (fk_violation ''triggers_team_id_fkey''))
      else if \<not> opt_ref project (map pr_id (projects d)) then (d, fail (fk_violation ''triggers_project_id_fkey''))
      else if created_by \<notin> set (users d) then (d, fail (fk_violation ''triggers_created_by_fkey''))
      else
        (let t = \<lparr>trg_id = next_id d, trg_organization_id = org_id, trg_name = name, trg_trigger_type = ty, trg_config = config,
                   trg_enabled = True, trg_agent_id = agent, trg_team_id = tm, trg_project_id = project,
                   trg_created_by = Some created_by, trg_last_triggered_at = None,
                   trg_next_run_at = first_run env ty config (now d), trg_created_at = now d, trg_updated_at = now d\<rparr>
         in (d\<lparr>triggers := triggers d @ [t], next_id := next_id d + 1\<rparr>, ok t)))"

definition list_triggers :: "uuid \<Rightarrow> db \<Rightarrow> trigger list" where
  "list_triggers org_id d = rev (filter (\<lambda>t. trg_organization_id t = org_id) (triggers d))"

definition get_trigger :: "uuid \<Rightarrow> uuid \<Rightarrow> db \<Rightarrow> trigger res" where
  "get_trigger org_id i d = query_row (\<lambda>t. trg_id t = i \<and> trg_organization_id t = org_id) (triggers d)"

text \<open>The scheduled tasks of a deleted trigger go with it.\<close>

definition delete_trigger :: "uuid \<Rightarrow> uuid \<Rightarrow> db \<Rightarrow> db" where
  "delete_trigger org_id i d =
     (let gone = (\<lambda>t. trg_id t = i \<and> trg_organization_id t = org_id);
          ids = trg_id ` set (filter gone (triggers d))
      in d\<lparr>triggers := filter (\<lambda>t. \<not> gone t) (triggers d),
           scheduled_tasks := filter (\<lambda>s. sch_trigger_id s \<notin> ids) (scheduled_tasks d)\<rparr>)"

section \<open>Firing\<close>

definition is_due :: "time \<Rightarrow> trigger \<Rightarrow> bool" where
  "is_due t trg \<longleftrightarrow> trg_enabled trg \<and> (case trg_next_run_at trg of None \<Rightarrow> False | Some u \<Rightarrow> u \<le> t)"

definition due_triggers :: "db \<Rightarrow> trigger list" where
  "due_triggers d = filter (\<lambda>t. trg_trigger_type t = ''schedule'' \<and> is_due (now d) t) (triggers d)"

text \<open>
  The claim: a row that is still due gets its next run; without a recurrence it is disabled. A \<^verbatim>\<open>cron\<close>
  that is neither absent, null nor a text leaves it enabled without a next run.
\<close>

definition claimed_row :: "sched_env \<Rightarrow> gomap option \<Rightarrow> time \<Rightarrow> trigger \<Rightarrow> trigger" where
  "claimed_row env config t trg =
     (let cron = config_str config ''cron''
      in (if cron \<noteq> [] then trg\<lparr>trg_next_run_at := Some (next_weekly (zone_of env config) cron t)\<rparr>
          else if mget config ''cron'' \<notin> {None, Some JNull, Some (JStr [])} then trg\<lparr>trg_next_run_at := None\<rparr>
          else trg\<lparr>trg_next_run_at := None, trg_enabled := False\<rparr>)
         \<lparr>trg_last_triggered_at := Some t, trg_updated_at := t\<rparr>)"

definition claim_trigger :: "sched_env \<Rightarrow> trigger \<Rightarrow> db \<Rightarrow> (uuid \<times> db) res" where
  "claim_trigger env rec d =
     (let P = (\<lambda>t. trg_id t = trg_id rec \<and> is_due (now d) t)
      in and_then (query_row P (triggers d)) (\<lambda>_.
           ok (trg_id rec, d\<lparr>triggers := update_where P (claimed_row env (trg_config rec) (now d)) (triggers d)\<rparr>)))"

definition scheduled_row :: "trigger \<Rightarrow> string \<Rightarrow> string \<Rightarrow> time \<Rightarrow> scheduled_task" where
  "scheduled_row rec title description t =
     (let tz = config_str (trg_config rec) ''timezone''
      in \<lparr>sch_id = 0, sch_organization_id = trg_organization_id rec, sch_trigger_id = trg_id rec, sch_project_id = trg_project_id rec,
          sch_team_id = trg_team_id rec, sch_agent_id = trg_agent_id rec, sch_title = title, sch_description = description,
          sch_status = ''scheduled'', sch_scheduled_at = (case trg_next_run_at rec of None \<Rightarrow> t | Some u \<Rightarrow> u),
          sch_timezone = (if tz = [] then ''UTC'' else tz), sch_recurrence = Some (config_str (trg_config rec) ''cron''),
          sch_created_at = t, sch_updated_at = t\<rparr>)"

definition insert_scheduled_task :: "scheduled_task \<Rightarrow> db \<Rightarrow> (uuid \<times> db) res" where
  "insert_scheduled_task s d =
     (if sch_organization_id s \<notin> set (orgs d) then fail (fk_violation ''scheduled_tasks_organization_id_fkey'')
      else if sch_trigger_id s \<notin> trg_id ` set (triggers d) then fail (fk_violation ''scheduled_tasks_trigger_id_fkey'')
      else if \<not> opt_ref (sch_project_id s) (map pr_id (projects d)) then fail (fk_violation ''scheduled_tasks_project_id_fkey'')
      else if \<not> opt_ref (sch_team_id s) (map team_uuid (teams d)) then fail (fk_violation ''scheduled_tasks_team_id_fkey'')
      else if \<not> opt_ref (sch_agent_id s) (map ag_id (agents d)) then fail (fk_violation ''scheduled_tasks_agent_id_fkey'')
      else ok (next_id d, d\<lparr>scheduled_tasks := scheduled_tasks d @ [s\<lparr>sch_id := next_id d\<rparr>], next_id := next_id d + 1\<rparr>))"

definition schedule_job :: "golib \<Rightarrow> uuid \<Rightarrow> uuid \<Rightarrow> uuid \<Rightarrow> uuid \<Rightarrow> job" where
  "schedule_job g org_id agent tid corr =
     agent_job (uuid_string g tid) [(''organization_id'', uuid_json g org_id), (''agent_id'', uuid_json g agent),
       (''task_id'', uuid_json g tid), (''correlation_id'', uuid_json g corr), (''trigger'', JStr ''schedule'')] 0 0"

text \<open>
  The creator that is read in the transaction is the nil UUID when the trigger has none any more.
  \<^verbatim>\<open>uuid.New()\<close> is drawn from the supply of the transaction.
\<close>

definition trigger_creator :: "uuid \<Rightarrow> db \<Rightarrow> uuid" where
  "trigger_creator i d =
     (case query_row (\<lambda>t. trg_id t = i) (triggers d) of
        Inl _ \<Rightarrow> nil_uuid
      | Inr t \<Rightarrow> (case trg_created_by t of None \<Rightarrow> nil_uuid | Some u \<Rightarrow> u))"

definition scheduled_task_row :: "trigger \<Rightarrow> uuid \<Rightarrow> string \<Rightarrow> string \<Rightarrow> uuid \<Rightarrow> uuid \<Rightarrow> task" where
  "scheduled_task_row rec project title description corr created_by =
     new_task_row (trg_organization_id rec) project None None (trg_team_id rec) None None title description
       ''pending'' ''medium'' None (Some corr) created_by"

text \<open>One due trigger; the answer is whether it counts. The error of the last commit is dropped.\<close>

definition fire_trigger :: "sched_env \<Rightarrow> trigger \<Rightarrow> world \<Rightarrow> world \<times> bool" where
  "fire_trigger env rec w =
     (let d = w_db w; g = se_go env; config = trg_config rec;
          title = (if config_str config ''title'' = [] then trg_name rec else config_str config ''title'');
          description = config_str config ''description'';
          (r1, t1) = tx_exec (claim_trigger env rec) (Some d);
          commit = (\<lambda>t. case tx_commit t of Inl _ \<Rightarrow> w | Inr d' \<Rightarrow> w\<lparr>w_db := d'\<rparr>)
      in case r1 of
           Inl _ \<Rightarrow> (w, False)
         | Inr _ \<Rightarrow>
             (case tx_exec (insert_scheduled_task (scheduled_row rec title description (now d))) t1 of
                (Inl _, _) \<Rightarrow> (w, False)
              | (Inr _, t2) \<Rightarrow>
                  (case (trg_project_id rec, t2) of
                     (Some p, Some d2) \<Rightarrow>
                       (let corr = next_id d2; d2 = d2\<lparr>next_id := next_id d2 + 1\<rparr>;
                            (r3, t3) = tx_exec (insert_task (scheduled_task_row rec p title description corr (trigger_creator (trg_id rec) d2))) (Some d2)
                        in case (r3, trg_agent_id rec, w_pool w) of
                             (Inr t, Some agent, Some _) \<Rightarrow>
                               (enqueue_job (schedule_job g (trg_organization_id rec) agent (t_id t) corr) (commit t3), True)
                           | _ \<Rightarrow> (commit t3, True))
                   | _ \<Rightarrow> (commit t2, True))))"

fun fire_all :: "sched_env \<Rightarrow> trigger list \<Rightarrow> world \<Rightarrow> world \<times> nat" where
  "fire_all env [] w = (w, 0)"
| "fire_all env (t # ts) w =
     (let (w, c) = fire_trigger env t w; (w, n) = fire_all env ts w in (w, if c then n + 1 else n))"

definition process_due_triggers :: "sched_env \<Rightarrow> world \<Rightarrow> world \<times> nat" where
  "process_due_triggers env w = fire_all env (due_triggers (w_db w)) w"

section \<open>The next run\<close>

text \<open>Monday nine o'clock in a zone.\<close>

definition monday_nine :: "location \<Rightarrow> time \<Rightarrow> bool" where
  "monday_nine loc t \<longleftrightarrow> weekday (in_zone loc t) = 1 \<and> in_zone loc t mod 86400 = 9 * 3600"

definition weekly :: "string \<Rightarrow> bool" where
  "weekly cron \<longleftrightarrow> cron = ''0 9 * * 1'' \<or> cron = ''weekly:mon@09:00''"

text \<open>The days from a day to the next Monday at nine.\<close>

definition monday_days :: "int \<Rightarrow> int" where
  "monday_days l = (let days = (8 - weekday l) mod 7 in if days = 0 \<and> 9 \<le> hour_of l then 7 else days)"

lemma next_weekly_fixed:
  assumes "weekly cron"
  shows "next_weekly (\<lambda>_. c) cron t = ((t + c) div 86400 + monday_days (t + c)) * 86400 + 9 * 3600 - c"
  using assms by (simp add: next_weekly_def weekly_def in_zone_def date_in_def monday_days_def Let_def)

lemma to_monday:
  fixes e :: int
  shows "(8 - e mod 7) mod 7 = (if e mod 7 \<le> 1 then 1 - e mod 7 else 8 - e mod 7)"
proof -
  have "0 \<le> e mod 7" "e mod 7 < 7" by simp_all
  then show ?thesis using mod_pos_pos_trivial [of "8 - e mod 7" 7] mod_pos_pos_trivial [of "1 - e mod 7" 7] mod_add_self2 [of "1 - e mod 7" 7]
    by (auto simp: algebra_simps)
qed

lemma on_monday:
  fixes e :: int
  shows "(e + (8 - e mod 7) mod 7) mod 7 = 1"
proof -
  have "(e + (8 - e mod 7) mod 7) mod 7 = (e mod 7 + (8 - e mod 7)) mod 7" by (simp only: mod_add_eq mod_add_left_eq mod_add_right_eq)
  then show ?thesis by simp
qed

lemma monday_at:
  fixes e k :: int
  assumes "0 < k" and "(e + k) mod 7 = 1"
  shows "(8 - e mod 7) mod 7 \<le> k \<and> ((8 - e mod 7) mod 7 = 0 \<longrightarrow> 7 \<le> k)"
proof -
  define q where "q = e mod 7"
  have q: "0 \<le> q" "q < 7" by (simp_all add: q_def)
  have m: "(q + k) mod 7 = 1" using assms(2) by (simp add: q_def mod_add_left_eq)
  then obtain j where j: "q + k = 7 * j + 1" using mult_div_mod_eq [of 7 "q + k"] by metis
  with q assms(1) have "1 < q \<Longrightarrow> 1 \<le> j" "q = 1 \<Longrightarrow> 1 \<le> j" "0 \<le> j" by linarith+
  moreover have z: "(8 - q) mod 7 = (if q \<le> 1 then 1 - q else 8 - q)" using to_monday [of e] by (simp only: q_def)
  ultimately show ?thesis using j q unfolding q_def [symmetric] z by auto
qed
lemma monday_days_range: "0 \<le> monday_days l \<and> monday_days l \<le> 7 \<and> (l div 86400 + 4 + monday_days l) mod 7 = 1"
proof -
  define e where "e = l div 86400 + 4"
  have "0 \<le> (8 - e mod 7) mod 7 \<and> (8 - e mod 7) mod 7 < 7" by simp
  moreover have "(8 - e mod 7) mod 7 = 0 \<Longrightarrow> (e + 7) mod 7 = 1" using on_monday [of e] by simp
  ultimately show ?thesis
    using on_monday [of e] unfolding monday_days_def weekday_def Let_def e_def [symmetric] by auto
qed

lemma nine_o_clock: "9 \<le> hour_of l \<longleftrightarrow> 9 * 3600 \<le> l mod 86400"
proof -
  have "0 \<le> l mod 86400" by simp
  then show ?thesis unfolding hour_of_def by linarith
qed

lemma monday_days_later: "l < (l div 86400 + monday_days l) * 86400 + 9 * 3600"
proof -
  define r where "r = l mod 86400"
  have l: "l = l div 86400 * 86400 + r" "0 \<le> r" "r < 86400" by (simp_all add: r_def)
  have "monday_days l = 0 \<Longrightarrow> r < 9 * 3600" using nine_o_clock [of l] by (auto simp: monday_days_def r_def Let_def split: if_splits)
  with monday_days_range [of l] l show ?thesis by (cases "monday_days l = 0") (simp_all add: algebra_simps)
qed

lemma monday_days_first:
  assumes "l < v" and "weekday v = 1" and "v mod 86400 = 9 * 3600"
  shows "(l div 86400 + monday_days l) * 86400 + 9 * 3600 \<le> v"
proof -
  define k where "k = v div 86400 - l div 86400"
  have v: "v = (l div 86400 + k) * 86400 + 9 * 3600"
    using div_mult_mod_eq [of v 86400] assms(3) by (simp add: k_def)
  have "0 \<le> k" using assms(1) zdiv_mono1 [of l v 86400] by (simp add: k_def)
  have m: "(l div 86400 + 4 + k) mod 7 = 1" using assms(2) by (simp add: weekday_def k_def algebra_simps)
  have "k = 0 \<Longrightarrow> l mod 86400 < 9 * 3600"
  proof -
    assume "k = 0"
    then have "l < l div 86400 * 86400 + 9 * 3600" using assms(1) v by simp
    then show ?thesis using minus_div_mult_eq_mod [of l 86400] by linarith
  qed
  then have z: "k = 0 \<Longrightarrow> \<not> 9 \<le> hour_of l" using nine_o_clock [of l] by linarith
  have "monday_days l \<le> k"
  proof (cases "k = 0")
    case True
    with m have "(8 - weekday l) mod 7 = 0" by (simp add: weekday_def)
    with z True show ?thesis by (simp add: monday_days_def)
  next
    case False
    define e where "e = l div 86400 + 4"
    with monday_at [of k e] False \<open>0 \<le> k\<close> m show ?thesis unfolding monday_days_def weekday_def Let_def e_def [symmetric] by auto
  qed
  then show ?thesis unfolding v by simp
qed

text \<open>
  In a zone whose offset does not change, a weekly trigger runs next at the first Monday nine o'clock
  after the given time: never at once, and none is passed over.
\<close>

theorem next_weekly_first:
  assumes "weekly cron"
  shows "t < next_weekly (\<lambda>_. c) cron t \<and> monday_nine (\<lambda>_. c) (next_weekly (\<lambda>_. c) cron t)
    \<and> (\<forall>v. t < v \<and> monday_nine (\<lambda>_. c) v \<longrightarrow> next_weekly (\<lambda>_. c) cron t \<le> v)"
proof (intro conjI allI impI)
  let ?u = "next_weekly (\<lambda>_. c) cron t"
  have u: "?u + c = ((t + c) div 86400 + monday_days (t + c)) * 86400 + 9 * 3600"
    by (simp add: next_weekly_fixed [OF assms])
  show "t < ?u" using monday_days_later [of "t + c"] u by linarith
  have "(?u + c) div 86400 = (t + c) div 86400 + monday_days (t + c)" "(?u + c) mod 86400 = 9 * 3600"
    unfolding u by (simp_all only: mod_mult_self4 mod_mult_self3 div_mult_self3) simp_all
  then show "monday_nine (\<lambda>_. c) ?u"
    using monday_days_range [of "t + c"] by (simp add: monday_nine_def in_zone_def weekday_def algebra_simps)
  show "?u \<le> v" if "t < v \<and> monday_nine (\<lambda>_. c) v" for v
    using monday_days_first [of "t + c" "v + c"] that u by (simp add: monday_nine_def in_zone_def)
qed

lemma next_weekly_first_witness: "next_weekly utc ''0 9 * * 1'' 0 = 4 * 86400 + 9 * 3600 \<and> 0 < next_weekly utc ''0 9 * * 1'' 0"
proof -
  have "next_weekly utc ''0 9 * * 1'' 0 = 4 * 86400 + 9 * 3600" by code_simp
  moreover have "utc = (\<lambda>_. 0)" by (simp add: utc_def fun_eq_iff)
  ultimately show ?thesis using next_weekly_first [of "''0 9 * * 1''" 0 0] by (simp add: weekly_def)
qed

end
