(* ===== verification/SchedulerFacts.thy ===== *)
theory SchedulerFacts
  imports Scheduler
begin

text \<open>
  The scheduler with several processes: reading the due triggers and firing one of them are separate
  steps, so a process may fire from a reading that another has overtaken. The claim makes this harmless.
\<close>

section \<open>A firing\<close>

lemma claim_triggerD:
  assumes "claim_trigger env rec d = ok (i, d')"
  obtains t where "t \<in> set (triggers d)" "trg_id t = trg_id rec" "is_due (now d) t" "i = trg_id rec"
    "d' = d\<lparr>triggers := update_where (\<lambda>t. trg_id t = trg_id rec \<and> is_due (now d) t)
      (claimed_row env (trg_config rec) (now d)) (triggers d)\<rparr>"
proof (cases "query_row (\<lambda>t. trg_id t = trg_id rec \<and> is_due (now d) t) (triggers d)")
  case (Inl e)
  with assms show ?thesis by (simp add: claim_trigger_def)
next
  case (Inr t)
  from assms have "i = trg_id rec \<and> d' = d\<lparr>triggers := update_where (\<lambda>t. trg_id t = trg_id rec \<and> is_due (now d) t)
      (claimed_row env (trg_config rec) (now d)) (triggers d)\<rparr>"
    unfolding claim_trigger_def Let_def Inr and_then_simps by (simp only: sum.inject prod.inject simp_thms eq_commute)
  with query_row_okD [OF Inr] that show ?thesis by blast
qed

lemma insert_scheduledD:
  assumes "insert_scheduled_task s d = ok (i, d')"
  shows "i = next_id d" and "d' = d\<lparr>scheduled_tasks := scheduled_tasks d @ [s\<lparr>sch_id := next_id d\<rparr>], next_id := next_id d + 1\<rparr>"
    and "sch_organization_id s \<in> set (orgs d)" and "sch_trigger_id s \<in> trg_id ` set (triggers d)"
    and "opt_ref (sch_project_id s) (map pr_id (projects d))" and "opt_ref (sch_team_id s) (map team_uuid (teams d))"
  using assms by (auto simp: insert_scheduled_task_def split: if_splits)

lemma trigger_creator_fresh [simp]: "trigger_creator i (d\<lparr>next_id := n\<rparr>) = trigger_creator i d"
  by (simp add: trigger_creator_def)

lemma find_update_same:
  "(\<And>r. Q (f r) = Q r) \<Longrightarrow> find Q (update_where P f rs) = map_option (\<lambda>r. if P r then f r else r) (find Q rs)"
  by (induction rs) (auto simp: update_where_def)

definition creator_in :: "uuid \<Rightarrow> trigger list \<Rightarrow> uuid" where
  "creator_in i ts = (case Option.bind (find (\<lambda>t. trg_id t = i) ts) trg_created_by of None \<Rightarrow> nil_uuid | Some u \<Rightarrow> u)"

lemma trigger_creator_row: "trigger_creator i d = creator_in i (triggers d)"
  by (simp add: trigger_creator_def creator_in_def query_row_def split: option.split)

lemma creator_claimed: "creator_in i (update_where P (claimed_row env config t) ts) = creator_in i ts"
proof -
  have "trg_created_by (claimed_row env config t r) = trg_created_by r" "trg_id (claimed_row env config t r) = trg_id r" for r
    by (simp_all add: claimed_row_def Let_def)
  then show ?thesis
    by (simp add: creator_in_def find_update_same) (cases "find (\<lambda>t. trg_id t = i) ts"; simp)
qed

text \<open>The two statements that precede the task, and what follows them.\<close>

definition recorded :: "sched_env \<Rightarrow> trigger \<Rightarrow> db \<Rightarrow> db \<Rightarrow> bool" where
  "recorded env rec d d2 \<longleftrightarrow> (\<exists>d1 title description. claim_trigger env rec d = ok (trg_id rec, d1)
     \<and> insert_scheduled_task (scheduled_row rec title description (now d)) d1 = ok (next_id d, d2))"

lemma fire_cases:
  assumes "fire_trigger env rec w = (w', c)"
  obtains (refused) "w' = w" "\<not> c"
  | (plain) d2 where "recorded env rec (w_db w) d2" "trg_project_id rec = None" "w' = w\<lparr>w_db := d2\<rparr>" c
  | (undone) d2 p e title description where "recorded env rec (w_db w) d2" "trg_project_id rec = Some p" "w' = w" c
      "insert_task (scheduled_task_row rec p title description (next_id d2) (trigger_creator (trg_id rec) d2)) (d2\<lparr>next_id := next_id d2 + 1\<rparr>) = fail e"
  | (task) d2 p t d3 title description where "recorded env rec (w_db w) d2" "trg_project_id rec = Some p" c
      "insert_task (scheduled_task_row rec p title description (next_id d2) (trigger_creator (trg_id rec) d2)) (d2\<lparr>next_id := next_id d2 + 1\<rparr>) = ok (t, d3)"
      "w' = (case (trg_agent_id rec, w_pool w) of
         (Some a, Some _) \<Rightarrow> enqueue_job (schedule_job (se_go env) (trg_organization_id rec) a (t_id t) (next_id d2)) (w\<lparr>w_db := d3\<rparr>)
       | _ \<Rightarrow> w\<lparr>w_db := d3\<rparr>)"
proof -
  let ?title = "if config_str (trg_config rec) ''title'' = [] then trg_name rec else config_str (trg_config rec) ''title''"
  let ?description = "config_str (trg_config rec) ''description''"
  let ?row = "scheduled_row rec ?title ?description (now (w_db w))"
  note f = assms [unfolded fire_trigger_def Let_def]
  show thesis
  proof (cases "claim_trigger env rec (w_db w)")
    case (Inl e)
    with f refused show ?thesis by simp
  next
    case (Inr x)
    then obtain d1 where c1: "claim_trigger env rec (w_db w) = ok (trg_id rec, d1)" "next_id d1 = next_id (w_db w)"
      by (cases x) (auto elim!: claim_triggerD)
    show ?thesis
    proof (cases "insert_scheduled_task ?row d1")
      case (Inl e)
      with f c1 refused show ?thesis by simp
    next
      case (Inr y)
      then obtain d2 where c2: "insert_scheduled_task ?row d1 = ok (next_id (w_db w), d2)"
        by (cases y) (auto dest: insert_scheduledD(1) simp: c1(2))
      have r: "recorded env rec (w_db w) d2" using c1 c2 unfolding recorded_def by blast
      show ?thesis
      proof (cases "trg_project_id rec")
        case None
        with f c1 c2 plain [OF r] show ?thesis by simp
      next
        case (Some p)
        let ?ins = "insert_task (scheduled_task_row rec p ?title ?description (next_id d2)
            (trigger_creator (trg_id rec) (d2\<lparr>next_id := next_id d2 + 1\<rparr>))) (d2\<lparr>next_id := next_id d2 + 1\<rparr>)"
        show ?thesis
        proof (cases ?ins)
          case (Inl e)
          with f c1 c2 Some undone [OF r Some] show ?thesis by (simp add: tx_commit_def)
        next
          case (Inr z)
          with f c1 c2 Some task [OF r Some, of ?title ?description "fst z" "snd z"] show ?thesis
            by (cases z) (auto split: option.splits)
        qed
      qed
    qed
  qed
qed

text \<open>What a firing that records something does to the tables of the scheduler.\<close>

definition fired :: "sched_env \<Rightarrow> trigger \<Rightarrow> db \<Rightarrow> db \<Rightarrow> bool" where
  "fired env rec d d' \<longleftrightarrow> (\<exists>t \<in> set (triggers d). trg_id t = trg_id rec \<and> is_due (now d) t)
     \<and> triggers d' = update_where (\<lambda>t. trg_id t = trg_id rec \<and> is_due (now d) t) (claimed_row env (trg_config rec) (now d)) (triggers d)
     \<and> (\<exists>s. scheduled_tasks d' = scheduled_tasks d @ [s] \<and> sch_trigger_id s = trg_id rec \<and> sch_created_at s = now d)
     \<and> next_id d \<le> next_id d' \<and> now d' = now d"

lemma recorded_fired: "recorded env rec d d2 \<Longrightarrow> fired env rec d d2"
  unfolding recorded_def fired_def
  by (auto elim!: claim_triggerD dest!: insert_scheduledD(2) simp: scheduled_row_def Let_def)

lemma fire_trigger_fired:
  assumes "fire_trigger env rec w = (w', c)"
  shows "w' = w \<or> fired env rec (w_db w) (w_db w')"
proof (rule fire_cases [OF assms])
  fix d2 p t d3 title description
  assume r: "recorded env rec (w_db w) d2"
    and i: "insert_task (scheduled_task_row rec p title description (next_id d2) (trigger_creator (trg_id rec) d2)) (d2\<lparr>next_id := next_id d2 + 1\<rparr>) = ok (t, d3)"
    and w': "w' = (case (trg_agent_id rec, w_pool w) of
         (Some a, Some _) \<Rightarrow> enqueue_job (schedule_job (se_go env) (trg_organization_id rec) a (t_id t) (next_id d2)) (w\<lparr>w_db := d3\<rparr>)
       | _ \<Rightarrow> w\<lparr>w_db := d3\<rparr>)"
  have "w_db w' = d3" unfolding w' by (simp split: option.split)
  with recorded_fired [OF r] insert_task_cases(2) [OF i] show ?thesis by (simp add: fired_def)
qed (auto dest: recorded_fired)

section \<open>The processes\<close>

inductive sched_step :: "sched_env \<Rightarrow> world \<times> trigger list \<Rightarrow> world \<times> trigger list \<Rightarrow> bool" for env where
  read: "sched_step env (w, ps) (w, ps @ due_triggers (w_db w))"
| fire: "rec \<in> set ps \<Longrightarrow> sched_step env (w, ps) (fst (fire_trigger env rec w), ps)"
| clock: "now (w_db w) \<le> t \<Longrightarrow> sched_step env (w, ps) (w\<lparr>w_db := (w_db w)\<lparr>now := t\<rparr>\<rparr>, ps)"
| create: "sched_step env (w, ps) (fst (on_db (create_trigger env org_id name ty config agent tm project user) w), ps)"
| delete: "sched_step env (w, ps) (w\<lparr>w_db := delete_trigger org_id i (w_db w)\<rparr>, ps)"

inductive_cases sched_stepE: "sched_step env s s'"

lemma fire_all_steps:
  "set rs \<subseteq> set ps \<Longrightarrow> (sched_step env)\<^sup>*\<^sup>* (w, ps) (fst (fire_all env rs w), ps)"
proof (induction rs arbitrary: w)
  case (Cons r rs)
  then have "sched_step env (w, ps) (fst (fire_trigger env r w), ps)" by (auto intro: sched_step.fire)
  moreover have "(sched_step env)\<^sup>*\<^sup>* (fst (fire_trigger env r w), ps) (fst (fire_all env rs (fst (fire_trigger env r w))), ps)"
    using Cons by simp
  ultimately show ?case by (auto simp: split_beta Let_def intro: converse_rtranclp_into_rtranclp)
qed simp

lemma process_due_steps:
  "(sched_step env)\<^sup>*\<^sup>* (w, ps) (fst (process_due_triggers env w), ps @ due_triggers (w_db w))"
  unfolding process_due_triggers_def
  by (rule converse_rtranclp_into_rtranclp, rule sched_step.read) (rule fire_all_steps, simp)

definition firings :: "uuid \<Rightarrow> db \<Rightarrow> scheduled_task list" where
  "firings i d = filter (\<lambda>s. sch_trigger_id s = i) (scheduled_tasks d)"

text \<open>Zones whose offset never changes, as UTC.\<close>

definition fixed_zones :: "sched_env \<Rightarrow> bool" where
  "fixed_zones env \<longleftrightarrow> (\<forall>tz loc. se_location env tz = Some loc \<longrightarrow> (\<exists>c. loc = (\<lambda>_. c)))"

lemma next_run_later:
  assumes "fixed_zones env"
  shows "t < next_weekly (zone_of env config) cron t"
proof -
  obtain c where z: "zone_of env config = (\<lambda>_. c)"
  proof (cases "se_location env (let tz = (case mget_str config ''timezone'' of None \<Rightarrow> [] | Some s \<Rightarrow> s) in if tz = [] then ''UTC'' else tz)")
    case None
    with that [of 0] show ?thesis by (simp add: zone_of_def Let_def utc_def fun_eq_iff)
  next
    case (Some loc)
    with assms that show ?thesis by (auto simp: zone_of_def fixed_zones_def Let_def)
  qed
  show ?thesis
  proof (cases "weekly cron")
    case True
    with monday_days_later [of "t + c"] show ?thesis by (simp add: z next_weekly_fixed)
  next
    case False
    then show ?thesis by (simp add: next_weekly_def weekly_def)
  qed
qed

section \<open>The invariant\<close>

definition never_due :: "trigger \<Rightarrow> bool" where "never_due t \<longleftrightarrow> trg_next_run_at t = None"

definition rows_ok :: "db \<Rightarrow> bool" where
  "rows_ok d \<longleftrightarrow> distinct (map trg_id (triggers d)) \<and> (\<forall>t \<in> set (triggers d). trg_id t < next_id d)
     \<and> (\<forall>s \<in> set (scheduled_tasks d). sch_created_at s \<le> now d \<and> sch_trigger_id s \<in> trg_id ` set (triggers d))"

text \<open>What has been fired for a trigger lies before its next run; without a recurrence there is one firing.\<close>

definition fired_ok :: "db \<Rightarrow> trigger \<Rightarrow> bool" where
  "fired_ok d t \<longleftrightarrow> (\<forall>s \<in> set (firings (trg_id t) d). case trg_next_run_at t of None \<Rightarrow> True | Some u \<Rightarrow> sch_created_at s < u)
     \<and> (config_str (trg_config t) ''cron'' = [] \<longrightarrow> firings (trg_id t) d = [] \<or> length (firings (trg_id t) d) = 1 \<and> never_due t)"

definition readings_ok :: "db \<Rightarrow> trigger list \<Rightarrow> bool" where
  "readings_ok d ps \<longleftrightarrow> (\<forall>r \<in> set ps. trg_id r < next_id d \<and> (\<forall>t \<in> set (triggers d). trg_id t = trg_id r \<longrightarrow> trg_config t = trg_config r))"

definition sched_inv :: "world \<times> trigger list \<Rightarrow> bool" where
  "sched_inv s \<longleftrightarrow> (case s of (w, ps) \<Rightarrow> rows_ok (w_db w) \<and> (\<forall>t \<in> set (triggers (w_db w)). fired_ok (w_db w) t) \<and> readings_ok (w_db w) ps
     \<and> (\<forall>i. sorted_wrt (<) (map sch_created_at (firings i (w_db w)))))"

lemma rows_unique: "rows_ok d \<Longrightarrow> r \<in> set (triggers d) \<Longrightarrow> q \<in> set (triggers d) \<Longrightarrow> trg_id r = trg_id q \<Longrightarrow> r = q"
  unfolding rows_ok_def distinct_map by (meson inj_onD)

lemma claimed_row_id [simp]: "trg_id (claimed_row env config t trg) = trg_id trg" "trg_config (claimed_row env config t trg) = trg_config trg"
  by (simp_all add: claimed_row_def Let_def)

lemma claimed_next:
  assumes "fixed_zones env"
  shows "case trg_next_run_at (claimed_row env config t trg) of None \<Rightarrow> True | Some u \<Rightarrow> t < u"
  using next_run_later [OF assms] by (simp add: claimed_row_def Let_def)

lemma claimed_once: "config_str config ''cron'' = [] \<Longrightarrow> never_due (claimed_row env config t trg)"
  by (simp add: claimed_row_def never_due_def Let_def)

lemma fired_inv:
  assumes f: "fired env rec d d'" and z: "fixed_zones env" and ok: "rows_ok d" "\<forall>t \<in> set (triggers d). fired_ok d t" "readings_ok d ps"
    and rec: "rec \<in> set ps" and sorted: "\<forall>i. sorted_wrt (<) (map sch_created_at (firings i d))"
  shows "rows_ok d'" "\<forall>t \<in> set (triggers d'). fired_ok d' t" "readings_ok d' ps" "\<forall>i. sorted_wrt (<) (map sch_created_at (firings i d'))"
proof -
  let ?P = "\<lambda>t. trg_id t = trg_id rec \<and> is_due (now d) t" and ?f = "claimed_row env (trg_config rec) (now d)"
  from f obtain q s where q: "q \<in> set (triggers d)" "trg_id q = trg_id rec" "is_due (now d) q"
    and ts: "triggers d' = update_where ?P ?f (triggers d)"
    and s: "scheduled_tasks d' = scheduled_tasks d @ [s]" "sch_trigger_id s = trg_id rec" "sch_created_at s = now d"
    and n: "next_id d \<le> next_id d'" "now d' = now d" unfolding fired_def by blast
  have ids: "map trg_id (triggers d') = map trg_id (triggers d)" unfolding ts by (rule map_update_where) simp
  have cfg: "trg_config q = trg_config rec" using ok(3) rec q(1,2) by (simp add: readings_ok_def)
  have fs: "firings i d' = firings i d @ (if i = trg_id rec then [s] else [])" for i by (simp add: firings_def s)
  obtain u where u: "trg_next_run_at q = Some u" "u \<le> now d" using q(3) by (auto simp: is_due_def split: option.splits)
  have before: "\<forall>x \<in> set (firings (trg_id rec) d). sch_created_at x < now d"
    using ok(2) q(1,2) u by (fastforce simp: fired_ok_def)
  show "rows_ok d'"
  proof -
    have "t \<in> set (triggers d') \<Longrightarrow> trg_id t < next_id d'" for t
      using ok(1) n(1) by (fastforce simp: rows_ok_def ts in_update_where split: if_splits)
    moreover have "trg_id ` set (triggers d') = trg_id ` set (triggers d)" using ids by (metis list.set_map)
    moreover have "trg_id rec \<in> trg_id ` set (triggers d)" using q(1,2) by (metis imageI)
    ultimately show ?thesis using ok(1) ids s n(2) by (auto simp: rows_ok_def)
  qed
  show "readings_ok d' ps"
    using ok(3) n(1) by (fastforce simp: readings_ok_def ts in_update_where split: if_splits)
  show "\<forall>i. sorted_wrt (<) (map sch_created_at (firings i d'))"
    using sorted before by (auto simp: fs sorted_wrt_append s(3))
  show "\<forall>t \<in> set (triggers d'). fired_ok d' t"
  proof
    fix t assume "t \<in> set (triggers d')"
    then obtain r where r: "r \<in> set (triggers d)" "t = (if ?P r then ?f r else r)" by (auto simp: ts in_update_where)
    show "fired_ok d' t"
    proof (cases "trg_id r = trg_id rec")
      case False
      with r have "t = r" "firings (trg_id t) d' = firings (trg_id r) d" by (auto simp: fs)
      with ok(2) r(1) show ?thesis by (simp add: fired_ok_def)
    next
      case True
      with q(1,2) r(1) have "r = q" by (simp add: rows_unique [OF ok(1)])
      then have t: "t = ?f q" "trg_id t = trg_id rec" "trg_config t = trg_config rec" using r(2) q(2,3) cfg by auto
      have late: "\<forall>x \<in> set (firings (trg_id rec) d'). sch_created_at x \<le> now d" using before by (auto simp: fs s(3))
      have "\<forall>x \<in> set (firings (trg_id t) d'). case trg_next_run_at t of None \<Rightarrow> True | Some v \<Rightarrow> sch_created_at x < v"
        using claimed_next [OF z, of "now d" "trg_config rec" q] late q(2)
        by (cases "trg_next_run_at (claimed_row env (trg_config rec) (now d) q)") (auto simp: t(1) intro: le_less_trans)
      moreover have "length (firings (trg_id t) d') = 1 \<and> never_due t" if "config_str (trg_config t) ''cron'' = []"
      proof -
        have c: "config_str (trg_config rec) ''cron'' = []" using that t(3) by simp
        then have "firings (trg_id rec) d = []" using ok(2) q(1,2) u(1) cfg by (fastforce simp: fired_ok_def never_due_def)
        then show ?thesis using claimed_once [OF c] by (simp add: fs t(2)) (simp add: t(1))
      qed
      ultimately show ?thesis by (simp add: fired_ok_def)
    qed
  qed
qed

lemma firings_simps [simp]:
  "firings i (d\<lparr>now := t\<rparr>) = firings i d" "firings i (d\<lparr>triggers := ts, next_id := n\<rparr>) = firings i d"
  by (simp_all add: firings_def)

lemma fired_ok_frame: "firings (trg_id t) d' = firings (trg_id t) d \<Longrightarrow> fired_ok d' t = fired_ok d t"
  by (simp add: fired_ok_def)

lemma create_trigger_cases:
  assumes "create_trigger env org_id name ty config agent tm project user d = (d', r)"
  obtains "d' = d" | t where "d' = d\<lparr>triggers := triggers d @ [t], next_id := next_id d + 1\<rparr>" "trg_id t = next_id d"
  using assms unfolding create_trigger_def Let_def by (simp split: if_splits) force

lemma sched_step_inv:
  assumes "sched_step env s s'" and z: "fixed_zones env" and "sched_inv s"
  shows "sched_inv s'"
  using assms(1)
proof (cases rule: sched_step.cases)
  case (read w ps)
  then have r: "rows_ok (w_db w)" "readings_ok (w_db w) ps" using assms(3) by (auto simp: sched_inv_def)
  have "trg_id t < next_id (w_db w) \<and> (\<forall>q \<in> set (triggers (w_db w)). trg_id q = trg_id t \<longrightarrow> trg_config q = trg_config t)"
    if "t \<in> set (due_triggers (w_db w))" for t
    using r(1) that by (auto simp: rows_ok_def due_triggers_def distinct_map dest: inj_onD)
  with r(2) have "readings_ok (w_db w) (ps @ due_triggers (w_db w))" by (auto simp: readings_ok_def)
  then show ?thesis using assms(3) read by (simp add: sched_inv_def)
next
  case (fire rec ps w)
  show ?thesis
    using fire_trigger_fired [OF surjective_pairing [of "fire_trigger env rec w"]]
  proof
    assume "fst (fire_trigger env rec w) = w"
    then show ?thesis using assms(3) fire by simp
  next
    assume f: "fired env rec (w_db w) (w_db (fst (fire_trigger env rec w)))"
    have "rows_ok (w_db w)" "\<forall>t \<in> set (triggers (w_db w)). fired_ok (w_db w) t" "readings_ok (w_db w) ps"
      "\<forall>i. sorted_wrt (<) (map sch_created_at (firings i (w_db w)))" using assms(3) fire by (simp_all add: sched_inv_def)
    from fired_inv [OF f z this(1-3) fire(3) this(4)] fire show ?thesis by (simp add: sched_inv_def)
  qed
next
  case (clock w t ps)
  then show ?thesis using assms(3) by (auto simp: sched_inv_def rows_ok_def readings_ok_def fired_ok_def dest: order_trans)
next
  case (create w ps org_id name ty config agent tm project user)
  let ?r = "create_trigger env org_id name ty config agent tm project user (w_db w)"
  from assms(3) create have inv: "rows_ok (w_db w)" "\<forall>t \<in> set (triggers (w_db w)). fired_ok (w_db w) t" "readings_ok (w_db w) ps"
      "\<forall>i. sorted_wrt (<) (map sch_created_at (firings i (w_db w)))" by (simp_all add: sched_inv_def)
  have s': "s' = (w\<lparr>w_db := fst ?r\<rparr>, ps)" using create by (simp add: on_db_def split_beta)
  show ?thesis
  proof (rule create_trigger_cases [OF surjective_pairing [of ?r]])
    assume "fst ?r = w_db w"
    with s' inv show ?thesis by (simp add: sched_inv_def)
  next
    fix t assume d': "fst ?r = (w_db w)\<lparr>triggers := triggers (w_db w) @ [t], next_id := next_id (w_db w) + 1\<rparr>" "trg_id t = next_id (w_db w)"
    have new: "firings (trg_id t) (w_db w) = []" using inv(1) d'(2) by (fastforce simp: firings_def rows_ok_def filter_empty_conv)
    have "rows_ok (fst ?r)" using inv(1) d'(2) unfolding d'(1) by (fastforce simp: rows_ok_def)
    moreover have "\<forall>t \<in> set (triggers (fst ?r)). fired_ok (fst ?r) t"
      using inv(2) new unfolding d'(1) by (auto simp: fired_ok_def)
    moreover have "readings_ok (fst ?r) ps" using inv(3) d'(2) unfolding d'(1) by (fastforce simp: readings_ok_def)
    moreover have "\<forall>i. sorted_wrt (<) (map sch_created_at (firings i (fst ?r)))" using inv(4) unfolding d'(1) by simp
    ultimately show ?thesis using s' by (simp add: sched_inv_def)
  qed
next
  case (delete w ps org_id i)
  from assms(3) delete have inv: "rows_ok (w_db w)" "\<forall>t \<in> set (triggers (w_db w)). fired_ok (w_db w) t" "readings_ok (w_db w) ps"
      "\<forall>i. sorted_wrt (<) (map sch_created_at (firings i (w_db w)))" by (simp_all add: sched_inv_def)
  let ?d = "w_db w" and ?gone = "\<lambda>t. trg_id t = i \<and> trg_organization_id t = org_id"
  let ?e = "delete_trigger org_id i ?d"
  have ts: "triggers ?e = filter (\<lambda>t. \<not> ?gone t) (triggers ?d)"
    and st: "scheduled_tasks ?e = filter (\<lambda>s. sch_trigger_id s \<notin> trg_id ` set (filter ?gone (triggers ?d))) (scheduled_tasks ?d)"
    and nn: "next_id ?e = next_id ?d" "now ?e = now ?d" by (simp_all add: delete_trigger_def Let_def)
  have fs: "firings j ?e = (if j \<in> trg_id ` set (filter ?gone (triggers ?d)) then [] else firings j ?d)" for j
    unfolding firings_def st by (auto simp: filter_empty_conv intro: filter_cong)
  have kept: "trg_id t \<notin> trg_id ` set (filter ?gone (triggers ?d))" if "t \<in> set (triggers ?e)" for t
    using that unfolding ts by (auto dest: rows_unique [OF inv(1)])
  have "sch_created_at s \<le> now ?d \<and> sch_trigger_id s \<in> trg_id ` set (triggers ?e)" if "s \<in> set (scheduled_tasks ?e)" for s
  proof -
    from that inv(1) obtain t where t: "t \<in> set (triggers ?d)" "trg_id t = sch_trigger_id s" "sch_created_at s \<le> now ?d"
      unfolding rows_ok_def st by fastforce
    moreover have "\<not> ?gone t" using that t(1,2) unfolding st by force
    ultimately show ?thesis unfolding ts by force
  qed
  moreover have "distinct (map trg_id (triggers ?e))" using inv(1) unfolding ts rows_ok_def by (simp add: distinct_map_filter)
  ultimately have "rows_ok ?e" using inv(1) by (auto simp: rows_ok_def nn ts)
  moreover have "\<forall>t \<in> set (triggers ?e). fired_ok ?e t"
    using inv(2) kept by (auto simp: fired_ok_def fs) (auto simp: ts)
  moreover have "readings_ok ?e ps" using inv(3) unfolding readings_ok_def ts nn by auto
  moreover have "\<forall>j. sorted_wrt (<) (map sch_created_at (firings j ?e))" using inv(4) by (simp add: fs)
  ultimately show ?thesis using delete by (simp add: sched_inv_def)
qed

section \<open>Properties\<close>


text \<open>
  A firing that counts, of a trigger of a project whose creator is known, adds one pending task of the
  project that is assigned to nobody. The agent of the trigger is told by one job; without an agent, as for
  a team, nobody is.
\<close>

theorem fire_trigger_effect:
  assumes "fire_trigger env rec w = (w', True)" and "trg_project_id rec = Some p"
    and "trigger_creator (trg_id rec) (w_db w) \<in> set (users (w_db w))"
  shows "\<exists>t corr. tasks (w_db w') = tasks (w_db w) @ [t] \<and> t_status t = ''pending'' \<and> t_project_id t = p
    \<and> t_organization_id t = trg_organization_id rec \<and> t_assigned_to_agent t = None
    \<and> w_pool w' = (case trg_agent_id rec of
         None \<Rightarrow> w_pool w
       | Some a \<Rightarrow> map_option (enqueue (now (w_db w)) (schedule_job (se_go env) (trg_organization_id rec) a (t_id t) corr)) (w_pool w))"
proof -
  have creator: "trigger_creator (trg_id rec) d2 = trigger_creator (trg_id rec) (w_db w)"
    and refs: "trg_organization_id rec \<in> set (orgs d2)" "p \<in> pr_id ` set (projects d2)" "opt_ref (trg_team_id rec) (map team_uuid (teams d2))"
    and same: "tasks d2 = tasks (w_db w)" "now d2 = now (w_db w)" "user_rows d2 = user_rows (w_db w)"
    if "recorded env rec (w_db w) d2" for d2
  proof -
    from that obtain d1 ti de where c: "claim_trigger env rec (w_db w) = ok (trg_id rec, d1)"
      and s: "insert_scheduled_task (scheduled_row rec ti de (now (w_db w))) d1 = ok (next_id (w_db w), d2)" unfolding recorded_def by blast
    obtain ts where d1: "d1 = (w_db w)\<lparr>triggers := ts\<rparr>" and ts: "ts = update_where (\<lambda>t. trg_id t = trg_id rec \<and> is_due (now (w_db w)) t)
      (claimed_row env (trg_config rec) (now (w_db w))) (triggers (w_db w))" using c by (rule claim_triggerD) simp
    note d2 = insert_scheduledD(2) [OF s]
    show "trigger_creator (trg_id rec) d2 = trigger_creator (trg_id rec) (w_db w)" by (simp add: d2 trigger_creator_row d1 ts creator_claimed)
    show "trg_organization_id rec \<in> set (orgs d2)" "p \<in> pr_id ` set (projects d2)" "opt_ref (trg_team_id rec) (map team_uuid (teams d2))"
      using insert_scheduledD(3,5,6) [OF s] assms(2) by (simp_all add: d2 scheduled_row_def Let_def opt_ref_def)
    show "tasks d2 = tasks (w_db w)" "now d2 = now (w_db w)" "user_rows d2 = user_rows (w_db w)" by (simp_all add: d2 d1)
  qed
  show ?thesis
    using assms(1)
  proof (cases rule: fire_cases)
    case (undone d2 q e title description)
    with creator [OF undone(1)] refs [OF undone(1)] same [OF undone(1)] assms(2,3) show ?thesis
      by (simp add: insert_task_def scheduled_task_row_def new_task_row_def opt_ref_def task_status_check_def task_priority_check_def Let_def)
  next
    case (task d2 q t d3 title description)
    note i = insert_task_cases(1,2) [OF task(4)]
    have w': "w_db w' = d3" "w_pool w' = (case trg_agent_id rec of None \<Rightarrow> w_pool w
       | Some a \<Rightarrow> map_option (enqueue (now (w_db w)) (schedule_job (se_go env) (trg_organization_id rec) a (t_id t) (next_id d2))) (w_pool w))"
      using i(2) same(2) [OF task(1)] by (simp_all add: task(5) enqueue_job_def split: option.split)
    have "tasks d3 = tasks (w_db w) @ [t]" "t_status t = ''pending''" "t_project_id t = p"
      "t_organization_id t = trg_organization_id rec" "t_assigned_to_agent t = None"
      using same(1) [OF task(1)] task(2) assms(2) by (simp_all add: i scheduled_task_row_def new_task_row_def)
    with w' show ?thesis by auto
  qed (use assms(2) in auto)
qed

section \<open>Witnesses\<close>

definition demo_sched :: sched_env where
  "demo_sched = \<lparr>se_go = demo_golib, se_parse_time = (\<lambda>_. Some 1500), se_location = (\<lambda>_. Some utc)\<rparr>"

lemma demo_sched_zones: "fixed_zones demo_sched"
  by (auto simp: fixed_zones_def demo_sched_def utc_def fun_eq_iff intro: exI [of _ 0])

definition one_shot_world :: world where
  "one_shot_world = fst (on_db (create_trigger demo_sched 1 ''report'' ''schedule'' (Some [(''scheduledAt'', JStr ''t'')]) (Some 4) None (Some 3) 2)
     (world_of demo_db))"

definition due_world :: world where
  "due_world = one_shot_world\<lparr>w_db := (w_db one_shot_world)\<lparr>now := 2000\<rparr>\<rparr>"

definition due_row :: trigger where "due_row = hd (due_triggers (w_db due_world))"

text \<open>Two processes read the due trigger; both fire it.\<close>

definition twice_fired :: world where
  "twice_fired = fst (fire_trigger demo_sched due_row (fst (fire_trigger demo_sched due_row due_world)))"


lemma fire_trigger_effect_witness:
  "\<exists>t. tasks (w_db (fst (fire_trigger demo_sched due_row due_world))) = tasks (w_db due_world) @ [t] \<and> t_project_id t = 3"
proof -
  have s: "snd (fire_trigger demo_sched due_row due_world)" by code_simp
  have p: "trg_project_id due_row = Some 3" by code_simp
  have "trigger_creator (trg_id due_row) (w_db due_world) \<in> set (users (w_db due_world))" by code_simp
  moreover have "fire_trigger demo_sched due_row due_world = (fst (fire_trigger demo_sched due_row due_world), True)"
    using s by (simp add: prod_eq_iff)
  ultimately show ?thesis using fire_trigger_effect [OF _ p] by blast
qed

end
