(* ===== verification/Autonomy.thy ===== *)
theory Autonomy
  imports Scheduler Runs
begin

text \<open>
  \<^verbatim>\<open>backend/internal/autonomy/service.go\<close>: what an event of a project sets in motion, and
  \<^verbatim>\<open>backend/internal/evaluation/service.go\<close>: the score of a task. The rendering of a payload by \<^verbatim>\<open>%v\<close> is a
  parameter; a cooldown is compared in whole seconds.
\<close>

section \<open>Events of a project\<close>

definition go_trunc :: "rat \<Rightarrow> int" where
  "go_trunc q = (if q < 0 then - \<lfloor>- q\<rfloor> else \<lfloor>q\<rfloor>)"

text \<open>The conditions of a trigger, which are looked at once it has been triggered before.\<close>

definition held_back :: "time \<Rightarrow> gomap \<Rightarrow> trigger \<Rightarrow> bool" where
  "held_back t payload trg \<longleftrightarrow>
     (case (trg_last_triggered_at trg, trg_config trg) of
        (Some before, Some config) \<Rightarrow>
          (case map_of config ''cooldownMinutes'' of
             Some (JNum cd) \<Rightarrow> 0 < cd \<and> t - before < go_trunc cd * 60 | _ \<Rightarrow> False)
          \<or> (case (as_str (map_of config ''channelId''), as_str (map_of payload ''channelId'')) of
               (Some c, Some c') \<Rightarrow> c \<noteq> [] \<and> c \<noteq> c' | _ \<Rightarrow> False)
      | _ \<Rightarrow> False)"

fun autonomous_members :: "uuid \<Rightarrow> db \<Rightarrow> agent_team_member list \<Rightarrow> agent list" where
  "autonomous_members org_id d [] = []"
| "autonomous_members org_id d (m # ms) =
     (case get_agent org_id (tm_agent_id m) d of
        Inl _ \<Rightarrow> autonomous_members org_id d ms
      | Inr ag \<Rightarrow> (if ag_autonomy_level ag = ''autonomous'' then [ag] else []) @ autonomous_members org_id d ms)"

definition agents_of_trigger :: "uuid \<Rightarrow> db \<Rightarrow> trigger \<Rightarrow> agent list" where
  "agents_of_trigger org_id d trg =
     (case trg_agent_id trg of
        Some a \<Rightarrow>
          (case get_agent org_id a d of
             Inl _ \<Rightarrow> []
           | Inr ag \<Rightarrow> if ag_autonomy_level ag = ''autonomous'' \<and> ag_status ag = ''active'' then [ag] else [])
      | None \<Rightarrow> (case trg_team_id trg of None \<Rightarrow> [] | Some tm \<Rightarrow> autonomous_members org_id d (list_team_members tm d)))"

definition mark_triggered :: "uuid \<Rightarrow> db \<Rightarrow> db" where
  "mark_triggered i d =
     d\<lparr>triggers := update_where (\<lambda>t. trg_id t = i) (\<lambda>t. t\<lparr>trg_last_triggered_at := Some (now d), trg_updated_at := now d\<rparr>) (triggers d)\<rparr>"

definition matching_triggers :: "uuid \<Rightarrow> uuid \<Rightarrow> string \<Rightarrow> db \<Rightarrow> trigger list" where
  "matching_triggers org_id project event d =
     filter (\<lambda>t. trg_organization_id t = org_id \<and> trg_trigger_type t = event \<and> trg_enabled t
       \<and> (trg_project_id t = Some project \<or> trg_project_id t = None)) (triggers d)"

fun collect_agents :: "uuid \<Rightarrow> gomap \<Rightarrow> trigger list \<Rightarrow> db \<Rightarrow> db \<times> agent list" where
  "collect_agents org_id payload [] d = (d, [])"
| "collect_agents org_id payload (t # ts) d =
     (if held_back (now d) payload t then collect_agents org_id payload ts d
      else (case collect_agents org_id payload ts (mark_triggered (trg_id t) d) of
              (d', as) \<Rightarrow> (d', agents_of_trigger org_id d t @ as)))"

definition autonomous_task :: "golib \<Rightarrow> (gomap \<Rightarrow> string) \<Rightarrow> uuid \<Rightarrow> uuid \<Rightarrow> string \<Rightarrow> gomap \<Rightarrow> agent \<Rightarrow> world \<Rightarrow> world" where
  "autonomous_task g show_map org_id project event payload ag w =
     (let title = ''Autonomous: '' @ event;
          description = ''Agent '' @ ag_name ag @ '' observed '' @ event @ '' in project '' @ uuid_string g project
            @ '' with payload '' @ show_map payload;
          (w, corr) = new_uuid w
      in case on_db (create_task g org_id project None None None (Some (ag_id ag)) None title description ''medium'' None (Some corr) (ag_id ag)) w of
           (w, Inl _) \<Rightarrow> w
         | (w, Inr t) \<Rightarrow>
             (let w = enqueue_job (agent_job (uuid_string g (t_id t)) [(''organization_id'', uuid_json g org_id),
                    (''agent_id'', uuid_json g (ag_id ag)), (''task_id'', uuid_json g (t_id t)), (''correlation_id'', uuid_json g corr),
                    (''trigger'', JStr event)] 0 0) w
              in send_to_org g org_id ''autonomous.task_created''
                   [(''agentId'', PJson (uuid_json g (ag_id ag))), (''taskId'', PJson (uuid_json g (t_id t))), (''event'', PJson (JStr event))] w))"

definition handle_project_event :: "golib \<Rightarrow> (gomap \<Rightarrow> string) \<Rightarrow> uuid \<Rightarrow> uuid \<Rightarrow> string \<Rightarrow> gomap \<Rightarrow> world \<Rightarrow> world" where
  "handle_project_event g show_map org_id project event payload w =
     (let (w, as) = on_db (\<lambda>d. collect_agents org_id payload (matching_triggers org_id project event d) d) w
      in fold (autonomous_task g show_map org_id project event payload) as w)"

definition can_autonomous_act :: "agent \<Rightarrow> string \<Rightarrow> bool" where
  "can_autonomous_act ag tool_name \<longleftrightarrow> ag_autonomy_level ag = ''autonomous''"

section \<open>The score of a task\<close>

record check_result =
  ck_name :: string
  ck_passed :: bool
  ck_details :: string

record evaluation =
  ev_task_id :: uuid
  ev_success :: bool
  ev_score :: rat
  ev_checks :: "check_result list"
  ev_duration_ms :: int
  ev_iterations :: nat
  ev_tool_calls :: nat
  ev_delegations :: nat
  ev_human_interventions :: int
  ev_token_usage :: int
  ev_estimated_cost :: rat

definition task_completed_check :: "uuid \<Rightarrow> uuid \<Rightarrow> db \<Rightarrow> bool \<times> string" where
  "task_completed_check org_id tid d =
     (case get_task org_id tid d of
        Inl e \<Rightarrow> (False, e)
      | Inr t \<Rightarrow> if t_status t = ''completed'' then (True, ''task is completed'') else (False, ''task status is '' @ t_status t))"

definition required_tool_check :: "string \<Rightarrow> uuid \<Rightarrow> db \<Rightarrow> bool \<times> string" where
  "required_tool_check tool tid d =
     (if tool = [] then (True, ''no required tool'')
      else if 0 < count_where (\<lambda>e. ex_task_id e = Some tid \<and> ex_tool_name e = tool \<and> ex_status e = ''succeeded'') (executions d)
      then (True, tool @ '' was used'') else (False, tool @ '' not used''))"

definition artifact_check :: "uuid \<Rightarrow> uuid \<Rightarrow> db \<Rightarrow> bool \<times> string" where
  "artifact_check org_id tid d =
     (let children = count_where (\<lambda>t. t_parent_task_id t = Some tid) (tasks d);
          msgs = (case get_task org_id tid d of
                    Inl _ \<Rightarrow> 0
                  | Inr t \<Rightarrow> (case t_channel_id t of
                      None \<Rightarrow> 0 | Some c \<Rightarrow> count_where (\<lambda>m. m_channel_id m = c \<and> t_created_at t \<le> m_created_at m) (messages d)))
      in if 0 < children \<or> 0 < msgs then (True, ''artifact evidence found'') else (False, ''no artifact evidence''))"

text \<open>The checks of \<^verbatim>\<open>New\<close>; the one for a required tool names no tool and is skipped.\<close>

definition run_checks :: "uuid \<Rightarrow> uuid \<Rightarrow> db \<Rightarrow> check_result list" where
  "run_checks org_id tid d =
     [case artifact_check org_id tid d of (p, s) \<Rightarrow> \<lparr>ck_name = ''artifact_created'', ck_passed = p, ck_details = s\<rparr>,
      case task_completed_check org_id tid d of (p, s) \<Rightarrow> \<lparr>ck_name = ''task_completed'', ck_passed = p, ck_details = s\<rparr>]"

definition meta_num :: "string \<Rightarrow> agent_run \<Rightarrow> rat" where
  "meta_num k r = (case mget (run_token_metadata r) k of Some (JNum q) \<Rightarrow> q | _ \<Rightarrow> 0)"

definition evaluate :: "uuid \<Rightarrow> uuid \<Rightarrow> db \<Rightarrow> evaluation res" where
  "evaluate org_id tid d =
     and_then (get_task org_id tid d) (\<lambda>t.
       let rs = list_agent_runs org_id None (Some tid) 50 d;
           iterations = fold (\<lambda>r n. max n (length (run_actions r))) rs 0;
           calls = sum_list (map (\<lambda>r. length (filter (\<lambda>a. aa_action_type a = ''tool_call'') (run_actions r))) rs);
           children = filter (\<lambda>c. t_parent_task_id c = Some tid) (list_tasks org_id (Some (t_project_id t)) None [] None 100 d);
           waited = (\<lambda>a. ap_organization_id a = org_id
             \<and> ap_entity_id a \<in> ex_id ` set (filter (\<lambda>e. ex_task_id e = Some tid) (executions d)));
           checks = run_checks org_id tid d; passed = (\<forall>c \<in> set checks. ck_passed c);
           success = (t_status t = ''completed'' \<and> passed);
           score = (if 0 < calls \<and> success then 9 / 10 else if success then 1 else if t_status t = ''completed'' then 1 / 2 else 0)
       in ok \<lparr>ev_task_id = tid, ev_success = success, ev_score = score, ev_checks = checks,
             ev_duration_ms = (now d - t_created_at t) * 1000, ev_iterations = iterations, ev_tool_calls = calls,
             ev_delegations = length children, ev_human_interventions = count_where waited (approvals d),
             ev_token_usage = sum_list (map (\<lambda>r. go_trunc (meta_num ''totalTokens'' r)) rs),
             ev_estimated_cost = sum_list (map (meta_num ''estimatedCost'') rs)\<rparr>)"

section \<open>Properties\<close>

lemma create_task_refused:
  assumes "u \<notin> set (users d)"
  shows "\<exists>e. create_task g org_id p ch par tm agent user ti de prio dl c u d = (d, fail e)"
proof -
  obtain d' r where r: "create_task g org_id p ch par tm agent user ti de prio dl c u d = (d', r)" by fastforce
  show ?thesis
  proof (cases r)
    case (Inl e)
    with r create_task_error show ?thesis by metis
  next
    case (Inr t)
    with r obtain row where "u \<in> us_id ` set (user_rows d)" by (auto elim!: create_task_row)
    with assms show ?thesis by simp
  qed
qed

text \<open>What such a task leaves: a UUID is drawn.\<close>

definition drawn :: "world \<Rightarrow> world \<Rightarrow> bool" where
  "drawn w w' \<longleftrightarrow> (\<exists>n. w' = w\<lparr>w_db := (w_db w)\<lparr>next_id := n\<rparr>\<rparr>)"

lemma drawn_refl: "drawn w w"
  unfolding drawn_def by (rule exI [of _ "next_id (w_db w)"]) simp

lemma drawn_trans: "drawn u v \<Longrightarrow> drawn v w \<Longrightarrow> drawn u w"
  by (auto simp: drawn_def)

lemma autonomous_task_drawn:
  assumes "ag_id ag \<notin> set (users (w_db w))"
  shows "drawn w (autonomous_task g show_map org_id p event payload ag w)"
proof -
  have "ag_id ag \<notin> set (users ((w_db w)\<lparr>next_id := Suc (next_id (w_db w))\<rparr>))" using assms by simp
  from create_task_refused [OF this] show ?thesis
    by (auto simp: autonomous_task_def new_uuid_def on_db_def Let_def drawn_def split: prod.splits sum.splits) (metis Inl_Inr_False prod.inject)+
qed

lemma drawn_frame:
  "drawn w w' \<Longrightarrow> agents (w_db w') = agents (w_db w) \<and> user_rows (w_db w') = user_rows (w_db w) \<and> tasks (w_db w') = tasks (w_db w)
    \<and> w_pool w' = w_pool w \<and> w_out w' = w_out w"
  by (auto simp: drawn_def)

lemma autonomous_tasks_drawn:
  "\<forall>a \<in> set as. ag_id a \<notin> set (users (w_db w)) \<Longrightarrow> drawn w (fold (autonomous_task g show_map org_id p event payload) as w)"
proof (induction as arbitrary: w)
  case (Cons a as)
  then have d: "drawn w (autonomous_task g show_map org_id p event payload a w)" by (simp add: autonomous_task_drawn)
  with Cons have "drawn (autonomous_task g show_map org_id p event payload a w)
      (fold (autonomous_task g show_map org_id p event payload) as (autonomous_task g show_map org_id p event payload a w))"
    using drawn_frame [OF d] by simp
  with d show ?case by (auto intro: drawn_trans)
qed (simp add: drawn_refl)

lemma get_agent_stored: "get_agent org_id i d = ok ag \<Longrightarrow> ag_id ag \<in> ag_id ` set (agents d)"
  by (auto simp: get_agent_def scan_agent_def Let_def split: sum.splits dest!: query_row_okD)

lemma autonomous_members_stored: "a \<in> set (autonomous_members org_id d ms) \<Longrightarrow> ag_id a \<in> ag_id ` set (agents d)"
  by (induction ms) (auto split: sum.splits if_splits dest: get_agent_stored)

lemma agents_of_trigger_stored: "a \<in> set (agents_of_trigger org_id d t) \<Longrightarrow> ag_id a \<in> ag_id ` set (agents d)"
  by (auto simp: agents_of_trigger_def split: option.splits sum.splits if_splits dest: get_agent_stored [OF sym] get_agent_stored autonomous_members_stored)

lemma collect_agents_frame:
  "collect_agents org_id payload ts d = (d', as) \<Longrightarrow>
    (\<exists>trgs. d' = d\<lparr>triggers := trgs\<rparr>) \<and> (\<forall>a \<in> set as. ag_id a \<in> ag_id ` set (agents d))"
proof (induction ts arbitrary: d d' as)
  case Nil
  then show ?case by (auto intro: exI [of _ "triggers d"])
next
  case (Cons t ts)
  show ?case
  proof (cases "held_back (now d) payload t")
    case True
    with Cons show ?thesis by simp
  next
    case False
    obtain as' where c: "collect_agents org_id payload ts (mark_triggered (trg_id t) d) = (d', as')" "as = agents_of_trigger org_id d t @ as'"
      using Cons.prems False by (auto split: prod.splits)
    from Cons.IH [OF c(1)] show ?thesis
      unfolding c(2) by (auto simp: mark_triggered_def dest: agents_of_trigger_stored)
  qed
qed

lemma dotted_event: "CHR ''.'' \<in> set event \<Longrightarrow> event \<notin> set valid_trigger_types"
  by (auto simp: valid_trigger_types_def)

text \<open>
  C19: The events the program sends are called \<^verbatim>\<open>task.completed\<close>, \<^verbatim>\<open>message.created\<close> and the like; no trigger
  can have such a type, so they change nothing. And whatever the event is called, the task of an
  autonomous agent names the agent as the user who created it: no event creates a task, a job or a message.
\<close>

theorem autonomy_inert:
  assumes "\<forall>a \<in> set (agents (w_db w)). ag_id a \<notin> set (users (w_db w))"
    and "\<forall>t \<in> set (triggers (w_db w)). trg_trigger_type t \<in> set valid_trigger_types"
    and "w' = handle_project_event g show_map org_id p event payload w"
  shows "tasks (w_db w') = tasks (w_db w) \<and> w_pool w' = w_pool w \<and> w_out w' = w_out w \<and> (CHR ''.'' \<in> set event \<longrightarrow> w' = w)"
proof -
  obtain d as where c: "collect_agents org_id payload (matching_triggers org_id p event (w_db w)) (w_db w) = (d, as)" by fastforce
  from collect_agents_frame [OF c] obtain trgs where d: "d = (w_db w)\<lparr>triggers := trgs\<rparr>"
    and as: "\<forall>a \<in> set as. ag_id a \<in> ag_id ` set (agents (w_db w))" by blast
  have w': "w' = fold (autonomous_task g show_map org_id p event payload) as (w\<lparr>w_db := d\<rparr>)"
    using assms(3) c by (simp add: handle_project_event_def on_db_def)
  have "\<forall>a \<in> set as. ag_id a \<notin> set (users d)"
  proof
    fix a assume "a \<in> set as"
    with as obtain b where "b \<in> set (agents (w_db w))" "ag_id a = ag_id b" by auto
    with assms(1) d show "ag_id a \<notin> set (users d)" by simp
  qed
  then have "drawn (w\<lparr>w_db := d\<rparr>) w'" unfolding w' by (intro autonomous_tasks_drawn) simp
  then have f: "tasks (w_db w') = tasks (w_db w) \<and> w_pool w' = w_pool w \<and> w_out w' = w_out w"
    using drawn_frame d by fastforce
  have "w' = w" if "CHR ''.'' \<in> set event"
  proof -
    have "matching_triggers org_id p event (w_db w) = []"
      using assms(2) dotted_event [OF that] by (auto simp: matching_triggers_def filter_empty_conv)
    with c w' show ?thesis by simp
  qed
  with f show ?thesis by blast
qed

text \<open>
  A listed run has no actions, so an evaluation counts neither iterations nor tool calls, and its score is
  zero, a half or one: a half for a completed task without a subtask or message, one with either.
\<close>

theorem evaluate_score:
  assumes "evaluate org_id tid d = ok r"
  shows "ev_iterations r = 0 \<and> ev_tool_calls r = 0
    \<and> (\<exists>t. get_task org_id tid d = ok t \<and> (ev_success r \<longleftrightarrow> t_status t = ''completed'' \<and> fst (artifact_check org_id tid d))
         \<and> ev_score r = (if ev_success r then 1 else if t_status t = ''completed'' then 1 / 2 else 0))"
proof -
  let ?rs = "list_agent_runs org_id None (Some tid) 50 d"
  have n: "run_actions x = []" if "x \<in> set ?rs" for x using that by (auto simp: list_agent_runs_def)
  have i: "fold (\<lambda>r n. max n (length (run_actions r))) rs m = m" if "\<forall>x \<in> set rs. run_actions x = []" for rs m
    using that by (induction rs arbitrary: m) auto
  have c: "sum_list (map (\<lambda>r. length (filter (\<lambda>a. aa_action_type a = ''tool_call'') (run_actions r))) ?rs) = 0"
    using n by (simp add: sum_list_eq_0_iff)
  from assms obtain t where t: "get_task org_id tid d = ok t" unfolding evaluate_def by auto
  have p: "(\<forall>x \<in> set (run_checks org_id tid d). ck_passed x) \<longleftrightarrow> t_status t = ''completed'' \<and> fst (artifact_check org_id tid d)"
    by (simp add: run_checks_def task_completed_check_def t split: prod.split)
  from assms show ?thesis
    unfolding evaluate_def t and_then_simps Let_def c p by (auto simp: i n)
qed

section \<open>Witnesses\<close>

lemma autonomy_inert_witness:
  "handle_project_event demo_golib (\<lambda>_. []) 1 3 ''task.completed'' [] (world_of demo_db) = world_of demo_db"
proof -
  have "\<forall>a \<in> set (agents (w_db (world_of demo_db))). ag_id a \<notin> set (users (w_db (world_of demo_db)))"
    "\<forall>t \<in> set (triggers (w_db (world_of demo_db))). trg_trigger_type t \<in> set valid_trigger_types"
    by (simp_all add: world_of_def demo_db_def empty_db_def demo_agent_def)
  from autonomy_inert [OF this refl, of demo_golib "\<lambda>_. []" 1 3 "''task.completed''" "[]"] show ?thesis by simp
qed

definition evaluated_db :: db where
  "evaluated_db = demo_db\<lparr>tasks := [(new_task_row 1 3 None None None None None ''t'' [] ''completed'' ''medium'' None None 2)\<lparr>t_id := 50\<rparr>]\<rparr>"

lemma evaluate_score_witness: "\<exists>r. evaluate 1 50 evaluated_db = ok r \<and> ev_tool_calls r = 0 \<and> ev_score r \<le> 1"
proof -
  have "\<not> isl (evaluate 1 50 evaluated_db)" by code_simp
  then obtain r where r: "evaluate 1 50 evaluated_db = ok r" by (cases "evaluate 1 50 evaluated_db") auto
  from evaluate_score [OF r] r show ?thesis by (auto split: if_splits)
qed

end
