(* ===== verification/KnowledgeText.thy ===== *)
theory KnowledgeText
  imports MemoryText
begin

text \<open>
  The text side of \<^verbatim>\<open>backend/internal/knowledge\<close>: the parsers of \<^verbatim>\<open>parser.go\<close>, and of \<^verbatim>\<open>ingest.go\<close>
  the normalization, the division into pages and the division into chunks. Strings are byte strings;
  white space, printing and hexadecimal digits are those of ASCII.

  The PDF library, \<^verbatim>\<open>archive/zip\<close>, the tokens of \<^verbatim>\<open>encoding/xml\<close> and the order in which Go walks the map of
  HTML entities are parameters.
\<close>

section \<open>Text\<close>

definition LF :: char where "LF = CHR 0x0A"
definition CR :: char where "CR = CHR 0x0D"

text \<open>\<^verbatim>\<open>strings.ReplaceAll\<close>; the program never replaces the empty text.\<close>

function replace_all :: "string \<Rightarrow> string \<Rightarrow> string \<Rightarrow> string" where
  "replace_all old new [] = []"
| "replace_all old new (c # cs) =
     (if old \<noteq> [] \<and> has_prefix (c # cs) old then new @ replace_all old new (drop (length old) (c # cs))
      else c # replace_all old new cs)"
  by pat_completeness auto
termination
  by (relation "measure (\<lambda>(old, new, s). length s)") auto

lemma replace_all_length:
  assumes "length new \<le> length old"
  shows "length (replace_all old new s) \<le> length s"
  using assms
proof (induction old new s rule: replace_all.induct)
  case (2 old new c cs)
  show ?case
  proof (cases "old \<noteq> [] \<and> has_prefix (c # cs) old")
    case True
    then have "length old \<le> length (c # cs)" by (auto simp: has_prefix_def dest: prefix_length_le)
    with 2 True show ?thesis by (simp del: length_Cons drop_Cons')
  next
    case False
    with 2 show ?thesis by auto
  qed
qed simp

lemma replace_all_shrinks:
  assumes "length new < length old" and "contains s old"
  shows "length (replace_all old new s) < length s"
  using assms
proof (induction old new s rule: replace_all.induct)
  case (1 old new)
  then show ?case by (auto simp: contains_def)
next
  case (2 old new c cs)
  show ?case
  proof (cases "old \<noteq> [] \<and> has_prefix (c # cs) old")
    case True
    then have "length old \<le> length (c # cs)" by (auto simp: has_prefix_def dest: prefix_length_le)
    with 2(3) replace_all_length [of new old "drop (length old) (c # cs)"] True show ?thesis
      by (simp del: length_Cons drop_Cons')
  next
    case False
    from 2(3) have "old \<noteq> []" by auto
    with False 2(4) have "contains cs old" by (auto simp: contains_def has_prefix_def sublist_Cons_right)
    with 2(2) [OF False 2(3)] False show ?thesis by auto
  qed
qed

definition blank_lines :: string where "blank_lines = [LF, LF, LF]"

function collapse_lines :: "string \<Rightarrow> string" where
  "collapse_lines s = (if contains s blank_lines then collapse_lines (replace_all blank_lines [LF, LF] s) else s)"
  by pat_completeness auto
termination
  by (relation "measure length") (auto simp: blank_lines_def intro: replace_all_shrinks)

declare collapse_lines.simps [simp del]

definition normalize_text :: "string \<Rightarrow> string" where
  "normalize_text s = collapse_lines (replace_all [CR, LF] [LF] (trim_space s))"

fun strip_html_from :: "bool \<Rightarrow> string \<Rightarrow> string" where
  "strip_html_from in_tag [] = []"
| "strip_html_from in_tag (c # cs) =
     (if c = CHR ''<'' then strip_html_from True cs
      else if c = CHR ''>'' then strip_html_from False cs
      else if in_tag then strip_html_from in_tag cs else c # strip_html_from in_tag cs)"

definition strip_html :: "string \<Rightarrow> string" where
  "strip_html s = strip_html_from False s"

definition html_entities :: "(string \<times> string) list" where
  "html_entities = [(''&amp;'', ''&''), (''&lt;'', ''<''), (''&gt;'', ''>''), (''&quot;'', [CHR 0x22]), (''&#39;'', [CHR 0x27]),
     (''&nbsp;'', '' ''), (''&apos;'', [CHR 0x27])]"

definition decode_entities :: "(string \<times> string) list \<Rightarrow> string \<Rightarrow> string" where
  "decode_entities es s = fold (\<lambda>(k, v). replace_all k v) es s"

text \<open>\<^verbatim>\<open>strings.Split(s, "\n")\<close>.\<close>

fun split_lines :: "string \<Rightarrow> string \<Rightarrow> string list" where
  "split_lines acc [] = [rev acc]"
| "split_lines acc (c # cs) = (if c = LF then rev acc # split_lines [] cs else split_lines (c # acc) cs)"

definition digits_value :: "string \<Rightarrow> nat" where
  "digits_value s = foldl (\<lambda>n c. 10 * n + (code c - 48)) 0 s"

text \<open>\<^verbatim>\<open>strconv.Atoi\<close> of decimal digits with an optional sign; beyond 64 bits it gives the bound and an error.\<close>

definition atoi :: "string \<Rightarrow> int option" where
  "atoi s =
     (let (sign, ds) = (case s of c # cs \<Rightarrow> if c = CHR ''-'' then (-1, cs) else if c = CHR ''+'' then (1, cs) else (1, s) | [] \<Rightarrow> (1, []));
          n = sign * int (digits_value ds)
      in if ds = [] \<or> \<not> list_all is_digit ds \<or> n < - (2 ^ 63) \<or> 2 ^ 63 \<le> n then None else Some n)"

section \<open>Texts in a PDF\<close>

text \<open>
  The texts \<^verbatim>\<open>\(([^)]+)\)\<close> finds: an opening parenthesis, at least one character that does not close,
  and the parenthesis that does. The same with a class of characters in angle brackets.
\<close>

text \<open>At the opening character: the group, and what is behind the closing one.\<close>

definition bracketed :: "(char \<Rightarrow> bool) \<Rightarrow> char \<Rightarrow> char \<Rightarrow> string \<Rightarrow> (string \<times> string) option" where
  "bracketed inside opens closes s =
     (case s of
        [] \<Rightarrow> None
      | c # cs \<Rightarrow>
          if c \<noteq> opens then None
          else (let body = takeWhile inside cs; rest = dropWhile inside cs
                in case rest of
                     [] \<Rightarrow> None
                   | d # ds \<Rightarrow> if body \<noteq> [] \<and> d = closes then Some (body, ds) else None))"

text \<open>\<^verbatim>\<open>FindAllStringSubmatch\<close> of a pattern that is tried at each position.\<close>

function find_groups :: "(string \<Rightarrow> (string \<times> string) option) \<Rightarrow> string \<Rightarrow> string list" where
  "find_groups m [] = []"
| "find_groups m (c # cs) =
     (case m (c # cs) of
        Some (body, rest) \<Rightarrow> body # find_groups m (if length rest \<le> length cs then rest else cs)
      | None \<Rightarrow> find_groups m cs)"
  by pat_completeness auto
termination
  by (relation "measure (\<lambda>(m, s). length s)") auto

definition paren_group :: "string \<Rightarrow> (string \<times> string) option" where
  "paren_group = bracketed (\<lambda>c. c \<noteq> CHR '')'') (CHR ''('') (CHR '')'')"

definition is_hex :: "char \<Rightarrow> bool" where
  "is_hex c \<longleftrightarrow> is_digit c \<or> (let n = code c in 65 \<le> n \<and> n \<le> 70 \<or> 97 \<le> n \<and> n \<le> 102)"

definition hex_group :: "string \<Rightarrow> (string \<times> string) option" where
  "hex_group = bracketed (\<lambda>c. is_hex c \<or> rx_space c) (CHR ''<'') (CHR ''>'')"

definition tj_group :: "string \<Rightarrow> (string \<times> string) option" where
  "tj_group s =
     (case bracketed (\<lambda>c. c \<noteq> CHR '']'') (CHR ''['') (CHR '']'') s of
        None \<Rightarrow> None
      | Some (body, rest) \<Rightarrow>
          (let rest = dropWhile rx_space rest in if has_prefix rest ''TJ'' then Some (body, drop 2 rest) else None))"

definition unescape_pdf_string :: "string \<Rightarrow> string" where
  "unescape_pdf_string s =
     (let b = CHR 0x5C
      in replace_all [b, CHR ''t''] [CHR 0x09] (replace_all [b, CHR ''r''] [CR] (replace_all [b, CHR ''n''] [LF]
           (replace_all [b, b] [b] (replace_all [b, CHR '')''] '')'' (replace_all [b, CHR ''(''] ''('' s))))))"

definition hex_digit :: "char \<Rightarrow> nat" where
  "hex_digit c = (let n = code c in if n \<le> 57 then n - 48 else if n \<le> 70 then n - 55 else n - 87)"

text \<open>\<^verbatim>\<open>Sscanf("%02x")\<close> of two characters: white space is passed over, nothing is read as zero.\<close>

definition hex_byte :: "string \<Rightarrow> nat" where
  "hex_byte s = foldl (\<lambda>n c. 16 * n + hex_digit c) 0 (filter is_hex s)"

fun hex_bytes :: "string \<Rightarrow> nat list" where
  "hex_bytes (a # b # s) = hex_byte [a, b] # hex_bytes s"
| "hex_bytes _ = []"

fun pairs_of :: "nat list \<Rightarrow> (nat \<times> nat) list" where
  "pairs_of (a # b # ns) = (a, b) # pairs_of ns"
| "pairs_of _ = []"

definition decode_hex_string :: "string \<Rightarrow> string" where
  "decode_hex_string s =
     (let plain = concat (map (\<lambda>n. if 32 \<le> n \<and> n \<le> 126 then [char_of n] else if n = 10 \<or> n = 13 then '' '' else []) (hex_bytes s));
          uni = concat (map (\<lambda>(hi, lo). if hi = 0 \<and> 32 \<le> lo \<and> lo \<le> 126 then [char_of lo] else []) (pairs_of (hex_bytes (drop 4 s))))
      in if (has_prefix s ''FEFF'' \<or> has_prefix s ''feff'') \<and> 3 < length uni then uni else plain)"

definition is_binary_garbage :: "string \<Rightarrow> bool" where
  "is_binary_garbage s \<longleftrightarrow> s = [] \<or>
     rat_of_nat (length (filter (\<lambda>c. is_lower c \<or> is_upper c \<or> is_digit c \<or> c \<in> set '' .,-'') s)) / rat_of_nat (length s) < 6 / 10"

definition is_printable :: "string \<Rightarrow> bool" where
  "is_printable s \<longleftrightarrow> list_all (\<lambda>c. 32 \<le> code c \<and> code c \<le> 126 \<or> code c \<in> {9, 10, 13}) s"

definition paren_texts :: "bool \<Rightarrow> string \<Rightarrow> string list" where
  "paren_texts check s = filter (\<lambda>t. 3 \<le> length t \<and> is_printable t \<and> (check \<longrightarrow> \<not> is_binary_garbage t))
     (map (\<lambda>g. trim_space (unescape_pdf_string g)) (find_groups paren_group s))"

definition hex_texts :: "string \<Rightarrow> string list" where
  "hex_texts s =
     concat (map (\<lambda>g.
       (let h = filter (\<lambda>c. c \<noteq> CHR '' '' \<and> c \<noteq> LF \<and> c \<noteq> CR) g; t = decode_hex_string h
        in if 6 \<le> length h \<and> even (length h) \<and> t \<noteq> [] \<and> 3 \<le> length (trim_space t) \<and> is_printable t then [trim_space t] else []))
       (find_groups hex_group s))"

fun keep_first :: "'a list \<Rightarrow> 'a list \<Rightarrow> 'a list" where
  "keep_first seen [] = []"
| "keep_first seen (x # xs) = (if x \<in> set seen then keep_first seen xs else x # keep_first (x # seen) xs)"

definition extract_pdf_heuristic :: "string \<Rightarrow> string" where
  "extract_pdf_heuristic s =
     join '' '' (keep_first [] (paren_texts True s @ hex_texts s @ concat (map (paren_texts False) (find_groups tj_group s))))"

section \<open>The parsers\<close>

datatype xml_token = StartElement string "(string \<times> string) list" | EndElement string | CharData string

text \<open>
  What the libraries give: the pages of a PDF, a null page being nothing, with their text or an error; the
  content of an entry of a zip archive, empty when it is not there; the tokens up to the end or an error.
\<close>

record text_env =
  xe_pdf :: "string \<Rightarrow> string res option list res"
  xe_zip :: "string \<Rightarrow> string res"
  xe_xml :: "string \<Rightarrow> xml_token list"
  xe_entities :: "(string \<times> string) list"

datatype parser = TextParser | MarkdownParser | HTMLParser | PDFParser | DOCXParser

fun parser_name :: "parser \<Rightarrow> string" where
  "parser_name TextParser = ''text''"
| "parser_name MarkdownParser = ''markdown''"
| "parser_name HTMLParser = ''html''"
| "parser_name PDFParser = ''pdf''"
| "parser_name DOCXParser = ''docx''"

definition parser_registry :: "(string \<times> parser) list" where
  "parser_registry = [(''text/plain'', TextParser), (''text/markdown'', MarkdownParser), (''text/html'', HTMLParser),
     (''application/pdf'', PDFParser),
     (''application/vnd.openxmlformats-officedocument.wordprocessingml.document'', DOCXParser)]"

definition has_suffix :: "string \<Rightarrow> string \<Rightarrow> bool" where "has_suffix s t = suffix t s"

definition get_parser :: "string \<Rightarrow> string \<Rightarrow> parser" where
  "get_parser mime filename =
     (case map_of parser_registry (to_lower (trim_space mime)) of
        Some p \<Rightarrow> p
      | None \<Rightarrow>
          (let f = to_lower filename
           in if has_suffix f ''.md'' then MarkdownParser
              else if has_suffix f ''.html'' \<or> has_suffix f ''.htm'' then HTMLParser
              else if has_suffix f ''.pdf'' then PDFParser
              else if has_suffix f ''.docx'' then DOCXParser
              else TextParser))"

fun pdf_pages :: "nat \<Rightarrow> string res option list \<Rightarrow> string" where
  "pdf_pages i [] = []"
| "pdf_pages i (p # ps) =
     (case p of
        Some (Inr t) \<Rightarrow>
          (let t = trim_space t
           in if t = [] then []
              else (if 1 < i then [LF, LF] else []) @ ''[Page '' @ nat_str i @ '']'' @ [LF] @ t)
      | _ \<Rightarrow> []) @ pdf_pages (i + 1) ps"

definition extract_pdf_native :: "text_env \<Rightarrow> string \<Rightarrow> string res" where
  "extract_pdf_native env data =
     and_then (xe_pdf env data) (\<lambda>ps. if ps = [] then fail ''pdf has 0 pages'' else ok (pdf_pages 1 ps))"

definition em_dash :: string where "em_dash = [CHR 0x20, CHR 0xE2, CHR 0x80, CHR 0x94, CHR 0x20]"

definition parse_pdf :: "text_env \<Rightarrow> string \<Rightarrow> string \<Rightarrow> string res" where
  "parse_pdf env data filename =
     (let guess = extract_pdf_heuristic data; info = '': file '' @ filename @ '' size '' @ nat_str (length data) @ '' bytes''
      in if data = [] then fail ''empty pdf''
         else if \<not> has_prefix data ''%PDF'' then fail ''not a pdf: missing header''
         else case extract_pdf_native env data of
                Inr t \<Rightarrow> if trim_space t \<noteq> [] then ok (normalize_text t)
                         else if trim_space guess \<noteq> [] then ok (normalize_text guess)
                         else fail (''pdf extraction found no extractable text'' @ info @ em_dash @ ''ensure PDF contains selectable text (not scanned image)'')
              | Inl e \<Rightarrow> if trim_space guess \<noteq> [] then ok (normalize_text guess)
                         else fail (''pdf extraction failed (native: '' @ e @ '') and heuristic found no text'' @ info))"

text \<open>The text of a document in markdown: the text so far and whether a table is open.\<close>

definition heading :: "string \<Rightarrow> string" where
  "heading v =
     (if \<not> has_prefix v ''Heading'' then []
      else case atoi (drop 7 v) of
             Some n \<Rightarrow> if 1 \<le> n \<and> n \<le> 6 then replicate (nat n) (CHR ''#'') @ '' '' else ''# ''
           | None \<Rightarrow> ''# '')"

definition new_line :: "string \<Rightarrow> string" where
  "new_line buf = (if has_suffix buf [LF] then buf else buf @ [LF])"

fun docx_token :: "xml_token \<Rightarrow> string \<times> bool \<Rightarrow> string \<times> bool" where
  "docx_token (StartElement n attrs) (buf, tbl) =
     (if n = ''p'' then (if buf = [] then buf else new_line buf, tbl)
      else if n = ''pStyle'' then (buf @ concat (map (\<lambda>(k, v). if k = ''val'' then heading v else []) attrs), tbl)
      else if n = ''numPr'' then (buf @ ''- '', tbl)
      else if n = ''tbl'' then (buf @ [LF], True)
      else if n = ''tr'' then (if tbl then new_line buf @ ''| '' else buf, tbl)
      else if n = ''tab'' then (buf @ [CHR 0x09], tbl)
      else if n = ''br'' then (buf @ [LF], tbl)
      else (buf, tbl))"
| "docx_token (EndElement n) (buf, tbl) =
     (if n = ''p'' then (buf @ [LF], tbl)
      else if n = ''tbl'' then (buf @ [LF], False)
      else if n = ''tr'' then (if tbl then buf @ [LF] else buf, tbl)
      else if n = ''tc'' then (if tbl then buf @ '' | '' else buf, tbl)
      else (buf, tbl))"
| "docx_token (CharData s) (buf, tbl) = (if trim_space s \<noteq> [] then buf @ trim_space s @ '' '' else buf, tbl)"

text \<open>\<^verbatim>\<open><w:t[^>]*>([^<]+)</w:t>\<close>.\<close>

definition run_text :: "string \<Rightarrow> (string \<times> string) option" where
  "run_text s =
     (if \<not> has_prefix s ''<w:t'' then None
      else case dropWhile (\<lambda>c. c \<noteq> CHR ''>'') (drop 4 s) of
             [] \<Rightarrow> None
           | _ # r \<Rightarrow>
               (let body = takeWhile (\<lambda>c. c \<noteq> CHR ''<'') r; rest = dropWhile (\<lambda>c. c \<noteq> CHR ''<'') r
                in if body \<noteq> [] \<and> has_prefix rest ''</w:t>'' then Some (body, drop 6 rest) else None))"

definition parse_docx :: "text_env \<Rightarrow> string \<Rightarrow> string \<Rightarrow> string res" where
  "parse_docx env data filename =
     (if data = [] then fail ''empty docx''
      else case xe_zip env data of
             Inl e \<Rightarrow> fail (''not a valid docx zip: '' @ e)
           | Inr doc \<Rightarrow>
               if doc = [] then fail (''docx missing word/document.xml: file '' @ filename)
               else
                 (let text = trim_space (fst (fold docx_token (xe_xml env doc) ([], False))); parts = find_groups run_text doc
                  in if text = [] \<and> parts = [] then fail (''docx extraction found no text: file '' @ filename)
                     else ok (replace_all ''#  '' ''# '' (normalize_text (if text = [] then join '' '' parts else text)))))"

fun parse_with :: "text_env \<Rightarrow> parser \<Rightarrow> string \<Rightarrow> string \<Rightarrow> string res" where
  "parse_with env TextParser data filename = ok (normalize_text data)"
| "parse_with env MarkdownParser data filename = ok (normalize_text data)"
| "parse_with env HTMLParser data filename = ok (normalize_text (decode_entities (xe_entities env) (strip_html data)))"
| "parse_with env PDFParser data filename = parse_pdf env data filename"
| "parse_with env DOCXParser data filename = parse_docx env data filename"

definition extract_file_content :: "text_env \<Rightarrow> string \<Rightarrow> string \<Rightarrow> string \<Rightarrow> string" where
  "extract_file_content env data mime filename =
     (let p = get_parser mime filename
      in case parse_with env p data filename of
           Inr t \<Rightarrow> t
         | Inl e \<Rightarrow> ''[extraction via '' @ parser_name p @ '' parser failed: '' @ e @ em_dash @ ''size '' @ nat_str (length data)
                     @ '' bytes, mime '' @ mime @ '', file '' @ filename @ em_dash @ ''install real parser for production]'')"

section \<open>Chunks\<close>

definition slice :: "nat \<Rightarrow> nat \<Rightarrow> 'a list \<Rightarrow> 'a list" where
  "slice a b s = take (b - a) (drop a s)"

text \<open>
  The end of the chunk that starts at \<open>start\<close>: behind the last line end or full stop of its second half,
  when there is one.
\<close>

definition chunk_end :: "string \<Rightarrow> nat \<Rightarrow> nat \<Rightarrow> nat" where
  "chunk_end s chunk start =
     (let e = min (start + chunk) (length s)
      in if e < length s
         then (case find (\<lambda>j. s ! j = LF \<or> s ! j = CHR ''.'') (rev [start + chunk div 2 + 1..<e + 1]) of
                 None \<Rightarrow> e | Some j \<Rightarrow> j + 1)
         else e)"

text \<open>The loop may run for ever; then it is \<open>None\<close>.\<close>

partial_function (option) chunk_loop :: "string \<Rightarrow> nat \<Rightarrow> nat \<Rightarrow> nat \<Rightarrow> string list option" where
  "chunk_loop s chunk overlap start =
     (if start < length s
      then (let e = chunk_end s chunk start; t = trim_space (slice start e s)
            in if length s \<le> e then Some [t]
               else Option.bind (chunk_loop s chunk overlap (e - overlap)) (\<lambda>ts. Some (t # ts)))
      else Some [])"

declare chunk_loop.simps [code]

definition chunk_text :: "string \<Rightarrow> int \<Rightarrow> int \<Rightarrow> string list option" where
  "chunk_text content size_tokens overlap_tokens =
     (let size_tokens = (if size_tokens \<le> 0 then 500 else size_tokens);
          overlap_tokens = (if overlap_tokens < 0 then 50 else overlap_tokens);
          chunk = nat (size_tokens * 4); content = normalize_text content
      in if length content \<le> chunk then Some [content] else chunk_loop content chunk (nat (overlap_tokens * 4)) 0)"

definition estimate_tokens :: "string \<Rightarrow> nat" where
  "estimate_tokens s = length s div 4"

section \<open>Pages\<close>

text \<open>\<^verbatim>\<open>\[Page (\d+)\]\n?\<close> at the start of a text: the digits and the rest.\<close>

definition page_marker :: "string \<Rightarrow> (string \<times> string) option" where
  "page_marker s =
     (if \<not> has_prefix s ''[Page '' then None
      else (let ds = takeWhile is_digit (drop 6 s); rest = dropWhile is_digit (drop 6 s)
            in case rest of
                 [] \<Rightarrow> None
               | c # cs \<Rightarrow> if ds \<noteq> [] \<and> c = CHR '']'' then Some (ds, case cs of [] \<Rightarrow> [] | d # r \<Rightarrow> if d = LF then r else cs) else None))"

text \<open>The text before the first marker, and for each marker its digits and the text up to the next.\<close>

function split_pages :: "string \<Rightarrow> string \<Rightarrow> string \<times> (string \<times> string) list" where
  "split_pages acc [] = (rev acc, [])"
| "split_pages acc (c # cs) =
     (case page_marker (c # cs) of
        Some (ds, rest) \<Rightarrow>
          (case split_pages [] (if length rest \<le> length cs then rest else cs) of (t, ps) \<Rightarrow> (rev acc, (ds, t) # ps))
      | None \<Rightarrow> split_pages (c # acc) cs)"
  by pat_completeness auto
termination
  by (relation "measure (\<lambda>(acc, s). length s)") auto

definition section_of :: "string \<Rightarrow> string" where
  "section_of page =
     (case find (\<lambda>l. has_prefix l ''#'') (map trim_space (split_lines [] page)) of
        None \<Rightarrow> [] | Some l \<Rightarrow> trim_space (dropWhile (\<lambda>c. c = CHR ''#'') l))"

record page_chunk =
  pc_page :: int
  pc_text :: string
  pc_section :: string

definition page_chunks :: "string \<Rightarrow> page_chunk list" where
  "page_chunks content =
     (case split_pages [] content of
        (_, []) \<Rightarrow> [\<lparr>pc_page = 1, pc_text = content, pc_section = []\<rparr>]
      | (_, ps) \<Rightarrow>
          concat (map (\<lambda>(ds, t).
            (let t = trim_space t
             in if t = [] then []
                else [\<lparr>pc_page = (case atoi ds of Some n \<Rightarrow> n | None \<Rightarrow> 2 ^ 63 - 1), pc_text = t, pc_section = section_of t\<rparr>])) ps))"

section \<open>What the texts are\<close>

text \<open>No text has three line ends in a row after normalization.\<close>

lemma collapse_lines_clean: "\<not> contains (collapse_lines s) blank_lines"
proof (induction s rule: collapse_lines.induct)
  case (1 s)
  then show ?case by (cases "contains s blank_lines") (simp_all add: collapse_lines.simps [of s])
qed

lemma normalize_text_clean: "\<not> contains (normalize_text s) blank_lines"
  by (simp add: normalize_text_def collapse_lines_clean)

text \<open>No tag is left by the parser of HTML, before the entities are decoded.\<close>

lemma strip_html_clean: "set (strip_html_from b s) \<inter> {CHR ''<'', CHR ''>''} = {}"
  by (induction s arbitrary: b) auto

text \<open>Which text a doubly escaped entity becomes depends on the order in which the map is walked.\<close>

lemma entities_by_order:
  "decode_entities [(''&amp;'', ''&''), (''&lt;'', ''<'')] ''&amp;lt;'' = ''<''"
  "decode_entities [(''&lt;'', ''<''), (''&amp;'', ''&'')] ''&amp;lt;'' = ''&lt;''"
  by code_simp+

text \<open>What stands before the first marker of a page is in no chunk.\<close>

lemma before_first_page_lost: "map pc_text (page_chunks ''intro [Page 2] body'') = [''body'']"
  by code_simp

subsection \<open>The loop ends\<close>

lemma chunk_end_bounds:
  assumes "start < length s" and "2 \<le> chunk"
  shows "chunk_end s chunk start \<le> length s" and "chunk_end s chunk start \<le> start + chunk + 1"
    and "chunk_end s chunk start < length s \<Longrightarrow> start + chunk div 2 + 1 \<le> chunk_end s chunk start"
    and "start < chunk_end s chunk start"
proof -
  define e where "e = min (start + chunk) (length s)"
  have c: "chunk_end s chunk start = e \<and> (e < length s \<longrightarrow> e = start + chunk)
      \<or> (\<exists>j. e < length s \<and> e = start + chunk \<and> start + chunk div 2 < j \<and> j \<le> e \<and> chunk_end s chunk start = j + 1)"
  proof (cases "e < length s")
    case False
    then show ?thesis by (simp add: chunk_end_def Let_def e_def)
  next
    case True
    then have "e = start + chunk" by (simp add: e_def)
    show ?thesis
    proof (cases "find (\<lambda>j. s ! j = LF \<or> s ! j = CHR ''.'') (rev [start + chunk div 2 + 1..<e + 1])")
      case None
      with True \<open>e = start + chunk\<close> show ?thesis unfolding chunk_end_def Let_def e_def [symmetric] by simp
    next
      case (Some j)
      then have "j \<in> set (rev [start + chunk div 2 + 1..<e + 1])" unfolding find_Some_iff by (metis nth_mem)
      then have "start + chunk div 2 < j \<and> j \<le> e" by auto
      with True Some \<open>e = start + chunk\<close> show ?thesis unfolding chunk_end_def Let_def e_def [symmetric] by simp
    qed
  qed
  have "e \<le> length s" "e \<le> start + chunk" "start < e" using assms by (simp_all add: e_def)
  with c assms show "chunk_end s chunk start \<le> length s" "chunk_end s chunk start \<le> start + chunk + 1"
    "chunk_end s chunk start < length s \<Longrightarrow> start + chunk div 2 + 1 \<le> chunk_end s chunk start" "start < chunk_end s chunk start"
    by auto
qed

lemma chunk_loop_ends:
  assumes "start < length s" and "2 \<le> chunk" and "overlap \<le> chunk div 2"
  shows "\<exists>ws. chunk_loop s chunk overlap start = Some (map (\<lambda>(a, b). trim_space (slice a b s)) ws)
    \<and> ws \<noteq> [] \<and> fst (hd ws) = start \<and> snd (last ws) = length s
    \<and> successively (\<lambda>(a, b) (c, d). a < c \<and> c \<le> b) ws \<and> (\<forall>(a, b) \<in> set ws. a < b \<and> b \<le> a + chunk + 1)"
  using assms
proof (induction "length s - start" arbitrary: start rule: less_induct)
  case less
  let ?e = "chunk_end s chunk start"
  note b = chunk_end_bounds [OF less.prems(1,2)]
  show ?case
  proof (cases "length s \<le> ?e")
    case True
    then have "?e = length s" using b(1) by simp
    with less.prems(1) b show ?thesis
      by (intro exI [of _ "[(start, length s)]"]) (subst chunk_loop.simps, simp add: Let_def)
  next
    case False
    then have "start + chunk div 2 + 1 \<le> ?e" using b(3) by simp
    then have p: "start < ?e - overlap" "?e - overlap < length s" using less.prems(3) False by simp_all
    then have "length s - (?e - overlap) < length s - start" using less.prems(1) by linarith
    from less.hyps [OF this p(2) less.prems(2,3)] obtain ws where
      ws: "chunk_loop s chunk overlap (?e - overlap) = Some (map (\<lambda>(a, b). trim_space (slice a b s)) ws)"
        "ws \<noteq> []" "fst (hd ws) = ?e - overlap" "snd (last ws) = length s" "successively (\<lambda>(a, b) (c, d). a < c \<and> c \<le> b) ws"
        "\<forall>(a, b) \<in> set ws. a < b \<and> b \<le> a + chunk + 1" by blast
    have "chunk_loop s chunk overlap start = Some (map (\<lambda>(a, b). trim_space (slice a b s)) ((start, ?e) # ws))"
      using less.prems(1) False ws(1) by (subst chunk_loop.simps) (simp add: Let_def)
    moreover have "successively (\<lambda>(a, b) (c, d). a < c \<and> c \<le> b) ((start, ?e) # ws)"
      using ws(2,3,5) p(1) by (cases ws) (auto split: prod.splits)
    ultimately show ?thesis using ws b(2,4) by (intro exI [of _ "(start, ?e) # ws"]) auto
  qed
qed

lemma chunk_text_ends:
  assumes "0 < size_tokens" and "0 \<le> overlap_tokens" and "2 * overlap_tokens \<le> size_tokens"
  obtains ts where "chunk_text s size_tokens overlap_tokens = Some ts" "ts \<noteq> []"
proof (cases "length (normalize_text s) \<le> nat (size_tokens * 4)")
  case True
  then show ?thesis using assms that by (simp add: chunk_text_def Let_def)
next
  case False
  then have "0 < length (normalize_text s)" "2 \<le> nat (size_tokens * 4)" "nat (overlap_tokens * 4) \<le> nat (size_tokens * 4) div 2"
    using assms by linarith+
  from chunk_loop_ends [OF this] show ?thesis
    using False assms that by (auto simp: chunk_text_def Let_def)
qed

text \<open>
  C17: With an overlap of at most half a chunk the division ends, and nothing of the normalized text is lost:
  the chunks are windows that start at its start, end at its end and follow one another without a gap, each
  at most one byte longer than a chunk is to be.
\<close>

theorem chunk_text_covers:
  assumes "0 < size_tokens" and "0 \<le> overlap_tokens" and "2 * overlap_tokens \<le> size_tokens"
    and "n = normalize_text s"
  shows "if int (length n) \<le> 4 * size_tokens then chunk_text s size_tokens overlap_tokens = Some [n]
    else \<exists>ws. chunk_text s size_tokens overlap_tokens = Some (map (\<lambda>(a, b). trim_space (slice a b n)) ws)
      \<and> ws \<noteq> [] \<and> fst (hd ws) = 0 \<and> snd (last ws) = length n
      \<and> successively (\<lambda>(a, b) (c, d). a < c \<and> c \<le> b) ws \<and> (\<forall>(a, b) \<in> set ws. int (b - a) \<le> 4 * size_tokens + 1)"
proof (cases "int (length n) \<le> 4 * size_tokens")
  case True
  then show ?thesis using assms(1,2) by (simp add: chunk_text_def Let_def assms(4) [symmetric] nat_le_eq_zle le_nat_iff)
next
  case False
  let ?c = "nat (size_tokens * 4)" and ?o = "nat (overlap_tokens * 4)"
  have "?c < length n" "2 \<le> ?c" "?o \<le> ?c div 2" using False assms(1-3) by linarith+
  moreover from this have "0 < length n" by linarith
  ultimately obtain ws where ws: "chunk_loop n ?c ?o 0 = Some (map (\<lambda>(a, b). trim_space (slice a b n)) ws)"
      "ws \<noteq> []" "fst (hd ws) = 0" "snd (last ws) = length n" "successively (\<lambda>(a, b) (c, d). a < c \<and> c \<le> b) ws"
      "\<forall>(a, b) \<in> set ws. a < b \<and> b \<le> a + ?c + 1" using chunk_loop_ends [of 0 n ?c ?o] by auto
  have "chunk_text s size_tokens overlap_tokens = chunk_loop n ?c ?o 0"
    using assms(1,2) \<open>?c < length n\<close> by (simp add: chunk_text_def Let_def assms(4) [symmetric])
  moreover have "\<forall>(a, b) \<in> set ws. int (b - a) \<le> 4 * size_tokens + 1" using ws(6) assms(1) by fastforce
  ultimately show ?thesis using False ws(1-5) by auto
qed

text \<open>
  An overlap of a whole chunk or more makes the loop go on for ever on a long text without a line end or
  full stop: the next chunk starts where the last one did.
\<close>

lemma chunk_loop_stuck:
  assumes "chunk < length s" and "0 < chunk" and "chunk \<le> overlap" and "\<forall>j < length s. s ! j \<noteq> LF \<and> s ! j \<noteq> CHR ''.''"
  shows "chunk_loop s chunk overlap 0 = None"
proof -
  have "find (\<lambda>j. s ! j = LF \<or> s ! j = CHR ''.'') (rev [0 + chunk div 2 + 1..<chunk + 1]) = None"
    using assms(1,4) by (auto simp: find_None_iff simp del: upt_Suc)
  then have e: "chunk_end s chunk 0 = chunk" using assms(1,2) by (simp add: chunk_end_def Let_def)
  have "chunk_loop s chunk overlap 0 = Option.bind (chunk_loop s chunk overlap 0) (\<lambda>ts. Some (trim_space (slice 0 chunk s) # ts))"
    by (subst chunk_loop.simps) (use assms e in \<open>auto simp: Let_def\<close>)
  then show ?thesis by (cases "chunk_loop s chunk overlap 0") auto
qed

section \<open>Witnesses\<close>

lemma chunk_text_covers_witness:
  "chunk_text ''one. two. three. four. five.'' 4 1 = Some [''one. two. three.'', ''ree. four. five.'']
   \<and> (\<exists>ws. chunk_text ''one. two. three. four. five.'' 4 1
        = Some (map (\<lambda>(a, b). trim_space (slice a b ''one. two. three. four. five.'')) ws) \<and> snd (last ws) = length ''one. two. three. four. five.'')"
proof
  show "chunk_text ''one. two. three. four. five.'' 4 1 = Some [''one. two. three.'', ''ree. four. five.'']" by code_simp
  have "normalize_text ''one. two. three. four. five.'' = ''one. two. three. four. five.''" by code_simp
  then show "\<exists>ws. chunk_text ''one. two. three. four. five.'' 4 1
      = Some (map (\<lambda>(a, b). trim_space (slice a b ''one. two. three. four. five.'')) ws) \<and> snd (last ws) = length ''one. two. three. four. five.''"
    using chunk_text_covers [of 4 1 _ "''one. two. three. four. five.''", OF _ _ _ refl]
    by (simp only: zero_less_numeral zero_le_one zero_le_numeral) (auto split: if_splits)
qed

end
