(* ===== verification/Http.thy ===== *)
theory Http
  imports ApprovalHandler Decision KnowledgeText
begin

text \<open>
  What the handlers of \<^verbatim>\<open>backend/internal/http/handlers\<close> share: the reply (\<^verbatim>\<open>writeData\<close> and \<^verbatim>\<open>writeError\<close> of
  \<^verbatim>\<open>helpers.go\<close>), the decoding of a body, and the middleware that turns a panic into a reply. A handler is a
  function of the claims of the user, the parts of the path, the query and the body; a body that is not JSON is
  \<open>None\<close>, and of a number in a body only its value is kept, so \<open>1.0\<close> is an integer here.
\<close>

section \<open>Replies\<close>

datatype 'a http_reply = Refused int string string | Data int 'a

abbreviation invalid :: "string \<Rightarrow> 'a http_reply" where "invalid \<equiv> Refused 400 ''VALIDATION_ERROR''"
abbreviation not_found :: "string \<Rightarrow> 'a http_reply" where "not_found \<equiv> Refused 404 ''NOT_FOUND''"
abbreviation internal :: "string \<Rightarrow> 'a http_reply" where "internal \<equiv> Refused 500 ''INTERNAL''"

definition recovered :: "'a http_reply option \<Rightarrow> 'a http_reply" where
  "recovered r = (case r of None \<Rightarrow> internal ''internal server error'' | Some x \<Rightarrow> x)"

definition reply_of :: "int \<Rightarrow> 'a res \<Rightarrow> 'a http_reply" where
  "reply_of status r = (case r of Inl e \<Rightarrow> internal e | Inr x \<Rightarrow> Data status x)"

text \<open>The list of a page: \<open>pagination\<close>.\<close>

definition pagination :: "string \<Rightarrow> string \<Rightarrow> int \<times> int" where
  "pagination page page_size =
     ((case atoi page of Some n \<Rightarrow> if 0 < n then n else 1 | None \<Rightarrow> 1),
      (case atoi page_size of Some n \<Rightarrow> if 0 < n \<and> n \<le> 100 then n else 20 | None \<Rightarrow> 20))"

section \<open>Bodies\<close>

definition decode_body :: "(gomap \<Rightarrow> 'r res) \<Rightarrow> json option \<Rightarrow> 'r option" where
  "decode_body f body =
     (case (case body of Some (JObj m) \<Rightarrow> f m | Some JNull \<Rightarrow> f [] | _ \<Rightarrow> fail ''invalid'') of Inr r \<Rightarrow> Some r | Inl _ \<Rightarrow> None)"

fun field_bool :: "golib \<Rightarrow> string \<Rightarrow> gomap \<Rightarrow> bool \<Rightarrow> bool res" where
  "field_bool g f [] cur = ok cur"
| "field_bool g f ((k, v) # m) cur =
     (if to_lower k = f then
        (case v of JBool b \<Rightarrow> field_bool g f m b
         | JNull \<Rightarrow> field_bool g f m cur
         | _ \<Rightarrow> fail (json_type_err g f v))
      else field_bool g f m cur)"

fun field_int :: "golib \<Rightarrow> string \<Rightarrow> gomap \<Rightarrow> int \<Rightarrow> int res" where
  "field_int g f [] cur = ok cur"
| "field_int g f ((k, v) # m) cur =
     (if to_lower k = f then
        (case v of JNum q \<Rightarrow> if of_int \<lfloor>q\<rfloor> = q \<and> - (2 ^ 63) \<le> \<lfloor>q\<rfloor> \<and> \<lfloor>q\<rfloor> < 2 ^ 63 then field_int g f m \<lfloor>q\<rfloor> else fail (json_type_err g f v)
         | JNull \<Rightarrow> field_int g f m cur
         | _ \<Rightarrow> fail (json_type_err g f v))
      else field_int g f m cur)"

text \<open>A \<^verbatim>\<open>map[string]string\<close>: a null gives an empty text, any other value that is no string an error.\<close>

fun string_entries :: "golib \<Rightarrow> string \<Rightarrow> gomap \<Rightarrow> (string \<times> string) list \<Rightarrow> (string \<times> string) list res" where
  "string_entries g f [] acc = ok acc"
| "string_entries g f ((k, v) # m) acc =
     (case v of JStr s \<Rightarrow> string_entries g f m (AList.update k s acc)
      | JNull \<Rightarrow> string_entries g f m (AList.update k [] acc)
      | _ \<Rightarrow> fail (json_type_err g f v))"

fun field_strings :: "golib \<Rightarrow> string \<Rightarrow> gomap \<Rightarrow> (string \<times> string) list \<Rightarrow> (string \<times> string) list res" where
  "field_strings g f [] cur = ok cur"
| "field_strings g f ((k, v) # m) cur =
     (if to_lower k = f then
        (case v of JObj e \<Rightarrow> and_then (string_entries g f e cur) (field_strings g f m)
         | JNull \<Rightarrow> field_strings g f m []
         | _ \<Rightarrow> fail (json_type_err g f v))
      else field_strings g f m cur)"

end
