(* ===== verification/Knowledge.thy ===== *)
theory Knowledge
  imports KnowledgeText Conversations Decision World "HOL-Library.Word"
begin

text \<open>
  \<^verbatim>\<open>backend/internal/repository/knowledge.go\<close>, the ingestion of \<^verbatim>\<open>backend/internal/knowledge/ingest.go\<close> and
  \<^verbatim>\<open>retriever.go\<close>. The tables of the knowledge base stand beside the rest of the program's state. A row of
  \<^verbatim>\<open>document_chunks\<close> is the chunk with the text of its vector. Deleting a document deletes what refers to it.

  The embedder, the reranker, the rendering of floats, the cast to \<^verbatim>\<open>vector(1536)\<close>, the query by distance,
  the order in which a Go map is walked and then sorted, and the web are parameters. A score is a rational, so
  the distance from a zero vector is not modelled.
\<close>

section \<open>Data\<close>

record knowledge_source =
  ks_id :: uuid
  ks_organization_id :: uuid
  ks_name :: string
  ks_source_type :: string
  ks_config :: "gomap option"
  ks_status :: string
  ks_created_by :: "uuid option"
  ks_created_at :: time
  ks_updated_at :: time

record knowledge_collection =
  kc_id :: uuid
  kc_organization_id :: uuid
  kc_name :: string
  kc_slug :: string
  kc_description :: string
  kc_created_by :: "uuid option"
  kc_created_at :: time
  kc_updated_at :: time

record document =
  doc_id :: uuid
  doc_organization_id :: uuid
  doc_project_id :: "uuid option"
  doc_collection_id :: "uuid option"
  doc_source_id :: "uuid option"
  doc_title :: string
  doc_source_type :: string
  doc_source_url :: "string option"
  doc_mime_type :: string
  doc_size_bytes :: int
  doc_status :: string
  doc_scope :: string
  doc_version :: int
  doc_metadata :: "gomap option"
  doc_content :: string
  doc_created_by :: "uuid option"
  doc_created_at :: time
  doc_updated_at :: time
  doc_chunk_count :: int

record document_version =
  dver_document_id :: uuid
  dver_version :: int
  dver_title :: string
  dver_content :: string
  dver_metadata :: "gomap option"
  dver_created_by :: "uuid option"
  dver_created_at :: time

record document_chunk =
  dc_id :: uuid
  dc_document_id :: uuid
  dc_organization_id :: uuid
  dc_chunk_index :: int
  dc_content :: string
  dc_token_count :: int
  dc_embedding :: "rat list"
  dc_metadata :: "gomap option"
  dc_created_at :: time
  dc_score :: rat
  dc_document_title :: string

record embedding =
  em_organization_id :: uuid
  em_document_chunk_id :: uuid
  em_embedding :: string
  em_model :: string

record agent_knowledge =
  ak_id :: uuid
  ak_agent_id :: uuid
  ak_document_id :: "uuid option"
  ak_collection_id :: "uuid option"
  ak_granted_by :: "uuid option"
  ak_created_at :: time
  ak_document :: "document option"
  ak_collection :: "knowledge_collection option"

record project_knowledge =
  pk_id :: uuid
  pk_project_id :: uuid
  pk_document_id :: "uuid option"
  pk_collection_id :: "uuid option"
  pk_granted_by :: "uuid option"
  pk_created_at :: time

record retrieval_filter =
  rf_organization_id :: uuid
  rf_agent_id :: "uuid option"
  rf_project_id :: "uuid option"
  rf_channel_id :: "uuid option"
  rf_allowed_doc_ids :: "uuid list"
  rf_metadata :: "(string \<times> string) list"
  rf_scope :: string
  rf_limit :: int

record hit =
  hit_chunk :: document_chunk
  hit_score :: rat
  hit_document :: "document option"

text \<open>What is under a vector column is its text.\<close>

type_synonym chunk_row = "document_chunk \<times> string"

record kworld =
  k_world :: world
  k_sources :: "knowledge_source list"
  k_collections :: "knowledge_collection list"
  k_documents :: "document list"
  k_versions :: "document_version list"
  k_chunks :: "chunk_row list"
  k_embeddings :: "embedding list"
  k_agent_knowledge :: "agent_knowledge list"
  k_project_knowledge :: "project_knowledge list"

abbreviation kdb :: "kworld \<Rightarrow> db" where "kdb w \<equiv> w_db (k_world w)"

text \<open>
  \<open>ke_nearest\<close> is the query by distance: the rows it may give with their scores, nearest first, or the error
  of the vector; \<open>ke_order\<close> is the walk over the merged results with \<^verbatim>\<open>sort.Slice\<close>; \<open>ke_fetch\<close> is \<^verbatim>\<open>http.Get\<close>.
\<close>

record know_env =
  ke_go :: golib
  ke_text :: text_env
  ke_float :: "rat \<Rightarrow> string"
  ke_vector_ok :: "string \<Rightarrow> bool"
  ke_nearest :: "string \<Rightarrow> chunk_row list \<Rightarrow> (chunk_row \<times> rat) list res"
  ke_embed :: "(string list \<Rightarrow> rat list list res) option"
  ke_rerank :: "(string \<Rightarrow> hit list \<Rightarrow> hit list res) option"
  ke_order :: "hit list \<Rightarrow> hit list"
  ke_fetch :: "string \<Rightarrow> (int \<times> string) res"

definition with_id :: "kworld \<Rightarrow> kworld \<times> uuid" where
  "with_id w = (case new_uuid (k_world w) of (v, i) \<Rightarrow> (w\<lparr>k_world := v\<rparr>, i))"

definition vector_text :: "know_env \<Rightarrow> rat list \<Rightarrow> string" where
  "vector_text env v = (if v = [] then [] else ''['' @ join '','' (map (ke_float env) v) @ '']'')"

section \<open>Sources and collections\<close>

definition source_type_check :: "string list" where
  "source_type_check = [''upload'', ''website'', ''text'', ''integration'']"

definition create_knowledge_source :: "uuid \<Rightarrow> string \<Rightarrow> string \<Rightarrow> gomap option \<Rightarrow> uuid \<Rightarrow> kworld \<Rightarrow> kworld \<times> knowledge_source res" where
  "create_knowledge_source org_id name source_type config created_by w =
     (if source_type \<notin> set source_type_check then (w, fail (check_violation ''knowledge_sources_source_type_check''))
      else if org_id \<notin> set (orgs (kdb w)) then (w, fail (fk_violation ''knowledge_sources_organization_id_fkey''))
      else if created_by \<notin> set (users (kdb w)) then (w, fail (fk_violation ''knowledge_sources_created_by_fkey''))
      else (let (w, i) = with_id w;
                s = \<lparr>ks_id = i, ks_organization_id = org_id, ks_name = name, ks_source_type = source_type, ks_config = config,
                     ks_status = ''active'', ks_created_by = Some created_by, ks_created_at = now (kdb w), ks_updated_at = now (kdb w)\<rparr>
            in (w\<lparr>k_sources := k_sources w @ [s]\<rparr>, ok s)))"

definition list_knowledge_sources :: "uuid \<Rightarrow> kworld \<Rightarrow> knowledge_source list" where
  "list_knowledge_sources org_id w = rev (filter (\<lambda>s. ks_organization_id s = org_id) (k_sources w))"

definition get_knowledge_source :: "uuid \<Rightarrow> uuid \<Rightarrow> kworld \<Rightarrow> knowledge_source res" where
  "get_knowledge_source org_id i w = query_row (\<lambda>s. ks_id s = i \<and> ks_organization_id s = org_id) (k_sources w)"

definition insert_collection :: "uuid \<Rightarrow> string \<Rightarrow> string \<Rightarrow> string \<Rightarrow> uuid \<Rightarrow> kworld \<Rightarrow> kworld \<times> knowledge_collection res" where
  "insert_collection org_id name slug description created_by w =
     (if \<exists>c \<in> set (k_collections w). kc_organization_id c = org_id \<and> kc_slug c = slug
      then (w, fail (unique_violation ''knowledge_collections_organization_id_slug_key''))
      else if org_id \<notin> set (orgs (kdb w)) then (w, fail (fk_violation ''knowledge_collections_organization_id_fkey''))
      else if created_by \<notin> set (users (kdb w)) then (w, fail (fk_violation ''knowledge_collections_created_by_fkey''))
      else (let (w, i) = with_id w;
                c = \<lparr>kc_id = i, kc_organization_id = org_id, kc_name = name, kc_slug = slug, kc_description = description,
                     kc_created_by = Some created_by, kc_created_at = now (kdb w), kc_updated_at = now (kdb w)\<rparr>
            in (w\<lparr>k_collections := k_collections w @ [c]\<rparr>, ok c)))"

fun collection_loop :: "golib \<Rightarrow> nat \<Rightarrow> uuid \<Rightarrow> string \<Rightarrow> string \<Rightarrow> string \<Rightarrow> string \<Rightarrow> uuid \<Rightarrow> kworld \<Rightarrow> kworld \<times> knowledge_collection res" where
  "collection_loop g 0 org_id name base slug description created_by w = (w, fail ''failed to create collection'')"
| "collection_loop g (Suc n) org_id name base slug description created_by w =
     (case insert_collection org_id name slug description created_by w of
        (w, Inr c) \<Rightarrow> (w, ok c)
      | (w, Inl e) \<Rightarrow>
          if \<not> contains e ''duplicate'' \<and> \<not> contains e ''unique'' then (w, fail e)
          else (let (w, i) = with_id w
                in collection_loop g n org_id name base (base @ ''-'' @ take 4 (uuid_string g i)) description created_by w))"

definition create_knowledge_collection :: "golib \<Rightarrow> uuid \<Rightarrow> string \<Rightarrow> string \<Rightarrow> uuid \<Rightarrow> kworld \<Rightarrow> kworld \<times> knowledge_collection res" where
  "create_knowledge_collection g org_id name description created_by w =
     (let (slug, d) = slugify g name (kdb w); w = w\<lparr>k_world := (k_world w)\<lparr>w_db := d\<rparr>\<rparr>
      in collection_loop g 5 org_id name slug slug description created_by w)"

definition list_knowledge_collections :: "uuid \<Rightarrow> kworld \<Rightarrow> knowledge_collection list" where
  "list_knowledge_collections org_id w = rev (filter (\<lambda>c. kc_organization_id c = org_id) (k_collections w))"

definition get_knowledge_collection :: "uuid \<Rightarrow> uuid \<Rightarrow> kworld \<Rightarrow> knowledge_collection res" where
  "get_knowledge_collection org_id i w = query_row (\<lambda>c. kc_id c = i \<and> kc_organization_id c = org_id) (k_collections w)"

section \<open>Documents\<close>

definition document_source_check :: "string list" where
  "document_source_check = [''upload'', ''url'', ''website'', ''text'', ''integration'', ''generated'']"

definition document_scope_check :: "string list" where "document_scope_check = [''organization'', ''project'', ''agent'']"

definition document_status_check :: "string list" where
  "document_status_check = [''pending'', ''processing'', ''ready'', ''failed'']"

definition document_refs :: "kworld \<Rightarrow> document \<Rightarrow> bool" where
  "document_refs w x \<longleftrightarrow> doc_organization_id x \<in> set (orgs (kdb w)) \<and> opt_ref (doc_project_id x) (map pr_id (projects (kdb w)))
     \<and> opt_ref (doc_collection_id x) (map kc_id (k_collections w)) \<and> opt_ref (doc_source_id x) (map ks_id (k_sources w))
     \<and> opt_ref (doc_created_by x) (users (kdb w))"

definition insert_document :: "document \<Rightarrow> kworld \<Rightarrow> kworld \<times> document res" where
  "insert_document x w =
     (if doc_source_type x \<notin> set document_source_check then (w, fail (check_violation ''documents_source_type_check''))
      else if doc_scope x \<notin> set document_scope_check then (w, fail (check_violation ''documents_scope_check''))
      else if \<not> document_refs w x then (w, fail (fk_violation ''documents''))
      else (let (w, i) = with_id w; x = x\<lparr>doc_id := i, doc_created_at := now (kdb w), doc_updated_at := now (kdb w)\<rparr>
            in (w\<lparr>k_documents := k_documents w @ [x]\<rparr>, ok x)))"

definition insert_document_version :: "document_version \<Rightarrow> kworld \<Rightarrow> kworld" where
  "insert_document_version v w =
     (if (\<exists>u \<in> set (k_versions w). dver_document_id u = dver_document_id v \<and> dver_version u = dver_version v)
         \<or> dver_document_id v \<notin> doc_id ` set (k_documents w) \<or> \<not> opt_ref (dver_created_by v) (users (kdb w)) then w
      else w\<lparr>k_versions := k_versions w @ [v]\<rparr>)"

definition create_document :: "uuid \<Rightarrow> uuid option \<Rightarrow> uuid option \<Rightarrow> uuid option \<Rightarrow> string \<Rightarrow> string \<Rightarrow> string option \<Rightarrow> string \<Rightarrow> string
    \<Rightarrow> string \<Rightarrow> gomap option \<Rightarrow> uuid \<Rightarrow> kworld \<Rightarrow> kworld \<times> document res" where
  "create_document org_id project_id collection_id source_id title source_type source_url mime scope content meta created_by w =
     (case insert_document \<lparr>doc_id = nil_uuid, doc_organization_id = org_id, doc_project_id = project_id, doc_collection_id = collection_id,
             doc_source_id = source_id, doc_title = title, doc_source_type = source_type, doc_source_url = source_url, doc_mime_type = mime,
             doc_size_bytes = int (length content), doc_status = ''pending'', doc_scope = (if scope = [] then ''organization'' else scope),
             doc_version = 1, doc_metadata = meta, doc_content = [], doc_created_by = Some created_by, doc_created_at = 0,
             doc_updated_at = 0, doc_chunk_count = 0\<rparr> w of
        (w, Inl e) \<Rightarrow> (w, fail e)
      | (w, Inr x) \<Rightarrow>
          (insert_document_version \<lparr>dver_document_id = doc_id x, dver_version = 1, dver_title = title, dver_content = content,
             dver_metadata = meta, dver_created_by = Some created_by, dver_created_at = now (kdb w)\<rparr> w, ok (x\<lparr>doc_content := content\<rparr>)))"

definition is_document :: "uuid \<Rightarrow> uuid \<Rightarrow> document \<Rightarrow> bool" where
  "is_document org_id i x \<longleftrightarrow> doc_id x = i \<and> doc_organization_id x = org_id"

definition get_document :: "uuid \<Rightarrow> uuid \<Rightarrow> kworld \<Rightarrow> document res" where
  "get_document org_id i w =
     (case query_row (is_document org_id i) (k_documents w) of
        Inl e \<Rightarrow> fail e
      | Inr x \<Rightarrow> ok (x\<lparr>doc_chunk_count := count_where (\<lambda>r. dc_document_id (fst r) = i) (k_chunks w)\<rparr>))"

definition list_documents :: "uuid \<Rightarrow> uuid option \<Rightarrow> string \<Rightarrow> string \<Rightarrow> int \<Rightarrow> kworld \<Rightarrow> document list" where
  "list_documents org_id project_id scope status limit w =
     newest (clamp_limit 100 limit) (filter (\<lambda>x. doc_organization_id x = org_id
       \<and> (project_id \<noteq> None \<longrightarrow> doc_project_id x = project_id) \<and> (scope \<noteq> [] \<longrightarrow> doc_scope x = scope)
       \<and> (status \<noteq> [] \<longrightarrow> doc_status x = status)) (k_documents w))"

definition set_status :: "(document \<Rightarrow> bool) \<Rightarrow> string \<Rightarrow> kworld \<Rightarrow> kworld \<times> unit res" where
  "set_status P status w =
     (if (\<exists>x \<in> set (k_documents w). P x) \<and> status \<notin> set document_status_check
      then (w, fail (check_violation ''documents_status_check''))
      else (w\<lparr>k_documents := update_where P (\<lambda>x. x\<lparr>doc_status := status, doc_updated_at := now (kdb w)\<rparr>) (k_documents w)\<rparr>, ok ()))"

definition update_document_status :: "uuid \<Rightarrow> uuid \<Rightarrow> string \<Rightarrow> kworld \<Rightarrow> kworld \<times> unit res" where
  "update_document_status org_id i status w = set_status (is_document org_id i) status w"

definition archive_document :: "uuid \<Rightarrow> uuid \<Rightarrow> kworld \<Rightarrow> kworld \<times> unit res" where
  "archive_document org_id i w = set_status (is_document org_id i) ''archived'' w"

definition delete_document :: "uuid \<Rightarrow> uuid \<Rightarrow> kworld \<Rightarrow> kworld" where
  "delete_document org_id i w =
     (let gone = map doc_id (filter (is_document org_id i) (k_documents w));
          chunks = filter (\<lambda>r. dc_document_id (fst r) \<notin> set gone) (k_chunks w)
      in w\<lparr>k_documents := filter (\<lambda>x. \<not> is_document org_id i x) (k_documents w),
           k_versions := filter (\<lambda>v. dver_document_id v \<notin> set gone) (k_versions w), k_chunks := chunks,
           k_embeddings := filter (\<lambda>e. em_document_chunk_id e \<notin> (dc_id \<circ> fst) ` (set (k_chunks w) - set chunks)) (k_embeddings w),
           k_agent_knowledge := filter (\<lambda>a. ak_document_id a \<notin> Some ` set gone) (k_agent_knowledge w),
           k_project_knowledge := filter (\<lambda>p. pk_document_id p \<notin> Some ` set gone) (k_project_knowledge w)\<rparr>)"

section \<open>Chunks\<close>

text \<open>One round of the loop inside the transaction.\<close>

definition insert_chunk :: "know_env \<Rightarrow> uuid \<Rightarrow> uuid \<Rightarrow> document_chunk \<Rightarrow> kworld \<Rightarrow> kworld res" where
  "insert_chunk env org_id doc c w =
     (let vec = vector_text env (dc_embedding c); (v, i) = with_id w;
          row = c\<lparr>dc_id := i, dc_document_id := doc, dc_organization_id := org_id, dc_embedding := [], dc_created_at := now (kdb w),
                  dc_score := 0, dc_document_title := []\<rparr>;
          failed = (\<lambda>e. fail (''insert chunk '' @ int_str (dc_chunk_index c) @ '': '' @ e))
      in if \<not> ke_vector_ok env vec then failed ''invalid input syntax for type vector''
         else if dc_chunk_index c < 0 \<or> dc_token_count c < 0 then failed (check_violation ''document_chunks'')
         else if \<exists>r \<in> set (k_chunks w). dc_document_id (fst r) = doc \<and> dc_chunk_index (fst r) = dc_chunk_index c
         then failed (unique_violation ''document_chunks_document_id_chunk_index_key'')
         else if doc \<notin> doc_id ` set (k_documents w) \<or> org_id \<notin> set (orgs (kdb w)) then failed (fk_violation ''document_chunks'')
         else ok (v\<lparr>k_chunks := k_chunks w @ [(row, vec)],
                    k_embeddings := k_embeddings w @ (if dc_embedding c = [] then []
                      else [\<lparr>em_organization_id = org_id, em_document_chunk_id = i, em_embedding = vec,
                             em_model = ''text-embedding-3-small''\<rparr>])\<rparr>))"

fun insert_chunks :: "know_env \<Rightarrow> uuid \<Rightarrow> uuid \<Rightarrow> document_chunk list \<Rightarrow> kworld \<Rightarrow> kworld res" where
  "insert_chunks env org_id doc [] w = ok w"
| "insert_chunks env org_id doc (c # cs) w = and_then (insert_chunk env org_id doc c w) (insert_chunks env org_id doc cs)"

text \<open>A statement that fails ends the transaction, and the deferred rollback gives the state before it.\<close>

definition create_document_chunks :: "know_env \<Rightarrow> uuid \<Rightarrow> uuid \<Rightarrow> document_chunk list \<Rightarrow> kworld \<Rightarrow> kworld \<times> unit res" where
  "create_document_chunks env org_id doc cs w =
     (case insert_chunks env org_id doc cs w of
        Inl e \<Rightarrow> (w, fail e)
      | Inr v \<Rightarrow>
          (case set_status (\<lambda>x. doc_id x = doc) ''ready'' v of
             (v, Inr u) \<Rightarrow> (v, ok u) | (_, Inl e) \<Rightarrow> (w, fail e)))"

definition list_document_chunks :: "uuid \<Rightarrow> kworld \<Rightarrow> document_chunk list" where
  "list_document_chunks doc w = sort_key dc_chunk_index (filter (\<lambda>c. dc_document_id c = doc) (map fst (k_chunks w)))"

section \<open>Grants\<close>

text \<open>A unique key with a missing part is never in the way.\<close>

definition same_grant :: "uuid option \<times> uuid option \<Rightarrow> uuid option \<times> uuid option \<Rightarrow> bool" where
  "same_grant a b \<longleftrightarrow> a = b \<and> fst a \<noteq> None \<and> snd a \<noteq> None"

definition attach_agent_knowledge :: "uuid \<Rightarrow> uuid option \<Rightarrow> uuid option \<Rightarrow> uuid \<Rightarrow> kworld \<Rightarrow> kworld \<times> agent_knowledge res" where
  "attach_agent_knowledge agent doc coll granted_by w =
     (if doc = None \<and> coll = None then (w, fail (check_violation ''agent_knowledge_check''))
      else if \<exists>a \<in> set (k_agent_knowledge w). ak_agent_id a = agent \<and> same_grant (ak_document_id a, ak_collection_id a) (doc, coll)
      then (w, fail (unique_violation ''agent_knowledge_agent_id_document_id_collection_id_key''))
      else if agent \<notin> ag_id ` set (agents (kdb w)) \<or> \<not> opt_ref doc (map doc_id (k_documents w))
        \<or> \<not> opt_ref coll (map kc_id (k_collections w)) \<or> granted_by \<notin> set (users (kdb w)) then (w, fail (fk_violation ''agent_knowledge''))
      else (let (w, i) = with_id w;
                a = \<lparr>ak_id = i, ak_agent_id = agent, ak_document_id = doc, ak_collection_id = coll, ak_granted_by = Some granted_by,
                     ak_created_at = now (kdb w), ak_document = None, ak_collection = None\<rparr>
            in (w\<lparr>k_agent_knowledge := k_agent_knowledge w @ [a]\<rparr>, ok a)))"

definition detach_agent_knowledge :: "uuid \<Rightarrow> uuid \<Rightarrow> kworld \<Rightarrow> kworld" where
  "detach_agent_knowledge agent i w = w\<lparr>k_agent_knowledge := filter (\<lambda>a. \<not> (ak_id a = i \<and> ak_agent_id a = agent)) (k_agent_knowledge w)\<rparr>"

definition list_agent_knowledge :: "uuid \<Rightarrow> kworld \<Rightarrow> agent_knowledge list" where
  "list_agent_knowledge agent w = filter (\<lambda>a. ak_agent_id a = agent) (k_agent_knowledge w)"

definition attach_project_knowledge :: "uuid \<Rightarrow> uuid option \<Rightarrow> uuid option \<Rightarrow> uuid \<Rightarrow> kworld \<Rightarrow> kworld \<times> project_knowledge res" where
  "attach_project_knowledge project doc coll granted_by w =
     (if doc = None \<and> coll = None then (w, fail (check_violation ''project_knowledge_check''))
      else if \<exists>p \<in> set (k_project_knowledge w). pk_project_id p = project \<and> same_grant (pk_document_id p, pk_collection_id p) (doc, coll)
      then (w, fail (unique_violation ''project_knowledge_project_id_document_id_collection_id_key''))
      else if project \<notin> pr_id ` set (projects (kdb w)) \<or> \<not> opt_ref doc (map doc_id (k_documents w))
        \<or> \<not> opt_ref coll (map kc_id (k_collections w)) \<or> granted_by \<notin> set (users (kdb w)) then (w, fail (fk_violation ''project_knowledge''))
      else (let (w, i) = with_id w;
                p = \<lparr>pk_id = i, pk_project_id = project, pk_document_id = doc, pk_collection_id = coll, pk_granted_by = Some granted_by,
                     pk_created_at = now (kdb w)\<rparr>
            in (w\<lparr>k_project_knowledge := k_project_knowledge w @ [p]\<rparr>, ok p)))"

definition detach_project_knowledge :: "uuid \<Rightarrow> uuid \<Rightarrow> kworld \<Rightarrow> kworld" where
  "detach_project_knowledge project i w =
     w\<lparr>k_project_knowledge := filter (\<lambda>p. \<not> (pk_id p = i \<and> pk_project_id p = project)) (k_project_knowledge w)\<rparr>"

definition list_project_knowledge :: "uuid \<Rightarrow> kworld \<Rightarrow> project_knowledge list" where
  "list_project_knowledge project w = filter (\<lambda>p. pk_project_id p = project) (k_project_knowledge w)"

section \<open>What may be retrieved\<close>

definition granted_docs :: "(uuid option \<times> uuid option) list \<Rightarrow> kworld \<Rightarrow> uuid list" where
  "granted_docs gs w =
     concat (map (\<lambda>(d, c). case d of None \<Rightarrow> [] | Some i \<Rightarrow> [i]) gs)
     @ concat (map (\<lambda>(d, c). case c of None \<Rightarrow> []
         | Some i \<Rightarrow> map doc_id (filter (\<lambda>x. doc_collection_id x = Some i) (k_documents w))) gs)"

definition agent_grants :: "uuid \<Rightarrow> kworld \<Rightarrow> (uuid option \<times> uuid option) list" where
  "agent_grants agent w = map (\<lambda>a. (ak_document_id a, ak_collection_id a)) (list_agent_knowledge agent w)"

definition project_grants :: "uuid \<Rightarrow> kworld \<Rightarrow> (uuid option \<times> uuid option) list" where
  "project_grants project w = map (\<lambda>p. (pk_document_id p, pk_collection_id p)) (list_project_knowledge project w)"

text \<open>The order of the answer, which only an \<^verbatim>\<open>IN\<close> list depends on, is the one in which the documents are found.\<close>

definition allowed_doc_ids :: "retrieval_filter \<Rightarrow> kworld \<Rightarrow> uuid list" where
  "allowed_doc_ids f w =
     (let own = map doc_id (filter (\<lambda>x. doc_organization_id x = rf_organization_id f \<and> doc_status x = ''ready''
                  \<and> (rf_scope f \<noteq> [] \<longrightarrow> doc_scope x = rf_scope f)) (k_documents w));
          by_agent = (case rf_agent_id f of None \<Rightarrow> [] | Some a \<Rightarrow> granted_docs (agent_grants a w) w);
          by_project = (case rf_project_id f of None \<Rightarrow> [] | Some p \<Rightarrow> granted_docs (project_grants p w) w);
          ids = remdups (own @ by_agent @ by_project)
      in if rf_allowed_doc_ids f \<noteq> [] then filter (\<lambda>i. i \<in> set ids) (rf_allowed_doc_ids f) else ids)"

definition joined :: "uuid list \<Rightarrow> kworld \<Rightarrow> chunk_row list" where
  "joined ids w = filter (\<lambda>r. dc_document_id (fst r) \<in> set ids \<and> dc_document_id (fst r) \<in> doc_id ` set (k_documents w)) (k_chunks w)"

definition title_of :: "uuid \<Rightarrow> kworld \<Rightarrow> string" where
  "title_of i w = (case find (\<lambda>x. doc_id x = i) (k_documents w) of None \<Rightarrow> [] | Some x \<Rightarrow> doc_title x)"

definition hit_of :: "kworld \<Rightarrow> document_chunk \<Rightarrow> rat \<Rightarrow> hit" where
  "hit_of w c score =
     \<lparr>hit_chunk = c\<lparr>dc_document_title := title_of (dc_document_id c) w, dc_score := score\<rparr>, hit_score = score, hit_document = None\<rparr>"

definition vector_search :: "know_env \<Rightarrow> uuid \<Rightarrow> rat list \<Rightarrow> retrieval_filter \<Rightarrow> int \<Rightarrow> kworld \<Rightarrow> hit list res" where
  "vector_search env org_id v f limit w =
     (let limit = (if limit \<le> 0 then 5 else limit); limit = (if 20 < limit then 20 else limit); ids = allowed_doc_ids f w
      in if ids = [] then ok []
         else and_then (ke_nearest env (vector_text env v) (joined ids w))
                (\<lambda>rows. ok (map (\<lambda>(r, s). hit_of w (fst r) s) (take (nat limit) rows))))"

text \<open>\<^verbatim>\<open>ILIKE\<close>: \<open>%\<close> is any text, \<open>_\<close> any character, and a backslash takes the next one as it is.\<close>

fun like :: "string \<Rightarrow> string \<Rightarrow> bool" where
  "like [] s \<longleftrightarrow> s = []"
| "like (p # ps) [] \<longleftrightarrow> p = CHR ''%'' \<and> like ps []"
| "like (p # ps) (c # cs) \<longleftrightarrow>
     (if p = CHR ''%'' then like ps (c # cs) \<or> like (p # ps) cs
      else if p = CHR 0x5C then (case ps of [] \<Rightarrow> False | q # qs \<Rightarrow> q = c \<and> like qs cs)
      else (p = CHR ''_'' \<or> p = c) \<and> like ps cs)"

definition ilike :: "string \<Rightarrow> string \<Rightarrow> bool" where
  "ilike s pattern \<longleftrightarrow> like (to_lower pattern) (to_lower s)"

definition keyword_search :: "uuid \<Rightarrow> string \<Rightarrow> retrieval_filter \<Rightarrow> int \<Rightarrow> kworld \<Rightarrow> hit list res" where
  "keyword_search org_id query f limit w =
     (let ids = allowed_doc_ids f w
      in if ids = [] then ok []
         else if limit < 0 then fail ''LIMIT must not be negative''
         else ok (map (\<lambda>r. hit_of w (fst r) (1 / 2))
                (newest limit (filter (\<lambda>r. ilike (dc_content (fst r)) (''%'' @ query @ ''%'')) (joined ids w)))))"

section \<open>The retriever\<close>

definition not_configured :: string where
  "not_configured = ''embedding provider not configured: set OPENROUTER_API_KEY or EMBEDDING_PROVIDER''"

text \<open>\<^verbatim>\<open>limit*2\<close> is the product of an \<^verbatim>\<open>int\<close>.\<close>

definition twice :: "int \<Rightarrow> int" where "twice n = sint (word_of_int (n * 2) :: 64 word)"

definition metadata_matches :: "(string \<times> string) list \<Rightarrow> hit \<Rightarrow> bool" where
  "metadata_matches want h \<longleftrightarrow>
     list_all (\<lambda>(k, v). case mget (dc_metadata (hit_chunk h)) k of
        None \<Rightarrow> False | Some mv \<Rightarrow> (case mv of JStr s \<Rightarrow> s | _ \<Rightarrow> []) = v) want"

definition rerank :: "know_env \<Rightarrow> string \<Rightarrow> hit list \<Rightarrow> hit list res" where
  "rerank env query hs = (case ke_rerank env of None \<Rightarrow> ok hs | Some f \<Rightarrow> f query hs)"

text \<open>\<^verbatim>\<open>results[:limit]\<close> panics for a negative limit; a search that panics is \<open>None\<close>.\<close>

definition semantic_search :: "know_env \<Rightarrow> string \<Rightarrow> retrieval_filter \<Rightarrow> kworld \<Rightarrow> hit list res option" where
  "semantic_search env query f w =
     (case ke_embed env of
        None \<Rightarrow> Some (fail not_configured)
      | Some emb \<Rightarrow>
          (case emb [query] of
             Inl e \<Rightarrow> Some (fail e)
           | Inr [] \<Rightarrow> Some (ok [])
           | Inr (v # _) \<Rightarrow>
               (let limit = (if rf_limit f = 0 then 5 else rf_limit f)
                in case vector_search env (rf_organization_id f) v f (twice limit) w of
                     Inl e \<Rightarrow> Some (fail e)
                   | Inr hs \<Rightarrow>
                       (let hs = (if rf_metadata f \<noteq> [] then filter (metadata_matches (rf_metadata f)) hs else hs)
                        in if limit < 0 then None
                           else Some (rerank env query (take (nat limit) hs))))))"

text \<open>The results by the identity of their chunk: a later one takes the place of a weaker one.\<close>

fun merge_hits :: "hit list \<Rightarrow> hit list \<Rightarrow> hit list" where
  "merge_hits acc [] = acc"
| "merge_hits acc (h # hs) =
     (case find (\<lambda>x. dc_id (hit_chunk x) = dc_id (hit_chunk h)) acc of
        None \<Rightarrow> merge_hits (acc @ [h]) hs
      | Some old \<Rightarrow>
          merge_hits (if hit_score old < hit_score h
                      then map (\<lambda>x. if dc_id (hit_chunk x) = dc_id (hit_chunk h) then h else x) acc else acc) hs)"

text \<open>The results of the first search are put into the map one over the other.\<close>

definition seen_hits :: "hit list \<Rightarrow> hit list" where
  "seen_hits hs = fold (\<lambda>h acc. if dc_id (hit_chunk h) \<in> (dc_id \<circ> hit_chunk) ` set acc
     then map (\<lambda>x. if dc_id (hit_chunk x) = dc_id (hit_chunk h) then h else x) acc else acc @ [h]) hs []"

definition hybrid_search :: "know_env \<Rightarrow> string \<Rightarrow> retrieval_filter \<Rightarrow> kworld \<Rightarrow> hit list res option" where
  "hybrid_search env query f w =
     (case semantic_search env query f w of
        None \<Rightarrow> None
      | Some (Inl e) \<Rightarrow> Some (fail e)
      | Some (Inr sem) \<Rightarrow>
          (case keyword_search (rf_organization_id f) query f (rf_limit f) w of
             Inl e \<Rightarrow> Some (fail e)
           | Inr kw \<Rightarrow>
               (let merged = ke_order env (merge_hits (seen_hits sem) kw); limit = (if rf_limit f = 0 then 5 else rf_limit f)
                in if limit < 0 then None else Some (rerank env query (take (nat limit) merged)))))"

definition get_project_by_id :: "uuid \<Rightarrow> db \<Rightarrow> project res" where
  "get_project_by_id i d = query_row (\<lambda>p. pr_id p = i) (projects d)"

definition contextual_retrieval :: "know_env \<Rightarrow> string \<Rightarrow> uuid option \<Rightarrow> uuid option \<Rightarrow> uuid option \<Rightarrow> int \<Rightarrow> kworld \<Rightarrow> hit list res option" where
  "contextual_retrieval env query agent project channel limit w =
     (let by_agent = (case agent of None \<Rightarrow> nil_uuid
            | Some a \<Rightarrow> (case get_agent_by_id a (kdb w) of Inr ag \<Rightarrow> ag_organization_id ag | Inl _ \<Rightarrow> nil_uuid));
          org_id = (case project of
              Some p \<Rightarrow> if by_agent = nil_uuid then (case get_project_by_id p (kdb w) of Inr pr \<Rightarrow> pr_organization_id pr | Inl _ \<Rightarrow> nil_uuid)
                        else by_agent
            | None \<Rightarrow> by_agent)
      in semantic_search env query \<lparr>rf_organization_id = org_id, rf_agent_id = agent, rf_project_id = project,
           rf_channel_id = channel, rf_allowed_doc_ids = [], rf_metadata = [], rf_scope = [], rf_limit = limit\<rparr> w)"

section \<open>Ingestion\<close>

definition page_meta :: "golib \<Rightarrow> uuid \<Rightarrow> page_chunk \<Rightarrow> gomap" where
  "page_meta g doc p =
     [(''page'', JNum (of_int (pc_page p))), (''section'', JStr (pc_section p)), (''source'', JStr ''upload''), (''parser'', JStr ''pdf''),
      (''documentId'', JStr (uuid_string g doc))]"

text \<open>The texts with their metadata; nothing when a division into chunks does not end.\<close>

fun page_texts :: "golib \<Rightarrow> uuid \<Rightarrow> page_chunk list \<Rightarrow> (string \<times> gomap) list option" where
  "page_texts g doc [] = Some []"
| "page_texts g doc (p # ps) =
     (case chunk_text (pc_text p) 500 50 of
        None \<Rightarrow> None
      | Some ts \<Rightarrow> map_option (\<lambda>rest. map (\<lambda>t. (t, page_meta g doc p)) ts @ rest) (page_texts g doc ps))"

definition texts_to_embed :: "golib \<Rightarrow> uuid \<Rightarrow> string \<Rightarrow> (string \<times> gomap) list option" where
  "texts_to_embed g doc content =
     (case page_texts g doc (page_chunks content) of
        None \<Rightarrow> None
      | Some ts \<Rightarrow>
          if ts \<noteq> [] then Some ts
          else map_option (map (\<lambda>t. (t, [(''page'', JNum 1), (''source'', JStr ''upload''), (''documentId'', JStr (uuid_string g doc))])))
                 (chunk_text content 500 50))"

definition chunk_of :: "uuid \<Rightarrow> uuid \<Rightarrow> nat \<Rightarrow> (string \<times> gomap) \<Rightarrow> rat list \<Rightarrow> document_chunk" where
  "chunk_of org_id doc i t v =
     \<lparr>dc_id = nil_uuid, dc_document_id = doc, dc_organization_id = org_id, dc_chunk_index = int i, dc_content = fst t,
      dc_token_count = int (estimate_tokens (fst t)), dc_embedding = v, dc_metadata = Some (snd t), dc_created_at = 0, dc_score = 0,
      dc_document_title = []\<rparr>"

definition chunks_of :: "uuid \<Rightarrow> uuid \<Rightarrow> (string \<times> gomap) list \<Rightarrow> rat list list \<Rightarrow> document_chunk list" where
  "chunks_of org_id doc ts vs = map (\<lambda>(i, t, v). chunk_of org_id doc i t v) (zip [0..<length ts] (zip ts vs))"

definition ingest_failed :: "uuid \<Rightarrow> uuid \<Rightarrow> string \<Rightarrow> kworld \<Rightarrow> kworld \<times> unit res" where
  "ingest_failed org_id doc e w = (fst (update_document_status org_id doc ''failed'' w), fail e)"

definition store_texts :: "know_env \<Rightarrow> uuid \<Rightarrow> uuid \<Rightarrow> (string \<times> gomap) list \<Rightarrow> kworld \<Rightarrow> kworld \<times> unit res" where
  "store_texts env org_id doc ts w =
     (case ke_embed env of
        None \<Rightarrow> ingest_failed org_id doc (not_configured @ '' (refusing to use stub in production)'') w
      | Some emb \<Rightarrow>
          (case emb (map fst ts) of
             Inl e \<Rightarrow> ingest_failed org_id doc (''embed: '' @ e) w
           | Inr vs \<Rightarrow>
               if length vs \<noteq> length ts then ingest_failed org_id doc ''embedding count mismatch'' w
               else (case create_document_chunks env org_id doc (chunks_of org_id doc ts vs) w of
                       (w, Inl e) \<Rightarrow> ingest_failed org_id doc e w
                     | (w, Inr u) \<Rightarrow> (w, ok ()))))"

text \<open>\<open>GetDocument\<close> does not read the content, so a text that is blank gives way to the title.\<close>

definition text_to_ingest :: "uuid \<Rightarrow> uuid \<Rightarrow> string \<Rightarrow> kworld \<Rightarrow> string res" where
  "text_to_ingest org_id doc content w =
     (if trim_space content \<noteq> [] then ok content
      else and_then (get_document org_id doc w) (\<lambda>x. ok (if doc_content x = [] then doc_title x else doc_content x)))"

definition ingest_document :: "know_env \<Rightarrow> uuid \<Rightarrow> uuid \<Rightarrow> string \<Rightarrow> kworld \<Rightarrow> (kworld \<times> unit res) option" where
  "ingest_document env org_id doc content w =
     (case update_document_status org_id doc ''processing'' w of
        (w, Inl e) \<Rightarrow> Some (w, fail (''update status: '' @ e))
      | (w, Inr _) \<Rightarrow>
          (case text_to_ingest org_id doc content w of
             Inl e \<Rightarrow> Some (w, fail e)
           | Inr content \<Rightarrow>
               (case texts_to_embed (ke_go env) doc (sanitize_document_content content) of
                  None \<Rightarrow> None
                | Some ts \<Rightarrow> Some (store_texts env org_id doc ts w))))"

text \<open>The handler of the job, as \<^verbatim>\<open>router.go\<close> registers it.\<close>

definition payload_text :: "gomap \<Rightarrow> string \<Rightarrow> string" where
  "payload_text m k = (case mget_str (Some m) k of None \<Rightarrow> [] | Some s \<Rightarrow> s)"

definition ingest_handler :: "know_env \<Rightarrow> job \<Rightarrow> kworld \<Rightarrow> (kworld \<times> unit res) option" where
  "ingest_handler env j w =
     (let g = ke_go env
      in case (uuid_parse g (payload_text (job_payload j) ''document_id''), uuid_parse g (payload_text (job_payload j) ''organization_id'')) of
           (Some doc, Some org_id) \<Rightarrow>
             (case ingest_document env org_id doc (payload_text (job_payload j) ''content'') w of
                None \<Rightarrow> None
              | Some (w, Inl e) \<Rightarrow> Some (w, fail e)
              | Some (w, Inr _) \<Rightarrow>
                  Some ((case get_document org_id doc w of
                     Inr x \<Rightarrow>
                       (case doc_project_id x of
                          None \<Rightarrow> w
                        | Some p \<Rightarrow> w\<lparr>k_world := (k_world w)\<lparr>w_spawned := w_spawned (k_world w) @ [ProjectEvent org_id p ''document.ready''
                             [(''documentId'', uuid_json g doc), (''title'', JStr (doc_title x))]]\<rparr>\<rparr>)
                   | Inl _ \<Rightarrow> w), ok ()))
         | (None, _) \<Rightarrow> Some (w, fail ''invalid UUID'')
         | (_, None) \<Rightarrow> Some (w, fail ''invalid UUID''))"

section \<open>The web\<close>

definition extract_website_content :: "know_env \<Rightarrow> string \<Rightarrow> string res" where
  "extract_website_content env url =
     and_then (ke_fetch env url) (\<lambda>(status, body).
       if status \<noteq> 200 then fail (''fetch failed '' @ int_str status)
       else ok (normalize_text (strip_html_from False (take (2 * 1024 * 1024) body))))"

end
