(* ===== verification/KnowledgeHandler.thy ===== *)
theory KnowledgeHandler
  imports Knowledge Http
begin

text \<open>
  \<^verbatim>\<open>backend/internal/http/handlers/knowledge.go\<close>. A form is the function \<^verbatim>\<open>r.FormValue\<close> with the file that came
  with it; the file is read up to ten megabytes.
\<close>

section \<open>Sources and collections\<close>

definition create_source_handler :: "know_env \<Rightarrow> claims \<Rightarrow> json option \<Rightarrow> kworld \<Rightarrow> kworld \<times> knowledge_source http_reply" where
  "create_source_handler env c body w =
     (let g = ke_go env
      in case decode_body (\<lambda>m. and_then (field_string g ''name'' m []) (\<lambda>n. and_then (field_string g ''sourcetype'' m []) (\<lambda>t.
                and_then (field_map g ''config'' m None) (\<lambda>cfg. ok (n, t, cfg))))) body of
           None \<Rightarrow> (w, invalid ''invalid JSON'')
         | Some (name, source_type, config) \<Rightarrow>
             if name = [] \<or> source_type = [] then (w, invalid ''name and sourceType required'')
             else map_prod id (reply_of 201)
                    (create_knowledge_source (claim_organization_id c) name source_type config (claim_user_id c) w))"

definition list_sources_handler :: "claims \<Rightarrow> kworld \<Rightarrow> knowledge_source list http_reply" where
  "list_sources_handler c w = Data 200 (list_knowledge_sources (claim_organization_id c) w)"

definition create_collection_handler :: "know_env \<Rightarrow> claims \<Rightarrow> json option \<Rightarrow> kworld \<Rightarrow> kworld \<times> knowledge_collection http_reply" where
  "create_collection_handler env c body w =
     (let g = ke_go env
      in case decode_body (\<lambda>m. and_then (field_string g ''name'' m []) (\<lambda>n. and_then (field_string g ''description'' m [])
                (\<lambda>de. ok (n, de)))) body of
           None \<Rightarrow> (w, invalid ''invalid JSON'')
         | Some (name, description) \<Rightarrow>
             if name = [] then (w, invalid ''name required'')
             else map_prod id (reply_of 201)
                    (create_knowledge_collection g (claim_organization_id c) name description (claim_user_id c) w))"

definition list_collections_handler :: "claims \<Rightarrow> kworld \<Rightarrow> knowledge_collection list http_reply" where
  "list_collections_handler c w = Data 200 (list_knowledge_collections (claim_organization_id c) w)"

section \<open>The request for a document\<close>

record upload =
  up_filename :: string
  up_content_type :: string
  up_bytes :: string

datatype document_request =
    Multipart "((string \<Rightarrow> string) \<times> upload option) option"
  | JsonBody "json option"

record document_input =
  di_title :: string
  di_source_type :: string
  di_source_url :: string
  di_mime_type :: string
  di_scope :: string
  di_content :: string
  di_collection_id :: string
  di_project_id :: string
  di_metadata :: "gomap option"

definition failure_marker :: string where "failure_marker = ''[extraction via''"

definition or_default :: "string \<Rightarrow> string \<Rightarrow> string" where
  "or_default s t = (if s = [] then t else s)"

definition with_upload :: "text_env \<Rightarrow> upload \<Rightarrow> document_input \<Rightarrow> document_input" where
  "with_upload env u i =
     (let bytes = take (10 * 1024 * 1024) (up_bytes u);
          title = (if di_title i = [] \<and> up_filename u \<noteq> [] then up_filename u else di_title i);
          mime = (if di_mime_type i = ''text/plain'' \<and> up_content_type u \<noteq> [] then up_content_type u else di_mime_type i);
          extracted = extract_file_content env bytes mime (up_filename u)
      in i\<lparr>di_title := title, di_mime_type := mime, di_content := extracted,
           di_metadata := (if has_prefix extracted failure_marker
             then Some [(''extraction_error'', JStr extracted), (''parser'', JStr (parser_name (get_parser mime (up_filename u)))),
                        (''failed_at'', JBool True)] else di_metadata i)\<rparr>)"

definition input_of_form :: "text_env \<Rightarrow> (string \<Rightarrow> string) \<Rightarrow> upload option \<Rightarrow> document_input" where
  "input_of_form env form file =
     (let i = \<lparr>di_title = form ''title'', di_source_type = or_default (form ''source_type'') (form ''sourceType''),
                di_source_url = form ''source_url'', di_mime_type = or_default (form ''mime_type'') ''text/plain'',
                di_scope = form ''scope'', di_content = form ''content'', di_collection_id = form ''collection_id'',
                di_project_id = form ''projectId'', di_metadata = None\<rparr>;
          i = (case file of None \<Rightarrow> i | Some u \<Rightarrow> with_upload env u i)
      in i\<lparr>di_source_type := or_default (di_source_type i) ''upload''\<rparr>)"

definition input_of_json :: "golib \<Rightarrow> gomap \<Rightarrow> document_input res" where
  "input_of_json g m =
     and_then (field_string g ''title'' m []) (\<lambda>title.
      and_then (field_string g ''sourcetype'' m []) (\<lambda>source_type.
      and_then (field_string g ''sourceurl'' m []) (\<lambda>url.
      and_then (field_string g ''mimetype'' m []) (\<lambda>mime.
      and_then (field_string g ''scope'' m []) (\<lambda>scope.
      and_then (field_string g ''content'' m []) (\<lambda>content.
      and_then (field_string g ''text'' m []) (\<lambda>text'.
      and_then (field_string g ''collectionid'' m []) (\<lambda>coll.
      and_then (field_string g ''projectid'' m []) (\<lambda>project.
      and_then (field_map g ''metadata'' m None) (\<lambda>meta.
      (let content = or_default content text'
       in ok \<lparr>di_title = title,
          di_source_type = or_default source_type (if url \<noteq> [] then ''website'' else if content \<noteq> [] then ''text'' else ''upload''),
          di_source_url = url, di_mime_type = or_default mime ''text/plain'', di_scope = scope, di_content = content,
          di_collection_id = coll, di_project_id = project, di_metadata = meta\<rparr>)))))))))))"

definition read_request :: "know_env \<Rightarrow> document_request \<Rightarrow> document_input res" where
  "read_request env r =
     (case r of
        Multipart None \<Rightarrow> fail ''multipart parse failed''
      | Multipart (Some (form, file)) \<Rightarrow> ok (input_of_form (ke_text env) form file)
      | JsonBody b \<Rightarrow> (case decode_body (input_of_json (ke_go env)) b of None \<Rightarrow> fail ''invalid JSON'' | Some i \<Rightarrow> ok i))"

text \<open>The defaults and the checks that need no database, and the page that is fetched.\<close>

definition complete_input :: "know_env \<Rightarrow> document_input \<Rightarrow> document_input res" where
  "complete_input env i =
     (let i = i\<lparr>di_source_type := or_default (di_source_type i) ''text'', di_scope := or_default (di_scope i) ''organization''\<rparr>
      in if di_title i = [] then fail ''title required''
         else if di_scope i = ''project'' \<and> di_project_id i = [] then fail ''projectId required for project scope''
         else (case (if di_source_type i = ''website'' \<and> di_content i = [] \<and> di_source_url i \<noteq> []
                     then extract_website_content env (di_source_url i) else ok (di_content i)) of
                 Inl e \<Rightarrow> fail (''failed to fetch website: '' @ e)
               | Inr content \<Rightarrow>
                   if content = [] then fail ''content required (upload file, website URL, or text)'' else ok (i\<lparr>di_content := content\<rparr>)))"

section \<open>Documents\<close>

text \<open>A part of the input that names a row: it must be a UUID of a row of the organization.\<close>

definition named_row :: "golib \<Rightarrow> string \<Rightarrow> (uuid \<Rightarrow> 'r res) \<Rightarrow> string \<Rightarrow> 'a http_reply + uuid option" where
  "named_row g what get s =
     (if s = [] then Inr None
      else case uuid_parse g s of
             None \<Rightarrow> Inl (invalid (''invalid '' @ what @ ''Id''))
           | Some i \<Rightarrow> (case get i of Inl _ \<Rightarrow> Inl (not_found (what @ '' not found'')) | Inr _ \<Rightarrow> Inr (Some i)))"

definition ingest_job :: "golib \<Rightarrow> uuid \<Rightarrow> uuid \<Rightarrow> string \<Rightarrow> job" where
  "ingest_job g org_id doc content =
     \<lparr>job_id = uuid_string g doc, job_type = ''ingest_document'',
      job_payload = [(''document_id'', uuid_json g doc), (''organization_id'', uuid_json g org_id), (''content'', JStr content)],
      job_retries = 0, job_timeout = 0, job_key = []\<rparr>"

definition on_world :: "(world \<Rightarrow> world) \<Rightarrow> kworld \<Rightarrow> kworld" where
  "on_world f w = w\<lparr>k_world := f (k_world w)\<rparr>"

text \<open>With no worker pool a goroutine ingests the text of the third part of the answer.\<close>

definition create_document_handler :: "know_env \<Rightarrow> claims \<Rightarrow> document_request \<Rightarrow> kworld
    \<Rightarrow> kworld \<times> document http_reply \<times> (uuid \<times> uuid \<times> string) option" where
  "create_document_handler env c r w =
     (let g = ke_go env; org_id = claim_organization_id c
      in case and_then (read_request env r) (complete_input env) of
           Inl e \<Rightarrow> (w, invalid e, None)
         | Inr i \<Rightarrow>
             (case named_row g ''project'' (\<lambda>p. get_project org_id p (kdb w)) (di_project_id i) of
                Inl e \<Rightarrow> (w, e, None)
              | Inr project \<Rightarrow>
                  (case named_row g ''collection'' (\<lambda>k. get_knowledge_collection org_id k w) (di_collection_id i) of
                     Inl e \<Rightarrow> (w, e, None)
                   | Inr coll \<Rightarrow>
                       (let scope = (if project \<noteq> None \<and> di_scope i = ''organization'' then ''project'' else di_scope i)
                        in case create_document org_id project coll None (di_title i) (di_source_type i)
                                  (if di_source_url i = [] then None else Some (di_source_url i)) (di_mime_type i) scope (di_content i)
                                  (di_metadata i) (claim_user_id c) w of
                             (w, Inl e) \<Rightarrow> (w, internal e, None)
                           | (w, Inr x) \<Rightarrow>
                               if has_prefix (di_content i) failure_marker
                               then (fst (update_document_status org_id (doc_id x) ''failed'' w), Data 201 x, None)
                               else if w_pool (k_world w) \<noteq> None
                               then (on_world (enqueue_job (ingest_job g org_id (doc_id x) (di_content i))) w, Data 201 x, None)
                               else (w, Data 201 x, Some (org_id, doc_id x, di_content i))))))"

definition list_documents_handler :: "golib \<Rightarrow> claims \<Rightarrow> (string \<Rightarrow> string) \<Rightarrow> kworld \<Rightarrow> document list http_reply" where
  "list_documents_handler g c q w =
     Data 200 (list_documents (claim_organization_id c) (if q ''projectId'' = [] then None else Some (path_id g (q ''projectId'')))
       (q ''scope'') (q ''status'') (case atoi (q ''limit'') of None \<Rightarrow> 0 | Some n \<Rightarrow> n) w)"

definition get_document_handler :: "golib \<Rightarrow> claims \<Rightarrow> string \<Rightarrow> kworld \<Rightarrow> document http_reply" where
  "get_document_handler g c i w =
     (case get_document (claim_organization_id c) (path_id g i) w of Inl _ \<Rightarrow> not_found ''document not found'' | Inr x \<Rightarrow> Data 200 x)"

definition delete_document_handler :: "golib \<Rightarrow> claims \<Rightarrow> string \<Rightarrow> kworld \<Rightarrow> kworld \<times> unit http_reply" where
  "delete_document_handler g c i w = (delete_document (claim_organization_id c) (path_id g i) w, Data 200 ())"

definition list_document_chunks_handler :: "golib \<Rightarrow> claims \<Rightarrow> string \<Rightarrow> kworld \<Rightarrow> document_chunk list http_reply" where
  "list_document_chunks_handler g c i w =
     (case get_document (claim_organization_id c) (path_id g i) w of
        Inl _ \<Rightarrow> not_found ''document not found'' | Inr _ \<Rightarrow> Data 200 (list_document_chunks (path_id g i) w))"

section \<open>Search\<close>

record search_request =
  sr_query :: string
  sr_limit :: int
  sr_project_id :: string
  sr_agent_id :: string
  sr_scope :: string
  sr_metadata :: "(string \<times> string) list"
  sr_hybrid :: bool

definition decode_search :: "golib \<Rightarrow> gomap \<Rightarrow> search_request res" where
  "decode_search g m =
     and_then (field_string g ''query'' m []) (\<lambda>query.
      and_then (field_int g ''limit'' m 0) (\<lambda>limit.
      and_then (field_string g ''projectid'' m []) (\<lambda>project.
      and_then (field_string g ''agentid'' m []) (\<lambda>agent.
      and_then (field_string g ''scope'' m []) (\<lambda>scope.
      and_then (field_strings g ''metadata'' m []) (\<lambda>meta.
      and_then (field_bool g ''hybrid'' m False) (\<lambda>hybrid.
      ok \<lparr>sr_query = query, sr_limit = limit, sr_project_id = project, sr_agent_id = agent, sr_scope = scope,
          sr_metadata = meta, sr_hybrid = hybrid\<rparr>)))))))"

text \<open>A text that is no UUID is left out of the filter; whose agent or project it names is not looked at.\<close>

definition search_filter :: "golib \<Rightarrow> claims \<Rightarrow> search_request \<Rightarrow> retrieval_filter" where
  "search_filter g c r =
     \<lparr>rf_organization_id = claim_organization_id c, rf_agent_id = (if sr_agent_id r = [] then None else uuid_parse g (sr_agent_id r)),
      rf_project_id = (if sr_project_id r = [] then None else uuid_parse g (sr_project_id r)), rf_channel_id = None,
      rf_allowed_doc_ids = [], rf_metadata = sr_metadata r, rf_scope = sr_scope r,
      rf_limit = (if sr_limit r = 0 then 5 else sr_limit r)\<rparr>"

definition search_handler :: "know_env \<Rightarrow> claims \<Rightarrow> json option \<Rightarrow> kworld \<Rightarrow> hit list http_reply" where
  "search_handler env c body w =
     (let g = ke_go env
      in case decode_body (decode_search g) body of
           None \<Rightarrow> invalid ''invalid JSON''
         | Some r \<Rightarrow>
             if sr_query r = [] then invalid ''query required''
             else recovered (map_option (reply_of 200)
               ((if sr_hybrid r then hybrid_search else semantic_search) env (sr_query r) (search_filter g c r) w)))"

section \<open>Grants\<close>

text \<open>Both handlers that grant read the same body; a text that is no UUID is the nil UUID.\<close>

definition granted_row :: "golib \<Rightarrow> string \<Rightarrow> (uuid \<Rightarrow> 'r res) \<Rightarrow> string option \<Rightarrow> 'a http_reply + uuid option" where
  "granted_row g what get s =
     (case s of
        None \<Rightarrow> Inr None
      | Some t \<Rightarrow>
          if t = [] then Inr None
          else (case get (path_id g t) of Inl _ \<Rightarrow> Inl (not_found (what @ '' not found'')) | Inr _ \<Rightarrow> Inr (Some (path_id g t))))"

definition grant_body :: "golib \<Rightarrow> claims \<Rightarrow> json option \<Rightarrow> (uuid option \<Rightarrow> uuid option \<Rightarrow> kworld \<Rightarrow> kworld \<times> 'a res) \<Rightarrow> kworld
    \<Rightarrow> kworld \<times> 'a http_reply" where
  "grant_body g c body attach w =
     (case decode_body (\<lambda>m. and_then (field_string_ptr g ''documentid'' m None) (\<lambda>d.
              and_then (field_string_ptr g ''collectionid'' m None) (\<lambda>k. ok (d, k)))) body of
        None \<Rightarrow> (w, invalid ''invalid JSON'')
      | Some (d, k) \<Rightarrow>
          (case granted_row g ''document'' (\<lambda>i. get_document (claim_organization_id c) i w) d of
             Inl e \<Rightarrow> (w, e)
           | Inr doc \<Rightarrow>
               (case granted_row g ''collection'' (\<lambda>i. get_knowledge_collection (claim_organization_id c) i w) k of
                  Inl e \<Rightarrow> (w, e)
                | Inr coll \<Rightarrow>
                    if doc = None \<and> coll = None then (w, invalid ''documentId or collectionId required'')
                    else map_prod id (reply_of 201) (attach doc coll w))))"

definition attach_agent_handler :: "golib \<Rightarrow> claims \<Rightarrow> string \<Rightarrow> json option \<Rightarrow> kworld \<Rightarrow> kworld \<times> agent_knowledge http_reply" where
  "attach_agent_handler g c i body w =
     (case get_agent (claim_organization_id c) (path_id g i) (kdb w) of
        Inl _ \<Rightarrow> (w, not_found ''agent not found'')
      | Inr _ \<Rightarrow> grant_body g c body (\<lambda>d k. attach_agent_knowledge (path_id g i) d k (claim_user_id c)) w)"

definition attach_project_handler :: "golib \<Rightarrow> claims \<Rightarrow> string \<Rightarrow> json option \<Rightarrow> kworld \<Rightarrow> kworld \<times> project_knowledge http_reply" where
  "attach_project_handler g c i body w =
     (case get_project (claim_organization_id c) (path_id g i) (kdb w) of
        Inl _ \<Rightarrow> (w, not_found ''project not found'')
      | Inr _ \<Rightarrow> grant_body g c body (\<lambda>d k. attach_project_knowledge (path_id g i) d k (claim_user_id c)) w)"

definition hydrate_grant :: "uuid \<Rightarrow> kworld \<Rightarrow> agent_knowledge \<Rightarrow> agent_knowledge" where
  "hydrate_grant org_id w a =
     a\<lparr>ak_document := (case ak_document_id a of None \<Rightarrow> None
          | Some i \<Rightarrow> (case get_document org_id i w of Inl _ \<Rightarrow> None | Inr x \<Rightarrow> Some x)),
       ak_collection := (case ak_collection_id a of None \<Rightarrow> None
          | Some i \<Rightarrow> (case get_knowledge_collection org_id i w of Inl _ \<Rightarrow> None | Inr x \<Rightarrow> Some x))\<rparr>"

definition list_agent_knowledge_handler :: "golib \<Rightarrow> claims \<Rightarrow> string \<Rightarrow> kworld \<Rightarrow> agent_knowledge list http_reply" where
  "list_agent_knowledge_handler g c i w =
     (case get_agent (claim_organization_id c) (path_id g i) (kdb w) of
        Inl _ \<Rightarrow> not_found ''agent not found''
      | Inr _ \<Rightarrow> Data 200 (map (hydrate_grant (claim_organization_id c) w) (list_agent_knowledge (path_id g i) w)))"

definition detach_agent_handler :: "golib \<Rightarrow> claims \<Rightarrow> string \<Rightarrow> string \<Rightarrow> kworld \<Rightarrow> kworld \<times> unit http_reply" where
  "detach_agent_handler g c i k w =
     (case get_agent (claim_organization_id c) (path_id g i) (kdb w) of
        Inl _ \<Rightarrow> (w, not_found ''agent not found'')
      | Inr _ \<Rightarrow> (detach_agent_knowledge (path_id g i) (path_id g k) w, Data 200 ()))"

definition list_project_knowledge_handler :: "golib \<Rightarrow> claims \<Rightarrow> string \<Rightarrow> kworld \<Rightarrow> project_knowledge list http_reply" where
  "list_project_knowledge_handler g c i w =
     (case get_project (claim_organization_id c) (path_id g i) (kdb w) of
        Inl _ \<Rightarrow> not_found ''project not found'' | Inr _ \<Rightarrow> Data 200 (list_project_knowledge (path_id g i) w))"

definition detach_project_handler :: "golib \<Rightarrow> claims \<Rightarrow> string \<Rightarrow> string \<Rightarrow> kworld \<Rightarrow> kworld \<times> unit http_reply" where
  "detach_project_handler g c i k w =
     (case get_project (claim_organization_id c) (path_id g i) (kdb w) of
        Inl _ \<Rightarrow> (w, not_found ''project not found'')
      | Inr _ \<Rightarrow> (detach_project_knowledge (path_id g i) (path_id g k) w, Data 200 ()))"

end
