(* ===== verification/KnowledgeFacts.thy ===== *)
theory KnowledgeFacts
  imports KnowledgeHandler
begin

text \<open>
  What the knowledge base promises: an ingestion is all or nothing, and what one organization retrieves is its
  own as long as the agent and the project of the search are.
\<close>

section \<open>Statements\<close>

named_theorems kframe

lemma with_id_eq: "with_id w = (w\<lparr>k_world := (k_world w)\<lparr>w_db := (kdb w)\<lparr>next_id := next_id (kdb w) + 1\<rparr>\<rparr>\<rparr>, next_id (kdb w))"
  by (simp add: with_id_def new_uuid_def)

lemma set_status_frame [kframe]:
  "k_chunks (fst (set_status P st w)) = k_chunks w" "k_embeddings (fst (set_status P st w)) = k_embeddings w"
  "k_world (fst (set_status P st w)) = k_world w" "k_collections (fst (set_status P st w)) = k_collections w"
  "k_sources (fst (set_status P st w)) = k_sources w" "k_versions (fst (set_status P st w)) = k_versions w"
  "k_agent_knowledge (fst (set_status P st w)) = k_agent_knowledge w"
  "k_project_knowledge (fst (set_status P st w)) = k_project_knowledge w"
  by (simp_all add: set_status_def)

lemma set_status_ok:
  assumes "st \<in> set document_status_check"
  shows "set_status P st w
    = (w\<lparr>k_documents := update_where P (\<lambda>x. x\<lparr>doc_status := st, doc_updated_at := now (kdb w)\<rparr>) (k_documents w)\<rparr>, ok ())"
  using assms by (simp add: set_status_def)

lemma document_statuses [simp]: "''failed'' \<in> set document_status_check" "''processing'' \<in> set document_status_check"
  "''ready'' \<in> set document_status_check" "''archived'' \<notin> set document_status_check"
  by (simp_all add: document_status_check_def)

lemma set_status_documents:
  "st \<in> set document_status_check \<Longrightarrow> set (k_documents (fst (set_status P st w)))
     = (\<lambda>x. if P x then x\<lparr>doc_status := st, doc_updated_at := now (kdb w)\<rparr> else x) ` set (k_documents w)"
  by (simp add: set_status_ok update_where_def)

lemma set_status_reached:
  assumes "st \<in> set document_status_check" and "x \<in> set (k_documents (fst (set_status P st w)))" and "P x"
  shows "doc_status x = st"
proof -
  from assms(2) obtain y where "x = (if P y then y\<lparr>doc_status := st, doc_updated_at := now (kdb w)\<rparr> else y)"
    unfolding set_status_documents [OF assms(1)] by blast
  with assms(3) show ?thesis by (cases "P y") simp_all
qed

text \<open>The owner of a document, which no change of its status touches.\<close>

abbreviation doc_owner :: "document \<Rightarrow> uuid \<times> uuid \<times> uuid option" where
  "doc_owner x \<equiv> (doc_id x, doc_organization_id x, doc_collection_id x)"

lemma set_status_owners: "map doc_owner (k_documents (fst (set_status P st w))) = map doc_owner (k_documents w)"
  by (simp add: set_status_def update_where_def)

lemma set_status_ids: "doc_id ` set (k_documents (fst (set_status P st w))) = doc_id ` set (k_documents w)"
proof -
  have "map doc_id (k_documents (fst (set_status P st w))) = map doc_id (k_documents w)" by (simp add: set_status_def update_where_def)
  then show ?thesis by (metis list.set_map)
qed

abbreviation chunk_key :: "document_chunk \<Rightarrow> uuid \<times> uuid \<times> int \<times> string" where
  "chunk_key c \<equiv> (dc_document_id c, dc_organization_id c, dc_chunk_index c, dc_content c)"

lemma insert_chunk_stored:
  assumes "insert_chunk env org_id doc c w = ok v"
  obtains row es where "v = w\<lparr>k_world := (k_world w)\<lparr>w_db := (kdb w)\<lparr>next_id := next_id (kdb w) + 1\<rparr>\<rparr>,
      k_chunks := k_chunks w @ [row], k_embeddings := k_embeddings w @ es\<rparr>"
    "chunk_key (fst row) = (doc, org_id, dc_chunk_index c, dc_content c)"
    "length es = (if dc_embedding c = [] then 0 else 1)"
    "\<forall>r \<in> set (k_chunks w). \<not> (dc_document_id (fst r) = doc \<and> dc_chunk_index (fst r) = dc_chunk_index c)"
    "doc \<in> doc_id ` set (k_documents w)"
proof -
  note step = assms [unfolded insert_chunk_def with_id_eq Let_def prod.case]
  define row where "row = (c\<lparr>dc_id := next_id (kdb w), dc_document_id := doc, dc_organization_id := org_id, dc_embedding := [],
    dc_created_at := now (kdb w), dc_score := 0, dc_document_title := []\<rparr>, vector_text env (dc_embedding c))"
  define es where "es = (if dc_embedding c = [] then [] else [\<lparr>em_organization_id = org_id,
    em_document_chunk_id = next_id (kdb w), em_embedding = vector_text env (dc_embedding c), em_model = ''text-embedding-3-small''\<rparr>])"
  show ?thesis
  proof (rule that)
    show "v = w\<lparr>k_world := (k_world w)\<lparr>w_db := (kdb w)\<lparr>next_id := next_id (kdb w) + 1\<rparr>\<rparr>,
        k_chunks := k_chunks w @ [row], k_embeddings := k_embeddings w @ es\<rparr>"
      using step unfolding row_def es_def by (simp split: if_split_asm)
    show "\<forall>r \<in> set (k_chunks w). \<not> (dc_document_id (fst r) = doc \<and> dc_chunk_index (fst r) = dc_chunk_index c)"
      using step by (auto split: if_split_asm)
    show "doc \<in> doc_id ` set (k_documents w)" using step by (auto split: if_split_asm)
  qed (simp_all add: row_def es_def)
qed

text \<open>What a successful loop adds: one row a chunk, none of them there before.\<close>

definition chunks_added :: "uuid \<Rightarrow> uuid \<Rightarrow> document_chunk list \<Rightarrow> kworld \<Rightarrow> kworld \<Rightarrow> chunk_row list \<Rightarrow> bool" where
  "chunks_added org_id doc cs w v rows \<longleftrightarrow>
     map (chunk_key \<circ> fst) rows = map (\<lambda>c. (doc, org_id, dc_chunk_index c, dc_content c)) cs
     \<and> (\<exists>es n. v = w\<lparr>k_world := (k_world w)\<lparr>w_db := (kdb w)\<lparr>next_id := n\<rparr>\<rparr>, k_chunks := k_chunks w @ rows,
          k_embeddings := k_embeddings w @ es\<rparr> \<and> next_id (kdb w) \<le> n \<and> length es = length (filter (\<lambda>c. dc_embedding c \<noteq> []) cs))
     \<and> (\<forall>r \<in> set (k_chunks w). dc_document_id (fst r) = doc \<longrightarrow> dc_chunk_index (fst r) \<notin> dc_chunk_index ` set cs)
     \<and> (cs \<noteq> [] \<longrightarrow> doc \<in> doc_id ` set (k_documents w))"

lemma chunks_added_Cons:
  assumes "chunks_added org_id doc cs u v rows" and u: "u = w\<lparr>k_world := (k_world w)\<lparr>w_db := (kdb w)\<lparr>next_id := next_id (kdb w) + 1\<rparr>\<rparr>,
      k_chunks := k_chunks w @ [row], k_embeddings := k_embeddings w @ es\<rparr>"
    and "chunk_key (fst row) = (doc, org_id, dc_chunk_index c, dc_content c)" "length es = (if dc_embedding c = [] then 0 else 1)"
    and "\<forall>r \<in> set (k_chunks w). \<not> (dc_document_id (fst r) = doc \<and> dc_chunk_index (fst r) = dc_chunk_index c)"
    and "doc \<in> doc_id ` set (k_documents w)"
  shows "chunks_added org_id doc (c # cs) w v (row # rows)"
proof -
  from assms(1) obtain es' n where v: "v = u\<lparr>k_world := (k_world u)\<lparr>w_db := (kdb u)\<lparr>next_id := n\<rparr>\<rparr>, k_chunks := k_chunks u @ rows,
        k_embeddings := k_embeddings u @ es'\<rparr>" "next_id (kdb u) \<le> n" "length es' = length (filter (\<lambda>c. dc_embedding c \<noteq> []) cs)"
    unfolding chunks_added_def by blast
  show ?thesis unfolding chunks_added_def
  proof (intro conjI)
    show "\<exists>es n. v = w\<lparr>k_world := (k_world w)\<lparr>w_db := (kdb w)\<lparr>next_id := n\<rparr>\<rparr>, k_chunks := k_chunks w @ row # rows,
        k_embeddings := k_embeddings w @ es\<rparr> \<and> next_id (kdb w) \<le> n \<and> length es = length (filter (\<lambda>c. dc_embedding c \<noteq> []) (c # cs))"
      using v assms(4) by (intro exI [of _ "es @ es'"] exI [of _ n]) (simp add: u)
    show "\<forall>r \<in> set (k_chunks w). dc_document_id (fst r) = doc \<longrightarrow> dc_chunk_index (fst r) \<notin> dc_chunk_index ` set (c # cs)"
      using assms(1,5) unfolding chunks_added_def u by simp
    show "map (chunk_key \<circ> fst) (row # rows) = map (\<lambda>c. (doc, org_id, dc_chunk_index c, dc_content c)) (c # cs)"
      using assms(1,3) unfolding chunks_added_def by simp
  qed (use assms(6) in simp)
qed

lemma insert_chunks_stored:
  assumes "insert_chunks env org_id doc cs w = ok v"
  shows "\<exists>rows. chunks_added org_id doc cs w v rows"
  using assms
proof (induction cs arbitrary: w)
  case Nil
  then show ?case unfolding chunks_added_def by (intro exI [of _ "[]"]) (auto intro!: exI [of _ "next_id (kdb w)"])
next
  case (Cons c cs)
  from Cons.prems obtain u where u: "insert_chunk env org_id doc c w = ok u" "insert_chunks env org_id doc cs u = ok v"
    by (auto simp: and_then_def split: sum.splits)
  from Cons.IH [OF u(2)] obtain rows where rows: "chunks_added org_id doc cs u v rows" by blast
  show ?case by (rule insert_chunk_stored [OF u(1)]) (rule exI, rule chunks_added_Cons [OF rows], assumption+)
qed

section \<open>Ingestion\<close>

lemma page_texts_total: "\<exists>ts. page_texts g doc ps = Some ts"
proof (induction ps)
  case (Cons p ps)
  then obtain rest where "page_texts g doc ps = Some rest" by blast
  moreover obtain ts where "chunk_text (pc_text p) 500 50 = Some ts" using chunk_text_ends [of 500 50] by auto
  ultimately show ?case by simp
qed simp

lemma texts_to_embed_total: obtains ts where "texts_to_embed g doc content = Some ts" "ts \<noteq> []"
proof -
  obtain ts where ts: "page_texts g doc (page_chunks content) = Some ts" using page_texts_total by blast
  obtain us where us: "chunk_text content 500 50 = Some us" "us \<noteq> []" using chunk_text_ends [of 500 50] by auto
  show ?thesis using that ts us by (cases "ts = []") (simp_all add: texts_to_embed_def)
qed

definition unchanged_chunks :: "kworld \<Rightarrow> kworld \<Rightarrow> bool" where
  "unchanged_chunks w w' \<longleftrightarrow> k_chunks w' = k_chunks w \<and> k_embeddings w' = k_embeddings w"

text \<open>What the program stored for a document: its texts from the first to the last, and the document is ready.\<close>

definition stored_texts :: "uuid \<Rightarrow> uuid \<Rightarrow> string list \<Rightarrow> kworld \<Rightarrow> kworld \<Rightarrow> bool" where
  "stored_texts org_id doc ts w w' \<longleftrightarrow>
     (\<exists>rows. k_chunks w' = k_chunks w @ rows
        \<and> map (chunk_key \<circ> fst) rows = map (\<lambda>(i, t). (doc, org_id, int i, t)) (zip [0..<length ts] ts))
     \<and> (\<forall>r \<in> set (k_chunks w). dc_document_id (fst r) = doc \<longrightarrow> dc_chunk_index (fst r) \<notin> {0..<int (length ts)})
     \<and> doc \<in> doc_id ` set (k_documents w') \<and> (\<forall>x \<in> set (k_documents w'). doc_id x = doc \<longrightarrow> doc_status x = ''ready'')"

definition marked_failed :: "uuid \<Rightarrow> uuid \<Rightarrow> kworld \<Rightarrow> bool" where
  "marked_failed org_id doc w \<longleftrightarrow> (\<forall>x \<in> set (k_documents w). is_document org_id doc x \<longrightarrow> doc_status x = ''failed'')"

lemma ingest_failed_marks:
  "unchanged_chunks w (fst (ingest_failed org_id doc e w))" "marked_failed org_id doc (fst (ingest_failed org_id doc e w))"
  "snd (ingest_failed org_id doc e w) = fail e"
proof -
  show "unchanged_chunks w (fst (ingest_failed org_id doc e w))" "snd (ingest_failed org_id doc e w) = fail e"
    by (simp_all add: ingest_failed_def update_document_status_def unchanged_chunks_def kframe)
  show "marked_failed org_id doc (fst (ingest_failed org_id doc e w))"
    unfolding marked_failed_def ingest_failed_def update_document_status_def fst_conv
    using set_status_reached [OF document_statuses(1)] by blast
qed

lemma chunks_of_keys:
  assumes "length vs = length ts"
  shows "map (\<lambda>c. (doc, org_id, dc_chunk_index c, dc_content c)) (chunks_of org_id doc ts vs)
      = map (\<lambda>(i, t). (doc, org_id, int i, t)) (zip [0..<length ts] (map fst ts))"
    and "dc_chunk_index ` set (chunks_of org_id doc ts vs) = {0..<int (length ts)}"
proof -
  show "map (\<lambda>c. (doc, org_id, dc_chunk_index c, dc_content c)) (chunks_of org_id doc ts vs)
      = map (\<lambda>(i, t). (doc, org_id, int i, t)) (zip [0..<length ts] (map fst ts))"
    using assms by (intro nth_equalityI) (simp_all add: chunks_of_def chunk_of_def)
  have "map dc_chunk_index (chunks_of org_id doc ts vs) = map int [0..<length ts]"
    using assms by (intro nth_equalityI) (simp_all add: chunks_of_def chunk_of_def)
  then have "dc_chunk_index ` set (chunks_of org_id doc ts vs) = int ` {0..<length ts}" by (metis atLeastLessThan_upt list.set_map)
  also have "\<dots> = {0..<int (length ts)}" by (simp add: image_int_atLeastLessThan)
  finally show "dc_chunk_index ` set (chunks_of org_id doc ts vs) = {0..<int (length ts)}" .
qed

lemma create_document_chunks_stored:
  assumes "create_document_chunks env org_id doc (chunks_of org_id doc ts vs) w = (w', r)" and "length vs = length ts" and "ts \<noteq> []"
  shows "case r of Inl e \<Rightarrow> w' = w | Inr _ \<Rightarrow> stored_texts org_id doc (map fst ts) w w'"
proof (cases "insert_chunks env org_id doc (chunks_of org_id doc ts vs) w")
  case (Inl e)
  with assms show ?thesis by (auto simp: create_document_chunks_def)
next
  case (Inr v)
  from insert_chunks_stored [OF this] obtain rows where rows: "chunks_added org_id doc (chunks_of org_id doc ts vs) w v rows" by blast
  from assms(1) Inr have w': "r = ok ()" "w' = fst (set_status (\<lambda>x. doc_id x = doc) ''ready'' v)"
    by (simp_all add: create_document_chunks_def set_status_ok)
  from rows have v: "k_chunks v = k_chunks w @ rows" "k_documents v = k_documents w" by (auto simp: chunks_added_def)
  have "length (chunks_of org_id doc ts vs) = length ts" using assms(2) by (simp add: chunks_of_def)
  then have "chunks_of org_id doc ts vs \<noteq> []" using assms(3) by auto
  with rows have "doc \<in> doc_id ` set (k_documents w)" by (simp add: chunks_added_def)
  then have "doc \<in> doc_id ` set (k_documents w')"
    unfolding w' set_status_ids v .
  moreover have "\<forall>x \<in> set (k_documents w'). doc_id x = doc \<longrightarrow> doc_status x = ''ready''"
    unfolding w' using set_status_reached [OF document_statuses(3)] by blast
  moreover have "k_chunks w' = k_chunks w @ rows" by (simp add: w' v kframe)
  moreover have "map (chunk_key \<circ> fst) rows = map (\<lambda>(i, t). (doc, org_id, int i, t)) (zip [0..<length (map fst ts)] (map fst ts))"
    "\<forall>r \<in> set (k_chunks w). dc_document_id (fst r) = doc \<longrightarrow> dc_chunk_index (fst r) \<notin> {0..<int (length (map fst ts))}"
    using rows unfolding chunks_added_def chunks_of_keys [OF assms(2)] length_map by simp_all
  ultimately show ?thesis unfolding stored_texts_def w'(1) sum.case by blast
qed

lemma store_texts_cases:
  assumes "store_texts env org_id doc ts w = (w', r)" and "ts \<noteq> []"
  shows "case r of Inl e \<Rightarrow> unchanged_chunks w w' \<and> marked_failed org_id doc w' | Inr _ \<Rightarrow> stored_texts org_id doc (map fst ts) w w'"
proof -
  have gone: ?thesis if "(w', r) = ingest_failed org_id doc e w" for e
    using ingest_failed_marks [where w = w and org_id = org_id and doc = doc and e = e] that [symmetric] by simp
  show ?thesis
  proof (cases "\<exists>emb vs. ke_embed env = Some emb \<and> emb (map fst ts) = Inr vs \<and> length vs = length ts")
    case False
    with assms(1) have "\<exists>e. (w', r) = ingest_failed org_id doc e w"
      by (auto simp: store_texts_def eq_commute [of "(w', r)"] split: option.splits sum.splits if_splits)
    then show ?thesis using gone by blast
  next
    case True
    then obtain emb vs where e: "ke_embed env = Some emb" "emb (map fst ts) = Inr vs" "length vs = length ts" by blast
    obtain v q where vq: "create_document_chunks env org_id doc (chunks_of org_id doc ts vs) w = (v, q)" by fastforce
    note stored = create_document_chunks_stored [OF vq e(3) assms(2)]
    show ?thesis
    proof (cases q)
      case (Inl x)
      with stored have "v = w" by simp
      with assms(1) e vq Inl have "(w', r) = ingest_failed org_id doc x w" by (simp add: store_texts_def)
      then show ?thesis by (rule gone)
    next
      case (Inr u)
      with assms(1) e vq have "w' = v" "r = ok ()" by (simp_all add: store_texts_def)
      with stored Inr show ?thesis by simp
    qed
  qed
qed

text \<open>
  C16: An ingestion ends and is all or nothing. When it fails no chunk and no embedding was added and the
  document is marked as failed, whatever it was before; when it succeeds the texts of the document, at least one,
  are stored in their order from index 0 with their embeddings, none of these places was taken before, and the
  document is ready. In particular a document that has chunks cannot be ingested a second time.
\<close>

theorem ingest_all_or_nothing:
  "\<exists>w' r. ingest_document env org_id doc content w = Some (w', r)
    \<and> (case r of
         Inl e \<Rightarrow> unchanged_chunks w w' \<and> marked_failed org_id doc w'
       | Inr _ \<Rightarrow> \<exists>ts. ts \<noteq> [] \<and> stored_texts org_id doc (map fst ts) w w'
           \<and> (\<exists>c. text_to_ingest org_id doc content (fst (update_document_status org_id doc ''processing'' w)) = ok c
                \<and> texts_to_embed (ke_go env) doc (sanitize_document_content c) = Some ts))"
proof -
  define v where "v = fst (update_document_status org_id doc ''processing'' w)"
  have st: "update_document_status org_id doc ''processing'' w = (v, ok ())"
    by (simp add: v_def update_document_status_def set_status_ok)
  have v: "k_chunks v = k_chunks w" "k_embeddings v = k_embeddings w" by (simp_all add: v_def update_document_status_def kframe)
  show ?thesis
  proof (cases "text_to_ingest org_id doc content v")
    case (Inl e)
    then have "\<forall>x \<in> set (k_documents v). \<not> is_document org_id doc x"
      by (auto simp: text_to_ingest_def and_then_def get_document_def query_row_cases split: if_splits sum.splits)
    then have "marked_failed org_id doc v" by (simp add: marked_failed_def)
    moreover have "ingest_document env org_id doc content w = Some (v, fail e)"
      unfolding ingest_document_def st by (simp add: Inl)
    ultimately show ?thesis using v by (simp add: unchanged_chunks_def)
  next
    case (Inr c)
    obtain ts where ts: "texts_to_embed (ke_go env) doc (sanitize_document_content c) = Some ts" "ts \<noteq> []"
      by (rule texts_to_embed_total)
    obtain w' r where wr: "store_texts env org_id doc ts v = (w', r)" by fastforce
    have run: "ingest_document env org_id doc content w = Some (w', r)"
      unfolding ingest_document_def st by (simp add: Inr ts(1) wr)
    have "case r of Inl e \<Rightarrow> unchanged_chunks v w' \<and> marked_failed org_id doc w' | Inr _ \<Rightarrow> stored_texts org_id doc (map fst ts) v w'"
      using wr ts(2) by (rule store_texts_cases)
    then have "case r of Inl e \<Rightarrow> unchanged_chunks w w' \<and> marked_failed org_id doc w' | Inr _ \<Rightarrow> stored_texts org_id doc (map fst ts) w w'"
      by (simp only: unchanged_chunks_def stored_texts_def v)
    moreover have "\<exists>c. text_to_ingest org_id doc content (fst (update_document_status org_id doc ''processing'' w)) = ok c
        \<and> texts_to_embed (ke_go env) doc (sanitize_document_content c) = Some ts" using Inr ts(1) by (auto simp: v_def)
    ultimately show ?thesis using run ts(2) by (cases r) auto
  qed
qed

section \<open>Whose knowledge it is\<close>

text \<open>The rows with their organization, and that a grant stays inside one.\<close>

definition docs_of :: "document list \<Rightarrow> (uuid \<times> uuid) set" where
  "docs_of xs = (\<lambda>x. (doc_id x, doc_organization_id x)) ` set xs"

definition colls_of :: "knowledge_collection list \<Rightarrow> (uuid \<times> uuid) set" where
  "colls_of ks = (\<lambda>k. (kc_id k, kc_organization_id k)) ` set ks"

definition agents_of :: "agent list \<Rightarrow> (uuid \<times> uuid) set" where
  "agents_of as = (\<lambda>a. (ag_id a, ag_organization_id a)) ` set as"

definition projects_of :: "project list \<Rightarrow> (uuid \<times> uuid) set" where
  "projects_of ps = (\<lambda>p. (pr_id p, pr_organization_id p)) ` set ps"

definition grant_inside :: "document list \<Rightarrow> knowledge_collection list \<Rightarrow> uuid \<Rightarrow> uuid option \<times> uuid option \<Rightarrow> bool" where
  "grant_inside xs ks org_id g \<longleftrightarrow> (\<forall>i. fst g = Some i \<longrightarrow> (i, org_id) \<in> docs_of xs) \<and> (\<forall>i. snd g = Some i \<longrightarrow> (i, org_id) \<in> colls_of ks)"

definition grants_inside :: "document list \<Rightarrow> knowledge_collection list \<Rightarrow> (uuid \<times> uuid) set \<Rightarrow> (uuid \<times> uuid option \<times> uuid option) set \<Rightarrow> bool" where
  "grants_inside xs ks owners gs \<longleftrightarrow> (\<forall>(a, g) \<in> gs. \<exists>org_id. (a, org_id) \<in> owners \<and> grant_inside xs ks org_id g)"

abbreviation agent_grant :: "agent_knowledge \<Rightarrow> uuid \<times> uuid option \<times> uuid option" where
  "agent_grant g \<equiv> (ak_agent_id g, ak_document_id g, ak_collection_id g)"

abbreviation project_grant :: "project_knowledge \<Rightarrow> uuid \<times> uuid option \<times> uuid option" where
  "project_grant h \<equiv> (pk_project_id h, pk_document_id h, pk_collection_id h)"

definition documents_inside :: "uuid \<Rightarrow> document list \<Rightarrow> knowledge_collection list \<Rightarrow> chunk_row list \<Rightarrow> bool" where
  "documents_inside n xs ks rs \<longleftrightarrow>
     distinct (map doc_id xs) \<and> (\<forall>x \<in> set xs. doc_id x < n) \<and> distinct (map kc_id ks) \<and> (\<forall>k \<in> set ks. kc_id k < n)
     \<and> (\<forall>x \<in> set xs. \<forall>i. doc_collection_id x = Some i \<longrightarrow> (i, doc_organization_id x) \<in> colls_of ks)
     \<and> (\<forall>r \<in> set rs. (dc_document_id (fst r), dc_organization_id (fst r)) \<in> docs_of xs)"

definition owned_tables :: "uuid \<Rightarrow> agent list \<Rightarrow> project list \<Rightarrow> document list \<Rightarrow> knowledge_collection list \<Rightarrow> chunk_row list
    \<Rightarrow> agent_knowledge list \<Rightarrow> project_knowledge list \<Rightarrow> bool" where
  "owned_tables n as ps xs ks rs gs hs \<longleftrightarrow>
     distinct (map ag_id as) \<and> distinct (map pr_id ps) \<and> documents_inside n xs ks rs
     \<and> grants_inside xs ks (agents_of as) (agent_grant ` set gs) \<and> grants_inside xs ks (projects_of ps) (project_grant ` set hs)"

definition knowledge_owned :: "kworld \<Rightarrow> bool" where
  "knowledge_owned w \<longleftrightarrow> owned_tables (next_id (kdb w)) (agents (kdb w)) (projects (kdb w)) (k_documents w) (k_collections w) (k_chunks w)
     (k_agent_knowledge w) (k_project_knowledge w)"

lemma grants_inside_mono:
  assumes "grants_inside xs ks ow gs" and "docs_of xs \<subseteq> docs_of xs'" and "colls_of ks \<subseteq> colls_of ks'"
  shows "grants_inside xs' ks' ow gs"
proof -
  have "grant_inside xs' ks' o' g" if "grant_inside xs ks o' g" for o' g
    using that assms(2,3) by (auto simp: grant_inside_def)
  with assms(1) show ?thesis unfolding grants_inside_def by blast
qed

lemma owned_more:
  assumes "owned_tables n as ps xs ks rs gs hs" and "docs_of xs \<subseteq> docs_of xs'" and "colls_of ks \<subseteq> colls_of ks'"
    and "documents_inside m xs' ks' rs'"
  shows "owned_tables m as ps xs' ks' rs' gs hs"
  using assms grants_inside_mono [OF _ assms(2,3)] unfolding owned_tables_def by blast

lemma owned_later:
  assumes "owned_tables n as ps xs ks rs gs hs" and "n \<le> m"
  shows "owned_tables m as ps xs ks rs gs hs"
  by (rule owned_more [OF assms(1)]) (use assms in \<open>auto simp: owned_tables_def documents_inside_def intro: order.strict_trans2\<close>)

lemma owned_document:
  assumes "owned_tables n as ps xs ks rs gs hs" and "doc_id x = n"
    and "\<And>i. doc_collection_id x = Some i \<Longrightarrow> (i, doc_organization_id x) \<in> colls_of ks"
  shows "owned_tables (n + 1) as ps (xs @ [x]) ks rs gs hs"
proof (rule owned_more [OF assms(1)])
  have i: "documents_inside n xs ks rs" using assms(1) by (simp add: owned_tables_def)
  moreover from i have "n \<notin> doc_id ` set xs" by (auto simp: documents_inside_def)
  moreover have "docs_of (xs @ [x]) = insert (n, doc_organization_id x) (docs_of xs)" by (simp add: docs_of_def assms(2))
  ultimately show "documents_inside (n + 1) (xs @ [x]) ks rs"
    using assms(2,3) unfolding documents_inside_def by (simp add: less_Suc_eq)
qed (auto simp: docs_of_def)

lemma owned_collection:
  assumes "owned_tables n as ps xs ks rs gs hs" and "kc_id k = n"
  shows "owned_tables (n + 1) as ps xs (ks @ [k]) rs gs hs"
proof (rule owned_more [OF assms(1)])
  have i: "documents_inside n xs ks rs" using assms(1) by (simp add: owned_tables_def)
  moreover from i have "n \<notin> kc_id ` set ks" by (auto simp: documents_inside_def)
  moreover have "colls_of (ks @ [k]) = insert (n, kc_organization_id k) (colls_of ks)" by (simp add: colls_of_def assms(2))
  ultimately show "documents_inside (n + 1) xs (ks @ [k]) rs"
    using assms(2) unfolding documents_inside_def by (simp add: less_Suc_eq)
qed (auto simp: colls_of_def)

lemma owners_docs:
  assumes "map doc_owner xs' = map doc_owner xs"
  shows "docs_of xs' = docs_of xs" "map doc_id xs' = map doc_id xs"
proof -
  have "set (map doc_owner xs') = set (map doc_owner xs)" using assms by simp
  then have "(\<lambda>(i, o', c). (i, o')) ` doc_owner ` set xs' = (\<lambda>(i, o', c). (i, o')) ` doc_owner ` set xs" by simp
  then show "docs_of xs' = docs_of xs" by (simp add: docs_of_def image_image)
  have "map fst (map doc_owner xs') = map fst (map doc_owner xs)" using assms by simp
  then show "map doc_id xs' = map doc_id xs" by (simp add: comp_def)
qed

lemma owned_status:
  assumes "owned_tables n as ps xs ks rs gs hs" and "map doc_owner xs' = map doc_owner xs"
  shows "owned_tables n as ps xs' ks rs gs hs"
proof (rule owned_more [OF assms(1)])
  have i: "documents_inside n xs ks rs" using assms(1) by (simp add: owned_tables_def)
  have e: "doc_id x < n \<and> (\<forall>i. doc_collection_id x = Some i \<longrightarrow> (i, doc_organization_id x) \<in> colls_of ks)" if "x \<in> set xs'" for x
  proof -
    from that have "doc_owner x \<in> set (map doc_owner xs)" unfolding assms(2) [symmetric] by simp
    then obtain y where "y \<in> set xs" "doc_id x = doc_id y" "doc_organization_id x = doc_organization_id y"
      "doc_collection_id x = doc_collection_id y" by auto
    with i show ?thesis unfolding documents_inside_def by simp
  qed
  with i owners_docs [OF assms(2)] show "documents_inside n xs' ks rs" unfolding documents_inside_def using e by simp
qed (simp_all add: owners_docs [OF assms(2)])

lemma owned_chunks:
  assumes "owned_tables n as ps xs ks rs gs hs" and "\<forall>r \<in> set rs'. (dc_document_id (fst r), dc_organization_id (fst r)) \<in> docs_of xs"
  shows "owned_tables n as ps xs ks (rs @ rs') gs hs"
  by (rule owned_more [OF assms(1)]) (use assms in \<open>auto simp: owned_tables_def documents_inside_def\<close>)

lemma owned_delete:
  assumes "owned_tables n as ps xs ks rs gs hs" and "gone = map doc_id (filter P xs)"
  shows "owned_tables n as ps (filter (\<lambda>x. \<not> P x) xs) ks (filter (\<lambda>r. dc_document_id (fst r) \<notin> set gone) rs)
    (filter (\<lambda>a. ak_document_id a \<notin> Some ` set gone) gs) (filter (\<lambda>p. pk_document_id p \<notin> Some ` set gone) hs)"
proof -
  have keep: "(i, o') \<in> docs_of (filter (\<lambda>x. \<not> P x) xs)" if "(i, o') \<in> docs_of xs" "i \<notin> set gone" for i o'
    using that by (force simp: docs_of_def assms(2))
  have g: "grant_inside (filter (\<lambda>x. \<not> P x) xs) ks o' (d, k)" if "grant_inside xs ks o' (d, k)" "d \<notin> Some ` set gone" for o' d k
    using that keep by (auto simp: grant_inside_def)
  have gs: "grants_inside (filter (\<lambda>x. \<not> P x) xs) ks ow (f ` set (filter (\<lambda>a. (fst \<circ> snd \<circ> f) a \<notin> Some ` set gone) ys))"
    if "grants_inside xs ks ow (f ` set ys)" for ow f and ys :: "'b list"
    using that g unfolding grants_inside_def by fastforce
  have "documents_inside n (filter (\<lambda>x. \<not> P x) xs) ks (filter (\<lambda>r. dc_document_id (fst r) \<notin> set gone) rs)"
    using assms(1) keep unfolding owned_tables_def documents_inside_def by (simp add: distinct_map_filter)
  with assms(1) gs [of _ agent_grant] gs [of _ project_grant] show ?thesis unfolding owned_tables_def by simp
qed

lemma owned_grants:
  assumes "owned_tables n as ps xs ks rs gs hs"
  shows "owned_tables n as ps xs ks rs (filter P gs) hs" "owned_tables n as ps xs ks rs gs (filter Q hs)"
    "(ak_agent_id g, o') \<in> agents_of as \<Longrightarrow> grant_inside xs ks o' (ak_document_id g, ak_collection_id g)
      \<Longrightarrow> owned_tables n as ps xs ks rs (gs @ [g]) hs"
    "(pk_project_id h, o') \<in> projects_of ps \<Longrightarrow> grant_inside xs ks o' (pk_document_id h, pk_collection_id h)
      \<Longrightarrow> owned_tables n as ps xs ks rs gs (hs @ [h])"
  using assms unfolding owned_tables_def grants_inside_def by auto

subsection \<open>The operations keep it\<close>

lemma owned_with_id:
  assumes "knowledge_owned w" and "with_id w = (v, i)"
  shows "knowledge_owned v" "i = next_id (kdb w)" "kdb v = (kdb w)\<lparr>next_id := next_id (kdb w) + 1\<rparr>"
    "k_documents v = k_documents w" "k_collections v = k_collections w" "k_chunks v = k_chunks w"
    "k_agent_knowledge v = k_agent_knowledge w" "k_project_knowledge v = k_project_knowledge w"
  using assms owned_later [of "next_id (kdb w)" _ _ _ _ _ _ _ "next_id (kdb w) + 1"]
  by (auto simp: with_id_eq knowledge_owned_def)

lemma owned_source:
  assumes "knowledge_owned w" shows "knowledge_owned (fst (create_knowledge_source org_id n st cfg by w))"
proof -
  obtain v i where vi: "with_id w = (v, i)" by fastforce
  then have "knowledge_owned (v\<lparr>k_sources := ss\<rparr>)" for ss
    using owned_with_id(1) [OF assms vi] by (simp add: knowledge_owned_def)
  then show ?thesis using assms vi by (simp add: create_knowledge_source_def Let_def)
qed

lemma owned_insert_collection:
  assumes "knowledge_owned w" shows "knowledge_owned (fst (insert_collection org_id n slug de by w))"
proof -
  obtain v i where vi: "with_id w = (v, i)" by fastforce
  note v = owned_with_id [OF assms vi]
  have "knowledge_owned (v\<lparr>k_collections := k_collections v @ [k]\<rparr>)" if "kc_id k = i" for k
    using owned_collection [OF assms [unfolded knowledge_owned_def], of k] that v by (simp add: knowledge_owned_def)
  then show ?thesis using assms vi by (simp add: insert_collection_def Let_def)
qed

lemma owned_collection_loop:
  "knowledge_owned w \<Longrightarrow> knowledge_owned (fst (collection_loop g n org_id name base slug de by w))"
proof (induction g n org_id name base slug de "by" w rule: collection_loop.induct)
  case (2 g n org_id name base slug de "by" w)
  obtain v r where vr: "insert_collection org_id name slug de by w = (v, r)" by fastforce
  with 2(2) owned_insert_collection have v: "knowledge_owned v" by (metis fst_conv)
  obtain u i where ui: "with_id v = (u, i)" by fastforce
  show ?case
  proof (cases r)
    case (Inr c)
    with vr v show ?thesis by simp
  next
    case (Inl e)
    have u: "knowledge_owned u" by (rule owned_with_id(1) [OF v ui])
    show ?thesis
    proof (cases "\<not> contains e ''duplicate'' \<and> \<not> contains e ''unique''")
      case True
      with vr v Inl show ?thesis by simp
    next
      case False
      from 2(1) [OF vr [symmetric] Inl False ui [symmetric] refl u] show ?thesis using vr Inl False ui by auto
    qed
  qed
qed simp

lemma slugify_db: "\<exists>n. snd (slugify g s d) = d\<lparr>next_id := n\<rparr> \<and> next_id d \<le> n"
proof -
  have "snd (slugify g s d) = d \<or> snd (slugify g s d) = d\<lparr>next_id := next_id d + 1\<rparr>" by (simp add: slugify_def Let_def)
  then show ?thesis
  proof
    assume "snd (slugify g s d) = d"
    then show ?thesis by (intro exI [of _ "next_id d"]) simp
  qed auto
qed

lemma owned_create_collection:
  assumes "knowledge_owned w" shows "knowledge_owned (fst (create_knowledge_collection g org_id n de by w))"
proof -
  obtain slug d where sd: "slugify g n (kdb w) = (slug, d)" by fastforce
  with slugify_db [of g n "kdb w"] obtain m where "d = (kdb w)\<lparr>next_id := m\<rparr>" "next_id (kdb w) \<le> m" by auto
  then have "knowledge_owned (w\<lparr>k_world := (k_world w)\<lparr>w_db := d\<rparr>\<rparr>)"
    using owned_later [OF assms [unfolded knowledge_owned_def]] by (simp add: knowledge_owned_def)
  then show ?thesis unfolding create_knowledge_collection_def sd Let_def prod.case by (rule owned_collection_loop)
qed

lemma owned_set_status:
  assumes "knowledge_owned w" shows "knowledge_owned (fst (set_status P st w))"
  using owned_status [OF assms [unfolded knowledge_owned_def] set_status_owners] by (simp add: knowledge_owned_def kframe)

lemma owned_delete_document:
  assumes "knowledge_owned w" shows "knowledge_owned (delete_document org_id i w)"
  using owned_delete [OF assms [unfolded knowledge_owned_def] refl, of "is_document org_id i"]
  by (simp add: knowledge_owned_def delete_document_def Let_def)

lemma owned_insert_document:
  assumes "knowledge_owned w" and "\<And>i. doc_collection_id x = Some i \<Longrightarrow> (i, doc_organization_id x) \<in> colls_of (k_collections w)"
  shows "knowledge_owned (fst (insert_document x w))"
proof -
  obtain v i where vi: "with_id w = (v, i)" by fastforce
  note v = owned_with_id [OF assms(1) vi]
  have "knowledge_owned (v\<lparr>k_documents := k_documents v @ [y]\<rparr>)"
    if "doc_id y = i" "doc_collection_id y = doc_collection_id x" "doc_organization_id y = doc_organization_id x" for y
    using owned_document [OF assms(1) [unfolded knowledge_owned_def], of y] assms(2) that v by (simp add: knowledge_owned_def)
  then show ?thesis using assms(1) vi by (simp add: insert_document_def Let_def)
qed

lemma owned_version: "knowledge_owned (insert_document_version x w) = knowledge_owned w"
  by (simp add: insert_document_version_def knowledge_owned_def)

lemma owned_create_document:
  assumes "knowledge_owned w" and "\<And>i. coll = Some i \<Longrightarrow> (i, org_id) \<in> colls_of (k_collections w)"
  shows "knowledge_owned (fst (create_document org_id pr coll src t st url mime scope content meta by w))"
proof -
  define x where "x = \<lparr>doc_id = nil_uuid, doc_organization_id = org_id, doc_project_id = pr, doc_collection_id = coll,
    doc_source_id = src, doc_title = t, doc_source_type = st, doc_source_url = url, doc_mime_type = mime,
    doc_size_bytes = int (length content), doc_status = ''pending'', doc_scope = (if scope = [] then ''organization'' else scope),
    doc_version = 1, doc_metadata = meta, doc_content = [], doc_created_by = Some by, doc_created_at = 0, doc_updated_at = 0, doc_chunk_count = 0\<rparr>"
  obtain v r where vr: "insert_document x w = (v, r)" by fastforce
  have "knowledge_owned v" using owned_insert_document [OF assms(1), of x] assms(2) vr by (simp add: x_def)
  then show ?thesis unfolding create_document_def x_def [symmetric] vr by (cases r) (simp_all add: owned_version)
qed

lemma owned_on_world:
  "agents (w_db (f (k_world w))) = agents (kdb w) \<Longrightarrow> projects (w_db (f (k_world w))) = projects (kdb w)
    \<Longrightarrow> next_id (w_db (f (k_world w))) = next_id (kdb w) \<Longrightarrow> knowledge_owned (on_world f w) = knowledge_owned w"
  by (simp add: on_world_def knowledge_owned_def)

lemma named_row_own:
  assumes "named_row g what get s = Inr (Some i)"
  shows "\<exists>x. get i = Inr x"
  using assms by (auto simp: named_row_def split: if_splits option.splits sum.splits)

lemma own_rows:
  "get_knowledge_collection org_id i w = Inr k \<Longrightarrow> (i, org_id) \<in> colls_of (k_collections w)"
  "get_document org_id i w = Inr x \<Longrightarrow> (i, org_id) \<in> docs_of (k_documents w)"
  "get_agent org_id i (kdb w) = Inr a \<Longrightarrow> (i, org_id) \<in> agents_of (agents (kdb w))"
  "get_project org_id i (kdb w) = Inr p \<Longrightarrow> (i, org_id) \<in> projects_of (projects (kdb w))"
  by (force simp: get_knowledge_collection_def get_document_def get_agent_def get_project_def query_row_cases is_document_def colls_of_def
      docs_of_def agents_of_def projects_of_def dest: find_in split: sum.splits)+

lemma owned_create_document_handler:
  assumes "knowledge_owned w"
  shows "knowledge_owned (fst (create_document_handler env c r w))"
proof (cases "and_then (read_request env r) (complete_input env)")
  case (Inl e)
  with assms show ?thesis by (simp add: create_document_handler_def Let_def)
next
  case (Inr i)
  note run = create_document_handler_def Let_def Inr sum.case
  show ?thesis
  proof (cases "named_row (ke_go env) ''project'' (\<lambda>p. get_project (claim_organization_id c) p (kdb w)) (di_project_id i)
      :: document http_reply + uuid option")
    case (Inl e)
    with assms show ?thesis unfolding run by simp
  next
    case pr: (Inr pr)
    show ?thesis
    proof (cases "named_row (ke_go env) ''collection'' (\<lambda>k. get_knowledge_collection (claim_organization_id c) k w) (di_collection_id i)
        :: document http_reply + uuid option")
      case (Inl e)
      with assms pr show ?thesis unfolding run by simp
    next
      case coll: (Inr coll)
      have own: "(k, claim_organization_id c) \<in> colls_of (k_collections w)" if "coll = Some k" for k
        using named_row_own coll own_rows(1) that by blast
      define scope where "scope = (if pr \<noteq> None \<and> di_scope i = ''organization'' then ''project'' else di_scope i)"
      obtain v q where vq: "create_document (claim_organization_id c) pr coll None (di_title i) (di_source_type i)
          (if di_source_url i = [] then None else Some (di_source_url i)) (di_mime_type i) scope (di_content i) (di_metadata i)
          (claim_user_id c) w = (v, q)" by fastforce
      then have v: "knowledge_owned v" using owned_create_document [OF assms own] by (metis fst_conv)
      show ?thesis unfolding run pr coll scope_def [symmetric] vq prod.case
      proof (cases q)
        case (Inr x)
        then show "knowledge_owned (fst (case q of Inl e \<Rightarrow> (v, internal e, None)
            | Inr x \<Rightarrow> if has_prefix (di_content i) failure_marker
                then (fst (update_document_status (claim_organization_id c) (doc_id x) ''failed'' v), Data 201 x, None)
                else if w_pool (k_world v) \<noteq> None
                then (on_world (enqueue_job (ingest_job (ke_go env) (claim_organization_id c) (doc_id x) (di_content i))) v, Data 201 x, None)
                else (v, Data 201 x, Some (claim_organization_id c, doc_id x, di_content i))))"
          using v by (simp add: update_document_status_def owned_set_status owned_on_world)
      qed (use v in simp)
    qed
  qed
qed

lemma owned_attach_agent:
  assumes "knowledge_owned w" and "(agent, org_id) \<in> agents_of (agents (kdb w))"
    and "grant_inside (k_documents w) (k_collections w) org_id (d, k)"
  shows "knowledge_owned (fst (attach_agent_knowledge agent d k by w))"
proof -
  obtain v i where vi: "with_id w = (v, i)" by fastforce
  note v = owned_with_id [OF assms(1) vi]
  have "knowledge_owned (v\<lparr>k_agent_knowledge := k_agent_knowledge v @ [a]\<rparr>)"
    if "ak_agent_id a = agent" "ak_document_id a = d" "ak_collection_id a = k" for a
    using owned_grants(3) [OF v(1) [unfolded knowledge_owned_def], of a org_id] assms(2,3) that v(3-5) by (simp add: knowledge_owned_def)
  then show ?thesis using assms(1) vi by (simp add: attach_agent_knowledge_def Let_def)
qed

lemma owned_attach_project:
  assumes "knowledge_owned w" and "(project, org_id) \<in> projects_of (projects (kdb w))"
    and "grant_inside (k_documents w) (k_collections w) org_id (d, k)"
  shows "knowledge_owned (fst (attach_project_knowledge project d k by w))"
proof -
  obtain v i where vi: "with_id w = (v, i)" by fastforce
  note v = owned_with_id [OF assms(1) vi]
  have "knowledge_owned (v\<lparr>k_project_knowledge := k_project_knowledge v @ [p]\<rparr>)"
    if "pk_project_id p = project" "pk_document_id p = d" "pk_collection_id p = k" for p
    using owned_grants(4) [OF v(1) [unfolded knowledge_owned_def], of p org_id] assms(2,3) that v(3-5) by (simp add: knowledge_owned_def)
  then show ?thesis using assms(1) vi by (simp add: attach_project_knowledge_def Let_def)
qed

lemma grant_body_inside:
  fixes attach :: "uuid option \<Rightarrow> uuid option \<Rightarrow> kworld \<Rightarrow> kworld \<times> 'a res"
  assumes "knowledge_owned w"
    and "\<And>d k. grant_inside (k_documents w) (k_collections w) (claim_organization_id c) (d, k) \<Longrightarrow> knowledge_owned (fst (attach d k w))"
  shows "knowledge_owned (fst (grant_body g c body attach w))"
proof -
  have "grant_inside (k_documents w) (k_collections w) (claim_organization_id c) (d, k)"
    if "granted_row g ''document'' (\<lambda>i. get_document (claim_organization_id c) i w) ds = (Inr d :: 'a http_reply + uuid option)"
      "granted_row g ''collection'' (\<lambda>i. get_knowledge_collection (claim_organization_id c) i w) ks = (Inr k :: 'a http_reply + uuid option)" for ds ks d k
    using that by (auto simp: grant_inside_def granted_row_def dest: own_rows split: option.splits if_splits sum.splits)
  then show ?thesis using assms by (auto simp: grant_body_def split: option.split sum.split)
qed

lemma chunks_added_own:
  assumes "chunks_added org_id doc cs w v rows" and "r \<in> set rows"
  shows "dc_document_id (fst r) = doc" "dc_organization_id (fst r) = org_id" "cs \<noteq> []"
proof -
  have k: "map (chunk_key \<circ> fst) rows = map (\<lambda>c. (doc, org_id, dc_chunk_index c, dc_content c)) cs"
    using assms(1) by (simp add: chunks_added_def)
  have "chunk_key (fst r) \<in> set (map (chunk_key \<circ> fst) rows)" using assms(2) by simp
  then show "dc_document_id (fst r) = doc" "dc_organization_id (fst r) = org_id" "cs \<noteq> []" unfolding k by auto
qed

lemma owned_create_chunks:
  assumes "knowledge_owned w" and own: "\<And>x. x \<in> set (k_documents w) \<Longrightarrow> doc_id x = doc \<Longrightarrow> doc_organization_id x = org_id"
  shows "knowledge_owned (fst (create_document_chunks env org_id doc cs w))"
proof (cases "insert_chunks env org_id doc cs w")
  case (Inl e)
  with assms(1) show ?thesis by (simp add: create_document_chunks_def)
next
  case (Inr v)
  from insert_chunks_stored [OF Inr] obtain rows where rows: "chunks_added org_id doc cs w v rows" by blast
  then obtain es n where v: "v = w\<lparr>k_world := (k_world w)\<lparr>w_db := (kdb w)\<lparr>next_id := n\<rparr>\<rparr>, k_chunks := k_chunks w @ rows,
      k_embeddings := k_embeddings w @ es\<rparr>" "next_id (kdb w) \<le> n" and there: "cs \<noteq> [] \<longrightarrow> doc \<in> doc_id ` set (k_documents w)"
    unfolding chunks_added_def by blast
  have "(dc_document_id (fst r), dc_organization_id (fst r)) \<in> docs_of (k_documents w)" if "r \<in> set rows" for r
    using chunks_added_own [OF rows that] there own by (force simp: docs_of_def)
  then have "owned_tables n (agents (kdb w)) (projects (kdb w)) (k_documents w) (k_collections w) (k_chunks w @ rows)
      (k_agent_knowledge w) (k_project_knowledge w)"
    by (intro owned_chunks owned_later [OF assms(1) [unfolded knowledge_owned_def] v(2)]) blast
  then have "knowledge_owned v" unfolding v(1) by (simp add: knowledge_owned_def)
  then have "knowledge_owned (fst (set_status (\<lambda>x. doc_id x = doc) ''ready'' v))" by (rule owned_set_status)
  then show ?thesis using Inr by (simp add: create_document_chunks_def set_status_ok)
qed

lemma owned_ingest:
  assumes "knowledge_owned w" and own: "\<And>x. x \<in> set (k_documents w) \<Longrightarrow> doc_id x = doc \<Longrightarrow> doc_organization_id x = org_id"
    and "ingest_document env org_id doc content w = Some (w', r)"
  shows "knowledge_owned w'"
proof -
  define v where "v = fst (set_status (is_document org_id doc) ''processing'' w)"
  have st: "update_document_status org_id doc ''processing'' w = (v, ok ())" by (simp add: v_def update_document_status_def set_status_ok)
  have v: "knowledge_owned v" unfolding v_def by (rule owned_set_status) fact
  have own': "doc_organization_id x = org_id" if "x \<in> set (k_documents v)" "doc_id x = doc" for x
  proof -
    from that(1) have "doc_owner x \<in> set (map doc_owner (k_documents v))" by simp
    then have "doc_owner x \<in> set (map doc_owner (k_documents w))" unfolding v_def set_status_owners .
    with own that(2) show ?thesis by auto
  qed
  note run = assms(3) [unfolded ingest_document_def st prod.case sum.case]
  show ?thesis
  proof (cases "text_to_ingest org_id doc content v")
    case (Inl e)
    with run v show ?thesis by simp
  next
    case (Inr c)
    obtain ts where ts: "texts_to_embed (ke_go env) doc (sanitize_document_content c) = Some ts" by (rule texts_to_embed_total)
    have gone: "knowledge_owned (fst (ingest_failed org_id doc e v))" for e
      by (simp add: ingest_failed_def update_document_status_def owned_set_status v)
    have "knowledge_owned (fst (store_texts env org_id doc ts v))"
    proof (cases "\<exists>emb vs. ke_embed env = Some emb \<and> emb (map fst ts) = Inr vs \<and> length vs = length ts")
      case False
      then show ?thesis using gone by (auto simp: store_texts_def split: option.split sum.split)
    next
      case True
      then obtain emb vs where e: "ke_embed env = Some emb" "emb (map fst ts) = Inr vs" "length vs = length ts" by blast
      obtain u q where uq: "create_document_chunks env org_id doc (chunks_of org_id doc ts vs) v = (u, q)" by fastforce
      then have u: "knowledge_owned u" using owned_create_chunks [OF v own'] by (metis fst_conv)
      show ?thesis using e uq u by (cases q) (simp_all add: store_texts_def ingest_failed_def update_document_status_def owned_set_status)
    qed
    with run Inr ts show ?thesis by simp
  qed
qed

section \<open>What is reached\<close>

text \<open>
  The requests of users of any organization, and the jobs: each names a document with its own organization,
  for the handler that enqueues it takes both from the document it has just created.
\<close>

inductive knowledge_step :: "know_env \<Rightarrow> kworld \<Rightarrow> kworld \<Rightarrow> bool" for env where
  source: "knowledge_step env w (fst (create_source_handler env c b w))"
| collection: "knowledge_step env w (fst (create_collection_handler env c b w))"
| document: "knowledge_step env w (fst (create_document_handler env c r w))"
| delete: "knowledge_step env w (fst (delete_document_handler (ke_go env) c i w))"
| attach_agent: "knowledge_step env w (fst (attach_agent_handler (ke_go env) c i b w))"
| attach_project: "knowledge_step env w (fst (attach_project_handler (ke_go env) c i b w))"
| detach_agent: "knowledge_step env w (fst (detach_agent_handler (ke_go env) c i k w))"
| detach_project: "knowledge_step env w (fst (detach_project_handler (ke_go env) c i k w))"
| ingest: "\<forall>x \<in> set (k_documents w). doc_id x = doc \<longrightarrow> doc_organization_id x = org_id
    \<Longrightarrow> ingest_document env org_id doc content w = Some (w', r) \<Longrightarrow> knowledge_step env w w'"

lemma knowledge_step_owned:
  assumes "knowledge_step env w w'" and "knowledge_owned w"
  shows "knowledge_owned w'"
  using assms
proof (induction rule: knowledge_step.induct)
  case (source w c b)
  then show ?case by (simp add: create_source_handler_def Let_def owned_source split: option.split)
next
  case (collection w c b)
  then show ?case by (simp add: create_collection_handler_def Let_def owned_create_collection split: option.split)
next
  case (document w c r)
  then show ?case by (rule owned_create_document_handler)
next
  case (delete w c i)
  then show ?case by (simp add: delete_document_handler_def owned_delete_document)
next
  case (attach_agent w c i b)
  then show ?case
    by (auto simp: attach_agent_handler_def split: sum.split intro!: grant_body_inside owned_attach_agent dest: own_rows)
next
  case (attach_project w c i b)
  then show ?case
    by (auto simp: attach_project_handler_def split: sum.split intro!: grant_body_inside owned_attach_project dest: own_rows)
next
  case (detach_agent w c i k)
  then show ?case
    by (simp add: detach_agent_handler_def detach_agent_knowledge_def knowledge_owned_def owned_grants split: sum.split)
next
  case (detach_project w c i k)
  then show ?case
    by (simp add: detach_project_handler_def detach_project_knowledge_def knowledge_owned_def owned_grants split: sum.split)
next
  case (ingest w doc org_id content w' r)
  then show ?case using owned_ingest by blast
qed

lemma knowledge_reach_owned: "(knowledge_step env)\<^sup>*\<^sup>* w w' \<Longrightarrow> knowledge_owned w \<Longrightarrow> knowledge_owned w'"
  by (induction rule: rtranclp_induct) (auto dest: knowledge_step_owned)

subsection \<open>What is retrieved\<close>

lemma granted_docs_own:
  assumes "grants_inside xs ks ow gs" and "\<forall>g \<in> set l. (a, g) \<in> gs" and "\<And>o'. (a, o') \<in> ow \<Longrightarrow> o' = org_id"
    and "documents_inside n (k_documents w) ks rs" and "xs = k_documents w" and "i \<in> set (granted_docs l w)"
  shows "(i, org_id) \<in> docs_of xs"
proof -
  have inside: "grant_inside xs ks org_id g" if "g \<in> set l" for g
    using assms(1-3) that unfolding grants_inside_def by fastforce
  from assms(6) consider k where "(Some i, k) \<in> set l" | d k x where "(d, Some k) \<in> set l" "x \<in> set xs" "doc_id x = i" "doc_collection_id x = Some k"
    unfolding granted_docs_def assms(5) by (fastforce split: option.splits)
  then show ?thesis
  proof cases
    case (1 k)
    then show ?thesis using inside by (fastforce simp: grant_inside_def)
  next
    case (2 d k x)
    then have "(k, org_id) \<in> colls_of ks" using inside by (fastforce simp: grant_inside_def)
    moreover have "(k, doc_organization_id x) \<in> colls_of ks" "distinct (map kc_id ks)"
      using assms(4,5) 2 by (auto simp: documents_inside_def)
    ultimately have "doc_organization_id x = org_id" by (auto simp: colls_of_def distinct_map inj_on_def)
    with 2 show ?thesis by (auto simp: docs_of_def)
  qed
qed

lemma allowed_docs_own:
  assumes "knowledge_owned w" and "i \<in> set (allowed_doc_ids f w)"
    and "\<And>a. rf_agent_id f = Some a \<Longrightarrow> (a, rf_organization_id f) \<in> agents_of (agents (kdb w))"
    and "\<And>p. rf_project_id f = Some p \<Longrightarrow> (p, rf_organization_id f) \<in> projects_of (projects (kdb w))"
  shows "(i, rf_organization_id f) \<in> docs_of (k_documents w)"
proof -
  have t: "documents_inside (next_id (kdb w)) (k_documents w) (k_collections w) (k_chunks w)"
      "grants_inside (k_documents w) (k_collections w) (agents_of (agents (kdb w))) (agent_grant ` set (k_agent_knowledge w))"
      "grants_inside (k_documents w) (k_collections w) (projects_of (projects (kdb w))) (project_grant ` set (k_project_knowledge w))"
      "distinct (map ag_id (agents (kdb w)))" "distinct (map pr_id (projects (kdb w)))"
    using assms(1) by (simp_all add: knowledge_owned_def owned_tables_def)
  from assms(2) consider
      x where "x \<in> set (k_documents w)" "doc_id x = i" "doc_organization_id x = rf_organization_id f"
    | a where "rf_agent_id f = Some a" "i \<in> set (granted_docs (agent_grants a w) w)"
    | p where "rf_project_id f = Some p" "i \<in> set (granted_docs (project_grants p w) w)"
    by (auto simp: allowed_doc_ids_def Let_def dest!: sym [of "Some _"] split: if_splits option.splits)
  then show ?thesis
  proof cases
    case (1 x)
    then show ?thesis by (auto simp: docs_of_def)
  next
    case (2 a)
    have "\<forall>g \<in> set (agent_grants a w). (a, g) \<in> agent_grant ` set (k_agent_knowledge w)"
      by (auto simp: agent_grants_def list_agent_knowledge_def)
    moreover have "o' = rf_organization_id f" if "(a, o') \<in> agents_of (agents (kdb w))" for o'
      using that assms(3) [OF 2(1)] t(4) by (auto simp: agents_of_def distinct_map inj_on_def)
    ultimately show ?thesis using granted_docs_own [OF t(2) _ _ t(1) refl 2(2)] by blast
  next
    case (3 p)
    have "\<forall>g \<in> set (project_grants p w). (p, g) \<in> project_grant ` set (k_project_knowledge w)"
      by (auto simp: project_grants_def list_project_knowledge_def)
    moreover have "o' = rf_organization_id f" if "(p, o') \<in> projects_of (projects (kdb w))" for o'
      using that assms(4) [OF 3(1)] t(5) by (auto simp: projects_of_def distinct_map inj_on_def)
    ultimately show ?thesis using granted_docs_own [OF t(3) _ _ t(1) refl 3(2)] by blast
  qed
qed

text \<open>
  What the retriever relies on: the query by distance gives rows of the tables it reads, and neither the sorting
  nor the reranking invents a result.
\<close>

definition search_law :: "know_env \<Rightarrow> bool" where
  "search_law env \<longleftrightarrow> (\<forall>v rows out. ke_nearest env v rows = ok out \<longrightarrow> fst ` set out \<subseteq> set rows)
     \<and> (\<forall>hs. set (ke_order env hs) \<subseteq> set hs)
     \<and> (\<forall>f q hs out. ke_rerank env = Some f \<longrightarrow> f q hs = ok out \<longrightarrow> set out \<subseteq> set hs)"

definition own_hits :: "uuid \<Rightarrow> hit list \<Rightarrow> bool" where
  "own_hits org_id hs \<longleftrightarrow> (\<forall>h \<in> set hs. dc_organization_id (hit_chunk h) = org_id)"

definition own_filter :: "retrieval_filter \<Rightarrow> kworld \<Rightarrow> bool" where
  "own_filter f w \<longleftrightarrow> (\<forall>a. rf_agent_id f = Some a \<longrightarrow> (a, rf_organization_id f) \<in> agents_of (agents (kdb w)))
     \<and> (\<forall>p. rf_project_id f = Some p \<longrightarrow> (p, rf_organization_id f) \<in> projects_of (projects (kdb w)))"

lemma joined_own:
  assumes "knowledge_owned w" and "own_filter f w" and "r \<in> set (joined (allowed_doc_ids f w) w)"
  shows "dc_organization_id (fst r) = rf_organization_id f"
proof -
  from assms(3) have r: "r \<in> set (k_chunks w)" "dc_document_id (fst r) \<in> set (allowed_doc_ids f w)" by (auto simp: joined_def)
  have "(dc_document_id (fst r), rf_organization_id f) \<in> docs_of (k_documents w)"
    using allowed_docs_own [OF assms(1) r(2)] assms(2) by (simp add: own_filter_def)
  moreover have "(dc_document_id (fst r), dc_organization_id (fst r)) \<in> docs_of (k_documents w)" "distinct (map doc_id (k_documents w))"
    using assms(1) r(1) by (auto simp: knowledge_owned_def owned_tables_def documents_inside_def)
  ultimately show ?thesis by (auto simp: docs_of_def distinct_map inj_on_def)
qed

lemma hit_of_own [simp]: "dc_organization_id (hit_chunk (hit_of w c s)) = dc_organization_id c"
  by (simp add: hit_of_def)

lemma own_hits_subset: "own_hits o' hs \<Longrightarrow> set hs' \<subseteq> set hs \<Longrightarrow> own_hits o' hs'"
  by (auto simp: own_hits_def)

lemma own_hits_take: "own_hits o' hs \<Longrightarrow> own_hits o' (take n hs)"
  by (erule own_hits_subset) (rule set_take_subset)

lemma own_hits_simps [simp]:
  "own_hits o' []" "own_hits o' (h # hs) \<longleftrightarrow> dc_organization_id (hit_chunk h) = o' \<and> own_hits o' hs"
  "own_hits o' (hs @ hs') \<longleftrightarrow> own_hits o' hs \<and> own_hits o' hs'"
  by (auto simp: own_hits_def)

lemma own_hits_put:
  "own_hits o' hs \<Longrightarrow> dc_organization_id (hit_chunk h) = o' \<Longrightarrow> own_hits o' (map (\<lambda>x. if P x then h else x) hs)"
  by (auto simp: own_hits_def)

lemma own_hits_put_own:
  "own_hits (dc_organization_id (hit_chunk h)) hs \<Longrightarrow> own_hits (dc_organization_id (hit_chunk h)) (map (\<lambda>x. if P x then h else x) hs)"
  by (simp add: own_hits_put)

lemma rerank_own:
  assumes "search_law env" and "own_hits o' hs" and "rerank env q hs = ok out"
  shows "own_hits o' out"
proof -
  have "set out \<subseteq> set hs"
  proof (cases "ke_rerank env")
    case None
    with assms(3) show ?thesis by (simp add: rerank_def)
  next
    case (Some f)
    with assms(3) have "f q hs = ok out" by (simp add: rerank_def)
    with assms(1) Some show ?thesis unfolding search_law_def by blast
  qed
  with assms(2) show ?thesis by (rule own_hits_subset)
qed

lemma vector_search_own:
  assumes "knowledge_owned w" "own_filter f w" "search_law env" "vector_search env org_id v f l w = ok hs"
  shows "own_hits (rf_organization_id f) hs"
proof -
  have "own_hits (rf_organization_id f) (map (\<lambda>(r, s). hit_of w (fst r) s) (take n rows))"
    if "ke_nearest env (vector_text env v) (joined (allowed_doc_ids f w) w) = ok rows" for rows n
  proof -
    have "fst ` set rows \<subseteq> set (joined (allowed_doc_ids f w) w)" using assms(3) that by (simp add: search_law_def)
    then show ?thesis using joined_own [OF assms(1,2)] by (auto simp: own_hits_def dest!: in_set_takeD)
  qed
  then show ?thesis using assms(4)
    by (auto simp: vector_search_def Let_def and_then_def split: if_splits sum.splits)
qed

lemma keyword_search_own:
  assumes "knowledge_owned w" "own_filter f w" "keyword_search org_id q f l w = ok hs"
  shows "own_hits (rf_organization_id f) hs"
  using assms(3) joined_own [OF assms(1,2)]
  by (auto simp: keyword_search_def Let_def own_hits_def newest_def split: if_splits dest!: in_set_takeD)

lemma semantic_search_own:
  assumes "knowledge_owned w" "own_filter f w" "search_law env" "semantic_search env q f w = Some (ok hs)"
  shows "own_hits (rf_organization_id f) hs"
proof -
  obtain emb where emb: "ke_embed env = Some emb" using assms(4) by (auto simp: semantic_search_def split: option.splits)
  obtain vs where vs: "emb [q] = ok vs" using assms(4) emb by (auto simp: semantic_search_def split: sum.splits)
  show ?thesis
  proof (cases vs)
    case Nil
    with assms(4) emb vs show ?thesis by (auto simp: semantic_search_def)
  next
    case (Cons v us)
    define l where "l = (if rf_limit f = 0 then 5 else rf_limit f)"
    note run = assms(4) [unfolded semantic_search_def emb option.case vs sum.case Cons list.case Let_def l_def [symmetric]]
    obtain rows where rows: "vector_search env (rf_organization_id f) v f (twice l) w = ok rows" using run by (auto split: sum.splits)
    define kept where "kept = (if rf_metadata f \<noteq> [] then filter (metadata_matches (rf_metadata f)) rows else rows)"
    have "rerank env q (take (nat l) kept) = ok hs" using run unfolding rows sum.case kept_def [symmetric] by (simp split: if_splits)
    moreover have "own_hits (rf_organization_id f) kept"
      using vector_search_own [OF assms(1-3) rows] by (rule own_hits_subset) (auto simp: kept_def)
    ultimately show ?thesis using assms(3) by (blast intro: own_hits_take rerank_own)
  qed
qed

lemma merge_hits_own: "own_hits o' acc \<Longrightarrow> own_hits o' hs \<Longrightarrow> own_hits o' (merge_hits acc hs)"
  by (induction acc hs rule: merge_hits.induct) (auto simp: own_hits_put_own split: option.splits)

lemma seen_hits_own: "own_hits o' hs \<Longrightarrow> own_hits o' (seen_hits hs)"
proof -
  have "own_hits o' hs \<Longrightarrow> own_hits o' acc \<Longrightarrow> own_hits o' (fold (\<lambda>h acc. if dc_id (hit_chunk h) \<in> (dc_id \<circ> hit_chunk) ` set acc
     then map (\<lambda>x. if dc_id (hit_chunk x) = dc_id (hit_chunk h) then h else x) acc else acc @ [h]) hs acc)" for acc
    by (induction hs arbitrary: acc) (simp_all add: own_hits_put)
  then show "own_hits o' hs \<Longrightarrow> own_hits o' (seen_hits hs)" by (simp add: seen_hits_def)
qed

lemma hybrid_search_own:
  assumes "knowledge_owned w" "own_filter f w" "search_law env" "hybrid_search env q f w = Some (ok hs)"
  shows "own_hits (rf_organization_id f) hs"
proof -
  from assms(4) obtain sem kw where s: "semantic_search env q f w = Some (ok sem)"
      "keyword_search (rf_organization_id f) q f (rf_limit f) w = ok kw"
      "rerank env q (take (nat (if rf_limit f = 0 then 5 else rf_limit f)) (ke_order env (merge_hits (seen_hits sem) kw))) = ok hs"
    by (auto simp: hybrid_search_def Let_def split: option.splits sum.splits if_splits)
  have "own_hits (rf_organization_id f) (merge_hits (seen_hits sem) kw)"
    using semantic_search_own [OF assms(1-3) s(1)] keyword_search_own [OF assms(1,2) s(2)] by (blast intro: merge_hits_own seen_hits_own)
  moreover have "set (ke_order env (merge_hits (seen_hits sem) kw)) \<subseteq> set (merge_hits (seen_hits sem) kw)"
    using assms(3) by (simp add: search_law_def)
  ultimately show ?thesis using rerank_own [OF assms(3) _ s(3)] by (blast intro: own_hits_subset own_hits_take)
qed

text \<open>
  C15: Whatever the users of all organizations do, a search of an organization finds only chunks of its own
  documents, as long as the agent and the project of the filter are its own: documents, collections and grants
  never cross organizations, although a grant is not filtered by organization when it is read.
\<close>

theorem knowledge_isolated:
  assumes "search_law env" and "knowledge_owned w\<^sub>0" and "(knowledge_step env)\<^sup>*\<^sup>* w\<^sub>0 w" and "own_filter f w"
    and "semantic_search env q f w = Some (ok hs) \<or> hybrid_search env q f w = Some (ok hs)"
  shows "\<forall>h \<in> set hs. dc_organization_id (hit_chunk h) = rf_organization_id f"
proof -
  have "knowledge_owned w" using assms(3,2) by (rule knowledge_reach_owned)
  then show ?thesis using assms(1,4,5) semantic_search_own hybrid_search_own unfolding own_hits_def by blast
qed

section \<open>Witnesses\<close>

definition demo_know :: know_env where
  "demo_know = \<lparr>ke_go = demo_golib, ke_text = \<lparr>xe_pdf = (\<lambda>_. ok []), xe_zip = (\<lambda>_. fail ''zip''), xe_xml = (\<lambda>_. []), xe_entities = html_entities\<rparr>,
     ke_float = (\<lambda>_. ''1''), ke_vector_ok = (\<lambda>v. v \<noteq> []),
     ke_nearest = (\<lambda>v rows. if v = [] then fail ''vector'' else ok (map (\<lambda>r. (r, 1 / 2)) rows)),
     ke_embed = Some (\<lambda>ts. ok (map (\<lambda>_. [1]) ts)), ke_rerank = None, ke_order = (\<lambda>hs. hs), ke_fetch = (\<lambda>_. fail ''offline'')\<rparr>"

lemma demo_know_law: "search_law demo_know"
  unfolding search_law_def by (auto simp: demo_know_def split: if_splits)

definition know_start :: kworld where
  "know_start = \<lparr>k_world = world_of demo_db, k_sources = [], k_collections = [], k_documents = [], k_versions = [], k_chunks = [],
     k_embeddings = [], k_agent_knowledge = [], k_project_knowledge = []\<rparr>"

definition know_created :: kworld where
  "know_created = fst (create_document_handler demo_know demo_claims
     (JsonBody (Some (JObj [(''title'', JStr ''t''), (''content'', JStr ''the plan'')]))) know_start)"

definition demo_texts :: "(string \<times> gomap) list" where
  "demo_texts = [(''the plan'', [(''page'', JNum 1), (''section'', JStr []), (''source'', JStr ''upload''), (''parser'', JStr ''pdf''),
     (''documentId'', JStr ''100'')])]"

definition know_stored :: kworld where
  "know_stored = fst (store_texts demo_know 1 100 demo_texts (fst (update_document_status 1 100 ''processing'' know_created)))"

definition know_granted :: kworld where
  "know_granted = fst (attach_agent_handler demo_golib demo_claims ''4'' (Some (JObj [(''documentId'', JStr ''100'')])) know_stored)"

lemma know_start_owned: "knowledge_owned know_start"
  by (simp add: knowledge_owned_def owned_tables_def documents_inside_def grants_inside_def know_start_def world_of_def demo_db_def empty_db_def)

lemma know_stored_chunks:
  "map (chunk_key \<circ> fst) (k_chunks know_stored) = [(100, 1, 0, ''the plan'')]" "k_chunks know_created = []"
  "map doc_owner (k_documents know_created) = [(100, 1, None)]"
  "snd (store_texts demo_know 1 100 demo_texts (fst (update_document_status 1 100 ''processing'' know_created))) = ok ()"
  by code_simp+

lemma know_ingested: "ingest_document demo_know 1 100 ''the plan'' know_created = Some (know_stored, ok ())"
proof -
  have "sanitize_document_content ''the plan'' = trim_space (filter (\<lambda>c. c \<noteq> NUL) (apply_rules sanitize_rules ''the plan''))"
    by (simp add: sanitize_document_content_def sanitize_user_content_def)
  also have "\<dots> = ''the plan''" by code_simp
  finally have "sanitize_document_content ''the plan'' = ''the plan''" .
  moreover have "trim_space ''the plan'' \<noteq> []" "ke_go demo_know = demo_golib" by code_simp (simp add: demo_know_def)
  moreover have "texts_to_embed demo_golib 100 ''the plan'' = Some demo_texts" by code_simp
  moreover have "snd (update_document_status 1 100 ''processing'' know_created) = ok ()" by (simp add: update_document_status_def set_status_ok)
  ultimately show ?thesis
    unfolding ingest_document_def text_to_ingest_def know_stored_def using know_stored_chunks(4)
    by (simp add: case_prod_beta prod_eq_iff)
qed

lemma know_granted_reached: "(knowledge_step demo_know)\<^sup>*\<^sup>* know_start know_granted"
proof -
  have "knowledge_step demo_know know_start know_created" unfolding know_created_def by (rule knowledge_step.document)
  moreover have "knowledge_step demo_know know_created know_stored"
  proof (rule knowledge_step.ingest [OF _ know_ingested], intro ballI impI)
    fix x assume "x \<in> set (k_documents know_created)"
    then have "doc_owner x \<in> set (map doc_owner (k_documents know_created))" by simp
    then show "doc_organization_id x = 1" unfolding know_stored_chunks(3) by simp
  qed
  moreover have "knowledge_step demo_know know_stored know_granted"
    using knowledge_step.attach_agent [of demo_know know_stored demo_claims] unfolding know_granted_def by (simp add: demo_know_def)
  ultimately show ?thesis by (meson rtranclp.rtrancl_into_rtrancl rtranclp.rtrancl_refl)
qed

definition demo_filter :: retrieval_filter where
  "demo_filter = \<lparr>rf_organization_id = 1, rf_agent_id = Some 4, rf_project_id = Some 3, rf_channel_id = None, rf_allowed_doc_ids = [],
     rf_metadata = [], rf_scope = [], rf_limit = 5\<rparr>"

definition hits_found :: "hit list res option \<Rightarrow> (uuid \<times> string) list" where
  "hits_found r = (case r of Some (Inr hs) \<Rightarrow> map (\<lambda>h. (dc_organization_id (hit_chunk h), dc_content (hit_chunk h))) hs | _ \<Rightarrow> [])"

lemma demo_search_found: "hits_found (hybrid_search demo_know ''plan'' demo_filter know_granted) = [(1, ''the plan'')]"
  by code_simp

lemma demo_filter_own: "own_filter demo_filter know_granted"
proof -
  have "agents (kdb know_granted) = agents demo_db \<and> projects (kdb know_granted) = projects demo_db" by code_simp
  then show ?thesis
    by (simp add: own_filter_def demo_filter_def agents_of_def projects_of_def demo_db_def demo_agent_def)
qed

lemma knowledge_isolated_witness:
  "\<exists>hs. hybrid_search demo_know ''plan'' demo_filter know_granted = Some (ok hs) \<and> hs \<noteq> [] \<and> (\<forall>h \<in> set hs. dc_organization_id (hit_chunk h) = 1)"
proof -
  obtain hs where hs: "hybrid_search demo_know ''plan'' demo_filter know_granted = Some (ok hs)" "hs \<noteq> []"
    using demo_search_found by (auto simp: hits_found_def split: option.splits sum.splits)
  moreover have "rf_organization_id demo_filter = 1" by (simp add: demo_filter_def)
  ultimately show ?thesis
    using knowledge_isolated [OF demo_know_law know_start_owned know_granted_reached demo_filter_own, of "''plan''" hs] by auto
qed

lemma ingest_all_or_nothing_witness:
  "ingest_document demo_know 1 100 ''the plan'' know_created = Some (know_stored, ok ())
   \<and> (\<exists>ts. stored_texts 1 100 ts know_created know_stored) \<and> k_chunks know_stored \<noteq> k_chunks know_created"
proof (intro conjI)
  show "\<exists>ts. stored_texts 1 100 ts know_created know_stored"
    using ingest_all_or_nothing [of demo_know 1 100 "''the plan''" know_created] unfolding know_ingested by auto
  show "k_chunks know_stored \<noteq> k_chunks know_created" using know_stored_chunks(1,2) by auto
qed (rule know_ingested)

text \<open>
  The handler of a search does not ask whose agent it is given: a user of another organization finds what the
  organization of the agent has granted it.
\<close>

lemma search_crosses_organizations:
  "case search_handler demo_know \<lparr>claim_organization_id = 9, claim_user_id = 8\<rparr>
     (Some (JObj [(''query'', JStr ''plan''), (''agentId'', JStr ''4'')])) know_granted of
     Data s hs \<Rightarrow> hits_found (Some (ok hs)) = [(1, ''the plan'')] | _ \<Rightarrow> False"
  by code_simp

text \<open>A negative limit makes the search panic, and a document is never archived.\<close>

lemma negative_limit_panics:
  assumes "ke_embed env = Some emb" and "emb [q] = ok (v # vs)" and "rf_limit f < 0"
    and "vector_search env (rf_organization_id f) v f (twice (rf_limit f)) w = ok hs"
  shows "semantic_search env q f w = None"
  using assms by (simp add: semantic_search_def)

lemma archive_refused: "x \<in> set (k_documents w) \<Longrightarrow> is_document org_id i x \<Longrightarrow> \<exists>e. archive_document org_id i w = (w, fail e)"
  by (auto simp: archive_document_def set_status_def)

end
